(* ===== verification/JsPrelude.thy ===== *)
theory JsPrelude
  imports Main "HOL-Library.AList" "HOL-Library.Char_ord" "HOL-Library.List_Lexorder"
    "HOL-Library.Multiset"
begin

text \<open>
  The fragment of JavaScript the runtime is written in, and the generic lemmas the component
  theories share.

  \<^item> \<open>jsval\<close> is a JavaScript value as the runtime stores it in rows, plans and messages.
    Numbers are the integers the runtime counts with (attempts, generations, fencing tokens,
    milliseconds); strings are sequences of code units below 256.
  \<^item> An object is an association list in insertion order; \<open>get\<close> is property access,
    \<open>assign\<close> is \<open>Object.assign\<close>, \<open>coalesce\<close> is the operator \<open>??\<close>,
    \<open>truthy\<close>, \<open>js_string\<close> and \<open>js_number\<close> are the coercions.
  \<^item> A \<open>Map\<close> is an association list too: \<open>AList.update\<close> keeps the position of
    an existing key and appends a new one, exactly as \<open>Map.prototype.set\<close> does.
  \<^item> \<open>[...new Set(xs)]\<close> is \<open>uniq\<close>: the first occurrence of every element, in order.
  \<^item> A thrown \<open>Error\<close> is \<open>Inl message\<close>.
  \<^item> \<open>env\<close> collects what the runtime gets from its host: the \<open>n\<close>-th clock reading
    as text and in milliseconds, the text of a time, the \<open>n\<close>-th random identifier, the SHA-256
    digest (hexadecimal), \<open>Date.parse\<close> (\<open>None\<close> for \<open>NaN\<close>), the string comparisons
    of the host locale and of the database, and the message identifier builder of the session adapters
    that are injected into a store. They are parameters of the model.
\<close>

named_theorems js_simps \<open>evaluation of the JavaScript coercions and object operations\<close>
named_theorems res_simps \<open>results that are values or thrown errors\<close>
named_theorems store_simps \<open>effect of the store operations on the tables\<close>

subsection \<open>Values\<close>

datatype jsval =
    JUndef
  | JNull
  | JBool bool
  | JNum int
  | JStr string
  | JArr "jsval list"
  | JObj "(string \<times> jsval) list"

type_synonym obj = "(string \<times> jsval) list"

definition nullish :: "jsval \<Rightarrow> bool" where
  "nullish v \<longleftrightarrow> v = JUndef \<or> v = JNull"

definition coalesce :: "jsval \<Rightarrow> jsval \<Rightarrow> jsval" where
  "coalesce v d = (if nullish v then d else v)"

fun truthy :: "jsval \<Rightarrow> bool" where
  "truthy JUndef = False"
| "truthy JNull = False"
| "truthy (JBool b) = b"
| "truthy (JNum n) = (n \<noteq> 0)"
| "truthy (JStr s) = (s \<noteq> [])"
| "truthy (JArr xs) = True"
| "truthy (JObj ps) = True"

definition get :: "obj \<Rightarrow> string \<Rightarrow> jsval" where
  "get ob k = (case map_of ob k of None \<Rightarrow> JUndef | Some v \<Rightarrow> v)"

text \<open>Property access with \<open>?.\<close> on a value that need not be an object.\<close>

fun field :: "jsval \<Rightarrow> string \<Rightarrow> jsval" where
  "field (JObj ps) k = get ps k"
| "field v k = JUndef"

definition has_own :: "obj \<Rightarrow> string \<Rightarrow> bool" where
  "has_own ob k \<longleftrightarrow> k \<in> fst ` set ob"

definition assign :: "obj \<Rightarrow> obj \<Rightarrow> obj" where
  "assign target source = fold (\<lambda>(k, v) acc. AList.update k v acc) source target"

text \<open>\<open>Array.isArray(v) ? v : []\<close> and \<open>v ?? []\<close> on a value that is an array or absent.\<close>

fun elements :: "jsval \<Rightarrow> jsval list" where
  "elements (JArr xs) = xs"
| "elements v = []"

text \<open>The own properties of a value that is an object, as spreading reads them.\<close>

definition fields_of :: "jsval \<Rightarrow> obj" where
  "fields_of v = (case v of JObj ps \<Rightarrow> ps | _ \<Rightarrow> [])"

subsection \<open>Strings\<close>

fun digit_char :: "nat \<Rightarrow> char" where
  "digit_char n = char_of (48 + n)"

fun nat_string :: "nat \<Rightarrow> string" where
  "nat_string n = (if n < 10 then [digit_char n] else nat_string (n div 10) @ [digit_char (n mod 10)])"

declare nat_string.simps [simp del]

definition int_string :: "int \<Rightarrow> string" where
  "int_string i = (if i < 0 then ''-'' @ nat_string (nat (- i)) else nat_string (nat i))"

fun join :: "string \<Rightarrow> string list \<Rightarrow> string" where
  "join sep [] = []"
| "join sep [x] = x"
| "join sep (x # y # ys) = x @ sep @ join sep (y # ys)"

fun js_string :: "jsval \<Rightarrow> string" where
  "js_string JUndef = ''undefined''"
| "js_string JNull = ''null''"
| "js_string (JBool b) = (if b then ''true'' else ''false'')"
| "js_string (JNum n) = int_string n"
| "js_string (JStr s) = s"
| "js_string (JArr xs) =
     join '','' (map (\<lambda>x. if nullish x then [] else js_string x) xs)"
| "js_string (JObj ps) = ''[object Object]''"

text \<open>The white space and line terminators of \<open>String.prototype.trim\<close> below code unit 256.\<close>

definition is_space :: "char \<Rightarrow> bool" where
  "is_space c \<longleftrightarrow> of_char c \<in> {9, 10, 11, 12, 13, 32, 160 :: nat}"

definition trim :: "string \<Rightarrow> string" where
  "trim s = rev (dropWhile is_space (rev (dropWhile is_space s)))"

definition starts_with :: "string \<Rightarrow> string \<Rightarrow> bool" where
  "starts_with s p \<longleftrightarrow> take (length p) s = p"

definition ends_with :: "string \<Rightarrow> string \<Rightarrow> bool" where
  "ends_with s p \<longleftrightarrow> length p \<le> length s \<and> drop (length s - length p) s = p"

text \<open>\<open>String(v ?? "").trim()\<close>, the runtime's way to read an identity.\<close>

definition compact :: "jsval \<Rightarrow> string" where
  "compact v = trim (js_string (coalesce v (JStr [])))"

subsection \<open>Numbers\<close>

text \<open>
  \<open>Number(v)\<close> with \<open>None\<close> for \<open>NaN\<close>. A string is read as an optionally signed
  decimal integer; fractions and exponents have no value in this model.
\<close>

definition digit_value :: "char \<Rightarrow> nat option" where
  "digit_value c = (let n = of_char c in if 48 \<le> n \<and> n \<le> (57 :: nat) then Some (n - 48) else None)"

fun digits_value :: "nat \<Rightarrow> string \<Rightarrow> nat option" where
  "digits_value acc [] = Some acc"
| "digits_value acc (c # cs) =
     (case digit_value c of None \<Rightarrow> None | Some d \<Rightarrow> digits_value (10 * acc + d) cs)"

definition string_number :: "string \<Rightarrow> int option" where
  "string_number s =
     (let t = trim s in
      case t of
        [] \<Rightarrow> Some 0
      | c # cs \<Rightarrow>
          (if c = CHR ''-'' then (if cs = [] then None else map_option (\<lambda>n. - int n) (digits_value 0 cs))
           else if c = CHR ''+'' then (if cs = [] then None else map_option int (digits_value 0 cs))
           else map_option int (digits_value 0 t)))"

fun js_number :: "jsval \<Rightarrow> int option" where
  "js_number JUndef = None"
| "js_number JNull = Some 0"
| "js_number (JBool b) = Some (if b then 1 else 0)"
| "js_number (JNum n) = Some n"
| "js_number (JStr s) = string_number s"
| "js_number (JArr xs) = string_number (js_string (JArr xs))"
| "js_number (JObj ps) = None"

text \<open>\<open>Number(v ?? d)\<close> for a column that holds a number or is absent.\<close>

definition num_or :: "int \<Rightarrow> jsval \<Rightarrow> int" where
  "num_or d v = (case v of JNum n \<Rightarrow> n | _ \<Rightarrow> d)"

subsection \<open>Sets, thrown errors, host environment\<close>

definition uniq :: "'a list \<Rightarrow> 'a list" where
  "uniq xs = rev (remdups (rev xs))"

type_synonym 'a res = "string + 'a"

definition bindR :: "'a res \<Rightarrow> ('a \<Rightarrow> 'b res) \<Rightarrow> 'b res" where
  "bindR m f = (case m of Inl e \<Rightarrow> Inl e | Inr x \<Rightarrow> f x)"

definition ensure :: "bool \<Rightarrow> string \<Rightarrow> unit res" where
  "ensure c msg = (if c then Inr () else Inl msg)"

fun mapR :: "('a \<Rightarrow> 'b res) \<Rightarrow> 'a list \<Rightarrow> 'b list res" where
  "mapR f [] = Inr []"
| "mapR f (x # xs) = bindR (f x) (\<lambda>y. bindR (mapR f xs) (\<lambda>ys. Inr (y # ys)))"

definition is_ok :: "'a res \<Rightarrow> bool" where
  "is_ok r \<longleftrightarrow> (\<exists>x. r = Inr x)"

record env =
  clock :: "nat \<Rightarrow> string"
  clock_ms :: "nat \<Rightarrow> int"
  iso_of :: "int \<Rightarrow> string"
  uuid :: "nat \<Rightarrow> string"
  sha256 :: "string \<Rightarrow> string"
  parse_date :: "string \<Rightarrow> int option"
  localeCompare :: "string \<Rightarrow> string \<Rightarrow> int"
  collate :: "string \<Rightarrow> string \<Rightarrow> int"
  buildMessageId :: "string \<Rightarrow> string \<Rightarrow> string \<Rightarrow> string res"

text \<open>
  A host to run examples on: the clock prints its reading's number, identifiers are numbers, the digest
  is the text itself, a date is a decimal number of milliseconds, strings are compared by code unit.
\<close>

definition sample_env :: env where
  "sample_env = \<lparr>clock = nat_string, clock_ms = int, iso_of = int_string, uuid = nat_string, sha256 = (\<lambda>s. s), parse_date = string_number,
     localeCompare = (\<lambda>a b. if a < b then - 1 else if a = b then 0 else 1),
     collate = (\<lambda>a b. if a < b then - 1 else if a = b then 0 else 1),
     buildMessageId = (\<lambda>adapter key at. Inr (''msg-'' @ at))\<rparr>"

lemma sample_env_simps [simp]:
  "clock sample_env = nat_string" "clock_ms sample_env = int" "iso_of sample_env = int_string" "uuid sample_env = nat_string" "sha256 sample_env s = s"
  "parse_date sample_env = string_number" "buildMessageId sample_env adapter key at = Inr (''msg-'' @ at)"
  by (simp_all add: sample_env_def)

subsection \<open>Lemmas on objects\<close>

lemma get_Nil [simp]: "get [] k = JUndef"
  by (simp add: get_def)

lemma get_Cons [simp]: "get ((a, v) # ob) k = (if k = a then v else get ob k)"
  by (simp add: get_def)

lemma get_update [simp]: "get (AList.update a v ob) k = (if k = a then v else get ob k)"
  by (simp add: get_def update_conv')

lemma assign_Nil [simp]: "assign ob [] = ob"
  by (simp add: assign_def)

lemma assign_Cons [simp]: "assign ob ((k, v) # ps) = assign (AList.update k v ob) ps"
  by (simp add: assign_def)

lemma get_assign_other: "\<not> has_own patch k \<Longrightarrow> get (assign ob patch) k = get ob k"
  by (induction patch arbitrary: ob) (auto simp: has_own_def split: prod.splits)

lemma get_assign_own:
  "distinct (map fst patch) \<Longrightarrow> has_own patch k \<Longrightarrow> get (assign ob patch) k = get patch k"
proof (induction patch arbitrary: ob)
  case (Cons p patch)
  obtain a v where p: "p = (a, v)" by (cases p)
  show ?case
  proof (cases "k = a")
    case True
    with Cons.prems(1) p have "\<not> has_own patch k" by (auto simp: has_own_def)
    with True p show ?thesis by (simp add: get_assign_other)
  next
    case False
    with Cons p show ?thesis by (simp add: has_own_def)
  qed
qed (simp add: has_own_def)

lemma coalesce_simps [simp]:
  "coalesce JUndef d = d" "coalesce JNull d = d" "coalesce (JStr s) d = JStr s"
  "coalesce (JNum n) d = JNum n" "coalesce (JBool b) d = JBool b"
  "coalesce (JArr xs) d = JArr xs" "coalesce (JObj ps) d = JObj ps"
  by (simp_all add: coalesce_def nullish_def)

lemma nullish_simps [simp]:
  "nullish JUndef" "nullish JNull" "\<not> nullish (JStr s)" "\<not> nullish (JNum n)"
  "\<not> nullish (JBool b)" "\<not> nullish (JArr xs)" "\<not> nullish (JObj ps)"
  by (simp_all add: nullish_def)

lemma num_or_simps [simp]:
  "num_or d JUndef = d" "num_or d JNull = d" "num_or d (JNum n) = n"
  by (simp_all add: num_or_def)

subsection \<open>Lemmas on association lists, used as \<open>Map\<close> and as tables\<close>

lemma map_of_update [simp]: "map_of (AList.update k v al) k' = (if k' = k then Some v else map_of al k')"
  by (simp add: update_conv')

lemma map_of_delete [simp]: "map_of (AList.delete k al) k' = (if k' = k then None else map_of al k')"
  by (simp add: delete_conv')

lemma update_id: "map_of al k = Some v \<Longrightarrow> AList.update k v al = al"
  by (induction al) (auto split: if_splits)

lemma update_keys_existing:
  "map_of al k = Some w \<Longrightarrow> map fst (AList.update k v al) = map fst al"
  by (induction al) (auto split: if_splits)

subsection \<open>Lemmas on \<open>uniq\<close>\<close>

lemma set_uniq [simp]: "set (uniq xs) = set xs"
  by (simp add: uniq_def)

lemma distinct_uniq [simp]: "distinct (uniq xs)"
  by (simp add: uniq_def)

lemma uniq_Nil [simp]: "uniq [] = []"
  by (simp add: uniq_def)

lemma uniq_id: "distinct xs \<Longrightarrow> uniq xs = xs"
  by (simp add: uniq_def distinct_remdups_id)

lemma uniq_eq_Nil [simp]: "uniq xs = [] \<longleftrightarrow> xs = []"
  by (simp add: uniq_def)

lemma ball_enumerate: "(\<forall>p \<in> set (enumerate n xs). P (snd p)) \<longleftrightarrow> (\<forall>x \<in> set xs. P x)"
proof -
  have "set xs = snd ` set (enumerate n xs)" by (simp flip: set_map)
  then show ?thesis by simp
qed

subsection \<open>Lemmas on results\<close>

lemma bindR_simps [simp]: "bindR (Inl e) f = Inl e" "bindR (Inr x) f = f x"
  by (simp_all add: bindR_def)

lemma bindR_Inr: "bindR m f = Inr y \<longleftrightarrow> (\<exists>x. m = Inr x \<and> f x = Inr y)"
  by (cases m) auto

lemma bindR_Inl: "bindR m f = Inl e \<longleftrightarrow> m = Inl e \<or> (\<exists>x. m = Inr x \<and> f x = Inl e)"
  by (cases m) auto

lemma ensure_Inr [simp]: "ensure c msg = Inr u \<longleftrightarrow> c"
  by (simp add: ensure_def)

lemma ensure_Inl [simp]: "ensure c msg = Inl e \<longleftrightarrow> \<not> c \<and> e = msg"
  by (auto simp: ensure_def)

lemmas res_cases [res_simps] = bindR_Inr bindR_Inl ensure_Inr ensure_Inl

lemma mapR_total: "(\<And>x. x \<in> set xs \<Longrightarrow> \<exists>y. f x = Inr y) \<Longrightarrow> \<exists>ys. mapR f xs = Inr ys"
proof (induction xs)
  case (Cons x xs)
  then obtain y ys where "f x = Inr y" "mapR f xs = Inr ys" by (metis list.set_intros)
  then show ?case by simp
qed simp

lemma mapR_Inr_length: "mapR f xs = Inr ys \<Longrightarrow> length ys = length xs"
  by (induction xs arbitrary: ys) (auto simp: bindR_Inr)

lemma mapR_Inr_nth: "mapR f xs = Inr ys \<Longrightarrow> i < length xs \<Longrightarrow> f (xs ! i) = Inr (ys ! i)"
proof (induction xs arbitrary: ys i)
  case (Cons x xs)
  from Cons.prems(1) obtain y zs where "f x = Inr y" "mapR f xs = Inr zs" "ys = y # zs"
    by (auto simp: bindR_Inr)
  with Cons show ?case by (cases i) auto
qed simp

subsection \<open>Lemmas on strings\<close>

lemma starts_with_append [simp]: "starts_with (p @ s) p"
  by (simp add: starts_with_def)

lemma starts_with_conv: "starts_with s p \<longleftrightarrow> (\<exists>t. s = p @ t)"
proof
  assume "starts_with s p"
  then have "s = p @ drop (length p) s"
    unfolding starts_with_def by (metis append_take_drop_id)
  then show "\<exists>t. s = p @ t" ..
qed (auto simp: starts_with_def)

lemma trim_Nil [simp]: "trim [] = []"
  by (simp add: trim_def)

lemma dropWhile_no_hd: "dropWhile P xs = y # ys \<Longrightarrow> \<not> P y"
  by (induction xs) (auto split: if_splits)

lemma dropWhile_idem_rev:
  "dropWhile P (rev (dropWhile P (rev (dropWhile P s)))) = rev (dropWhile P (rev (dropWhile P s)))"
proof (cases "dropWhile P s")
  case Nil
  show ?thesis by (simp only: Nil rev.simps dropWhile.simps)
next
  case (Cons c cs)
  then have c: "\<not> P c" by (rule dropWhile_no_hd)
  then have "dropWhile P (rev cs @ [c]) = dropWhile P (rev cs) @ [c]"
    by (induction cs rule: rev_induct) auto
  with Cons c show ?thesis by simp
qed

lemma trim_trim [simp]: "trim (trim s) = trim s"
  unfolding trim_def by (simp add: dropWhile_idem_rev)

end
