(* ===== verification/StateMonad.thy ===== *)
theory StateMonad
  imports JsPrelude
begin

text \<open>
  Imperative JavaScript methods: a method that reads and updates a mutable object and may throw is a
  function from the object's state to a result and the state it leaves behind. A throw does not undo
  what was done before it. The locale \<open>step_preorder\<close> collects the rules by which a relation
  between the state before and after (an invariant that is kept, a row that is frozen, a counter that
  grows) is proved of a whole method from its parts; each store theory interprets it on its relations.
\<close>

type_synonym ('s, 'a) sm = "'s \<Rightarrow> 'a res \<times> 's"

definition returnM :: "'a \<Rightarrow> ('s, 'a) sm" where
  "returnM x s = (Inr x, s)"

definition throwM :: "string \<Rightarrow> ('s, 'a) sm" where
  "throwM msg s = (Inl msg, s)"

definition bindM :: "('s, 'a) sm \<Rightarrow> ('a \<Rightarrow> ('s, 'b) sm) \<Rightarrow> ('s, 'b) sm" where
  "bindM m f s = (case m s of (Inl e, s') \<Rightarrow> (Inl e, s') | (Inr x, s') \<Rightarrow> f x s')"

definition seqM :: "('s, 'a) sm \<Rightarrow> ('s, 'b) sm \<Rightarrow> ('s, 'b) sm" where
  "seqM m n = bindM m (\<lambda>_. n)"

definition getsM :: "('s \<Rightarrow> 'a) \<Rightarrow> ('s, 'a) sm" where
  "getsM f s = (Inr (f s), s)"

definition modifyM :: "('s \<Rightarrow> 's) \<Rightarrow> ('s, unit) sm" where
  "modifyM f s = (Inr (), f s)"

definition liftR :: "'a res \<Rightarrow> ('s, 'a) sm" where
  "liftR r s = (r, s)"

definition guardM :: "bool \<Rightarrow> string \<Rightarrow> ('s, unit) sm" where
  "guardM c msg = (if c then returnM () else throwM msg)"

definition whenM :: "bool \<Rightarrow> ('s, unit) sm \<Rightarrow> ('s, unit) sm" where
  "whenM c m = (if c then m else returnM ())"

fun forM :: "('a \<Rightarrow> ('s, unit) sm) \<Rightarrow> 'a list \<Rightarrow> ('s, unit) sm" where
  "forM f [] = returnM ()"
| "forM f (x # xs) = seqM (f x) (forM f xs)"

text \<open>A loop that collects the results it is given, as \<open>push\<close> in a \<open>for\<close> body does.\<close>

fun collectM :: "('a \<Rightarrow> ('s, 'b option) sm) \<Rightarrow> 'a list \<Rightarrow> ('s, 'b list) sm" where
  "collectM f [] = returnM []"
| "collectM f (x # xs) =
     bindM (f x) (\<lambda>r. bindM (collectM f xs) (\<lambda>rs.
       returnM (case r of None \<Rightarrow> rs | Some y \<Rightarrow> y # rs)))"

text \<open>\<open>try { m } catch (error) { restore; throw error }\<close>\<close>

definition restoreM :: "('s \<Rightarrow> 's \<Rightarrow> 's) \<Rightarrow> ('s, 'a) sm \<Rightarrow> ('s, 'a) sm" where
  "restoreM restore m s = (case m s of (Inl e, s') \<Rightarrow> (Inl e, restore s s') | (Inr x, s') \<Rightarrow> (Inr x, s'))"

lemma runM_simps [simp]:
  "returnM x s = (Inr x, s)" "throwM msg s = (Inl msg, s)" "getsM f s = (Inr (f s), s)"
  "modifyM g s = (Inr (), g s)" "liftR r s = (r, s)"
  by (simp_all add: returnM_def throwM_def getsM_def modifyM_def liftR_def)

lemma bindM_run:
  "m s = (Inr x, s') \<Longrightarrow> bindM m f s = f x s'"
  "m s = (Inl e, s') \<Longrightarrow> bindM m f s = (Inl e, s')"
  by (simp_all add: bindM_def)

lemma bindM_simps [simp]:
  "bindM (returnM x) f s = f x s" "bindM (throwM msg) f s = (Inl msg, s)"
  "bindM (getsM g) h s = h (g s) s" "bindM (modifyM k) h' s = h' () (k s)"
  by (simp_all add: bindM_def)

lemma bindM_liftR [simp]:
  "bindM (liftR (Inr x)) f s = f x s" "bindM (liftR (Inl e)) f s = (Inl e, s)"
  by (simp_all add: bindM_def)

lemma seqM_modify [simp]: "seqM (modifyM k) m s = m (k s)"
  by (simp add: seqM_def)

lemma guardM_simps [simp]:
  "bindM (guardM True msg) f s = f () s" "seqM (guardM True msg) m s = m s"
  "seqM (guardM False msg) m s = (Inl msg, s)" "bindM (guardM False msg) f s = (Inl msg, s)"
  by (simp_all add: guardM_def seqM_def)

lemma bindM_Inr: "bindM m f s = (Inr y, t) \<longleftrightarrow> (\<exists>x s'. m s = (Inr x, s') \<and> f x s' = (Inr y, t))"
  by (auto simp: bindM_def split: prod.splits sum.splits)

lemma seqM_Inr: "seqM m n s = (Inr y, t) \<longleftrightarrow> (\<exists>x s'. m s = (Inr x, s') \<and> n s' = (Inr y, t))"
  by (simp add: seqM_def bindM_Inr)

lemma guardM_Inr [simp]: "guardM c msg s = (Inr u, t) \<longleftrightarrow> c \<and> t = s"
  by (auto simp: guardM_def)

subsection \<open>Relations between the state before and after a method\<close>

locale step_preorder =
  fixes R :: "'s \<Rightarrow> 's \<Rightarrow> bool"
  assumes step_refl: "R s s"
    and step_trans: "R s t \<Longrightarrow> R t u \<Longrightarrow> R s u"
begin

definition keeps :: "('s, 'a) sm \<Rightarrow> bool" where
  "keeps m \<longleftrightarrow> (\<forall>s. R s (snd (m s)))"

lemma keepsI: "(\<And>s. R s (snd (m s))) \<Longrightarrow> keeps m"
  by (simp add: keeps_def)

lemma keepsD: "keeps m \<Longrightarrow> m s = (r, t) \<Longrightarrow> R s t"
  unfolding keeps_def by (metis snd_conv)

lemma keeps_snd: "keeps m \<Longrightarrow> R s (snd (m s))"
  by (simp add: keeps_def)

lemma keeps_return: "keeps (returnM x)"
  by (simp add: keeps_def step_refl)

lemma keeps_throw: "keeps (throwM msg)"
  by (simp add: keeps_def step_refl)

lemma keeps_gets: "keeps (getsM f)"
  by (simp add: keeps_def step_refl)

lemma keeps_lift: "keeps (liftR r)"
  by (simp add: keeps_def step_refl)

lemma keeps_guard: "keeps (guardM c msg)"
  by (simp add: guardM_def keeps_return keeps_throw)

lemma keeps_modify: "(\<And>s. R s (f s)) \<Longrightarrow> keeps (modifyM f)"
  by (simp add: keeps_def)

lemma keeps_bind:
  assumes "keeps m" and "\<And>x. keeps (f x)"
  shows "keeps (bindM m f)"
proof (rule keepsI)
  fix s
  obtain r t where m: "m s = (r, t)" by (cases "m s")
  with assms(1) have st: "R s t" by (rule keepsD)
  show "R s (snd (bindM m f s))"
  proof (cases r)
    case (Inl e)
    with m st show ?thesis by (simp add: bindM_def)
  next
    case (Inr x)
    with m st keeps_snd[OF assms(2)[of x], of t] show ?thesis
      by (auto simp: bindM_def intro: step_trans)
  qed
qed

text \<open>A step whose continuation depends on the state that was read.\<close>

lemma keeps_read:
  assumes "\<And>s. R s (snd (f (g s) s))"
  shows "keeps (bindM (getsM g) f)"
  using assms by (simp add: keeps_def)

lemma keeps_seq: "keeps m \<Longrightarrow> keeps n \<Longrightarrow> keeps (seqM m n)"
  by (simp add: seqM_def keeps_bind)

lemma keeps_when: "keeps m \<Longrightarrow> keeps (whenM c m)"
  by (simp add: whenM_def keeps_return)

lemma keeps_if: "keeps m \<Longrightarrow> keeps n \<Longrightarrow> keeps (if c then m else n)"
  by simp

lemma keeps_option: "keeps m \<Longrightarrow> (\<And>x. keeps (f x)) \<Longrightarrow> keeps (case v of None \<Rightarrow> m | Some x \<Rightarrow> f x)"
  by (cases v) auto

lemma keeps_list: "keeps m \<Longrightarrow> (\<And>x xs. keeps (f x xs)) \<Longrightarrow> keeps (case l of [] \<Rightarrow> m | x # xs \<Rightarrow> f x xs)"
  by (cases l) auto

lemma keeps_for: "(\<And>x. keeps (f x)) \<Longrightarrow> keeps (forM f xs)"
  by (induction xs) (auto intro: keeps_return keeps_seq)

lemma keeps_collect: "(\<And>x. keeps (f x)) \<Longrightarrow> keeps (collectM f xs)"
  by (induction xs) (auto intro: keeps_return keeps_bind)

text \<open>A loop that brings about a property of everything it visits, when the property outlives later steps.\<close>

lemma for_establishes:
  assumes "\<And>x. keeps (f x)" and "\<And>x s t. Q x s \<Longrightarrow> R s t \<Longrightarrow> Q x t"
    and "\<And>x. x \<in> set xs \<Longrightarrow> Q x s \<or> (\<forall>u v. f x u = (Inr (), v) \<longrightarrow> Q x v)"
    and "forM f xs s = (Inr (), t)" and "x \<in> set xs"
  shows "Q x t"
  using assms(3,4,5)
proof (induction xs arbitrary: s)
  case (Cons y ys)
  from Cons.prems(2) obtain u where first: "f y s = (Inr (), u)" and rest: "forM f ys u = (Inr (), t)"
    by (auto simp: seqM_Inr)
  have su: "R s u" using assms(1) first by (rule keepsD)
  have ut: "R u t" using keeps_for[of f ys] assms(1) rest by (blast intro: keepsD)
  have here: "Q y u" using Cons.prems(1)[of y] assms(2)[OF _ su] first by auto
  show ?case
  proof (cases "x = y")
    case True
    with here ut show ?thesis using assms(2) by blast
  next
    case False
    have "z \<in> set ys \<Longrightarrow> Q z u \<or> (\<forall>u v. f z u = (Inr (), v) \<longrightarrow> Q z v)" for z
      using Cons.prems(1)[of z] assms(2)[OF _ su] by auto
    with Cons.IH[OF _ rest] Cons.prems(3) False show ?thesis by simp
  qed
qed simp

lemmas keeps_intros =
  keeps_return keeps_throw keeps_gets keeps_lift keeps_guard keeps_bind keeps_seq keeps_when
  keeps_if keeps_option keeps_list keeps_for keeps_collect

end

end
