(* ===== verification/RunInvariants.thy ===== *)
theory RunInvariants
  imports JsPrelude
begin

text \<open>
  \<^verbatim>\<open>.agents/runtime/run-invariants.mjs\<close>: which run statuses are terminal or active, and
  the guard \<open>assertTerminalRunPatch\<close> that every store calls before it patches a run row.
  A run row is an object; the guard throws (\<open>Inl\<close>) when the patch would change the status or
  the completion time of a run that has ended.
\<close>

definition TERMINAL_RUN_STATUSES :: "string list" where
  "TERMINAL_RUN_STATUSES = [''closed'', ''failed'', ''blocked'', ''cancelled'']"

definition ACTIVE_RUN_STATUSES :: "string list" where
  "ACTIVE_RUN_STATUSES = [''routed'', ''running'']"

definition isTerminalRunStatus :: "jsval \<Rightarrow> bool" where
  "isTerminalRunStatus status \<longleftrightarrow> js_string (coalesce status (JStr [])) \<in> set TERMINAL_RUN_STATUSES"

definition isActiveRunStatus :: "jsval \<Rightarrow> bool" where
  "isActiveRunStatus status \<longleftrightarrow> js_string (coalesce status (JStr [])) \<in> set ACTIVE_RUN_STATUSES"

definition assertTerminalRunPatch :: "obj option \<Rightarrow> obj \<Rightarrow> unit res" where
  "assertTerminalRunPatch current patch =
     (case current of
        None \<Rightarrow> Inr ()
      | Some cur \<Rightarrow>
          if \<not> isTerminalRunStatus (get cur ''status'') then Inr ()
          else
            let nextStatus = coalesce (get patch ''status'') JNull;
                nextCompletedAt = coalesce (get patch ''completed_at'') JNull;
                currentCompletedAt = coalesce (get cur ''completed_at'') JNull
            in if has_own patch ''status'' \<and> nextStatus \<noteq> get cur ''status'' then
                 Inl (''agent_run_terminal_transition_forbidden:'' @ js_string (get cur ''run_id'') @ '':''
                      @ js_string (get cur ''status'') @ ''->'' @ js_string nextStatus)
               else if has_own patch ''completed_at'' \<and> nextCompletedAt \<noteq> currentCompletedAt then
                 Inl (''agent_run_terminal_occurrence_mutation_forbidden:'' @ js_string (get cur ''run_id''))
               else Inr ())"

subsection \<open>What the guard guarantees\<close>

lemma terminal_status_truthy: "isTerminalRunStatus v \<Longrightarrow> \<not> nullish v"
  by (auto simp: isTerminalRunStatus_def TERMINAL_RUN_STATUSES_def coalesce_def)

lemma terminal_not_active: "isTerminalRunStatus v \<Longrightarrow> \<not> isActiveRunStatus v"
  by (auto simp: isTerminalRunStatus_def isActiveRunStatus_def TERMINAL_RUN_STATUSES_def
      ACTIVE_RUN_STATUSES_def)

lemma status_class_simps [simp]:
  "isTerminalRunStatus (JStr ''closed'')" "isTerminalRunStatus (JStr ''failed'')"
  "isTerminalRunStatus (JStr ''blocked'')" "isTerminalRunStatus (JStr ''cancelled'')"
  "\<not> isTerminalRunStatus (JStr ''routed'')" "\<not> isTerminalRunStatus (JStr ''running'')"
  "isActiveRunStatus (JStr ''routed'')" "isActiveRunStatus (JStr ''running'')"
  "\<not> isTerminalRunStatus JNull" "\<not> isTerminalRunStatus JUndef"
  by (simp_all add: isTerminalRunStatus_def isActiveRunStatus_def TERMINAL_RUN_STATUSES_def
      ACTIVE_RUN_STATUSES_def)

text \<open>
  The patched value of a column: what the column reads after \<open>Object.assign\<close>. A column the
  patch does not own keeps its value.
\<close>

lemma coalesce_eq_nonnull: "coalesce v JNull = w \<Longrightarrow> \<not> nullish w \<Longrightarrow> v = w"
  by (auto simp: coalesce_def split: if_splits)

lemma assertTerminalRunPatch_ok_status:
  assumes ok: "assertTerminalRunPatch (Some cur) patch = Inr ()"
    and ended: "isTerminalRunStatus (get cur ''status'')"
    and dist: "distinct (map fst patch)"
  shows "get (assign cur patch) ''status'' = get cur ''status''"
proof (cases "has_own patch ''status''")
  case True
  with ok ended have "coalesce (get patch ''status'') JNull = get cur ''status''"
    by (auto simp: assertTerminalRunPatch_def Let_def split: if_splits)
  with ended have "get patch ''status'' = get cur ''status''"
    by (auto dest: coalesce_eq_nonnull terminal_status_truthy)
  with True dist show ?thesis by (simp add: get_assign_own)
qed (simp add: get_assign_other)

lemma assertTerminalRunPatch_ok_completed:
  assumes ok: "assertTerminalRunPatch (Some cur) patch = Inr ()"
    and ended: "isTerminalRunStatus (get cur ''status'')"
    and dist: "distinct (map fst patch)"
  shows "coalesce (get (assign cur patch) ''completed_at'') JNull = coalesce (get cur ''completed_at'') JNull"
proof (cases "has_own patch ''completed_at''")
  case True
  with ok ended have "coalesce (get patch ''completed_at'') JNull = coalesce (get cur ''completed_at'') JNull"
    by (auto simp: assertTerminalRunPatch_def Let_def split: if_splits)
  with True dist show ?thesis by (simp add: get_assign_own)
qed (simp add: get_assign_other)

lemma assertTerminalRunPatch_active [simp]:
  "\<not> isTerminalRunStatus (get cur ''status'') \<Longrightarrow> assertTerminalRunPatch (Some cur) patch = Inr ()"
  by (simp add: assertTerminalRunPatch_def)

text \<open>
  The relation between a run row and a later version of it that every store keeps: when the run had
  ended, its status and its completion time are the same.
\<close>

definition run_kept :: "obj \<Rightarrow> obj \<Rightarrow> bool" where
  "run_kept row row' \<longleftrightarrow>
     (isTerminalRunStatus (get row ''status'') \<longrightarrow>
        get row' ''status'' = get row ''status''
        \<and> coalesce (get row' ''completed_at'') JNull = coalesce (get row ''completed_at'') JNull)"

lemma run_kept_refl [simp]: "run_kept row row"
  by (simp add: run_kept_def)

lemma run_kept_trans: "run_kept a b \<Longrightarrow> run_kept b c \<Longrightarrow> run_kept a c"
  by (simp add: run_kept_def)

lemma run_kept_other_columns:
  "k \<noteq> ''status'' \<Longrightarrow> k \<noteq> ''completed_at'' \<Longrightarrow> run_kept row (AList.update k v row)"
  by (simp add: run_kept_def)

lemma run_kept_patch:
  assumes "assertTerminalRunPatch (Some cur) patch = Inr ()" and "distinct (map fst patch)"
  shows "run_kept cur (assign cur patch)"
  using assms by (auto simp: run_kept_def assertTerminalRunPatch_ok_status assertTerminalRunPatch_ok_completed)

end
