(* ===== verification/JsText.thy ===== *)
theory JsText
  imports JsPrelude
begin

text \<open>
  Text processing of the runtime: case folding, splitting and the regular expressions it tests text with.

  Only \<open>RegExp.prototype.test\<close> is modelled, which tells whether some part of the text matches. Whether a
  match exists does not depend on the order in which the engine tries alternatives, so an expression denotes the
  set of positions where a match that begins at a given position can end. \<open>\<^verbatim>\<open>\b\<close>\<close>,
  \<open>\<^verbatim>\<open>^\<close>\<close> and \<open>\<^verbatim>\<open>$\<close>\<close> are assertions on a position. The flag
  \<open>\<^verbatim>\<open>i\<close>\<close> folds ASCII letters of the text; the patterns are written in lower case.
\<close>

definition lower_ascii :: "char \<Rightarrow> char" where
  "lower_ascii c = (let n = of_char c :: nat in if 65 \<le> n \<and> n \<le> 90 then char_of (n + 32) else c)"

definition lower :: "string \<Rightarrow> string" where
  "lower = map lower_ascii"

definition starts_with_ci :: "string \<Rightarrow> string \<Rightarrow> bool" where
  "starts_with_ci s p \<longleftrightarrow> starts_with (lower s) p"

text \<open>
  \<open>String.prototype.toLowerCase\<close> below code unit 256, where the accented capitals fold too; it is also how the flags
  \<open>\<^verbatim>\<open>iu\<close>\<close> fold the text.
\<close>

definition lower_char :: "char \<Rightarrow> char" where
  "lower_char c = (let n = of_char c :: nat in if 65 \<le> n \<and> n \<le> 90 \<or> 192 \<le> n \<and> n \<le> 222 \<and> n \<noteq> 215 then char_of (n + 32) else c)"

definition toLowerCase :: "string \<Rightarrow> string" where
  "toLowerCase = map lower_char"

text \<open>\<open>s.split(/\<^verbatim>\<open>\s\<close>+/)\<close> for a text without white space at its ends\<close>

fun split_white :: "string \<Rightarrow> string \<Rightarrow> string list" where
  "split_white acc [] = [rev acc]"
| "split_white acc (c # cs) =
     (if is_space c then (if acc = [] then split_white [] cs else rev acc # split_white [] cs) else split_white (c # acc) cs)"

text \<open>\<open>s.replaceAll(a, b)\<close> for single characters\<close>

definition replace_char :: "char \<Rightarrow> char \<Rightarrow> string \<Rightarrow> string" where
  "replace_char a b = map (\<lambda>c. if c = a then b else c)"

subsection \<open>Regular expressions\<close>

datatype re =
    Eps
  | Cls "char \<Rightarrow> bool"
  | Seq re re
  | Alt re re
  | Star re
  | WordEdge
  | TextStart
  | TextEnd

definition is_digit :: "char \<Rightarrow> bool" where
  "is_digit c \<longleftrightarrow> (let n = of_char c :: nat in 48 \<le> n \<and> n \<le> 57)"

definition is_lower :: "char \<Rightarrow> bool" where
  "is_lower c \<longleftrightarrow> (let n = of_char c :: nat in 97 \<le> n \<and> n \<le> 122)"

definition is_upper :: "char \<Rightarrow> bool" where
  "is_upper c \<longleftrightarrow> (let n = of_char c :: nat in 65 \<le> n \<and> n \<le> 90)"

definition is_word :: "char \<Rightarrow> bool" where
  "is_word c \<longleftrightarrow> is_digit c \<or> is_lower c \<or> is_upper c \<or> c = CHR ''_''"

definition word_edge :: "string \<Rightarrow> nat \<Rightarrow> bool" where
  "word_edge s i \<longleftrightarrow> (0 < i \<and> i \<le> length s \<and> is_word (s ! (i - 1))) \<noteq> (i < length s \<and> is_word (s ! i))"

text \<open>The end positions reachable in at most \<open>n\<close> rounds of a step.\<close>

fun closure :: "(nat \<Rightarrow> nat list) \<Rightarrow> nat \<Rightarrow> nat list \<Rightarrow> nat list" where
  "closure step 0 is = is"
| "closure step (Suc n) is =
     (let new = filter (\<lambda>j. j \<notin> set is) (remdups (concat (map step is))) in
      if new = [] then is else closure step n (is @ new))"

fun ends :: "re \<Rightarrow> string \<Rightarrow> nat \<Rightarrow> nat list" where
  "ends Eps s i = [i]"
| "ends (Cls P) s i = (if i < length s \<and> P (s ! i) then [Suc i] else [])"
| "ends (Seq r1 r2) s i = remdups (concat (map (ends r2 s) (ends r1 s i)))"
| "ends (Alt r1 r2) s i = remdups (ends r1 s i @ ends r2 s i)"
| "ends (Star r) s i = closure (ends r s) (length s) [i]"
| "ends WordEdge s i = (if word_edge s i then [i] else [])"
| "ends TextStart s i = (if i = 0 then [i] else [])"
| "ends TextEnd s i = (if i = length s then [i] else [])"

definition re_test :: "re \<Rightarrow> string \<Rightarrow> bool" where
  "re_test r s \<longleftrightarrow> list_ex (\<lambda>i. ends r s i \<noteq> []) [0..<Suc (length s)]"

definition re_test_ci :: "re \<Rightarrow> string \<Rightarrow> bool" where
  "re_test_ci r s \<longleftrightarrow> re_test r (lower s)"

definition re_test_iu :: "re \<Rightarrow> string \<Rightarrow> bool" where
  "re_test_iu r s \<longleftrightarrow> re_test r (toLowerCase s)"

fun re_seq :: "re list \<Rightarrow> re" where
  "re_seq [] = Eps"
| "re_seq [r] = r"
| "re_seq (r # q # rs) = Seq r (re_seq (q # rs))"

fun re_alt :: "re list \<Rightarrow> re" where
  "re_alt [] = Cls (\<lambda>_. False)"
| "re_alt [r] = r"
| "re_alt (r # q # rs) = Alt r (re_alt (q # rs))"

definition lit :: "string \<Rightarrow> re" where
  "lit s = re_seq (map (\<lambda>c. Cls (\<lambda>d. d = c)) s)"

definition re_opt :: "re \<Rightarrow> re" where
  "re_opt r = Alt r Eps"

definition re_plus :: "re \<Rightarrow> re" where
  "re_plus r = Seq r (Star r)"

text \<open>\<open>\<^verbatim>\<open>\s\<close>\<close> and \<open>\<^verbatim>\<open>.\<close>\<close>, the latter any character but a line terminator.\<close>

definition white :: re where
  "white = Cls is_space"

definition any_char :: re where
  "any_char = Cls (\<lambda>c. c \<noteq> CHR 0x0A \<and> c \<noteq> CHR 0x0D)"

definition any_of :: "string \<Rightarrow> re" where
  "any_of cs = Cls (\<lambda>c. c \<in> set cs)"

subsection \<open>What an expression matches\<close>

inductive matches :: "string \<Rightarrow> re \<Rightarrow> nat \<Rightarrow> nat \<Rightarrow> bool" for s :: string where
  m_eps: "matches s Eps i i"
| m_cls: "i < length s \<Longrightarrow> P (s ! i) \<Longrightarrow> matches s (Cls P) i (Suc i)"
| m_seq: "matches s r1 i k \<Longrightarrow> matches s r2 k j \<Longrightarrow> matches s (Seq r1 r2) i j"
| m_alt1: "matches s r1 i j \<Longrightarrow> matches s (Alt r1 r2) i j"
| m_alt2: "matches s r2 i j \<Longrightarrow> matches s (Alt r1 r2) i j"
| m_star0: "matches s (Star r) i i"
| m_star1: "matches s (Star r) i k \<Longrightarrow> matches s r k j \<Longrightarrow> matches s (Star r) i j"
| m_edge: "word_edge s i \<Longrightarrow> matches s WordEdge i i"
| m_start: "matches s TextStart 0 0"
| m_end: "matches s TextEnd (length s) (length s)"

inductive_simps matches_simps:
  "matches s Eps i j" "matches s (Cls P) i j" "matches s (Seq r1 r2) i j" "matches s (Alt r1 r2) i j"
  "matches s WordEdge i j" "matches s TextStart i j" "matches s TextEnd i j"

lemma matches_bounds: "matches s r i j \<Longrightarrow> i \<le> length s \<Longrightarrow> i \<le> j \<and> j \<le> length s"
  by (induction rule: matches.induct) auto

lemma matches_star: "matches s (Star r) i j \<longleftrightarrow> (matches s r)\<^sup>*\<^sup>* i j"
proof
  assume "matches s (Star r) i j"
  then show "(matches s r)\<^sup>*\<^sup>* i j"
    by (induction "Star r" i j rule: matches.induct) auto
next
  assume "(matches s r)\<^sup>*\<^sup>* i j"
  then show "matches s (Star r) i j"
    by (induction rule: rtranclp_induct) (auto intro: m_star0 m_star1)
qed

lemma closure_sound: "set (closure step n is) \<subseteq> {j. \<exists>i \<in> set is. (\<lambda>x y. y \<in> set (step x))\<^sup>*\<^sup>* i j}"
proof (induction n arbitrary: "is")
  case (Suc n)
  let ?R = "\<lambda>x y. y \<in> set (step x)"
  let ?new = "filter (\<lambda>j. j \<notin> set is) (remdups (concat (map step is)))"
  have "{j. \<exists>i \<in> set (is @ ?new). ?R\<^sup>*\<^sup>* i j} \<subseteq> {j. \<exists>i \<in> set is. ?R\<^sup>*\<^sup>* i j}"
    by (auto intro: converse_rtranclp_into_rtranclp)
  with Suc.IH[of "is @ ?new"] have "set (closure step n (is @ ?new)) \<subseteq> {j. \<exists>i \<in> set is. ?R\<^sup>*\<^sup>* i j}"
    by (rule subset_trans)
  moreover have "set is \<subseteq> {j. \<exists>i \<in> set is. ?R\<^sup>*\<^sup>* i j}" by auto
  ultimately show ?case by (simp only: closure.simps Let_def split: if_split) simp
qed auto

lemma closure_complete:
  assumes "\<And>i j. i \<le> m \<Longrightarrow> j \<in> set (step i) \<Longrightarrow> j \<le> m"
  shows "\<forall>i \<in> set is. i \<le> m \<Longrightarrow> distinct is \<Longrightarrow> Suc m \<le> length is + n
    \<Longrightarrow> (\<forall>i \<in> set (closure step n is). set (step i) \<subseteq> set (closure step n is)) \<and> set is \<subseteq> set (closure step n is)"
proof (induction n arbitrary: "is")
  case 0
  then have "set is \<subseteq> {..m}" "card (set is) \<ge> card {..m}" by (auto simp: distinct_card)
  then have "set is = {..m}" by (intro card_seteq) auto
  then show ?case using assms by auto
next
  case (Suc n)
  let ?new = "filter (\<lambda>j. j \<notin> set is) (remdups (concat (map step is)))"
  show ?case
  proof (cases "?new = []")
    case True
    then have "\<forall>i \<in> set is. set (step i) \<subseteq> set is"
      unfolding filter_empty_conv set_remdups set_concat set_map by blast
    with True show ?thesis by (simp add: Let_def)
  next
    case False
    have "\<forall>i \<in> set (is @ ?new). i \<le> m" using Suc.prems(1) assms by auto
    moreover have "distinct (is @ ?new)" using Suc.prems(2) by auto
    moreover have "Suc m \<le> length (is @ ?new) + n" using Suc.prems(3) False by (cases ?new) auto
    ultimately show ?thesis using Suc.IH[of "is @ ?new"] False by (auto simp: Let_def)
  qed
qed

theorem ends_matches: "i \<le> length s \<Longrightarrow> j \<in> set (ends r s i) \<longleftrightarrow> matches s r i j"
proof (induction r arbitrary: i j)
  case (Seq r1 r2)
  show ?case
  proof
    assume "j \<in> set (ends (Seq r1 r2) s i)"
    then obtain k where k: "k \<in> set (ends r1 s i)" "j \<in> set (ends r2 s k)" by auto
    with Seq.IH(1) Seq.prems have m1: "matches s r1 i k" by simp
    with matches_bounds Seq.prems have "k \<le> length s" by blast
    with Seq.IH(2) k(2) m1 show "matches s (Seq r1 r2) i j" by (auto intro: m_seq)
  next
    assume "matches s (Seq r1 r2) i j"
    then obtain k where k: "matches s r1 i k" "matches s r2 k j" by (auto simp: matches_simps)
    with matches_bounds Seq.prems have "k \<le> length s" by blast
    with Seq.IH(2) k(2) have "j \<in> set (ends r2 s k)" by simp
    moreover from Seq.IH(1) Seq.prems k(1) have "k \<in> set (ends r1 s i)" by simp
    ultimately show "j \<in> set (ends (Seq r1 r2) s i)" by auto
  qed
next
  case (Star r)
  let ?step = "ends r s" and ?C = "closure (ends r s) (length s) [i]"
  have iff: "k \<le> length s \<Longrightarrow> l \<in> set (?step k) \<longleftrightarrow> matches s r k l" for k l by (rule Star.IH)
  have bound: "k \<le> length s \<Longrightarrow> l \<in> set (?step k) \<Longrightarrow> l \<le> length s" for k l
    using iff matches_bounds by blast
  have closed: "\<forall>k \<in> set ?C. set (?step k) \<subseteq> set ?C" "i \<in> set ?C"
    using closure_complete[of "length s" ?step "[i]" "length s"] bound Star.prems by auto
  have star: "(\<lambda>x y. y \<in> set (?step x))\<^sup>*\<^sup>* i l \<longleftrightarrow> (matches s r)\<^sup>*\<^sup>* i l" for l
  proof
    assume "(\<lambda>x y. y \<in> set (?step x))\<^sup>*\<^sup>* i l"
    then have "(matches s r)\<^sup>*\<^sup>* i l \<and> l \<le> length s"
      by (induction rule: rtranclp_induct) (use iff bound Star.prems in \<open>auto intro: rtranclp.rtrancl_into_rtrancl\<close>)
    then show "(matches s r)\<^sup>*\<^sup>* i l" ..
  next
    assume "(matches s r)\<^sup>*\<^sup>* i l"
    then have "(\<lambda>x y. y \<in> set (?step x))\<^sup>*\<^sup>* i l \<and> l \<le> length s"
      by (induction rule: rtranclp_induct) (use iff bound Star.prems in \<open>auto intro: rtranclp.rtrancl_into_rtrancl\<close>)
    then show "(\<lambda>x y. y \<in> set (?step x))\<^sup>*\<^sup>* i l" ..
  qed
  have "j \<in> set ?C \<longleftrightarrow> (\<lambda>x y. y \<in> set (?step x))\<^sup>*\<^sup>* i j"
  proof
    assume "j \<in> set ?C"
    with closure_sound[of ?step "length s" "[i]"] show "(\<lambda>x y. y \<in> set (?step x))\<^sup>*\<^sup>* i j" by auto
  next
    assume "(\<lambda>x y. y \<in> set (?step x))\<^sup>*\<^sup>* i j"
    then show "j \<in> set ?C"
      by (induction rule: rtranclp_induct) (use closed in auto)
  qed
  then show ?case by (simp only: ends.simps star matches_star)
qed (auto simp: matches_simps)

text \<open>The characters of a match all come from the classes of the expression.\<close>

fun classes_within :: "(char \<Rightarrow> bool) \<Rightarrow> re \<Rightarrow> bool" where
  "classes_within P (Cls Q) \<longleftrightarrow> (\<forall>c. Q c \<longrightarrow> P c)"
| "classes_within P (Seq r1 r2) \<longleftrightarrow> classes_within P r1 \<and> classes_within P r2"
| "classes_within P (Alt r1 r2) \<longleftrightarrow> classes_within P r1 \<and> classes_within P r2"
| "classes_within P (Star r) \<longleftrightarrow> classes_within P r"
| "classes_within P r \<longleftrightarrow> True"

lemma matches_chars: "matches s r i j \<Longrightarrow> classes_within P r \<Longrightarrow> i \<le> k \<Longrightarrow> k < j \<Longrightarrow> P (s ! k)"
proof (induction arbitrary: k rule: matches.induct)
  case (m_cls i Q)
  then have "k = i" by simp
  with m_cls show ?case by simp
next
  case (m_seq r1 i l r2 j)
  then show ?case by (cases "k < l") auto
next
  case (m_star1 r i l j)
  then show ?case by (cases "k < l") auto
qed auto

lemma classes_within_seq: "classes_within P (re_seq rs) \<longleftrightarrow> (\<forall>r \<in> set rs. classes_within P r)"
  by (induction rs rule: re_seq.induct) auto

lemma classes_within_lit: "classes_within P (lit s) \<longleftrightarrow> (\<forall>c \<in> set s. P c)"
  by (simp add: lit_def classes_within_seq)

lemma re_test_matches: "re_test r s \<longleftrightarrow> (\<exists>i j. i \<le> length s \<and> matches s r i j)"
proof -
  have "re_test r s \<longleftrightarrow> (\<exists>i \<le> length s. ends r s i \<noteq> [])"
    by (auto simp: re_test_def list_ex_iff le_less)
  also have "\<dots> \<longleftrightarrow> (\<exists>i \<le> length s. \<exists>j. j \<in> set (ends r s i))"
    by (simp add: ex_in_conv)
  finally show ?thesis using ends_matches by blast
qed

lemma matches_start: "matches s (re_seq (TextStart # q # rs)) i j \<longleftrightarrow> i = 0 \<and> matches s (re_seq (q # rs)) 0 j"
  by (auto simp: matches_simps)

lemma matches_end: "matches s (re_seq (rs @ [r, TextEnd])) i j \<Longrightarrow> j = length s"
proof (induction rs arbitrary: i)
  case Nil
  then show ?case by (auto simp: matches_simps)
next
  case (Cons q rs)
  then show ?case by (cases rs) (auto simp: matches_simps)
qed

text \<open>An expression anchored at both ends constrains every character of the text.\<close>

lemma anchored_chars:
  assumes "re_test (re_seq (TextStart # rs @ [r, TextEnd])) s" and "\<forall>q \<in> set (rs @ [r]). classes_within P q"
  shows "list_all P s"
proof -
  obtain i j where m: "matches s (re_seq (TextStart # rs @ [r, TextEnd])) i j"
    using assms(1) re_test_matches by blast
  obtain q qs where rs: "rs @ [r, TextEnd] = q # qs" by (cases rs) auto
  from m have "matches s (re_seq (rs @ [r, TextEnd])) 0 j" unfolding rs by (simp only: matches_start)
  moreover from this have "j = length s" by (rule matches_end)
  moreover have "classes_within P (re_seq (rs @ [r, TextEnd]))" using assms(2) by (simp add: classes_within_seq)
  ultimately show ?thesis using matches_chars by (fastforce simp: list_all_length)
qed

end
