(* ===== verification/Utils.thy ===== *)
theory Utils
  imports JsText
begin

text \<open>
  \<^verbatim>\<open>.agents/runtime/utils.mjs\<close>: the pure helpers (path patterns, task directory names,
  command line and environment parsing). The regular expression that \<open>patternMatches\<close> builds
  from a pattern is modelled by its matcher \<open>glob\<close>: a literal unit, \<open>[^/]*\<close> for a
  star and \<open>.*\<close> for a double star (\<open>.\<close> matches no line terminator). Patterns do not
  contain the code's internal marker \<open>::DOUBLE_STAR::\<close>. File system helpers
  (\<open>listFiles\<close>, \<open>readJson\<close>, \dots) are input and output only and are not modelled.
\<close>

subsection \<open>Dash runs\<close>

definition slug_char :: "char \<Rightarrow> bool" where
  "slug_char c \<longleftrightarrow> (let n = of_char c :: nat in
     (65 \<le> n \<and> n \<le> 90) \<or> (97 \<le> n \<and> n \<le> 122) \<or> (48 \<le> n \<and> n \<le> 57) \<or> n \<in> {45, 46, 95})"

text \<open>\<open>replace(/[^A-Za-z0-9._-]+/g, "-")\<close>: a maximal run of other units becomes one dash.\<close>

fun dash_runs :: "bool \<Rightarrow> string \<Rightarrow> string" where
  "dash_runs inrun [] = []"
| "dash_runs inrun (c # cs) =
     (if slug_char c then c # dash_runs False cs
      else if inrun then dash_runs True cs
      else CHR ''-'' # dash_runs True cs)"

text \<open>\<open>replace(/^-+|-+$/g, "")\<close>\<close>

definition strip_dashes :: "string \<Rightarrow> string" where
  "strip_dashes s = rev (dropWhile (\<lambda>c. c = CHR ''-'') (rev (dropWhile (\<lambda>c. c = CHR ''-'') s)))"

definition runtimeTaskDirectoryName :: "env \<Rightarrow> string \<Rightarrow> string \<Rightarrow> string" where
  "runtimeTaskDirectoryName e taskId agentId =
     (let stripped = strip_dashes (dash_runs False agentId);
          agent = (if stripped = [] then ''task'' else stripped)
      in agent @ ''--'' @ take 12 (sha256 e taskId))"

definition estimateTokens :: "nat \<Rightarrow> nat" where
  "estimateTokens bytes = (bytes + 3) div 4"

subsection \<open>Path patterns\<close>

definition clean_path :: "string \<Rightarrow> string" where
  "clean_path p =
     (let q = map (\<lambda>c. if c = CHR 0x5C then CHR ''/'' else c) p
      in if starts_with q ''./'' then drop 2 q else q)"

datatype glob_token = Lit char | Seg | Any

fun glob_tokens :: "string \<Rightarrow> glob_token list" where
  "glob_tokens [] = []"
| "glob_tokens [c] = (if c = CHR ''*'' then [Seg] else [Lit c])"
| "glob_tokens (c # d # cs) =
     (if c = CHR ''*'' \<and> d = CHR ''*'' then Any # glob_tokens cs
      else if c = CHR ''*'' then Seg # glob_tokens (d # cs)
      else Lit c # glob_tokens (d # cs))"

definition line_terminator :: "char \<Rightarrow> bool" where
  "line_terminator c \<longleftrightarrow> of_char c \<in> {10, 13 :: nat}"

fun glob :: "glob_token list \<Rightarrow> string \<Rightarrow> bool" where
  "glob [] s = (s = [])"
| "glob (Lit c # ts) [] = False"
| "glob (Lit c # ts) (d # s) = (c = d \<and> glob ts s)"
| "glob (Seg # ts) [] = glob ts []"
| "glob (Seg # ts) (d # s) = (glob ts (d # s) \<or> (d \<noteq> CHR ''/'' \<and> glob (Seg # ts) s))"
| "glob (Any # ts) [] = glob ts []"
| "glob (Any # ts) (d # s) = (glob ts (d # s) \<or> (\<not> line_terminator d \<and> glob (Any # ts) s))"

definition patternMatches :: "string \<Rightarrow> string \<Rightarrow> bool" where
  "patternMatches pattern candidate =
     (let cleanPattern = clean_path pattern; cleanCandidate = clean_path candidate in
      if cleanPattern = cleanCandidate then True
      else if ends_with cleanPattern ''/**'' then
        starts_with cleanCandidate (take (length cleanPattern - 2) cleanPattern)
      else if CHR ''*'' \<notin> set cleanPattern then False
      else glob (glob_tokens cleanPattern) cleanCandidate)"

definition anyPatternMatches :: "string list \<Rightarrow> string \<Rightarrow> bool" where
  "anyPatternMatches patterns candidate \<longleftrightarrow> list_ex (\<lambda>p. patternMatches p candidate) patterns"

subsection \<open>Command line and environment values\<close>

text \<open>\<open>rawKey.replace(/-([a-z])/g, (_, letter) => letter.toUpperCase())\<close>\<close>

fun camel :: "string \<Rightarrow> string" where
  "camel [] = []"
| "camel [c] = [c]"
| "camel (c # d # cs) =
     (if c = CHR ''-'' \<and> is_lower d then char_of ((of_char d :: nat) - 32) # camel cs
      else c # camel (d # cs))"

text \<open>
  \<open>const [rawKey, inline] = s.split("=", 2)\<close>: the limit keeps the first two pieces of the
  split, so what follows a second equals sign is dropped.
\<close>

definition split2 :: "string \<Rightarrow> string \<times> string option" where
  "split2 s =
     (let key = takeWhile (\<lambda>c. c \<noteq> CHR ''='') s; rest = dropWhile (\<lambda>c. c \<noteq> CHR ''='') s in
      case rest of
        [] \<Rightarrow> (key, None)
      | _ # value \<Rightarrow> (key, Some (takeWhile (\<lambda>c. c \<noteq> CHR ''='') value)))"

record parsed_args =
  positional :: "string list"
  named :: obj

fun parse_tokens :: "string list \<Rightarrow> parsed_args \<Rightarrow> parsed_args" where
  "parse_tokens [] acc = acc"
| "parse_tokens (token # rest) acc =
     (if \<not> starts_with token ''--'' then
        parse_tokens rest (acc\<lparr>positional := positional acc @ [token]\<rparr>)
      else
        let key = camel (fst (split2 (drop 2 token))) in
        case snd (split2 (drop 2 token)) of
          Some v \<Rightarrow> parse_tokens rest (acc\<lparr>named := AList.update key (JStr v) (named acc)\<rparr>)
        | None \<Rightarrow>
            (case rest of
               nxt # rest' \<Rightarrow>
                 if \<not> starts_with nxt ''--'' then
                   parse_tokens rest' (acc\<lparr>named := AList.update key (JStr nxt) (named acc)\<rparr>)
                 else parse_tokens rest (acc\<lparr>named := AList.update key (JBool True) (named acc)\<rparr>)
             | [] \<Rightarrow> acc\<lparr>named := AList.update key (JBool True) (named acc)\<rparr>))"

definition parseArgs :: "string list \<Rightarrow> parsed_args" where
  "parseArgs argv = parse_tokens argv \<lparr>positional = [], named = []\<rparr>"

definition asBoolean :: "jsval \<Rightarrow> bool \<Rightarrow> bool" where
  "asBoolean value fallback =
     (if value = JUndef \<or> value = JNull \<or> value = JStr [] then fallback
      else case value of
             JBool b \<Rightarrow> b
           | _ \<Rightarrow> toLowerCase (js_string value) \<in> {''1'', ''true'', ''yes'', ''on''})"

text \<open>\<open>Number.parseInt(s, 10)\<close>: the longest prefix of digits after white space and a sign.\<close>

fun digit_prefix :: "nat option \<Rightarrow> string \<Rightarrow> nat option" where
  "digit_prefix acc [] = acc"
| "digit_prefix acc (c # cs) =
     (case digit_value c of
        None \<Rightarrow> acc
      | Some d \<Rightarrow> digit_prefix (Some (10 * (case acc of None \<Rightarrow> 0 | Some a \<Rightarrow> a) + d)) cs)"

definition parseInt :: "string \<Rightarrow> int option" where
  "parseInt s =
     (let t = dropWhile is_space s in
      case t of
        [] \<Rightarrow> None
      | c # cs \<Rightarrow>
          if c = CHR ''-'' then map_option (\<lambda>n. - int n) (digit_prefix None cs)
          else if c = CHR ''+'' then map_option int (digit_prefix None cs)
          else map_option int (digit_prefix None t))"

definition asInteger :: "jsval \<Rightarrow> int \<Rightarrow> int \<Rightarrow> int \<Rightarrow> int" where
  "asInteger value fallback mn mx =
     (case parseInt (js_string (coalesce value (JStr []))) of
        None \<Rightarrow> fallback
      | Some parsed \<Rightarrow> max mn (min mx parsed))"

text \<open>
  \<open>loadEnvFile\<close> on the text of the file: \<open>env\<close> is \<open>process.env\<close>, and a variable that is
  already set is left alone. Lines end with a line feed, or a carriage return and a line feed.
\<close>

fun split_lines :: "string \<Rightarrow> string \<Rightarrow> string list" where
  "split_lines cur [] = [rev cur]"
| "split_lines cur [c] = (if c = CHR 0x0A then [rev cur, []] else [rev (c # cur)])"
| "split_lines cur (c # d # cs) =
     (if c = CHR 0x0A then rev cur # split_lines [] (d # cs)
      else if c = CHR 0x0D \<and> d = CHR 0x0A then rev cur # split_lines [] cs
      else split_lines (c # cur) (d # cs))"

definition unquote :: "string \<Rightarrow> string" where
  "unquote v =
     (if (starts_with v [CHR 0x22] \<and> ends_with v [CHR 0x22]) \<or> (starts_with v [CHR 0x27] \<and> ends_with v [CHR 0x27])
      then take (length v - 2) (drop 1 v) else v)"

definition env_line :: "string \<Rightarrow> (string \<times> string) option" where
  "env_line rawLine =
     (let line = trim rawLine; name = takeWhile (\<lambda>c. c \<noteq> CHR ''='') line in
      if line = [] \<or> starts_with line ''#'' then None
      else if length name = length line \<or> name = [] then None
      else Some (trim name, unquote (trim (drop (Suc (length name)) line))))"

definition load_env_line :: "string \<Rightarrow> (string \<times> string) list \<Rightarrow> (string \<times> string) list" where
  "load_env_line rawLine env =
     (case env_line rawLine of
        None \<Rightarrow> env
      | Some (key, value) \<Rightarrow> if map_of env key = None then AList.update key value env else env)"

definition loadEnvFile :: "string option \<Rightarrow> (string \<times> string) list \<Rightarrow> (string \<times> string) list" where
  "loadEnvFile content env =
     (case content of None \<Rightarrow> env | Some text \<Rightarrow> fold load_env_line (split_lines [] text) env)"

record fingerprint =
  fp_sha256 :: string
  fp_bytes :: int

definition sameFileFingerprint :: "fingerprint option \<Rightarrow> fingerprint option \<Rightarrow> bool" where
  "sameFileFingerprint l r =
     (case (l, r) of
        (Some a, Some b) \<Rightarrow> fp_sha256 a = fp_sha256 b \<and> fp_bytes a = fp_bytes b
      | (None, None) \<Rightarrow> True
      | _ \<Rightarrow> False)"

subsection \<open>Lemmas\<close>

lemma patternMatches_refl [simp]: "patternMatches p p"
  by (simp add: patternMatches_def Let_def)

lemma anyPatternMatches_iff: "anyPatternMatches ps c \<longleftrightarrow> (\<exists>p \<in> set ps. patternMatches p c)"
  by (simp add: anyPatternMatches_def list_ex_iff)

text \<open>A star never crosses a directory separator: slashes are matched one for one.\<close>

definition slashes :: "string \<Rightarrow> nat" where
  "slashes s = length (filter (\<lambda>c. c = CHR ''/'') s)"

lemma slashes_simps [simp]:
  "slashes [] = 0" "slashes (c # s) = (if c = CHR ''/'' then Suc (slashes s) else slashes s)"
  by (simp_all add: slashes_def)

definition token_slashes :: "glob_token list \<Rightarrow> nat" where
  "token_slashes ts = length (filter (\<lambda>t. t = Lit (CHR ''/'')) ts)"

lemma token_slashes_simps [simp]:
  "token_slashes [] = 0" "token_slashes (Lit c # ts) = (if c = CHR ''/'' then Suc (token_slashes ts) else token_slashes ts)"
  "token_slashes (Seg # ts) = token_slashes ts" "token_slashes (Any # ts) = token_slashes ts"
  by (simp_all add: token_slashes_def)

lemma glob_no_any_slashes: "glob ts s \<Longrightarrow> Any \<notin> set ts \<Longrightarrow> slashes s = token_slashes ts"
  by (induction ts s rule: glob.induct) auto

lemma glob_tokens_slashes: "token_slashes (glob_tokens p) = slashes p"
  by (induction p rule: glob_tokens.induct) auto

lemma glob_append_literal: "glob (map Lit p @ ts) (p @ s) \<longleftrightarrow> glob ts s"
  by (induction p) auto

lemma slug_char_dash [simp]: "slug_char (CHR ''-'')"
  by (simp add: slug_char_def)

lemma dash_runs_chars: "c \<in> set (dash_runs b s) \<Longrightarrow> slug_char c"
  by (induction b s rule: dash_runs.induct) (auto split: if_splits)

lemma set_strip_dashes: "set (strip_dashes s) \<subseteq> set s"
  by (auto simp: strip_dashes_def dest!: set_dropWhileD)

lemma asInteger_bounds:
  "mn \<le> mx \<Longrightarrow> mn \<le> fallback \<Longrightarrow> fallback \<le> mx \<Longrightarrow>
   mn \<le> asInteger v fallback mn mx \<and> asInteger v fallback mn mx \<le> mx"
  by (auto simp: asInteger_def split: option.splits)

text \<open>An inline option binds its key to the part of the value before the next equals sign.\<close>

lemma split2_inline:
  "CHR ''='' \<notin> set k \<Longrightarrow> split2 (k @ CHR ''='' # v) = (k, Some (takeWhile (\<lambda>c. c \<noteq> CHR ''='') v))"
  by (simp add: split2_def Let_def takeWhile_append dropWhile_append)

lemma parseArgs_inline:
  assumes "CHR ''='' \<notin> set k"
  shows "get (named (parseArgs [''--'' @ k @ CHR ''='' # v])) (camel k)
    = JStr (takeWhile (\<lambda>c. c \<noteq> CHR ''='') v)"
  using split2_inline[OF assms, of v] by (simp add: parseArgs_def starts_with_def)

lemma load_env_line_keeps: "map_of env k = Some v \<Longrightarrow> map_of (load_env_line l env) k = Some v"
  by (auto simp: load_env_line_def split: option.splits)

lemma fold_env_keeps: "map_of env k = Some v \<Longrightarrow> map_of (fold load_env_line ls env) k = Some v"
  by (induction ls arbitrary: env) (auto simp: load_env_line_keeps)

lemma glob_tokens_any: "Any \<in> set (glob_tokens p) \<Longrightarrow> \<exists>a b. p = a @ ''**'' @ b"
proof (induction p rule: glob_tokens.induct)
  case (3 c d cs)
  show ?case
  proof (cases "c = CHR ''*'' \<and> d = CHR ''*''")
    case True
    then have "c # d # cs = [] @ ''**'' @ cs" by simp
    then show ?thesis by blast
  next
    case False
    with 3 obtain a b where "d # cs = a @ ''**'' @ b" by (auto split: if_splits)
    then have "c # d # cs = (c # a) @ ''**'' @ b" by simp
    then show ?thesis by blast
  qed
qed (auto split: if_splits)

lemma double_star_suffix: "ends_with p ''/**'' \<Longrightarrow> \<exists>a b. p = a @ ''**'' @ b"
proof -
  assume "ends_with p ''/**''"
  then have "p = (take (length p - 3) p @ ''/'') @ ''**'' @ []"
    by (metis append.right_neutral append_Cons append_Nil append_assoc append_take_drop_id ends_with_def length_Cons
        list.size(3) numeral_3_eq_3)
  then show ?thesis by blast
qed

text \<open>A pattern without a double star stays at its depth. Whenever such a pattern matches a path,
  the path has as many directory separators as the pattern: a single star never crosses a separator, so an
  owned-path pattern such as \<open>src/*\<close> grants nothing below \<open>src/lib/\<close>.\<close>

theorem star_stays_in_directory:
  assumes "patternMatches pattern candidate" and "\<nexists>a b. clean_path pattern = a @ ''**'' @ b"
  shows "slashes (clean_path candidate) = slashes (clean_path pattern)"
proof (cases "clean_path pattern = clean_path candidate")
  case False
  with assms double_star_suffix have "glob (glob_tokens (clean_path pattern)) (clean_path candidate)"
    unfolding patternMatches_def Let_def by metis
  moreover have "Any \<notin> set (glob_tokens (clean_path pattern))" using assms(2) glob_tokens_any by blast
  ultimately show ?thesis using glob_no_any_slashes glob_tokens_slashes by metis
qed simp

theorem star_stays_in_directory_witness:
  "patternMatches ''src/*.js'' ''src/a.js'' \<and> slashes (clean_path ''src/a.js'') = slashes (clean_path ''src/*.js'')"
proof -
  have m: "patternMatches ''src/*.js'' ''src/a.js''"
    by (simp add: patternMatches_def clean_path_def starts_with_def ends_with_def)
  have c: "clean_path ''src/*.js'' = ''src/*.js''" by (simp add: clean_path_def starts_with_def)
  have "Any \<notin> set (glob_tokens ''src/*.js'')" by simp
  have "\<nexists>a b. ''src/*.js'' = a @ ''**'' @ b"
    by (auto simp: append_eq_Cons_conv Cons_eq_append_conv)
  with m c star_stays_in_directory[of "''src/*.js''" "''src/a.js''"] show ?thesis by simp
qed

end
