(* ===== verification/Contracts.thy ===== *)
theory Contracts
  imports RunInvariants Utils
begin

text \<open>
  \<^verbatim>\<open>.agents/runtime/event-driven-contracts.mjs\<close>: the message envelope, the task status
  classes, the workspace path guard, the canonical fingerprint and the dependency predicates the
  scheduler uses. A column that stores JSON text is represented by the value the text encodes. Paths
  are POSIX paths; \<open>cwd\<close> is the working directory \<open>resolve\<close> starts from.
\<close>

subsection \<open>Message envelopes\<close>

definition AGENT_RUNTIME_SCHEMA_VERSION :: string where
  "AGENT_RUNTIME_SCHEMA_VERSION = ''agent-runtime-envelope/v1''"

definition AGENT_RUNTIME_MESSAGE_KINDS :: "string list" where
  "AGENT_RUNTIME_MESSAGE_KINDS =
    [''agent.run.reconcile.v1'', ''agent.task.execute.v1'', ''agent.task.prefetch.v1'',
     ''agent.execution.finished.v1'', ''agent.workspace.cleanup.v1'', ''agent.continuation.wake.v1'']"

definition tasklessKinds :: "string list" where
  "tasklessKinds = [''agent.run.reconcile.v1'', ''agent.continuation.wake.v1'']"

definition kind_in :: "jsval \<Rightarrow> string list \<Rightarrow> bool" where
  "kind_in k ks \<longleftrightarrow> (case k of JStr s \<Rightarrow> s \<in> set ks | _ \<Rightarrow> False)"

definition assertAgentRuntimeEnvelope :: "jsval \<Rightarrow> jsval res" where
  "assertAgentRuntimeEnvelope envelope =
     (let kind = field envelope ''kind'' in
      if \<not> truthy envelope \<or> field envelope ''schemaVersion'' \<noteq> JStr AGENT_RUNTIME_SCHEMA_VERSION then
        Inl ''agent_runtime_envelope_version_invalid''
      else if \<not> kind_in kind AGENT_RUNTIME_MESSAGE_KINDS then
        Inl (''agent_runtime_message_kind_invalid:'' @ js_string (coalesce kind (JStr ''missing'')))
      else if compact (field envelope ''messageId'') = [] \<or> compact (field envelope ''runId'') = [] then
        Inl ''agent_runtime_envelope_identity_missing''
      else if (case js_number (field envelope ''dispatchGeneration'') of None \<Rightarrow> True | Some n \<Rightarrow> n < 0) then
        Inl ''agent_runtime_dispatch_generation_invalid''
      else if \<not> kind_in kind tasklessKinds \<and> compact (field envelope ''taskId'') = [] then
        Inl ''agent_runtime_task_identity_missing''
      else if kind = JStr ''agent.continuation.wake.v1''
          \<and> (compact (field envelope ''continuationId'') = [] \<or> compact (field envelope ''deliveryId'') = []
             \<or> compact (field envelope ''effectKey'') = []) then
        Inl ''agent_runtime_continuation_identity_missing''
      else Inr envelope)"

definition runtimeRoutingKey :: "string \<Rightarrow> string res" where
  "runtimeRoutingKey kind =
     (case map_of
        [(''agent.run.reconcile.v1'', ''scheduler.reconcile''),
         (''agent.task.execute.v1'', ''task.execute''),
         (''agent.task.prefetch.v1'', ''task.prefetch''),
         (''agent.execution.finished.v1'', ''execution.finished''),
         (''agent.workspace.cleanup.v1'', ''workspace.cleanup''),
         (''agent.continuation.wake.v1'', ''continuation.wake'')] kind of
        None \<Rightarrow> Inl (''agent_runtime_message_kind_invalid:'' @ kind)
      | Some suffix \<Rightarrow> Inr suffix)"

subsection \<open>Task status classes and dependencies\<close>

definition TERMINAL_TASK_STATUSES :: "string list" where
  "TERMINAL_TASK_STATUSES = [''integrated'', ''verified'', ''failed'', ''blocked'', ''cancelled'']"

definition SUCCESS_TASK_STATUSES :: "string list" where
  "SUCCESS_TASK_STATUSES = [''integrated'', ''verified'']"

definition status_in :: "jsval \<Rightarrow> string list \<Rightarrow> bool" where
  "status_in v ss \<longleftrightarrow> (case v of JStr s \<Rightarrow> s \<in> set ss | _ \<Rightarrow> False)"

definition task_dependencies :: "obj \<Rightarrow> jsval list" where
  "task_dependencies row = elements (coalesce (get row ''dependencies_json'') (JArr []))"

definition state_of :: "(jsval \<times> jsval) list \<Rightarrow> jsval \<Rightarrow> jsval" where
  "state_of states d = (case map_of states d of None \<Rightarrow> JUndef | Some v \<Rightarrow> v)"

definition dependenciesSatisfied :: "obj \<Rightarrow> (jsval \<times> jsval) list \<Rightarrow> bool" where
  "dependenciesSatisfied row states \<longleftrightarrow>
     list_all (\<lambda>d. status_in (state_of states d) SUCCESS_TASK_STATUSES) (task_dependencies row)"

definition dependenciesFailed :: "obj \<Rightarrow> (jsval \<times> jsval) list \<Rightarrow> bool" where
  "dependenciesFailed row states \<longleftrightarrow>
     list_ex (\<lambda>d. status_in (state_of states d) [''failed'', ''blocked'', ''cancelled'']) (task_dependencies row)"

definition toUpperCase :: "string \<Rightarrow> string" where
  "toUpperCase = map (\<lambda>c. let n = of_char c :: nat in if 97 \<le> n \<and> n \<le> 122 then char_of (n - 32) else c)"

text \<open>The code is compared with ASCII constants only, so upper case mapping matters on ASCII letters only.\<close>

definition isTransientWorkspaceCleanupError :: "jsval \<Rightarrow> bool" where
  "isTransientWorkspaceCleanupError err \<longleftrightarrow>
     toUpperCase (js_string (coalesce (field err ''code'') (JStr [])))
       \<in> {''EBUSY'', ''EPERM'', ''ENOTEMPTY'', ''EACCES''}"

subsection \<open>Canonical JSON and fingerprints\<close>

text \<open>\<open>JSON.stringify\<close>: strings are quoted, properties that are undefined are left out.\<close>

definition hex_digit :: "nat \<Rightarrow> char" where
  "hex_digit n = (if n < 10 then char_of (48 + n) else char_of (87 + n))"

definition quote_char :: "char \<Rightarrow> string" where
  "quote_char c = (let n = of_char c :: nat in
     if n = 34 then [CHR 0x5C, CHR 0x22]
     else if n = 92 then [CHR 0x5C, CHR 0x5C]
     else if n = 8 then [CHR 0x5C, CHR ''b'']
     else if n = 9 then [CHR 0x5C, CHR ''t'']
     else if n = 10 then [CHR 0x5C, CHR ''n'']
     else if n = 12 then [CHR 0x5C, CHR ''f'']
     else if n = 13 then [CHR 0x5C, CHR ''r'']
     else if n < 32 then [CHR 0x5C, CHR ''u'', CHR ''0'', CHR ''0'', hex_digit (n div 16), hex_digit (n mod 16)]
     else [c])"

definition quote :: "string \<Rightarrow> string" where
  "quote s = [CHR 0x22] @ concat (map quote_char s) @ [CHR 0x22]"

fun json_text :: "jsval \<Rightarrow> string" where
  "json_text JUndef = ''null''"
| "json_text JNull = ''null''"
| "json_text (JBool b) = (if b then ''true'' else ''false'')"
| "json_text (JNum n) = int_string n"
| "json_text (JStr s) = quote s"
| "json_text (JArr xs) = ''['' @ join '','' (map json_text xs) @ '']''"
| "json_text (JObj ps) =
     ''{'' @ join '','' (map (\<lambda>(k, v). quote k @ '':'' @ json_text v) (filter (\<lambda>(k, v). v \<noteq> JUndef) ps)) @ ''}''"

text \<open>\<open>JSON.parse(JSON.stringify(v))\<close>: undefined properties disappear, undefined elements become null.\<close>

fun clone :: "jsval \<Rightarrow> jsval" where
  "clone (JArr xs) = JArr (map (\<lambda>x. if x = JUndef then JNull else clone x) xs)"
| "clone (JObj ps) = JObj (map (\<lambda>(k, v). (k, clone v)) (filter (\<lambda>(k, v). v \<noteq> JUndef) ps))"
| "clone v = v"

fun canonicalJsonValue :: "jsval \<Rightarrow> jsval" where
  "canonicalJsonValue (JArr xs) = JArr (map canonicalJsonValue xs)"
| "canonicalJsonValue (JObj ps) = JObj (sort_key fst (map (\<lambda>(k, v). (k, canonicalJsonValue v)) ps))"
| "canonicalJsonValue v = v"

definition stableFingerprint :: "env \<Rightarrow> jsval \<Rightarrow> string" where
  "stableFingerprint e value = ''sha256:'' @ sha256 e (json_text (canonicalJsonValue value))"

subsection \<open>Workspace paths\<close>

fun split_path :: "string \<Rightarrow> string \<Rightarrow> string list" where
  "split_path acc [] = [rev acc]"
| "split_path acc (c # cs) = (if c = CHR ''/'' then rev acc # split_path [] cs else split_path (c # acc) cs)"

fun norm_segments :: "string list \<Rightarrow> string list \<Rightarrow> string list" where
  "norm_segments acc [] = acc"
| "norm_segments acc (s # ss) =
     (if s = [] \<or> s = ''.'' then norm_segments acc ss
      else if s = ''..'' then norm_segments (butlast acc) ss
      else norm_segments (acc @ [s]) ss)"

definition resolve_segments :: "string list \<Rightarrow> string \<Rightarrow> string list" where
  "resolve_segments cwd p =
     norm_segments (if starts_with p ''/'' then [] else cwd) (split_path [] p)"

fun relative_segments :: "string list \<Rightarrow> string list \<Rightarrow> string list" where
  "relative_segments (a # as) (b # bs) =
     (if a = b then relative_segments as bs else replicate (length (a # as)) ''..'' @ (b # bs))"
| "relative_segments as bs = replicate (length as) ''..'' @ bs"

definition path_string :: "string list \<Rightarrow> string" where
  "path_string segs = ''/'' @ join ''/'' segs"

definition assertWorkspaceOutsideRepository :: "string list \<Rightarrow> string \<Rightarrow> string \<Rightarrow> string res" where
  "assertWorkspaceOutsideRepository cwd repositoryRoot workspacePath =
     (let root = resolve_segments cwd repositoryRoot;
          workspace = resolve_segments cwd workspacePath;
          rel = join ''/'' (relative_segments root workspace)
      in if rel = [] \<or> (\<not> starts_with rel ''..'' \<and> \<not> starts_with rel ''/'') then
           Inl (''agent_runtime_workspace_nested_in_repository:'' @ path_string workspace)
         else Inr (path_string workspace))"

definition resolveAgentWorkspaceRoot :: "string list \<Rightarrow> string \<Rightarrow> jsval \<Rightarrow> string list" where
  "resolveAgentWorkspaceRoot cwd repositoryRoot configuredRoot =
     (let configured = compact configuredRoot; normalizedRepositoryRoot = resolve_segments cwd repositoryRoot in
      if configured \<noteq> [] then resolve_segments cwd configured
      else butlast normalizedRepositoryRoot @ [''.agentic-harness-agent-workspaces'']
        @ (if normalizedRepositoryRoot = [] then [] else [last normalizedRepositoryRoot]))"

subsection \<open>Lemmas\<close>

lemma status_in_JStr [simp]: "status_in (JStr s) ss \<longleftrightarrow> s \<in> set ss"
  by (simp add: status_in_def)

lemma status_in_simps [simp]:
  "\<not> status_in JUndef ss" "\<not> status_in JNull ss" "\<not> status_in (JNum n) ss" "\<not> status_in (JBool b) ss"
  by (simp_all add: status_in_def)

text \<open>A satisfied task has no failed dependency.\<close>

lemma satisfied_not_failed: "dependenciesSatisfied row states \<Longrightarrow> \<not> dependenciesFailed row states"
  by (auto simp: dependenciesSatisfied_def dependenciesFailed_def list_all_iff list_ex_iff
      SUCCESS_TASK_STATUSES_def status_in_def split: jsval.splits)

text \<open>An accepted envelope can be routed, and it carries the identities its consumers read.\<close>

lemma routing_total: "s \<in> set AGENT_RUNTIME_MESSAGE_KINDS \<Longrightarrow> is_ok (runtimeRoutingKey s)"
  by (auto simp: AGENT_RUNTIME_MESSAGE_KINDS_def runtimeRoutingKey_def is_ok_def)

lemma routing_only: "is_ok (runtimeRoutingKey s) \<Longrightarrow> s \<in> set AGENT_RUNTIME_MESSAGE_KINDS"
  by (auto simp: AGENT_RUNTIME_MESSAGE_KINDS_def runtimeRoutingKey_def is_ok_def split: if_splits)

lemma envelope_ok:
  assumes "assertAgentRuntimeEnvelope v = Inr w"
  shows "w = v" and "\<exists>k. field v ''kind'' = JStr k \<and> k \<in> set AGENT_RUNTIME_MESSAGE_KINDS"
    and "compact (field v ''messageId'') \<noteq> []" and "compact (field v ''runId'') \<noteq> []"
    and "\<exists>n. js_number (field v ''dispatchGeneration'') = Some n \<and> 0 \<le> n"
    and "field v ''kind'' \<notin> JStr ` set tasklessKinds \<Longrightarrow> compact (field v ''taskId'') \<noteq> []"
  using assms
  by (auto simp: assertAgentRuntimeEnvelope_def Let_def kind_in_def split: if_splits jsval.splits option.splits)

lemma sort_key_map_fst:
  "sort_key fst (map (\<lambda>(k, v). (k, f v)) ps) = map (\<lambda>(k, v). (k, f v)) (sort_key fst ps)"
proof -
  have "insort_key fst (k, f v) (map (\<lambda>(k, v). (k, f v)) qs)
      = map (\<lambda>(k, v). (k, f v)) (insort_key fst (k, v) qs)" for k v qs
    by (induction qs) auto
  note ins = this
  show ?thesis by (induction ps) (auto simp: ins)
qed

text \<open>Objects with the same properties have one canonical form, whatever the insertion order.\<close>

lemma canonical_perm:
  assumes "distinct (map fst ps)" and "mset ps = mset qs"
  shows "canonicalJsonValue (JObj ps) = canonicalJsonValue (JObj qs)"
proof -
  have "mset (map fst ps) = mset (map fst qs)" using assms(2) by (simp only: mset_map)
  then have dq: "distinct (map fst qs)" using assms(1) by (metis mset_eq_imp_distinct_iff)
  have perm: "set ps = set qs" using assms(2) by (rule mset_eq_setD)
  have dist: "distinct (map fst (sort_key fst xs))" if "distinct (map fst xs)" for xs :: "(string \<times> jsval) list"
    using that by (metis mset_eq_imp_distinct_iff mset_map mset_sort)
  have "sort_key fst ps = sort_key fst qs"
    by (rule map_sorted_distinct_set_unique[where f = fst])
      (use assms(1) dq perm dist in \<open>auto simp: distinct_map\<close>)
  then show ?thesis by (simp add: sort_key_map_fst)
qed

lemma canonical_idem: "canonicalJsonValue (canonicalJsonValue v) = canonicalJsonValue v"
proof (induction v)
  case (JObj ps)
  have "map (\<lambda>(k, v). (k, canonicalJsonValue v)) (map (\<lambda>(k, v). (k, canonicalJsonValue v)) ps)
      = map (\<lambda>(k, v). (k, canonicalJsonValue v)) ps" (is "map ?f (map ?f ps) = _")
    using JObj by (auto simp: case_prod_beta)
  then have "sort_key fst (map ?f (sort_key fst (map ?f ps))) = sort_key fst (sort_key fst (map ?f ps))"
    by (simp only: sort_key_map_fst[symmetric])
  then show ?case by (simp add: sort_key_id_if_sorted)
qed auto

text \<open>Which relative paths start with two dots.\<close>

lemma join_Cons: "join sep (x # xs) = (if xs = [] then x else x @ sep @ join sep xs)"
  by (cases xs) auto

lemma starts_with_join:
  "length p \<le> length x \<Longrightarrow> starts_with (join sep (x # xs)) p \<longleftrightarrow> starts_with x p"
  by (cases xs) (auto simp: starts_with_def)

lemma relative_nested: "relative_segments root (root @ ws) = ws"
proof (induction root)
  case Nil
  show ?case by (cases ws) auto
qed auto

lemma relative_outside:
  "\<not> (\<exists>ws. w = root @ ws) \<Longrightarrow> \<exists>us. relative_segments root w = ''..'' # us"
  by (induction root w rule: relative_segments.induct) (auto simp: neq_Nil_conv)

definition segment :: "string \<Rightarrow> bool" where
  "segment s \<longleftrightarrow> s \<noteq> [] \<and> CHR ''/'' \<notin> set s"

lemma split_path_no_slash:
  "CHR ''/'' \<notin> set acc \<Longrightarrow> s \<in> set (split_path acc p) \<Longrightarrow> CHR ''/'' \<notin> set s"
  by (induction acc p rule: split_path.induct) (auto split: if_splits)

lemma list_all_butlast: "list_all P xs \<Longrightarrow> list_all P (butlast xs)"
  by (simp add: list_all_iff) (blast dest: in_set_butlastD)

lemma norm_segments_segment:
  "list_all segment acc \<Longrightarrow> \<forall>s \<in> set ss. CHR ''/'' \<notin> set s \<Longrightarrow> list_all segment (norm_segments acc ss)"
proof (induction acc ss rule: norm_segments.induct)
  case (2 acc s ss)
  consider (skip) "s = [] \<or> s = ''.''" | (up) "s = ''..''" | (push) "\<not> (s = [] \<or> s = ''.'')" "s \<noteq> ''..''"
    by blast
  then show ?case
  proof cases
    case skip
    with 2 show ?thesis by auto
  next
    case up
    with 2 show ?thesis by (simp add: list_all_butlast)
  next
    case push
    with 2 show ?thesis by (simp add: segment_def)
  qed
qed simp

lemma resolve_segments_segment: "list_all segment cwd \<Longrightarrow> list_all segment (resolve_segments cwd p)"
  unfolding resolve_segments_def
proof (rule norm_segments_segment)
  show "\<forall>s \<in> set (split_path [] p). CHR ''/'' \<notin> set s"
    using split_path_no_slash[of "[]"] by simp
qed simp

text \<open>The workspace guard accepts exactly the workspaces that do not lie inside the repository,
  except that a workspace inside the repository is accepted when the first path segment below the root
  begins with two dots.\<close>

theorem workspace_guard_iff:
  assumes "list_all segment cwd"
  shows "is_ok (assertWorkspaceOutsideRepository cwd repositoryRoot workspacePath) \<longleftrightarrow>
    \<not> (\<exists>below. resolve_segments cwd workspacePath = resolve_segments cwd repositoryRoot @ below)
    \<or> (\<exists>s below. resolve_segments cwd workspacePath = resolve_segments cwd repositoryRoot @ s # below
         \<and> starts_with s ''..'')"
proof -
  let ?root = "resolve_segments cwd repositoryRoot" and ?w = "resolve_segments cwd workspacePath"
  have seg: "list_all segment ?w" using assms by (rule resolve_segments_segment)
  show ?thesis
  proof (cases "\<exists>below. ?w = ?root @ below")
    case True
    then obtain ws where w: "?w = ?root @ ws" ..
    have rel: "relative_segments ?root ?w = ws" by (simp add: w relative_nested)
    show ?thesis
    proof (cases ws)
      case Nil
      with w rel show ?thesis
        by (auto simp: assertWorkspaceOutsideRepository_def Let_def is_ok_def)
    next
      case (Cons s us)
      from seg w Cons have "s \<noteq> []" and "CHR ''/'' \<notin> set s" by (auto simp: segment_def)
      then obtain c cs where s: "s = c # cs" "c \<noteq> CHR ''/''" by (cases s) auto
      then have "\<not> starts_with (join ''/'' ws) ''/''" "join ''/'' ws \<noteq> []"
        using Cons by (auto simp: join_Cons starts_with_def)
      moreover have "starts_with (join ''/'' ws) ''..'' \<longleftrightarrow> starts_with s ''..''"
        using Cons s by (cases us; cases cs) (auto simp: starts_with_def)
      ultimately show ?thesis using rel w Cons
        by (auto simp: assertWorkspaceOutsideRepository_def Let_def is_ok_def)
    qed
  next
    case False
    then obtain us where "relative_segments ?root ?w = ''..'' # us" using relative_outside by blast
    then have "starts_with (join ''/'' (relative_segments ?root ?w)) ''..''"
      "join ''/'' (relative_segments ?root ?w) \<noteq> []"
      by (auto simp: join_Cons starts_with_def)
    with False show ?thesis
      by (auto simp: assertWorkspaceOutsideRepository_def Let_def is_ok_def)
  qed
qed

text \<open>A workspace nested in the repository passes the guard.\<close>

theorem workspace_guard_iff_witness:
  "list_all segment []
   \<and> is_ok (assertWorkspaceOutsideRepository [] ''/repo'' ''/repo/..cache/run-1'')
   \<and> resolve_segments [] ''/repo/..cache/run-1'' = resolve_segments [] ''/repo'' @ [''..cache'', ''run-1'']"
proof -
  have "resolve_segments [] ''/repo/..cache/run-1'' = resolve_segments [] ''/repo'' @ ''..cache'' # [''run-1'']"
    by (simp add: resolve_segments_def starts_with_def)
  moreover have "starts_with ''..cache'' ''..''" by (simp add: starts_with_def)
  ultimately show ?thesis
    using workspace_guard_iff[of "[]" "''/repo''" "''/repo/..cache/run-1''"] by auto
qed

text \<open>An accepted envelope can be handled. Whatever \<open>assertAgentRuntimeEnvelope\<close> accepts is the
  envelope itself, has a kind that \<open>runtimeRoutingKey\<close> routes, a message and a run identity, a
  non-negative generation, and a task identity unless its kind has none.\<close>

theorem accepted_envelope_routable:
  assumes "assertAgentRuntimeEnvelope envelope = Inr accepted"
  shows "accepted = envelope
    \<and> (\<exists>kind. field envelope ''kind'' = JStr kind \<and> is_ok (runtimeRoutingKey kind)
         \<and> (kind \<in> set tasklessKinds \<or> compact (field envelope ''taskId'') \<noteq> []))
    \<and> compact (field envelope ''messageId'') \<noteq> [] \<and> compact (field envelope ''runId'') \<noteq> []
    \<and> (\<exists>n. js_number (field envelope ''dispatchGeneration'') = Some n \<and> 0 \<le> n)"
proof -
  note ok = envelope_ok[OF assms]
  from ok(2) obtain k where k: "field envelope ''kind'' = JStr k" "k \<in> set AGENT_RUNTIME_MESSAGE_KINDS" by blast
  then have "k \<in> set tasklessKinds \<or> compact (field envelope ''taskId'') \<noteq> []" using ok(6) by auto
  with k ok(1,3,4,5) routing_total show ?thesis by blast
qed

theorem accepted_envelope_routable_witness:
  "\<exists>kind. field (JObj [(''schemaVersion'', JStr AGENT_RUNTIME_SCHEMA_VERSION), (''kind'', JStr ''agent.run.reconcile.v1''),
      (''messageId'', JStr ''m''), (''runId'', JStr ''r''), (''dispatchGeneration'', JNum 0)]) ''kind'' = JStr kind
    \<and> is_ok (runtimeRoutingKey kind)"
proof -
  have "assertAgentRuntimeEnvelope (JObj [(''schemaVersion'', JStr AGENT_RUNTIME_SCHEMA_VERSION),
      (''kind'', JStr ''agent.run.reconcile.v1''), (''messageId'', JStr ''m''), (''runId'', JStr ''r''),
      (''dispatchGeneration'', JNum 0)])
    = Inr (JObj [(''schemaVersion'', JStr AGENT_RUNTIME_SCHEMA_VERSION), (''kind'', JStr ''agent.run.reconcile.v1''),
      (''messageId'', JStr ''m''), (''runId'', JStr ''r''), (''dispatchGeneration'', JNum 0)])"
    by (simp add: assertAgentRuntimeEnvelope_def kind_in_def AGENT_RUNTIME_MESSAGE_KINDS_def tasklessKinds_def
        compact_def trim_def is_space_def)
  from accepted_envelope_routable[OF this] show ?thesis by blast
qed



end
