(* ===== verification/Continuation.thy ===== *)
theory Continuation
  imports Contracts
begin

text \<open>
  \<^verbatim>\<open>.agents/runtime/continuation.mjs\<close> and the message identity of
  \<^verbatim>\<open>.agents/runtime/session-adapter.mjs\<close>: which run statuses wake a parked session, the
  effect key that identifies one wake, the prompt, and the OpenCode message identifier whose first
  twelve hexadecimal digits carry the creation time. The identifier's 48-bit mask is kept.
\<close>

definition AGENT_CONTINUATION_SCHEMA_VERSION :: string where
  "AGENT_CONTINUATION_SCHEMA_VERSION = ''agent-continuation/v2''"

definition AGENT_CONTINUATION_DELIVERY_SCHEMA_VERSION :: string where
  "AGENT_CONTINUATION_DELIVERY_SCHEMA_VERSION = ''agent-continuation-delivery/v1''"

definition CONTINUATION_WAKE_EVENTS :: "string list" where
  "CONTINUATION_WAKE_EVENTS = [''run.completed'', ''run.failed'', ''run.blocked'', ''run.cancelled'']"

definition RUN_STATUS_EVENT :: "(string \<times> string) list" where
  "RUN_STATUS_EVENT =
    [(''closed'', ''run.completed''), (''failed'', ''run.failed''), (''blocked'', ''run.blocked''),
     (''cancelled'', ''run.cancelled'')]"

definition normalizeContinuationWakeEvents :: "jsval \<Rightarrow> string list res" where
  "normalizeContinuationWakeEvents value =
     (let requested = (case value of
            JArr xs \<Rightarrow> if xs \<noteq> [] then map js_string xs else CONTINUATION_WAKE_EVENTS
          | _ \<Rightarrow> CONTINUATION_WAKE_EVENTS);
          normalized = uniq (filter (\<lambda>s. s \<noteq> []) (map trim requested));
          invalid = filter (\<lambda>s. s \<notin> set CONTINUATION_WAKE_EVENTS) normalized
      in if invalid \<noteq> [] then Inl (''agent_continuation_wake_event_invalid:'' @ join '','' invalid)
         else Inr normalized)"

definition runStatusToContinuationEvent :: "jsval \<Rightarrow> string option" where
  "runStatusToContinuationEvent status = map_of RUN_STATUS_EVENT (compact status)"

definition buildContinuationEffectKey :: "env \<Rightarrow> string \<Rightarrow> string \<Rightarrow> string \<Rightarrow> string \<Rightarrow> string" where
  "buildContinuationEffectKey e continuationId runId terminalOccurrenceKey eventType =
     ''sha256:'' @ sha256 e (json_text (canonicalJsonValue (JObj
       [(''schemaVersion'', JStr AGENT_CONTINUATION_DELIVERY_SCHEMA_VERSION),
        (''continuationId'', JStr continuationId),
        (''runId'', JStr runId),
        (''terminalOccurrenceKey'', JStr terminalOccurrenceKey),
        (''eventType'', JStr eventType)])))"

definition buildContinuationPrompt :: "string \<Rightarrow> string \<Rightarrow> string \<Rightarrow> int \<Rightarrow> string" where
  "buildContinuationPrompt runId eventType effectKey generation = join [CHR 0x0A]
    [''Agentic Harness Runtime V2 continuation event.'',
     [],
     ''runId: '' @ runId,
     ''event: '' @ eventType,
     ''continuationGeneration: '' @ int_string generation,
     ''clip-continuation-effect: '' @ effectKey,
     [],
     ''The authoritative Runtime V2 state changed while this session was parked.'',
     ''Call context-engine agent_summary exactly once with runId '' @ runId
       @ '', then continue the original user conversation from that authoritative state.'',
     ''If this run is terminal, give the user the final outcome for the original request and end this resumed assistant turn. Do not re-enter delivery for the same completed request.'',
     ''Do not call agent_start again for this same run/request. A distinct follow-up Runtime run is allowed only when the original user request explicitly requires a separate subsequent delivery operation.'',
     ''Call context_efficiency with this runId only when the original user request explicitly requires run-scoped performance/token evidence.'',
     ''Do not call agent_wait, agent_status, or agent_progress merely to rediscover this already-delivered terminal event.'',
     ''External qualification, fault injection, promotion gates, and harness verdicts are owned by the host qualification controller, not by this resumed user-facing turn.'']"

definition continuationPromptFingerprint :: "env \<Rightarrow> string \<Rightarrow> string" where
  "continuationPromptFingerprint e prompt = ''sha256:'' @ sha256 e prompt"

subsection \<open>OpenCode message identifiers\<close>

definition hex_value :: "char \<Rightarrow> nat option" where
  "hex_value c = (let n = of_char c :: nat in
     if 48 \<le> n \<and> n \<le> 57 then Some (n - 48)
     else if 97 \<le> n \<and> n \<le> 102 then Some (n - 87)
     else if 65 \<le> n \<and> n \<le> 70 then Some (n - 55)
     else None)"

fun hex_nat :: "nat \<Rightarrow> string \<Rightarrow> nat" where
  "hex_nat acc [] = acc"
| "hex_nat acc (c # cs) = hex_nat (16 * acc + (case hex_value c of None \<Rightarrow> 0 | Some d \<Rightarrow> d)) cs"

text \<open>\<open>x.toString(16).padStart(w, "0")\<close> for a value below \<open>16 ^ w\<close>.\<close>

fun hex_padded :: "nat \<Rightarrow> nat \<Rightarrow> string" where
  "hex_padded 0 x = []"
| "hex_padded (Suc w) x = hex_padded w (x div 16) @ [hex_digit (x mod 16)]"

definition BASE62 :: string where
  "BASE62 = ''0123456789ABCDEFGHIJKLMNOPQRSTUVWXYZabcdefghijklmnopqrstuvwxyz''"

text \<open>The loop prepends one digit per round, so it writes the \<open>len\<close> low digits in base 62.\<close>

fun deterministicBase62 :: "nat \<Rightarrow> nat \<Rightarrow> string" where
  "deterministicBase62 x 0 = []"
| "deterministicBase62 x (Suc len) = deterministicBase62 (x div 62) len @ [BASE62 ! (x mod 62)]"

definition message_counter :: "string \<Rightarrow> nat" where
  "message_counter digest = hex_nat 0 (take 3 digest) mod 0xfff + 1"

definition message_time :: "nat \<Rightarrow> nat \<Rightarrow> nat" where
  "message_time timestamp counter = (timestamp * 0x1000 + counter) mod 2 ^ 48"

definition buildOpenCodeSessionMessageId :: "env \<Rightarrow> string \<Rightarrow> string \<Rightarrow> string res" where
  "buildOpenCodeSessionMessageId e effectKey createdAt =
     (let digest = sha256 e effectKey in
      case parse_date e createdAt of
        None \<Rightarrow> Inl ''agent_continuation_created_at_invalid''
      | Some timestamp \<Rightarrow>
          if timestamp < 0 then Inl ''agent_continuation_created_at_invalid''
          else Inr (''msg_'' @ hex_padded 12 (message_time (nat timestamp) (message_counter digest))
                    @ deterministicBase62 (hex_nat 0 (drop 3 digest)) 14))"

subsection \<open>Lemmas\<close>

lemma runStatus_event_terminal:
  "runStatusToContinuationEvent (JStr s) = Some ev \<Longrightarrow> trim s = s \<Longrightarrow> isTerminalRunStatus (JStr s)"
  by (auto simp: runStatusToContinuationEvent_def RUN_STATUS_EVENT_def compact_def
      isTerminalRunStatus_def TERMINAL_RUN_STATUSES_def split: if_splits)

lemma runStatus_event_wakes:
  "runStatusToContinuationEvent v = Some ev \<Longrightarrow> ev \<in> set CONTINUATION_WAKE_EVENTS"
  by (auto simp: runStatusToContinuationEvent_def RUN_STATUS_EVENT_def CONTINUATION_WAKE_EVENTS_def
      split: if_splits)

lemma normalizeWake_ok:
  assumes "normalizeContinuationWakeEvents v = Inr evs"
  shows "set evs \<subseteq> set CONTINUATION_WAKE_EVENTS" and "distinct evs"
  using assms by (auto simp: normalizeContinuationWakeEvents_def Let_def filter_empty_conv split: if_splits)

lemma wake_events_trimmed: "s \<in> set CONTINUATION_WAKE_EVENTS \<Longrightarrow> trim s = s \<and> s \<noteq> []"
  by (auto simp: CONTINUATION_WAKE_EVENTS_def trim_def is_space_def)

text \<open>Normalising a normalised list of wake events changes nothing, so re-registration compares equal.\<close>

lemma normalizeWake_idem:
  assumes "normalizeContinuationWakeEvents v = Inr evs" and "evs \<noteq> []"
  shows "normalizeContinuationWakeEvents (JArr (map JStr evs)) = Inr evs"
proof -
  have sub: "set evs \<subseteq> set CONTINUATION_WAKE_EVENTS" and d: "distinct evs"
    using normalizeWake_ok[OF assms(1)] by auto
  have t: "map trim evs = evs" using sub wake_events_trimmed by (intro map_idI) auto
  have f: "filter (\<lambda>s. s \<noteq> []) evs = evs"
    using sub wake_events_trimmed by (intro filter_True) auto
  have n: "uniq (filter (\<lambda>s. s \<noteq> []) (map trim (map js_string (map JStr evs)))) = evs"
    by (simp add: comp_def t f uniq_id d)
  have v: "filter (\<lambda>s. s \<notin> set CONTINUATION_WAKE_EVENTS) evs = []"
    using sub by (auto simp: filter_empty_conv)
  from assms(2) have "map JStr evs \<noteq> []" by simp
  then show ?thesis
    by (simp add: normalizeContinuationWakeEvents_def n v Let_def del: map_map)
qed

text \<open>Zero-padded hexadecimal digits of one width compare as the numbers do.\<close>

lemma length_hex_padded [simp]: "length (hex_padded w x) = w"
  by (induction w arbitrary: x) auto

lemma hex_digit_mono: "a < b \<Longrightarrow> b < 16 \<Longrightarrow> hex_digit a < hex_digit b"
  by (auto simp: hex_digit_def less_char_def)

lemma less_append_same_length:
  fixes xs ys :: "'a::linorder list"
  shows "length xs = length ys \<Longrightarrow> xs < ys \<Longrightarrow> xs @ us < ys @ vs"
  by (induction xs ys rule: list_induct2) auto

lemma less_append_left:
  fixes xs :: "'a::linorder list"
  shows "us < vs \<Longrightarrow> xs @ us < xs @ vs"
  by (induction xs) auto

lemma hex_padded_mono: "x < y \<Longrightarrow> y < 16 ^ w \<Longrightarrow> hex_padded w x < hex_padded w y"
proof (induction w arbitrary: x y)
  case (Suc w)
  have y: "y div 16 < 16 ^ w" using Suc.prems(2) by (simp add: less_mult_imp_div_less mult.commute)
  show ?case
  proof (cases "x div 16 < y div 16")
    case True
    with Suc.IH y have "hex_padded w (x div 16) < hex_padded w (y div 16)" by blast
    then show ?thesis by (simp add: less_append_same_length)
  next
    case False
    with Suc.prems(1) have "x div 16 = y div 16" by (meson div_le_mono le_less_linear less_imp_le antisym)
    moreover from this Suc.prems(1) have "x mod 16 < y mod 16"
      by (metis div_mult_mod_eq nat_add_left_cancel_less)
    ultimately show ?thesis by (simp add: less_append_left hex_digit_mono)
  qed
qed simp

lemma message_counter_bounds: "1 \<le> message_counter d \<and> message_counter d < 0x1000"
proof -
  have "hex_nat 0 (take 3 d) mod 0xfff < 0xfff" by (rule mod_less_divisor) simp
  then show ?thesis unfolding message_counter_def by linarith
qed

lemma message_time_mono:
  assumes "t1 < t2" and "t1 div 2 ^ 36 = t2 div 2 ^ 36" and "c1 < 0x1000" and "c2 < 0x1000"
  shows "message_time t1 c1 < message_time t2 c2"
proof -
  let ?q = "t1 div 2 ^ 36"
  have t1: "t1 = ?q * 2 ^ 36 + t1 mod 2 ^ 36" and t2: "t2 = ?q * 2 ^ 36 + t2 mod 2 ^ 36"
    using assms(2) by (metis div_mult_mod_eq)+
  have lt: "t1 mod 2 ^ 36 < t2 mod 2 ^ 36" using assms(1) t1 t2 by linarith
  have b: "r * 0x1000 + c < 2 ^ 48" if "r < 2 ^ 36" "c < 0x1000" for r c :: nat
    using that by simp
  have m: "message_time t c = (t mod 2 ^ 36) * 0x1000 + c"
    if "t = ?q * 2 ^ 36 + t mod 2 ^ 36" "c < 0x1000" for t c
  proof -
    have "t * 0x1000 + c = ?q * 2 ^ 48 + ((t mod 2 ^ 36) * 0x1000 + c)" using that(1) by simp
    then have "message_time t c = ((t mod 2 ^ 36) * 0x1000 + c) mod 2 ^ 48"
      unfolding message_time_def by (metis mod_mult_self3)
    also have "\<dots> = (t mod 2 ^ 36) * 0x1000 + c"
      by (rule mod_less) (rule b, simp_all add: that(2))
    finally show ?thesis .
  qed
  show ?thesis using m[OF t1 assms(3)] m[OF t2 assms(4)] lt assms(3) by linarith
qed

lemma message_time_bound: "message_time t c < 16 ^ 12"
  by (simp add: message_time_def)


lemma message_id_Inr:
  "buildOpenCodeSessionMessageId e key at = Inr i \<longleftrightarrow>
     (\<exists>t. parse_date e at = Some t \<and> 0 \<le> t
        \<and> i = ''msg_'' @ hex_padded 12 (message_time (nat t) (message_counter (sha256 e key)))
               @ deterministicBase62 (hex_nat 0 (drop 3 (sha256 e key))) 14)"
  by (auto simp: buildOpenCodeSessionMessageId_def Let_def split: option.splits)

text \<open>Message identifiers sort by creation time. Within one period of \<open>2 ^ 36\<close> milliseconds
  (about two years) the identifier of a later creation time is greater as a string, whatever the
  effect keys are, so a session that orders messages by identifier orders the wakes by time.\<close>

theorem message_id_order:
  assumes "buildOpenCodeSessionMessageId e key1 at1 = Inr id1" and "buildOpenCodeSessionMessageId e key2 at2 = Inr id2"
    and "parse_date e at1 = Some t1" and "parse_date e at2 = Some t2"
    and "t1 < t2" and "t1 div 2 ^ 36 = t2 div 2 ^ 36"
  shows "id1 < id2"
proof -
  let ?c1 = "message_counter (sha256 e key1)" and ?c2 = "message_counter (sha256 e key2)"
  have pos: "0 \<le> t1" "0 \<le> t2" using assms by (auto simp: message_id_Inr)
  then have "nat t1 div 2 ^ 36 = nat t2 div 2 ^ 36"
    using assms(6) by (metis nat_div_distrib nat_numeral nat_power_eq zero_le_numeral)
  moreover have "nat t1 < nat t2" using assms(5) pos by simp
  ultimately have "message_time (nat t1) ?c1 < message_time (nat t2) ?c2"
    using message_counter_bounds by (intro message_time_mono) auto
  then have "hex_padded 12 (message_time (nat t1) ?c1) < hex_padded 12 (message_time (nat t2) ?c2)"
    by (rule hex_padded_mono) (rule message_time_bound)
  then show ?thesis
    using assms by (auto simp: message_id_Inr intro!: less_append_left less_append_same_length)
qed

theorem message_id_order_witness:
  "\<exists>id1 id2. buildOpenCodeSessionMessageId sample_env ''k'' ''9'' = Inr id1
     \<and> buildOpenCodeSessionMessageId sample_env ''k'' ''10'' = Inr id2 \<and> id1 < id2"
proof -
  have p: "parse_date sample_env ''9'' = Some 9" "parse_date sample_env ''10'' = Some 10"
    by (simp_all add: string_number_def trim_def is_space_def digit_value_def)
  then obtain id1 id2 where "buildOpenCodeSessionMessageId sample_env ''k'' ''9'' = Inr id1"
    "buildOpenCodeSessionMessageId sample_env ''k'' ''10'' = Inr id2"
    by (auto simp: message_id_Inr)
  with message_id_order[OF this p] show ?thesis by auto
qed

text \<open>The 48-bit mask lets the order wrap around. Creation times that are \<open>2 ^ 36\<close> milliseconds
  apart get the same time digits, so the order of identifiers says nothing across periods.\<close>

theorem message_id_wraps: "message_time (t + 2 ^ 36) c = message_time t c"
proof -
  have "(t + 2 ^ 36) * 0x1000 + c = (t * 0x1000 + c) + 2 ^ 48" by simp
  then show ?thesis unfolding message_time_def by (metis mod_add_self2)
qed

end
