(* ===== verification/MemStore.thy ===== *)
theory MemStore
  imports StateMonad Continuation
begin

text \<open>
  \<^verbatim>\<open>.agents/runtime/in-memory-test-store.mjs\<close>: the in-memory orchestration store, method
  by method. Its five maps and its event list are the fields of the record \<open>mem_store\<close>; rows are
  objects, and a column that holds JSON text holds the encoded value. \<open>ms_tick\<close> counts how often
  the host clock and the identifier generator have been read. \<open>ms_artifacts\<close> and
  \<open>ms_results\<close> are the optional collections \<open>this.artifacts\<close> and
  \<open>this.executionResults\<close> that a caller may attach. Methods that only project rows into
  reports are at the end of the definitions.
\<close>

record mem_store =
  ms_runs :: "(string \<times> obj) list"
  ms_tasks :: "(string \<times> obj) list"
  ms_events :: "obj list"
  ms_eventSequence :: int
  ms_continuations :: "(string \<times> obj) list"
  ms_deliveries :: "(string \<times> obj) list"
  ms_artifacts :: "obj list option"
  ms_results :: "obj list option"
  ms_tick :: nat

type_synonym 'a mem_m = "(mem_store, 'a) sm"

definition mem_init :: mem_store where
  "mem_init = \<lparr>ms_runs = [], ms_tasks = [], ms_events = [], ms_eventSequence = 0, ms_continuations = [],
    ms_deliveries = [], ms_artifacts = None, ms_results = None, ms_tick = 0\<rparr>"

subsection \<open>Host readings and rows\<close>

definition mem_now :: "env \<Rightarrow> string mem_m" where
  "mem_now e s = (Inr (clock e (ms_tick s)), s\<lparr>ms_tick := Suc (ms_tick s)\<rparr>)"

definition put_run :: "string \<Rightarrow> obj \<Rightarrow> unit mem_m" where
  "put_run k row = modifyM (\<lambda>s. s\<lparr>ms_runs := AList.update k row (ms_runs s)\<rparr>)"

definition put_task :: "string \<Rightarrow> obj \<Rightarrow> unit mem_m" where
  "put_task k row = modifyM (\<lambda>s. s\<lparr>ms_tasks := AList.update k row (ms_tasks s)\<rparr>)"

definition put_continuation :: "string \<Rightarrow> obj \<Rightarrow> unit mem_m" where
  "put_continuation k row = modifyM (\<lambda>s. s\<lparr>ms_continuations := AList.update k row (ms_continuations s)\<rparr>)"

definition put_delivery :: "string \<Rightarrow> obj \<Rightarrow> unit mem_m" where
  "put_delivery k row = modifyM (\<lambda>s. s\<lparr>ms_deliveries := AList.update k row (ms_deliveries s)\<rparr>)"

text \<open>\<open>row.column += 1\<close> on a number column.\<close>

definition incr :: "jsval \<Rightarrow> jsval" where
  "incr v = (case v of JNum n \<Rightarrow> JNum (n + 1) | _ \<Rightarrow> JUndef)"

definition bump_version :: "obj \<Rightarrow> obj" where
  "bump_version row = AList.update ''state_version'' (incr (get row ''state_version'')) row"

definition or_null :: "string \<Rightarrow> jsval" where
  "or_null s = (if s = [] then JNull else JStr s)"

subsection \<open>Events\<close>

definition push_event :: "obj \<Rightarrow> unit mem_m" where
  "push_event row = modifyM (\<lambda>s. s\<lparr>ms_events := ms_events s @ [row], ms_eventSequence := ms_eventSequence s + 1\<rparr>)"

definition event_row :: "string \<Rightarrow> int \<Rightarrow> string \<Rightarrow> jsval \<Rightarrow> string \<Rightarrow> jsval \<Rightarrow> string \<Rightarrow> obj" where
  "event_row eventId sequence runId taskId eventType payload createdAt =
     [(''event_id'', JStr eventId), (''event_sequence'', JNum sequence), (''run_id'', JStr runId),
      (''task_id'', coalesce taskId JNull), (''event_type'', JStr eventType), (''payload_json'', payload),
      (''created_at'', JStr createdAt)]"

definition mem_event :: "env \<Rightarrow> string \<Rightarrow> jsval \<Rightarrow> string \<Rightarrow> jsval \<Rightarrow> obj mem_m" where
  "mem_event e runId taskId eventType payload =
     bindM (getsM (\<lambda>s. (ms_tick s, ms_eventSequence s + 1))) (\<lambda>(n, sequence).
     bindM (mem_now e) (\<lambda>at.
     let row = event_row (''event-'' @ uuid e n) sequence runId taskId eventType payload at in
     seqM (push_event row) (returnM row)))"

definition effect_event_id :: "env \<Rightarrow> jsval \<Rightarrow> string" where
  "effect_event_id e effectKey = ''event-effect-'' @ take 40 (sha256 e (js_string effectKey))"

record event_once_result =
  eo_inserted :: bool
  eo_eventId :: string
  eo_row :: obj

text \<open>
  \<open>payload\<close> is an object, \<open>effectKey\<close> the argument after its default
  \<open>payload?.effectKey ?? null\<close> has been taken. Without a key the method is \<open>event\<close>.
\<close>

definition mem_eventOnce :: "env \<Rightarrow> string \<Rightarrow> jsval \<Rightarrow> string \<Rightarrow> obj \<Rightarrow> jsval \<Rightarrow> (obj + event_once_result) mem_m" where
  "mem_eventOnce e runId taskId eventType payload effectKey =
     (if \<not> truthy effectKey then bindM (mem_event e runId taskId eventType (JObj payload)) (\<lambda>row. returnM (Inl row))
      else
        let eventId = effect_event_id e effectKey in
        bindM (getsM (\<lambda>s. (find (\<lambda>ev. get ev ''event_id'' = JStr eventId) (ms_events s), ms_eventSequence s + 1)))
          (\<lambda>(existing, sequence).
          case existing of
            Some ev \<Rightarrow> returnM (Inr \<lparr>eo_inserted = False, eo_eventId = eventId, eo_row = ev\<rparr>)
          | None \<Rightarrow>
              bindM (mem_now e) (\<lambda>at.
              let row = event_row eventId sequence runId taskId eventType
                    (JObj (AList.update ''effectKey'' effectKey payload)) at in
              seqM (push_event row)
                (returnM (Inr \<lparr>eo_inserted = True, eo_eventId = eventId, eo_row = row\<rparr>)))))"

subsection \<open>Continuations\<close>

definition delivery_id_for :: "env \<Rightarrow> string \<Rightarrow> string" where
  "delivery_id_for e effectKey = ''continuation-delivery-'' @ take 32 (sha256 e effectKey)"

definition delivery_row :: "env \<Rightarrow> obj \<Rightarrow> string \<Rightarrow> int \<Rightarrow> string \<Rightarrow> string \<Rightarrow> string \<Rightarrow> string \<Rightarrow> string \<Rightarrow> obj" where
  "delivery_row e cont runId generation eventType terminalOccurrenceKey effectKey messageId createdAt =
     (let prompt = buildContinuationPrompt runId eventType effectKey generation in
      [(''delivery_id'', JStr (delivery_id_for e effectKey)),
       (''continuation_id'', get cont ''continuation_id''),
       (''run_id'', JStr runId),
       (''schema_version'', JStr AGENT_CONTINUATION_DELIVERY_SCHEMA_VERSION),
       (''generation'', JNum generation),
       (''event_type'', JStr eventType),
       (''terminal_occurrence_key'', JStr terminalOccurrenceKey),
       (''effect_key'', JStr effectKey),
       (''opencode_message_id'', JStr messageId),
       (''prompt_text'', JStr prompt),
       (''prompt_sha256'', JStr (continuationPromptFingerprint e prompt)),
       (''status'', JStr ''pending''),
       (''attempts'', JNum 0),
       (''created_at'', JStr createdAt),
       (''updated_at'', JStr createdAt)])"

definition woken :: "obj \<Rightarrow> int \<Rightarrow> string \<Rightarrow> string \<Rightarrow> obj" where
  "woken cont generation deliveryId at = assign cont
     [(''status'', JStr ''wake_pending''), (''generation'', JNum generation),
      (''current_delivery_id'', JStr deliveryId), (''updated_at'', JStr at)]"

text \<open>The part of \<open>materializeContinuationWake\<close> after the effect key is known to be new.\<close>

definition mem_create_wake :: "env \<Rightarrow> string \<Rightarrow> obj \<Rightarrow> string \<Rightarrow> string \<Rightarrow> string \<Rightarrow> (obj \<times> bool) option mem_m" where
  "mem_create_wake e runId cont eventType terminalOccurrenceKey effectKey =
     (let generation = num_or 0 (get cont ''generation'') + 1; deliveryId = delivery_id_for e effectKey in
      bindM (mem_now e) (\<lambda>createdAt.
      bindM (liftR (buildMessageId e (js_string (coalesce (get cont ''session_adapter_id'') (JStr ''opencode'')))
               effectKey createdAt)) (\<lambda>messageId.
      let delivery = delivery_row e cont runId generation eventType terminalOccurrenceKey effectKey messageId createdAt in
      seqM (put_delivery deliveryId delivery)
      (seqM (put_continuation runId (woken cont generation deliveryId createdAt))
      (seqM (mem_event e runId JNull ''continuation.wake_materialized'' (JObj
         [(''continuationId'', get cont ''continuation_id''), (''deliveryId'', JStr deliveryId),
          (''effectKey'', JStr effectKey), (''eventType'', JStr eventType), (''generation'', JNum generation)]))
       (returnM (Some (delivery, True))))))))"

definition wake_key :: "env \<Rightarrow> string \<Rightarrow> obj \<Rightarrow> obj \<Rightarrow> string \<Rightarrow> string" where
  "wake_key e runId cont run eventType =
     buildContinuationEffectKey e (js_string (get cont ''continuation_id'')) runId
       (''completed-at:'' @ js_string (get run ''completed_at'')) eventType"

definition find_effect :: "string \<Rightarrow> (string \<times> obj) list \<Rightarrow> obj option" where
  "find_effect effectKey deliveries = find (\<lambda>d. get d ''effect_key'' = JStr effectKey) (map snd deliveries)"

text \<open>The event a run would wake its session with, when every guard of the method lets it.\<close>

definition wake_event :: "obj \<Rightarrow> obj \<Rightarrow> jsval \<Rightarrow> string option" where
  "wake_event cont run status =
     (if get cont ''status'' = JStr ''cancelled'' then None
      else if \<not> nullish status \<and> status \<noteq> get run ''status'' then None
      else case runStatusToContinuationEvent (get run ''status'') of
        None \<Rightarrow> None
      | Some eventType \<Rightarrow>
          if JStr eventType \<in> set (elements (get cont ''wake_events_json'')) then Some eventType else None)"

definition mem_materializeContinuationWake :: "env \<Rightarrow> string \<Rightarrow> jsval \<Rightarrow> (obj \<times> bool) option mem_m" where
  "mem_materializeContinuationWake e runId status =
     bindM (getsM (\<lambda>s. (map_of (ms_continuations s) runId, map_of (ms_runs s) runId, ms_deliveries s)))
       (\<lambda>(continuation, run, deliveries).
     case (continuation, run) of
       (Some cont, Some r) \<Rightarrow>
         (case wake_event cont r status of
            None \<Rightarrow> returnM None
          | Some eventType \<Rightarrow>
              seqM (guardM (truthy (get r ''completed_at''))
                      (''agent_continuation_terminal_completed_at_missing:'' @ runId))
                (case find_effect (wake_key e runId cont r eventType) deliveries of
                   Some existing \<Rightarrow> returnM (Some (existing, False))
                 | None \<Rightarrow>
                     mem_create_wake e runId cont eventType (''completed-at:'' @ js_string (get r ''completed_at''))
                       (wake_key e runId cont r eventType)))
     | _ \<Rightarrow> returnM None)"

definition same_registration :: "obj \<Rightarrow> jsval \<Rightarrow> string list \<Rightarrow> string \<Rightarrow> string \<Rightarrow> string \<Rightarrow> jsval \<Rightarrow> jsval \<Rightarrow> bool" where
  "same_registration existing registration wakeEvents agentId providerId modelId variant sourceMessageId \<longleftrightarrow>
     coalesce (get existing ''session_adapter_id'') (JStr ''opencode'')
       = coalesce (field registration ''adapterId'') (JStr ''opencode'')
     \<and> get existing ''opencode_session_id'' = field registration ''sessionId''
     \<and> get existing ''opencode_server_url'' = field registration ''serverUrl''
     \<and> coalesce (get existing ''opencode_directory'') JNull = coalesce (field registration ''directory'') JNull
     \<and> get existing ''wake_events_json'' = JArr (map JStr wakeEvents)
     \<and> get existing ''session_agent_id'' = JStr agentId
     \<and> get existing ''session_provider_id'' = JStr providerId
     \<and> get existing ''session_model_id'' = JStr modelId
     \<and> coalesce (get existing ''session_model_variant'') JNull = variant
     \<and> coalesce (get existing ''session_prompt_message_id'') JNull = sourceMessageId"

definition continuation_id_for :: "env \<Rightarrow> string \<Rightarrow> jsval \<Rightarrow> string" where
  "continuation_id_for e runId registration =
     ''agent-continuation-'' @ take 32 (sha256 e (runId @ ''|''
        @ js_string (coalesce (field registration ''adapterId'') (JStr ''opencode'')) @ ''|''
        @ js_string (field registration ''sessionId'')))"

definition mem_registerContinuation :: "env \<Rightarrow> string \<Rightarrow> jsval \<Rightarrow> obj option mem_m" where
  "mem_registerContinuation e runId registration =
     (if \<not> truthy registration then returnM None
      else
        bindM (getsM (\<lambda>s. (map_of (ms_continuations s) runId, map_of (ms_runs s) runId))) (\<lambda>(existing, run).
        bindM (liftR (normalizeContinuationWakeEvents (field registration ''wakeOn''))) (\<lambda>wakeEvents.
        let ident = field registration ''promptIdentity'';
            agentId = compact (field ident ''agentId'');
            providerId = compact (field ident ''providerId'');
            modelId = compact (field ident ''modelId'');
            variant = or_null (compact (field ident ''variant''));
            sourceMessageId = or_null (compact (field ident ''sourceMessageId'')) in
        seqM (guardM (agentId \<noteq> [] \<and> providerId \<noteq> [] \<and> modelId \<noteq> []) ''agent_continuation_prompt_identity_required'')
        (seqM (guardM (case existing of
                  None \<Rightarrow> True
                | Some ex \<Rightarrow> get ex ''generation'' = JNum 0 \<and> get ex ''status'' = JStr ''parked''
                    \<and> same_registration ex registration wakeEvents agentId providerId modelId variant sourceMessageId)
                (''agent_continuation_rebind_not_allowed:'' @ runId))
        (bindM (mem_now e) (\<lambda>createdAt.
        let row =
              [(''continuation_id'', JStr (continuation_id_for e runId registration)),
               (''run_id'', JStr runId),
               (''schema_version'', JStr AGENT_CONTINUATION_SCHEMA_VERSION),
               (''session_adapter_id'', coalesce (field registration ''adapterId'') (JStr ''opencode'')),
               (''opencode_session_id'', field registration ''sessionId''),
               (''opencode_server_url'', field registration ''serverUrl''),
               (''opencode_directory'', coalesce (field registration ''directory'') JNull),
               (''wake_events_json'', JArr (map JStr wakeEvents)),
               (''session_agent_id'', JStr agentId),
               (''session_provider_id'', JStr providerId),
               (''session_model_id'', JStr modelId),
               (''session_model_variant'', variant),
               (''session_prompt_message_id'', sourceMessageId),
               (''status'', JStr ''parked''),
               (''generation'', JNum 0),
               (''current_delivery_id'', JNull),
               (''created_at'', coalesce (case existing of None \<Rightarrow> JUndef | Some ex \<Rightarrow> get ex ''created_at'') (JStr createdAt)),
               (''updated_at'', JStr createdAt)] in
        seqM (put_continuation runId row)
        (seqM (mem_event e runId JNull ''continuation.parked'' (JObj
           [(''continuationId'', get row ''continuation_id''), (''adapterId'', get row ''session_adapter_id''),
            (''sessionId'', get row ''opencode_session_id''), (''opencodeSessionId'', get row ''opencode_session_id''),
            (''wakeOn'', get row ''wake_events_json'')]))
        (seqM (case run of
                 None \<Rightarrow> returnM ()
               | Some r \<Rightarrow>
                   whenM (runStatusToContinuationEvent (get r ''status'') \<noteq> None)
                     (seqM (mem_materializeContinuationWake e runId (get r ''status'')) (returnM ())))
          (getsM (\<lambda>s. map_of (ms_continuations s) runId))))))))))"

definition mem_getContinuation :: "string \<Rightarrow> mem_store \<Rightarrow> obj option" where
  "mem_getContinuation runId s = map_of (ms_continuations s) runId"

record cancel_result =
  cr_continuationId :: "jsval option"
  cr_cancelled :: bool
  cr_reason :: "string option"
  cr_deadDeliveries :: nat

definition deadable :: "jsval \<Rightarrow> obj \<Rightarrow> bool" where
  "deadable continuationId d \<longleftrightarrow>
     get d ''continuation_id'' = continuationId \<and> status_in (get d ''status'') [''pending'', ''claimed'', ''deferred'']
     \<and> \<not> (truthy (get d ''accepted_at'') \<or> truthy (get d ''observed_at''))"

definition dead_delivery :: "string \<Rightarrow> string \<Rightarrow> obj \<Rightarrow> obj" where
  "dead_delivery at reason d = assign d
     [(''status'', JStr ''dead''), (''completed_at'', coalesce (get d ''completed_at'') (JStr at)),
      (''updated_at'', JStr at),
      (''last_error'', coalesce (get d ''last_error'') (JStr (''continuation_cancelled:'' @ reason)))]"

definition kill_deliveries :: "jsval \<Rightarrow> string \<Rightarrow> string \<Rightarrow> (string \<times> obj) list \<Rightarrow> (string \<times> obj) list" where
  "kill_deliveries cid at reason = map (\<lambda>(k, d). (k, if deadable cid d then dead_delivery at reason d else d))"

definition mem_cancelContinuation :: "env \<Rightarrow> string \<Rightarrow> string \<Rightarrow> cancel_result mem_m" where
  "mem_cancelContinuation e runId reason =
     bindM (getsM (\<lambda>s. map_of (ms_continuations s) runId)) (\<lambda>continuation.
     case continuation of
       None \<Rightarrow> returnM \<lparr>cr_continuationId = None, cr_cancelled = False,
                 cr_reason = Some ''continuation_not_bound'', cr_deadDeliveries = 0\<rparr>
     | Some cont \<Rightarrow>
         if get cont ''status'' = JStr ''cancelled'' then
           returnM \<lparr>cr_continuationId = Some (get cont ''continuation_id''), cr_cancelled = False,
                    cr_reason = Some ''already_cancelled'', cr_deadDeliveries = 0\<rparr>
         else
           bindM (mem_now e) (\<lambda>at.
           let cid = get cont ''continuation_id'' in
           seqM (put_continuation runId (assign cont
             [(''status'', JStr ''cancelled''), (''cancelled_at'', coalesce (get cont ''cancelled_at'') (JStr at)),
              (''updated_at'', JStr at)]))
           (bindM (getsM (\<lambda>s. length (filter (deadable cid) (map snd (ms_deliveries s))))) (\<lambda>deadDeliveries.
           seqM (modifyM (\<lambda>s. s\<lparr>ms_deliveries := kill_deliveries cid at reason (ms_deliveries s)\<rparr>))
           (seqM (mem_event e runId JNull ''continuation.cancelled'' (JObj
              [(''continuationId'', cid), (''reason'', JStr reason), (''deadDeliveries'', JNum (int deadDeliveries))]))
            (returnM \<lparr>cr_continuationId = Some cid, cr_cancelled = True, cr_reason = None,
                      cr_deadDeliveries = deadDeliveries\<rparr>))))))"

text \<open>\<open>limit\<close> is the argument after \<open>Number(limit) || 200\<close>.\<close>

definition mem_repairTerminalContinuationWakes :: "env \<Rightarrow> int \<Rightarrow> jsval list mem_m" where
  "mem_repairTerminalContinuationWakes e limit =
     bindM (getsM (\<lambda>s. take (nat (max 1 limit)) (map snd (ms_runs s)))) (\<lambda>runs.
     collectM (\<lambda>run.
       if runStatusToContinuationEvent (get run ''status'') = None then returnM None
       else bindM (mem_materializeContinuationWake e (js_string (get run ''run_id'')) (get run ''status'')) (\<lambda>outcome.
         returnM (case outcome of
             Some (delivery, True) \<Rightarrow> Some (get delivery ''delivery_id'')
           | _ \<Rightarrow> None))) runs)"

subsection \<open>Runs, tasks and plans\<close>

definition task_row :: "string \<Rightarrow> jsval \<Rightarrow> obj \<Rightarrow> obj" where
  "task_row runId task options =
     [(''task_id'', field task ''taskId''), (''run_id'', JStr runId), (''agent_id'', field task ''agentId''),
      (''role'', field task ''role''), (''status'', JStr ''routed''), (''attempt'', JNum 0),
      (''max_attempts'', coalesce (get options ''maxAttempts'') (JNum 3)),
      (''dependencies_json'', coalesce (field task ''dependencies'') (JArr [])),
      (''owned_paths_json'', coalesce (field task ''ownedPaths'') (JArr [])),
      (''reasoning_level'', coalesce (field task ''reasoningLevel'') JNull),
      (''reasoning_source'', coalesce (get options ''reasoningSource'') JNull),
      (''state_version'', JNum 0), (''activity_version'', JNum 0)]"

definition task_key :: "jsval \<Rightarrow> string" where
  "task_key task = js_string (field task ''taskId'')"

definition mem_insertTask :: "string \<Rightarrow> jsval \<Rightarrow> obj \<Rightarrow> obj option mem_m" where
  "mem_insertTask runId task options =
     bindM (getsM (\<lambda>s. map_of (ms_tasks s) (task_key task))) (\<lambda>existing.
     case existing of
       Some _ \<Rightarrow> returnM None
     | None \<Rightarrow> seqM (put_task (task_key task) (task_row runId task options)) (returnM (Some (task_row runId task options))))"

definition run_row :: "obj \<Rightarrow> obj \<Rightarrow> obj" where
  "run_row plan options =
     (let reasoning = get plan ''reasoning'' in
      [(''run_id'', get plan ''runId''), (''request'', get plan ''request''), (''status'', JStr ''routed''),
       (''plan_json'', JObj plan),
       (''executor'', coalesce (coalesce (get options ''executor'') (get options ''executorCommand'')) JNull),
       (''workspace_mode'', coalesce (get options ''workspaceMode'') JNull),
       (''max_parallel'', coalesce (get options ''maxParallel'') (JNum 1)),
       (''peak_parallel'', JNum 0), (''created_at'', get plan ''createdAt''),
       (''engine'', coalesce (get options ''engine'') (JStr ''dynamic-dag-v2'')),
       (''graph_version'', coalesce (get options ''graphVersion'') JNull),
       (''state_version'', JNum 0),
       (''reasoning_mode'', coalesce (field reasoning ''mode'') JNull),
       (''reasoning_source'', coalesce (field reasoning ''source'') JNull),
       (''initial_reasoning_level'', coalesce (field reasoning ''initialLevel'') JNull),
       (''reasoning_confidence'', coalesce (field reasoning ''confidence'') JNull)])"

definition plan_run_id :: "obj \<Rightarrow> string" where
  "plan_run_id plan = js_string (get plan ''runId'')"

definition mem_createRun :: "env \<Rightarrow> obj \<Rightarrow> obj \<Rightarrow> unit mem_m" where
  "mem_createRun e plan options =
     (let runId = plan_run_id plan; tasks = elements (get plan ''tasks''); workflow = get plan ''workflow'' in
      seqM (put_run runId (run_row plan options))
      (seqM (forM (\<lambda>task. seqM (mem_insertTask runId task options) (returnM ())) tasks)
      (seqM (whenM (truthy (get options ''continuation''))
               (seqM (mem_registerContinuation e runId (get options ''continuation'')) (returnM ())))
      (seqM (mem_event e runId JNull ''run.routed'' (JObj
         [(''taskCount'', JNum (int (length tasks))), (''maxParallel'', coalesce (get options ''maxParallel'') (JNum 1)),
          (''reasoning'', coalesce (get plan ''reasoning'') JNull),
          (''bootstrapReviewTopology'', coalesce (field workflow ''bootstrapReviewTopology'') JNull),
          (''bootstrapReviewDependencies'', coalesce (field workflow ''bootstrapReviewDependencies'') (JArr []))]))
       (returnM ())))))"

definition mem_addTasks :: "env \<Rightarrow> string \<Rightarrow> jsval list \<Rightarrow> obj \<Rightarrow> obj list mem_m" where
  "mem_addTasks e runId tasks options =
     bindM (collectM (\<lambda>task. mem_insertTask runId task options) tasks) (\<lambda>inserted.
     seqM (whenM (inserted \<noteq> [])
       (seqM (mem_event e runId JNull ''dag.tasks.materialized'' (JObj
          [(''taskIds'', JArr (map (\<lambda>t. get t ''task_id'') inserted))])) (returnM ())))
     (returnM inserted))"

text \<open>\<open>expectedVersion !== undefined && current.state_version !== expectedVersion\<close>\<close>

definition version_conflict :: "jsval \<Rightarrow> obj \<Rightarrow> bool" where
  "version_conflict expectedVersion row \<longleftrightarrow> expectedVersion \<noteq> JUndef \<and> get row ''state_version'' \<noteq> expectedVersion"

definition conflict_message :: "string \<Rightarrow> string \<Rightarrow> jsval \<Rightarrow> obj \<Rightarrow> string" where
  "conflict_message code ident expectedVersion row =
     code @ '':'' @ ident @ '':'' @ js_string expectedVersion @ '':'' @ js_string (get row ''state_version'')"

definition mem_replacePlan :: "env \<Rightarrow> string \<Rightarrow> obj \<Rightarrow> jsval \<Rightarrow> obj mem_m" where
  "mem_replacePlan e runId plan expectedVersion =
     bindM (getsM (\<lambda>s. map_of (ms_runs s) runId)) (\<lambda>current.
     case current of
       None \<Rightarrow> throwM (''run_not_found:'' @ runId)
     | Some cur \<Rightarrow>
         seqM (guardM (\<not> version_conflict expectedVersion cur)
                 (conflict_message ''agent_run_plan_version_conflict'' runId expectedVersion cur))
         (let row = bump_version (AList.update ''plan_json'' (JObj plan) cur) in
          seqM (put_run runId row)
          (seqM (mem_event e runId JNull ''dag.plan.replaced'' (JObj
             [(''phase'', get plan ''phase''), (''taskCount'', JNum (int (length (elements (get plan ''tasks'')))))]))
           (returnM row))))"

definition mem_updateRun :: "string \<Rightarrow> obj \<Rightarrow> jsval \<Rightarrow> obj option mem_m" where
  "mem_updateRun runId patch expectedVersion =
     bindM (getsM (\<lambda>s. map_of (ms_runs s) runId)) (\<lambda>current.
     case current of
       None \<Rightarrow> returnM None
     | Some cur \<Rightarrow>
         seqM (guardM (\<not> version_conflict expectedVersion cur)
                 (conflict_message ''agent_run_version_conflict'' runId expectedVersion cur))
         (seqM (liftR (assertTerminalRunPatch (Some cur) patch))
         (let row = bump_version (assign cur patch) in
          seqM (put_run runId row) (returnM (Some row)))))"

definition mem_updateTask :: "string \<Rightarrow> obj \<Rightarrow> jsval \<Rightarrow> obj option mem_m" where
  "mem_updateTask taskId patch expectedVersion =
     bindM (getsM (\<lambda>s. map_of (ms_tasks s) taskId)) (\<lambda>current.
     case current of
       None \<Rightarrow> returnM None
     | Some cur \<Rightarrow>
         seqM (guardM (\<not> version_conflict expectedVersion cur)
                 (conflict_message ''agent_task_version_conflict'' taskId expectedVersion cur))
         (let row = bump_version (assign cur patch) in
          seqM (put_task taskId row) (returnM (Some row))))"

definition mem_touchTask :: "string \<Rightarrow> obj option mem_m" where
  "mem_touchTask taskId =
     bindM (getsM (\<lambda>s. map_of (ms_tasks s) taskId)) (\<lambda>current.
     case current of
       None \<Rightarrow> returnM None
     | Some cur \<Rightarrow>
         (let row = bump_version (AList.update ''activity_version''
                (incr (coalesce (get cur ''activity_version'') (JNum 0))) cur) in
          seqM (put_task taskId row) (returnM (Some row))))"

subsection \<open>Bootstrap refinement, all or nothing\<close>

record refinement_options =
  ro_expectedVersion :: jsval
  ro_removedTaskIds :: "string list"
  ro_dependencyUpdates :: "(string \<times> jsval) list"
  ro_addedTasks :: "jsval list"
  ro_insert :: obj

definition row_in_run :: "string \<Rightarrow> string \<Rightarrow> obj \<Rightarrow> bool" where
  "row_in_run runId taskId row \<longleftrightarrow> get row ''run_id'' = JStr runId \<and> get row ''task_id'' = JStr taskId"

definition has_rows :: "string \<Rightarrow> string \<Rightarrow> obj list option \<Rightarrow> bool" where
  "has_rows runId taskId rows \<longleftrightarrow> (case rows of None \<Rightarrow> False | Some rs \<Rightarrow> list_ex (row_in_run runId taskId) rs)"

definition removal_unsafe :: "string \<Rightarrow> string \<Rightarrow> obj \<Rightarrow> mem_store \<Rightarrow> bool" where
  "removal_unsafe runId taskId task s \<longleftrightarrow>
     \<not> status_in (get task ''status'') [''routed'', ''retrying''] \<or> num_or 0 (get task ''attempt'') \<noteq> 0
     \<or> truthy (get task ''workspace_path'') \<or> has_rows runId taskId (ms_artifacts s)
     \<or> has_rows runId taskId (ms_results s)"

definition refinement_remove :: "string \<Rightarrow> string \<Rightarrow> unit mem_m" where
  "refinement_remove runId taskId =
     bindM (getsM (\<lambda>s. (map_of (ms_tasks s) taskId, s))) (\<lambda>(task, st).
     case task of
       None \<Rightarrow> throwM (''bootstrap_refinement_task_missing:'' @ taskId)
     | Some t \<Rightarrow>
         if get t ''run_id'' \<noteq> JStr runId then throwM (''bootstrap_refinement_task_missing:'' @ taskId)
         else seqM (guardM (\<not> removal_unsafe runId taskId t st)
                 (''bootstrap_refinement_task_removal_unsafe:'' @ taskId @ '':'' @ js_string (get t ''status'')))
           (modifyM (\<lambda>s. s\<lparr>ms_tasks := AList.delete taskId (ms_tasks s)\<rparr>)))"

definition refinement_rewire :: "string \<Rightarrow> string \<times> jsval \<Rightarrow> unit mem_m" where
  "refinement_rewire runId upd =
     bindM (getsM (\<lambda>s. map_of (ms_tasks s) (fst upd))) (\<lambda>task.
     case task of
       None \<Rightarrow> throwM (''bootstrap_refinement_task_missing:'' @ fst upd)
     | Some t \<Rightarrow>
         if get t ''run_id'' \<noteq> JStr runId then throwM (''bootstrap_refinement_task_missing:'' @ fst upd)
         else seqM (guardM (status_in (get t ''status'') [''routed'', ''retrying''])
                 (''bootstrap_refinement_task_already_started:'' @ fst upd @ '':'' @ js_string (get t ''status'')))
           (put_task (fst upd) (bump_version (AList.update ''dependencies_json'' (coalesce (snd upd) (JArr [])) t))))"

definition refinement_tasks :: "string \<Rightarrow> refinement_options \<Rightarrow> unit mem_m" where
  "refinement_tasks runId options =
     seqM (forM (refinement_remove runId) (ro_removedTaskIds options))
     (seqM (forM (refinement_rewire runId) (ro_dependencyUpdates options))
     (forM (\<lambda>task. seqM (mem_insertTask runId task (ro_insert options)) (returnM ())) (ro_addedTasks options)))"

definition refinement_commit :: "env \<Rightarrow> string \<Rightarrow> obj \<Rightarrow> refinement_options \<Rightarrow> obj \<Rightarrow> obj mem_m" where
  "refinement_commit e runId plan options cur =
     (let row = bump_version (AList.update ''plan_json'' (JObj plan) cur); workflow = get plan ''workflow'' in
      seqM (put_run runId row)
      (seqM (mem_event e runId JNull ''dag.bootstrap_refined'' (JObj
         [(''topologyRevision'', coalesce (field workflow ''bootstrapTopologyRevision'') JNull),
          (''authority'', coalesce (field workflow ''bootstrapTopologyAuthority'') JNull),
          (''addedTaskIds'', JArr (map (\<lambda>t. field t ''taskId'') (ro_addedTasks options))),
          (''removedTaskIds'', JArr (map JStr (ro_removedTaskIds options))),
          (''dependencyUpdates'', JArr (map (\<lambda>(t, d). JObj [(''taskId'', JStr t), (''dependencies'', d)])
              (ro_dependencyUpdates options)))]))
       (returnM row)))"

definition refinement_body :: "env \<Rightarrow> string \<Rightarrow> obj \<Rightarrow> refinement_options \<Rightarrow> obj mem_m" where
  "refinement_body e runId plan options =
     bindM (getsM (\<lambda>s. map_of (ms_runs s) runId)) (\<lambda>current.
     case current of
       None \<Rightarrow> throwM (''run_not_found:'' @ runId)
     | Some cur \<Rightarrow>
         seqM (guardM (\<not> version_conflict (ro_expectedVersion options) cur)
                 (conflict_message ''agent_run_plan_version_conflict'' runId (ro_expectedVersion options) cur))
         (seqM (refinement_tasks runId options) (refinement_commit e runId plan options cur)))"

text \<open>The \<open>catch\<close> block puts the run, the tasks and the event log back as they were.\<close>

definition refinement_restore :: "string \<Rightarrow> mem_store \<Rightarrow> mem_store \<Rightarrow> mem_store" where
  "refinement_restore runId before after = after\<lparr>
     ms_runs := (case map_of (ms_runs before) runId of
        Some snapshot \<Rightarrow> AList.update runId snapshot (ms_runs after)
      | None \<Rightarrow> AList.delete runId (ms_runs after)),
     ms_tasks := ms_tasks before,
     ms_events := take (length (ms_events before)) (ms_events after),
     ms_eventSequence := ms_eventSequence before\<rparr>"

definition mem_applyBootstrapPlanRefinement :: "env \<Rightarrow> string \<Rightarrow> obj \<Rightarrow> refinement_options \<Rightarrow> obj mem_m" where
  "mem_applyBootstrapPlanRefinement e runId plan options =
     restoreM (refinement_restore runId) (refinement_body e runId plan options)"

subsection \<open>Progress receipts\<close>

definition AGENT_RUNTIME_PROGRESS_RECEIPT_PREFIX :: string where
  "AGENT_RUNTIME_PROGRESS_RECEIPT_PREFIX = ''agent-progress-toast''"

definition progressReceiptEventId :: "env \<Rightarrow> jsval \<Rightarrow> string" where
  "progressReceiptEventId e sourceEventId =
     AGENT_RUNTIME_PROGRESS_RECEIPT_PREFIX @ ''-'' @ take 40 (sha256 e (js_string sourceEventId))"

definition has_event :: "string \<Rightarrow> mem_store \<Rightarrow> bool" where
  "has_event eventId s \<longleftrightarrow> list_ex (\<lambda>ev. get ev ''event_id'' = JStr eventId) (ms_events s)"

definition mem_hasProgressNotificationReceipt :: "env \<Rightarrow> jsval \<Rightarrow> mem_store \<Rightarrow> bool" where
  "mem_hasProgressNotificationReceipt e sourceEventId s \<longleftrightarrow> has_event (progressReceiptEventId e sourceEventId) s"

definition is_true :: "jsval \<Rightarrow> jsval" where
  "is_true v = JBool (v = JBool True)"

definition receipt_payload :: "obj \<Rightarrow> obj \<Rightarrow> jsval" where
  "receipt_payload sourceEvent metadata = JObj
     [(''sourceEventId'', get sourceEvent ''event_id''),
      (''sourceEventType'', get sourceEvent ''event_type''),
      (''reporterMode'', coalesce (get metadata ''reporterMode'') (JStr ''deterministic'')),
      (''reporterModel'', coalesce (get metadata ''reporterModel'') JNull),
      (''persistentSessionMessage'', is_true (get metadata ''persistentSessionMessage'')),
      (''toastDelivered'', is_true (get metadata ''toastDelivered'')),
      (''messageId'', coalesce (get metadata ''messageId'') JNull),
      (''coalescedToSourceEventId'', coalesce (get metadata ''coalescedToSourceEventId'') JNull),
      (''coalescedEventCount'',
         case js_number (coalesce (get metadata ''coalescedEventCount'') (JNum 1)) of Some n \<Rightarrow> JNum n | None \<Rightarrow> JNull),
      (''checkpointFingerprint'', coalesce (get metadata ''checkpointFingerprint'') JNull),
      (''equivalentCheckpoint'', is_true (get metadata ''equivalentCheckpoint''))]"

definition mem_recordProgressNotificationReceipt :: "env \<Rightarrow> obj \<Rightarrow> obj \<Rightarrow> bool mem_m" where
  "mem_recordProgressNotificationReceipt e sourceEvent metadata =
     (let eventId = progressReceiptEventId e (get sourceEvent ''event_id'') in
      bindM (getsM (\<lambda>s. (has_event eventId s, ms_eventSequence s + 1)))
        (\<lambda>(present, sequence).
        if present then returnM False
        else bindM (mem_now e) (\<lambda>at.
          seqM (push_event (event_row eventId sequence (js_string (get sourceEvent ''run_id''))
                  (get sourceEvent ''task_id'') ''progress.notification.sent''
                  (receipt_payload sourceEvent metadata) at))
            (returnM True))))"

subsection \<open>Reading methods\<close>

definition mem_getRun :: "string \<Rightarrow> mem_store \<Rightarrow> obj option" where
  "mem_getRun runId s = map_of (ms_runs s) runId"

definition mem_getTask :: "string \<Rightarrow> mem_store \<Rightarrow> obj option" where
  "mem_getTask taskId s = map_of (ms_tasks s) taskId"

definition mem_listTasks :: "string \<Rightarrow> mem_store \<Rightarrow> obj list" where
  "mem_listTasks runId s = filter (\<lambda>task. get task ''run_id'' = JStr runId) (map snd (ms_tasks s))"

text \<open>A stable insertion sort by a comparison function, as \<open>Array.prototype.sort\<close> promises.\<close>

fun insert_cmp :: "('a \<Rightarrow> 'a \<Rightarrow> int) \<Rightarrow> 'a \<Rightarrow> 'a list \<Rightarrow> 'a list" where
  "insert_cmp cmp x [] = [x]"
| "insert_cmp cmp x (y # ys) = (if cmp x y \<le> 0 then x # y # ys else y # insert_cmp cmp x ys)"

fun sort_cmp :: "('a \<Rightarrow> 'a \<Rightarrow> int) \<Rightarrow> 'a list \<Rightarrow> 'a list" where
  "sort_cmp cmp [] = []"
| "sort_cmp cmp (x # xs) = insert_cmp cmp x (sort_cmp cmp xs)"

definition newest_first :: "env \<Rightarrow> obj \<Rightarrow> obj \<Rightarrow> int" where
  "newest_first e left right =
     localeCompare e (js_string (get right ''created_at'')) (js_string (get left ''created_at''))"

definition mem_listRuns :: "env \<Rightarrow> nat \<Rightarrow> mem_store \<Rightarrow> obj list" where
  "mem_listRuns e limit s = take limit (sort_cmp (newest_first e) (map snd (ms_runs s)))"

definition mem_listRunnableRuns :: "env \<Rightarrow> nat \<Rightarrow> mem_store \<Rightarrow> obj list" where
  "mem_listRunnableRuns e limit s = filter (\<lambda>run. isActiveRunStatus (get run ''status'')) (mem_listRuns e limit s)"

definition continuation_of :: "mem_store \<Rightarrow> obj \<Rightarrow> obj option" where
  "continuation_of s run = map_of (ms_continuations s) (js_string (get run ''run_id''))"

definition bound_to :: "string \<Rightarrow> jsval \<Rightarrow> jsval \<Rightarrow> obj \<Rightarrow> bool" where
  "bound_to adapterId sessionId serverUrl cont \<longleftrightarrow>
     get cont ''status'' \<noteq> JStr ''cancelled''
     \<and> coalesce (get cont ''session_adapter_id'') (JStr ''opencode'') = JStr adapterId
     \<and> get cont ''opencode_session_id'' = sessionId \<and> get cont ''opencode_server_url'' = serverUrl"

definition mem_findActiveRunByContinuationTarget :: "env \<Rightarrow> string \<Rightarrow> jsval \<Rightarrow> jsval \<Rightarrow> mem_store \<Rightarrow> obj option" where
  "mem_findActiveRunByContinuationTarget e adapterId sessionId serverUrl s =
     (let matches = sort_cmp (\<lambda>a b. newest_first e (fst a) (fst b))
            (List.map_filter (\<lambda>run. case continuation_of s run of
                 Some cont \<Rightarrow> if bound_to adapterId sessionId serverUrl cont then Some (run, cont) else None
               | None \<Rightarrow> None)
              (filter (\<lambda>run. isActiveRunStatus (get run ''status'')) (map snd (ms_runs s)))) in
      case matches of
        [] \<Rightarrow> None
      | (run, cont) # _ \<Rightarrow> Some (assign run
          [(''continuation_id'', get cont ''continuation_id''), (''continuation_status'', get cont ''status'')]))"

definition mem_listContinuationDeliveries :: "string \<Rightarrow> mem_store \<Rightarrow> obj list" where
  "mem_listContinuationDeliveries runId s =
     sort_cmp (\<lambda>a b. num_or 0 (get a ''generation'') - num_or 0 (get b ''generation''))
       (filter (\<lambda>d. get d ''run_id'' = JStr runId) (map snd (ms_deliveries s)))"

definition delivery_view :: "obj \<Rightarrow> jsval" where
  "delivery_view d = JObj
     [(''deliveryId'', get d ''delivery_id''), (''generation'', get d ''generation''), (''event'', get d ''event_type''),
      (''effectKey'', get d ''effect_key''), (''sessionMessageId'', get d ''opencode_message_id''),
      (''opencodeMessageId'', get d ''opencode_message_id''), (''status'', get d ''status''),
      (''attempts'', get d ''attempts'')]"

definition mem_continuationState :: "string \<Rightarrow> mem_store \<Rightarrow> obj option" where
  "mem_continuationState runId s =
     (case map_of (ms_continuations s) runId of
        None \<Rightarrow> None
      | Some cont \<Rightarrow> Some
          [(''continuationId'', get cont ''continuation_id''), (''runId'', JStr runId),
           (''schemaVersion'', get cont ''schema_version''),
           (''adapterId'', coalesce (get cont ''session_adapter_id'') (JStr ''opencode'')),
           (''sessionId'', get cont ''opencode_session_id''), (''serverUrl'', get cont ''opencode_server_url''),
           (''opencodeSessionId'', get cont ''opencode_session_id''), (''directory'', get cont ''opencode_directory''),
           (''promptIdentity'', JObj
              [(''agentId'', get cont ''session_agent_id''), (''providerId'', get cont ''session_provider_id''),
               (''modelId'', get cont ''session_model_id''),
               (''variant'', coalesce (get cont ''session_model_variant'') JNull),
               (''sourceMessageId'', coalesce (get cont ''session_prompt_message_id'') JNull)]),
           (''wakeOn'', get cont ''wake_events_json''), (''status'', get cont ''status''),
           (''generation'', get cont ''generation''), (''currentDeliveryId'', get cont ''current_delivery_id''),
           (''deliveries'', JArr (map delivery_view (mem_listContinuationDeliveries runId s)))])"

definition mem_listEvents :: "string \<Rightarrow> mem_store \<Rightarrow> obj list" where
  "mem_listEvents runId s = filter (\<lambda>ev. get ev ''run_id'' = JStr runId) (ms_events s)"

definition mem_latestEvent :: "string \<Rightarrow> mem_store \<Rightarrow> obj option" where
  "mem_latestEvent runId s = (case rev (mem_listEvents runId s) of [] \<Rightarrow> None | ev # _ \<Rightarrow> Some ev)"

end
