(* ===== verification/MemStoreInv.thy ===== *)
theory MemStoreInv
  imports MemStore "HOL-Library.Sublist"
begin

text \<open>
  What the in-memory store keeps. \<open>mem_extends\<close> relates a state to every state its methods can
  lead to: an ended run keeps its status and its completion time, and the event log only grows.
  \<open>mem_inv\<close> is the representation invariant: the log is numbered without gaps, every map has
  one row per key, and a delivery is filed under the identifier derived from its effect key, so that
  one effect has at most one delivery. \<open>mem_step\<close> is one call of a method, \<open>mem_reaches\<close>
  any sequence of calls.
\<close>

subsection \<open>The relation between the state before and after\<close>

definition runs_kept :: "(string \<times> obj) list \<Rightarrow> (string \<times> obj) list \<Rightarrow> bool" where
  "runs_kept runs runs' \<longleftrightarrow>
     (\<forall>k row. map_of runs k = Some row \<longrightarrow> (\<exists>row'. map_of runs' k = Some row' \<and> run_kept row row'))"

definition mem_extends :: "mem_store \<Rightarrow> mem_store \<Rightarrow> bool" where
  "mem_extends s t \<longleftrightarrow> runs_kept (ms_runs s) (ms_runs t) \<and> prefix (ms_events s) (ms_events t)"

lemma runs_kept_refl [simp]: "runs_kept rs rs"
  by (simp add: runs_kept_def)

lemma runs_kept_trans:
  assumes "runs_kept a b" and "runs_kept b c"
  shows "runs_kept a c"
  unfolding runs_kept_def
proof (intro allI impI)
  fix k row
  assume "map_of a k = Some row"
  with assms(1) obtain row1 where 1: "map_of b k = Some row1" "run_kept row row1"
    unfolding runs_kept_def by blast
  with assms(2) obtain row2 where "map_of c k = Some row2" "run_kept row1 row2"
    unfolding runs_kept_def by blast
  with 1 show "\<exists>row'. map_of c k = Some row' \<and> run_kept row row'"
    by (blast intro: run_kept_trans)
qed

lemma runs_kept_update:
  "map_of rs k = Some cur \<Longrightarrow> run_kept cur row \<Longrightarrow> runs_kept rs (AList.update k row rs)"
  by (auto simp: runs_kept_def)

lemma runs_kept_insert: "map_of rs k = None \<Longrightarrow> runs_kept rs (AList.update k row rs)"
  by (auto simp: runs_kept_def)

lemma run_kept_bump: "run_kept row row' \<Longrightarrow> run_kept row (bump_version row')"
  by (simp add: run_kept_def bump_version_def)

interpretation mem: step_preorder mem_extends
proof
  show "mem_extends s s" for s by (simp add: mem_extends_def)
  show "mem_extends s u" if "mem_extends s t" "mem_extends t u" for s t u
    using that unfolding mem_extends_def by (blast intro: runs_kept_trans prefix_order.trans)
qed

subsection \<open>The representation invariant\<close>

definition numbered :: "obj list \<Rightarrow> bool" where
  "numbered evs \<longleftrightarrow> map (\<lambda>ev. get ev ''event_sequence'') evs = map JNum [1..int (length evs)]"

definition filed_under_effect :: "env \<Rightarrow> string \<times> obj \<Rightarrow> bool" where
  "filed_under_effect e kd \<longleftrightarrow>
     (case get (snd kd) ''effect_key'' of JStr effectKey \<Rightarrow> fst kd = delivery_id_for e effectKey | _ \<Rightarrow> False)"

definition mem_inv :: "env \<Rightarrow> mem_store \<Rightarrow> bool" where
  "mem_inv e s \<longleftrightarrow>
     ms_eventSequence s = int (length (ms_events s)) \<and> numbered (ms_events s)
     \<and> distinct (map fst (ms_runs s)) \<and> distinct (map fst (ms_tasks s))
     \<and> distinct (map fst (ms_continuations s)) \<and> distinct (map fst (ms_deliveries s))
     \<and> list_all (filed_under_effect e) (ms_deliveries s)"

lemma mem_inv_init: "mem_inv e mem_init"
  by (simp add: mem_inv_def mem_init_def numbered_def)

definition mem_inv_step :: "env \<Rightarrow> mem_store \<Rightarrow> mem_store \<Rightarrow> bool" where
  "mem_inv_step e s t \<longleftrightarrow> (mem_inv e s \<longrightarrow> mem_inv e t)"

interpretation meminv: step_preorder "mem_inv_step e" for e
  by unfold_locales (auto simp: mem_inv_step_def)

lemma numbered_snoc:
  "numbered evs \<Longrightarrow> get row ''event_sequence'' = JNum (int (length evs) + 1) \<Longrightarrow> numbered (evs @ [row])"
proof -
  assume a: "numbered evs" "get row ''event_sequence'' = JNum (int (length evs) + 1)"
  have "[1..int (length evs) + 1] = [1..int (length evs)] @ [int (length evs) + 1]"
    by (subst upto_rec2) auto
  with a show ?thesis by (simp add: numbered_def add.commute)
qed

lemma numbered_take: "numbered evs \<Longrightarrow> numbered (take n evs)"
proof -
  assume a: "numbered evs"
  have t: "take n [1..int (length evs)] = [1..int (min n (length evs))]"
    by (rule nth_equalityI) auto
  have "map (\<lambda>ev. get ev ''event_sequence'') (take n evs) = take n (map JNum [1..int (length evs)])"
    using a by (simp add: numbered_def flip: take_map)
  with t show ?thesis by (simp add: numbered_def take_map min.commute)
qed

lemma list_all_update:
  "list_all P al \<Longrightarrow> P (k, v) \<Longrightarrow> list_all P (AList.update k v al)"
  by (induction al) auto

lemma list_all_delete: "list_all P al \<Longrightarrow> list_all P (AList.delete k al)"
  by (auto simp: list_all_iff AList.delete_eq)

lemma find_map_snd_update:
  assumes "find P (map snd al) = None" and "P v"
  shows "find P (map snd (AList.update k v al)) = Some v"
  using assms by (induction al) (auto split: if_splits)

lemma filed_effect_inj:
  assumes "list_all (filed_under_effect e) ds" and "distinct (map fst ds)"
  shows "distinct (map (\<lambda>kd. get (snd kd) ''effect_key'') ds)"
  using assms
proof (induction ds)
  case (Cons x ds)
  have "get (snd x) ''effect_key'' \<notin> (\<lambda>kd. get (snd kd) ''effect_key'') ` set ds"
  proof
    assume "get (snd x) ''effect_key'' \<in> (\<lambda>kd. get (snd kd) ''effect_key'') ` set ds"
    then obtain y where y: "y \<in> set ds" and eq: "get (snd y) ''effect_key'' = get (snd x) ''effect_key''"
      by (auto simp del: split_paired_Ex)
    from y Cons.prems(1) have "filed_under_effect e y" "filed_under_effect e x"
      by (auto simp: list_all_iff)
    with eq have "fst x = fst y" by (auto simp: filed_under_effect_def split: jsval.splits)
    with y Cons.prems(2) show False by auto
  qed
  with Cons show ?case by simp
qed simp

subsection \<open>The steps every method is made of\<close>

lemma event_row_sequence [simp]:
  "get (event_row i n r t ty p at) ''event_sequence'' = JNum n"
  "get (event_row i n r t ty p at) ''event_id'' = JStr i"
  by (simp_all add: event_row_def)

lemma mem_now_run [simp]: "mem_now e s = (Inr (clock e (ms_tick s)), s\<lparr>ms_tick := Suc (ms_tick s)\<rparr>)"
  by (simp add: mem_now_def)

lemma bind_now [simp]: "bindM (mem_now e) f s = f (clock e (ms_tick s)) (s\<lparr>ms_tick := Suc (ms_tick s)\<rparr>)"
  by (simp add: bindM_def)

lemma put_run_simps [simp]: "put_run k row s = (Inr (), s\<lparr>ms_runs := AList.update k row (ms_runs s)\<rparr>)"
  by (simp add: put_run_def)

lemma put_task_simps [simp]: "put_task k row s = (Inr (), s\<lparr>ms_tasks := AList.update k row (ms_tasks s)\<rparr>)"
  by (simp add: put_task_def)

lemma push_event_run [simp]:
  "push_event row s = (Inr (), s\<lparr>ms_events := ms_events s @ [row], ms_eventSequence := ms_eventSequence s + 1\<rparr>)"
  by (simp add: push_event_def)

lemma push_keeps: "mem_extends s (s\<lparr>ms_events := ms_events s @ rows, ms_eventSequence := n, ms_tick := k\<rparr>)"
  by (simp add: mem_extends_def)

lemma push_inv:
  "mem_inv e s \<Longrightarrow> get row ''event_sequence'' = JNum (ms_eventSequence s + 1) \<Longrightarrow>
   mem_inv e (s\<lparr>ms_events := ms_events s @ [row], ms_eventSequence := ms_eventSequence s + 1, ms_tick := k\<rparr>)"
  by (simp add: mem_inv_def numbered_snoc)

lemma mem_event_run:
  "mem_event e runId taskId ty payload s =
     (let row = event_row (''event-'' @ uuid e (ms_tick s)) (ms_eventSequence s + 1) runId taskId ty payload (clock e (ms_tick s))
      in (Inr row, s\<lparr>ms_events := ms_events s @ [row], ms_eventSequence := ms_eventSequence s + 1, ms_tick := Suc (ms_tick s)\<rparr>))"
  by (simp add: mem_event_def Let_def seqM_def bindM_def)

lemma mem_event_keeps: "mem.keeps (mem_event e runId taskId ty payload)"
  by (rule mem.keepsI) (simp add: mem_event_run Let_def push_keeps)

lemma mem_event_inv: "meminv.keeps e (mem_event e runId taskId ty payload)"
  by (rule meminv.keepsI) (simp add: mem_event_run Let_def push_inv mem_inv_step_def)

lemma mem_now_keeps: "mem.keeps (mem_now e)"
  by (rule mem.keepsI) (simp add: mem_extends_def)

lemma mem_now_inv: "meminv.keeps e (mem_now e)"
  by (rule meminv.keepsI) (simp add: mem_inv_step_def mem_inv_def)

lemma put_keeps: "mem.keeps (put_task k row)" "mem.keeps (put_continuation k row)" "mem.keeps (put_delivery k row)"
  by (auto intro!: mem.keepsI simp: put_task_def put_continuation_def put_delivery_def mem_extends_def)

lemma put_inv:
  "meminv.keeps e (put_run k row)" "meminv.keeps e (put_task k row)" "meminv.keeps e (put_continuation k row)"
  by (rule meminv.keepsI, simp add: put_task_def put_continuation_def put_run_def mem_inv_step_def mem_inv_def distinct_update)+

lemma put_delivery_inv:
  "filed_under_effect e (k, row) \<Longrightarrow> meminv.keeps e (put_delivery k row)"
  by (rule meminv.keepsI) (simp add: put_delivery_def mem_inv_step_def mem_inv_def distinct_update list_all_update)

lemmas mem_keeps_intros = mem.keeps_intros mem_event_keeps mem_now_keeps put_keeps
lemmas mem_inv_intros = meminv.keeps_intros mem_event_inv mem_now_inv put_inv


subsection \<open>Methods that do not touch the runs\<close>

lemma mem_create_wake_keeps: "mem.keeps (mem_create_wake e runId cont ty occ key)"
  unfolding mem_create_wake_def Let_def by (intro mem_keeps_intros)

lemma mem_create_wake_inv: "meminv.keeps e (mem_create_wake e runId cont ty occ key)"
  unfolding mem_create_wake_def Let_def
  by (intro mem_inv_intros put_delivery_inv) (simp add: filed_under_effect_def delivery_row_def Let_def)

lemma mem_materialize_keeps: "mem.keeps (mem_materializeContinuationWake e runId status)"
  unfolding mem_materializeContinuationWake_def
  by (rule mem.keeps_bind[OF mem.keeps_gets])
     (auto intro!: mem_keeps_intros mem_create_wake_keeps split: option.splits)

lemma mem_materialize_inv: "meminv.keeps e (mem_materializeContinuationWake e runId status)"
  unfolding mem_materializeContinuationWake_def
  by (rule meminv.keeps_bind[OF meminv.keeps_gets])
     (auto intro!: mem_inv_intros mem_create_wake_inv split: option.splits)

lemma mem_registerContinuation_keeps: "mem.keeps (mem_registerContinuation e runId registration)"
  unfolding mem_registerContinuation_def Let_def split_def
  by (intro mem_keeps_intros mem_materialize_keeps)

lemma mem_registerContinuation_inv: "meminv.keeps e (mem_registerContinuation e runId registration)"
  unfolding mem_registerContinuation_def Let_def split_def
  by (intro mem_inv_intros mem_materialize_inv)

lemma mem_eventOnce_run:
  "mem_eventOnce e runId taskId ty payload key s =
     (if \<not> truthy key then (case mem_event e runId taskId ty (JObj payload) s of (r, t) \<Rightarrow> (map_sum id Inl r, t))
      else case find (\<lambda>ev. get ev ''event_id'' = JStr (effect_event_id e key)) (ms_events s) of
        Some ev \<Rightarrow> (Inr (Inr \<lparr>eo_inserted = False, eo_eventId = effect_event_id e key, eo_row = ev\<rparr>), s)
      | None \<Rightarrow>
          (let row = event_row (effect_event_id e key) (ms_eventSequence s + 1) runId taskId ty
                 (JObj (AList.update ''effectKey'' key payload)) (clock e (ms_tick s))
           in (Inr (Inr \<lparr>eo_inserted = True, eo_eventId = effect_event_id e key, eo_row = row\<rparr>),
               s\<lparr>ms_events := ms_events s @ [row], ms_eventSequence := ms_eventSequence s + 1,
                  ms_tick := Suc (ms_tick s)\<rparr>)))"
  by (auto simp: mem_eventOnce_def mem_event_run bindM_def seqM_def Let_def split: option.splits)

lemma mem_eventOnce_keeps: "mem.keeps (mem_eventOnce e runId taskId ty payload key)"
  by (rule mem.keepsI) (auto simp: mem_eventOnce_run mem_event_run Let_def push_keeps mem.step_refl split: option.splits)

lemma mem_eventOnce_inv: "meminv.keeps e (mem_eventOnce e runId taskId ty payload key)"
  by (rule meminv.keepsI)
     (auto simp: mem_eventOnce_run mem_event_run Let_def push_inv mem_inv_step_def split: option.splits)

lemma mem_receipt_run:
  "mem_recordProgressNotificationReceipt e ev md s =
     (let i = progressReceiptEventId e (get ev ''event_id'') in
      if has_event i s then (Inr False, s)
      else (Inr True, s\<lparr>ms_events := ms_events s @ [event_row i (ms_eventSequence s + 1) (js_string (get ev ''run_id''))
                  (get ev ''task_id'') ''progress.notification.sent'' (receipt_payload ev md) (clock e (ms_tick s))],
              ms_eventSequence := ms_eventSequence s + 1, ms_tick := Suc (ms_tick s)\<rparr>))"
  by (simp add: mem_recordProgressNotificationReceipt_def Let_def seqM_def bindM_def)

lemma mem_receipt_keeps: "mem.keeps (mem_recordProgressNotificationReceipt e ev md)"
  by (rule mem.keepsI) (simp add: mem_receipt_run Let_def push_keeps mem.step_refl)

lemma mem_receipt_inv: "meminv.keeps e (mem_recordProgressNotificationReceipt e ev md)"
  by (rule meminv.keepsI) (simp add: mem_receipt_run Let_def push_inv mem_inv_step_def)

lemma mem_insertTask_keeps: "mem.keeps (mem_insertTask runId task options)"
  unfolding mem_insertTask_def by (intro mem_keeps_intros)

lemma mem_insertTask_inv: "meminv.keeps e (mem_insertTask runId task options)"
  unfolding mem_insertTask_def by (intro mem_inv_intros)

lemma mem_addTasks_keeps: "mem.keeps (mem_addTasks e runId tasks options)"
  unfolding mem_addTasks_def by (intro mem_keeps_intros mem_insertTask_keeps)

lemma mem_addTasks_inv: "meminv.keeps e (mem_addTasks e runId tasks options)"
  unfolding mem_addTasks_def by (intro mem_inv_intros mem_insertTask_inv)

lemma mem_updateTask_keeps: "mem.keeps (mem_updateTask taskId patch v)" "mem.keeps (mem_touchTask taskId)"
  unfolding mem_updateTask_def mem_touchTask_def Let_def by (intro mem_keeps_intros)+

lemma mem_updateTask_inv: "meminv.keeps e (mem_updateTask taskId patch v)" "meminv.keeps e (mem_touchTask taskId)"
  unfolding mem_updateTask_def mem_touchTask_def Let_def by (intro mem_inv_intros)+

lemma mem_repair_keeps: "mem.keeps (mem_repairTerminalContinuationWakes e limit)"
  unfolding mem_repairTerminalContinuationWakes_def by (intro mem_keeps_intros mem_materialize_keeps)

lemma mem_repair_inv: "meminv.keeps e (mem_repairTerminalContinuationWakes e limit)"
  unfolding mem_repairTerminalContinuationWakes_def by (intro mem_inv_intros mem_materialize_inv)

lemma kill_deliveries_keys [simp]: "map fst (kill_deliveries cid at reason ds) = map fst ds"
  by (simp add: kill_deliveries_def split_def)

lemma dead_delivery_filed [simp]:
  "filed_under_effect e (k, dead_delivery at reason d) = filed_under_effect e (k, d)"
  by (simp add: filed_under_effect_def dead_delivery_def split: jsval.split)

lemma kill_deliveries_filed:
  "list_all (filed_under_effect e) ds \<Longrightarrow> list_all (filed_under_effect e) (kill_deliveries cid at reason ds)"
  by (auto simp: kill_deliveries_def list_all_iff)

lemma kill_deliveries_dead: "\<not> list_ex (deadable cid) (map snd (kill_deliveries cid at reason ds))"
  by (auto simp: kill_deliveries_def list_ex_iff deadable_def dead_delivery_def split: if_splits)

lemma kill_keeps: "mem.keeps (modifyM (\<lambda>s. s\<lparr>ms_deliveries := kill_deliveries cid at reason (ms_deliveries s)\<rparr>))"
  by (rule mem.keeps_modify) (simp add: mem_extends_def)

lemma kill_inv: "meminv.keeps e (modifyM (\<lambda>s. s\<lparr>ms_deliveries := kill_deliveries cid at reason (ms_deliveries s)\<rparr>))"
  by (rule meminv.keeps_modify) (simp add: mem_inv_step_def mem_inv_def kill_deliveries_filed)

lemma mem_cancelContinuation_keeps: "mem.keeps (mem_cancelContinuation e runId reason)"
  unfolding mem_cancelContinuation_def Let_def by (intro mem_keeps_intros kill_keeps)

lemma mem_cancelContinuation_inv: "meminv.keeps e (mem_cancelContinuation e runId reason)"
  unfolding mem_cancelContinuation_def Let_def by (intro mem_inv_intros kill_inv)

subsection \<open>Methods that patch a run\<close>

lemma mem_updateRun_run:
  "mem_updateRun runId patch v s =
     (case map_of (ms_runs s) runId of
        None \<Rightarrow> (Inr None, s)
      | Some cur \<Rightarrow>
          if version_conflict v cur then (Inl (conflict_message ''agent_run_version_conflict'' runId v cur), s)
          else (case assertTerminalRunPatch (Some cur) patch of
              Inl err \<Rightarrow> (Inl err, s)
            | Inr _ \<Rightarrow> (Inr (Some (bump_version (assign cur patch))),
                s\<lparr>ms_runs := AList.update runId (bump_version (assign cur patch)) (ms_runs s)\<rparr>)))"
  by (simp add: mem_updateRun_def guardM_def seqM_def bindM_def Let_def split: option.split sum.split)

lemma mem_updateRun_keeps: "distinct (map fst patch) \<Longrightarrow> mem.keeps (mem_updateRun runId patch v)"
  by (rule mem.keepsI)
     (auto simp: mem_updateRun_run mem_extends_def run_kept_bump run_kept_patch intro!: runs_kept_update
       split: option.splits sum.splits)

lemma mem_updateRun_inv: "meminv.keeps e (mem_updateRun runId patch v)"
  unfolding mem_updateRun_def Let_def by (intro mem_inv_intros)

lemma mem_replacePlan_keeps: "mem.keeps (mem_replacePlan e runId plan v)"
  by (rule mem.keepsI)
     (auto simp: mem_replacePlan_def mem_event_run guardM_def seqM_def bindM_def Let_def mem_extends_def run_kept_bump
       run_kept_other_columns intro!: runs_kept_update split: option.splits)

lemma mem_replacePlan_inv: "meminv.keeps e (mem_replacePlan e runId plan v)"
  unfolding mem_replacePlan_def Let_def by (intro mem_inv_intros)

text \<open>Every step of the refinement before its commit changes the task rows only.\<close>

definition only_tasks :: "mem_store \<Rightarrow> mem_store \<Rightarrow> bool" where
  "only_tasks s t \<longleftrightarrow> t = s\<lparr>ms_tasks := ms_tasks t, ms_tick := ms_tick t\<rparr>"

interpretation memtasks: step_preorder only_tasks
proof
  show "only_tasks s u" if "only_tasks s t" "only_tasks t u" for s t u
    using that unfolding only_tasks_def by (cases s; cases t; cases u) simp
qed (simp add: only_tasks_def)

lemma refinement_remove_tasks: "memtasks.keeps (refinement_remove runId taskId)"
  by (rule memtasks.keepsI)
     (auto simp: refinement_remove_def only_tasks_def guardM_def seqM_def bindM_def split: option.splits)

lemma refinement_rewire_tasks: "memtasks.keeps (refinement_rewire runId upd)"
  by (rule memtasks.keepsI)
     (auto simp: refinement_rewire_def only_tasks_def guardM_def seqM_def bindM_def split: option.splits)

lemma mem_insertTask_tasks: "memtasks.keeps (mem_insertTask runId task options)"
  by (rule memtasks.keepsI)
     (auto simp: mem_insertTask_def only_tasks_def seqM_def bindM_def split: option.splits)

lemma refinement_tasks_tasks: "memtasks.keeps (refinement_tasks runId options)"
  unfolding refinement_tasks_def
  by (intro memtasks.keeps_intros refinement_remove_tasks refinement_rewire_tasks mem_insertTask_tasks)

lemma refinement_remove_inv: "meminv.keeps e (refinement_remove runId taskId)"
  unfolding refinement_remove_def split_def
  by (intro mem_inv_intros meminv.keeps_modify)
     (simp add: mem_inv_step_def mem_inv_def distinct_delete)

lemma refinement_tasks_inv: "meminv.keeps e (refinement_tasks runId options)"
  unfolding refinement_tasks_def refinement_rewire_def
  by (intro mem_inv_intros refinement_remove_inv mem_insertTask_inv)

lemma refinement_commit_run:
  "\<exists>row ev. refinement_commit e runId plan options cur s =
     (Inr row, s\<lparr>ms_runs := AList.update runId row (ms_runs s), ms_events := ms_events s @ [ev],
        ms_eventSequence := ms_eventSequence s + 1, ms_tick := Suc (ms_tick s)\<rparr>) \<and> run_kept cur row
     \<and> get ev ''event_sequence'' = JNum (ms_eventSequence s + 1)"
  unfolding refinement_commit_def Let_def seqM_def bindM_def mem_event_run
  by (simp add: run_kept_bump run_kept_other_columns) (rule exI, rule conjI, rule refl, simp)

text \<open>The body of the refinement either fails having changed task rows only, or commits.\<close>

lemma refinement_body_cases:
  obtains (failed) err t where "refinement_body e runId plan options s = (Inl err, t)" and "only_tasks s t"
  | (committed) cur t where "map_of (ms_runs s) runId = Some cur"
      and "refinement_tasks runId options s = (Inr (), t)" and "only_tasks s t"
      and "refinement_body e runId plan options s = refinement_commit e runId plan options cur t"
proof (cases "map_of (ms_runs s) runId")
  case None
  then show thesis by (intro failed) (auto simp: refinement_body_def memtasks.step_refl)
next
  case (Some cur)
  obtain r t where t: "refinement_tasks runId options s = (r, t)" by (cases "refinement_tasks runId options s")
  with refinement_tasks_tasks have ot: "only_tasks s t" by (rule memtasks.keepsD)
  show thesis
  proof (cases "version_conflict (ro_expectedVersion options) cur")
    case True
    with Some show thesis by (intro failed) (auto simp: refinement_body_def memtasks.step_refl)
  next
    case False
    show thesis
    proof (cases r)
      case (Inl err)
      with Some False t ot show thesis by (intro failed) (auto simp: refinement_body_def guardM_def seqM_def bindM_def)
    next
      case (Inr u)
      with Some False t ot show thesis by (intro committed) (auto simp: refinement_body_def guardM_def seqM_def bindM_def)
    qed
  qed
qed

lemma refinement_restore_tasks:
  "only_tasks s t \<Longrightarrow> refinement_restore runId s t = s\<lparr>ms_tick := ms_tick t\<rparr>"
  unfolding only_tasks_def
  by (cases s; cases t) (auto simp: refinement_restore_def update_id delete_id map_of_eq_None_iff split: option.splits)

lemma mem_refinement_failed:
  "mem_applyBootstrapPlanRefinement e runId plan options s = (Inl err, t) \<Longrightarrow> t = s\<lparr>ms_tick := ms_tick t\<rparr>"
proof (cases rule: refinement_body_cases[of e runId plan options s])
  case (failed err' t')
  assume "mem_applyBootstrapPlanRefinement e runId plan options s = (Inl err, t)"
  with failed show ?thesis
    by (auto simp: mem_applyBootstrapPlanRefinement_def restoreM_def refinement_restore_tasks)
next
  case (committed cur t')
  assume "mem_applyBootstrapPlanRefinement e runId plan options s = (Inl err, t)"
  with committed refinement_commit_run[of e runId plan options cur t'] show ?thesis
    by (auto simp: mem_applyBootstrapPlanRefinement_def restoreM_def)
qed

lemma mem_refinement_keeps: "mem.keeps (mem_applyBootstrapPlanRefinement e runId plan options)"
proof (rule mem.keepsI)
  fix s
  obtain r t where rt: "mem_applyBootstrapPlanRefinement e runId plan options s = (r, t)"
    by (cases "mem_applyBootstrapPlanRefinement e runId plan options s")
  have "mem_extends s t"
  proof (cases rule: refinement_body_cases[of e runId plan options s])
    case (failed err t')
    with rt mem_refinement_failed[of e runId plan options s err t] have "t = s\<lparr>ms_tick := ms_tick t\<rparr>"
      by (auto simp: mem_applyBootstrapPlanRefinement_def restoreM_def)
    then have "ms_runs t = ms_runs s \<and> ms_events t = ms_events s" by (cases s; cases t) simp
    then show ?thesis by (simp add: mem_extends_def)
  next
    case (committed cur t')
    then have f: "ms_runs t' = ms_runs s" "ms_events t' = ms_events s"
      unfolding only_tasks_def by (cases s; cases t'; simp)+
    with committed refinement_commit_run[of e runId plan options cur t'] rt show ?thesis
      by (auto simp: mem_applyBootstrapPlanRefinement_def restoreM_def mem_extends_def intro!: runs_kept_update)
  qed
  with rt show "mem_extends s (snd (mem_applyBootstrapPlanRefinement e runId plan options s))" by simp
qed

lemma mem_refinement_inv: "meminv.keeps e (mem_applyBootstrapPlanRefinement e runId plan options)"
proof (rule meminv.keepsI)
  fix s
  obtain r t where rt: "mem_applyBootstrapPlanRefinement e runId plan options s = (r, t)"
    by (cases "mem_applyBootstrapPlanRefinement e runId plan options s")
  have "mem_inv_step e s t"
  proof (cases rule: refinement_body_cases[of e runId plan options s])
    case (failed err t')
    with rt mem_refinement_failed[of e runId plan options s err t] have "t = s\<lparr>ms_tick := ms_tick t\<rparr>"
      by (auto simp: mem_applyBootstrapPlanRefinement_def restoreM_def)
    then show ?thesis by (cases s; cases t) (simp add: mem_inv_step_def mem_inv_def)
  next
    case (committed cur t')
    from committed(2) refinement_tasks_inv have "mem_inv_step e s t'" by (auto dest: meminv.keepsD)
    with committed refinement_commit_run[of e runId plan options cur t'] rt show ?thesis
      by (auto simp: mem_applyBootstrapPlanRefinement_def restoreM_def mem_inv_step_def mem_inv_def
          distinct_update numbered_snoc)
  qed
  with rt show "mem_inv_step e s (snd (mem_applyBootstrapPlanRefinement e runId plan options s))" by simp
qed

text \<open>\<open>createRun\<close> writes its run row unconditionally: it keeps the other runs, and the run itself
  when the identifier is new.\<close>

lemma mem_createRun_keeps:
  assumes "map_of (ms_runs s) (plan_run_id plan) = None"
  shows "mem_extends s (snd (mem_createRun e plan options s))"
proof -
  let ?s1 = "s\<lparr>ms_runs := AList.update (plan_run_id plan) (run_row plan options) (ms_runs s)\<rparr>"
  have "mem.keeps (seqM (forM (\<lambda>task. seqM (mem_insertTask (plan_run_id plan) task options) (returnM ())) (elements (get plan ''tasks'')))
      (seqM (whenM (truthy (get options ''continuation''))
               (seqM (mem_registerContinuation e (plan_run_id plan) (get options ''continuation'')) (returnM ())))
      (seqM (mem_event e (plan_run_id plan) JNull ''run.routed'' p) (returnM ()))))" for p
    by (intro mem_keeps_intros mem_insertTask_keeps mem_registerContinuation_keeps)
  then have "mem_extends ?s1 (snd (mem_createRun e plan options s))"
    by (simp add: mem_createRun_def Let_def seqM_def[of "put_run _ _"] bindM_def[of "put_run _ _"] mem.keeps_snd)
  moreover have "mem_extends s ?s1" using assms by (simp add: mem_extends_def runs_kept_insert)
  ultimately show ?thesis by (rule mem.step_trans[rotated])
qed

lemma mem_createRun_inv: "meminv.keeps e (mem_createRun e plan options)"
  unfolding mem_createRun_def Let_def
  by (intro mem_inv_intros mem_insertTask_inv mem_registerContinuation_inv)

subsection \<open>Calls and sequences of calls\<close>

inductive mem_step :: "env \<Rightarrow> mem_store \<Rightarrow> mem_store \<Rightarrow> bool" for e where
  createRun: "map_of (ms_runs s) (plan_run_id plan) = None \<Longrightarrow> mem_step e s (snd (mem_createRun e plan options s))"
| registerContinuation: "mem_step e s (snd (mem_registerContinuation e runId registration s))"
| cancelContinuation: "mem_step e s (snd (mem_cancelContinuation e runId reason s))"
| materializeContinuationWake: "mem_step e s (snd (mem_materializeContinuationWake e runId status s))"
| repairTerminalContinuationWakes: "mem_step e s (snd (mem_repairTerminalContinuationWakes e limit s))"
| addTasks: "mem_step e s (snd (mem_addTasks e runId tasks options s))"
| replacePlan: "mem_step e s (snd (mem_replacePlan e runId plan v s))"
| applyBootstrapPlanRefinement: "mem_step e s (snd (mem_applyBootstrapPlanRefinement e runId plan ro s))"
| updateRun: "distinct (map fst patch) \<Longrightarrow> mem_step e s (snd (mem_updateRun runId patch v s))"
| updateTask: "mem_step e s (snd (mem_updateTask taskId patch v s))"
| touchTask: "mem_step e s (snd (mem_touchTask taskId s))"
| event: "mem_step e s (snd (mem_event e runId taskv ty payload s))"
| eventOnce: "mem_step e s (snd (mem_eventOnce e runId taskv ty payloado key s))"
| receipt: "mem_step e s (snd (mem_recordProgressNotificationReceipt e ev md s))"

inductive_cases mem_stepE: "mem_step e s t"

inductive mem_reaches :: "env \<Rightarrow> mem_store \<Rightarrow> mem_store \<Rightarrow> bool" for e s where
  here: "mem_reaches e s s"
| step: "mem_reaches e s t \<Longrightarrow> mem_step e t u \<Longrightarrow> mem_reaches e s u"

lemmas mem_methods_keep =
  mem_registerContinuation_keeps mem_cancelContinuation_keeps mem_materialize_keeps mem_repair_keeps
  mem_addTasks_keeps mem_replacePlan_keeps mem_refinement_keeps mem_updateRun_keeps mem_updateTask_keeps
  mem_event_keeps mem_eventOnce_keeps mem_receipt_keeps

lemmas mem_methods_inv =
  mem_createRun_inv mem_registerContinuation_inv mem_cancelContinuation_inv mem_materialize_inv mem_repair_inv
  mem_addTasks_inv mem_replacePlan_inv mem_refinement_inv mem_updateRun_inv mem_updateTask_inv
  mem_event_inv mem_eventOnce_inv mem_receipt_inv

lemma mem_step_extends: "mem_step e s t \<Longrightarrow> mem_extends s t"
  by (induction rule: mem_step.induct) (auto intro: mem_createRun_keeps mem.keeps_snd mem_methods_keep)

lemma mem_step_inv: "mem_step e s t \<Longrightarrow> mem_inv_step e s t"
  by (induction rule: mem_step.induct) (auto intro: meminv.keeps_snd mem_methods_inv)

lemma mem_reaches_extends: "mem_reaches e s t \<Longrightarrow> mem_extends s t"
  by (induction rule: mem_reaches.induct) (auto intro: mem.step_refl mem.step_trans mem_step_extends)

lemma mem_reaches_inv: "mem_reaches e s t \<Longrightarrow> mem_inv e s \<Longrightarrow> mem_inv e t"
  by (induction rule: mem_reaches.induct) (auto simp: mem_inv_step_def dest: mem_step_inv)

end
