(* ===== verification/MemStoreProps.thy ===== *)
theory MemStoreProps
  imports MemStoreInv
begin

text \<open>
  The properties of the in-memory store: what every sequence of its calls keeps, that one terminal
  occurrence of a run wakes its session once, that a failed refinement leaves no trace, and that of two
  writers who read the same version one is refused.
\<close>

subsection \<open>Helper lemmas\<close>

lemma js_object_bump: "get (bump_version row) k = (if k = ''state_version'' then incr (get row ''state_version'') else get row k)"
  by (simp add: bump_version_def)

lemma wake_event_woken:
  "wake_event cont run status = Some ty \<Longrightarrow> wake_event (woken cont g i u) run status = Some ty"
  by (auto simp: wake_event_def woken_def split: if_splits option.splits)

lemma wake_key_woken: "wake_key e runId (woken cont g i u) run ty = wake_key e runId cont run ty"
  by (simp add: wake_key_def woken_def)

lemma mem_create_wake_run:
  assumes "buildMessageId e (js_string (coalesce (get cont ''session_adapter_id'') (JStr ''opencode''))) key
             (clock e (ms_tick s)) = Inr m"
  shows "\<exists>d t. mem_create_wake e runId cont ty occ key s = (Inr (Some (d, True)), t)
    \<and> get d ''effect_key'' = JStr key \<and> get d ''run_id'' = JStr runId \<and> get d ''status'' = JStr ''pending''
    \<and> get d ''generation'' = JNum (num_or 0 (get cont ''generation'') + 1)
    \<and> ms_deliveries t = AList.update (delivery_id_for e key) d (ms_deliveries s)
    \<and> ms_runs t = ms_runs s
    \<and> ms_continuations t = AList.update runId (woken cont (num_or 0 (get cont ''generation'') + 1)
         (delivery_id_for e key) (clock e (ms_tick s))) (ms_continuations s)"
  using assms
  by (simp add: mem_create_wake_def Let_def seqM_def bindM_def put_delivery_def put_continuation_def mem_event_run
      delivery_row_def)

lemma mem_create_wake_Inl:
  assumes "mem_create_wake e runId cont ty occ key s = (Inr r, t)"
  shows "\<exists>m. buildMessageId e (js_string (coalesce (get cont ''session_adapter_id'') (JStr ''opencode''))) key
             (clock e (ms_tick s)) = Inr m"
  using assms by (auto simp: mem_create_wake_def Let_def seqM_def bindM_def split: sum.splits)

text \<open>A wake that is returned is on file under its effect key, and the wake is due again to the same key.\<close>

lemma materialize_Some:
  assumes "mem_materializeContinuationWake e runId status s = (Inr (Some (d, created)), t)"
  obtains cont run ty cont' where
    "map_of (ms_continuations s) runId = Some cont" "map_of (ms_runs s) runId = Some run"
    "wake_event cont run status = Some ty" "truthy (get run ''completed_at'')"
    "map_of (ms_continuations t) runId = Some cont'" "map_of (ms_runs t) runId = Some run"
    "wake_event cont' run status = Some ty"
    "wake_key e runId cont' run ty = wake_key e runId cont run ty"
    "find_effect (wake_key e runId cont run ty) (ms_deliveries t) = Some d"
proof -
  from assms obtain cont run ty where
    c: "map_of (ms_continuations s) runId = Some cont" "map_of (ms_runs s) runId = Some run"
       "wake_event cont run status = Some ty" "truthy (get run ''completed_at'')"
    and m: "(case find_effect (wake_key e runId cont run ty) (ms_deliveries s) of
             Some existing \<Rightarrow> returnM (Some (existing, False))
           | None \<Rightarrow> mem_create_wake e runId cont ty (''completed-at:'' @ js_string (get run ''completed_at''))
                (wake_key e runId cont run ty)) s = (Inr (Some (d, created)), t)"
    by (auto simp: mem_materializeContinuationWake_def seqM_def bindM_def guardM_def split: option.splits if_splits)
  show thesis
  proof (cases "find_effect (wake_key e runId cont run ty) (ms_deliveries s)")
    case (Some d')
    with m c show thesis by (intro that[of cont run ty cont]) auto
  next
    case None
    with m have w: "mem_create_wake e runId cont ty (''completed-at:'' @ js_string (get run ''completed_at''))
                (wake_key e runId cont run ty) s = (Inr (Some (d, created)), t)" by simp
    from mem_create_wake_Inl[OF w] obtain m where
      "buildMessageId e (js_string (coalesce (get cont ''session_adapter_id'') (JStr ''opencode'')))
        (wake_key e runId cont run ty) (clock e (ms_tick s)) = Inr m" by blast
    from mem_create_wake_run[OF this, of runId ty "''completed-at:'' @ js_string (get run ''completed_at'')"] w
    obtain g i u where *: "get d ''effect_key'' = JStr (wake_key e runId cont run ty)"
      "ms_deliveries t = AList.update (delivery_id_for e (wake_key e runId cont run ty)) d (ms_deliveries s)"
      "ms_runs t = ms_runs s" "ms_continuations t = AList.update runId (woken cont g i u) (ms_continuations s)"
      by auto
    have "find_effect (wake_key e runId cont run ty) (ms_deliveries t) = Some d"
      using None *(1,2) by (simp add: find_effect_def find_map_snd_update)
    with c * show thesis
      by (intro that[of cont run ty "woken cont g i u"]) (simp_all add: wake_event_woken wake_key_woken)
  qed
qed

lemma bump_stale:
  "get row ''state_version'' = JNum n \<Longrightarrow> version_conflict (JNum n) (bump_version row)"
  by (simp add: version_conflict_def js_object_bump incr_def)

text \<open>A store with one run that has ended and whose session is parked, to apply the properties to.\<close>

definition sample_store :: mem_store where
  "sample_store = mem_init\<lparr>
     ms_runs := [(''r1'', [(''run_id'', JStr ''r1''), (''status'', JStr ''closed''), (''completed_at'', JStr ''7''),
        (''state_version'', JNum 4)])],
     ms_continuations := [(''r1'', [(''continuation_id'', JStr ''c1''), (''status'', JStr ''parked''), (''generation'', JNum 0),
        (''wake_events_json'', JArr [JStr ''run.completed''])])]\<rparr>"

lemma sample_store_rows [simp]:
  "map_of (ms_runs sample_store) ''r1'' = Some [(''run_id'', JStr ''r1''), (''status'', JStr ''closed''),
     (''completed_at'', JStr ''7''), (''state_version'', JNum 4)]"
  "map_of (ms_continuations sample_store) ''r1'' = Some [(''continuation_id'', JStr ''c1''), (''status'', JStr ''parked''),
     (''generation'', JNum 0), (''wake_events_json'', JArr [JStr ''run.completed''])]"
  "ms_deliveries sample_store = []"
  by (simp_all add: sample_store_def mem_init_def)

subsection \<open>Properties\<close>



text \<open>C15: in every state the store can reach from its construction, the event log is numbered
  1, 2, 3, ... in order with \<open>eventSequence\<close> its length, every map has one row per key, and no two
  deliveries carry the same effect key: an effect is delivered through one row at most.\<close>

theorem mem_store_invariant:
  assumes "mem_reaches e mem_init s"
  shows "map (\<lambda>ev. get ev ''event_sequence'') (ms_events s) = map JNum [1..ms_eventSequence s]
    \<and> distinct (map fst (ms_runs s)) \<and> distinct (map fst (ms_tasks s))
    \<and> distinct (map (\<lambda>kd. get (snd kd) ''effect_key'') (ms_deliveries s))"
  using mem_reaches_inv[OF assms mem_inv_init] filed_effect_inj
  by (auto simp: mem_inv_def numbered_def)

theorem mem_store_invariant_witness:
  "map (\<lambda>ev. get ev ''event_sequence'') (ms_events (snd (mem_event sample_env ''r1'' JNull ''run.note'' JNull mem_init)))
     = map JNum [1..1]"
proof -
  have "mem_step sample_env mem_init (snd (mem_event sample_env ''r1'' JNull ''run.note'' JNull mem_init))"
    by (rule mem_step.event)
  from mem_store_invariant[OF mem_reaches.step[OF mem_reaches.here this]]
  show ?thesis by (simp add: mem_event_run mem_init_def Let_def)
qed

text \<open>Waking is exactly once per terminal occurrence. When the store has answered a wake request
  with a delivery, asking again answers with the same delivery, says that it was not created, and
  changes nothing.\<close>

theorem wake_exactly_once:
  assumes "mem_materializeContinuationWake e runId status s = (Inr (Some (delivery, created)), t)"
  shows "mem_materializeContinuationWake e runId status t = (Inr (Some (delivery, False)), t)"
  using assms
  by (rule materialize_Some)
     (simp add: mem_materializeContinuationWake_def seqM_def bindM_def guardM_def)

theorem wake_exactly_once_witness:
  "\<exists>d t. mem_materializeContinuationWake sample_env ''r1'' JNull sample_store = (Inr (Some (d, True)), t)
     \<and> mem_materializeContinuationWake sample_env ''r1'' JNull t = (Inr (Some (d, False)), t)"
proof -
  have "wake_event [(''continuation_id'', JStr ''c1''), (''status'', JStr ''parked''), (''generation'', JNum 0),
          (''wake_events_json'', JArr [JStr ''run.completed''])]
        [(''run_id'', JStr ''r1''), (''status'', JStr ''closed''), (''completed_at'', JStr ''7''), (''state_version'', JNum 4)] JNull
       = Some ''run.completed''"
    by (simp add: wake_event_def runStatusToContinuationEvent_def RUN_STATUS_EVENT_def compact_def trim_def is_space_def)
  then have "\<exists>d t. mem_materializeContinuationWake sample_env ''r1'' JNull sample_store = (Inr (Some (d, True)), t)"
    by (simp add: mem_materializeContinuationWake_def seqM_def bindM_def find_effect_def guardM_def
        mem_create_wake_def put_delivery_def put_continuation_def mem_event_run Let_def)
  then show ?thesis using wake_exactly_once by blast
qed

text \<open>C33: a bootstrap refinement that fails, at whichever step, leaves every run, task, event,
  continuation and delivery exactly as it found them; only the host clock has moved on.\<close>

theorem refinement_atomic:
  assumes "mem_applyBootstrapPlanRefinement e runId plan options s = (Inl err, t)"
  shows "t = s\<lparr>ms_tick := ms_tick t\<rparr>"
  using assms by (rule mem_refinement_failed)

theorem refinement_atomic_witness:
  "\<exists>t. mem_applyBootstrapPlanRefinement sample_env ''r1'' [] \<lparr>ro_expectedVersion = JUndef, ro_removedTaskIds = [''a'', ''b''],
        ro_dependencyUpdates = [], ro_addedTasks = [], ro_insert = []\<rparr>
        (sample_store\<lparr>ms_tasks := [(''a'', [(''run_id'', JStr ''r1''), (''status'', JStr ''routed'')])]\<rparr>)
      = (Inl ''bootstrap_refinement_task_missing:b'', t) \<and> map fst (ms_tasks t) = [''a'']"
proof -
  let ?s = "sample_store\<lparr>ms_tasks := [(''a'', [(''run_id'', JStr ''r1''), (''status'', JStr ''routed'')])]\<rparr>"
  let ?o = "\<lparr>ro_expectedVersion = JUndef, ro_removedTaskIds = [''a'', ''b''], ro_dependencyUpdates = [],
     ro_addedTasks = [], ro_insert = []\<rparr>"
  have "\<exists>t. mem_applyBootstrapPlanRefinement sample_env ''r1'' [] ?o ?s = (Inl ''bootstrap_refinement_task_missing:b'', t)"
    by (simp add: mem_applyBootstrapPlanRefinement_def restoreM_def refinement_body_def refinement_tasks_def
        version_conflict_def seqM_def bindM_def guardM_def refinement_remove_def removal_unsafe_def has_rows_def
        sample_store_def mem_init_def)
  then obtain t where t: "mem_applyBootstrapPlanRefinement sample_env ''r1'' [] ?o ?s
      = (Inl ''bootstrap_refinement_task_missing:b'', t)" ..
  from refinement_atomic[OF t] have "ms_tasks t = ms_tasks ?s" by (cases t) (simp add: sample_store_def mem_init_def)
  with t show ?thesis by simp
qed

text \<open>Optimistic concurrency. When a writer patches a run at the version it has read, every other
  writer that read the same version is refused with a version conflict and changes nothing.\<close>

theorem run_version_exclusive:
  assumes "mem_updateRun runId patch (JNum n) s = (Inr (Some row), t)" and "\<not> has_own patch ''state_version''"
  shows "get row ''state_version'' = JNum (n + 1)
    \<and> (\<forall>patch'. mem_updateRun runId patch' (JNum n) t
          = (Inl (conflict_message ''agent_run_version_conflict'' runId (JNum n) row), t))"
proof -
  from assms(1) obtain cur where cur: "map_of (ms_runs s) runId = Some cur" "\<not> version_conflict (JNum n) cur"
      "row = bump_version (assign cur patch)" "t = s\<lparr>ms_runs := AList.update runId row (ms_runs s)\<rparr>"
    by (auto simp: mem_updateRun_run split: option.splits sum.splits if_splits)
  from cur(2) assms(2) have v: "get (assign cur patch) ''state_version'' = JNum n"
    by (simp add: version_conflict_def get_assign_other)
  with cur show ?thesis
    using bump_stale[OF v] by (simp add: mem_updateRun_run js_object_bump incr_def)
qed

theorem run_version_exclusive_witness:
  "\<exists>row t. mem_updateRun ''r1'' [(''executor'', JStr ''codex'')] (JNum 4) sample_store = (Inr (Some row), t)
     \<and> mem_updateRun ''r1'' [(''executor'', JStr ''opencode'')] (JNum 4) t
         = (Inl (conflict_message ''agent_run_version_conflict'' ''r1'' (JNum 4) row), t)"
proof -
  have "\<exists>row t. mem_updateRun ''r1'' [(''executor'', JStr ''codex'')] (JNum 4) sample_store = (Inr (Some row), t)"
    by (simp add: mem_updateRun_run version_conflict_def assertTerminalRunPatch_def has_own_def)
  then obtain row t where 1: "mem_updateRun ''r1'' [(''executor'', JStr ''codex'')] (JNum 4) sample_store = (Inr (Some row), t)"
    by blast
  with run_version_exclusive[OF 1] show ?thesis by (auto simp: has_own_def)
qed



end
