(* ===== verification/Sql.thy ===== *)
theory Sql
  imports StateMonad
begin

text \<open>
  The database under \<^verbatim>\<open>.agents/runtime/store.mjs\<close>: the tables of the runtime's migrations
  with their unique keys, and the statements the store issues. A table is the list of its rows in
  insertion order; a row is an object whose absent columns are null. One statement is atomic. A
  transaction is a computation that puts every table back when it throws (\<open>ROLLBACK\<close>); rows that
  it locks with \<open>FOR UPDATE\<close> are not changed by others before it ends. Foreign keys matter in one
  place, the deletion of a task, whose dependent rows are deleted with it.
\<close>

datatype table =
    Runs | Tasks | Events | Outbox | Continuations | Deliveries | Artifacts | Conflicts
  | IntegratedPaths | Results | Checkpoints | CleanupJobs | Receipts | Workers

record db =
  tables :: "table \<Rightarrow> obj list"
  db_tick :: nat

type_synonym 'a pg_m = "(db, 'a) sm"

definition db_init :: db where
  "db_init = \<lparr>tables = (\<lambda>_. []), db_tick = 0\<rparr>"

definition col :: "obj \<Rightarrow> string \<Rightarrow> jsval" where
  "col row k = coalesce (get row k) JNull"

text \<open>\<open>a = b\<close> in SQL: a comparison with null is not true.\<close>

definition sql_eq :: "jsval \<Rightarrow> jsval \<Rightarrow> bool" where
  "sql_eq a b \<longleftrightarrow> \<not> nullish a \<and> a = b"

definition col_is :: "string \<Rightarrow> jsval \<Rightarrow> obj \<Rightarrow> bool" where
  "col_is k v row \<longleftrightarrow> sql_eq (col row k) v"

text \<open>\<open>column IN (...)\<close> on a text column, which holds the text of the value that was written to it.\<close>

definition col_in :: "string \<Rightarrow> string list \<Rightarrow> obj \<Rightarrow> bool" where
  "col_in k vs row \<longleftrightarrow> \<not> nullish (get row k) \<and> js_string (get row k) \<in> set vs"

definition is_null :: "string \<Rightarrow> obj \<Rightarrow> bool" where
  "is_null k row \<longleftrightarrow> nullish (get row k)"

text \<open>\<open>column=column+1\<close>\<close>

definition plus_one :: "string \<Rightarrow> obj \<Rightarrow> obj" where
  "plus_one k row = AList.update k (JNum (num_or 0 (get row k) + 1)) row"

subsection \<open>Unique keys\<close>

fun unique_keys :: "table \<Rightarrow> string list list" where
  "unique_keys Runs = [[''run_id'']]"
| "unique_keys Tasks = [[''task_id'']]"
| "unique_keys Events = [[''event_id'']]"
| "unique_keys Outbox = [[''outbox_id''], [''message_kind'', ''run_id'', ''task_id'', ''dispatch_generation'']]"
| "unique_keys Continuations = [[''continuation_id''], [''run_id'']]"
| "unique_keys Deliveries = [[''delivery_id''], [''effect_key''], [''opencode_message_id''],
     [''continuation_id'', ''event_type'', ''terminal_occurrence_key'']]"
| "unique_keys Artifacts = [[''artifact_id'']]"
| "unique_keys Conflicts = [[''conflict_id'']]"
| "unique_keys IntegratedPaths = [[''run_id'', ''path'']]"
| "unique_keys Results = [[''result_id''], [''task_id'', ''attempt'', ''dispatch_generation'', ''fencing_token'']]"
| "unique_keys Checkpoints = [[''checkpoint_id''],
     [''task_id'', ''checkpoint_type'', ''attempt'', ''dispatch_generation'', ''fencing_token'']]"
| "unique_keys CleanupJobs = [[''cleanup_id''], [''task_id'', ''dispatch_generation'', ''fencing_token'']]"
| "unique_keys Receipts = [[''receipt_id''], [''run_id'', ''task_id'', ''attempt'', ''manifest_fingerprint'', ''artifact_ref'']]"
| "unique_keys Workers = [[''worker_id'']]"

definition same_key :: "string list \<Rightarrow> obj \<Rightarrow> obj \<Rightarrow> bool" where
  "same_key cols r1 r2 \<longleftrightarrow> list_all (\<lambda>c. col r1 c = col r2 c) cols"

definition duplicate :: "table \<Rightarrow> obj \<Rightarrow> obj list \<Rightarrow> bool" where
  "duplicate t row rows \<longleftrightarrow> list_ex (\<lambda>r. list_ex (\<lambda>cols. same_key cols row r) (unique_keys t)) rows"

subsection \<open>Statements\<close>

definition put_table :: "table \<Rightarrow> obj list \<Rightarrow> db \<Rightarrow> db" where
  "put_table t rows s = s\<lparr>tables := (tables s)(t := rows)\<rparr>"

definition sql_select :: "table \<Rightarrow> (obj \<Rightarrow> bool) \<Rightarrow> obj list pg_m" where
  "sql_select t P = getsM (\<lambda>s. filter P (tables s t))"

definition sql_first :: "table \<Rightarrow> (obj \<Rightarrow> bool) \<Rightarrow> obj option pg_m" where
  "sql_first t P = getsM (\<lambda>s. find P (tables s t))"

text \<open>\<open>UPDATE t SET f WHERE P RETURNING *\<close>; the number of rows is \<open>rowCount\<close>.\<close>

definition update_rows :: "(obj \<Rightarrow> bool) \<Rightarrow> (obj \<Rightarrow> obj) \<Rightarrow> obj list \<Rightarrow> obj list" where
  "update_rows P f = map (\<lambda>r. if P r then f r else r)"

definition sql_update :: "table \<Rightarrow> (obj \<Rightarrow> bool) \<Rightarrow> (obj \<Rightarrow> obj) \<Rightarrow> obj list pg_m" where
  "sql_update t P f s = (Inr (map f (filter P (tables s t))), put_table t (update_rows P f (tables s t)) s)"

text \<open>A plain \<open>INSERT\<close> fails on a duplicate key.\<close>

definition sql_insert :: "table \<Rightarrow> obj \<Rightarrow> unit pg_m" where
  "sql_insert t row s =
     (if duplicate t row (tables s t) then (Inl ''duplicate_key'', s)
      else (Inr (), put_table t (tables s t @ [row]) s))"

text \<open>\<open>INSERT ... ON CONFLICT DO NOTHING\<close>: whether the row was inserted.\<close>

definition sql_insert_ignore :: "table \<Rightarrow> obj \<Rightarrow> bool pg_m" where
  "sql_insert_ignore t row s =
     (if duplicate t row (tables s t) then (Inr False, s)
      else (Inr True, put_table t (tables s t @ [row]) s))"

text \<open>\<open>INSERT ... ON CONFLICT(cols) DO NOTHING\<close>: a conflict on another key is an error.\<close>

definition sql_insert_unless :: "table \<Rightarrow> string list \<Rightarrow> obj \<Rightarrow> bool pg_m" where
  "sql_insert_unless t cols row s =
     (if list_ex (same_key cols row) (tables s t) then (Inr False, s)
      else if duplicate t row (tables s t) then (Inl ''duplicate_key'', s)
      else (Inr True, put_table t (tables s t @ [row]) s))"

text \<open>
  \<open>INSERT ... ON CONFLICT(cols) DO UPDATE SET f WHERE P RETURNING *\<close>; \<open>f\<close> and \<open>P\<close> see the
  stored row and the row that was to be inserted. No row is returned when \<open>P\<close> refuses the update.
\<close>

definition sql_upsert :: "table \<Rightarrow> string list \<Rightarrow> obj \<Rightarrow> (obj \<Rightarrow> bool) \<Rightarrow> (obj \<Rightarrow> obj) \<Rightarrow> obj list pg_m" where
  "sql_upsert t cols row P f s =
     (if list_ex (same_key cols row) (tables s t) then sql_update t (\<lambda>r. same_key cols row r \<and> P r) f s
      else if duplicate t row (tables s t) then (Inl ''duplicate_key'', s)
      else (Inr [row], put_table t (tables s t @ [row]) s))"

definition sql_delete :: "table \<Rightarrow> (obj \<Rightarrow> bool) \<Rightarrow> unit pg_m" where
  "sql_delete t P = modifyM (\<lambda>s. put_table t (filter (\<lambda>r. \<not> P r) (tables s t)) s)"

text \<open>\<open>BEGIN ... COMMIT\<close> with \<open>ROLLBACK\<close> and rethrow in the \<open>catch\<close> block.\<close>

definition transaction :: "'a pg_m \<Rightarrow> 'a pg_m" where
  "transaction m = restoreM (\<lambda>before after. before\<lparr>db_tick := db_tick after\<rparr>) m"

text \<open>Host readings: the clock, a new identifier, and both.\<close>

definition db_now :: "env \<Rightarrow> string pg_m" where
  "db_now e s = (Inr (clock e (db_tick s)), s\<lparr>db_tick := Suc (db_tick s)\<rparr>)"

definition db_now_plus :: "env \<Rightarrow> int \<Rightarrow> string pg_m" where
  "db_now_plus e ms s = (Inr (iso_of e (clock_ms e (db_tick s) + ms)), s\<lparr>db_tick := Suc (db_tick s)\<rparr>)"

definition db_newId :: "env \<Rightarrow> string \<Rightarrow> string pg_m" where
  "db_newId e p s = (Inr (p @ ''-'' @ uuid e (db_tick s)), s\<lparr>db_tick := Suc (db_tick s)\<rparr>)"

text \<open>\<open>ORDER BY\<close> a list of columns, in the database's collation of their text, stable on ties.\<close>

fun order_cmp :: "env \<Rightarrow> string list \<Rightarrow> obj \<Rightarrow> obj \<Rightarrow> int" where
  "order_cmp e [] a b = 0"
| "order_cmp e (k # ks) a b =
     (let c = (case (col a k, col b k) of
                 (JNum m, JNum n) \<Rightarrow> m - n
               | (x, y) \<Rightarrow> collate e (js_string x) (js_string y))
      in if c \<noteq> 0 then c else order_cmp e ks a b)"

fun insert_ordered :: "(obj \<Rightarrow> obj \<Rightarrow> int) \<Rightarrow> obj \<Rightarrow> obj list \<Rightarrow> obj list" where
  "insert_ordered cmp x [] = [x]"
| "insert_ordered cmp x (y # ys) = (if cmp x y \<le> 0 then x # y # ys else y # insert_ordered cmp x ys)"

definition order_by :: "env \<Rightarrow> string list \<Rightarrow> obj list \<Rightarrow> obj list" where
  "order_by e ks rows = foldr (insert_ordered (order_cmp e ks)) rows []"

definition order_by_desc :: "env \<Rightarrow> string list \<Rightarrow> obj list \<Rightarrow> obj list" where
  "order_by_desc e ks rows = foldr (insert_ordered (\<lambda>a b. order_cmp e ks b a)) rows []"

subsection \<open>Effects of the statements\<close>

lemma tables_put [simp]: "tables (put_table t rows s) t' = (if t' = t then rows else tables s t')"
  by (simp add: put_table_def)

lemma tick_put [simp]: "db_tick (put_table t rows s) = db_tick s"
  by (simp add: put_table_def)

lemma db_host_run [simp]:
  "db_now e s = (Inr (clock e (db_tick s)), s\<lparr>db_tick := Suc (db_tick s)\<rparr>)"
  "db_now_plus e ms s = (Inr (iso_of e (clock_ms e (db_tick s) + ms)), s\<lparr>db_tick := Suc (db_tick s)\<rparr>)"
  "db_newId e p s = (Inr (p @ ''-'' @ uuid e (db_tick s)), s\<lparr>db_tick := Suc (db_tick s)\<rparr>)"
  by (simp_all add: db_now_def db_now_plus_def db_newId_def)

lemma sql_read_run [simp]:
  "sql_select t P s = (Inr (filter P (tables s t)), s)" "sql_first t P s = (Inr (find P (tables s t)), s)"
  "sql_delete t P s = (Inr (), put_table t (filter (\<lambda>r. \<not> P r) (tables s t)) s)"
  by (simp_all add: sql_select_def sql_first_def sql_delete_def)

lemma sql_bind [simp]:
  "bindM (sql_select t P) f s = f (filter P (tables s t)) s" "bindM (sql_first t P) g s = g (find P (tables s t)) s"
  "bindM (db_now e) h s = h (clock e (db_tick s)) (s\<lparr>db_tick := Suc (db_tick s)\<rparr>)"
  "bindM (db_now_plus e ms) h s = h (iso_of e (clock_ms e (db_tick s) + ms)) (s\<lparr>db_tick := Suc (db_tick s)\<rparr>)"
  "bindM (db_newId e p) h s = h (p @ ''-'' @ uuid e (db_tick s)) (s\<lparr>db_tick := Suc (db_tick s)\<rparr>)"
  "bindM (sql_update t P u) f s = f (map u (filter P (tables s t))) (put_table t (update_rows P u (tables s t)) s)"
  "seqM (sql_update t P u) m s = m (put_table t (update_rows P u (tables s t)) s)"
  by (simp_all add: bindM_def seqM_def sql_update_def)

lemma transaction_ok: "transaction m s = (Inr x, t) \<longleftrightarrow> m s = (Inr x, t)"
  by (auto simp: transaction_def restoreM_def split: prod.splits sum.splits)

lemma transaction_failed: "transaction m s = (Inl err, t) \<Longrightarrow> t = s\<lparr>db_tick := db_tick t\<rparr>"
  by (auto simp: transaction_def restoreM_def split: prod.splits sum.splits)

text \<open>Reading a row by a column the update leaves alone.\<close>

lemma find_update_rows:
  assumes "\<And>r. Q (f r) = Q r"
  shows "find Q (update_rows P f rows) = map_option (\<lambda>r. if P r then f r else r) (find Q rows)"
  using assms by (induction rows) (auto simp: update_rows_def)

lemma find_snoc: "find Q (rows @ [r]) = (case find Q rows of Some x \<Rightarrow> Some x | None \<Rightarrow> if Q r then Some r else None)"
  by (induction rows) auto

lemma length_update_rows [simp]: "length (update_rows P f rows) = length rows"
  by (simp add: update_rows_def)

lemma update_rows_unchanged: "(\<And>r. r \<in> set rows \<Longrightarrow> \<not> P r) \<Longrightarrow> update_rows P f rows = rows"
  by (simp add: update_rows_def map_idI)

lemma col_simps [simp]:
  "col (AList.update a v row) k = (if k = a then coalesce v JNull else col row k)"
  "col ((a, v) # row) k = (if k = a then coalesce v JNull else col row k)" "col [] k = JNull"
  by (simp_all add: col_def)

lemma col_plus_one [simp]:
  "col (plus_one a row) k = (if k = a then JNum (num_or 0 (get row a) + 1) else col row k)"
  "get (plus_one a row) k = (if k = a then JNum (num_or 0 (get row a) + 1) else get row k)"
  by (simp_all add: plus_one_def)

lemma not_nullish_col: "\<not> nullish v \<Longrightarrow> col row k = v \<longleftrightarrow> get row k = v"
  by (auto simp: col_def coalesce_def)

lemma col_is_JStr [simp]: "col_is k (JStr v) row \<longleftrightarrow> get row k = JStr v"
  by (auto simp: col_is_def sql_eq_def col_def coalesce_def nullish_def split: if_splits)

end
