(* ===== verification/PgStore.thy ===== *)
theory PgStore
  imports Sql Continuation Utils MemStore
begin

text \<open>
  \<^verbatim>\<open>.agents/runtime/store.mjs\<close>: the PostgreSQL orchestration store, method by method, over
  the statements of theory \<open>Sql\<close>. A method that opens a transaction is a \<open>transaction\<close>; a method
  that issues several statements outside one takes a parameter \<open>interfere\<close>, what other clients do to the
  database between the statements. Rows hold numbers as numbers, so \<open>numberFields\<close>, which converts the
  driver's text of 64-bit columns, is the identity. Notifications (\<open>pg_notify\<close>), log lines, advisory
  locks, connection pooling and the aggregate report have no effect on the tables and are left out; the
  columns the schema declares \<open>NOT NULL\<close> are supplied by the callers.
\<close>

subsection \<open>Construction\<close>

definition ident_start :: "char \<Rightarrow> bool" where
  "ident_start c \<longleftrightarrow> (let n = of_char c :: nat in (65 \<le> n \<and> n \<le> 90) \<or> (97 \<le> n \<and> n \<le> 122) \<or> n = 95)"

definition assertIdentifier :: "string \<Rightarrow> string \<Rightarrow> string res" where
  "assertIdentifier value label =
     (case value of
        c # cs \<Rightarrow>
          if ident_start c \<and> list_all (\<lambda>d. ident_start d \<or> digit_value d \<noteq> None) cs then Inr value
          else Inl (''invalid_'' @ label @ '':'' @ value)
      | [] \<Rightarrow> Inl (''invalid_'' @ label @ '':'' @ value))"

definition postgres_url :: "string \<Rightarrow> bool" where
  "postgres_url location \<longleftrightarrow>
     starts_with (toLowerCase location) ''postgres://'' \<or> starts_with (toLowerCase location) ''postgresql://''"

definition REQUIRED_POSTGRES_TABLES :: "string list" where
  "REQUIRED_POSTGRES_TABLES =
     [''agent_artifacts'', ''agent_conflicts'', ''agent_events'', ''agent_integrated_paths'', ''agent_runs'',
      ''agent_tasks'', ''agent_runtime_outbox'', ''agent_task_checkpoints'', ''agent_execution_results'',
      ''agent_runtime_workers'', ''agent_workspace_cleanup_jobs'', ''agent_continuations'',
      ''agent_continuation_deliveries'', ''agent_runtime_inbox'', ''agent_input_artifact_receipts'']"

definition REQUIRED_AGENT_RUN_COLUMNS :: "string list" where
  "REQUIRED_AGENT_RUN_COLUMNS =
     [''reconcile_generation'', ''reconcile_requested_at'', ''reconcile_lease_owner'', ''reconcile_lease_expires_at'',
      ''runtime_driver'', ''context_budget_bytes'', ''task_timeout_ms'', ''auto_integrate'']"

definition REQUIRED_AGENT_CONTINUATION_COLUMNS :: "string list" where
  "REQUIRED_AGENT_CONTINUATION_COLUMNS =
     [''session_adapter_id'', ''session_agent_id'', ''session_provider_id'', ''session_model_id'',
      ''session_model_variant'', ''session_prompt_message_id'']"

definition REQUIRED_AGENT_TASK_COLUMNS :: "string list" where
  "REQUIRED_AGENT_TASK_COLUMNS =
     [''model_id'', ''model_variant'', ''reasoning_effort'', ''steps_limit'', ''steps_used'', ''step_limit_reached'',
      ''stop_reason'', ''opencode_session_id'', ''cached_input_tokens'', ''cost_usd'', ''dispatch_generation'',
      ''execution_descriptor_path'', ''execution_result_path'', ''lease_owner'', ''lease_expires_at'', ''fencing_token'',
      ''cleanup_state'', ''cleanup_attempts'', ''cleanup_error'', ''retry_not_before'', ''input_manifest_path'',
      ''input_manifest_fingerprint'']"

text \<open>The catalogue the check reads: tables, columns of a table, and whether the legacy constraint exists.\<close>

record catalogue =
  cat_tables :: "string list"
  cat_columns :: "string \<Rightarrow> string list"
  cat_legacy_unique :: bool

definition missing_columns :: "catalogue \<Rightarrow> string \<Rightarrow> string list \<Rightarrow> string list" where
  "missing_columns c t required =
     map (\<lambda>k. t @ ''.'' @ k) (filter (\<lambda>k. k \<notin> set (cat_columns c t)) required)"

definition schema_missing :: "catalogue \<Rightarrow> string list" where
  "schema_missing c =
     (let missing = filter (\<lambda>t. t \<notin> set (cat_tables c)) REQUIRED_POSTGRES_TABLES;
          runs = missing_columns c ''agent_runs'' REQUIRED_AGENT_RUN_COLUMNS;
          tasks = missing_columns c ''agent_tasks'' REQUIRED_AGENT_TASK_COLUMNS;
          continuations = missing_columns c ''agent_continuations'' REQUIRED_AGENT_CONTINUATION_COLUMNS
      in if missing \<noteq> [] then missing else if runs \<noteq> [] then runs else if tasks \<noteq> [] then tasks
         else if continuations \<noteq> [] then continuations
         else if cat_legacy_unique c then [''agent_tasks.legacy_run_agent_unique_constraint''] else [])"

definition assertSchemaReady :: "catalogue \<Rightarrow> unit res" where
  "assertSchemaReady c = ensure (schema_missing c = []) ''schema_not_ready''"

definition RUN_PATCH_COLUMNS :: "string list" where
  "RUN_PATCH_COLUMNS =
     [''status'', ''executor'', ''workspace_mode'', ''max_parallel'', ''peak_parallel'', ''started_at'', ''completed_at'',
      ''error_code'', ''error_message'', ''reasoning_mode'', ''reasoning_source'', ''initial_reasoning_level'',
      ''reasoning_confidence'', ''graph_version'', ''reconcile_generation'', ''reconcile_requested_at'',
      ''reconcile_lease_owner'', ''reconcile_lease_expires_at'', ''runtime_driver'', ''context_budget_bytes'',
      ''task_timeout_ms'', ''auto_integrate'']"

definition TASK_PATCH_COLUMNS :: "string list" where
  "TASK_PATCH_COLUMNS =
     [''status'', ''attempt'', ''brief_path'', ''context_path'', ''handoff_path'', ''workspace_path'', ''context_bytes'',
      ''context_documents'', ''estimated_tokens'', ''used_context_documents'', ''input_tokens'', ''output_tokens'',
      ''cached_input_tokens'', ''cost_usd'', ''model_id'', ''model_variant'', ''reasoning_effort'', ''steps_limit'',
      ''steps_used'', ''step_limit_reached'', ''stop_reason'', ''opencode_session_id'', ''started_at'', ''completed_at'',
      ''duration_ms'', ''error_code'', ''error_message'', ''reasoning_level'', ''reasoning_source'',
      ''reasoning_reasons_json'', ''dispatch_generation'', ''queued_at'', ''execution_descriptor_path'',
      ''execution_result_path'', ''lease_owner'', ''lease_expires_at'', ''fencing_token'', ''cleanup_state'',
      ''cleanup_attempts'', ''cleanup_error'', ''retry_not_before'', ''dependencies_json'', ''input_manifest_path'',
      ''input_manifest_fingerprint'']"

subsection \<open>Events and the outbox\<close>

definition pg_event_row :: "string \<Rightarrow> jsval \<Rightarrow> jsval \<Rightarrow> string \<Rightarrow> jsval \<Rightarrow> string \<Rightarrow> obj" where
  "pg_event_row eventId runId taskId ty payload createdAt =
     [(''event_id'', JStr eventId), (''run_id'', runId), (''task_id'', coalesce taskId JNull),
      (''event_type'', JStr ty), (''payload_json'', payload), (''created_at'', JStr createdAt)]"

definition pg_event :: "env \<Rightarrow> jsval \<Rightarrow> jsval \<Rightarrow> string \<Rightarrow> jsval \<Rightarrow> unit pg_m" where
  "pg_event e runId taskId ty payload =
     bindM (db_newId e ''event'') (\<lambda>eventId. bindM (db_now e) (\<lambda>at.
     sql_insert Events (pg_event_row eventId runId taskId ty payload at)))"

text \<open>The events a transaction writes carry the time the method has read before.\<close>

definition pg_event_at :: "env \<Rightarrow> jsval \<Rightarrow> jsval \<Rightarrow> string \<Rightarrow> jsval \<Rightarrow> string \<Rightarrow> unit pg_m" where
  "pg_event_at e runId taskId ty payload at =
     bindM (db_newId e ''event'') (\<lambda>eventId. sql_insert Events (pg_event_row eventId runId taskId ty payload at))"

text \<open>The result tells whether the event was inserted and its identifier; without a key the method is \<open>event\<close>.\<close>

definition pg_eventOnce :: "env \<Rightarrow> jsval \<Rightarrow> jsval \<Rightarrow> string \<Rightarrow> obj \<Rightarrow> jsval \<Rightarrow> (bool \<times> string) option pg_m" where
  "pg_eventOnce e runId taskId ty payload effectKey =
     (if \<not> truthy effectKey then seqM (pg_event e runId taskId ty (JObj payload)) (returnM None)
      else
        bindM (db_now e) (\<lambda>at.
        let eventId = effect_event_id e effectKey in
        bindM (sql_insert_unless Events [''event_id''] (pg_event_row eventId runId taskId ty
                 (JObj (AList.update ''effectKey'' effectKey payload)) at)) (\<lambda>inserted.
        returnM (Some (inserted, eventId)))))"

definition outbox_row :: "string \<Rightarrow> string \<Rightarrow> jsval \<Rightarrow> string \<Rightarrow> int \<Rightarrow> jsval \<Rightarrow> string \<Rightarrow> obj" where
  "outbox_row outboxId runId taskId kind generation envelope at =
     [(''outbox_id'', JStr outboxId), (''run_id'', JStr runId), (''task_id'', coalesce taskId JNull),
      (''message_kind'', JStr kind), (''dispatch_generation'', JNum generation), (''payload_json'', envelope),
      (''created_at'', JStr at)]"

definition runtime_envelope :: "string \<Rightarrow> string \<Rightarrow> jsval \<Rightarrow> string \<Rightarrow> int \<Rightarrow> obj \<Rightarrow> obj" where
  "runtime_envelope outboxId runId taskId kind generation payload = assign
     ([(''schemaVersion'', JStr ''agent-runtime-envelope/v1''), (''messageId'', JStr outboxId), (''kind'', JStr kind),
       (''runId'', JStr runId)] @ (if truthy taskId then [(''taskId'', taskId)] else [])
      @ [(''dispatchGeneration'', JNum generation)]) payload"

definition pg_enqueueRuntimeOutbox :: "env \<Rightarrow> string \<Rightarrow> jsval \<Rightarrow> string \<Rightarrow> int \<Rightarrow> obj \<Rightarrow> obj pg_m" where
  "pg_enqueueRuntimeOutbox e runId taskId kind generation payload =
     bindM (db_newId e ''agent-outbox'') (\<lambda>outboxId.
     let envelope = runtime_envelope outboxId runId taskId kind generation payload in
     bindM (db_now e) (\<lambda>at.
     seqM (sql_insert_ignore Outbox (outbox_row outboxId runId taskId kind generation (JObj envelope) at))
     (returnM envelope)))"

subsection \<open>Rows of runs and tasks\<close>

definition pg_getRun :: "string \<Rightarrow> obj option pg_m" where
  "pg_getRun runId = sql_first Runs (col_is ''run_id'' (JStr runId))"

definition pg_getTask :: "string \<Rightarrow> obj option pg_m" where
  "pg_getTask taskId = sql_first Tasks (col_is ''task_id'' (JStr taskId))"

definition run_of :: "db \<Rightarrow> string \<Rightarrow> obj option" where
  "run_of s runId = find (col_is ''run_id'' (JStr runId)) (tables s Runs)"

definition task_of :: "db \<Rightarrow> string \<Rightarrow> obj option" where
  "task_of s taskId = find (col_is ''task_id'' (JStr taskId)) (tables s Tasks)"

definition pg_task_row :: "string \<Rightarrow> jsval \<Rightarrow> jsval \<Rightarrow> jsval \<Rightarrow> jsval \<Rightarrow> obj \<Rightarrow> obj" where
  "pg_task_row runId task dependencies ownedPaths reasoningSource options =
     [(''task_id'', field task ''taskId''), (''run_id'', JStr runId), (''agent_id'', field task ''agentId''),
      (''role'', field task ''role''), (''status'', JStr ''routed''), (''attempt'', JNum 0),
      (''max_attempts'', coalesce (get options ''maxAttempts'') (JNum 3)),
      (''dependencies_json'', dependencies), (''owned_paths_json'', ownedPaths),
      (''reasoning_level'', coalesce (field task ''reasoningLevel'') JNull), (''reasoning_source'', reasoningSource),
      (''state_version'', JNum 0), (''dispatch_generation'', JNum 0), (''fencing_token'', JNum 0),
      (''cleanup_state'', JStr ''none''), (''cleanup_attempts'', JNum 0)]"

text \<open>A row of \<open>addTasks\<close> and of a refinement: absent lists become empty ones.\<close>

definition added_task_row :: "string \<Rightarrow> jsval \<Rightarrow> jsval \<Rightarrow> obj \<Rightarrow> obj" where
  "added_task_row runId task reasoningSource options =
     pg_task_row runId task (coalesce (field task ''dependencies'') (JArr [])) (coalesce (field task ''ownedPaths'') (JArr []))
       reasoningSource options"

definition pg_replacePlan :: "env \<Rightarrow> string \<Rightarrow> obj \<Rightarrow> jsval \<Rightarrow> obj pg_m" where
  "pg_replacePlan e runId plan expectedVersion =
     bindM (sql_update Runs (\<lambda>r. col_is ''run_id'' (JStr runId) r
              \<and> (expectedVersion \<noteq> JUndef \<longrightarrow> col_is ''state_version'' expectedVersion r))
            (\<lambda>r. plus_one ''state_version'' (AList.update ''plan_json'' (JObj plan) r))) (\<lambda>updated.
     case updated of
       [row] \<Rightarrow>
         seqM (pg_event e (JStr runId) JNull ''dag.plan.replaced'' (JObj
           [(''phase'', get plan ''phase''), (''taskCount'', JNum (int (length (elements (get plan ''tasks'')))))]))
         (returnM row)
     | _ \<Rightarrow>
         bindM (pg_getRun runId) (\<lambda>current.
         throwM (''agent_run_plan_version_conflict:'' @ runId @ '':'' @ js_string (coalesce expectedVersion (JStr ''unknown''))
           @ '':'' @ js_string (coalesce (case current of None \<Rightarrow> JUndef | Some c \<Rightarrow> get c ''state_version'') (JStr ''missing'')))))"

definition pg_addTasks :: "env \<Rightarrow> string \<Rightarrow> jsval \<Rightarrow> obj \<Rightarrow> obj list pg_m" where
  "pg_addTasks e runId tasks options =
     (if elements tasks = [] then returnM []
      else
        bindM (transaction (collectM (\<lambda>task.
            let row = added_task_row runId task (coalesce (get options ''reasoningSource'') JNull) options in
            bindM (sql_insert_unless Tasks [''task_id''] row) (\<lambda>inserted. returnM (if inserted then Some row else None)))
          (elements tasks))) (\<lambda>inserted.
        seqM (whenM (inserted \<noteq> [])
          (pg_event e (JStr runId) JNull ''dag.tasks.materialized'' (JObj
             [(''taskIds'', JArr (map (\<lambda>t. get t ''task_id'') inserted))])))
        (returnM inserted)))"

definition patch_entries :: "string list \<Rightarrow> obj \<Rightarrow> obj" where
  "patch_entries columns patch = map (\<lambda>(k, v). (k, coalesce v JNull)) (filter (\<lambda>(k, v). k \<in> set columns) patch)"

text \<open>\<open>status NOT IN (...) OR column IS NOT DISTINCT FROM value\<close>\<close>

definition patch_guard :: "obj \<Rightarrow> string \<Rightarrow> obj \<Rightarrow> bool" where
  "patch_guard patch k row \<longleftrightarrow>
     (has_own patch k \<longrightarrow>
        \<not> col_in ''status'' TERMINAL_RUN_STATUSES row \<or> col row k = coalesce (get patch k) JNull)"

definition pg_updateRun :: "string \<Rightarrow> obj \<Rightarrow> jsval \<Rightarrow> (db \<Rightarrow> db) \<Rightarrow> obj option pg_m" where
  "pg_updateRun runId patch expectedVersion interfere =
     (if patch_entries RUN_PATCH_COLUMNS patch = [] then pg_getRun runId
      else
        bindM (pg_getRun runId) (\<lambda>currentBefore.
        case currentBefore of
          None \<Rightarrow> returnM None
        | Some before \<Rightarrow>
            seqM (liftR (assertTerminalRunPatch (Some before) patch))
            (seqM (modifyM interfere)
            (bindM (sql_update Runs
               (\<lambda>r. col_is ''run_id'' (JStr runId) r \<and> patch_guard patch ''status'' r \<and> patch_guard patch ''completed_at'' r
                  \<and> (expectedVersion \<noteq> JUndef \<longrightarrow> col_is ''state_version'' expectedVersion r))
               (\<lambda>r. plus_one ''state_version'' (assign r (patch_entries RUN_PATCH_COLUMNS patch)))) (\<lambda>updated.
            case updated of
              [row] \<Rightarrow> returnM (Some row)
            | _ \<Rightarrow>
                bindM (pg_getRun runId) (\<lambda>current.
                let version = (case current of None \<Rightarrow> JUndef | Some c \<Rightarrow> get c ''state_version'') in
                seqM (guardM (expectedVersion = JUndef \<or> version = expectedVersion)
                  (''agent_run_version_conflict:'' @ runId @ '':'' @ js_string expectedVersion @ '':''
                    @ js_string (coalesce version (JStr ''missing''))))
                (seqM (liftR (case current of
                     Some c \<Rightarrow> if isTerminalRunStatus (get c ''status'') then assertTerminalRunPatch (Some c) patch else Inr ()
                   | None \<Rightarrow> Inr ()))
                (returnM (case updated of [] \<Rightarrow> None | row # _ \<Rightarrow> Some row)))))))))"

definition pg_updateTask :: "string \<Rightarrow> obj \<Rightarrow> jsval \<Rightarrow> obj option pg_m" where
  "pg_updateTask taskId patch expectedVersion =
     (if patch_entries TASK_PATCH_COLUMNS patch = [] then pg_getTask taskId
      else
        bindM (sql_update Tasks
          (\<lambda>r. col_is ''task_id'' (JStr taskId) r \<and> (expectedVersion \<noteq> JUndef \<longrightarrow> col_is ''state_version'' expectedVersion r))
          (\<lambda>r. plus_one ''state_version'' (assign r (patch_entries TASK_PATCH_COLUMNS patch)))) (\<lambda>updated.
        if expectedVersion \<noteq> JUndef \<and> length updated \<noteq> 1 then
          bindM (pg_getTask taskId) (\<lambda>current.
          throwM (''agent_task_version_conflict:'' @ taskId @ '':'' @ js_string expectedVersion @ '':''
            @ js_string (coalesce (case current of None \<Rightarrow> JUndef | Some c \<Rightarrow> get c ''state_version'') (JStr ''missing''))))
        else returnM (case updated of [] \<Rightarrow> None | row # _ \<Rightarrow> Some row)))"

definition pg_touchTask :: "string \<Rightarrow> int pg_m" where
  "pg_touchTask taskId =
     bindM (sql_update Tasks (col_is ''task_id'' (JStr taskId)) (plus_one ''state_version'')) (\<lambda>updated.
     returnM (case updated of [] \<Rightarrow> 0 | row # _ \<Rightarrow> num_or 0 (get row ''state_version'')))"

subsection \<open>Reconcile leases and requests\<close>

text \<open>\<open>leaseMs\<close> is the argument after its default of 120,000.\<close>

definition lease_free :: "env \<Rightarrow> string \<Rightarrow> string \<Rightarrow> obj \<Rightarrow> bool" where
  "lease_free e ownerId now row \<longleftrightarrow>
     is_null ''reconcile_lease_owner'' row \<or> is_null ''reconcile_lease_expires_at'' row
     \<or> collate e (js_string (col row ''reconcile_lease_expires_at'')) now < 0
     \<or> col_is ''reconcile_lease_owner'' (JStr ownerId) row"

definition pg_claimRunReconcile :: "env \<Rightarrow> string \<Rightarrow> string \<Rightarrow> int \<Rightarrow> obj option pg_m" where
  "pg_claimRunReconcile e runId ownerId leaseMs =
     bindM (db_now_plus e leaseMs) (\<lambda>expiresAt. bindM (db_now e) (\<lambda>now.
     bindM (sql_update Runs
       (\<lambda>r. col_is ''run_id'' (JStr runId) r \<and> col_in ''status'' [''routed'', ''running''] r \<and> lease_free e ownerId now r)
       (\<lambda>r. assign r [(''reconcile_lease_owner'', JStr ownerId), (''reconcile_lease_expires_at'', JStr expiresAt)]))
       (\<lambda>updated. returnM (case updated of [] \<Rightarrow> None | row # _ \<Rightarrow> Some row))))"

definition pg_releaseRunReconcile :: "string \<Rightarrow> string \<Rightarrow> unit pg_m" where
  "pg_releaseRunReconcile runId ownerId =
     seqM (sql_update Runs
       (\<lambda>r. col_is ''run_id'' (JStr runId) r \<and> col_is ''reconcile_lease_owner'' (JStr ownerId) r)
       (\<lambda>r. assign r [(''reconcile_lease_owner'', JNull), (''reconcile_lease_expires_at'', JNull)]))
     (returnM ())"

definition pg_requestReconcile :: "env \<Rightarrow> string \<Rightarrow> string \<Rightarrow> int pg_m" where
  "pg_requestReconcile e runId reason = transaction (
     bindM (db_now e) (\<lambda>at.
     bindM (sql_update Runs (col_is ''run_id'' (JStr runId))
       (\<lambda>r. plus_one ''state_version'' (AList.update ''reconcile_requested_at'' (JStr at) (plus_one ''reconcile_generation'' r))))
       (\<lambda>updated.
     case updated of
       [row] \<Rightarrow>
         let generation = num_or 0 (get row ''reconcile_generation'') in
         seqM (pg_enqueueRuntimeOutbox e runId JNull ''agent.run.reconcile.v1'' generation [(''reason'', JStr reason)])
         (returnM generation)
     | _ \<Rightarrow> throwM (''run_not_found:'' @ runId))))"

subsection \<open>Dispatch and fencing\<close>

record dispatch_result =
  dr_dispatched :: bool
  dr_task :: obj
  dr_reason :: "string option"
  dr_dispatchGeneration :: int
  dr_fencingToken :: int

definition queued_task :: "jsval \<Rightarrow> int \<Rightarrow> int \<Rightarrow> jsval \<Rightarrow> string \<Rightarrow> obj \<Rightarrow> obj" where
  "queued_task attempt generation fence descriptorPath queuedAt r = plus_one ''state_version'' (assign r
     [(''status'', JStr ''queued''), (''attempt'', attempt), (''dispatch_generation'', JNum generation),
      (''fencing_token'', JNum fence), (''execution_descriptor_path'', descriptorPath),
      (''execution_result_path'', JNull), (''queued_at'', JStr queuedAt), (''completed_at'', JNull),
      (''retry_not_before'', JNull), (''lease_owner'', JNull), (''lease_expires_at'', JNull),
      (''error_code'', JNull), (''error_message'', JNull)])"

definition pg_dispatchPreparedTask :: "env \<Rightarrow> string \<Rightarrow> jsval \<Rightarrow> jsval \<Rightarrow> string \<Rightarrow> dispatch_result pg_m" where
  "pg_dispatchPreparedTask e taskId attempt descriptorPath reason = transaction (
     bindM (sql_first Tasks (col_is ''task_id'' (JStr taskId))) (\<lambda>locked.
     case locked of
       None \<Rightarrow> throwM (''task_not_found:'' @ taskId)
     | Some task \<Rightarrow>
         if \<not> col_in ''status'' [''routed'', ''retrying''] task then
           returnM \<lparr>dr_dispatched = False, dr_task = task, dr_reason = Some (''status:'' @ js_string (col task ''status'')),
                    dr_dispatchGeneration = 0, dr_fencingToken = 0\<rparr>
         else
           let generation = num_or 0 (get task ''dispatch_generation'') + 1;
               fence = num_or 0 (get task ''fencing_token'') + 1;
               payload = [(''attempt'', attempt), (''fencingToken'', JNum fence), (''reason'', JStr reason)] in
           bindM (db_now e) (\<lambda>queuedAt.
           seqM (sql_update Tasks (col_is ''task_id'' (JStr taskId)) (queued_task attempt generation fence descriptorPath queuedAt))
           (seqM (pg_enqueueRuntimeOutbox e (js_string (col task ''run_id'')) (JStr taskId) ''agent.task.execute.v1'' generation payload)
           (seqM (pg_event_at e (col task ''run_id'') (JStr taskId) ''task.queued'' (JObj
              [(''attempt'', attempt), (''dispatchGeneration'', JNum generation), (''fencingToken'', JNum fence),
               (''reason'', JStr reason)]) queuedAt)
           (returnM \<lparr>dr_dispatched = True, dr_task = queued_task attempt generation fence descriptorPath queuedAt task,
                     dr_reason = None, dr_dispatchGeneration = generation, dr_fencingToken = fence\<rparr>))))))"

definition pg_expireTaskLeaseForQualification :: "string \<Rightarrow> string \<Rightarrow> int \<Rightarrow> int \<Rightarrow> int \<Rightarrow> string \<Rightarrow> obj option pg_m" where
  "pg_expireTaskLeaseForQualification runId taskId attempt dispatchGeneration fencingToken expiredAt =
     (if runId = [] \<or> taskId = [] then throwM ''qualification_lease_expiry_identity_required''
      else transaction (
        bindM (sql_update Tasks
          (\<lambda>r. col_is ''task_id'' (JStr taskId) r \<and> col_is ''run_id'' (JStr runId) r \<and> col_is ''status'' (JStr ''running'') r
             \<and> col_is ''attempt'' (JNum attempt) r \<and> col_is ''dispatch_generation'' (JNum dispatchGeneration) r
             \<and> col_is ''fencing_token'' (JNum fencingToken) r)
          (\<lambda>r. plus_one ''state_version'' (AList.update ''lease_expires_at'' (JStr expiredAt) r))) (\<lambda>updated.
        returnM (case updated of [row] \<Rightarrow> Some row | _ \<Rightarrow> None))))"

subsection \<open>Checkpoints, results and cleanup\<close>

record checkpoint_input =
  ci_runId :: string
  ci_taskId :: string
  ci_type :: string
  ci_attempt :: int
  ci_dispatchGeneration :: int
  ci_fencingToken :: int
  ci_fingerprint :: jsval
  ci_reusable :: bool
  ci_payload :: jsval

definition CHECKPOINT_KEY :: "string list" where
  "CHECKPOINT_KEY = [''task_id'', ''checkpoint_type'', ''attempt'', ''dispatch_generation'', ''fencing_token'']"

definition checkpoint_row :: "checkpoint_input \<Rightarrow> string \<Rightarrow> string \<Rightarrow> obj" where
  "checkpoint_row ci checkpointId at =
     [(''checkpoint_id'', JStr checkpointId), (''run_id'', JStr (ci_runId ci)), (''task_id'', JStr (ci_taskId ci)),
      (''checkpoint_type'', JStr (ci_type ci)), (''attempt'', JNum (ci_attempt ci)),
      (''dispatch_generation'', JNum (ci_dispatchGeneration ci)), (''fencing_token'', JNum (ci_fencingToken ci)),
      (''fingerprint'', ci_fingerprint ci), (''reusable'', JBool (ci_reusable ci)), (''payload_json'', ci_payload ci),
      (''created_at'', JStr at)]"

definition rewritten_checkpoint :: "checkpoint_input \<Rightarrow> string \<Rightarrow> obj \<Rightarrow> obj" where
  "rewritten_checkpoint ci at r = assign r
     [(''fingerprint'', ci_fingerprint ci), (''reusable'', JBool (ci_reusable ci)), (''payload_json'', ci_payload ci),
      (''created_at'', JStr at), (''invalidated_at'', JNull)]"

definition pg_writeCheckpoint :: "env \<Rightarrow> checkpoint_input \<Rightarrow> string pg_m" where
  "pg_writeCheckpoint e ci =
     bindM (db_newId e ''checkpoint'') (\<lambda>checkpointId. bindM (db_now e) (\<lambda>at.
     seqM (sql_upsert Checkpoints CHECKPOINT_KEY (checkpoint_row ci checkpointId at) (\<lambda>_. True) (rewritten_checkpoint ci at))
     (returnM checkpointId)))"

definition pg_latestCheckpoint :: "env \<Rightarrow> string \<Rightarrow> string \<Rightarrow> obj option pg_m" where
  "pg_latestCheckpoint e taskId ty =
     bindM (sql_select Checkpoints (\<lambda>r. col_is ''task_id'' (JStr taskId) r \<and> col_is ''checkpoint_type'' (JStr ty) r
        \<and> is_null ''invalidated_at'' r)) (\<lambda>found.
     returnM (case order_by_desc e [''created_at''] found of [] \<Rightarrow> None | r # _ \<Rightarrow> Some r))"

definition pg_listCheckpoints :: "env \<Rightarrow> string \<Rightarrow> string option \<Rightarrow> obj list pg_m" where
  "pg_listCheckpoints e runId taskId =
     bindM (sql_select Checkpoints (\<lambda>r. col_is ''run_id'' (JStr runId) r
        \<and> (case taskId of None \<Rightarrow> True | Some t \<Rightarrow> col_is ''task_id'' (JStr t) r))) (\<lambda>found.
     returnM (order_by e [''created_at''] found))"

definition pg_listPendingExecutionResults :: "env \<Rightarrow> string \<Rightarrow> obj list pg_m" where
  "pg_listPendingExecutionResults e runId =
     bindM (sql_select Results (\<lambda>r. col_is ''run_id'' (JStr runId) r \<and> is_null ''consumed_at'' r)) (\<lambda>found.
     returnM (order_by e [''created_at''] found))"

definition pg_consumeExecutionResult :: "env \<Rightarrow> string \<Rightarrow> obj option pg_m" where
  "pg_consumeExecutionResult e resultId =
     bindM (db_now e) (\<lambda>at.
     bindM (sql_update Results (\<lambda>r. col_is ''result_id'' (JStr resultId) r \<and> is_null ''consumed_at'' r)
       (AList.update ''consumed_at'' (JStr at))) (\<lambda>updated.
     returnM (case updated of [] \<Rightarrow> None | r # _ \<Rightarrow> Some r)))"

definition CLEANUP_KEY :: "string list" where
  "CLEANUP_KEY = [''task_id'', ''dispatch_generation'', ''fencing_token'']"

definition pg_requestWorkspaceCleanup :: "env \<Rightarrow> string \<Rightarrow> string \<Rightarrow> bool pg_m" where
  "pg_requestWorkspaceCleanup e taskId reason = transaction (
     bindM (sql_first Tasks (col_is ''task_id'' (JStr taskId))) (\<lambda>selected.
     case selected of
       None \<Rightarrow> returnM False
     | Some row \<Rightarrow>
         if \<not> truthy (get row ''workspace_path'') then returnM False
         else
           let runId = js_string (col row ''run_id''); generation = num_or 0 (get row ''dispatch_generation'');
               fence = num_or 0 (get row ''fencing_token'') in
           bindM (db_newId e ''cleanup'') (\<lambda>cleanupId. bindM (db_now e) (\<lambda>at.
           seqM (sql_upsert CleanupJobs CLEANUP_KEY
              [(''cleanup_id'', JStr cleanupId), (''run_id'', col row ''run_id''), (''task_id'', JStr taskId),
               (''attempt'', JNum (num_or 0 (get row ''attempt''))), (''dispatch_generation'', JNum generation),
               (''fencing_token'', JNum fence), (''workspace_path'', get row ''workspace_path''),
               (''status'', JStr ''queued''), (''created_at'', JStr at)]
              (\<lambda>_. True)
              (\<lambda>r. assign r [(''status'', if col_is ''status'' (JStr ''done'') r then JStr ''done'' else JStr ''queued''),
                 (''workspace_path'', get row ''workspace_path''), (''next_attempt_at'', JNull)]))
           (seqM (sql_update Tasks
              (\<lambda>r. col_is ''task_id'' (JStr taskId) r \<and> col_is ''dispatch_generation'' (col row ''dispatch_generation'') r
                 \<and> col_is ''fencing_token'' (col row ''fencing_token'') r)
              (\<lambda>r. plus_one ''state_version'' (assign r [(''cleanup_state'', JStr ''queued''), (''cleanup_error'', JNull)])))
           (seqM (pg_enqueueRuntimeOutbox e runId (JStr taskId) ''agent.workspace.cleanup.v1'' generation
              [(''fencingToken'', JNum fence), (''reason'', JStr reason)])
            (returnM True)))))))"

subsection \<open>Artifacts, conflicts, integrated paths and receipts\<close>

definition pg_addArtifact :: "env \<Rightarrow> string \<Rightarrow> jsval \<Rightarrow> string \<Rightarrow> string \<Rightarrow> string \<Rightarrow> jsval \<Rightarrow> bool \<Rightarrow> string pg_m" where
  "pg_addArtifact e runId taskId kind version path sha accepted =
     bindM (db_newId e ''artifact'') (\<lambda>artifactId. bindM (db_now e) (\<lambda>at.
     seqM (sql_insert Artifacts
       [(''artifact_id'', JStr artifactId), (''run_id'', JStr runId), (''task_id'', taskId), (''kind'', JStr kind),
        (''version'', JStr version), (''path'', JStr path), (''sha256'', sha), (''accepted'', JNum (if accepted then 1 else 0)),
        (''created_at'', JStr at)])
     (returnM artifactId)))"

definition pg_acceptArtifact :: "string \<Rightarrow> unit pg_m" where
  "pg_acceptArtifact artifactId =
     seqM (sql_update Artifacts (col_is ''artifact_id'' (JStr artifactId)) (AList.update ''accepted'' (JNum 1))) (returnM ())"

definition pg_addConflict :: "env \<Rightarrow> string \<Rightarrow> jsval \<Rightarrow> string \<Rightarrow> string \<Rightarrow> jsval \<Rightarrow> string pg_m" where
  "pg_addConflict e runId taskId path ty details =
     bindM (db_newId e ''conflict'') (\<lambda>conflictId. bindM (db_now e) (\<lambda>at.
     seqM (sql_insert Conflicts
       [(''conflict_id'', JStr conflictId), (''run_id'', JStr runId), (''task_id'', taskId), (''path'', JStr path),
        (''conflict_type'', JStr ty), (''details_json'', details), (''created_at'', JStr at)])
     (seqM (pg_event e (JStr runId) taskId ''integration.conflict'' (JObj
        [(''conflictId'', JStr conflictId), (''path'', JStr path), (''type'', JStr ty)]))
     (returnM conflictId))))"

definition path_key :: "string \<Rightarrow> string \<Rightarrow> obj \<Rightarrow> bool" where
  "path_key runId path r \<longleftrightarrow> col_is ''run_id'' (JStr runId) r \<and> col_is ''path'' (JStr path) r"

definition pg_integratedPath :: "string \<Rightarrow> string \<Rightarrow> obj option pg_m" where
  "pg_integratedPath runId path = sql_first IntegratedPaths (path_key runId path)"

definition pg_markIntegratedPath :: "env \<Rightarrow> string \<Rightarrow> string \<Rightarrow> string \<Rightarrow> jsval \<Rightarrow> unit pg_m" where
  "pg_markIntegratedPath e runId taskId path fingerprint =
     bindM (db_now e) (\<lambda>at.
     seqM (sql_upsert IntegratedPaths [''run_id'', ''path'']
        [(''run_id'', JStr runId), (''path'', JStr path), (''task_id'', JStr taskId), (''fingerprint'', fingerprint),
         (''integrated_at'', JStr at)]
        (\<lambda>_. True)
        (\<lambda>r. assign r [(''task_id'', JStr taskId), (''fingerprint'', fingerprint), (''integrated_at'', JStr at)]))
     (returnM ()))"

record receipt_input =
  ri_runId :: string
  ri_taskId :: string
  ri_attempt :: int
  ri_manifestFingerprint :: string
  ri_artifactRef :: string
  ri_contentSha256 :: string
  ri_bytes :: int
  ri_estimatedTokens :: int

definition RECEIPT_KEY :: "string list" where
  "RECEIPT_KEY = [''run_id'', ''task_id'', ''attempt'', ''manifest_fingerprint'', ''artifact_ref'']"

definition receipt_id :: "env \<Rightarrow> receipt_input \<Rightarrow> string" where
  "receipt_id e ri = ''agent-input-artifact-'' @ take 32 (sha256 e (join ''|''
     [ri_runId ri, ri_taskId ri, int_string (ri_attempt ri), ri_manifestFingerprint ri, ri_artifactRef ri]))"

definition pg_recordAgentInputArtifactReceipt :: "env \<Rightarrow> receipt_input \<Rightarrow> obj option pg_m" where
  "pg_recordAgentInputArtifactReceipt e ri =
     bindM (db_now e) (\<lambda>createdAt.
     bindM (sql_upsert Receipts RECEIPT_KEY
        [(''receipt_id'', JStr (receipt_id e ri)), (''run_id'', JStr (ri_runId ri)), (''task_id'', JStr (ri_taskId ri)),
         (''attempt'', JNum (ri_attempt ri)), (''manifest_fingerprint'', JStr (ri_manifestFingerprint ri)),
         (''artifact_ref'', JStr (ri_artifactRef ri)), (''content_sha256'', JStr (ri_contentSha256 ri)),
         (''bytes'', JNum (ri_bytes ri)), (''estimated_tokens'', JNum (ri_estimatedTokens ri)), (''created_at'', JStr createdAt)]
        (\<lambda>_. True)
        (\<lambda>r. assign r [(''content_sha256'', JStr (ri_contentSha256 ri)), (''bytes'', JNum (ri_bytes ri)),
           (''estimated_tokens'', JNum (ri_estimatedTokens ri))])) (\<lambda>rows.
     returnM (case rows of [] \<Rightarrow> None | r # _ \<Rightarrow> Some r)))"

definition pg_listAgentInputArtifactReceipts :: "env \<Rightarrow> string \<Rightarrow> string option \<Rightarrow> obj list pg_m" where
  "pg_listAgentInputArtifactReceipts e runId taskId =
     (case taskId of
        Some t \<Rightarrow> if t = [] then bindM (sql_select Receipts (col_is ''run_id'' (JStr runId)))
                     (\<lambda>found. returnM (order_by e [''task_id'', ''created_at'', ''artifact_ref''] found))
                   else bindM (sql_select Receipts (\<lambda>r. col_is ''run_id'' (JStr runId) r \<and> col_is ''task_id'' (JStr t) r))
                     (\<lambda>found. returnM (order_by e [''created_at'', ''artifact_ref''] found))
      | None \<Rightarrow> bindM (sql_select Receipts (col_is ''run_id'' (JStr runId)))
                   (\<lambda>found. returnM (order_by e [''task_id'', ''created_at'', ''artifact_ref''] found)))"

definition pg_recordProgressNotificationReceipt :: "env \<Rightarrow> obj \<Rightarrow> obj \<Rightarrow> bool pg_m" where
  "pg_recordProgressNotificationReceipt e sourceEvent metadata =
     bindM (db_now e) (\<lambda>at.
     sql_insert_unless Events [''event_id''] (pg_event_row (progressReceiptEventId e (get sourceEvent ''event_id''))
       (get sourceEvent ''run_id'') (get sourceEvent ''task_id'') ''progress.notification.sent''
       (receipt_payload sourceEvent metadata) at))"

definition pg_hasProgressNotificationReceipt :: "env \<Rightarrow> jsval \<Rightarrow> bool pg_m" where
  "pg_hasProgressNotificationReceipt e sourceEventId =
     bindM (sql_first Events (col_is ''event_id'' (JStr (progressReceiptEventId e sourceEventId)))) (\<lambda>found.
     returnM (found \<noteq> None))"

subsection \<open>Continuations\<close>

record prompt_identity =
  pi_agentId :: string
  pi_providerId :: string
  pi_modelId :: string
  pi_variant :: jsval
  pi_sourceMessageId :: jsval

definition continuationPromptIdentity :: "jsval \<Rightarrow> prompt_identity res" where
  "continuationPromptIdentity registration =
     (let ident = field registration ''promptIdentity'';
          agentId = compact (field ident ''agentId'');
          providerId = compact (field ident ''providerId'');
          modelId = compact (field ident ''modelId'')
      in if agentId = [] \<or> providerId = [] \<or> modelId = [] then Inl ''agent_continuation_prompt_identity_required''
         else Inr \<lparr>pi_agentId = agentId, pi_providerId = providerId, pi_modelId = modelId,
                   pi_variant = or_null (compact (field ident ''variant'')),
                   pi_sourceMessageId = or_null (compact (field ident ''sourceMessageId''))\<rparr>)"

definition pg_continuation_row :: "env \<Rightarrow> string \<Rightarrow> jsval \<Rightarrow> string list \<Rightarrow> prompt_identity \<Rightarrow> string \<Rightarrow> obj" where
  "pg_continuation_row e runId registration wakeEvents ident createdAt =
     [(''continuation_id'', JStr (continuation_id_for e runId registration)), (''run_id'', JStr runId),
      (''schema_version'', JStr AGENT_CONTINUATION_SCHEMA_VERSION),
      (''session_adapter_id'', coalesce (field registration ''adapterId'') (JStr ''opencode'')),
      (''opencode_session_id'', field registration ''sessionId''), (''opencode_server_url'', field registration ''serverUrl''),
      (''opencode_directory'', coalesce (field registration ''directory'') JNull),
      (''wake_events_json'', JArr (map JStr wakeEvents)), (''session_agent_id'', JStr (pi_agentId ident)),
      (''session_provider_id'', JStr (pi_providerId ident)), (''session_model_id'', JStr (pi_modelId ident)),
      (''session_model_variant'', pi_variant ident), (''session_prompt_message_id'', pi_sourceMessageId ident),
      (''status'', JStr ''parked''), (''generation'', JNum 0), (''created_at'', JStr createdAt), (''updated_at'', JStr createdAt)]"

definition text_or_empty :: "jsval \<Rightarrow> jsval" where
  "text_or_empty v = coalesce v (JStr [])"

definition rebind_allowed :: "obj \<Rightarrow> obj \<Rightarrow> bool" where
  "rebind_allowed new old \<longleftrightarrow>
     col_is ''generation'' (JNum 0) old \<and> col_is ''status'' (JStr ''parked'') old
     \<and> list_all (\<lambda>k. sql_eq (col old k) (col new k))
         [''session_adapter_id'', ''opencode_session_id'', ''opencode_server_url'', ''wake_events_json'',
          ''session_agent_id'', ''session_provider_id'', ''session_model_id'']
     \<and> list_all (\<lambda>k. text_or_empty (get old k) = text_or_empty (get new k))
         [''opencode_directory'', ''session_model_variant'', ''session_prompt_message_id'']"

definition rebind :: "obj \<Rightarrow> obj \<Rightarrow> obj" where
  "rebind new old = assign old (map (\<lambda>k. (k, col new k))
     [''session_adapter_id'', ''opencode_session_id'', ''opencode_server_url'', ''opencode_directory'', ''wake_events_json'',
      ''session_agent_id'', ''session_provider_id'', ''session_model_id'', ''session_model_variant'',
      ''session_prompt_message_id'', ''updated_at''])"

text \<open>The statement part of \<open>registerContinuation\<close>, which \<open>createRun\<close> runs inside its transaction.\<close>

definition pg_bind_continuation :: "env \<Rightarrow> string \<Rightarrow> jsval \<Rightarrow> obj pg_m" where
  "pg_bind_continuation e runId registration =
     bindM (db_now e) (\<lambda>createdAt.
     bindM (liftR (normalizeContinuationWakeEvents (field registration ''wakeOn''))) (\<lambda>wakeEvents.
     bindM (liftR (continuationPromptIdentity registration)) (\<lambda>ident.
     let new = pg_continuation_row e runId registration wakeEvents ident createdAt in
     bindM (sql_upsert Continuations [''run_id''] new (rebind_allowed new) (rebind new)) (\<lambda>bound.
     case bound of
       [row] \<Rightarrow> returnM row
     | _ \<Rightarrow> throwM (''agent_continuation_rebind_not_allowed:'' @ runId)))))"

definition pg_create_wake :: "env \<Rightarrow> string \<Rightarrow> obj \<Rightarrow> string \<Rightarrow> string \<Rightarrow> string \<Rightarrow> (obj \<times> bool) option pg_m" where
  "pg_create_wake e runId cont eventType terminalOccurrenceKey effectKey =
     (let generation = num_or 0 (get cont ''generation'') + 1; deliveryId = delivery_id_for e effectKey in
      bindM (db_now e) (\<lambda>createdAt.
      bindM (liftR (buildMessageId e (js_string (coalesce (get cont ''session_adapter_id'') (JStr ''opencode'')))
               effectKey createdAt)) (\<lambda>messageId.
      let delivery = delivery_row e cont runId generation eventType terminalOccurrenceKey effectKey messageId createdAt in
      bindM (sql_insert_unless Deliveries [''effect_key''] delivery) (\<lambda>inserted.
      if \<not> inserted then
        bindM (sql_first Deliveries (col_is ''effect_key'' (JStr effectKey))) (\<lambda>raced.
        returnM (case raced of None \<Rightarrow> None | Some d \<Rightarrow> Some (d, False)))
      else
        seqM (sql_update Continuations (col_is ''continuation_id'' (col cont ''continuation_id''))
           (\<lambda>r. woken r generation deliveryId createdAt))
        (seqM (pg_enqueueRuntimeOutbox e runId JNull ''agent.continuation.wake.v1'' generation
           [(''continuationId'', get cont ''continuation_id''), (''deliveryId'', JStr deliveryId), (''effectKey'', JStr effectKey)])
        (seqM (pg_event_at e (JStr runId) JNull ''continuation.wake_materialized'' (JObj
           [(''continuationId'', get cont ''continuation_id''), (''deliveryId'', JStr deliveryId),
            (''effectKey'', JStr effectKey), (''eventType'', JStr eventType), (''generation'', JNum generation)]) createdAt)
        (returnM (Some (delivery, True)))))))))"

definition continuation_row_of :: "string \<Rightarrow> obj option pg_m" where
  "continuation_row_of runId = sql_first Continuations (col_is ''run_id'' (JStr runId))"

text \<open>
  \<open>wake_event\<close> and \<open>wake_key\<close> are those of the in-memory store; this store also normalises the stored list of
  wake events, which can throw.
\<close>

definition pg_materializeContinuationWake :: "env \<Rightarrow> string \<Rightarrow> jsval \<Rightarrow> (obj \<times> bool) option pg_m" where
  "pg_materializeContinuationWake e runId status = transaction (
     bindM (pg_getRun runId) (\<lambda>run. bindM (continuation_row_of runId) (\<lambda>continuation.
     case (run, continuation) of
       (Some r, Some cont) \<Rightarrow>
         if get cont ''status'' = JStr ''cancelled'' then returnM None
         else if \<not> nullish status \<and> status \<noteq> get r ''status'' then returnM None
         else (case runStatusToContinuationEvent (get r ''status'') of
           None \<Rightarrow> returnM None
         | Some eventType \<Rightarrow>
             bindM (liftR (normalizeContinuationWakeEvents (coalesce (get cont ''wake_events_json'') (JArr [])))) (\<lambda>wakeEvents.
             if eventType \<notin> set wakeEvents then returnM None
             else seqM (guardM (truthy (get r ''completed_at''))
                    (''agent_continuation_terminal_completed_at_missing:'' @ runId))
               (bindM (sql_first Deliveries (col_is ''effect_key'' (JStr (wake_key e runId cont r eventType)))) (\<lambda>existing.
                case existing of
                  Some d \<Rightarrow> returnM (Some (d, False))
                | None \<Rightarrow> pg_create_wake e runId cont eventType (''completed-at:'' @ js_string (get r ''completed_at''))
                     (wake_key e runId cont r eventType)))))
     | _ \<Rightarrow> returnM None)))"

definition pg_registerContinuation :: "env \<Rightarrow> string \<Rightarrow> jsval \<Rightarrow> obj option pg_m" where
  "pg_registerContinuation e runId registration =
     (if \<not> truthy registration then returnM None
      else
        bindM (pg_bind_continuation e runId registration) (\<lambda>row.
        seqM (pg_event e (JStr runId) JNull ''continuation.parked'' (JObj
          [(''continuationId'', get row ''continuation_id''),
           (''adapterId'', coalesce (field registration ''adapterId'') (JStr ''opencode'')),
           (''sessionId'', field registration ''sessionId''), (''opencodeSessionId'', field registration ''sessionId''),
           (''wakeOn'', get row ''wake_events_json'')]))
        (bindM (pg_getRun runId) (\<lambda>run.
        seqM (case run of
            None \<Rightarrow> returnM ()
          | Some r \<Rightarrow> whenM (runStatusToContinuationEvent (get r ''status'') \<noteq> None)
              (seqM (pg_materializeContinuationWake e runId (get r ''status'')) (returnM ())))
        (returnM (Some row))))))"

definition pg_cancelContinuation :: "env \<Rightarrow> string \<Rightarrow> string \<Rightarrow> cancel_result pg_m" where
  "pg_cancelContinuation e runId reason = transaction (
     bindM (continuation_row_of runId) (\<lambda>selected.
     case selected of
       None \<Rightarrow> returnM \<lparr>cr_continuationId = None, cr_cancelled = False,
                 cr_reason = Some ''continuation_not_bound'', cr_deadDeliveries = 0\<rparr>
     | Some row \<Rightarrow>
         if get row ''status'' = JStr ''cancelled'' then
           returnM \<lparr>cr_continuationId = Some (get row ''continuation_id''), cr_cancelled = False,
                    cr_reason = Some ''already_cancelled'', cr_deadDeliveries = 0\<rparr>
         else
           bindM (db_now e) (\<lambda>at.
           let cid = col row ''continuation_id'' in
           seqM (sql_update Continuations (col_is ''continuation_id'' cid)
             (\<lambda>r. assign r [(''status'', JStr ''cancelled''), (''cancelled_at'', coalesce (get r ''cancelled_at'') (JStr at)),
                (''updated_at'', JStr at)]))
           (bindM (sql_update Deliveries
             (\<lambda>d. col_is ''continuation_id'' cid d \<and> col_in ''status'' [''pending'', ''claimed'', ''deferred''] d
                \<and> is_null ''accepted_at'' d \<and> is_null ''observed_at'' d)
             (dead_delivery at reason)) (\<lambda>dead.
           seqM (pg_event_at e (JStr runId) JNull ''continuation.cancelled'' (JObj
              [(''continuationId'', get row ''continuation_id''), (''reason'', JStr reason),
               (''deadDeliveries'', JNum (int (length dead)))]) at)
           (returnM \<lparr>cr_continuationId = Some (get row ''continuation_id''), cr_cancelled = True, cr_reason = None,
                     cr_deadDeliveries = length dead\<rparr>))))))"

text \<open>\<open>limit\<close> is the argument after \<open>Number(limit) || 200\<close>. Null completion times sort last.\<close>

definition pg_repairTerminalContinuationWakes :: "env \<Rightarrow> int \<Rightarrow> jsval list pg_m" where
  "pg_repairTerminalContinuationWakes e limit =
     bindM (getsM (\<lambda>s. filter (\<lambda>r. col_in ''status'' TERMINAL_RUN_STATUSES r
         \<and> list_ex (\<lambda>c. sql_eq (col c ''run_id'') (col r ''run_id'') \<and> col c ''status'' \<noteq> JNull
              \<and> col c ''status'' \<noteq> JStr ''cancelled'') (tables s Continuations)) (tables s Runs))) (\<lambda>found.
     let ordered = order_by e [''completed_at'', ''run_id''] (filter (\<lambda>r. \<not> is_null ''completed_at'' r) found)
           @ order_by e [''run_id''] (filter (is_null ''completed_at'') found) in
     collectM (\<lambda>run.
       bindM (pg_materializeContinuationWake e (js_string (col run ''run_id'')) (get run ''status'')) (\<lambda>outcome.
       returnM (case outcome of Some (delivery, True) \<Rightarrow> Some (get delivery ''delivery_id'') | _ \<Rightarrow> None)))
       (take (nat (max 1 (min 1000 limit))) ordered))"

subsection \<open>Creating a run\<close>

definition pg_run_row :: "obj \<Rightarrow> obj \<Rightarrow> obj" where
  "pg_run_row plan options =
     [(''run_id'', get plan ''runId''), (''request'', get plan ''request''), (''status'', JStr ''routed''),
      (''plan_json'', JObj plan),
      (''executor'', coalesce (coalesce (get options ''executor'') (get options ''executorCommand'')) JNull),
      (''workspace_mode'', coalesce (get options ''workspaceMode'') JNull),
      (''max_parallel'', coalesce (get options ''maxParallel'') (JNum 1)), (''peak_parallel'', JNum 0),
      (''created_at'', get plan ''createdAt''), (''graph_version'', coalesce (get options ''graphVersion'') JNull),
      (''runtime_driver'', JStr ''event-driven-v1''),
      (''context_budget_bytes'', coalesce (get options ''contextBudgetBytes'') (JNum 120000)),
      (''task_timeout_ms'', coalesce (get options ''taskTimeoutMs'') (JNum 3600000)),
      (''auto_integrate'', JBool (get options ''integrate'' \<noteq> JBool False)),
      (''state_version'', JNum 0), (''reconcile_generation'', JNum 0)]"

definition provenance_payload :: "jsval \<Rightarrow> jsval" where
  "provenance_payload p = JObj
     [(''origin'', coalesce (field p ''origin'') (JStr ''unknown'')), (''sessionId'', coalesce (field p ''sessionId'') JNull),
      (''callId'', coalesce (field p ''callId'') JNull), (''userMessageId'', coalesce (field p ''userMessageId'') JNull),
      (''provenanceSource'', coalesce (field p ''provenanceSource'') (JStr ''missing'')),
      (''historySource'', coalesce (field p ''historySource'') JNull),
      (''historyErrorCode'', coalesce (field p ''historyErrorCode'') JNull),
      (''authoritative'', JBool True), (''deduplicated'', JBool False)]"

definition run_routed_payload :: "obj \<Rightarrow> obj \<Rightarrow> jsval" where
  "run_routed_payload plan options = JObj
     [(''taskCount'', JNum (int (length (elements (get plan ''tasks''))))),
      (''maxParallel'', coalesce (get options ''maxParallel'') (JNum 1)),
      (''reasoning'', coalesce (get plan ''reasoning'') JNull),
      (''bootstrapReviewTopology'', coalesce (field (get plan ''workflow'') ''bootstrapReviewTopology'') JNull),
      (''bootstrapReviewDependencies'', coalesce (field (get plan ''workflow'') ''bootstrapReviewDependencies'') (JArr []))]"

definition pg_createRun :: "env \<Rightarrow> obj \<Rightarrow> obj \<Rightarrow> unit pg_m" where
  "pg_createRun e plan options =
     (let runId = plan_run_id plan; reasoning = get plan ''reasoning''; provenance = get options ''invocationProvenance'' in
      transaction (
      seqM (sql_insert Runs (pg_run_row plan options))
      (seqM (forM (\<lambda>task. sql_insert Tasks (pg_task_row runId task (field task ''dependencies'') (field task ''ownedPaths'')
                (coalesce (field reasoning ''source'') JNull) options)) (elements (get plan ''tasks'')))
      (seqM (whenM (truthy reasoning) (seqM (sql_update Runs (col_is ''run_id'' (JStr runId)) (\<lambda>r. plus_one ''state_version'' (assign r
             [(''reasoning_mode'', field reasoning ''mode''), (''reasoning_source'', field reasoning ''source''),
              (''initial_reasoning_level'', field reasoning ''initialLevel''),
              (''reasoning_confidence'', field reasoning ''confidence'')]))) (returnM ())))
      (seqM (whenM (truthy (get options ''continuation'')) (bindM (pg_bind_continuation e runId (get options ''continuation'')) (\<lambda>row.
             pg_event e (JStr runId) JNull ''continuation.parked'' (JObj
               [(''continuationId'', get row ''continuation_id''), (''opencodeSessionId'', get row ''opencode_session_id''),
                (''wakeOn'', get row ''wake_events_json'')]))))
      (seqM (whenM (field provenance ''provenanceSource'' = JStr ''opencode-plugin-sidechannel'')
             (pg_event e (JStr runId) JNull ''orchestrator.agent_start_provenance_accepted'' (provenance_payload provenance)))
      (seqM (pg_event e (JStr runId) JNull ''run.routed'' (run_routed_payload plan options))
      (bindM (db_now e) (\<lambda>at.
       seqM (sql_update Runs (col_is ''run_id'' (JStr runId)) (\<lambda>r. assign r
              [(''reconcile_generation'', JNum 1), (''reconcile_requested_at'', JStr at),
               (''runtime_driver'', JStr ''event-driven-v1'')]))
      (seqM (pg_enqueueRuntimeOutbox e runId JNull ''agent.run.reconcile.v1'' 1 [(''reason'', JStr ''run_created'')])
       (returnM ())))))))))))"

subsection \<open>Bootstrap refinement\<close>

definition in_run :: "string \<Rightarrow> string \<Rightarrow> obj \<Rightarrow> bool" where
  "in_run runId taskId r \<longleftrightarrow> col_is ''task_id'' (JStr taskId) r \<and> col_is ''run_id'' (JStr runId) r"

text \<open>The tables whose rows refer to a task with \<open>ON DELETE CASCADE\<close>.\<close>

definition task_children :: "table list" where
  "task_children = [Outbox, Checkpoints, Results, CleanupJobs, Receipts]"

definition delete_task :: "string \<Rightarrow> string \<Rightarrow> unit pg_m" where
  "delete_task runId taskId =
     seqM (sql_delete Tasks (in_run runId taskId))
       (forM (\<lambda>t. sql_delete t (col_is ''task_id'' (JStr taskId))) task_children)"

definition pg_removal_unsafe :: "obj \<Rightarrow> obj list \<Rightarrow> obj list \<Rightarrow> bool" where
  "pg_removal_unsafe task artifacts results \<longleftrightarrow>
     \<not> col_in ''status'' [''routed'', ''retrying''] task \<or> num_or 0 (get task ''attempt'') \<noteq> 0
     \<or> truthy (get task ''workspace_path'') \<or> artifacts \<noteq> [] \<or> results \<noteq> []"

definition pg_refinement_remove :: "string \<Rightarrow> string \<Rightarrow> unit pg_m" where
  "pg_refinement_remove runId taskId =
     bindM (sql_first Tasks (in_run runId taskId)) (\<lambda>locked.
     case locked of
       None \<Rightarrow> throwM (''bootstrap_refinement_task_missing:'' @ taskId)
     | Some task \<Rightarrow>
         bindM (sql_select Artifacts (in_run runId taskId)) (\<lambda>artifacts.
         bindM (sql_select Results (in_run runId taskId)) (\<lambda>results.
         seqM (guardM (\<not> pg_removal_unsafe task artifacts results)
                 (''bootstrap_refinement_task_removal_unsafe:'' @ taskId @ '':'' @ js_string (col task ''status'')))
           (delete_task runId taskId))))"

definition pg_refinement_rewire :: "string \<Rightarrow> string \<times> jsval \<Rightarrow> unit pg_m" where
  "pg_refinement_rewire runId upd =
     bindM (sql_first Tasks (in_run runId (fst upd))) (\<lambda>locked.
     case locked of
       None \<Rightarrow> throwM (''bootstrap_refinement_task_missing:'' @ fst upd)
     | Some task \<Rightarrow>
         seqM (guardM (col_in ''status'' [''routed'', ''retrying''] task)
                 (''bootstrap_refinement_task_already_started:'' @ fst upd @ '':'' @ js_string (col task ''status'')))
         (seqM (sql_update Tasks (col_is ''task_id'' (JStr (fst upd)))
            (\<lambda>r. plus_one ''state_version'' (AList.update ''dependencies_json'' (coalesce (snd upd) (JArr [])) r)))
          (returnM ())))"

definition pg_refinement_tasks :: "string \<Rightarrow> obj \<Rightarrow> refinement_options \<Rightarrow> jsval list pg_m" where
  "pg_refinement_tasks runId plan options =
     seqM (forM (pg_refinement_remove runId) (ro_removedTaskIds options))
     (seqM (forM (pg_refinement_rewire runId) (ro_dependencyUpdates options))
     (collectM (\<lambda>task.
         let row = added_task_row runId task (coalesce (coalesce (get (ro_insert options) ''reasoningSource'')
                      (field (get plan ''reasoning'') ''source'')) JNull) (ro_insert options) in
         bindM (sql_insert_unless Tasks [''task_id''] row) (\<lambda>inserted.
         returnM (if inserted then Some (get row ''task_id'') else None)))
       (ro_addedTasks options)))"

definition refined_payload :: "obj \<Rightarrow> refinement_options \<Rightarrow> jsval list \<Rightarrow> jsval" where
  "refined_payload plan options added = JObj
     [(''topologyRevision'', coalesce (field (get plan ''workflow'') ''bootstrapTopologyRevision'') JNull),
      (''authority'', coalesce (field (get plan ''workflow'') ''bootstrapTopologyAuthority'') JNull),
      (''addedTaskIds'', JArr added), (''removedTaskIds'', JArr (map JStr (ro_removedTaskIds options))),
      (''dependencyUpdates'', JArr (map (\<lambda>(t, d). JObj [(''taskId'', JStr t), (''dependencies'', d)])
          (ro_dependencyUpdates options)))]"

definition pg_applyBootstrapPlanRefinement :: "env \<Rightarrow> string \<Rightarrow> obj \<Rightarrow> refinement_options \<Rightarrow> obj pg_m" where
  "pg_applyBootstrapPlanRefinement e runId plan options =
     bindM (db_newId e ''event'') (\<lambda>eventId. bindM (db_now e) (\<lambda>at.
     transaction (
       bindM (pg_getRun runId) (\<lambda>lockedRun.
       case lockedRun of
         None \<Rightarrow> throwM (''run_not_found:'' @ runId)
       | Some current \<Rightarrow>
           seqM (guardM (ro_expectedVersion options = JUndef
                   \<or> js_number (col current ''state_version'') = js_number (ro_expectedVersion options))
             (conflict_message ''agent_run_plan_version_conflict'' runId (ro_expectedVersion options) current))
           (seqM (guardM (\<not> isTerminalRunStatus (get current ''status''))
             (''bootstrap_refinement_run_terminal:'' @ runId @ '':'' @ js_string (get current ''status'')))
           (bindM (pg_refinement_tasks runId plan options) (\<lambda>added.
           bindM (sql_update Runs (col_is ''run_id'' (JStr runId))
             (\<lambda>r. plus_one ''state_version'' (AList.update ''plan_json'' (JObj plan) r))) (\<lambda>updated.
           seqM (sql_insert Events (pg_event_row eventId (JStr runId) JNull ''dag.bootstrap_refined'' (refined_payload plan options added) at))
           (seqM (pg_enqueueRuntimeOutbox e runId JNull ''agent.run.reconcile.v1''
              (num_or 0 (get current ''reconcile_generation'') + 1) [(''reason'', JStr ''bootstrap_topology_refined'')])
            (returnM (case updated of [] \<Rightarrow> [] | row # _ \<Rightarrow> row)))))))))))"

subsection \<open>Reading methods\<close>

definition pg_getContinuation :: "string \<Rightarrow> obj option pg_m" where
  "pg_getContinuation runId = continuation_row_of runId"

definition join_continuation :: "db \<Rightarrow> (obj \<Rightarrow> bool) \<Rightarrow> (obj \<times> obj) list" where
  "join_continuation s P =
     List.map_filter (\<lambda>r. case find (\<lambda>c. sql_eq (col c ''run_id'') (col r ''run_id'')) (tables s Continuations) of
         None \<Rightarrow> None
       | Some c \<Rightarrow> if col_in ''status'' ACTIVE_RUN_STATUSES r \<and> col c ''status'' \<noteq> JStr ''cancelled'' \<and> P c
                   then Some (r, c) else None) (tables s Runs)"

definition with_continuation :: "obj \<times> obj \<Rightarrow> obj" where
  "with_continuation rc = assign (fst rc)
     [(''continuation_id'', get (snd rc) ''continuation_id''), (''continuation_status'', get (snd rc) ''status''),
      (''session_adapter_id'', get (snd rc) ''session_adapter_id''),
      (''opencode_session_id'', get (snd rc) ''opencode_session_id''),
      (''opencode_server_url'', get (snd rc) ''opencode_server_url'')]"

definition pg_findActiveRunByContinuationTarget :: "env \<Rightarrow> string \<Rightarrow> jsval \<Rightarrow> jsval \<Rightarrow> obj option pg_m" where
  "pg_findActiveRunByContinuationTarget e adapterId sessionId serverUrl =
     (if \<not> truthy sessionId \<or> \<not> truthy serverUrl then returnM None
      else
        bindM (getsM (\<lambda>s. join_continuation s (\<lambda>c. col_is ''session_adapter_id'' (JStr adapterId) c
            \<and> col_is ''opencode_session_id'' sessionId c \<and> col_is ''opencode_server_url'' serverUrl c))) (\<lambda>found.
        returnM (case order_by_desc e [''created_at'', ''run_id''] (map with_continuation found) of [] \<Rightarrow> None | r # _ \<Rightarrow> Some r)))"

definition pg_findActiveRunByContinuationSession :: "env \<Rightarrow> jsval \<Rightarrow> obj option pg_m" where
  "pg_findActiveRunByContinuationSession e sessionId =
     (if \<not> truthy sessionId then returnM None
      else
        bindM (getsM (\<lambda>s. join_continuation s (col_is ''opencode_session_id'' sessionId))) (\<lambda>found.
        seqM (guardM (length found \<le> 1) (''agent_continuation_session_active_run_ambiguous:'' @ js_string sessionId))
        (returnM (case map with_continuation found of [] \<Rightarrow> None | r # _ \<Rightarrow> Some r))))"

definition pg_listContinuationDeliveries :: "env \<Rightarrow> string \<Rightarrow> obj list pg_m" where
  "pg_listContinuationDeliveries e runId =
     bindM (sql_select Deliveries (col_is ''run_id'' (JStr runId))) (\<lambda>found.
     returnM (order_by e [''generation'', ''created_at''] found))"

definition pg_delivery_view :: "obj \<Rightarrow> jsval" where
  "pg_delivery_view d = JObj
     [(''deliveryId'', get d ''delivery_id''), (''generation'', JNum (num_or 0 (get d ''generation''))), (''event'', get d ''event_type''),
      (''effectKey'', get d ''effect_key''), (''sessionMessageId'', get d ''opencode_message_id''),
      (''opencodeMessageId'', get d ''opencode_message_id''), (''status'', get d ''status''),
      (''attempts'', JNum (num_or 0 (get d ''attempts''))), (''acceptedAt'', get d ''accepted_at''),
      (''observedAt'', get d ''observed_at''), (''lastError'', get d ''last_error'')]"

definition pg_continuationState :: "env \<Rightarrow> string \<Rightarrow> obj option pg_m" where
  "pg_continuationState e runId =
     bindM (pg_getContinuation runId) (\<lambda>continuation.
     case continuation of
       None \<Rightarrow> returnM None
     | Some cont \<Rightarrow>
         bindM (pg_listContinuationDeliveries e runId) (\<lambda>deliveries.
         returnM (Some
          [(''continuationId'', get cont ''continuation_id''), (''runId'', get cont ''run_id''),
           (''schemaVersion'', get cont ''schema_version''),
           (''adapterId'', coalesce (get cont ''session_adapter_id'') (JStr ''opencode'')),
           (''sessionId'', get cont ''opencode_session_id''), (''serverUrl'', get cont ''opencode_server_url''),
           (''opencodeSessionId'', get cont ''opencode_session_id''), (''directory'', get cont ''opencode_directory''),
           (''promptIdentity'', JObj
              [(''agentId'', get cont ''session_agent_id''), (''providerId'', get cont ''session_provider_id''),
               (''modelId'', get cont ''session_model_id''),
               (''variant'', coalesce (get cont ''session_model_variant'') JNull),
               (''sourceMessageId'', coalesce (get cont ''session_prompt_message_id'') JNull)]),
           (''wakeOn'', coalesce (get cont ''wake_events_json'') (JArr [])), (''status'', get cont ''status''),
           (''generation'', JNum (num_or 0 (get cont ''generation''))),
           (''currentDeliveryId'', get cont ''current_delivery_id''), (''createdAt'', get cont ''created_at''),
           (''updatedAt'', get cont ''updated_at''), (''deliveries'', JArr (map pg_delivery_view deliveries))])))"

definition pg_listTasks :: "env \<Rightarrow> string \<Rightarrow> obj list pg_m" where
  "pg_listTasks e runId = bindM (sql_select Tasks (col_is ''run_id'' (JStr runId))) (\<lambda>found. returnM (order_by e [''task_id''] found))"

definition pg_listRuns :: "env \<Rightarrow> nat \<Rightarrow> obj list pg_m" where
  "pg_listRuns e limit = bindM (sql_select Runs (\<lambda>_. True)) (\<lambda>found. returnM (take limit (order_by_desc e [''created_at''] found)))"

definition pg_listRunnableRuns :: "env \<Rightarrow> nat \<Rightarrow> obj list pg_m" where
  "pg_listRunnableRuns e limit =
     bindM (sql_select Runs (col_in ''status'' ACTIVE_RUN_STATUSES)) (\<lambda>found. returnM (take limit (order_by e [''created_at''] found)))"

definition pg_listEvents :: "env \<Rightarrow> string \<Rightarrow> obj list pg_m" where
  "pg_listEvents e runId =
     bindM (sql_select Events (col_is ''run_id'' (JStr runId))) (\<lambda>found. returnM (order_by e [''created_at'', ''event_id''] found))"

definition pg_latestEvent :: "env \<Rightarrow> string \<Rightarrow> obj option pg_m" where
  "pg_latestEvent e runId =
     bindM (sql_select Events (col_is ''run_id'' (JStr runId))) (\<lambda>found.
     returnM (case order_by_desc e [''created_at'', ''event_id''] found of [] \<Rightarrow> None | r # _ \<Rightarrow> Some r))"

definition pg_listArtifacts :: "env \<Rightarrow> string \<Rightarrow> obj list pg_m" where
  "pg_listArtifacts e runId =
     bindM (sql_select Artifacts (col_is ''run_id'' (JStr runId))) (\<lambda>found. returnM (order_by e [''created_at''] found))"

definition pg_listConflicts :: "env \<Rightarrow> string \<Rightarrow> obj list pg_m" where
  "pg_listConflicts e runId =
     bindM (sql_select Conflicts (col_is ''run_id'' (JStr runId))) (\<lambda>found. returnM (order_by e [''created_at''] found))"

record worker_health =
  wh_available :: bool
  wh_healthy :: bool
  wh_row :: "obj option"
  wh_ageMs :: "int option"

definition pg_runtimeWorkerHealth :: "env \<Rightarrow> int \<Rightarrow> worker_health pg_m" where
  "pg_runtimeWorkerHealth e maxAgeMs =
     bindM (sql_select Workers (\<lambda>r. col_is ''worker_kind'' (JStr ''rust-executor'') r \<and> is_null ''stopped_at'' r)) (\<lambda>found.
     bindM (getsM db_tick) (\<lambda>n.
     returnM (case order_by_desc e [''heartbeat_at''] found of
         [] \<Rightarrow> \<lparr>wh_available = False, wh_healthy = False, wh_row = None, wh_ageMs = None\<rparr>
       | row # _ \<Rightarrow>
           (let age = map_option (\<lambda>t. max 0 (clock_ms e n - t)) (parse_date e (js_string (col row ''heartbeat_at''))) in
            \<lparr>wh_available = True, wh_healthy = (case age of None \<Rightarrow> False | Some a \<Rightarrow> a \<le> maxAgeMs),
             wh_row = Some row, wh_ageMs = age\<rparr>))))"

end
