(* ===== verification/PgStoreInv.thy ===== *)
theory PgStoreInv
  imports PgStore "HOL-Library.Sublist"
begin

text \<open>
  What the PostgreSQL store keeps. The locale \<open>db_preorder\<close> lifts a relation on databases from single
  statements to transactions; it is interpreted on \<open>pg_extends\<close> (an ended run keeps its status and its
  completion time, events are only appended), on the preservation of the schema's unique keys and on the
  preservation of the dispatch invariant (a task's execute messages carry generations up to the task's own).
\<close>

subsection \<open>Statements and transactions\<close>

locale db_preorder = step_preorder R for R :: "db \<Rightarrow> db \<Rightarrow> bool" +
  assumes tick_ok: "R s (s\<lparr>db_tick := n\<rparr>)"
begin

definition insert_ok :: "table \<Rightarrow> obj \<Rightarrow> bool" where
  "insert_ok t row \<longleftrightarrow> (\<forall>s. \<not> duplicate t row (tables s t) \<longrightarrow> R s (put_table t (tables s t @ [row]) s))"

definition update_ok :: "table \<Rightarrow> (obj \<Rightarrow> bool) \<Rightarrow> (obj \<Rightarrow> obj) \<Rightarrow> bool" where
  "update_ok t P f \<longleftrightarrow> (\<forall>s. R s (put_table t (update_rows P f (tables s t)) s))"

lemma keeps_host: "keeps (db_now e)" "keeps (db_now_plus e ms)" "keeps (db_newId e p)"
  by (rule keepsI, simp add: tick_ok)+

lemma keeps_read_statements: "keeps (sql_select t P)" "keeps (sql_first t P)"
  by (rule keepsI, simp add: step_refl)+

lemma keeps_insert: "insert_ok t row \<Longrightarrow> keeps (sql_insert t row)"
  by (rule keepsI) (simp add: sql_insert_def insert_ok_def step_refl)

lemma keeps_insert_ignore: "insert_ok t row \<Longrightarrow> keeps (sql_insert_ignore t row)"
  by (rule keepsI) (simp add: sql_insert_ignore_def insert_ok_def step_refl)

lemma keeps_insert_unless: "insert_ok t row \<Longrightarrow> keeps (sql_insert_unless t cols row)"
  by (rule keepsI) (simp add: sql_insert_unless_def insert_ok_def step_refl)

lemma keeps_update: "update_ok t P f \<Longrightarrow> keeps (sql_update t P f)"
  by (rule keepsI) (simp add: sql_update_def update_ok_def)

lemma keeps_upsert:
  "insert_ok t row \<Longrightarrow> (\<And>Q. update_ok t Q f) \<Longrightarrow> keeps (sql_upsert t cols row P f)"
  by (rule keepsI) (simp add: sql_upsert_def sql_update_def insert_ok_def update_ok_def step_refl)

lemma keeps_delete: "(\<And>s. R s (put_table t (filter (\<lambda>r. \<not> P r) (tables s t)) s)) \<Longrightarrow> keeps (sql_delete t P)"
  by (rule keepsI) simp

lemma keeps_transaction:
  assumes "keeps m"
  shows "keeps (transaction m)"
proof (rule keepsI)
  fix s
  obtain r t where m: "m s = (r, t)" by (cases "m s")
  with assms have "R s t" by (rule keepsD)
  with m show "R s (snd (transaction m s))"
    by (auto simp: transaction_def restoreM_def tick_ok split: sum.split)
qed

lemmas keeps_statements =
  keeps_intros keeps_host keeps_read_statements keeps_insert keeps_insert_ignore keeps_insert_unless
  keeps_update keeps_upsert keeps_transaction

end

subsection \<open>Ended runs and the event log\<close>

definition pg_extends :: "db \<Rightarrow> db \<Rightarrow> bool" where
  "pg_extends s t \<longleftrightarrow>
     (\<forall>k row. run_of s k = Some row \<longrightarrow> (\<exists>row'. run_of t k = Some row' \<and> run_kept row row'))
     \<and> prefix (tables s Events) (tables t Events)"

lemma pg_extends_trans:
  assumes "pg_extends a b" and "pg_extends b c"
  shows "pg_extends a c"
proof -
  have "\<exists>row'. run_of c k = Some row' \<and> run_kept row row'" if "run_of a k = Some row" for k row
  proof -
    from assms(1) that obtain row1 where 1: "run_of b k = Some row1" "run_kept row row1"
      unfolding pg_extends_def by blast
    with assms(2) obtain row2 where "run_of c k = Some row2" "run_kept row1 row2"
      unfolding pg_extends_def by blast
    with 1 show ?thesis by (blast intro: run_kept_trans)
  qed
  with assms show ?thesis unfolding pg_extends_def by (blast intro: prefix_order.trans)
qed

interpretation pg: db_preorder pg_extends
proof
  show "pg_extends s u" if "pg_extends s t" "pg_extends t u" for s t u
    using that by (rule pg_extends_trans)
qed (auto simp: pg_extends_def run_of_def)

lemma pg_insert_ok: "pg.insert_ok t row"
  by (auto simp: pg.insert_ok_def pg_extends_def run_of_def find_snoc)

lemma pg_update_other: "t \<noteq> Runs \<Longrightarrow> t \<noteq> Events \<Longrightarrow> pg.update_ok t P f"
  by (auto simp: pg.update_ok_def pg_extends_def run_of_def)

lemma pg_update_runs:
  assumes "\<And>r. P r \<Longrightarrow> run_kept r (f r)" and "\<And>r. get (f r) ''run_id'' = get r ''run_id''"
  shows "pg.update_ok Runs P f"
  using assms by (auto simp: pg.update_ok_def pg_extends_def run_of_def find_update_rows)

lemma pg_delete_other: "t \<noteq> Runs \<Longrightarrow> t \<noteq> Events \<Longrightarrow> pg.keeps (sql_delete t P)"
  by (rule pg.keeps_delete) (auto simp: pg_extends_def run_of_def)

lemma run_kept_plus_one:
  "k \<noteq> ''status'' \<Longrightarrow> k \<noteq> ''completed_at'' \<Longrightarrow> run_kept row row' \<Longrightarrow> run_kept row (plus_one k row')"
  by (simp add: run_kept_def)

lemma pg_update_tables:
  "pg.update_ok Tasks P f" "pg.update_ok Outbox P f" "pg.update_ok Continuations P f" "pg.update_ok Deliveries P f"
  "pg.update_ok Artifacts P f" "pg.update_ok Conflicts P f" "pg.update_ok IntegratedPaths P f" "pg.update_ok Results P f"
  "pg.update_ok Checkpoints P f" "pg.update_ok CleanupJobs P f" "pg.update_ok Receipts P f" "pg.update_ok Workers P f"
  by (simp_all add: pg_update_other)

lemmas pg_keeps_intros = pg.keeps_statements pg_insert_ok pg_update_tables

subsection \<open>Unique keys\<close>

definition keys_unique :: "table \<Rightarrow> obj list \<Rightarrow> bool" where
  "keys_unique t rows \<longleftrightarrow> list_all (\<lambda>cols. distinct (map (\<lambda>r. map (col r) cols) rows)) (unique_keys t)"

definition pg_unique :: "db \<Rightarrow> bool" where
  "pg_unique s \<longleftrightarrow> (\<forall>t. keys_unique t (tables s t))"

definition pg_unique_step :: "db \<Rightarrow> db \<Rightarrow> bool" where
  "pg_unique_step s t \<longleftrightarrow> (pg_unique s \<longrightarrow> pg_unique t)"

interpretation pgu: db_preorder pg_unique_step
  by unfold_locales (auto simp: pg_unique_step_def pg_unique_def)

lemma same_key_map: "same_key cols a b \<longleftrightarrow> map (col a) cols = map (col b) cols"
  by (simp add: same_key_def list_all_iff)

lemma keys_unique_snoc: "keys_unique t rows \<Longrightarrow> \<not> duplicate t row rows \<Longrightarrow> keys_unique t (rows @ [row])"
  by (auto simp: keys_unique_def duplicate_def list_all_iff list_ex_iff same_key_map simp del: map_eq_conv)

lemma keys_unique_filter: "keys_unique t rows \<Longrightarrow> keys_unique t (filter P rows)"
  by (simp add: keys_unique_def list_all_iff distinct_map_filter)

lemma keys_unique_update:
  assumes "\<And>r cols. cols \<in> set (unique_keys t) \<Longrightarrow> map (col (f r)) cols = map (col r) cols"
  shows "keys_unique t (update_rows P f rows) = keys_unique t rows"
proof -
  have "map (\<lambda>r. map (col r) cols) (update_rows P f rows) = map (\<lambda>r. map (col r) cols) rows"
    if "cols \<in> set (unique_keys t)" for cols
    unfolding update_rows_def map_map
    by (rule map_cong[OF refl]) (use that assms in auto)
  then show ?thesis by (simp add: keys_unique_def list_all_iff)
qed

lemma pgu_insert_ok: "pgu.insert_ok t row"
  by (auto simp: pgu.insert_ok_def pg_unique_step_def pg_unique_def keys_unique_snoc)

lemma pgu_update:
  "(\<And>r cols. cols \<in> set (unique_keys t) \<Longrightarrow> map (col (f r)) cols = map (col r) cols) \<Longrightarrow> pgu.update_ok t P f"
  by (auto simp: pgu.update_ok_def pg_unique_step_def pg_unique_def keys_unique_update)

lemma pgu_delete: "pgu.keeps (sql_delete t P)"
  by (rule pgu.keeps_delete) (auto simp: pg_unique_step_def pg_unique_def keys_unique_filter)

lemma filter_distinct_key:
  "distinct (map g rows) \<Longrightarrow> find (\<lambda>r. g r = v) rows = Some row \<Longrightarrow> filter (\<lambda>r. g r = v) rows = [row]"
proof (induction rows)
  case (Cons x xs)
  have "filter (\<lambda>r. g r = g x) xs = []" using Cons.prems(1) by (auto simp: filter_empty_conv image_iff)
  with Cons show ?case by (auto split: if_splits)
qed simp

lemma unique_find:
  assumes "pg_unique s" and "find (col_is k (JStr v)) (tables s t) = Some row" and "[k] \<in> set (unique_keys t)"
  shows "filter (col_is k (JStr v)) (tables s t) = [row]"
proof -
  have "distinct (map (\<lambda>r. map (col r) [k]) (tables s t))"
    using assms(1,3) unfolding pg_unique_def keys_unique_def list_all_iff by blast
  then have "distinct (map (\<lambda>r. col r k) (tables s t))" by (simp add: distinct_map inj_on_def)
  moreover have "col_is k (JStr v) = (\<lambda>r. col r k = JStr v)" by (rule ext) (simp add: not_nullish_col)
  ultimately show ?thesis using filter_distinct_key assms(2) by metis
qed

subsection \<open>Patches leave the keys alone\<close>

lemma keys_not_patched: "''run_id'' \<notin> set RUN_PATCH_COLUMNS" "''task_id'' \<notin> set TASK_PATCH_COLUMNS" "''run_id'' \<notin> set TASK_PATCH_COLUMNS"
  by (simp_all add: RUN_PATCH_COLUMNS_def TASK_PATCH_COLUMNS_def)

lemma patch_entries_own: "has_own (patch_entries columns patch) k \<Longrightarrow> k \<in> set columns \<and> has_own patch k"
  by (force simp: has_own_def patch_entries_def)

lemma get_patched_other: "k \<notin> set columns \<Longrightarrow> get (assign r (patch_entries columns patch)) k = get r k"
  by (rule get_assign_other) (use patch_entries_own in blast)

lemma get_patched_unset: "\<not> has_own patch k \<Longrightarrow> get (assign r (patch_entries columns patch)) k = get r k"
  by (rule get_assign_other) (use patch_entries_own in blast)

lemma patch_entries_keys: "map fst (patch_entries columns patch) = filter (\<lambda>k. k \<in> set columns) (map fst patch)"
  by (induction patch) (auto simp: patch_entries_def)

lemma map_of_patch_entries:
  "map_of (patch_entries columns patch) k =
     (if k \<in> set columns then map_option (\<lambda>v. coalesce v JNull) (map_of patch k) else None)"
  by (induction patch) (auto simp: patch_entries_def)

lemma get_patched_own:
  assumes "distinct (map fst patch)" and "has_own patch k" and "k \<in> set columns"
  shows "get (assign r (patch_entries columns patch)) k = coalesce (get patch k) JNull"
proof -
  have "map_of patch k \<noteq> None" using assms(2) by (simp add: has_own_def map_of_eq_None_iff)
  then have "get (patch_entries columns patch) k = coalesce (get patch k) JNull"
    "map_of (patch_entries columns patch) k \<noteq> None"
    using assms(3) by (auto simp: get_def map_of_patch_entries)
  moreover from this(2) have "has_own (patch_entries columns patch) k"
    by (simp add: has_own_def map_of_eq_None_iff)
  moreover have "distinct (map fst (patch_entries columns patch))"
    using assms(1) by (simp add: patch_entries_keys)
  ultimately show ?thesis by (simp add: get_assign_own)
qed

lemma terminal_col_in: "isTerminalRunStatus (get r ''status'') \<longleftrightarrow> col_in ''status'' TERMINAL_RUN_STATUSES r"
  using terminal_status_truthy[of "get r ''status''"]
  by (auto simp: col_in_def isTerminalRunStatus_def coalesce_def)

lemma patched_guarded:
  assumes "col_in ''status'' TERMINAL_RUN_STATUSES r" and "patch_guard patch k r" and "distinct (map fst patch)"
  shows "coalesce (get (assign r (patch_entries RUN_PATCH_COLUMNS patch)) k) JNull = coalesce (get r k) JNull"
proof (cases "has_own patch k \<and> k \<in> set RUN_PATCH_COLUMNS")
  case True
  with assms have "col r k = coalesce (get patch k) JNull" by (simp add: patch_guard_def)
  with True assms(3) show ?thesis by (auto simp: get_patched_own col_def coalesce_def)
next
  case False
  then show ?thesis by (auto simp: get_patched_unset get_patched_other)
qed

lemma run_kept_guarded:
  assumes "patch_guard patch ''status'' r" and "patch_guard patch ''completed_at'' r" and "distinct (map fst patch)"
  shows "run_kept r (assign r (patch_entries RUN_PATCH_COLUMNS patch))"
proof (cases "col_in ''status'' TERMINAL_RUN_STATUSES r")
  case True
  then have "\<not> nullish (get r ''status'')" by (simp add: col_in_def)
  with patched_guarded[OF True assms(1,3)]
  have "get (assign r (patch_entries RUN_PATCH_COLUMNS patch)) ''status'' = get r ''status''"
    by (auto simp: coalesce_def split: if_splits)
  with patched_guarded[OF True assms(2,3)] show ?thesis by (simp add: run_kept_def)
next
  case False
  then show ?thesis by (simp add: run_kept_def terminal_col_in)
qed

subsection \<open>Every method keeps ended runs and the log\<close>

lemma pg_event_keeps: "pg.keeps (pg_event e runId taskId ty payload)" "pg.keeps (pg_event_at e runId taskId ty payload at)"
  unfolding pg_event_def pg_event_at_def by (intro pg_keeps_intros)+

lemma pg_eventOnce_keeps: "pg.keeps (pg_eventOnce e runId taskId ty payload key)"
  unfolding pg_eventOnce_def Let_def by (intro pg_keeps_intros pg_event_keeps)

lemma pg_enqueue_keeps: "pg.keeps (pg_enqueueRuntimeOutbox e runId taskId kind generation payload)"
  unfolding pg_enqueueRuntimeOutbox_def Let_def by (intro pg_keeps_intros)

lemma pg_get_keeps: "pg.keeps (pg_getRun runId)" "pg.keeps (pg_getTask taskId)" "pg.keeps (continuation_row_of runId)"
  unfolding pg_getRun_def pg_getTask_def continuation_row_of_def by (intro pg_keeps_intros)+

lemma pg_plan_update: "pg.update_ok Runs P (\<lambda>r. plus_one ''state_version'' (AList.update ''plan_json'' v r))"
  by (rule pg_update_runs) (simp_all add: run_kept_plus_one run_kept_other_columns)

lemmas pg_method_intros = pg_keeps_intros pg_event_keeps pg_enqueue_keeps pg_get_keeps pg_plan_update

lemma pg_replacePlan_keeps: "pg.keeps (pg_replacePlan e runId plan v)"
  unfolding pg_replacePlan_def by (intro pg_method_intros)

lemma pg_addTasks_keeps: "pg.keeps (pg_addTasks e runId tasks options)"
  unfolding pg_addTasks_def Let_def by (intro pg_method_intros)

lemma pg_updateTask_keeps: "pg.keeps (pg_updateTask taskId patch v)" "pg.keeps (pg_touchTask taskId)"
  unfolding pg_updateTask_def pg_touchTask_def by (intro pg_method_intros)+

text \<open>The patch of a run keeps ended runs whatever other clients do between its two statements, as long as they
  keep them too.\<close>

lemma pg_updateRun_keeps:
  assumes "distinct (map fst patch)" and "\<And>s. pg_extends s (interfere s)"
  shows "pg.keeps (pg_updateRun runId patch v interfere)"
proof -
  have u: "pg.update_ok Runs
     (\<lambda>r. col_is ''run_id'' (JStr runId) r \<and> patch_guard patch ''status'' r \<and> patch_guard patch ''completed_at'' r
        \<and> (v \<noteq> JUndef \<longrightarrow> col_is ''state_version'' v r))
     (\<lambda>r. plus_one ''state_version'' (assign r (patch_entries RUN_PATCH_COLUMNS patch)))"
    by (rule pg_update_runs)
       (auto intro!: run_kept_plus_one run_kept_guarded assms(1) simp: get_patched_other keys_not_patched)
  show ?thesis
    unfolding pg_updateRun_def Let_def
    by (intro pg_method_intros u pg.keeps_modify assms(2))
qed

lemma pg_lease_keeps:
  "pg.keeps (pg_claimRunReconcile e runId ownerId leaseMs)" "pg.keeps (pg_releaseRunReconcile runId ownerId)"
  unfolding pg_claimRunReconcile_def pg_releaseRunReconcile_def
  by (intro pg_method_intros pg_update_runs; simp add: run_kept_other_columns run_kept_def)+

lemma pg_requestReconcile_keeps: "pg.keeps (pg_requestReconcile e runId reason)"
  unfolding pg_requestReconcile_def Let_def
  by (intro pg_method_intros pg_update_runs; simp add: run_kept_def)

lemma pg_dispatch_keeps: "pg.keeps (pg_dispatchPreparedTask e taskId attempt descriptorPath reason)"
  unfolding pg_dispatchPreparedTask_def Let_def by (intro pg_method_intros)

lemma pg_expire_keeps: "pg.keeps (pg_expireTaskLeaseForQualification runId taskId attempt g f at)"
  unfolding pg_expireTaskLeaseForQualification_def by (intro pg_method_intros)

lemma pg_checkpoint_keeps: "pg.keeps (pg_writeCheckpoint e ci)" "pg.keeps (pg_consumeExecutionResult e resultId)"
  unfolding pg_writeCheckpoint_def pg_consumeExecutionResult_def by (intro pg_method_intros)+

lemma pg_cleanup_keeps: "pg.keeps (pg_requestWorkspaceCleanup e taskId reason)"
  unfolding pg_requestWorkspaceCleanup_def Let_def by (intro pg_method_intros)

lemma pg_artifact_keeps:
  "pg.keeps (pg_addArtifact e runId tid kind version path sha accepted)" "pg.keeps (pg_acceptArtifact artifactId)"
  "pg.keeps (pg_addConflict e runId tid path ty details)" "pg.keeps (pg_markIntegratedPath e runId taskId path fingerprint)"
  "pg.keeps (pg_recordAgentInputArtifactReceipt e ri)" "pg.keeps (pg_recordProgressNotificationReceipt e ev md)"
  unfolding pg_addArtifact_def pg_acceptArtifact_def pg_addConflict_def pg_markIntegratedPath_def
    pg_recordAgentInputArtifactReceipt_def pg_recordProgressNotificationReceipt_def
  by (intro pg_method_intros)+

lemma pg_bind_keeps: "pg.keeps (pg_bind_continuation e runId registration)"
  unfolding pg_bind_continuation_def Let_def by (intro pg_method_intros)

lemma pg_create_wake_keeps: "pg.keeps (pg_create_wake e runId cont ty occ key)"
  unfolding pg_create_wake_def Let_def by (intro pg_method_intros)

lemma pg_materialize_keeps: "pg.keeps (pg_materializeContinuationWake e runId status)"
  unfolding pg_materializeContinuationWake_def Let_def
  by (auto intro!: pg_method_intros pg_create_wake_keeps split: option.split)

lemma pg_registerContinuation_keeps: "pg.keeps (pg_registerContinuation e runId registration)"
  unfolding pg_registerContinuation_def by (intro pg_method_intros pg_bind_keeps pg_materialize_keeps)

lemma pg_cancelContinuation_keeps: "pg.keeps (pg_cancelContinuation e runId reason)"
  unfolding pg_cancelContinuation_def Let_def by (intro pg_method_intros)

lemma pg_repair_keeps: "pg.keeps (pg_repairTerminalContinuationWakes e limit)"
  unfolding pg_repairTerminalContinuationWakes_def Let_def by (intro pg_method_intros pg_materialize_keeps)

lemma pg_refinement_keeps: "pg.keeps (pg_applyBootstrapPlanRefinement e runId plan options)"
  unfolding pg_applyBootstrapPlanRefinement_def pg_refinement_tasks_def pg_refinement_remove_def
    pg_refinement_rewire_def delete_task_def task_children_def Let_def
  by (auto intro!: pg_method_intros pg_delete_other)

text \<open>A run that is created keeps the others: its own row is new, because a duplicate key rolls back.\<close>

lemma pg_createRun_keeps: "pg.keeps (pg_createRun e plan options)"
  unfolding pg_createRun_def Let_def
  by (intro pg_method_intros pg_bind_keeps pg_update_runs; simp add: run_kept_def)

lemmas pg_methods_keep =
  pg_createRun_keeps pg_replacePlan_keeps pg_addTasks_keeps pg_refinement_keeps pg_event_keeps(1) pg_eventOnce_keeps
  pg_updateRun_keeps pg_updateTask_keeps pg_artifact_keeps pg_lease_keeps pg_requestReconcile_keeps pg_expire_keeps
  pg_enqueue_keeps pg_dispatch_keeps pg_checkpoint_keeps pg_cleanup_keeps pg_registerContinuation_keeps
  pg_cancelContinuation_keeps pg_materialize_keeps pg_repair_keeps

subsection \<open>Every method keeps the unique keys\<close>

lemma pgu_by_columns:
  assumes "\<And>r k. k \<in> set (concat (unique_keys t)) \<Longrightarrow> col (f r) k = col r k"
  shows "pgu.update_ok t P f"
  by (rule pgu_update) (use assms in \<open>auto intro!: map_cong\<close>)

lemmas pgu_intros = pgu.keeps_statements pgu_insert_ok pgu_delete

lemma pgu_event: "pgu.keeps (pg_event e runId taskId ty payload)" "pgu.keeps (pg_event_at e runId taskId ty payload at)"
  unfolding pg_event_def pg_event_at_def by (intro pgu_intros)+

lemma pgu_enqueue: "pgu.keeps (pg_enqueueRuntimeOutbox e runId taskId kind generation payload)"
  unfolding pg_enqueueRuntimeOutbox_def Let_def by (intro pgu_intros)

lemma pgu_get: "pgu.keeps (pg_getRun runId)" "pgu.keeps (pg_getTask taskId)" "pgu.keeps (continuation_row_of runId)"
  unfolding pg_getRun_def pg_getTask_def continuation_row_of_def by (intro pgu_intros)+

lemmas pgu_method_intros = pgu_intros pgu_event pgu_enqueue pgu_get pgu_by_columns

lemma pgu_updateRun:
  assumes "\<And>s. pg_unique_step s (interfere s)"
  shows "pgu.keeps (pg_updateRun runId patch v interfere)"
  unfolding pg_updateRun_def Let_def
  by (intro pgu_method_intros pgu.keeps_modify assms) (simp add: col_def get_patched_other keys_not_patched)

lemma pgu_updateTask: "pgu.keeps (pg_updateTask taskId patch v)" "pgu.keeps (pg_touchTask taskId)"
  unfolding pg_updateTask_def pg_touchTask_def
  by (intro pgu_method_intros; simp add: col_def get_patched_other keys_not_patched)+

lemma pgu_plan: "pgu.keeps (pg_replacePlan e runId plan v)" "pgu.keeps (pg_addTasks e runId tasks options)"
  unfolding pg_replacePlan_def pg_addTasks_def Let_def by (intro pgu_method_intros; simp)+

lemma pgu_eventOnce: "pgu.keeps (pg_eventOnce e runId taskId ty payload key)"
  unfolding pg_eventOnce_def Let_def by (intro pgu_method_intros)

lemma pgu_lease:
  "pgu.keeps (pg_claimRunReconcile e runId ownerId leaseMs)" "pgu.keeps (pg_releaseRunReconcile runId ownerId)"
  "pgu.keeps (pg_requestReconcile e runId reason)"
  unfolding pg_claimRunReconcile_def pg_releaseRunReconcile_def pg_requestReconcile_def Let_def
  by (intro pgu_method_intros; simp)+

lemma pgu_dispatch:
  "pgu.keeps (pg_dispatchPreparedTask e taskId attempt descriptorPath reason)"
  "pgu.keeps (pg_expireTaskLeaseForQualification runId taskId n g f at)"
  unfolding pg_dispatchPreparedTask_def pg_expireTaskLeaseForQualification_def queued_task_def Let_def
  by (intro pgu_method_intros; simp)+

lemma pgu_results:
  "pgu.keeps (pg_writeCheckpoint e ci)" "pgu.keeps (pg_consumeExecutionResult e resultId)"
  "pgu.keeps (pg_requestWorkspaceCleanup e taskId reason)"
  unfolding pg_writeCheckpoint_def pg_consumeExecutionResult_def pg_requestWorkspaceCleanup_def Let_def rewritten_checkpoint_def
  by (intro pgu_method_intros; fastforce)+

lemma pgu_artifact:
  "pgu.keeps (pg_addArtifact e runId tid kind version path sha accepted)" "pgu.keeps (pg_acceptArtifact artifactId)"
  "pgu.keeps (pg_addConflict e runId tid path ty details)" "pgu.keeps (pg_markIntegratedPath e runId taskId path fingerprint)"
  "pgu.keeps (pg_recordAgentInputArtifactReceipt e ri)" "pgu.keeps (pg_recordProgressNotificationReceipt e ev md)"
  unfolding pg_addArtifact_def pg_acceptArtifact_def pg_addConflict_def pg_markIntegratedPath_def
    pg_recordAgentInputArtifactReceipt_def pg_recordProgressNotificationReceipt_def
  by (intro pgu_method_intros; fastforce)+

lemma rebind_col: "k = ''continuation_id'' \<or> k = ''run_id'' \<Longrightarrow> col (rebind new old) k = col old k"
  unfolding rebind_def col_def by (subst get_assign_other) (auto simp: has_own_def)

lemma woken_col: "k \<notin> {''status'', ''generation'', ''current_delivery_id'', ''updated_at''} \<Longrightarrow> col (woken r g d u) k = col r k"
  by (simp add: woken_def)

lemma pgu_bind: "pgu.keeps (pg_bind_continuation e runId registration)"
  unfolding pg_bind_continuation_def Let_def
  by (intro pgu_method_intros) (auto simp: rebind_col)

lemma pgu_create_wake: "pgu.keeps (pg_create_wake e runId cont ty occ key)"
  unfolding pg_create_wake_def Let_def
  by (intro pgu_method_intros) (auto simp: woken_col)

lemma pgu_materialize: "pgu.keeps (pg_materializeContinuationWake e runId status)"
  unfolding pg_materializeContinuationWake_def Let_def
  by (auto intro!: pgu_method_intros pgu_create_wake split: option.split)

lemma pgu_continuation:
  "pgu.keeps (pg_registerContinuation e runId registration)" "pgu.keeps (pg_repairTerminalContinuationWakes e limit)"
  unfolding pg_registerContinuation_def pg_repairTerminalContinuationWakes_def Let_def
  by (intro pgu_method_intros pgu_bind pgu_materialize)+

lemma dead_delivery_col:
  "k \<notin> {''status'', ''completed_at'', ''updated_at'', ''last_error''} \<Longrightarrow> col (dead_delivery at reason d) k = col d k"
  by (simp add: dead_delivery_def)

lemma pgu_cancel: "pgu.keeps (pg_cancelContinuation e runId reason)"
  unfolding pg_cancelContinuation_def Let_def
  by (intro pgu_method_intros; auto simp: dead_delivery_col)

lemma pgu_createRun: "pgu.keeps (pg_createRun e plan options)"
  unfolding pg_createRun_def Let_def by (intro pgu_method_intros pgu_bind; simp)

lemma pgu_refinement: "pgu.keeps (pg_applyBootstrapPlanRefinement e runId plan options)"
  unfolding pg_applyBootstrapPlanRefinement_def pg_refinement_tasks_def pg_refinement_remove_def
    pg_refinement_rewire_def delete_task_def Let_def
  by (intro pgu_method_intros; simp)

lemmas pg_methods_unique =
  pgu_createRun pgu_plan pgu_refinement pgu_event(1) pgu_eventOnce pgu_updateRun pgu_updateTask pgu_artifact pgu_lease
  pgu_dispatch pgu_enqueue pgu_results pgu_continuation pgu_cancel pgu_materialize

subsection \<open>Execute messages and dispatch generations\<close>

definition generation_of :: "obj \<Rightarrow> int" where
  "generation_of row = num_or 0 (get row ''dispatch_generation'')"

definition execute_covered :: "db \<Rightarrow> obj \<Rightarrow> bool" where
  "execute_covered s m \<longleftrightarrow>
     (\<exists>taskId task. get m ''task_id'' = JStr taskId \<and> task_of s taskId = Some task \<and> generation_of m \<le> generation_of task)"

definition dispatch_inv :: "db \<Rightarrow> bool" where
  "dispatch_inv s \<longleftrightarrow>
     (\<forall>m \<in> set (tables s Outbox). get m ''message_kind'' = JStr ''agent.task.execute.v1'' \<longrightarrow> execute_covered s m)"

definition dispatch_step :: "db \<Rightarrow> db \<Rightarrow> bool" where
  "dispatch_step s t \<longleftrightarrow> (dispatch_inv s \<longrightarrow> dispatch_inv t)"

interpretation pgd: db_preorder dispatch_step
  by unfold_locales (auto simp: dispatch_step_def dispatch_inv_def execute_covered_def task_of_def)

lemma execute_covered_mono:
  assumes "\<And>k task. task_of s k = Some task \<Longrightarrow> \<exists>task'. task_of t k = Some task' \<and> generation_of task \<le> generation_of task'"
  shows "execute_covered s m \<Longrightarrow> execute_covered t m"
  using assms unfolding execute_covered_def by (meson order_trans)

lemma dispatch_inv_mono:
  assumes "dispatch_inv s"
    and "\<And>k task. task_of s k = Some task \<Longrightarrow> \<exists>task'. task_of t k = Some task' \<and> generation_of task \<le> generation_of task'"
    and "\<And>m. m \<in> set (tables t Outbox) \<Longrightarrow> get m ''message_kind'' = JStr ''agent.task.execute.v1'' \<Longrightarrow>
           m \<in> set (tables s Outbox) \<or> execute_covered t m"
  shows "dispatch_inv t"
  using assms(1,3) execute_covered_mono[OF assms(2)] unfolding dispatch_inv_def by blast

lemma pgd_insert_other: "t \<noteq> Outbox \<Longrightarrow> pgd.insert_ok t row"
  unfolding pgd.insert_ok_def dispatch_step_def
  by (intro allI impI, erule dispatch_inv_mono) (auto simp: task_of_def find_snoc)

lemma pgd_insert_tables:
  "pgd.insert_ok Runs row" "pgd.insert_ok Tasks row" "pgd.insert_ok Events row" "pgd.insert_ok Continuations row"
  "pgd.insert_ok Deliveries row" "pgd.insert_ok Artifacts row" "pgd.insert_ok Conflicts row"
  "pgd.insert_ok IntegratedPaths row" "pgd.insert_ok Results row" "pgd.insert_ok Checkpoints row"
  "pgd.insert_ok CleanupJobs row" "pgd.insert_ok Receipts row"
  by (simp_all add: pgd_insert_other)

lemma pgd_insert_outbox: "get row ''message_kind'' \<noteq> JStr ''agent.task.execute.v1'' \<Longrightarrow> pgd.insert_ok Outbox row"
  unfolding pgd.insert_ok_def dispatch_step_def
  by (intro allI impI, erule dispatch_inv_mono) (auto simp: task_of_def)

lemma pgd_update_other: "t \<noteq> Outbox \<Longrightarrow> t \<noteq> Tasks \<Longrightarrow> pgd.update_ok t P f"
  unfolding pgd.update_ok_def dispatch_step_def
  by (intro allI impI, erule dispatch_inv_mono) (auto simp: task_of_def)

lemma pgd_update_tables:
  "pgd.update_ok Runs P f" "pgd.update_ok Continuations P f" "pgd.update_ok Deliveries P f"
  "pgd.update_ok Artifacts P f" "pgd.update_ok IntegratedPaths P f" "pgd.update_ok Results P f"
  "pgd.update_ok Checkpoints P f" "pgd.update_ok CleanupJobs P f" "pgd.update_ok Receipts P f"
  by (simp_all add: pgd_update_other)

lemma pgd_update_tasks:
  assumes "\<And>r. get (f r) ''task_id'' = get r ''task_id''" and "\<And>r. P r \<Longrightarrow> generation_of r \<le> generation_of (f r)"
  shows "pgd.update_ok Tasks P f"
  unfolding pgd.update_ok_def dispatch_step_def
  by (intro allI impI, erule dispatch_inv_mono) (use assms in \<open>auto simp: task_of_def find_update_rows\<close>)

lemma find_filter_other: "(\<And>r. Q r \<Longrightarrow> \<not> P r) \<Longrightarrow> find Q (filter (\<lambda>r. \<not> P r) rows) = find Q rows"
  by (induction rows) auto

text \<open>Deleting a task deletes its messages with it.\<close>

lemma pgd_delete_task: "pgd.keeps (delete_task runId taskId)"
proof (rule pgd.keepsI)
  fix s
  let ?t = "snd (delete_task runId taskId s)"
  have tasks: "tables ?t Tasks = filter (\<lambda>r. \<not> in_run runId taskId r) (tables s Tasks)"
    and outbox: "tables ?t Outbox = filter (\<lambda>r. \<not> col_is ''task_id'' (JStr taskId) r) (tables s Outbox)"
    by (simp_all add: delete_task_def task_children_def seqM_def bindM_def)
  have "task_of ?t k = task_of s k" if "k \<noteq> taskId" for k
    unfolding task_of_def tasks by (rule find_filter_other) (use that in \<open>auto simp: in_run_def\<close>)
  then have "execute_covered ?t m" if "execute_covered s m" "get m ''task_id'' \<noteq> JStr taskId" for m
    using that by (auto simp: execute_covered_def)
  then show "dispatch_step s ?t" by (auto simp: dispatch_step_def dispatch_inv_def outbox)
qed

lemmas pgd_intros = pgd.keeps_statements pgd_insert_tables pgd_update_tables

lemma pgd_event: "pgd.keeps (pg_event e runId taskId ty payload)" "pgd.keeps (pg_event_at e runId taskId ty payload at)"
  unfolding pg_event_def pg_event_at_def by (intro pgd_intros)+

lemma pgd_enqueue:
  "kind \<noteq> ''agent.task.execute.v1'' \<Longrightarrow> pgd.keeps (pg_enqueueRuntimeOutbox e runId taskId kind generation payload)"
  unfolding pg_enqueueRuntimeOutbox_def Let_def
  by (intro pgd_intros pgd_insert_outbox) (simp add: outbox_row_def)

lemma pgd_get: "pgd.keeps (pg_getRun runId)" "pgd.keeps (pg_getTask taskId)" "pgd.keeps (continuation_row_of runId)"
  unfolding pg_getRun_def pg_getTask_def continuation_row_of_def by (intro pgd_intros)+

lemmas pgd_method_intros = pgd_intros pgd_event pgd_get

lemma pgd_updateRun:
  assumes "\<And>s. dispatch_step s (interfere s)"
  shows "pgd.keeps (pg_updateRun runId patch v interfere)"
  unfolding pg_updateRun_def Let_def by (intro pgd_method_intros pgd.keeps_modify assms)

lemma pgd_updateTask: "\<not> has_own patch ''dispatch_generation'' \<Longrightarrow> pgd.keeps (pg_updateTask taskId patch v)"
  unfolding pg_updateTask_def
  by (intro pgd_method_intros pgd_update_tasks)
     (simp_all add: get_patched_other get_patched_unset keys_not_patched generation_of_def)

lemma pgd_tasks:
  "pgd.keeps (pg_touchTask taskId)" "pgd.keeps (pg_expireTaskLeaseForQualification runId tid n g f at)"
  "pgd.keeps (pg_addTasks e runId tasks options)"
  unfolding pg_touchTask_def pg_expireTaskLeaseForQualification_def pg_addTasks_def Let_def
  by (intro pgd_method_intros pgd_update_tasks; simp add: generation_of_def)+

lemma pgd_runs:
  "pgd.keeps (pg_replacePlan e runId plan v)" "pgd.keeps (pg_eventOnce e run tid ty payload key)"
  "pgd.keeps (pg_claimRunReconcile e runId ownerId leaseMs)" "pgd.keeps (pg_releaseRunReconcile runId ownerId)"
  "pgd.keeps (pg_requestReconcile e runId reason)"
  unfolding pg_replacePlan_def pg_eventOnce_def pg_claimRunReconcile_def pg_releaseRunReconcile_def
    pg_requestReconcile_def Let_def
  by (intro pgd_method_intros pgd_enqueue; simp)+

lemma pgd_results:
  "pgd.keeps (pg_writeCheckpoint e ci)" "pgd.keeps (pg_consumeExecutionResult e resultId)"
  "pgd.keeps (pg_requestWorkspaceCleanup e taskId reason)"
  unfolding pg_writeCheckpoint_def pg_consumeExecutionResult_def pg_requestWorkspaceCleanup_def Let_def
  by (intro pgd_method_intros pgd_enqueue pgd_update_tasks; simp add: generation_of_def)+

lemma pgd_artifact:
  "pgd.keeps (pg_addArtifact e runId tid kind version path sha accepted)" "pgd.keeps (pg_acceptArtifact artifactId)"
  "pgd.keeps (pg_addConflict e runId tid path ty details)" "pgd.keeps (pg_markIntegratedPath e runId taskId path fingerprint)"
  "pgd.keeps (pg_recordAgentInputArtifactReceipt e ri)" "pgd.keeps (pg_recordProgressNotificationReceipt e ev md)"
  unfolding pg_addArtifact_def pg_acceptArtifact_def pg_addConflict_def pg_markIntegratedPath_def
    pg_recordAgentInputArtifactReceipt_def pg_recordProgressNotificationReceipt_def
  by (intro pgd_method_intros)+

lemma pgd_bind: "pgd.keeps (pg_bind_continuation e runId registration)"
  unfolding pg_bind_continuation_def Let_def by (intro pgd_method_intros)

lemma pgd_materialize: "pgd.keeps (pg_materializeContinuationWake e runId status)"
proof -
  have "pgd.keeps (pg_create_wake e runId cont ty occ key)" for cont ty occ key
    unfolding pg_create_wake_def Let_def by (intro pgd_method_intros pgd_enqueue; simp)
  then show ?thesis
    unfolding pg_materializeContinuationWake_def Let_def
    by (auto intro!: pgd_method_intros split: option.split)
qed

lemma pgd_continuation:
  "pgd.keeps (pg_registerContinuation e runId registration)" "pgd.keeps (pg_cancelContinuation e runId reason)"
  "pgd.keeps (pg_repairTerminalContinuationWakes e limit)"
  unfolding pg_registerContinuation_def pg_cancelContinuation_def pg_repairTerminalContinuationWakes_def Let_def
  by (intro pgd_method_intros pgd_bind pgd_materialize)+

lemma pgd_createRun: "pgd.keeps (pg_createRun e plan options)"
  unfolding pg_createRun_def Let_def by (intro pgd_method_intros pgd_bind pgd_enqueue; simp)

lemma pgd_refinement: "pgd.keeps (pg_applyBootstrapPlanRefinement e runId plan options)"
  unfolding pg_applyBootstrapPlanRefinement_def pg_refinement_tasks_def pg_refinement_remove_def
    pg_refinement_rewire_def Let_def
  by (intro pgd_method_intros pgd_enqueue pgd_delete_task pgd_update_tasks; simp add: generation_of_def)

text \<open>What a dispatch that goes through does.\<close>

lemma dispatch_outcome:
  assumes "pg_dispatchPreparedTask e taskId attempt descriptorPath reason s = (Inr r, t)"
  obtains (refused) task where "task_of s taskId = Some task" "\<not> dr_dispatched r" "t = s"
      "\<not> col_in ''status'' [''routed'', ''retrying''] task"
  | (dispatched) task m at where "task_of s taskId = Some task" "dr_dispatched r"
      "col_in ''status'' [''routed'', ''retrying''] task"
      "dr_dispatchGeneration r = generation_of task + 1"
      "dr_fencingToken r = num_or 0 (get task ''fencing_token'') + 1"
      "tables t Tasks = update_rows (col_is ''task_id'' (JStr taskId))
         (queued_task attempt (dr_dispatchGeneration r) (dr_fencingToken r) descriptorPath at) (tables s Tasks)"
      "tables t Outbox = (if duplicate Outbox m (tables s Outbox) then tables s Outbox else tables s Outbox @ [m])"
      "get m ''message_kind'' = JStr ''agent.task.execute.v1''" "get m ''task_id'' = JStr taskId"
      "get m ''dispatch_generation'' = JNum (dr_dispatchGeneration r)"
      "get m ''run_id'' = JStr (js_string (col task ''run_id''))"
      "\<exists>i. get m ''outbox_id'' = JStr (''agent-outbox-'' @ uuid e i) \<and> i \<ge> db_tick s"
proof -
  note run = assms[unfolded pg_dispatchPreparedTask_def transaction_ok]
  from run obtain task where task: "task_of s taskId = Some task"
    by (auto simp: task_of_def split: option.splits)
  show thesis
  proof (cases "col_in ''status'' [''routed'', ''retrying''] task")
    case False
    with run task show thesis by (intro refused) (auto simp: task_of_def)
  next
    case True
    let ?g = "generation_of task + 1" and ?f = "num_or 0 (get task ''fencing_token'') + 1"
    let ?id = "''agent-outbox-'' @ uuid e (Suc (db_tick s))"
    let ?m = "outbox_row ?id (js_string (col task ''run_id'')) (JStr taskId) ''agent.task.execute.v1'' ?g
       (JObj (runtime_envelope ?id (js_string (col task ''run_id'')) (JStr taskId) ''agent.task.execute.v1'' ?g
          [(''attempt'', attempt), (''fencingToken'', JNum ?f), (''reason'', JStr reason)]))
       (clock e (Suc (Suc (db_tick s))))"
    from run task True show thesis
      by (intro dispatched[of task "clock e (db_tick s)" ?m])
         (auto simp: task_of_def Let_def seqM_def bindM_def sql_update_def pg_enqueueRuntimeOutbox_def
           sql_insert_ignore_def pg_event_at_def sql_insert_def generation_of_def outbox_row_def
           split: if_splits intro!: exI[of _ "Suc (db_tick s)"])
  qed
qed

lemma queued_task_get [simp]:
  "get (queued_task attempt g f d at r) ''task_id'' = get r ''task_id''"
  "get (queued_task attempt g f d at r) ''dispatch_generation'' = JNum g"
  "get (queued_task attempt g f d at r) ''fencing_token'' = JNum f"
  "get (queued_task attempt g f d at r) ''status'' = JStr ''queued''"
  by (simp_all add: queued_task_def)

lemma pgd_dispatch: "pgd.keeps (pg_dispatchPreparedTask e taskId attempt descriptorPath reason)"
proof (rule pgd.keepsI)
  fix s
  obtain r t where rt: "pg_dispatchPreparedTask e taskId attempt descriptorPath reason s = (r, t)"
    by (cases "pg_dispatchPreparedTask e taskId attempt descriptorPath reason s")
  have "dispatch_step s t"
  proof (cases r)
    case (Inl err)
    with rt transaction_failed have "t = s\<lparr>db_tick := db_tick t\<rparr>" unfolding pg_dispatchPreparedTask_def by blast
    then show ?thesis using pgd.tick_ok by metis
  next
    case (Inr d)
    from rt[unfolded Inr] show ?thesis
    proof (cases rule: dispatch_outcome)
      case refused
      then show ?thesis by (simp add: pgd.step_refl)
    next
      case (dispatched task m at)
      have q: "task_of t taskId = Some (queued_task attempt (dr_dispatchGeneration d) (dr_fencingToken d) descriptorPath at task)"
        using dispatched(1,6) by (auto simp: task_of_def find_update_rows find_Some_iff)
      have other: "task_of t k = task_of s k" if "k \<noteq> taskId" for k
        unfolding task_of_def dispatched(6)
        by (subst find_update_rows) (use that in \<open>auto simp: find_Some_iff split: option.split
            intro!: option.map_ident_strong\<close>)
      have m: "execute_covered t m"
        using q dispatched(9,10) by (auto simp: execute_covered_def generation_of_def)
      show ?thesis unfolding dispatch_step_def
      proof (rule impI, erule dispatch_inv_mono)
        fix k tk
        assume "task_of s k = Some tk"
        then show "\<exists>tk'. task_of t k = Some tk' \<and> generation_of tk \<le> generation_of tk'"
          using q other dispatched(1,4) by (cases "k = taskId") (auto simp: generation_of_def)
      qed (use m dispatched(7) in \<open>auto split: if_splits\<close>)
    qed
  qed
  with rt show "dispatch_step s (snd (pg_dispatchPreparedTask e taskId attempt descriptorPath reason s))" by simp
qed

lemmas pg_methods_dispatch =
  pgd_createRun pgd_runs pgd_refinement pgd_event(1) pgd_updateRun pgd_updateTask pgd_tasks pgd_artifact
  pgd_dispatch pgd_results pgd_continuation pgd_materialize

subsection \<open>Calls and sequences of calls\<close>

text \<open>
  One call of a method by one client. The calls other clients make between the two statements of
  \<open>updateRun\<close> are a sequence of steps themselves, so the relation is defined together with its closure.
  No caller patches a task's dispatch generation, and \<open>enqueueRuntimeOutbox\<close> is called by the store's own
  methods only.
\<close>

inductive pg_step :: "env \<Rightarrow> db \<Rightarrow> db \<Rightarrow> bool" and pg_reaches :: "env \<Rightarrow> db \<Rightarrow> db \<Rightarrow> bool" for e where
  createRun: "pg_step e s (snd (pg_createRun e plan options s))"
| replacePlan: "pg_step e s (snd (pg_replacePlan e runId plan v s))"
| addTasks: "pg_step e s (snd (pg_addTasks e runId tasks options s))"
| refine: "pg_step e s (snd (pg_applyBootstrapPlanRefinement e runId plan ro s))"
| event: "pg_step e s (snd (pg_event e run tid ty payload s))"
| eventOnce: "pg_step e s (snd (pg_eventOnce e run tid ty payloado key s))"
| updateRun: "distinct (map fst patch) \<Longrightarrow> (\<And>x. pg_reaches e x (interfere x)) \<Longrightarrow>
    pg_step e s (snd (pg_updateRun runId patch v interfere s))"
| updateTask: "\<not> has_own patch ''dispatch_generation'' \<Longrightarrow> pg_step e s (snd (pg_updateTask taskId patch v s))"
| touchTask: "pg_step e s (snd (pg_touchTask taskId s))"
| addArtifact: "pg_step e s (snd (pg_addArtifact e runId tid kind version path sha accepted s))"
| acceptArtifact: "pg_step e s (snd (pg_acceptArtifact artifactId s))"
| addConflict: "pg_step e s (snd (pg_addConflict e runId tid path cty details s))"
| markIntegratedPath: "pg_step e s (snd (pg_markIntegratedPath e runId taskId path fingerprint s))"
| inputReceipt: "pg_step e s (snd (pg_recordAgentInputArtifactReceipt e ri s))"
| progressReceipt: "pg_step e s (snd (pg_recordProgressNotificationReceipt e ev md s))"
| claim: "pg_step e s (snd (pg_claimRunReconcile e runId ownerId leaseMs s))"
| release: "pg_step e s (snd (pg_releaseRunReconcile runId ownerId s))"
| requestReconcile: "pg_step e s (snd (pg_requestReconcile e runId reason s))"
| expireLease: "pg_step e s (snd (pg_expireTaskLeaseForQualification runId taskId n g f at s))"
| dispatch: "pg_step e s (snd (pg_dispatchPreparedTask e taskId attempt descriptorPath reason s))"
| writeCheckpoint: "pg_step e s (snd (pg_writeCheckpoint e ci s))"
| consumeResult: "pg_step e s (snd (pg_consumeExecutionResult e resultId s))"
| requestCleanup: "pg_step e s (snd (pg_requestWorkspaceCleanup e taskId reason s))"
| registerContinuation: "pg_step e s (snd (pg_registerContinuation e runId registration s))"
| cancelContinuation: "pg_step e s (snd (pg_cancelContinuation e runId reason s))"
| materializeWake: "pg_step e s (snd (pg_materializeContinuationWake e runId status s))"
| repairWakes: "pg_step e s (snd (pg_repairTerminalContinuationWakes e limit s))"
| here: "pg_reaches e s s"
| step: "pg_reaches e s t \<Longrightarrow> pg_step e t u \<Longrightarrow> pg_reaches e s u"

lemma pg_step_extends:
  "pg_step e s t \<Longrightarrow> pg_extends s t" "pg_reaches e s t \<Longrightarrow> pg_extends s t"
  by (induction rule: pg_step_pg_reaches.inducts)
     (auto intro: pg.keeps_snd pg_methods_keep pg.step_refl pg.step_trans intro!: pg.keeps_snd[OF pg_updateRun_keeps])

lemma pg_step_unique:
  "pg_step e s t \<Longrightarrow> pg_unique_step s t" "pg_reaches e s t \<Longrightarrow> pg_unique_step s t"
  by (induction rule: pg_step_pg_reaches.inducts)
     (auto intro: pgu.keeps_snd pg_methods_unique pgu.step_refl pgu.step_trans intro!: pgu.keeps_snd[OF pgu_updateRun])

lemma pg_unique_init: "pg_unique db_init"
  by (simp add: pg_unique_def keys_unique_def db_init_def list_all_iff)

lemma pg_reaches_unique: "pg_reaches e db_init s \<Longrightarrow> pg_unique s"
  using pg_step_unique(2) pg_unique_init by (auto simp: pg_unique_step_def)

lemma pg_step_dispatch:
  "pg_step e s t \<Longrightarrow> dispatch_step s t" "pg_reaches e s t \<Longrightarrow> dispatch_step s t"
  by (induction rule: pg_step_pg_reaches.inducts)
     (auto intro: pgd.keeps_snd pg_methods_dispatch pgd.step_refl pgd.step_trans intro!: pgd.keeps_snd[OF pgd_updateRun])

lemma pg_reaches_dispatch: "pg_reaches e db_init s \<Longrightarrow> dispatch_inv s"
  using pg_step_dispatch(2) by (auto simp: dispatch_step_def dispatch_inv_def db_init_def)

end
