(* ===== verification/PgStoreProps.thy ===== *)
theory PgStoreProps
  imports PgStoreInv
begin

text \<open>
  The properties of the PostgreSQL store: ended runs stay as they are under concurrency, dispatching is
  fenced and never lost, a reconcile lease excludes other owners, results and wakes are handled once, and two
  places where a message or an identifier is lost.
\<close>

subsection \<open>A database to apply the properties to\<close>

definition sample_task :: obj where
  "sample_task = [(''task_id'', JStr ''t1''), (''run_id'', JStr ''r1''), (''status'', JStr ''routed''), (''attempt'', JNum 0),
     (''dispatch_generation'', JNum 0), (''fencing_token'', JNum 0), (''state_version'', JNum 0)]"

definition sample_run :: "string \<Rightarrow> obj" where
  "sample_run status = [(''run_id'', JStr ''r1''), (''status'', JStr status), (''completed_at'', JStr ''7''),
     (''state_version'', JNum 0), (''reconcile_generation'', JNum 4)]"

definition sample_db :: "string \<Rightarrow> db" where
  "sample_db status = \<lparr>tables = (\<lambda>_. [])(Runs := [sample_run status], Tasks := [sample_task]), db_tick = 0\<rparr>"

lemma sample_db_tables [simp]:
  "tables (sample_db st) Runs = [sample_run st]" "tables (sample_db st) Tasks = [sample_task]"
  "tables (sample_db st) Outbox = []" "tables (sample_db st) Events = []" "tables (sample_db st) Continuations = []"
  "tables (sample_db st) Checkpoints = []" "tables (sample_db st) Deliveries = []" "tables (sample_db st) Results = []"
  "db_tick (sample_db st) = 0"
  by (simp_all add: sample_db_def)

lemma sample_rows [simp]:
  "col_is ''run_id'' (JStr ''r1'') (sample_run st)" "col_is ''task_id'' (JStr ''t1'') sample_task"
  "get (sample_run st) ''run_id'' = JStr ''r1''" "get sample_task ''task_id'' = JStr ''t1''"
  "get (sample_run st) ''status'' = JStr st" "get (sample_run st) ''completed_at'' = JStr ''7''"
  "get (sample_run st) ''reconcile_generation'' = JNum 4"
  by (simp_all add: sample_run_def sample_task_def)

subsection \<open>Ended runs\<close>

text \<open>C4: an ended run is final in the database as well. Whatever calls any number of clients make, including
  calls that run between the read and the guarded update of another client's \<open>updateRun\<close>, the run keeps its
  status and its completion time, it is not deleted, and no event is removed or rewritten.\<close>

theorem pg_terminal_run_frozen:
  assumes "pg_reaches e s t" and "run_of s runId = Some row" and "isTerminalRunStatus (get row ''status'')"
  shows "\<exists>row'. run_of t runId = Some row' \<and> get row' ''status'' = get row ''status''
      \<and> coalesce (get row' ''completed_at'') JNull = coalesce (get row ''completed_at'') JNull
      \<and> prefix (tables s Events) (tables t Events)"
proof -
  from assms(1) have "pg_extends s t" by (rule pg_step_extends(2))
  then show ?thesis using assms(2,3) by (force simp: pg_extends_def run_kept_def)
qed

theorem pg_terminal_run_frozen_witness:
  "\<exists>row'. run_of (snd (pg_requestReconcile sample_env ''r1'' ''state_changed'' (sample_db ''failed''))) ''r1'' = Some row'
     \<and> get row' ''status'' = JStr ''failed''"
proof -
  have "pg_reaches sample_env (sample_db ''failed'')
      (snd (pg_requestReconcile sample_env ''r1'' ''state_changed'' (sample_db ''failed'')))"
    by (rule pg_step_pg_reaches.step[OF pg_step_pg_reaches.here]) (rule pg_step_pg_reaches.requestReconcile)
  from pg_terminal_run_frozen[OF this, of "''r1''" "sample_run ''failed''"] show ?thesis
    by (auto simp: run_of_def)
qed

text \<open>C5: the unique keys of the schema hold in every state the store reaches from an empty database, and
  every execute message in the outbox belongs to a task whose dispatch generation is at least the message's.\<close>

theorem pg_reachable_invariant:
  assumes "pg_reaches e db_init s"
  shows "(\<forall>t. keys_unique t (tables s t)) \<and> dispatch_inv s"
  using pg_reaches_unique[OF assms] pg_reaches_dispatch[OF assms] by (simp add: pg_unique_def)

theorem pg_reachable_invariant_witness:
  "keys_unique Runs (tables (snd (pg_createRun sample_env [(''runId'', JStr ''r1'')] [] db_init)) Runs)"
proof -
  have "pg_reaches sample_env db_init (snd (pg_createRun sample_env [(''runId'', JStr ''r1'')] [] db_init))"
    by (rule pg_step_pg_reaches.step[OF pg_step_pg_reaches.here]) (rule pg_step_pg_reaches.createRun)
  from pg_reachable_invariant[OF this] show ?thesis by blast
qed

subsection \<open>Dispatch\<close>

text \<open>Identifiers that \<open>randomUUID\<close> has still to produce are not in the outbox.\<close>

definition outbox_ids_fresh :: "env \<Rightarrow> db \<Rightarrow> bool" where
  "outbox_ids_fresh e s \<longleftrightarrow>
     (\<forall>m \<in> set (tables s Outbox). \<forall>i \<ge> db_tick s. get m ''outbox_id'' \<noteq> JStr (''agent-outbox-'' @ uuid e i))"

lemma execute_not_duplicate:
  assumes inv: "dispatch_inv s" and fresh: "outbox_ids_fresh e s" and task: "task_of s taskId = Some task"
    and m: "get m ''message_kind'' = JStr ''agent.task.execute.v1''" "get m ''task_id'' = JStr taskId"
      "get m ''dispatch_generation'' = JNum g" "get m ''outbox_id'' = JStr (''agent-outbox-'' @ uuid e i)"
      "db_tick s \<le> i" "generation_of task < g"
  shows "\<not> duplicate Outbox m (tables s Outbox)"
proof -
  have "\<not> same_key [''outbox_id''] m x" "\<not> same_key [''message_kind'', ''run_id'', ''task_id'', ''dispatch_generation''] m x"
    if x: "x \<in> set (tables s Outbox)" for x
  proof -
    have "col m ''outbox_id'' = JStr (''agent-outbox-'' @ uuid e i)" using m(4) by (simp add: col_def)
    then have "same_key [''outbox_id''] m x \<Longrightarrow> get x ''outbox_id'' = JStr (''agent-outbox-'' @ uuid e i)"
      by (simp add: same_key_def not_nullish_col eq_commute[of "JStr _"])
    with x fresh m(5) show "\<not> same_key [''outbox_id''] m x" unfolding outbox_ids_fresh_def by blast
    show "\<not> same_key [''message_kind'', ''run_id'', ''task_id'', ''dispatch_generation''] m x"
    proof
      assume k: "same_key [''message_kind'', ''run_id'', ''task_id'', ''dispatch_generation''] m x"
      then have "get x ''message_kind'' = JStr ''agent.task.execute.v1''" "get x ''task_id'' = JStr taskId"
        "get x ''dispatch_generation'' = JNum g"
        using m(1-3) by (auto simp: same_key_def col_def coalesce_def nullish_def split: if_splits)
      with inv x task have "g \<le> generation_of task"
        by (force simp: dispatch_inv_def execute_covered_def generation_of_def)
      with m(6) show False by simp
    qed
  qed
  then show ?thesis by (auto simp: duplicate_def list_ex_iff)
qed

text \<open>C6: a dispatch is fenced and never lost. When \<open>dispatchPreparedTask\<close> reports that it dispatched a task
  in a reachable state, the task is queued under a generation and a fencing token that are each one higher than
  before, and an execute message for exactly that generation is in the outbox, which did not hold one before:
  \<open>ON CONFLICT DO NOTHING\<close> has not swallowed it.\<close>

theorem dispatch_fenced_and_delivered:
  assumes "pg_reaches e db_init s" and "outbox_ids_fresh e s"
    and "pg_dispatchPreparedTask e taskId attempt descriptorPath reason s = (Inr r, t)" and "dr_dispatched r"
  shows "\<exists>task task' m. task_of s taskId = Some task \<and> task_of t taskId = Some task'
    \<and> get task' ''status'' = JStr ''queued''
    \<and> get task' ''dispatch_generation'' = JNum (generation_of task + 1)
    \<and> get task' ''fencing_token'' = JNum (num_or 0 (get task ''fencing_token'') + 1)
    \<and> tables t Outbox = tables s Outbox @ [m]
    \<and> get m ''message_kind'' = JStr ''agent.task.execute.v1'' \<and> get m ''task_id'' = JStr taskId
    \<and> get m ''dispatch_generation'' = JNum (generation_of task + 1)"
  using assms(3)
proof (cases rule: dispatch_outcome)
  case refused
  with assms(4) show ?thesis by simp
next
  case (dispatched task m at)
  from dispatched(12) obtain i where i: "get m ''outbox_id'' = JStr (''agent-outbox-'' @ uuid e i)" "db_tick s \<le> i" by blast
  have "\<not> duplicate Outbox m (tables s Outbox)"
    using pg_reaches_dispatch[OF assms(1)] assms(2) dispatched(1,8,9,10) i
    by (rule execute_not_duplicate) (simp add: dispatched(4))
  moreover have "task_of t taskId = Some (queued_task attempt (dr_dispatchGeneration r) (dr_fencingToken r) descriptorPath at task)"
    using dispatched(1,6) by (auto simp: task_of_def find_update_rows find_Some_iff)
  ultimately show ?thesis
    using dispatched(1,4,5,7,8,9,10)
    by (intro exI[of _ task] exI[of _ "queued_task attempt (dr_dispatchGeneration r) (dr_fencingToken r) descriptorPath at task"]
        exI[of _ m]) simp
qed

text \<open>A task is dispatched once. A second dispatch of the task before anything else has happened reports that
  it did not dispatch and leaves the database as it is, so two schedulers cannot queue the same attempt twice.\<close>

theorem dispatch_once:
  assumes "pg_dispatchPreparedTask e taskId attempt descriptorPath reason s = (Inr r, t)" and "dr_dispatched r"
  shows "\<exists>r'. pg_dispatchPreparedTask e taskId attempt' descriptorPath' reason' t = (Inr r', t) \<and> \<not> dr_dispatched r'"
  using assms(1)
proof (cases rule: dispatch_outcome)
  case refused
  with assms(2) show ?thesis by simp
next
  case (dispatched task m at)
  then have "task_of t taskId = Some (queued_task attempt (dr_dispatchGeneration r) (dr_fencingToken r) descriptorPath at task)"
    by (auto simp: task_of_def find_update_rows find_Some_iff)
  then show ?thesis
    by (auto simp: pg_dispatchPreparedTask_def transaction_def restoreM_def task_of_def col_in_def)
qed

lemma sample_dispatch:
  "\<exists>r t. pg_dispatchPreparedTask sample_env ''t1'' (JNum 1) (JStr ''d'') ''ready'' (sample_db ''running'') = (Inr r, t)
     \<and> dr_dispatched r"
  by (simp add: pg_dispatchPreparedTask_def transaction_def restoreM_def sample_task_def col_in_def Let_def
      pg_enqueueRuntimeOutbox_def sql_insert_ignore_def pg_event_at_def sql_insert_def sql_update_def seqM_def bindM_def duplicate_def)

theorem dispatch_once_witness:
  "\<exists>r t r'. pg_dispatchPreparedTask sample_env ''t1'' (JNum 1) (JStr ''d'') ''ready'' (sample_db ''running'') = (Inr r, t)
     \<and> pg_dispatchPreparedTask sample_env ''t1'' (JNum 1) (JStr ''d'') ''ready'' t = (Inr r', t) \<and> \<not> dr_dispatched r'"
  using sample_dispatch dispatch_once by blast

theorem dispatch_fenced_and_delivered_witness:
  "\<exists>s t m task'. pg_reaches sample_env db_init s \<and> task_of t ''t1'' = Some task'
     \<and> get task' ''dispatch_generation'' = JNum 1 \<and> tables t Outbox = tables s Outbox @ [m]"
proof -
  let ?s = "snd (pg_addTasks sample_env ''r1'' (JArr [JObj [(''taskId'', JStr ''t1'')]]) [] db_init)"
  have reach: "pg_reaches sample_env db_init ?s"
    by (rule pg_step_pg_reaches.step[OF pg_step_pg_reaches.here]) (rule pg_step_pg_reaches.addTasks)
  have tables: "tables ?s Tasks = [added_task_row ''r1'' (JObj [(''taskId'', JStr ''t1'')]) JNull []]" "tables ?s Outbox = []"
    by (simp_all add: pg_addTasks_def Let_def bindM_def transaction_def restoreM_def sql_insert_unless_def db_init_def
        duplicate_def whenM_def seqM_def pg_event_def sql_insert_def)
  have events: "map (\<lambda>ev. get ev ''event_id'') (tables ?s Events) = [JStr (''event-'' @ nat_string 0)]" "db_tick ?s = 2"
    by (simp_all add: pg_addTasks_def Let_def bindM_def transaction_def restoreM_def sql_insert_unless_def db_init_def
        duplicate_def whenM_def seqM_def pg_event_def sql_insert_def pg_event_row_def)
  have task: "task_of ?s ''t1'' = Some (added_task_row ''r1'' (JObj [(''taskId'', JStr ''t1'')]) JNull [])"
    by (simp add: task_of_def tables added_task_row_def pg_task_row_def)
  have fresh: "outbox_ids_fresh sample_env ?s" by (simp add: outbox_ids_fresh_def tables)
  have new: "\<not> list_ex (same_key [''event_id''] (pg_event_row (''event-'' @ nat_string 5) a b c d f)) (tables ?s Events)" for a b c d f
    using events(1) by (auto simp: same_key_def pg_event_row_def nat_string.simps list_ex_iff col_def)
  have "\<exists>r t. pg_dispatchPreparedTask sample_env ''t1'' (JNum 1) (JStr ''d'') ''ready'' ?s = (Inr r, t) \<and> dr_dispatched r"
    using task new by (simp add: pg_dispatchPreparedTask_def transaction_def restoreM_def col_in_def Let_def task_of_def
      pg_enqueueRuntimeOutbox_def sql_insert_ignore_def pg_event_at_def sql_insert_def sql_update_def seqM_def bindM_def duplicate_def tables
      events(2) added_task_row_def pg_task_row_def)
  then obtain r t where rt: "pg_dispatchPreparedTask sample_env ''t1'' (JNum 1) (JStr ''d'') ''ready'' ?s = (Inr r, t)"
    "dr_dispatched r" by blast
  from dispatch_fenced_and_delivered[OF reach fresh rt] task have
    "\<exists>task' m. task_of t ''t1'' = Some task' \<and> get task' ''dispatch_generation'' = JNum 1 \<and> tables t Outbox = tables ?s Outbox @ [m]"
    by (auto simp: generation_of_def added_task_row_def pg_task_row_def)
  with reach show ?thesis by blast
qed

subsection \<open>Reconcile leases\<close>

definition can_claim :: "env \<Rightarrow> string \<Rightarrow> string \<Rightarrow> string \<Rightarrow> obj \<Rightarrow> bool" where
  "can_claim e runId ownerId now r \<longleftrightarrow>
     col_is ''run_id'' (JStr runId) r \<and> col_in ''status'' [''routed'', ''running''] r \<and> lease_free e ownerId now r"

lemma claim_run:
  "pg_claimRunReconcile e runId ownerId ms s =
     (let P = can_claim e runId ownerId (clock e (Suc (db_tick s)));
          f = (\<lambda>r. assign r [(''reconcile_lease_owner'', JStr ownerId),
                 (''reconcile_lease_expires_at'', JStr (iso_of e (clock_ms e (db_tick s) + ms)))])
      in (Inr (case map f (filter P (tables s Runs)) of [] \<Rightarrow> None | row # _ \<Rightarrow> Some row),
          put_table Runs (update_rows P f (tables s Runs)) (s\<lparr>db_tick := Suc (Suc (db_tick s))\<rparr>)))"
  by (simp add: pg_claimRunReconcile_def Let_def can_claim_def[abs_def])

lemma put_table_same: "put_table t (tables s t) s = s"
  by (simp add: put_table_def fun_upd_idem)

lemma claim_refused:
  assumes "pg_unique u" and "run_of u runId = Some row" and "\<not> can_claim e runId ownerId (clock e (Suc (db_tick u))) row"
  shows "pg_claimRunReconcile e runId ownerId ms u = (Inr None, u\<lparr>db_tick := Suc (Suc (db_tick u))\<rparr>)"
proof -
  have rows: "filter (col_is ''run_id'' (JStr runId)) (tables u Runs) = [row]"
    using unique_find[OF assms(1)] assms(2) by (simp add: run_of_def)
  have no: "\<not> can_claim e runId ownerId (clock e (Suc (db_tick u))) r" if "r \<in> set (tables u Runs)" for r
  proof
    assume c: "can_claim e runId ownerId (clock e (Suc (db_tick u))) r"
    then have "r \<in> set (filter (col_is ''run_id'' (JStr runId)) (tables u Runs))" using that by (simp add: can_claim_def)
    with rows c assms(3) show False by simp
  qed
  then have "filter (can_claim e runId ownerId (clock e (Suc (db_tick u)))) (tables u Runs) = []"
    by (simp add: filter_empty_conv)
  moreover have "update_rows (can_claim e runId ownerId (clock e (Suc (db_tick u)))) f (tables u Runs) = tables u Runs" for f
    using no by (rule update_rows_unchanged)
  ultimately show ?thesis
    using put_table_same[of Runs "u\<lparr>db_tick := Suc (Suc (db_tick u))\<rparr>"] by (simp add: claim_run Let_def)
qed

text \<open>C18: the reconcile lease excludes other owners. While the lease that one owner has claimed is the one in the
  run's row and has not run out by the database's clock reading, a claim of any other owner is refused and changes
  nothing in the tables.\<close>

theorem lease_excludes_others:
  assumes "pg_claimRunReconcile e runId owner1 ms s = (Inr (Some row), t)"
    and "pg_unique u" and "run_of u runId = Some row" and "owner2 \<noteq> owner1"
    and "\<not> collate e (js_string (get row ''reconcile_lease_expires_at'')) (clock e (Suc (db_tick u))) < 0"
  shows "pg_claimRunReconcile e runId owner2 ms' u = (Inr None, u\<lparr>db_tick := Suc (Suc (db_tick u))\<rparr>)"
proof (rule claim_refused[OF assms(2,3)])
  from assms(1) have row: "get row ''reconcile_lease_owner'' = JStr owner1"
      "\<not> nullish (get row ''reconcile_lease_expires_at'')"
    by (auto simp: claim_run Let_def split: list.splits)
  with assms(4,5) show "\<not> can_claim e runId owner2 (clock e (Suc (db_tick u))) row"
    by (auto simp: can_claim_def lease_free_def is_null_def col_def coalesce_def)
qed

lemma sample_claim:
  "\<exists>row t. pg_claimRunReconcile sample_env ''r1'' ''a'' 400 (sample_db ''running'') = (Inr (Some row), t)
     \<and> run_of t ''r1'' = Some row \<and> pg_unique t \<and> db_tick t = 2
     \<and> get row ''reconcile_lease_expires_at'' = JStr (int_string 400)"
proof -
  have u: "pg_unique (sample_db ''running'')"
    unfolding pg_unique_def
  proof
    show "keys_unique t (tables (sample_db ''running'') t)" for t
      by (cases t) (simp_all add: keys_unique_def sample_db_def)
  qed
  have "pg_unique (snd (pg_claimRunReconcile sample_env ''r1'' ''a'' 400 (sample_db ''running'')))"
    using u pgu.keeps_snd[OF pgu_lease(1)] by (simp add: pg_unique_step_def)
  then show ?thesis
    by (simp add: claim_run can_claim_def lease_free_def is_null_def col_in_def sample_run_def update_rows_def run_of_def Let_def)
qed

theorem lease_excludes_others_witness:
  "\<exists>row t. pg_claimRunReconcile sample_env ''r1'' ''a'' 400 (sample_db ''running'') = (Inr (Some row), t)
     \<and> fst (pg_claimRunReconcile sample_env ''r1'' ''b'' 400 t) = Inr None"
proof -
  from sample_claim obtain row t where c: "pg_claimRunReconcile sample_env ''r1'' ''a'' 400 (sample_db ''running'') = (Inr (Some row), t)"
    "run_of t ''r1'' = Some row" "pg_unique t" "db_tick t = 2" "get row ''reconcile_lease_expires_at'' = JStr (int_string 400)" by blast
  have "\<not> collate sample_env (int_string 400) (nat_string 3) < 0"
    by (simp add: sample_env_def int_string_def nat_string.simps less_char_def)
  with c have "\<not> collate sample_env (js_string (get row ''reconcile_lease_expires_at'')) (clock sample_env (Suc (db_tick t))) < 0"
    by (simp add: numeral_3_eq_3 numeral_2_eq_2)
  from lease_excludes_others[OF c(1,3,2) _ this] c(1) show ?thesis by auto
qed

subsection \<open>Results and wakes are handled once\<close>

text \<open>C19: an execution result is consumed once. After \<open>consumeExecutionResult\<close> has returned the result, a second
  call returns nothing, and the result is not among the pending results of any run.\<close>

theorem result_consumed_once:
  assumes "pg_consumeExecutionResult e resultId s = (Inr (Some row), t)"
  shows "fst (pg_consumeExecutionResult e resultId t) = Inr None
    \<and> \<not> list_ex (col_is ''result_id'' (JStr resultId)) (filter (is_null ''consumed_at'') (tables t Results))"
proof -
  have t: "tables t Results = update_rows (\<lambda>r. col_is ''result_id'' (JStr resultId) r \<and> is_null ''consumed_at'' r)
       (AList.update ''consumed_at'' (JStr (clock e (db_tick s)))) (tables s Results)"
    using assms by (auto simp: pg_consumeExecutionResult_def)
  have none: "\<not> (col_is ''result_id'' (JStr resultId) r \<and> is_null ''consumed_at'' r)" if "r \<in> set (tables t Results)" for r
    using that unfolding t by (auto simp: update_rows_def is_null_def split: if_splits)
  then have "filter (\<lambda>r. col_is ''result_id'' (JStr resultId) r \<and> is_null ''consumed_at'' r) (tables t Results) = []"
    by (auto simp: filter_empty_conv)
  with none show ?thesis by (auto simp: pg_consumeExecutionResult_def list_ex_iff)
qed

theorem result_consumed_once_witness:
  "\<exists>row t. pg_consumeExecutionResult sample_env ''x1''
       ((sample_db ''running'')\<lparr>tables := (\<lambda>_. [[(''result_id'', JStr ''x1''), (''run_id'', JStr ''r1'')]])\<rparr>) = (Inr (Some row), t)
     \<and> fst (pg_consumeExecutionResult sample_env ''x1'' t) = Inr None"
proof -
  have "\<exists>row t. pg_consumeExecutionResult sample_env ''x1''
       ((sample_db ''running'')\<lparr>tables := (\<lambda>_. [[(''result_id'', JStr ''x1''), (''run_id'', JStr ''r1'')]])\<rparr>) = (Inr (Some row), t)"
    by (simp add: pg_consumeExecutionResult_def is_null_def)
  with result_consumed_once show ?thesis by blast
qed

lemma pg_create_wake_found:
  assumes "pg_create_wake e runId cont ty occ key s = (Inr (Some (d, c)), t)"
    and "find (col_is ''effect_key'' (JStr key)) (tables s Deliveries) = None"
  shows "find (col_is ''effect_key'' (JStr key)) (tables t Deliveries) = Some d \<and> tables t Runs = tables s Runs
    \<and> tables t Continuations = update_rows (col_is ''continuation_id'' (col cont ''continuation_id''))
          (\<lambda>r. woken r (num_or 0 (get cont ''generation'') + 1) (delivery_id_for e key) (clock e (db_tick s)))
          (tables s Continuations)"
proof -
  have "\<not> list_ex (same_key [''effect_key''] (delivery_row e cont runId g ty occ key m at)) (tables s Deliveries)" for g m at
    using assms(2) by (auto simp: find_None_iff list_ex_iff same_key_def delivery_row_def Let_def not_nullish_col
        eq_commute[of "JStr key"])
  with assms show ?thesis
    by (auto simp: pg_create_wake_def Let_def seqM_def bindM_def sql_insert_unless_def sql_update_def pg_enqueueRuntimeOutbox_def
        sql_insert_ignore_def pg_event_at_def sql_insert_def find_snoc delivery_row_def split: sum.splits if_splits)
qed

text \<open>When a stored wake is due, the database answers from the row on file.\<close>

definition wake_due :: "obj \<Rightarrow> obj \<Rightarrow> jsval \<Rightarrow> string \<Rightarrow> bool" where
  "wake_due cont run status ty \<longleftrightarrow>
     get cont ''status'' \<noteq> JStr ''cancelled'' \<and> (nullish status \<or> status = get run ''status'')
     \<and> runStatusToContinuationEvent (get run ''status'') = Some ty
     \<and> (\<exists>evs. normalizeContinuationWakeEvents (coalesce (get cont ''wake_events_json'') (JArr [])) = Inr evs \<and> ty \<in> set evs)
     \<and> truthy (get run ''completed_at'')"

definition continuation_at :: "db \<Rightarrow> string \<Rightarrow> obj option" where
  "continuation_at s runId = find (col_is ''run_id'' (JStr runId)) (tables s Continuations)"

lemma pg_materialize_due:
  assumes "continuation_at s runId = Some cont" and "run_of s runId = Some run" and "wake_due cont run status ty"
  shows "pg_materializeContinuationWake e runId status s = transaction
    (\<lambda>s. case find (col_is ''effect_key'' (JStr (wake_key e runId cont run ty))) (tables s Deliveries) of
       Some d \<Rightarrow> (Inr (Some (d, False)), s)
     | None \<Rightarrow> pg_create_wake e runId cont ty (''completed-at:'' @ js_string (get run ''completed_at''))
          (wake_key e runId cont run ty) s) s"
  using assms
  by (auto simp: pg_materializeContinuationWake_def transaction_def restoreM_def pg_getRun_def continuation_row_of_def
      continuation_at_def run_of_def wake_due_def split: option.split)

lemma pg_materialize_Some:
  assumes "pg_materializeContinuationWake e runId status s = (Inr (Some dc), t)"
  obtains cont run ty where "continuation_at s runId = Some cont" "run_of s runId = Some run" "wake_due cont run status ty"
proof -
  from assms[unfolded pg_materializeContinuationWake_def transaction_ok] obtain cont run where
    cr: "continuation_at s runId = Some cont" "run_of s runId = Some run"
    by (auto simp: pg_getRun_def continuation_row_of_def continuation_at_def run_of_def split: option.splits)
  from assms[unfolded pg_materializeContinuationWake_def transaction_ok] cr
  have "\<exists>ty. wake_due cont run status ty"
    by (auto simp: pg_getRun_def continuation_row_of_def continuation_at_def run_of_def wake_due_def bindM_def seqM_def
        guardM_def split: option.splits if_splits sum.splits)
  with cr that show thesis by blast
qed

text \<open>C32: the database wakes a session once per terminal occurrence: after a wake request was answered with a
  delivery, asking again returns that delivery, marked as not created, and leaves the database as it is.\<close>

theorem pg_wake_exactly_once:
  assumes "pg_materializeContinuationWake e runId status s = (Inr (Some (delivery, created)), t)"
  shows "pg_materializeContinuationWake e runId status t = (Inr (Some (delivery, False)), t)"
  using assms
proof (rule pg_materialize_Some)
  fix cont run ty
  assume c: "continuation_at s runId = Some cont" and r: "run_of s runId = Some run" and due: "wake_due cont run status ty"
  let ?key = "wake_key e runId cont run ty"
  note step = assms[unfolded pg_materialize_due[OF c r due] transaction_ok]
  show ?thesis
  proof (cases "find (col_is ''effect_key'' (JStr ?key)) (tables s Deliveries)")
    case (Some d)
    with step assms show ?thesis by simp
  next
    case None
    with step have w: "pg_create_wake e runId cont ty (''completed-at:'' @ js_string (get run ''completed_at'')) ?key s
        = (Inr (Some (delivery, created)), t)" by simp
    from pg_create_wake_found[OF w None] obtain g i u where f:
      "find (col_is ''effect_key'' (JStr ?key)) (tables t Deliveries) = Some delivery" "tables t Runs = tables s Runs"
      "tables t Continuations = update_rows (col_is ''continuation_id'' (col cont ''continuation_id''))
          (\<lambda>r. woken r g i u) (tables s Continuations)" by blast
    define cont' where "cont' = (if col_is ''continuation_id'' (col cont ''continuation_id'') cont then woken cont g i u else cont)"
    have c': "continuation_at t runId = Some cont'"
      using c unfolding continuation_at_def f(3)
      by (subst find_update_rows) (auto simp: woken_def cont'_def)
    have r': "run_of t runId = Some run" using r f(2) by (simp add: run_of_def)
    have due': "wake_due cont' run status ty" using due by (auto simp: wake_due_def cont'_def woken_def)
    have key: "wake_key e runId cont' run ty = ?key" by (simp add: wake_key_def cont'_def woken_def)
    show ?thesis unfolding pg_materialize_due[OF c' r' due'] transaction_ok using f(1) key by simp
  qed
qed

definition sample_parked :: db where
  "sample_parked = (sample_db ''closed'')\<lparr>tables := (tables (sample_db ''closed''))(Continuations :=
     [[(''continuation_id'', JStr ''c1''), (''run_id'', JStr ''r1''), (''status'', JStr ''parked''), (''generation'', JNum 0),
       (''wake_events_json'', JArr [JStr ''run.completed''])]])\<rparr>"

theorem pg_wake_exactly_once_witness:
  "\<exists>d t. pg_materializeContinuationWake sample_env ''r1'' JNull sample_parked = (Inr (Some (d, True)), t)
     \<and> pg_materializeContinuationWake sample_env ''r1'' JNull t = (Inr (Some (d, False)), t)"
proof -
  have t: "trim ''run.completed'' = ''run.completed''" "trim ''closed'' = ''closed''"
    by (simp_all add: trim_def is_space_def)
  have due: "wake_due [(''continuation_id'', JStr ''c1''), (''run_id'', JStr ''r1''), (''status'', JStr ''parked''), (''generation'', JNum 0),
       (''wake_events_json'', JArr [JStr ''run.completed''])] (sample_run ''closed'') JNull ''run.completed''"
    by (simp add: wake_due_def runStatusToContinuationEvent_def RUN_STATUS_EVENT_def compact_def t
        normalizeContinuationWakeEvents_def CONTINUATION_WAKE_EVENTS_def uniq_def)
  have c: "continuation_at sample_parked ''r1'' = Some [(''continuation_id'', JStr ''c1''), (''run_id'', JStr ''r1''),
       (''status'', JStr ''parked''), (''generation'', JNum 0), (''wake_events_json'', JArr [JStr ''run.completed''])]"
    by (simp add: continuation_at_def sample_parked_def)
  have r: "run_of sample_parked ''r1'' = Some (sample_run ''closed'')" by (simp add: run_of_def sample_parked_def)
  have "\<exists>d t. pg_materializeContinuationWake sample_env ''r1'' JNull sample_parked = (Inr (Some (d, True)), t)"
    unfolding pg_materialize_due[OF c r due] transaction_ok
    by (simp add: sample_parked_def pg_create_wake_def Let_def seqM_def bindM_def sql_insert_unless_def sql_update_def
        pg_enqueueRuntimeOutbox_def sql_insert_ignore_def pg_event_at_def sql_insert_def duplicate_def)
  with pg_wake_exactly_once show ?thesis by blast
qed

end
