(* ===== verification/PgMessages.thy ===== *)
theory PgMessages
  imports PgStoreProps
begin

text \<open>
  Messages and identifiers of the PostgreSQL store: events that are recorded once, reconcile requests and when
  their message is dropped, and the identifier a checkpoint is reported under.
\<close>

subsection \<open>Events recorded once\<close>

lemma same_event: "same_key [''event_id''] (pg_event_row i a b c d f) r \<longleftrightarrow> get r ''event_id'' = JStr i"
  by (auto simp: same_key_def pg_event_row_def not_nullish_col eq_commute[of "JStr i"])

lemma event_row_id [simp]: "get (pg_event_row i a b c d f) ''event_id'' = JStr i"
  by (simp add: pg_event_row_def)

lemma same_event_list: "list_ex (same_key [''event_id''] (pg_event_row i a b c d f)) rs \<longleftrightarrow> list_ex (\<lambda>r. get r ''event_id'' = JStr i) rs"
  by (simp add: list_ex_iff same_event)

text \<open>\<open>eventOnce\<close> is idempotent. After a call with an effect key, a second call with the same key reports
  that nothing was inserted, names the same event, and leaves every table as it is, whatever its other arguments.\<close>

theorem event_recorded_once:
  assumes "truthy effectKey" and "pg_eventOnce e runId taskId ty payload effectKey s = (Inr outcome, t)"
  shows "pg_eventOnce e runId' taskId' ty' payload' effectKey t =
    (Inr (Some (False, effect_event_id e effectKey)), t\<lparr>db_tick := Suc (db_tick t)\<rparr>)"
proof -
  have "list_ex (\<lambda>r. get r ''event_id'' = JStr (effect_event_id e effectKey)) (tables t Events)"
    using assms
    by (auto simp: pg_eventOnce_def Let_def bindM_def sql_insert_unless_def same_event_list split: if_splits)
  with assms(1) show ?thesis
    by (simp add: pg_eventOnce_def Let_def bindM_def sql_insert_unless_def same_event_list)
qed

theorem event_recorded_once_witness:
  "\<exists>t. pg_eventOnce sample_env (JStr ''r1'') JNull ''note'' [] (JStr ''k'') (sample_db ''running'')
       = (Inr (Some (True, ''event-effect-k'')), t)
     \<and> fst (pg_eventOnce sample_env (JStr ''r1'') JNull ''other'' [] (JStr ''k'') t) = Inr (Some (False, ''event-effect-k''))"
proof -
  have e: "effect_event_id sample_env (JStr ''k'') = ''event-effect-k''" by (simp add: effect_event_id_def)
  have "\<exists>t. pg_eventOnce sample_env (JStr ''r1'') JNull ''note'' [] (JStr ''k'') (sample_db ''running'')
       = (Inr (Some (True, ''event-effect-k'')), t)"
    by (simp add: pg_eventOnce_def Let_def bindM_def sql_insert_unless_def duplicate_def e)
  then obtain t where t: "pg_eventOnce sample_env (JStr ''r1'') JNull ''note'' [] (JStr ''k'') (sample_db ''running'')
       = (Inr (Some (True, ''event-effect-k'')), t)" ..
  from event_recorded_once[OF _ t, of "JStr ''r1''" JNull "''other''" "[]"] have
    "fst (pg_eventOnce sample_env (JStr ''r1'') JNull ''other'' [] (JStr ''k'') t) = Inr (Some (False, ''event-effect-k''))"
    by (simp add: e)
  with t show ?thesis by blast
qed

subsection \<open>Reconcile requests\<close>

definition reconcile_queued :: "string \<Rightarrow> int \<Rightarrow> db \<Rightarrow> bool" where
  "reconcile_queued runId g s \<longleftrightarrow> list_ex (\<lambda>m. get m ''message_kind'' = JStr ''agent.run.reconcile.v1''
     \<and> get m ''run_id'' = JStr runId \<and> col m ''task_id'' = JNull \<and> get m ''dispatch_generation'' = JNum g) (tables s Outbox)"

definition outbox_id :: "env \<Rightarrow> nat \<Rightarrow> string" where
  "outbox_id e n = ''agent-outbox-'' @ uuid e n"

lemma enqueue_run:
  "pg_enqueueRuntimeOutbox e runId tid kind g payload s =
     (let i = outbox_id e (db_tick s); v = runtime_envelope i runId tid kind g payload;
          m = outbox_row i runId tid kind g (JObj v) (clock e (Suc (db_tick s)));
          s' = s\<lparr>db_tick := Suc (Suc (db_tick s))\<rparr>
      in (Inr v, if duplicate Outbox m (tables s Outbox) then s' else put_table Outbox (tables s Outbox @ [m]) s'))"
  by (simp add: pg_enqueueRuntimeOutbox_def Let_def seqM_def bindM_def sql_insert_ignore_def outbox_id_def)

lemma outbox_row_get [simp]: "get (outbox_row i runId tid kind g env at) ''dispatch_generation'' = JNum g"
  by (simp add: outbox_row_def)

lemma outbox_duplicate:
  "duplicate Outbox (outbox_row i runId JNull kind g env at) rows \<longleftrightarrow>
     list_ex (\<lambda>m. get m ''outbox_id'' = JStr i \<or> (get m ''message_kind'' = JStr kind \<and> get m ''run_id'' = JStr runId
        \<and> col m ''task_id'' = JNull \<and> get m ''dispatch_generation'' = JNum g)) rows"
  by (simp add: duplicate_def same_key_def outbox_row_def not_nullish_col eq_commute[of "JStr _"] eq_commute[of "JNum _"]
      eq_commute[of JNull])

lemma reconcile_duplicate:
  assumes "outbox_ids_fresh e s" and "db_tick s \<le> n"
  shows "duplicate Outbox (outbox_row (outbox_id e n) runId JNull ''agent.run.reconcile.v1'' g env at) (tables s Outbox)
    \<longleftrightarrow> reconcile_queued runId g s"
proof -
  have "get m ''outbox_id'' \<noteq> JStr (outbox_id e n)" if "m \<in> set (tables s Outbox)" for m
    using assms that unfolding outbox_ids_fresh_def outbox_id_def by blast
  then show ?thesis unfolding outbox_duplicate reconcile_queued_def list_ex_iff by blast
qed

lemma request_run:
  assumes "pg_unique s" and "run_of s runId = Some row"
  shows "pg_requestReconcile e runId reason s =
    (let g = num_or 0 (get row ''reconcile_generation'') + 1 in
     case pg_enqueueRuntimeOutbox e runId JNull ''agent.run.reconcile.v1'' g [(''reason'', JStr reason)]
       (put_table Runs (update_rows (col_is ''run_id'' (JStr runId))
          (\<lambda>r. plus_one ''state_version'' (AList.update ''reconcile_requested_at'' (JStr (clock e (db_tick s)))
             (plus_one ''reconcile_generation'' r))) (tables s Runs)) (s\<lparr>db_tick := Suc (db_tick s)\<rparr>)) of
       (_, t) \<Rightarrow> (Inr g, t))"
proof -
  have "filter (col_is ''run_id'' (JStr runId)) (tables s Runs) = [row]"
    using unique_find[OF assms(1)] assms(2) by (simp add: run_of_def)
  then show ?thesis
    by (simp add: pg_requestReconcile_def transaction_def restoreM_def Let_def pg_enqueueRuntimeOutbox_def seqM_def bindM_def
        sql_insert_ignore_def sql_update_def)
qed


lemma sample_unique: "pg_unique (sample_db st)"
  unfolding pg_unique_def
proof
  show "keys_unique t (tables (sample_db st) t)" for t
    by (cases t) (simp_all add: keys_unique_def sample_db_def)
qed


subsection \<open>A refinement takes the next generation\<close>

text \<open>The task part of a refinement leaves the runs alone, takes no host reading and only removes messages.\<close>

definition task_part :: "db \<Rightarrow> db \<Rightarrow> bool" where
  "task_part s t \<longleftrightarrow> tables t Runs = tables s Runs \<and> set (tables t Outbox) \<subseteq> set (tables s Outbox) \<and> db_tick t = db_tick s"

interpretation tp: step_preorder task_part
  by unfold_locales (auto simp: task_part_def)

lemma delete_task_part: "tp.keeps (delete_task runId taskId)"
  by (rule tp.keepsI) (auto simp: delete_task_def task_children_def task_part_def seqM_def bindM_def)

lemma tp_select: "tp.keeps (sql_select t P)" "tp.keeps (sql_first t P)"
  by (rule tp.keepsI, simp add: tp.step_refl)+

lemma tp_update: "tp.keeps (sql_update Tasks P f)"
  by (rule tp.keepsI) (simp add: sql_update_def task_part_def)

lemma tp_insert: "tp.keeps (sql_insert_unless Tasks cols row)"
  by (rule tp.keepsI) (simp add: sql_insert_unless_def task_part_def)

lemma refinement_task_part: "tp.keeps (pg_refinement_tasks runId plan options)"
  unfolding pg_refinement_tasks_def pg_refinement_remove_def pg_refinement_rewire_def Let_def
  by (intro tp.keeps_intros tp_select tp_update tp_insert delete_task_part)

lemma fresh_task_part: "task_part s t \<Longrightarrow> outbox_ids_fresh e s \<Longrightarrow> outbox_ids_fresh e t"
  by (auto simp: task_part_def outbox_ids_fresh_def)

lemma refinement_result:
  assumes ok: "pg_applyBootstrapPlanRefinement e runId plan options s = (Inr out, t)" and fresh: "outbox_ids_fresh e s"
  obtains row row' where "run_of s runId = Some row" "run_of t runId = Some row'"
    "get row' ''reconcile_generation'' = get row ''reconcile_generation''"
    "reconcile_queued runId (num_or 0 (get row ''reconcile_generation'') + 1) t"
proof -
  let ?s1 = "s\<lparr>db_tick := Suc (Suc (db_tick s))\<rparr>"
  note run = ok[unfolded pg_applyBootstrapPlanRefinement_def sql_bind transaction_ok]
  from run obtain row added m where row: "run_of s runId = Some row"
    and tasks: "pg_refinement_tasks runId plan options ?s1 = (Inr added, m)"
    by (auto simp: pg_getRun_def run_of_def seqM_def bindM_def guardM_def split: option.splits if_splits sum.splits prod.splits)
  let ?g = "num_or 0 (get row ''reconcile_generation'') + 1"
  from refinement_task_part tasks have tp: "task_part ?s1 m" by (rule tp.keepsD)
  have fm: "outbox_ids_fresh e m"
    by (rule fresh_task_part[OF tp]) (use fresh in \<open>auto simp: outbox_ids_fresh_def\<close>)
  define u where "u = put_table Runs (update_rows (col_is ''run_id'' (JStr runId))
       (\<lambda>r. plus_one ''state_version'' (AList.update ''plan_json'' (JObj plan) r)) (tables m Runs)) m"
  from run row tasks obtain ev x where
    "pg_enqueueRuntimeOutbox e runId JNull ''agent.run.reconcile.v1'' ?g [(''reason'', JStr ''bootstrap_topology_refined'')]
       (put_table Events (tables u Events @ [ev]) u) = (Inr x, t)"
    by (auto simp: pg_getRun_def run_of_def seqM_def bindM_def guardM_def sql_insert_def u_def sql_update_def
        split: option.splits if_splits sum.splits prod.splits)
  then have ev: "t = snd (pg_enqueueRuntimeOutbox e runId JNull ''agent.run.reconcile.v1'' ?g
      [(''reason'', JStr ''bootstrap_topology_refined'')] (put_table Events (tables u Events @ [ev]) u))" by simp
  have mo: "tables u Outbox = tables m Outbox" "db_tick u = db_tick m" by (simp_all add: u_def)
  have q: "reconcile_queued runId ?g t"
  proof -
    have "duplicate Outbox (outbox_row (outbox_id e (db_tick m)) runId JNull ''agent.run.reconcile.v1'' ?g v at) (tables m Outbox)
        \<longleftrightarrow> reconcile_queued runId ?g m" for v at
      using fm by (rule reconcile_duplicate) simp
    then show ?thesis
      unfolding ev enqueue_run Let_def
      by (simp add: mo reconcile_queued_def outbox_row_def split: if_splits)
  qed
  have "tables t Runs = tables u Runs" unfolding ev enqueue_run Let_def by simp
  moreover have "tables m Runs = tables s Runs" using tp by (simp add: task_part_def)
  ultimately have "run_of t runId = Some (plus_one ''state_version'' (AList.update ''plan_json'' (JObj plan) row))"
    using row by (auto simp: run_of_def u_def find_update_rows find_Some_iff)
  with row q that show thesis by simp
qed

text \<open>A refinement uses up the generation of the next reconcile request. The refinement queues a reconcile
  message of the run's generation plus one without raising the generation, so the next \<open>requestReconcile\<close> of
  the run returns that generation and reports success while its own message is dropped as a duplicate.\<close>

theorem refinement_swallows_next_request:
  assumes "pg_unique s" and "outbox_ids_fresh e s"
    and "pg_applyBootstrapPlanRefinement e runId plan options s = (Inr out, t)"
  shows "\<exists>g u. pg_requestReconcile e runId reason t = (Inr g, u) \<and> tables u Outbox = tables t Outbox"
proof -
  from refinement_result[OF assms(3,2)] obtain row row' where
    r: "run_of s runId = Some row" "run_of t runId = Some row'" "get row' ''reconcile_generation'' = get row ''reconcile_generation''"
      "reconcile_queued runId (num_or 0 (get row ''reconcile_generation'') + 1) t" by blast
  have "pg_unique t"
    using pgu.keepsD[OF pgu_refinement assms(3)] assms(1) by (simp add: pg_unique_step_def)
  note run = request_run[OF this r(2), of e reason]
  have "duplicate Outbox (outbox_row i runId JNull ''agent.run.reconcile.v1'' (num_or 0 (get row ''reconcile_generation'') + 1) v at)
      (tables t Outbox)" for i v at
    using r(4) by (auto simp: outbox_duplicate reconcile_queued_def list_ex_iff)
  with run r(3) show ?thesis by (simp add: enqueue_run Let_def)
qed

theorem refinement_swallows_next_request_witness:
  "\<exists>out t g u. pg_applyBootstrapPlanRefinement sample_env ''r1'' [] \<lparr>ro_expectedVersion = JUndef, ro_removedTaskIds = [],
        ro_dependencyUpdates = [], ro_addedTasks = [], ro_insert = []\<rparr> (sample_db ''running'') = (Inr out, t)
     \<and> pg_requestReconcile sample_env ''r1'' ''tick'' t = (Inr g, u) \<and> tables u Outbox = tables t Outbox"
proof -
  have fresh: "outbox_ids_fresh sample_env (sample_db ''running'')" by (simp add: outbox_ids_fresh_def)
  have "\<exists>out t. pg_applyBootstrapPlanRefinement sample_env ''r1'' [] \<lparr>ro_expectedVersion = JUndef, ro_removedTaskIds = [],
        ro_dependencyUpdates = [], ro_addedTasks = [], ro_insert = []\<rparr> (sample_db ''running'') = (Inr out, t)"
    by (simp add: pg_applyBootstrapPlanRefinement_def transaction_def restoreM_def pg_getRun_def seqM_def bindM_def guardM_def
        pg_refinement_tasks_def sql_update_def sql_insert_def duplicate_def pg_enqueueRuntimeOutbox_def sql_insert_ignore_def Let_def)
  with refinement_swallows_next_request[OF sample_unique fresh] show ?thesis by blast
qed

subsection \<open>Checkpoints\<close>

text \<open>Writing a checkpoint again under the same task, type, attempt, generation and fence updates the stored
  row, but the identifier that is returned is a new one that no stored checkpoint carries, when the new identifier
  is fresh. The statement's own \<open>RETURNING checkpoint_id\<close> is not read.\<close>

theorem checkpoint_rewrite_identifier:
  assumes "list_ex (\<lambda>r. map (col r) CHECKPOINT_KEY = [JStr (ci_taskId ci), JStr (ci_type ci), JNum (ci_attempt ci),
        JNum (ci_dispatchGeneration ci), JNum (ci_fencingToken ci)]) (tables s Checkpoints)"
    and "\<not> list_ex (col_is ''checkpoint_id'' (JStr (''checkpoint-'' @ uuid e (db_tick s)))) (tables s Checkpoints)"
  shows "\<exists>i t. pg_writeCheckpoint e ci s = (Inr i, t) \<and> length (tables t Checkpoints) = length (tables s Checkpoints)
    \<and> \<not> list_ex (col_is ''checkpoint_id'' (JStr i)) (tables t Checkpoints)"
proof -
  let ?i = "''checkpoint-'' @ uuid e (db_tick s)" and ?at = "clock e (Suc (db_tick s))"
  let ?rows = "update_rows (same_key CHECKPOINT_KEY (checkpoint_row ci ?i ?at)) (rewritten_checkpoint ci ?at) (tables s Checkpoints)"
  have "same_key CHECKPOINT_KEY (checkpoint_row ci ?i ?at) r \<longleftrightarrow> map (col r) CHECKPOINT_KEY = [JStr (ci_taskId ci),
     JStr (ci_type ci), JNum (ci_attempt ci), JNum (ci_dispatchGeneration ci), JNum (ci_fencingToken ci)]" for r
    by (auto simp: same_key_def CHECKPOINT_KEY_def checkpoint_row_def)
  moreover from assms(1) obtain r where r: "r \<in> set (tables s Checkpoints)" "map (col r) CHECKPOINT_KEY = [JStr (ci_taskId ci),
     JStr (ci_type ci), JNum (ci_attempt ci), JNum (ci_dispatchGeneration ci), JNum (ci_fencingToken ci)]"
    unfolding list_ex_iff by (elim bexE)
  ultimately have "same_key CHECKPOINT_KEY (checkpoint_row ci ?i ?at) r" by simp
  with r(1) have "list_ex (same_key CHECKPOINT_KEY (checkpoint_row ci ?i ?at)) (tables s Checkpoints)"
    unfolding list_ex_iff by (rule bexI[rotated])
  then have run: "pg_writeCheckpoint e ci s = (Inr ?i, put_table Checkpoints ?rows (s\<lparr>db_tick := Suc (Suc (db_tick s))\<rparr>))"
    by (simp add: pg_writeCheckpoint_def seqM_def bindM_def sql_upsert_def sql_update_def)
  have "\<not> list_ex (col_is ''checkpoint_id'' (JStr ?i)) ?rows"
    using assms(2) by (auto simp: list_ex_iff update_rows_def rewritten_checkpoint_def)
  with run show ?thesis by (intro exI[of _ ?i]) auto
qed

definition sample_checkpoint :: checkpoint_input where
  "sample_checkpoint = \<lparr>ci_runId = ''r1'', ci_taskId = ''t1'', ci_type = ''repair'', ci_attempt = 1, ci_dispatchGeneration = 1,
     ci_fencingToken = 1, ci_fingerprint = JNull, ci_reusable = False, ci_payload = JNull\<rparr>"

theorem checkpoint_rewrite_identifier_witness:
  "\<exists>i t. pg_writeCheckpoint sample_env sample_checkpoint
      ((sample_db ''running'')\<lparr>tables := (\<lambda>_. [[(''checkpoint_id'', JStr ''old''), (''task_id'', JStr ''t1''),
         (''checkpoint_type'', JStr ''repair''), (''attempt'', JNum 1), (''dispatch_generation'', JNum 1),
         (''fencing_token'', JNum 1)]])\<rparr>) = (Inr i, t)
    \<and> \<not> list_ex (col_is ''checkpoint_id'' (JStr i)) (tables t Checkpoints)"
proof -
  let ?s = "(sample_db ''running'')\<lparr>tables := (\<lambda>_. [[(''checkpoint_id'', JStr ''old''), (''task_id'', JStr ''t1''),
         (''checkpoint_type'', JStr ''repair''), (''attempt'', JNum 1), (''dispatch_generation'', JNum 1),
         (''fencing_token'', JNum 1)]])\<rparr>"
  have "list_ex (\<lambda>r. map (col r) CHECKPOINT_KEY = [JStr (ci_taskId sample_checkpoint), JStr (ci_type sample_checkpoint),
       JNum (ci_attempt sample_checkpoint), JNum (ci_dispatchGeneration sample_checkpoint), JNum (ci_fencingToken sample_checkpoint)])
       (tables ?s Checkpoints)"
    by (simp add: sample_checkpoint_def CHECKPOINT_KEY_def)
  moreover have "\<not> list_ex (col_is ''checkpoint_id'' (JStr (''checkpoint-'' @ uuid sample_env (db_tick ?s)))) (tables ?s Checkpoints)"
    by simp
  ultimately show ?thesis using checkpoint_rewrite_identifier by blast
qed

end
