(* ===== verification/RetryEfficiency.thy ===== *)
theory RetryEfficiency
  imports Complex_Main JsPrelude
begin

text \<open>
  Retry classification, delays and budgets (\<open>retry-efficiency.mjs\<close>). A failure is an object; its
  strategy is looked up by code, then by an explicit disposition, then by category. A delay is a
  full-jitter share of a cap that grows with the attempt; the wall-clock and back-off budgets are
  recomputed from the task's event history, so they survive a restart of the controller.

  A number that may be \<open>NaN\<close> is an \<open>int option\<close>. \<open>Math.random()\<close> is a rational in [0,1)
  given as an argument; the product with a cap is exact here, and in the code its rounding error is far below
  the distance of the clamp 0.999999999999 from 1. \<open>penv\<close> is \<open>process.env\<close>. The text of
  \<open>payload_json\<close> is represented by the value it encodes.
\<close>

subsection \<open>Numbers that may be NaN\<close>

definition nan_max0 :: "int option \<Rightarrow> int option" where
  "nan_max0 x = map_option (max 0) x"

definition nan_le :: "int option \<Rightarrow> int option \<Rightarrow> bool" where
  "nan_le x y \<longleftrightarrow> (case (x, y) of (Some a, Some b) \<Rightarrow> a \<le> b | _ \<Rightarrow> False)"

definition nan_less :: "int option \<Rightarrow> int option \<Rightarrow> bool" where
  "nan_less x y \<longleftrightarrow> (case (x, y) of (Some a, Some b) \<Rightarrow> a < b | _ \<Rightarrow> False)"

definition nan_op :: "(int \<Rightarrow> int \<Rightarrow> int) \<Rightarrow> int option \<Rightarrow> int option \<Rightarrow> int option" where
  "nan_op f x y = (case (x, y) of (Some a, Some b) \<Rightarrow> Some (f a b) | _ \<Rightarrow> None)"

lemma nan_simps [simp]:
  "nan_max0 (Some a) = Some (max 0 a)" "nan_max0 None = None"
  "nan_le (Some a) (Some b) \<longleftrightarrow> a \<le> b" "\<not> nan_le None y" "\<not> nan_le x None"
  "nan_less (Some a) (Some b) \<longleftrightarrow> a < b" "\<not> nan_less None y" "\<not> nan_less x None"
  "nan_op f (Some a) (Some b) = Some (f a b)" "nan_op f None y = None" "nan_op f x None = None"
  by (simp_all add: nan_max0_def nan_le_def nan_less_def nan_op_def split: option.splits)

subsection \<open>Strategies\<close>

type_synonym strategy = "jsval \<times> jsval"

definition RETRY_FAILURE_STRATEGIES :: "(string \<times> strategy) list" where
  "RETRY_FAILURE_STRATEGIES = map (\<lambda>(code, disposition, category). (code, JStr disposition, JStr category))
    [(''handoff_schema_invalid'', ''same-attempt-repair'', ''contract''),
     (''implementation_plan_invalid'', ''same-attempt-repair'', ''contract''),
     (''implementation_plan_missing'', ''same-attempt-repair'', ''contract''),
     (''product_discovery_bootstrap_assessment_missing'', ''same-attempt-repair'', ''contract''),
     (''product_discovery_bootstrap_assessment_invalid'', ''same-attempt-repair'', ''contract''),
     (''product_acceptance_criteria_missing'', ''same-attempt-repair'', ''contract''),
     (''product_acceptance_process_criterion_leaked'', ''same-attempt-repair'', ''contract''),
     (''product_acceptance_criterion_invalid'', ''same-attempt-repair'', ''contract''),
     (''product_acceptance_proof_stage_missing'', ''same-attempt-repair'', ''contract''),
     (''product_acceptance_proof_stage_invalid'', ''same-attempt-repair'', ''contract''),
     (''product_acceptance_criterion_duplicate'', ''same-attempt-repair'', ''contract''),
     (''review_not_approved'', ''review-dependent'', ''review''),
     (''review_contract_invalid'', ''true-retry-semantic'', ''review''),
     (''product_not_accepted'', ''true-retry-semantic'', ''review''),
     (''product_review_contract_invalid'', ''true-retry-semantic'', ''review''),
     (''completion_evidence_missing'', ''true-retry-semantic'', ''contract''),
     (''completion_contract_conflict'', ''true-retry-semantic'', ''contract''),
     (''completion_semantic_unproven'', ''true-retry-semantic'', ''contract''),
     (''completion_validation_failed'', ''true-retry-semantic'', ''contract''),
     (''context_semantic_dependency_unavailable'', ''true-retry-transient'', ''context-infrastructure''),
     (''executor_stalled'', ''true-retry-transient'', ''liveness''),
     (''executor_soft_timeout'', ''true-retry-transient'', ''liveness''),
     (''executor_timeout'', ''true-retry-transient'', ''liveness''),
     (''executor_service_failed'', ''true-retry-transient'', ''service''),
     (''opencode_state_database_locked'', ''true-retry-transient'', ''tooling-infrastructure''),
     (''executor_exit_nonzero'', ''true-retry-semantic'', ''code''),
     (''provider_unavailable'', ''true-retry-transient'', ''provider''),
     (''provider_rate_limited'', ''true-retry-transient'', ''provider''),
     (''network_error'', ''true-retry-transient'', ''transport''),
     (''worker_unavailable'', ''true-retry-transient'', ''worker''),
     (''handoff_missing'', ''true-retry-semantic'', ''contract''),
     (''handoff_reused_paths_invalid'', ''true-retry-semantic'', ''contract''),
     (''workspace_ownership_violation'', ''true-retry-semantic'', ''contract''),
     (''agent_failed'', ''true-retry-semantic'', ''agent'')]"

text \<open>
  The strategy table is a plain object, so indexing it also finds the properties every object inherits;
  they have no \<open>disposition\<close> of their own.
\<close>

definition OBJECT_PROTOTYPE_KEYS :: "string list" where
  "OBJECT_PROTOTYPE_KEYS = [''constructor'', ''toString'', ''toLocaleString'', ''valueOf'', ''hasOwnProperty'',
     ''isPrototypeOf'', ''propertyIsEnumerable'', ''__proto__'', ''__defineGetter__'', ''__defineSetter__'',
     ''__lookupGetter__'', ''__lookupSetter__'']"

definition strategy_entry :: "string \<Rightarrow> strategy option" where
  "strategy_entry code = (case map_of RETRY_FAILURE_STRATEGIES code of
       Some st \<Rightarrow> Some st
     | None \<Rightarrow> if code \<in> set OBJECT_PROTOTYPE_KEYS then Some (JUndef, JUndef) else None)"

definition TRANSIENT_CATEGORIES :: "string list" where
  "TRANSIENT_CATEGORIES = [''context-infrastructure'', ''infrastructure'', ''tooling-infrastructure'', ''provider'',
     ''transport'', ''liveness'', ''worker'', ''service'']"

definition EXPLICIT_DISPOSITIONS :: "jsval list" where
  "EXPLICIT_DISPOSITIONS = map JStr [''same-attempt-repair'', ''true-retry-transient'', ''true-retry-semantic'', ''terminal'']"

definition strategyForFailure :: "jsval \<Rightarrow> strategy option" where
  "strategyForFailure failure =
     (let code = compact (field failure ''code'') in
      case (if code \<noteq> [] then strategy_entry code else None) of
        Some st \<Rightarrow> Some st
      | None \<Rightarrow>
          if field failure ''explicitRetryDisposition'' \<in> set EXPLICIT_DISPOSITIONS
          then Some (field failure ''explicitRetryDisposition'', coalesce (field failure ''category'') (JStr ''explicit''))
          else if js_string (coalesce (field failure ''category'') (JStr [])) \<in> set TRANSIENT_CATEGORIES
          then Some (JStr ''true-retry-transient'', field failure ''category'')
          else None)"

definition retryDispositionForFailure :: "jsval \<Rightarrow> jsval" where
  "retryDispositionForFailure failure =
     (if field failure ''retryable'' \<noteq> JBool True then JStr ''terminal''
      else case strategyForFailure failure of
        None \<Rightarrow> JStr ''unclassified''
      | Some (disposition, category) \<Rightarrow>
          if field failure ''repairExhausted'' = JBool True
             \<and> disposition \<in> {JStr ''same-attempt-repair'', JStr ''review-dependent''}
          then JStr ''true-retry-repair-exhausted''
          else if disposition = JStr ''review-dependent''
          then (if field failure ''reviewDecision'' = JStr ''changes_requested'' then JStr ''same-attempt-repair''
                else JStr ''true-retry-semantic'')
          else disposition)"

definition repairBudgetForFailure :: "obj \<Rightarrow> jsval \<Rightarrow> int" where
  "repairBudgetForFailure penv failure =
     (let disposition = retryDispositionForFailure
            (JObj (assign (fields_of failure) [(''retryable'', JBool True), (''repairExhausted'', JBool False)]));
          configured = js_number (coalesce (get penv ''AGENT_HARNESS_RUNTIME_SAME_ATTEMPT_REPAIR_PASSES'') (JNum 2)) in
      if disposition \<noteq> JStr ''same-attempt-repair'' then 0
      else max 1 (min 3 (case configured of Some n \<Rightarrow> n | None \<Rightarrow> 2)))"

subsection \<open>Delays\<close>

definition parseProviderRetryAfterMs :: "env \<Rightarrow> jsval \<Rightarrow> int \<Rightarrow> int option" where
  "parseProviderRetryAfterMs e value nowMs =
     (if nullish value \<or> value = JStr [] then None
      else case js_number value of
        Some n \<Rightarrow> Some (max 0 n)
      | None \<Rightarrow> map_option (\<lambda>parsed. max 0 (parsed - nowMs)) (parse_date e (js_string value)))"

fun split_commas :: "string \<Rightarrow> string list" where
  "split_commas [] = [[]]"
| "split_commas (c # cs) =
     (if c = CHR '','' then [] # split_commas cs
      else case split_commas cs of [] \<Rightarrow> [[c]] | w # ws \<Rightarrow> (c # w) # ws)"

definition DEFAULT_CAPS :: "int list" where
  "DEFAULT_CAPS = [5000, 15000, 45000, 120000, 300000]"

definition retry_caps :: "obj \<Rightarrow> int list" where
  "retry_caps penv =
     (let configured = filter (\<lambda>value. 0 \<le> value) (map the (filter (\<lambda>n. n \<noteq> None) (map string_number (split_commas
            (js_string (coalesce (get penv ''AGENT_HARNESS_RUNTIME_RETRY_CAPS_MS'')
              (JStr ''5000,15000,45000,120000,300000''))))))) in
      if configured \<noteq> [] then configured else DEFAULT_CAPS)"

definition cap_for :: "int list \<Rightarrow> int option \<Rightarrow> int \<Rightarrow> int" where
  "cap_for caps attempt defaultDelayMs =
     (case attempt of
        None \<Rightarrow> max 0 defaultDelayMs
      | Some n \<Rightarrow> caps ! nat (max 0 (min (int (length caps) - 1) (n - 1))))"

definition full_jitter :: "rat \<Rightarrow> int \<Rightarrow> int" where
  "full_jitter r upperBoundMs =
     \<lfloor>max 0 (min (999999999999 / 1000000000000) r) * of_int (upperBoundMs + 1)\<rfloor>"

definition provider_delay :: "env \<Rightarrow> jsval \<Rightarrow> int \<Rightarrow> int option" where
  "provider_delay e failure nowMs = parseProviderRetryAfterMs e
     (coalesce (coalesce (field failure ''providerRetryAfterMs'') (field failure ''retryAfterMs'')) (field failure ''retryAfter''))
     nowMs"

definition asked_delay :: "env \<Rightarrow> jsval \<Rightarrow> int \<Rightarrow> int" where
  "asked_delay e failure nowMs = (case provider_delay e failure nowMs of None \<Rightarrow> 0 | Some d \<Rightarrow> d)"

definition retryDelayForFailure :: "env \<Rightarrow> obj \<Rightarrow> jsval \<Rightarrow> int \<Rightarrow> int option \<Rightarrow> rat \<Rightarrow> int \<Rightarrow> int" where
  "retryDelayForFailure e penv failure defaultDelayMs attempt r nowMs =
     (if retryDispositionForFailure failure \<noteq> JStr ''true-retry-transient'' then 0
      else max (full_jitter r (cap_for (retry_caps penv) attempt defaultDelayMs))
             (asked_delay e failure nowMs))"

subsection \<open>Budgets\<close>

record retry_limits =
  maxElapsedMs :: "int option"
  maxCumulativeBackoffMs :: "int option"

definition retryBudgetLimits :: "obj \<Rightarrow> retry_limits" where
  "retryBudgetLimits penv =
     \<lparr>maxElapsedMs = map_option (max 1000) (js_number (coalesce (get penv ''AGENT_HARNESS_RUNTIME_RETRY_MAX_ELAPSED_MS'') (JNum 900000))),
      maxCumulativeBackoffMs = nan_max0 (js_number (coalesce
        (get penv ''AGENT_HARNESS_RUNTIME_RETRY_MAX_CUMULATIVE_BACKOFF_MS'') (JNum 300000)))\<rparr>"

definition payloadOf :: "obj \<Rightarrow> jsval" where
  "payloadOf event =
     (case get event ''payload'' of
        JObj ps \<Rightarrow> JObj ps
      | JArr xs \<Rightarrow> JArr xs
      | _ \<Rightarrow> coalesce (get event ''payload_json'') (JObj []))"

record budget_state =
  bs_elapsedMs :: "int option"
  bs_cumulativeBackoffMs :: "int option"

definition event_for_task :: "jsval \<Rightarrow> obj \<Rightarrow> bool" where
  "event_for_task taskId event \<longleftrightarrow>
     \<not> truthy taskId \<or> coalesce (coalesce (get event ''task_id'') (get event ''taskId'')) JNull = taskId"

definition is_backoff :: "obj \<Rightarrow> bool" where
  "is_backoff event \<longleftrightarrow> coalesce (get event ''event_type'') (get event ''type'') = JStr ''retry.backoff_applied''"

definition backoff_ms :: "obj \<Rightarrow> int option" where
  "backoff_ms event = nan_max0 (js_number (coalesce (field (payloadOf event) ''retryAfterMs'') (JNum 0)))"

text \<open>One round of the loop over the history: the first observation and the back-off spent so far.\<close>

definition budget_event :: "env \<Rightarrow> jsval \<Rightarrow> obj \<Rightarrow> int option \<times> int option \<Rightarrow> int option \<times> int option" where
  "budget_event e taskId event acc =
     (case acc of (firstObservedMs, cumulative) \<Rightarrow>
      if \<not> event_for_task taskId event then acc
      else
        ((case parse_date e (js_string (coalesce (coalesce (get event ''created_at'') (get event ''createdAt'')) (JStr []))) of
            None \<Rightarrow> firstObservedMs
          | Some created \<Rightarrow> Some (case firstObservedMs of None \<Rightarrow> created | Some f \<Rightarrow> min f created)),
         if is_backoff event then nan_op (+) cumulative (backoff_ms event) else cumulative))"

text \<open>\<open>startedAtMs\<close> is the argument after \<open>Number(startedAtMs ?? 0) || null\<close>.\<close>

definition deriveRetryBudgetState :: "env \<Rightarrow> obj list \<Rightarrow> jsval \<Rightarrow> int option \<Rightarrow> int \<Rightarrow> budget_state" where
  "deriveRetryBudgetState e events taskId startedAtMs nowMs =
     (case fold (budget_event e taskId) events (startedAtMs, Some 0) of (firstObservedMs, cumulative) \<Rightarrow>
      \<lparr>bs_elapsedMs = Some (case firstObservedMs of None \<Rightarrow> 0 | Some f \<Rightarrow> max 0 (nowMs - f)),
       bs_cumulativeBackoffMs = cumulative\<rparr>)"

record retry_budget =
  rb_allowed :: bool
  rb_elapsedMs :: "int option"
  rb_cumulativeBackoffMs :: "int option"
  rb_retryAfterMs :: "int option"
  rb_remainingElapsedMs :: "int option"
  rb_remainingBackoffMs :: "int option"

definition evaluateRetryBudget :: "budget_state \<Rightarrow> int option \<Rightarrow> retry_limits \<Rightarrow> retry_budget" where
  "evaluateRetryBudget state retryAfterMs limits =
     (let elapsedMs = nan_max0 (bs_elapsedMs state);
          cumulative = nan_max0 (bs_cumulativeBackoffMs state);
          nextDelay = nan_max0 retryAfterMs;
          remainingElapsedMs = nan_max0 (nan_op (-) (maxElapsedMs limits) elapsedMs);
          remainingBackoffMs = nan_max0 (nan_op (-) (maxCumulativeBackoffMs limits) cumulative);
          elapsedBudgetOpen = nan_less elapsedMs (maxElapsedMs limits);
          backoffBudgetOpen = nan_le cumulative (maxCumulativeBackoffMs limits) in
      \<lparr>rb_allowed = elapsedBudgetOpen \<and> backoffBudgetOpen \<and> nan_le nextDelay remainingElapsedMs
         \<and> nan_le nextDelay remainingBackoffMs,
       rb_elapsedMs = elapsedMs, rb_cumulativeBackoffMs = cumulative, rb_retryAfterMs = nextDelay,
       rb_remainingElapsedMs = remainingElapsedMs, rb_remainingBackoffMs = remainingBackoffMs\<rparr>)"

definition repairEffectKey :: "env \<Rightarrow> jsval list \<Rightarrow> string" where
  "repairEffectKey e parts = ''sha256:'' @ sha256 e (join ''|'' (map (\<lambda>v. js_string (coalesce v (JStr []))) parts))"

record retry_details =
  rd_disposition :: jsval
  rd_retryAfterMs :: int
  rd_repairBudget :: int
  rd_backoffApplied :: bool
  rd_sameAttemptRepairPreferred :: bool
  rd_classificationKnown :: bool
  rd_providerRetryAfterMs :: "int option"
  rd_retryBudget :: retry_budget

definition retryEfficiencyDetails ::
  "env \<Rightarrow> obj \<Rightarrow> jsval \<Rightarrow> int \<Rightarrow> int option \<Rightarrow> rat \<Rightarrow> int \<Rightarrow> budget_state \<Rightarrow> retry_limits \<Rightarrow> retry_details" where
  "retryEfficiencyDetails e penv failure defaultDelayMs attempt r nowMs state limits =
     (let disposition = retryDispositionForFailure failure;
          retryAfterMs = retryDelayForFailure e penv failure defaultDelayMs attempt r nowMs in
      \<lparr>rd_disposition = disposition, rd_retryAfterMs = retryAfterMs,
       rd_repairBudget = repairBudgetForFailure penv failure, rd_backoffApplied = retryAfterMs > 0,
       rd_sameAttemptRepairPreferred = disposition = JStr ''same-attempt-repair'',
       rd_classificationKnown = disposition \<noteq> JStr ''unclassified'',
       rd_providerRetryAfterMs = provider_delay e failure nowMs,
       rd_retryBudget = evaluateRetryBudget state (Some retryAfterMs) limits\<rparr>)"

subsection \<open>Delays stay below the cap\<close>

lemma full_jitter_bounds:
  assumes "0 \<le> u"
  shows "0 \<le> full_jitter r u" and "full_jitter r u \<le> u"
proof -
  let ?x = "max 0 (min (999999999999 / 1000000000000) r)"
  have x: "0 \<le> ?x" "?x < 1" by auto
  with assms show "0 \<le> full_jitter r u" by (simp add: full_jitter_def)
  have "?x * of_int (u + 1) < 1 * of_int (u + 1)"
    using x assms by (intro mult_strict_right_mono) auto
  then have "\<lfloor>?x * of_int (u + 1)\<rfloor> < u + 1"
    by (simp only: floor_less_iff mult_1)
  then show "full_jitter r u \<le> u" by (simp add: full_jitter_def)
qed

lemma retry_caps_nonempty: "retry_caps penv \<noteq> []"
  by (simp add: retry_caps_def Let_def DEFAULT_CAPS_def)

lemma retry_caps_nonneg: "c \<in> set (retry_caps penv) \<Longrightarrow> 0 \<le> c"
  by (auto simp: retry_caps_def Let_def DEFAULT_CAPS_def split: if_splits)

lemma cap_for_nonneg: "0 \<le> cap_for (retry_caps penv) attempt d"
proof (cases attempt)
  case (Some n)
  have "0 < length (retry_caps penv)" using retry_caps_nonempty[of penv] by simp
  then have "nat (max 0 (min (int (length (retry_caps penv)) - 1) (n - 1))) < length (retry_caps penv)" by linarith
  then have "0 \<le> retry_caps penv ! nat (max 0 (min (int (length (retry_caps penv)) - 1) (n - 1)))"
    using retry_caps_nonneg nth_mem by blast
  then show ?thesis using Some by (simp add: cap_for_def)
qed (simp add: cap_for_def)

lemma provider_delay_nonneg: "provider_delay e failure nowMs = Some d \<Longrightarrow> 0 \<le> d"
  by (auto simp: provider_delay_def parseProviderRetryAfterMs_def split: if_splits option.splits)

lemma retry_delay_nonneg: "0 \<le> retryDelayForFailure e penv failure d attempt r nowMs"
  using full_jitter_bounds(1)[OF cap_for_nonneg] by (simp add: retryDelayForFailure_def max.coboundedI1)

text \<open>C38: delays are bounded. Only a transient failure is delayed; its delay is never below what the provider asked for
  and never above the larger of that and the cap configured for the attempt, whatever the random number.\<close>

theorem retry_delay_bounds:
  "if retryDispositionForFailure failure = JStr ''true-retry-transient''
   then 0 \<le> retryDelayForFailure e penv failure d attempt r now
      \<and> asked_delay e failure now \<le> retryDelayForFailure e penv failure d attempt r now
      \<and> retryDelayForFailure e penv failure d attempt r now \<le> max (cap_for (retry_caps penv) attempt d) (asked_delay e failure now)
   else retryDelayForFailure e penv failure d attempt r now = 0"
  using full_jitter_bounds[OF cap_for_nonneg, of r penv attempt d] retry_delay_nonneg[of e penv failure d attempt r now]
  by (auto simp: retryDelayForFailure_def asked_delay_def max_def)

subsection \<open>The back-off budget over a task's history\<close>

lemma fold_cumulative_snoc:
  "snd (fold (budget_event e taskId) (evs @ [ev]) acc) =
     (if event_for_task taskId ev \<and> is_backoff ev
      then nan_op (+) (snd (fold (budget_event e taskId) evs acc)) (backoff_ms ev)
      else snd (fold (budget_event e taskId) evs acc))"
  by (simp add: budget_event_def split: prod.splits)

lemma derive_cumulative:
  "bs_cumulativeBackoffMs (deriveRetryBudgetState e evs taskId st now) = snd (fold (budget_event e taskId) evs (st, Some 0))"
  by (simp add: deriveRetryBudgetState_def split: prod.splits)

lemma fold_cumulative_start:
  "snd (fold (budget_event e taskId) evs (st, c)) = snd (fold (budget_event e taskId) evs (st', c))"
proof (induction evs arbitrary: st st' c)
  case (Cons ev evs)
  obtain a b where 1: "budget_event e taskId ev (st, c) = (a, b)" by (cases "budget_event e taskId ev (st, c)")
  obtain a' b' where 2: "budget_event e taskId ev (st', c) = (a', b')" by (cases "budget_event e taskId ev (st', c)")
  from 1 2 have "b = b'" by (auto simp: budget_event_def split: if_splits)
  with 1 2 Cons.IH[of a b a'] show ?case by simp
qed simp

text \<open>
  The histories a task can have: any events may be added, except that a back-off of the task is only added
  after \<open>evaluateRetryBudget\<close> has granted it on the state derived from the history so far, at whatever time and
  start of the task the controller read.
\<close>

inductive retry_history :: "env \<Rightarrow> retry_limits \<Rightarrow> jsval \<Rightarrow> obj list \<Rightarrow> bool"
  for e :: env and limits :: retry_limits and taskId :: jsval
where
  history_empty: "retry_history e limits taskId []"
| history_other: "retry_history e limits taskId evs \<Longrightarrow> \<not> (event_for_task taskId ev \<and> is_backoff ev)
    \<Longrightarrow> retry_history e limits taskId (evs @ [ev])"
| history_backoff: "retry_history e limits taskId evs
    \<Longrightarrow> rb_allowed (evaluateRetryBudget (deriveRetryBudgetState e evs taskId st now) (backoff_ms ev) limits)
    \<Longrightarrow> retry_history e limits taskId (evs @ [ev])"

definition backoff_limit :: "retry_limits \<Rightarrow> int" where
  "backoff_limit limits = (case maxCumulativeBackoffMs limits of None \<Rightarrow> 0 | Some m \<Rightarrow> max 0 m)"

lemma budget_allowed_sum:
  assumes "rb_allowed (evaluateRetryBudget state d limits)" and "bs_cumulativeBackoffMs state = Some c" and "0 \<le> c"
  shows "\<exists>ms. nan_max0 d = Some ms \<and> 0 \<le> ms \<and> c + ms \<le> backoff_limit limits"
proof -
  from assms(1) obtain ms where ms: "nan_max0 d = Some ms"
    by (cases "nan_max0 d") (auto simp: evaluateRetryBudget_def Let_def)
  then have "0 \<le> ms" by (auto simp: nan_max0_def)
  moreover from assms ms obtain m where "maxCumulativeBackoffMs limits = Some m"
    by (cases "maxCumulativeBackoffMs limits") (auto simp: evaluateRetryBudget_def Let_def)
  ultimately show ?thesis
    using assms ms by (auto simp: evaluateRetryBudget_def Let_def backoff_limit_def)
qed

lemma nan_max0_backoff [simp]: "nan_max0 (backoff_ms ev) = backoff_ms ev"
  by (cases "js_number (coalesce (field (payloadOf ev) ''retryAfterMs'') (JNum 0))") (simp_all add: backoff_ms_def)

text \<open>C25: the back-off budget is never overspent. In every history in which the back-offs of a task were granted by
  \<open>evaluateRetryBudget\<close>, the back-off that \<open>deriveRetryBudgetState\<close> reads back is a number between 0 and the limit, however
  many controllers took part and whatever time they read.\<close>

theorem backoff_budget_kept:
  assumes "retry_history e limits taskId evs"
  shows "\<exists>c. bs_cumulativeBackoffMs (deriveRetryBudgetState e evs taskId st now) = Some c
    \<and> 0 \<le> c \<and> c \<le> backoff_limit limits"
  using assms
proof (induction arbitrary: st now)
  case history_empty
  show ?case by (simp add: derive_cumulative backoff_limit_def split: option.splits)
next
  case (history_other evs ev)
  have same: "bs_cumulativeBackoffMs (deriveRetryBudgetState e (evs @ [ev]) taskId st now)
      = bs_cumulativeBackoffMs (deriveRetryBudgetState e evs taskId st now)"
    using history_other.hyps(2) by (simp only: derive_cumulative fold_cumulative_snoc if_False)
  show ?case unfolding same by (rule history_other.IH)
next
  case (history_backoff evs st0 now0 ev)
  from history_backoff.IH[of st0 now0] obtain c where c: "bs_cumulativeBackoffMs (deriveRetryBudgetState e evs taskId st0 now0) = Some c"
    "0 \<le> c" "c \<le> backoff_limit limits" by blast
  with history_backoff.hyps(2) obtain ms where ms: "backoff_ms ev = Some ms" "0 \<le> ms" "c + ms \<le> backoff_limit limits"
    by (auto dest: budget_allowed_sum)
  have "snd (fold (budget_event e taskId) evs (st, Some 0)) = Some c"
    using c(1) fold_cumulative_start[of e taskId evs st "Some 0" st0] by (simp add: derive_cumulative)
  then have "bs_cumulativeBackoffMs (deriveRetryBudgetState e (evs @ [ev]) taskId st now)
      = (if event_for_task taskId ev \<and> is_backoff ev then Some (c + ms) else Some c)"
    using ms(1) by (simp only: derive_cumulative fold_cumulative_snoc nan_simps)
  with c ms show ?case by auto
qed

definition sample_backoff :: "obj" where
  "sample_backoff = [(''task_id'', JStr ''t''), (''event_type'', JStr ''retry.backoff_applied''), (''created_at'', JStr ''5''),
     (''payload'', JObj [(''retryAfterMs'', JNum 200000)])]"

theorem backoff_budget_kept_witness:
  "\<exists>c. bs_cumulativeBackoffMs (deriveRetryBudgetState sample_env [sample_backoff] (JStr ''t'') None 7) = Some c
    \<and> 0 \<le> c \<and> c \<le> backoff_limit (retryBudgetLimits [])"
proof -
  have "backoff_ms sample_backoff = Some 200000"
    by (simp add: sample_backoff_def backoff_ms_def payloadOf_def)
  then have "rb_allowed (evaluateRetryBudget (deriveRetryBudgetState sample_env [] (JStr ''t'') None 6)
      (backoff_ms sample_backoff) (retryBudgetLimits []))"
    by (simp add: evaluateRetryBudget_def Let_def deriveRetryBudgetState_def retryBudgetLimits_def)
  from history_backoff[OF history_empty this] have "retry_history sample_env (retryBudgetLimits []) (JStr ''t'') [sample_backoff]"
    by simp
  then show ?thesis by (rule backoff_budget_kept)
qed

end
