(* ===== verification/Kahn.thy ===== *)
theory Kahn
  imports JsPrelude
begin

text \<open>
  The worklist both topology checks of the runtime run over the review stages: stages without an open
  predecessor are taken from a queue, and every successor whose count of open predecessors drops to zero is
  queued. \<open>policy-engine.mjs\<close> sorts its queue after every round, \<open>bootstrap-review-dependencies.mjs\<close>
  does not. The locale \<open>stage_graph\<close> is what the loop relies on of the maps its callers build; both callers
  interpret it and take their correctness from it.
\<close>

type_synonym degrees = "(string \<times> int) list"

definition degree :: "degrees \<Rightarrow> string \<Rightarrow> int" where
  "degree d s = (case map_of d s of None \<Rightarrow> 0 | Some n \<Rightarrow> n)"

definition targets_of :: "(string \<times> string list) list \<Rightarrow> string \<Rightarrow> string list" where
  "targets_of outgoing s = (case map_of outgoing s of None \<Rightarrow> [] | Some ts \<Rightarrow> ts)"

datatype discipline = Fifo | Sorted

fun arrange :: "discipline \<Rightarrow> string list \<Rightarrow> string list" where
  "arrange Fifo q = q"
| "arrange Sorted q = sort q"

fun relax :: "string list \<Rightarrow> string list \<times> degrees \<Rightarrow> string list \<times> degrees" where
  "relax [] st = st"
| "relax (target # ts) (q, d) =
     (let next = degree d target - 1 in
      relax ts (if next = 0 then q @ [target] else q, AList.update target next d))"

definition open_count :: "degrees \<Rightarrow> nat" where
  "open_count d = length (filter (\<lambda>(k, n). n > 0) d)"

lemma open_count_update:
  "open_count (AList.update t (degree d t - 1) d) + (if degree d t - 1 = 0 then 1 else 0) \<le> open_count d"
  by (induction d) (auto simp: open_count_def degree_def split: if_splits option.splits)

lemma relax_measure: "open_count (snd (relax ts (q, d))) + length (fst (relax ts (q, d))) \<le> open_count d + length q"
proof (induction ts arbitrary: q d)
  case (Cons t ts)
  let ?next = "degree d t - 1"
  show ?case
    using Cons.IH[of "if ?next = 0 then q @ [t] else q" "AList.update t ?next d"] open_count_update[of t d]
    by (auto simp: Let_def split: if_splits)
qed simp

lemma length_arrange [simp]: "length (arrange a q) = length q"
  by (cases a) simp_all

lemma set_arrange [simp]: "set (arrange a q) = set q"
  by (cases a) simp_all

lemma distinct_arrange [simp]: "distinct (arrange a q) = distinct q"
  by (cases a) simp_all

function kahn_loop :: "discipline \<Rightarrow> (string \<Rightarrow> string list) \<Rightarrow> string list \<Rightarrow> degrees \<Rightarrow> nat \<Rightarrow> nat \<times> degrees" where
  "kahn_loop a out [] d visited = (visited, d)"
| "kahn_loop a out (s # q) d visited =
     kahn_loop a out (arrange a (fst (relax (out s) (q, d)))) (snd (relax (out s) (q, d))) (Suc visited)"
  by pat_completeness auto
termination
proof (relation "measure (\<lambda>(a, out, q, d, visited). open_count d + length q)", simp)
  fix a out s q d visited
  show "((a, out, arrange a (fst (relax (out s) (q, d))), snd (relax (out s) (q, d)), Suc visited), a, out, s # q, d, visited)
      \<in> measure (\<lambda>(a, out, q, d, visited). open_count d + length q)"
    using relax_measure[of "out s" q d] by simp
qed

subsection \<open>One round\<close>

lemma degree_update [simp]: "degree (AList.update t n d) s = (if s = t then n else degree d s)"
  by (simp add: degree_def)

lemma relax_degree: "degree (snd (relax ts (q, d))) s = degree d s - int (count_list ts s)"
  by (induction ts arbitrary: q d) (auto simp: Let_def)

text \<open>A stage is queued in a round exactly when its degree falls from a positive number to zero.\<close>

lemma relax_queue:
  assumes "\<And>s. int (count_list ts s) \<le> degree d s"
  shows "set (fst (relax ts (q, d))) = set q \<union> {s. s \<in> set ts \<and> degree d s = int (count_list ts s)}"
    and "distinct q \<Longrightarrow> (\<And>s. s \<in> set q \<Longrightarrow> degree d s = 0) \<Longrightarrow> distinct (fst (relax ts (q, d)))"
proof -
  have "set (fst (relax ts (q, d))) = set q \<union> {s. s \<in> set ts \<and> degree d s = int (count_list ts s)}
      \<and> (distinct q \<longrightarrow> (\<forall>s \<in> set q. degree d s = 0) \<longrightarrow> distinct (fst (relax ts (q, d))))"
    using assms
  proof (induction ts arbitrary: q d)
    case (Cons t ts)
    let ?d = "AList.update t (degree d t - 1) d" and ?q = "if degree d t - 1 = 0 then q @ [t] else q"
    have le: "int (count_list ts s) \<le> degree ?d s" for s
      using Cons.prems[of s] by (auto split: if_splits)
    from Cons.IH[OF le, of ?q]
    have q: "set (fst (relax ts (?q, ?d))) = set ?q \<union> {s. s \<in> set ts \<and> degree ?d s = int (count_list ts s)}"
      and dist: "distinct ?q \<longrightarrow> (\<forall>s \<in> set ?q. degree ?d s = 0) \<longrightarrow> distinct (fst (relax ts (?q, ?d)))" by auto
    have pos: "degree d t \<ge> 1 + int (count_list ts t)" using Cons.prems[of t] by simp
    have "set (fst (relax (t # ts) (q, d))) = set q \<union> {s. s \<in> set (t # ts) \<and> degree d s = int (count_list (t # ts) s)}"
    proof (rule set_eqI)
      fix s
      have run: "s \<in> set (fst (relax (t # ts) (q, d))) \<longleftrightarrow> s \<in> set ?q \<or> s \<in> set ts \<and> degree ?d s = int (count_list ts s)"
        using q by (simp only: relax.simps Let_def Un_iff mem_Collect_eq)
      show "s \<in> set (fst (relax (t # ts) (q, d))) \<longleftrightarrow>
          s \<in> set q \<union> {s. s \<in> set (t # ts) \<and> degree d s = int (count_list (t # ts) s)}"
      proof (cases "s = t")
        case True
        have "s \<in> set ?q \<longleftrightarrow> s \<in> set q \<or> degree d t = 1" using True by simp
        moreover have "0 < count_list ts t \<Longrightarrow> t \<in> set ts" using count_list_0_iff[of ts t] by auto
        moreover have "degree d t = 1 \<Longrightarrow> count_list ts t = 0" using pos by linarith
        ultimately show ?thesis using True unfolding run by auto
      next
        case False
        then show ?thesis unfolding run by simp
      qed
    qed
    moreover have "distinct (fst (relax (t # ts) (q, d)))" if "distinct q" "\<forall>s \<in> set q. degree d s = 0"
    proof -
      from that pos have "t \<notin> set q" by force
      with that have "distinct ?q" "\<forall>s \<in> set ?q. degree ?d s = 0" by auto
      with dist show ?thesis by (simp add: Let_def)
    qed
    ultimately show ?case by simp
  qed simp
  then show "set (fst (relax ts (q, d))) = set q \<union> {s. s \<in> set ts \<and> degree d s = int (count_list ts s)}"
    and "distinct q \<Longrightarrow> (\<And>s. s \<in> set q \<Longrightarrow> degree d s = 0) \<Longrightarrow> distinct (fst (relax ts (q, d)))" by auto
qed

subsection \<open>The graph the loop walks\<close>

locale stage_graph =
  fixes nodes :: "string list"
    and arcs :: "(string \<times> string) list"
    and out :: "string \<Rightarrow> string list"
    and deg0 :: degrees
  assumes distinct_nodes: "distinct nodes"
    and arcs_nodes: "(u, v) \<in> set arcs \<Longrightarrow> u \<in> set nodes \<and> v \<in> set nodes"
    and out_arcs: "out u = map snd (filter (\<lambda>arc. fst arc = u) arcs)"
    and deg0_arcs: "degree deg0 v = int (length (filter (\<lambda>arc. snd arc = v) arcs))"
begin

definition start :: "string list" where
  "start = filter (\<lambda>s. degree deg0 s = 0) nodes"

definition open_arcs :: "string set \<Rightarrow> string \<Rightarrow> int" where
  "open_arcs P v = int (length (filter (\<lambda>arc. snd arc = v \<and> fst arc \<notin> P) arcs))"

text \<open>\<open>P\<close> is the set of stages taken from the queue so far.\<close>

definition loop_inv :: "string set \<Rightarrow> string list \<Rightarrow> degrees \<Rightarrow> bool" where
  "loop_inv P q d \<longleftrightarrow>
     P \<subseteq> set nodes \<and> distinct q \<and> set q \<inter> P = {} \<and> (\<forall>v. degree d v = open_arcs P v)
     \<and> set q \<union> P = {v \<in> set nodes. open_arcs P v = 0}
     \<and> (\<forall>v \<in> P. (v, v) \<notin> (set arcs)\<^sup>+)"

lemma open_arcs_zero: "open_arcs P v = 0 \<longleftrightarrow> (\<forall>u. (u, v) \<in> set arcs \<longrightarrow> u \<in> P)"
  by (auto simp: open_arcs_def filter_empty_conv)

lemma open_arcs_insert:
  assumes "s \<notin> P"
  shows "open_arcs (insert s P) v = open_arcs P v - int (count_list (out s) v)"
proof -
  have "length (filter (\<lambda>arc. snd arc = v \<and> fst arc \<notin> P) as)
      = length (filter (\<lambda>arc. snd arc = v \<and> fst arc \<notin> insert s P) as)
        + count_list (map snd (filter (\<lambda>arc. fst arc = s) as)) v" for as :: "(string \<times> string) list"
    using assms by (induction as) auto
  then show ?thesis by (simp add: open_arcs_def out_arcs)
qed

lemma closed_star:
  assumes "loop_inv P q d" and "v \<in> P" and "(u, v) \<in> (set arcs)\<^sup>*"
  shows "u \<in> P"
  using assms(3,2)
proof (induction rule: converse_rtrancl_induct)
  case (step y z)
  then have "open_arcs P z = 0" using assms(1) unfolding loop_inv_def by blast
  with step show ?case by (auto simp: open_arcs_zero)
qed

lemma loop_step:
  assumes inv: "loop_inv P (s # q) d"
  shows "loop_inv (insert s P) (arrange a (fst (relax (out s) (q, d)))) (snd (relax (out s) (q, d)))"
proof -
  let ?q = "fst (relax (out s) (q, d))" and ?d = "snd (relax (out s) (q, d))"
  from inv have s: "s \<notin> P" "s \<in> set nodes" "open_arcs P s = 0" "s \<notin> set q" and deg: "\<And>v. degree d v = open_arcs P v"
    and q0: "set (s # q) \<union> P = {v \<in> set nodes. open_arcs P v = 0}" and P: "P \<subseteq> set nodes" "distinct q"
    unfolding loop_inv_def by auto
  have deg': "degree ?d v = open_arcs (insert s P) v" for v
    by (simp add: relax_degree deg open_arcs_insert[OF s(1)])
  have nonneg: "0 \<le> open_arcs (insert s P) v" for v by (simp add: open_arcs_def)
  have le: "int (count_list (out s) v) \<le> degree d v" for v
    using open_arcs_insert[OF s(1), of v] nonneg[of v] by (simp add: deg)
  have qs: "set ?q = set q \<union> {v. v \<in> set (out s) \<and> open_arcs P v = int (count_list (out s) v)}"
    using relax_queue(1)[OF le, of q] by (simp add: deg)
  have dist: "distinct ?q"
    by (rule relax_queue(2)[OF le P(2)]) (use q0 in \<open>auto simp: deg\<close>)
  have out_nodes: "v \<in> set (out s) \<Longrightarrow> v \<in> set nodes" for v
    using arcs_nodes by (auto simp: out_arcs)
  have not_loop: "(s, s) \<notin> (set arcs)\<^sup>+"
  proof
    assume "(s, s) \<in> (set arcs)\<^sup>+"
    then obtain u where "(s, u) \<in> (set arcs)\<^sup>*" "(u, s) \<in> set arcs" by (meson tranclD2)
    with s(3) closed_star[OF inv] show False using s(1) by (auto simp: open_arcs_zero)
  qed
  have fresh: "v \<notin> P" "v \<noteq> s" if "v \<in> set (out s)" for v
  proof -
    from that have arc: "(s, v) \<in> set arcs" by (auto simp: out_arcs)
    show "v \<notin> P"
    proof
      assume "v \<in> P"
      then have "open_arcs P v = 0" using q0 by auto
      with arc s(1) show False by (auto simp: open_arcs_zero)
    qed
    from arc not_loop show "v \<noteq> s" by auto
  qed
  have zero: "open_arcs (insert s P) v = 0 \<longleftrightarrow> open_arcs P v = 0 \<or> v \<in> set (out s) \<and> open_arcs P v = int (count_list (out s) v)" for v
    using open_arcs_insert[OF s(1), of v] le[of v] by (auto simp: deg count_list_0_iff)
  have "set ?q \<union> insert s P = {v \<in> set nodes. open_arcs (insert s P) v = 0}"
    using q0 out_nodes unfolding qs zero by auto
  moreover have "set ?q \<inter> insert s P = {}"
    using inv s fresh unfolding qs loop_inv_def by auto
  ultimately show ?thesis
    using P(1) s(2) dist deg' not_loop inv unfolding loop_inv_def by auto
qed

lemma loop_start: "loop_inv {} (arrange a start) deg0"
proof -
  have "open_arcs {} v = degree deg0 v" for v by (simp add: open_arcs_def deg0_arcs)
  then show ?thesis using distinct_nodes by (auto simp: loop_inv_def start_def)
qed

lemma loop_end:
  assumes "loop_inv P q d"
  shows "\<exists>P'. loop_inv P' [] (snd (kahn_loop a out q d (card P))) \<and> fst (kahn_loop a out q d (card P)) = card P'"
  using assms
proof (induction "open_count d + length q" arbitrary: P q d rule: less_induct)
  case less
  show ?case
  proof (cases q)
    case Nil
    with less.prems show ?thesis by auto
  next
    case (Cons s q')
    let ?q = "arrange a (fst (relax (out s) (q', d)))" and ?d = "snd (relax (out s) (q', d))"
    from less.prems Cons have inv: "loop_inv (insert s P) ?q ?d" by (blast intro: loop_step)
    have "s \<notin> P" "finite P" using less.prems Cons unfolding loop_inv_def by (auto intro: finite_subset)
    then have card: "card (insert s P) = Suc (card P)" by simp
    have "open_count ?d + length ?q < open_count d + length q"
      using relax_measure[of "out s" q' d] Cons by simp
    from less.hyps[OF this inv] show ?thesis using Cons card by simp
  qed
qed

text \<open>
  The loop visits every stage exactly when the graph has no cycle. Otherwise some stages keep a positive degree, and
  every stage on a cycle is among them.
\<close>

lemma kahn_correct:
  assumes "kahn_loop a out (arrange a start) deg0 0 = (visited, d)"
  shows "visited = length nodes \<longleftrightarrow> acyclic (set arcs)"
    and "filter (\<lambda>s. degree d s > 0) nodes = [] \<longleftrightarrow> acyclic (set arcs)"
    and "(v, v) \<in> (set arcs)\<^sup>+ \<Longrightarrow> v \<in> set (filter (\<lambda>s. degree d s > 0) nodes)"
proof -
  from loop_end[OF loop_start[of a], of a] assms obtain P where inv: "loop_inv P [] d" and visited: "visited = card P"
    by auto
  then have P: "P \<subseteq> set nodes" "P = {v \<in> set nodes. open_arcs P v = 0}" "\<And>v. degree d v = open_arcs P v"
    "\<And>v. v \<in> P \<Longrightarrow> (v, v) \<notin> (set arcs)\<^sup>+"
    unfolding loop_inv_def by auto
  have pos: "0 < degree d v \<longleftrightarrow> v \<notin> P" if "v \<in> set nodes" for v
    using P(2) that unfolding P(3) by (auto simp: open_arcs_def)
  have cyc_nodes: "v \<in> set nodes" if "(v, v) \<in> (set arcs)\<^sup>+" for v
    using that arcs_nodes by (meson tranclD)
  show cyc: "v \<in> set (filter (\<lambda>s. degree d s > 0) nodes)" if "(v, v) \<in> (set arcs)\<^sup>+" for v
    using that P(4)[of v] pos[OF cyc_nodes[OF that]] cyc_nodes[OF that] by auto
  have all: "P = set nodes \<longleftrightarrow> acyclic (set arcs)"
  proof
    assume "P = set nodes"
    with P(4) cyc_nodes show "acyclic (set arcs)" by (auto simp: acyclic_def)
  next
    assume "acyclic (set arcs)"
    then have wf: "wf (set arcs)" by (simp add: finite_acyclic_wf)
    show "P = set nodes"
    proof (rule ccontr)
      assume "P \<noteq> set nodes"
      with P(1) obtain x where "x \<in> set nodes - P" by auto
      with wf obtain z where z: "z \<in> set nodes - P" "\<And>y. (y, z) \<in> set arcs \<Longrightarrow> y \<notin> set nodes - P"
        by (rule wfE_min) blast
      then have "open_arcs P z = 0" using arcs_nodes by (auto simp: open_arcs_zero)
      with z(1) P(2) show False by auto
    qed
  qed
  have "card P = card (set nodes) \<longleftrightarrow> P = set nodes"
    using card_subset_eq[OF finite_set P(1)] by auto
  with visited all show "visited = length nodes \<longleftrightarrow> acyclic (set arcs)"
    by (simp add: distinct_card[OF distinct_nodes])
  have "filter (\<lambda>s. degree d s > 0) nodes = [] \<longleftrightarrow> P = set nodes"
    using pos P(1) by (auto simp: filter_empty_conv)
  with all show "filter (\<lambda>s. degree d s > 0) nodes = [] \<longleftrightarrow> acyclic (set arcs)" by simp
qed

end

end
