(* ===== verification/Policy.thy ===== *)
theory Policy
  imports RetryEfficiency Kahn Contracts
begin

text \<open>
  The runtime policy engine (\<open>policy-engine.mjs\<close>). A policy document is normalised once; every operation the
  runtime wants to perform (plan, dispatch, retry, compile, promotion, reuse) is then evaluated against its rules and
  answered with a receipt that is allowed or denied with a code. A receipt is an object; \<open>pe_document\<close> and
  \<open>pe_fingerprint\<close> are the fields of the engine that evaluation reads.
\<close>

definition RUNTIME_POLICY_CONTRACT_VERSION :: string where
  "RUNTIME_POLICY_CONTRACT_VERSION = ''runtime-policy/v1''"

definition RUNTIME_POLICY_DECISION_CONTRACT_VERSION :: string where
  "RUNTIME_POLICY_DECISION_CONTRACT_VERSION = ''runtime-policy-decision/v1''"

definition DEFAULT_RUNTIME_POLICY_DOCUMENT :: jsval where
  "DEFAULT_RUNTIME_POLICY_DOCUMENT = JObj
    [(''schemaVersion'', JNum 1), (''contractVersion'', JStr RUNTIME_POLICY_CONTRACT_VERSION),
     (''defaultEffect'', JStr ''deny''),
     (''rules'', JObj
       [(''plan'', JObj [(''requiredPhase'', JStr ''bootstrap''), (''unresolvedFactPolicy'', JStr ''provider-edge''),
           (''selfDependencyPolicy'', JStr ''deny''), (''cyclePolicy'', JStr ''deny'')]),
        (''dispatch'', JObj [(''terminalRunStatuses'', JArr (map JStr [''closed'', ''failed'', ''blocked'', ''cancelled''])),
           (''dispatchableTaskStatuses'', JArr (map JStr [''routed'', ''retrying''])),
           (''requireSatisfiedDependencies'', JBool True), (''requireOpenRetryWindow'', JBool True),
           (''requireRefinedBootstrapTopology'', JBool True)]),
        (''retry'', JObj [(''requireRetryableFailure'', JBool True), (''respectAttemptBudget'', JBool True),
           (''defaultDelayMs'', JNum 30000)]),
        (''compile'', JObj [(''requiredSourcePhase'', JStr ''bootstrap''), (''requireAcceptedTechnicalLead'', JBool True),
           (''requireZeroPreflightIssues'', JBool True)]),
        (''promotion'', JObj [(''requireQa'', JBool True), (''requireReadinessWhenPresent'', JBool True),
           (''requireProductAcceptance'', JBool True), (''maxBlockingFailures'', JNum 0)]),
        (''reuse'', JObj [(''scopeFields'', JArr (map JStr [''projectId'', ''branch'', ''stage'', ''role'', ''schemaVersion''])),
           (''requireRevisionEquality'', JBool True), (''requireFingerprintEquality'', JBool True)])])]"

subsection \<open>Validation of the document\<close>

definition REQUIRED_POLICY_RULES :: "string list" where
  "REQUIRED_POLICY_RULES = [''plan'', ''dispatch'', ''retry'', ''compile'', ''promotion'', ''reuse'']"

definition policyRule :: "bool \<Rightarrow> string \<Rightarrow> unit res" where
  "policyRule ok path = ensure ok (''runtime_policy_rule_invalid:'' @ path)"

definition is_object :: "jsval \<Rightarrow> bool" where
  "is_object v \<longleftrightarrow> (case v of JObj _ \<Rightarrow> True | _ \<Rightarrow> False)"

definition is_bool :: "jsval \<Rightarrow> bool" where
  "is_bool v \<longleftrightarrow> (case v of JBool _ \<Rightarrow> True | _ \<Rightarrow> False)"

definition policy_string :: "jsval \<Rightarrow> bool" where
  "policy_string v \<longleftrightarrow> (case v of JStr s \<Rightarrow> trim s \<noteq> [] | _ \<Rightarrow> False)"

definition policy_strings :: "jsval \<Rightarrow> bool" where
  "policy_strings v \<longleftrightarrow> (case v of JArr xs \<Rightarrow> xs \<noteq> [] \<and> list_all policy_string xs \<and> distinct xs | _ \<Rightarrow> False)"

definition policy_number :: "jsval \<Rightarrow> bool" where
  "policy_number v \<longleftrightarrow> (case js_number v of Some n \<Rightarrow> 0 \<le> n | None \<Rightarrow> False)"

definition requirePolicyString :: "jsval \<Rightarrow> string \<Rightarrow> string list \<Rightarrow> unit res" where
  "requirePolicyString v path allowed = policyRule (policy_string v \<and> v \<in> set (map JStr allowed)) path"

text \<open>The rule checks of \<open>normalizeDocument\<close>, in its order.\<close>

definition rule_checks :: "jsval \<Rightarrow> unit res list" where
  "rule_checks rules =
     (let r = (\<lambda>rule name. field (field rules rule) name) in
      [requirePolicyString (r ''plan'' ''requiredPhase'') ''plan.requiredPhase'' [''bootstrap''],
       requirePolicyString (r ''plan'' ''unresolvedFactPolicy'') ''plan.unresolvedFactPolicy'' [''provider-edge''],
       requirePolicyString (r ''plan'' ''selfDependencyPolicy'') ''plan.selfDependencyPolicy'' [''deny''],
       requirePolicyString (r ''plan'' ''cyclePolicy'') ''plan.cyclePolicy'' [''deny''],
       policyRule (policy_strings (r ''dispatch'' ''terminalRunStatuses'')) ''dispatch.terminalRunStatuses'',
       policyRule (policy_strings (r ''dispatch'' ''dispatchableTaskStatuses'')) ''dispatch.dispatchableTaskStatuses'',
       policyRule (is_bool (r ''dispatch'' ''requireSatisfiedDependencies'')) ''dispatch.requireSatisfiedDependencies'',
       policyRule (is_bool (r ''dispatch'' ''requireOpenRetryWindow'')) ''dispatch.requireOpenRetryWindow'',
       policyRule (is_bool (r ''dispatch'' ''requireRefinedBootstrapTopology'')) ''dispatch.requireRefinedBootstrapTopology'',
       policyRule (is_bool (r ''retry'' ''requireRetryableFailure'')) ''retry.requireRetryableFailure'',
       policyRule (is_bool (r ''retry'' ''respectAttemptBudget'')) ''retry.respectAttemptBudget'',
       policyRule (policy_number (r ''retry'' ''defaultDelayMs'')) ''retry.defaultDelayMs'',
       requirePolicyString (r ''compile'' ''requiredSourcePhase'') ''compile.requiredSourcePhase'' [''bootstrap''],
       policyRule (is_bool (r ''compile'' ''requireAcceptedTechnicalLead'')) ''compile.requireAcceptedTechnicalLead'',
       policyRule (is_bool (r ''compile'' ''requireZeroPreflightIssues'')) ''compile.requireZeroPreflightIssues'',
       policyRule (is_bool (r ''promotion'' ''requireQa'')) ''promotion.requireQa'',
       policyRule (is_bool (r ''promotion'' ''requireReadinessWhenPresent'')) ''promotion.requireReadinessWhenPresent'',
       policyRule (is_bool (r ''promotion'' ''requireProductAcceptance'')) ''promotion.requireProductAcceptance'',
       policyRule (policy_number (r ''promotion'' ''maxBlockingFailures'')) ''promotion.maxBlockingFailures'',
       policyRule (policy_strings (r ''reuse'' ''scopeFields'')) ''reuse.scopeFields'',
       policyRule (is_bool (r ''reuse'' ''requireRevisionEquality'')) ''reuse.requireRevisionEquality'',
       policyRule (is_bool (r ''reuse'' ''requireFingerprintEquality'')) ''reuse.requireFingerprintEquality''])"

definition run_checks :: "unit res list \<Rightarrow> unit res" where
  "run_checks checks = foldr (\<lambda>c rest. bindR c (\<lambda>_. rest)) checks (Inr ())"

definition require_rule :: "jsval \<Rightarrow> string \<Rightarrow> unit res" where
  "require_rule rules ruleName =
     bindR (ensure (case rules of JObj ps \<Rightarrow> has_own ps ruleName | _ \<Rightarrow> False) (''runtime_policy_rules_missing:'' @ ruleName))
       (\<lambda>_. policyRule (is_object (field rules ruleName)) ruleName)"

definition normalizeDocument :: "jsval \<Rightarrow> jsval res" where
  "normalizeDocument document =
     (if \<not> truthy document \<or> field document ''schemaVersion'' \<noteq> JNum 1
         \<or> field document ''contractVersion'' \<noteq> JStr RUNTIME_POLICY_CONTRACT_VERSION
      then Inl ''runtime_policy_document_invalid''
      else if field document ''defaultEffect'' \<noteq> JStr ''deny'' then Inl ''runtime_policy_default_must_deny''
      else
        let normalized = clone document; rules = field normalized ''rules'' in
        bindR (policyRule (is_object rules) ''rules'') (\<lambda>_.
        bindR (run_checks (map (require_rule rules) REQUIRED_POLICY_RULES)) (\<lambda>_.
        bindR (run_checks (rule_checks rules)) (\<lambda>_. Inr normalized))))"

record engine =
  pe_document :: jsval
  pe_fingerprint :: string

definition RuntimePolicyEngine :: "env \<Rightarrow> jsval \<Rightarrow> engine res" where
  "RuntimePolicyEngine e document =
     bindR (normalizeDocument document) (\<lambda>normalized.
     Inr \<lparr>pe_document = normalized, pe_fingerprint = stableFingerprint e normalized\<rparr>)"

definition rule_of :: "engine \<Rightarrow> string \<Rightarrow> string \<Rightarrow> jsval" where
  "rule_of engine rule name = field (field (field (pe_document engine) ''rules'') rule) name"

subsection \<open>Decisions\<close>

definition receipt :: "env \<Rightarrow> engine \<Rightarrow> string \<Rightarrow> jsval \<Rightarrow> bool \<Rightarrow> string \<Rightarrow> string \<Rightarrow> obj \<Rightarrow> obj" where
  "receipt e engine action input allowed code ruleId details =
     [(''schemaVersion'', JNum 1), (''contractVersion'', JStr RUNTIME_POLICY_DECISION_CONTRACT_VERSION),
      (''policyContractVersion'', field (pe_document engine) ''contractVersion''),
      (''policyFingerprint'', JStr (pe_fingerprint engine)), (''action'', JStr action),
      (''subjectFingerprint'', JStr (stableFingerprint e input)), (''allowed'', JBool allowed),
      (''effect'', JStr (if allowed then ''allow'' else ''deny'')), (''code'', JStr code), (''ruleId'', JStr ruleId),
      (''details'', clone (JObj details))]"

definition decision :: "env \<Rightarrow> engine \<Rightarrow> string \<Rightarrow> jsval \<Rightarrow> bool \<Rightarrow> string \<Rightarrow> string \<Rightarrow> obj \<Rightarrow> obj" where
  "decision e engine action input allowed code ruleId details =
     (let r = receipt e engine action input allowed code ruleId details; fp = stableFingerprint e (JObj r) in
      r @ [(''decisionId'', JStr fp), (''decisionFingerprint'', JStr fp)]
        @ (if nullish (get details ''retryAfterMs'') then [] else [(''retryAfterMs'', get details ''retryAfterMs'')]))"

definition allow :: "env \<Rightarrow> engine \<Rightarrow> string \<Rightarrow> jsval \<Rightarrow> string \<Rightarrow> obj \<Rightarrow> obj" where
  "allow e engine action input ruleId details = decision e engine action input True ''policy_allowed'' ruleId details"

definition deny :: "env \<Rightarrow> engine \<Rightarrow> string \<Rightarrow> jsval \<Rightarrow> string \<Rightarrow> string \<Rightarrow> obj \<Rightarrow> obj" where
  "deny e engine action input code ruleId details = decision e engine action input False code ruleId details"

definition is_allowed :: "obj \<Rightarrow> bool" where
  "is_allowed d \<longleftrightarrow> get d ''allowed'' = JBool True"

definition assertPolicyAllowed :: "obj \<Rightarrow> string \<Rightarrow> obj res" where
  "assertPolicyAllowed d prefix =
     (if is_allowed d then Inr d
      else Inl (prefix @ '':'' @ js_string (coalesce (get d ''code'') (JStr ''unknown''))))"

lemma decision_allowed [simp]:
  "is_allowed (allow e engine action input ruleId details)" "\<not> is_allowed (deny e engine action input code ruleId details)"
  by (simp_all add: is_allowed_def allow_def deny_def decision_def receipt_def Let_def)

subsection \<open>Cycles in the review topology\<close>

definition review_arcs :: "jsval list \<Rightarrow> (string \<times> string) list" where
  "review_arcs edges =
     filter (\<lambda>(u, v). u \<noteq> [] \<and> v \<noteq> []) (map (\<lambda>edge. (compact (field edge ''fromStage''), compact (field edge ''toStage''))) edges)"

fun add_review_arc :: "string \<times> string \<Rightarrow> (string \<times> string list) list \<times> degrees \<Rightarrow> (string \<times> string list) list \<times> degrees" where
  "add_review_arc (u, v) (outgoing, indegree) =
     (AList.update u (targets_of outgoing u @ [v]) outgoing,
      (let indegree' = AList.update u (degree indegree u) indegree in AList.update v (degree indegree' v + 1) indegree'))"

definition review_stage_set :: "(string \<times> string) list \<Rightarrow> string list" where
  "review_stage_set arcs = uniq (concat (map (\<lambda>(u, v). [u, v]) arcs))"

definition cyclicReviewStages :: "jsval list \<Rightarrow> string list" where
  "cyclicReviewStages edges =
     (let arcs = review_arcs edges; stages = review_stage_set arcs;
          (outgoing, indegree) = fold add_review_arc arcs ([], []);
          (visited, final) = kahn_loop Sorted (targets_of outgoing) (sort (filter (\<lambda>s. degree indegree s = 0) stages)) indegree 0 in
      if visited = length stages then [] else sort (filter (\<lambda>s. degree final s > 0) stages))"

subsection \<open>The six evaluations\<close>

text \<open>A destructuring default applies to an undefined property only.\<close>

definition default_to :: "jsval \<Rightarrow> jsval \<Rightarrow> jsval" where
  "default_to v d = (if v = JUndef then d else v)"

definition unresolved_binding :: "jsval \<Rightarrow> bool" where
  "unresolved_binding b \<longleftrightarrow> field b ''status'' = JStr ''unresolved''
     \<or> field b ''status'' = JStr ''unresolved-review-input'' \<and> \<not> truthy (field b ''providerCapabilityId'')"

definition unmaterialized_binding :: "jsval \<Rightarrow> bool" where
  "unmaterialized_binding b \<longleftrightarrow> \<not> truthy (field b ''consumerTaskId'')
     \<or> field b ''status'' = JStr ''unresolved-review-input'' \<and> \<not> truthy (field b ''providerTaskId'')"

definition unmaterialized_edge :: "jsval \<Rightarrow> bool" where
  "unmaterialized_edge edge \<longleftrightarrow> \<not> truthy (field edge ''fromTaskId'') \<or> \<not> truthy (field edge ''toTaskId'')"

definition self_edge :: "jsval \<Rightarrow> bool" where
  "self_edge edge \<longleftrightarrow> field edge ''fromStage'' = field edge ''toStage''"

definition evaluatePlan :: "env \<Rightarrow> engine \<Rightarrow> jsval \<Rightarrow> obj" where
  "evaluatePlan e engine input =
     (let phase = field input ''phase'';
          bindings = elements (default_to (field input ''bootstrapFactBindings'') (JArr []));
          edges = elements (default_to (field input ''bootstrapReviewDependencies'') (JArr []));
          topologyState = default_to (field input ''topologyState'') (JStr ''refined'');
          cyclicStages = cyclicReviewStages edges;
          no = deny e engine ''plan'' input in
      if phase \<noteq> rule_of engine ''plan'' ''requiredPhase''
      then no ''policy_plan_phase_invalid'' ''plan.phase'' [(''phase'', phase)]
      else if topologyState \<notin> {JStr ''provisional'', JStr ''refined''}
      then no ''policy_plan_topology_state_invalid'' ''plan.topology-state'' [(''topologyState'', topologyState)]
      else if list_ex self_edge edges
      then no ''policy_plan_self_dependency'' ''plan.review-topology'' [(''selfEdges'', JArr (filter self_edge edges))]
      else if cyclicStages \<noteq> []
      then no ''policy_plan_cycle'' ''plan.review-topology'' [(''cyclicStages'', JArr (map JStr cyclicStages))]
      else if list_ex unresolved_binding bindings
      then no ''policy_plan_unresolved_facts'' ''plan.fact-resolution''
             [(''unresolvedFacts'', JArr (map (\<lambda>b. field b ''factId'') (filter unresolved_binding bindings)))]
      else if topologyState = JStr ''refined'' \<and> list_ex unmaterialized_binding bindings
      then no ''policy_plan_unmaterialized_facts'' ''plan.fact-materialization''
             [(''unmaterializedFacts'', JArr (map (\<lambda>b. field b ''factId'') (filter unmaterialized_binding bindings)))]
      else if topologyState = JStr ''refined'' \<and> list_ex unmaterialized_edge edges
      then no ''policy_plan_unmaterialized_edges'' ''plan.review-materialization''
             [(''unmaterializedEdges'', JArr (filter unmaterialized_edge edges))]
      else allow e engine ''plan'' input ''plan.bootstrap-authorized''
             [(''topologyState'', topologyState), (''factBindings'', JNum (int (length bindings))),
              (''reviewEdges'', JNum (int (length edges)))])"

definition evaluateDispatch :: "env \<Rightarrow> engine \<Rightarrow> jsval \<Rightarrow> obj" where
  "evaluateDispatch e engine input =
     (let runStatus = field input ''runStatus''; taskStatus = field input ''taskStatus'';
          rule = rule_of engine ''dispatch''; no = deny e engine ''dispatch'' input in
      if JStr (js_string runStatus) \<in> set (elements (rule ''terminalRunStatuses''))
      then no ''policy_dispatch_run_terminal'' ''dispatch.run-terminal'' [(''runStatus'', runStatus)]
      else if JStr (js_string taskStatus) \<notin> set (elements (rule ''dispatchableTaskStatuses''))
      then no ''policy_dispatch_task_status'' ''dispatch.task-status'' [(''taskStatus'', taskStatus)]
      else if truthy (rule ''requireSatisfiedDependencies'') \<and> field input ''dependenciesSatisfied'' \<noteq> JBool True
      then no ''policy_dispatch_dependencies_unsatisfied'' ''dispatch.dependencies'' []
      else if truthy (rule ''requireOpenRetryWindow'') \<and> default_to (field input ''retryWindowOpen'') (JBool True) \<noteq> JBool True
      then no ''policy_dispatch_retry_window_closed'' ''dispatch.retry-window'' []
      else if truthy (rule ''requireRefinedBootstrapTopology'') \<and> default_to (field input ''topologyReady'') (JBool True) \<noteq> JBool True
      then no ''policy_dispatch_topology_not_refined'' ''dispatch.bootstrap-topology'' []
      else allow e engine ''dispatch'' input ''dispatch.ready'' [])"

definition evaluateCompile :: "env \<Rightarrow> engine \<Rightarrow> jsval \<Rightarrow> obj" where
  "evaluateCompile e engine input =
     (let phase = field input ''phase''; issues = elements (default_to (field input ''validationIssues'') (JArr []));
          rule = rule_of engine ''compile''; no = deny e engine ''compile'' input in
      if phase \<noteq> rule ''requiredSourcePhase''
      then no ''policy_compile_phase_invalid'' ''compile.source-phase'' [(''phase'', phase)]
      else if truthy (rule ''requireAcceptedTechnicalLead'') \<and> field input ''technicalLeadAccepted'' \<noteq> JBool True
      then no ''policy_compile_technical_lead_not_accepted'' ''compile.technical-lead-authority'' []
      else if truthy (rule ''requireZeroPreflightIssues'') \<and> issues \<noteq> []
      then no ''policy_compile_preflight_rejected'' ''compile.preflight'' [(''validationIssues'', JArr issues)]
      else allow e engine ''compile'' input ''compile.authorized'' [])"

definition evaluatePromotion :: "env \<Rightarrow> engine \<Rightarrow> jsval \<Rightarrow> obj" where
  "evaluatePromotion e engine input =
     (let rule = rule_of engine ''promotion''; no = deny e engine ''promotion'' input;
          readinessRequired = truthy (default_to (field input ''readinessRequired'') (JBool True));
          blockingFailures = js_number (default_to (field input ''blockingFailures'') (JNum 0)) in
      if truthy (rule ''requireQa'') \<and> field input ''qaAccepted'' \<noteq> JBool True
      then no ''policy_promotion_qa_unproven'' ''promotion.qa'' []
      else if readinessRequired \<and> truthy (rule ''requireReadinessWhenPresent'') \<and> field input ''readinessAccepted'' \<noteq> JBool True
      then no ''policy_promotion_readiness_unproven'' ''promotion.readiness'' []
      else if truthy (rule ''requireProductAcceptance'') \<and> field input ''productAcceptanceAccepted'' \<noteq> JBool True
      then no ''policy_promotion_product_acceptance_unproven'' ''promotion.product-acceptance'' []
      else if nan_less (js_number (coalesce (rule ''maxBlockingFailures'') (JNum 0))) blockingFailures
      then no ''policy_promotion_blocking_failures'' ''promotion.blocking-failures''
             [(''blockingFailures'', case blockingFailures of Some n \<Rightarrow> JNum n | None \<Rightarrow> JNull)]
      else allow e engine ''promotion'' input ''promotion.authorized'' [(''readinessRequired'', JBool readinessRequired)])"

definition same_text :: "jsval \<Rightarrow> jsval \<Rightarrow> string \<Rightarrow> bool" where
  "same_text expected candidate k \<longleftrightarrow>
     js_string (coalesce (field expected k) (JStr [])) = js_string (coalesce (field candidate k) (JStr []))"

definition same_number :: "jsval \<Rightarrow> jsval \<Rightarrow> bool" where
  "same_number a b \<longleftrightarrow> js_number a \<noteq> None \<and> js_number a = js_number b"

definition evaluateReuse :: "env \<Rightarrow> engine \<Rightarrow> jsval \<Rightarrow> obj" where
  "evaluateReuse e engine input =
     (let expected = field input ''expected''; candidate = field input ''candidate'';
          rule = rule_of engine ''reuse''; no = deny e engine ''reuse'' input in
      if \<not> truthy expected \<or> \<not> truthy candidate then no ''policy_reuse_evidence_missing'' ''reuse.evidence'' []
      else case find (\<lambda>k. \<not> same_text expected candidate (js_string k)) (elements (rule ''scopeFields'')) of
        Some k \<Rightarrow> no ''policy_reuse_scope_mismatch'' ''reuse.scope'' [(''field'', k)]
      | None \<Rightarrow>
          if truthy (rule ''requireRevisionEquality'') \<and> \<not> same_number (field expected ''revision'') (field candidate ''revision'')
          then no ''policy_reuse_revision_mismatch'' ''reuse.revision'' []
          else if truthy (rule ''requireFingerprintEquality'') \<and> \<not> same_text expected candidate ''fingerprint''
          then no ''policy_reuse_fingerprint_mismatch'' ''reuse.fingerprint'' []
          else allow e engine ''reuse'' input ''reuse.authorized'' [])"

text \<open>
  \<open>state\<close> is \<open>retryBudgetState\<close> as a record of numbers (all zero when it is null), \<open>r\<close> the random number
  and \<open>nowMs\<close> the clock reading of the delay computation. In the receipt \<open>NaN\<close> becomes null.
\<close>

definition number_json :: "int option \<Rightarrow> jsval" where
  "number_json x = (case x of Some n \<Rightarrow> JNum n | None \<Rightarrow> JNull)"

definition budget_json :: "retry_budget \<Rightarrow> retry_limits \<Rightarrow> obj" where
  "budget_json b limits =
     [(''allowed'', JBool (rb_allowed b)), (''elapsedMs'', number_json (rb_elapsedMs b)),
      (''cumulativeBackoffMs'', number_json (rb_cumulativeBackoffMs b)), (''retryAfterMs'', number_json (rb_retryAfterMs b)),
      (''remainingElapsedMs'', number_json (rb_remainingElapsedMs b)),
      (''remainingBackoffMs'', number_json (rb_remainingBackoffMs b)), (''maxElapsedMs'', number_json (maxElapsedMs limits)),
      (''maxCumulativeBackoffMs'', number_json (maxCumulativeBackoffMs limits))]"

definition details_json :: "retry_details \<Rightarrow> retry_limits \<Rightarrow> obj" where
  "details_json d limits =
     [(''disposition'', rd_disposition d), (''retryAfterMs'', JNum (rd_retryAfterMs d)), (''repairBudget'', JNum (rd_repairBudget d)),
      (''backoffApplied'', JBool (rd_backoffApplied d)), (''sameAttemptRepairPreferred'', JBool (rd_sameAttemptRepairPreferred d)),
      (''classificationKnown'', JBool (rd_classificationKnown d)),
      (''providerRetryAfterMs'', number_json (rd_providerRetryAfterMs d)), (''retryBudget'', JObj (budget_json (rd_retryBudget d) limits))]"

definition retry_efficiency :: "env \<Rightarrow> obj \<Rightarrow> engine \<Rightarrow> jsval \<Rightarrow> budget_state \<Rightarrow> rat \<Rightarrow> int \<Rightarrow> retry_details" where
  "retry_efficiency e penv engine input state r nowMs =
     retryEfficiencyDetails e penv (field input ''failure'')
       (case js_number (coalesce (rule_of engine ''retry'' ''defaultDelayMs'') (JNum 30000)) of Some n \<Rightarrow> n | None \<Rightarrow> 0)
       (js_number (coalesce (field input ''attempt'') (JNum 1))) r nowMs state (retryBudgetLimits penv)"

definition evaluateRetry :: "env \<Rightarrow> obj \<Rightarrow> engine \<Rightarrow> jsval \<Rightarrow> budget_state \<Rightarrow> rat \<Rightarrow> int \<Rightarrow> obj" where
  "evaluateRetry e penv engine input state r nowMs =
     (let failure = field input ''failure''; attempt = js_number (field input ''attempt'');
          maxAttempts = js_number (field input ''maxAttempts''); limits = retryBudgetLimits penv;
          efficiency = retry_efficiency e penv engine input state r nowMs;
          rule = rule_of engine ''retry''; no = deny e engine ''retry'' input in
      if truthy (rule ''requireRetryableFailure'') \<and> field failure ''retryable'' \<noteq> JBool True
      then no ''policy_retry_failure_non_retryable'' ''retry.retryability''
             [(''failureCode'', coalesce (field failure ''code'') JNull)]
      else if truthy (rule ''respectAttemptBudget'') \<and> nan_le maxAttempts attempt
      then no ''policy_retry_budget_exhausted'' ''retry.attempt-budget''
             [(''attempt'', number_json attempt), (''maxAttempts'', number_json maxAttempts)]
      else if \<not> rd_classificationKnown efficiency
      then no ''policy_retry_classification_required'' ''retry.failure-strategy-registry''
             [(''failureCode'', coalesce (field failure ''code'') JNull), (''category'', coalesce (field failure ''category'') JNull)]
      else if rd_sameAttemptRepairPreferred efficiency \<and> field failure ''repairExhausted'' \<noteq> JBool True
      then no ''policy_retry_same_attempt_repair_required'' ''retry.same-attempt-repair'' (details_json efficiency limits)
      else if \<not> rb_allowed (rd_retryBudget efficiency)
      then no ''policy_retry_elapsed_budget_exhausted'' ''retry.elapsed-budget''
             (assign [(''retryDisposition'', rd_disposition efficiency), (''retryAfterMs'', JNum (rd_retryAfterMs efficiency))]
                (budget_json (rd_retryBudget efficiency) limits))
      else allow e engine ''retry'' input ''retry.allowed''
             [(''retryAfterMs'', JNum (rd_retryAfterMs efficiency)), (''retryDisposition'', rd_disposition efficiency),
              (''backoffApplied'', JBool (rd_backoffApplied efficiency)), (''repairBudget'', JNum (rd_repairBudget efficiency)),
              (''providerRetryAfterMs'', number_json (rd_providerRetryAfterMs efficiency)),
              (''retryBudget'', JObj (budget_json (rd_retryBudget efficiency) limits))])"

subsection \<open>A normalised document is well typed\<close>

text \<open>What the evaluations read of a document: every rule they name, with the type they use it at.\<close>

definition policy_document :: "jsval \<Rightarrow> bool" where
  "policy_document d \<longleftrightarrow>
     (let r = (\<lambda>rule name. field (field (field d ''rules'') rule) name) in
      field d ''contractVersion'' = JStr RUNTIME_POLICY_CONTRACT_VERSION \<and> field d ''defaultEffect'' = JStr ''deny''
      \<and> r ''plan'' ''requiredPhase'' = JStr ''bootstrap'' \<and> r ''plan'' ''cyclePolicy'' = JStr ''deny''
      \<and> policy_strings (r ''dispatch'' ''terminalRunStatuses'') \<and> policy_strings (r ''dispatch'' ''dispatchableTaskStatuses'')
      \<and> list_all is_bool (map (r ''dispatch'') [''requireSatisfiedDependencies'', ''requireOpenRetryWindow'', ''requireRefinedBootstrapTopology''])
      \<and> list_all is_bool (map (r ''retry'') [''requireRetryableFailure'', ''respectAttemptBudget''])
      \<and> policy_number (r ''retry'' ''defaultDelayMs'') \<and> r ''compile'' ''requiredSourcePhase'' = JStr ''bootstrap''
      \<and> list_all is_bool (map (r ''compile'') [''requireAcceptedTechnicalLead'', ''requireZeroPreflightIssues''])
      \<and> list_all is_bool (map (r ''promotion'') [''requireQa'', ''requireReadinessWhenPresent'', ''requireProductAcceptance''])
      \<and> policy_number (r ''promotion'' ''maxBlockingFailures'') \<and> policy_strings (r ''reuse'' ''scopeFields'')
      \<and> list_all is_bool (map (r ''reuse'') [''requireRevisionEquality'', ''requireFingerprintEquality'']))"

lemma run_checks_Inr: "run_checks checks = Inr () \<longleftrightarrow> list_all (\<lambda>c. c = Inr ()) checks"
proof (induction checks)
  case (Cons c checks)
  then show ?case by (cases c) (simp_all add: run_checks_def)
qed (simp add: run_checks_def)

lemma policyRule_Inr [simp]: "policyRule ok path = Inr () \<longleftrightarrow> ok"
  by (simp add: policyRule_def)

lemma requirePolicyString_Inr [simp]:
  "requirePolicyString v path allowed = Inr () \<longleftrightarrow> policy_string v \<and> v \<in> set (map JStr allowed)"
  by (simp add: requirePolicyString_def)

lemma get_clone_simple:
  "get ps k = JStr s \<Longrightarrow> get (map (\<lambda>(k, v). (k, clone v)) (filter (\<lambda>(k, v). v \<noteq> JUndef) ps)) k = JStr s"
  by (induction ps) (auto split: if_splits)

lemma field_clone_simple: "field v k = JStr s \<Longrightarrow> field (clone v) k = JStr s"
  by (cases v) (simp_all add: get_clone_simple)

lemma policy_document_clone:
  assumes "field document ''contractVersion'' = JStr RUNTIME_POLICY_CONTRACT_VERSION"
    and "field document ''defaultEffect'' = JStr ''deny''"
    and checks: "run_checks (rule_checks (field (clone document) ''rules'')) = Inr ()"
  shows "policy_document (clone document)"
proof -
  have "field (clone document) ''contractVersion'' = JStr RUNTIME_POLICY_CONTRACT_VERSION"
    "field (clone document) ''defaultEffect'' = JStr ''deny''"
    using assms(1,2) by (auto intro: field_clone_simple)
  with checks show ?thesis
    unfolding policy_document_def Let_def run_checks_Inr rule_checks_def by simp
qed

lemma engine_typed: "RuntimePolicyEngine e document = Inr engine \<Longrightarrow> policy_document (pe_document engine)"
  by (auto simp: RuntimePolicyEngine_def bindR_Inr normalizeDocument_def Let_def split: if_splits
      intro!: policy_document_clone)


definition default_engine :: "env \<Rightarrow> engine" where
  "default_engine e = \<lparr>pe_document = clone DEFAULT_RUNTIME_POLICY_DOCUMENT,
     pe_fingerprint = stableFingerprint e (clone DEFAULT_RUNTIME_POLICY_DOCUMENT)\<rparr>"

lemma default_document_normal: "normalizeDocument DEFAULT_RUNTIME_POLICY_DOCUMENT = Inr (clone DEFAULT_RUNTIME_POLICY_DOCUMENT)"
  by code_simp

lemma default_engine_ok: "RuntimePolicyEngine e DEFAULT_RUNTIME_POLICY_DOCUMENT = Inr (default_engine e)"
  by (simp add: RuntimePolicyEngine_def default_document_normal default_engine_def)


end
