(* ===== verification/CompletionGate.thy ===== *)
theory CompletionGate
  imports JsText
begin

text \<open>
  The completion gate (\<open>completion-gate.mjs\<close>): whether the handoff an agent returns proves its task
  complete. The gate collects violations of the criteria, of the required validation commands and of the
  review; a handoff that claims completion with a violation is refused and classified. A task brief and a
  handoff are objects that have passed their schemas, so their lists hold objects (criteria, results,
  validation entries) or strings (commands, risks, follow-ups).
\<close>

record completion_failure =
  cf_code :: string
  cf_category :: string
  cf_retryable :: bool
  cf_repairExhausted :: bool
  cf_failureClass :: string

record completion =
  co_accepted :: bool
  co_code :: string
  co_failure :: "completion_failure option"
  co_violations :: "string list"

subsection \<open>Criteria\<close>

definition requiredCriteria :: "obj \<Rightarrow> jsval list" where
  "requiredCriteria taskBrief =
     filter (\<lambda>criterion. field criterion ''blocking'' \<noteq> JBool False) (elements (get taskBrief ''acceptanceCriteria''))"

text \<open>\<open>String(v ?? "").trim()\<close> is not empty.\<close>

definition has_evidence :: "jsval \<Rightarrow> bool" where
  "has_evidence entry \<longleftrightarrow> compact (field entry ''evidence'') \<noteq> []"

text \<open>\<open>entries.map((entry) => entry.result).join(",")\<close>\<close>

definition results_text :: "jsval list \<Rightarrow> string" where
  "results_text entries = js_string (JArr (map (\<lambda>entry. field entry ''result'') entries))"

definition criterion_violations :: "jsval list \<Rightarrow> jsval \<Rightarrow> string list" where
  "criterion_violations results criterion =
     (let matches = filter (\<lambda>item. field item ''criterionId'' = field criterion ''id'') results;
          cid = js_string (field criterion ''id'') in
      case matches of
        [] \<Rightarrow> [''criterion_missing:'' @ cid]
      | [result] \<Rightarrow>
          if field result ''result'' \<noteq> JStr ''passed''
          then [''criterion_not_passed:'' @ cid @ '':'' @ js_string (field result ''result'')]
          else if \<not> has_evidence result then [''criterion_evidence_missing:'' @ cid] else []
      | _ \<Rightarrow> [''criterion_result_duplicate:'' @ cid @ '':'' @ results_text matches])"

definition requiredCriterionViolations :: "obj \<Rightarrow> obj \<Rightarrow> string list" where
  "requiredCriterionViolations taskBrief handoff =
     concat (map (criterion_violations (elements (get handoff ''criterionResults''))) (requiredCriteria taskBrief))"

subsection \<open>Validation commands\<close>

definition final_blocking :: "jsval \<Rightarrow> bool" where
  "final_blocking entry \<longleftrightarrow> field entry ''phase'' = JStr ''final'' \<and> field entry ''blocking'' \<noteq> JBool False"

definition is_runtime :: "jsval \<Rightarrow> bool" where
  "is_runtime entry \<longleftrightarrow> field entry ''authority'' = JStr ''runtime''"

text \<open>
  In the last case the receipt is the only entry of \<open>allEntries\<close> with runtime authority, so the entries
  that are not the receipt object are those without runtime authority.
\<close>

definition command_violations :: "jsval list \<Rightarrow> jsval \<Rightarrow> string list" where
  "command_violations validations command =
     (let allEntries = filter (\<lambda>entry. field entry ''command'' = command \<and> final_blocking entry) validations;
          runtime = filter is_runtime allEntries in
      case runtime of
        [] \<Rightarrow> [''required_validation_missing_runtime_receipt:'' @ js_string command]
      | [receipt] \<Rightarrow>
          (let contradictory = filter (\<lambda>entry. \<not> is_runtime entry
                 \<and> field entry ''result'' \<in> {JStr ''failed'', JStr ''blocked''}) allEntries in
           (if field receipt ''result'' \<noteq> JStr ''passed'' \<or> \<not> has_evidence receipt
            then [''required_validation_not_passed:'' @ js_string command] else [])
           @ (if contradictory \<noteq> []
              then [''validation_result_conflict:'' @ js_string command @ '':'' @ results_text (receipt # contradictory)]
              else []))
      | _ \<Rightarrow> [''validation_result_conflict:'' @ js_string command @ '':'' @ results_text runtime])"

definition unrequired_violations :: "jsval list \<Rightarrow> jsval \<Rightarrow> string list" where
  "unrequired_violations requiredCommands validation =
     (if \<not> final_blocking validation \<or> field validation ''result'' = JStr ''passed'' then []
      else if field validation ''command'' \<notin> set requiredCommands
      then [''final_validation_'' @ js_string (field validation ''result'') @ '':'' @ js_string (field validation ''command'')]
      else [])"

definition requiredValidationViolations :: "obj \<Rightarrow> obj \<Rightarrow> string list" where
  "requiredValidationViolations taskBrief handoff =
     (let validations = elements (get handoff ''validation'');
          requiredCommands = uniq (elements (get taskBrief ''validation'')) in
      concat (map (command_violations validations) requiredCommands)
      @ concat (map (unrequired_violations requiredCommands) validations))"

subsection \<open>Classification and the gate\<close>

definition some_prefix :: "string list \<Rightarrow> string list \<Rightarrow> bool" where
  "some_prefix values prefixes \<longleftrightarrow> list_ex (\<lambda>v. list_ex (starts_with v) prefixes) values"

definition completion_failure_of :: "string \<Rightarrow> string \<Rightarrow> completion_failure" where
  "completion_failure_of code failureClass =
     \<lparr>cf_code = code, cf_category = ''contract'', cf_retryable = True, cf_repairExhausted = True,
      cf_failureClass = failureClass\<rparr>"

definition classifyCompletionFailure :: "string list \<Rightarrow> completion_failure" where
  "classifyCompletionFailure values =
     (if some_prefix values [''required_validation_not_passed:'', ''final_validation_failed:'', ''final_validation_blocked:'']
      then completion_failure_of ''completion_validation_failed'' ''validation-failure''
      else if some_prefix values [''validation_result_conflict:'', ''criterion_result_duplicate:'']
      then completion_failure_of ''completion_contract_conflict'' ''conflicting-evidence''
      else if some_prefix values [''criterion_missing:'', ''criterion_evidence_missing:'',
             ''required_validation_missing_runtime_receipt:'']
      then completion_failure_of ''completion_evidence_missing'' ''missing-evidence''
      else completion_failure_of ''completion_semantic_unproven'' ''semantic-unproven'')"

definition review_violations :: "obj \<Rightarrow> string list" where
  "review_violations handoff =
     (let review = get handoff ''sddReview'' in
      (if field review ''decision'' = JStr ''changes_requested'' then [''sdd_changes_requested''] else [])
      @ (if field review ''decision'' = JStr ''blocked'' then [''sdd_blocked''] else [])
      @ (if elements (field review ''requiredDeltas'') \<noteq> [] then [''sdd_required_deltas_open''] else [])
      @ (if list_ex (\<lambda>risk. starts_with_ci (js_string risk) ''blocking:'') (elements (get handoff ''residualRisks''))
         then [''blocking_residual_risk''] else [])
      @ (if list_ex (\<lambda>item. starts_with_ci (js_string item) ''required:'') (elements (get handoff ''followUps''))
         then [''required_follow_up_open''] else []))"

definition completion_violations :: "obj \<Rightarrow> obj \<Rightarrow> string list" where
  "completion_violations taskBrief handoff =
     requiredCriterionViolations taskBrief handoff @ requiredValidationViolations taskBrief handoff
     @ review_violations handoff"

definition evaluateCompletion :: "obj \<Rightarrow> obj \<Rightarrow> completion" where
  "evaluateCompletion taskBrief handoff =
     (let violations = completion_violations taskBrief handoff; complete = get handoff ''status'' = JStr ''complete'' in
      if complete \<and> violations \<noteq> [] then
        let failure = classifyCompletionFailure violations in
        \<lparr>co_accepted = False, co_code = cf_code failure, co_failure = Some failure, co_violations = violations\<rparr>
      else
        \<lparr>co_accepted = complete,
         co_code = (if complete then ''complete_proven'' else ''handoff_'' @ js_string (get handoff ''status'')),
         co_failure = None, co_violations = violations\<rparr>)"

subsection \<open>What acceptance means\<close>

text \<open>The declarative reading of the gate.\<close>

definition criterion_proven :: "jsval list \<Rightarrow> jsval \<Rightarrow> bool" where
  "criterion_proven results criterion \<longleftrightarrow>
     (\<exists>result. filter (\<lambda>item. field item ''criterionId'' = field criterion ''id'') results = [result]
        \<and> field result ''result'' = JStr ''passed'' \<and> has_evidence result)"

definition command_proven :: "jsval list \<Rightarrow> jsval \<Rightarrow> bool" where
  "command_proven validations command \<longleftrightarrow>
     (\<exists>receipt. filter (\<lambda>entry. field entry ''command'' = command \<and> final_blocking entry \<and> is_runtime entry) validations = [receipt]
        \<and> field receipt ''result'' = JStr ''passed'' \<and> has_evidence receipt)
     \<and> (\<forall>entry \<in> set validations. field entry ''command'' = command \<and> final_blocking entry \<and> \<not> is_runtime entry
          \<longrightarrow> field entry ''result'' \<noteq> JStr ''failed'' \<and> field entry ''result'' \<noteq> JStr ''blocked'')"

lemma criterion_violations_Nil: "criterion_violations results criterion = [] \<longleftrightarrow> criterion_proven results criterion"
  unfolding criterion_violations_def criterion_proven_def Let_def
  by (auto split: list.splits)

lemma command_violations_Nil: "command_violations validations command = [] \<longleftrightarrow> command_proven validations command"
proof -
  let ?all = "filter (\<lambda>entry. field entry ''command'' = command \<and> final_blocking entry) validations"
  have run: "filter is_runtime ?all
      = filter (\<lambda>entry. field entry ''command'' = command \<and> final_blocking entry \<and> is_runtime entry) validations"
    by (simp add: conj_commute conj_left_commute)
  show ?thesis
    unfolding command_violations_def command_proven_def Let_def run[symmetric]
    by (auto split: list.splits simp: filter_empty_conv)
qed

lemma unrequired_violations_Nil:
  "unrequired_violations commands v = [] \<longleftrightarrow>
     (final_blocking v \<and> field v ''command'' \<notin> set commands \<longrightarrow> field v ''result'' = JStr ''passed'')"
  by (auto simp: unrequired_violations_def)

definition review_clear :: "obj \<Rightarrow> bool" where
  "review_clear handoff \<longleftrightarrow>
     field (get handoff ''sddReview'') ''decision'' \<notin> {JStr ''changes_requested'', JStr ''blocked''}
     \<and> elements (field (get handoff ''sddReview'') ''requiredDeltas'') = []
     \<and> \<not> list_ex (\<lambda>risk. starts_with_ci (js_string risk) ''blocking:'') (elements (get handoff ''residualRisks''))
     \<and> \<not> list_ex (\<lambda>item. starts_with_ci (js_string item) ''required:'') (elements (get handoff ''followUps''))"

lemma review_violations_Nil: "review_violations handoff = [] \<longleftrightarrow> review_clear handoff"
  unfolding review_violations_def review_clear_def Let_def by simp

text \<open>C27: the completion gate accepts exactly the proven handoffs. A handoff is accepted if and only if it claims to be
  complete; every blocking criterion of the brief has exactly one result, which passed and carries evidence; every
  required command has exactly one final receipt issued by the runtime, which passed and carries evidence, and no other
  final entry of the command failed or was blocked; every other final blocking validation passed; the review neither
  requests changes nor blocks nor leaves required deltas; and no blocking risk or required follow-up is open.\<close>

theorem completion_accepted_iff:
  "co_accepted (evaluateCompletion taskBrief handoff) \<longleftrightarrow>
     get handoff ''status'' = JStr ''complete''
     \<and> list_all (criterion_proven (elements (get handoff ''criterionResults''))) (requiredCriteria taskBrief)
     \<and> list_all (command_proven (elements (get handoff ''validation''))) (elements (get taskBrief ''validation''))
     \<and> \<not> list_ex (\<lambda>v. final_blocking v \<and> field v ''command'' \<notin> set (elements (get taskBrief ''validation''))
          \<and> field v ''result'' \<noteq> JStr ''passed'') (elements (get handoff ''validation''))
     \<and> review_clear handoff"
proof -
  have "completion_violations taskBrief handoff = [] \<longleftrightarrow>
     list_all (criterion_proven (elements (get handoff ''criterionResults''))) (requiredCriteria taskBrief)
     \<and> list_all (command_proven (elements (get handoff ''validation''))) (elements (get taskBrief ''validation''))
     \<and> \<not> list_ex (\<lambda>v. final_blocking v \<and> field v ''command'' \<notin> set (elements (get taskBrief ''validation''))
          \<and> field v ''result'' \<noteq> JStr ''passed'') (elements (get handoff ''validation''))
     \<and> review_clear handoff"
    unfolding completion_violations_def requiredCriterionViolations_def requiredValidationViolations_def Let_def
    by (auto simp: list_all_iff list_ex_iff criterion_violations_Nil command_violations_Nil unrequired_violations_Nil
        review_violations_Nil)
  then show ?thesis
    by (auto simp: evaluateCompletion_def Let_def)
qed

end
