(* ===== verification/PolicyProps.thy ===== *)
theory PolicyProps
  imports Policy CompletionGate
begin

text \<open>
  What the decisions of the policy engine mean: exactly when each operation is allowed, for every engine that the
  constructor accepts, and how the retry decision uses the budgets of \<open>RetryEfficiency\<close> and the classification of
  \<open>CompletionGate\<close>.
\<close>

subsection \<open>Cycles\<close>

lemma fold_add_review_arc:
  "fold add_review_arc arcs (outgoing, indegree) = (outgoing', indegree') \<Longrightarrow>
     targets_of outgoing' u = targets_of outgoing u @ map snd (filter (\<lambda>arc. fst arc = u) arcs)
     \<and> degree indegree' v = degree indegree v + int (length (filter (\<lambda>arc. snd arc = v) arcs))"
proof (induction arcs arbitrary: outgoing indegree)
  case (Cons arc arcs)
  obtain a b where arc: "arc = (a, b)" by (cases arc)
  let ?ind = "AList.update a (degree indegree a) indegree"
  from Cons.prems have "fold add_review_arc arcs (AList.update a (targets_of outgoing a @ [b]) outgoing,
      AList.update b (degree ?ind b + 1) ?ind) = (outgoing', indegree')"
    by (simp add: arc Let_def)
  from Cons.IH[OF this] show ?case by (simp add: arc targets_of_def)
qed simp

lemma review_maps:
  "targets_of (fst (fold add_review_arc arcs ([], []))) u = map snd (filter (\<lambda>arc. fst arc = u) arcs)"
  "degree (snd (fold add_review_arc arcs ([], []))) v = int (length (filter (\<lambda>arc. snd arc = v) arcs))"
  using fold_add_review_arc[of arcs "[]" "[]" "fst (fold add_review_arc arcs ([], []))" "snd (fold add_review_arc arcs ([], []))"]
  by (simp_all add: targets_of_def degree_def)

interpretation plan_graph: stage_graph "review_stage_set arcs" arcs
  "targets_of (fst (fold add_review_arc arcs ([], [])))" "snd (fold add_review_arc arcs ([], []))" for arcs
  by unfold_locales (auto simp: review_maps review_stage_set_def)

lemma cyclic_stages_empty: "cyclicReviewStages edges = [] \<longleftrightarrow> acyclic (set (review_arcs edges))"
proof -
  let ?arcs = "review_arcs edges"
  let ?maps = "fold add_review_arc ?arcs ([], [])" and ?stages = "review_stage_set ?arcs"
  obtain visited final where run: "kahn_loop Sorted (targets_of (fst ?maps))
      (arrange Sorted (filter (\<lambda>s. degree (snd ?maps) s = 0) ?stages)) (snd ?maps) 0 = (visited, final)"
    by (cases "kahn_loop Sorted (targets_of (fst ?maps))
      (arrange Sorted (filter (\<lambda>s. degree (snd ?maps) s = 0) ?stages)) (snd ?maps) 0")
  from plan_graph.kahn_correct(1,2)[where a = Sorted and arcs = ?arcs] run
  have "visited = length ?stages \<longleftrightarrow> acyclic (set ?arcs)"
    "filter (\<lambda>s. degree final s > 0) ?stages = [] \<longleftrightarrow> acyclic (set ?arcs)"
    by (simp_all add: plan_graph.start_def)
  moreover have "sort (filter (\<lambda>s. degree final s > 0) ?stages) = [] \<longleftrightarrow> filter (\<lambda>s. degree final s > 0) ?stages = []"
    by (metis length_0_conv length_sort)
  ultimately show ?thesis
    using run by (auto simp: cyclicReviewStages_def Let_def split: prod.splits)
qed

subsection \<open>Planning\<close>

definition bindings_of :: "jsval \<Rightarrow> jsval list" where
  "bindings_of input = elements (default_to (field input ''bootstrapFactBindings'') (JArr []))"

definition edges_of :: "jsval \<Rightarrow> jsval list" where
  "edges_of input = elements (default_to (field input ''bootstrapReviewDependencies'') (JArr []))"

definition topology_of :: "jsval \<Rightarrow> jsval" where
  "topology_of input = default_to (field input ''topologyState'') (JStr ''refined'')"

text \<open>C26: a plan is authorised exactly when its review topology is sound. Under every policy the constructor accepts, the
  engine allows a plan if and only if it is in the bootstrap phase, provisional or refined, no stage waits for itself,
  the waits between stages have no cycle, every fact that is not resolved has a provider, and in a refined plan every
  fact and every edge names the tasks at its ends.\<close>

theorem plan_allowed_iff:
  assumes "RuntimePolicyEngine e document = Inr engine"
  shows "is_allowed (evaluatePlan e engine input) \<longleftrightarrow>
    field input ''phase'' = JStr ''bootstrap'' \<and> topology_of input \<in> {JStr ''provisional'', JStr ''refined''}
    \<and> \<not> list_ex self_edge (edges_of input) \<and> acyclic (set (review_arcs (edges_of input)))
    \<and> \<not> list_ex unresolved_binding (bindings_of input)
    \<and> (topology_of input = JStr ''provisional''
       \<or> \<not> list_ex unmaterialized_binding (bindings_of input) \<and> \<not> list_ex unmaterialized_edge (edges_of input))"
proof -
  have "rule_of engine ''plan'' ''requiredPhase'' = JStr ''bootstrap''"
    using engine_typed[OF assms] by (simp add: policy_document_def Let_def rule_of_def)
  then show ?thesis
    by (auto simp: evaluatePlan_def Let_def edges_of_def bindings_of_def topology_of_def cyclic_stages_empty)
qed

definition sample_plan_input :: jsval where
  "sample_plan_input = JObj [(''phase'', JStr ''bootstrap''), (''topologyState'', JStr ''provisional''),
     (''bootstrapReviewDependencies'', JArr [JObj [(''fromStage'', JStr ''a''), (''toStage'', JStr ''b'')]])]"

theorem plan_allowed_iff_witness:
  "is_allowed (evaluatePlan sample_env (default_engine sample_env) sample_plan_input)"
proof -
  have "set (review_arcs (edges_of sample_plan_input)) = {(''a'', ''b'')}"
    by (simp add: sample_plan_input_def edges_of_def default_to_def review_arcs_def compact_def trim_def is_space_def)
  then have "acyclic (set (review_arcs (edges_of sample_plan_input)))"
    by (simp add: acyclic_insert wf_acyclic)
  then show ?thesis
    unfolding plan_allowed_iff[OF default_engine_ok]
    by (simp add: sample_plan_input_def edges_of_def bindings_of_def topology_of_def default_to_def self_edge_def)
qed

subsection \<open>Dispatch\<close>

lemma default_rules:
  "rule_of (default_engine e) ''dispatch'' ''terminalRunStatuses'' = JArr (map JStr [''closed'', ''failed'', ''blocked'', ''cancelled''])"
  "rule_of (default_engine e) ''dispatch'' ''dispatchableTaskStatuses'' = JArr (map JStr [''routed'', ''retrying''])"
  "rule_of (default_engine e) ''dispatch'' ''requireSatisfiedDependencies'' = JBool True"
  "rule_of (default_engine e) ''dispatch'' ''requireOpenRetryWindow'' = JBool True"
  "rule_of (default_engine e) ''dispatch'' ''requireRefinedBootstrapTopology'' = JBool True"
  "rule_of (default_engine e) ''retry'' ''requireRetryableFailure'' = JBool True"
  "rule_of (default_engine e) ''retry'' ''respectAttemptBudget'' = JBool True"
  "rule_of (default_engine e) ''retry'' ''defaultDelayMs'' = JNum 30000"
  by (simp_all add: rule_of_def default_engine_def DEFAULT_RUNTIME_POLICY_DOCUMENT_def)

text \<open>What the reconciler asks the engine about a task row it has selected.\<close>

definition dispatch_input :: "jsval \<Rightarrow> jsval \<Rightarrow> bool \<Rightarrow> bool \<Rightarrow> jsval" where
  "dispatch_input runStatus taskStatus windowOpen topologyReady = JObj
     [(''runStatus'', runStatus), (''taskStatus'', taskStatus), (''dependenciesSatisfied'', JBool True),
      (''retryWindowOpen'', JBool windowOpen), (''topologyReady'', JBool topologyReady)]"

lemma dispatch_allowed_iff:
  "is_allowed (evaluateDispatch e (default_engine e) (dispatch_input runStatus taskStatus windowOpen topologyReady)) \<longleftrightarrow>
     js_string runStatus \<notin> {''closed'', ''failed'', ''blocked'', ''cancelled''} \<and> js_string taskStatus \<in> {''routed'', ''retrying''}
     \<and> windowOpen \<and> topologyReady"
  by (auto simp: evaluateDispatch_def Let_def default_rules dispatch_input_def default_to_def)

subsection \<open>Retries\<close>

lemma retry_allowed_cases:
  assumes "is_allowed (evaluateRetry e penv (default_engine e) input state r now)"
  shows "field (field input ''failure'') ''retryable'' = JBool True"
    and "\<not> nan_le (js_number (field input ''maxAttempts'')) (js_number (field input ''attempt''))"
    and "rb_allowed (rd_retryBudget (retry_efficiency e penv (default_engine e) input state r now))"
    and "get (evaluateRetry e penv (default_engine e) input state r now) ''retryAfterMs''
       = JNum (rd_retryAfterMs (retry_efficiency e penv (default_engine e) input state r now))"
proof -
  let ?eff = "retry_efficiency e penv (default_engine e) input state r now"
  show 1: "field (field input ''failure'') ''retryable'' = JBool True"
    and 2: "\<not> nan_le (js_number (field input ''maxAttempts'')) (js_number (field input ''attempt''))"
    and 3: "rb_allowed (rd_retryBudget ?eff)"
    using assms unfolding evaluateRetry_def Let_def default_rules by (simp_all split: if_splits)
  have 4: "rd_classificationKnown ?eff" "\<not> (rd_sameAttemptRepairPreferred ?eff \<and> field (field input ''failure'') ''repairExhausted'' \<noteq> JBool True)"
    using assms unfolding evaluateRetry_def Let_def default_rules by (auto split: if_splits)
  show "get (evaluateRetry e penv (default_engine e) input state r now) ''retryAfterMs'' = JNum (rd_retryAfterMs ?eff)"
    using 1 2 3 4 unfolding evaluateRetry_def Let_def default_rules
    by (auto simp: allow_def decision_def receipt_def Let_def)
qed

lemma budget_allowed_elapsed:
  assumes "rb_allowed (evaluateRetryBudget state (Some d) limits)" and "bs_elapsedMs state = Some el" and "0 \<le> el" and "0 \<le> d"
  shows "\<exists>m. maxElapsedMs limits = Some m \<and> el + d \<le> m"
  using assms by (cases "maxElapsedMs limits") (auto simp: evaluateRetryBudget_def Let_def split: if_splits)


definition sample_retry_input :: jsval where
  "sample_retry_input = JObj [(''failure'', JObj [(''code'', JStr ''network_error''), (''retryable'', JBool True)]),
     (''attempt'', JNum 1), (''maxAttempts'', JNum 3)]"

lemma sample_retry_allowed:
  "is_allowed (evaluateRetry sample_env [] (default_engine sample_env) sample_retry_input
     \<lparr>bs_elapsedMs = Some 10, bs_cumulativeBackoffMs = Some 0\<rparr> 0 50)"
proof -
  let ?f = "JObj [(''code'', JStr ''network_error''), (''retryable'', JBool True)]"
  have disp: "retryDispositionForFailure ?f = JStr ''true-retry-transient''" by code_simp
  have "provider_delay sample_env ?f 50 = None" by (simp add: provider_delay_def parseProviderRetryAfterMs_def)
  then have delay: "retryDelayForFailure sample_env [] ?f 30000 (Some 1) 0 50 = 0"
    by (simp add: retryDelayForFailure_def disp asked_delay_def full_jitter_def)
  show ?thesis
    by (simp add: evaluateRetry_def Let_def default_rules sample_retry_input_def retry_efficiency_def
        retryEfficiencyDetails_def disp delay evaluateRetryBudget_def retryBudgetLimits_def)
qed


subsection \<open>Completion failures\<close>

text \<open>The failure object that the gate's classification becomes.\<close>

definition failure_object :: "completion_failure \<Rightarrow> jsval" where
  "failure_object f = JObj [(''code'', JStr (cf_code f)), (''category'', JStr (cf_category f)),
     (''retryable'', JBool (cf_retryable f)), (''repairExhausted'', JBool (cf_repairExhausted f)),
     (''failureClass'', JStr (cf_failureClass f))]"

lemma classified_codes:
  "cf_code (classifyCompletionFailure vs) \<in> {''completion_validation_failed'', ''completion_contract_conflict'',
      ''completion_evidence_missing'', ''completion_semantic_unproven''}"
  "cf_retryable (classifyCompletionFailure vs)"
  by (auto simp: classifyCompletionFailure_def completion_failure_of_def)

lemma completion_code_strategy:
  "code \<in> {''completion_validation_failed'', ''completion_contract_conflict'',
      ''completion_evidence_missing'', ''completion_semantic_unproven''}
    \<Longrightarrow> strategy_entry code = Some (JStr ''true-retry-semantic'', JStr ''contract'') \<and> trim code = code \<and> code \<noteq> []"
  by (elim insertE; simp; code_simp)

text \<open>C37: a refused completion is retried as a new attempt. Whatever the violations, the failure the completion gate
  reports has a strategy in the retry registry: it is retryable, it is never repaired in the same attempt and never
  terminal, and it is not delayed.\<close>

theorem completion_failure_retried:
  assumes "co_failure (evaluateCompletion taskBrief handoff) = Some f"
  shows "retryDispositionForFailure (failure_object f) = JStr ''true-retry-semantic''
    \<and> retryDelayForFailure e penv (failure_object f) d attempt r now = 0 \<and> cf_retryable f"
proof -
  from assms have "\<exists>vs. f = classifyCompletionFailure vs"
    by (auto simp: evaluateCompletion_def Let_def split: if_splits)
  then have code: "cf_retryable f" "strategy_entry (cf_code f) = Some (JStr ''true-retry-semantic'', JStr ''contract'')"
    "trim (cf_code f) = cf_code f" "cf_code f \<noteq> []"
    using classified_codes completion_code_strategy by blast+
  then have "retryDispositionForFailure (failure_object f) = JStr ''true-retry-semantic''"
    by (simp add: retryDispositionForFailure_def strategyForFailure_def failure_object_def compact_def)
  then show ?thesis using code(1) by (simp add: retryDelayForFailure_def)
qed

theorem completion_failure_retried_witness:
  "retryDispositionForFailure (failure_object (classifyCompletionFailure [''sdd_blocked''])) = JStr ''true-retry-semantic''
    \<and> retryDelayForFailure sample_env [] (failure_object (classifyCompletionFailure [''sdd_blocked''])) 0 None 0 0 = 0
    \<and> cf_retryable (classifyCompletionFailure [''sdd_blocked''])"
proof (rule completion_failure_retried)
  show "co_failure (evaluateCompletion [] [(''status'', JStr ''complete''), (''sddReview'', JObj [(''decision'', JStr ''blocked'')])])
      = Some (classifyCompletionFailure [''sdd_blocked''])"
    by (simp add: evaluateCompletion_def Let_def completion_violations_def requiredCriterionViolations_def
        requiredCriteria_def requiredValidationViolations_def review_violations_def)
qed

end
