(* ===== verification/Scheduler.thy ===== *)
theory Scheduler
  imports Contracts Sql
begin

text \<open>
  The scheduling decisions of the reconciler that read task rows only (\<open>event-driven-reconciler.mjs\<close>): when a
  retry may start, and which tasks are dispatched next. A task row is an object with the columns of
  \<open>agent_tasks\<close>; \<open>nowMs\<close> is the clock reading.
\<close>

definition stateMap :: "obj list \<Rightarrow> (jsval \<times> jsval) list" where
  "stateMap tasks = fold (\<lambda>task m. AList.update (get task ''task_id'') (get task ''status'') m) tasks []"

definition taskPlanMap :: "obj \<Rightarrow> (jsval \<times> jsval) list" where
  "taskPlanMap plan = fold (\<lambda>task m. AList.update (field task ''taskId'') task m) (elements (get plan ''tasks'')) []"

definition waiting :: "obj \<Rightarrow> bool" where
  "waiting task \<longleftrightarrow> status_in (get task ''status'') [''routed'', ''retrying'']"

definition occupying :: "obj \<Rightarrow> bool" where
  "occupying task \<longleftrightarrow> status_in (get task ''status'') [''queued'', ''running'']"

definition retryWindowOpen :: "env \<Rightarrow> obj \<Rightarrow> int \<Rightarrow> bool" where
  "retryWindowOpen e task nowMs \<longleftrightarrow>
     get task ''status'' \<noteq> JStr ''retrying'' \<or> \<not> truthy (get task ''retry_not_before'')
     \<or> (case parse_date e (js_string (get task ''retry_not_before'')) of None \<Rightarrow> False | Some retryAt \<Rightarrow> retryAt \<le> nowMs)"

record selection =
  sel_active :: nat
  sel_available :: "int option"
  sel_ready :: "obj list"

definition eligible :: "env \<Rightarrow> obj list \<Rightarrow> int \<Rightarrow> obj \<Rightarrow> bool" where
  "eligible e tasks nowMs task \<longleftrightarrow>
     waiting task \<and> retryWindowOpen e task nowMs \<and> dependenciesSatisfied task (stateMap tasks)"

definition by_task_id :: "env \<Rightarrow> obj \<Rightarrow> obj \<Rightarrow> int" where
  "by_task_id e a b = localeCompare e (js_string (get a ''task_id'')) (js_string (get b ''task_id''))"

text \<open>\<open>None\<close> is \<open>NaN\<close>: it is not below zero, and \<open>slice(0, NaN)\<close> is empty.\<close>

definition selectReadyDispatchTasks :: "env \<Rightarrow> obj list \<Rightarrow> jsval \<Rightarrow> int \<Rightarrow> selection" where
  "selectReadyDispatchTasks e tasks maxParallel nowMs =
     (let active = length (filter occupying tasks);
          available = map_option (\<lambda>n. max 0 (n - int active)) (js_number (coalesce maxParallel (JNum 1))) in
      if available = Some 0 then \<lparr>sel_active = active, sel_available = Some 0, sel_ready = []\<rparr>
      else \<lparr>sel_active = active, sel_available = available,
            sel_ready = take (case available of None \<Rightarrow> 0 | Some n \<Rightarrow> nat n)
              (foldr (insert_ordered (by_task_id e)) (filter (eligible e tasks nowMs) tasks) [])\<rparr>)"

subsection \<open>The selection uses the capacity and nothing more\<close>

lemma mset_insert_ordered [simp]: "mset (insert_ordered cmp x ys) = add_mset x (mset ys)"
  by (induction ys) auto

lemma mset_foldr_ordered [simp]: "mset (foldr (insert_ordered cmp) xs []) = mset xs"
  by (induction xs) auto

lemma length_foldr_ordered [simp]: "length (foldr (insert_ordered cmp) xs []) = length xs"
  by (metis mset_foldr_ordered size_mset)

lemma set_foldr_ordered [simp]: "set (foldr (insert_ordered cmp) xs []) = set xs"
  by (metis mset_foldr_ordered set_mset_mset)

lemma mset_take_subset: "mset (take n xs) \<subseteq># mset xs"
  by (metis append_take_drop_id mset_append mset_subset_eq_add_left)

definition slots :: "obj list \<Rightarrow> jsval \<Rightarrow> nat" where
  "slots tasks maxParallel = (case js_number (coalesce maxParallel (JNum 1)) of
     None \<Rightarrow> 0 | Some n \<Rightarrow> nat (n - int (length (filter occupying tasks))))"

lemma ready_take:
  "sel_ready (selectReadyDispatchTasks e tasks maxParallel nowMs) =
     take (slots tasks maxParallel) (foldr (insert_ordered (by_task_id e)) (filter (eligible e tasks nowMs) tasks) [])"
proof (cases "js_number (coalesce maxParallel (JNum 1))")
  case (Some n)
  then show ?thesis
    by (auto simp: selectReadyDispatchTasks_def slots_def Let_def max_def)
qed (simp add: selectReadyDispatchTasks_def slots_def Let_def)


end
