(* ===== verification/Reconciler.thy ===== *)
theory Reconciler
  imports Scheduler Policy PgStore
begin

text \<open>
  The reconciler (\<open>event-driven-reconciler.mjs\<close>) over the PostgreSQL store: one call finalises pending results,
  recovers expired executions, cancels the tasks behind failed dependencies, dispatches what is ready and releases its
  lease.

  \<open>host\<close> holds what the reconciler gets from the modules that prepare workspaces, run agents and write files:
  the preparation of a task (the thrown error as a value, or the prepared execution), the prefetch of a blocked task,
  the finalisation of a result and of a run, and the refinement and compilation of the plan. They are arguments of the
  model. \<open>Promise.all\<close> over the selected tasks is modelled in the order of the selection.
\<close>

record host =
  h_prepareTaskExecution :: "obj \<Rightarrow> jsval \<Rightarrow> (jsval + obj) pg_m"
  h_prefetchTaskPreparation :: "obj \<Rightarrow> jsval \<Rightarrow> unit pg_m"
  h_finalizeExecutionResult :: "obj \<Rightarrow> jsval \<Rightarrow> obj \<Rightarrow> unit pg_m"
  h_finalizeExecution :: "obj \<Rightarrow> int \<Rightarrow> obj pg_m"
  h_refineBootstrapTopologyIfReady :: "obj \<Rightarrow> obj pg_m"
  h_compileRefinedDagIfReady :: "obj \<Rightarrow> obj pg_m"
  h_bootstrapTopologyReadyForTask :: "obj \<Rightarrow> jsval \<Rightarrow> bool"

record options =
  op_engine :: engine
  op_maxParallel :: jsval
  op_maxAttempts :: jsval
  op_executorCommand :: jsval
  op_workspaceMode :: jsval
  op_integrate :: jsval
  op_env :: obj

subsection \<open>Control flow\<close>

definition db_nowMs :: "env \<Rightarrow> int pg_m" where
  "db_nowMs e s = (Inr (clock_ms e (db_tick s)), s\<lparr>db_tick := Suc (db_tick s)\<rparr>)"

text \<open>\<open>Math.random()\<close>, a function of the reading's number like the clock.\<close>

definition db_random :: "(nat \<Rightarrow> rat) \<Rightarrow> rat pg_m" where
  "db_random rng s = (Inr (rng (db_tick s)), s\<lparr>db_tick := Suc (db_tick s)\<rparr>)"

text \<open>\<open>m.catch(() => {})\<close> and \<open>try { m } finally { f }\<close>\<close>

definition catchM :: "'a pg_m \<Rightarrow> unit pg_m" where
  "catchM m s = (Inr (), snd (m s))"

definition finallyM :: "'a pg_m \<Rightarrow> unit pg_m \<Rightarrow> 'a pg_m" where
  "finallyM m f s = (case m s of (r, t) \<Rightarrow> (case f t of (Inl err, u) \<Rightarrow> (Inl err, u) | (Inr _, u) \<Rightarrow> (r, u)))"

subsection \<open>Preparation failures\<close>

definition starts_with_text :: "jsval \<Rightarrow> string \<Rightarrow> bool" where
  "starts_with_text v p \<longleftrightarrow> starts_with (js_string v) p"

text \<open>The message of a thrown value: an error object has a \<open>message\<close>, anything else is converted to text.\<close>

definition error_message :: "jsval \<Rightarrow> string" where
  "error_message err = (case err of JObj ps \<Rightarrow> js_string (get ps ''message'') | v \<Rightarrow> js_string (coalesce v (JStr [])))"

definition classifyPreparationFailure :: "jsval \<Rightarrow> obj option" where
  "classifyPreparationFailure err =
     (let message = error_message err in
      if field err ''code'' = JStr ''context_semantic_dependency_unavailable''
      then Some [(''code'', JStr ''context_semantic_dependency_unavailable''), (''message'', JStr message),
             (''retryable'', JBool (field err ''retryable'' = JBool True)),
             (''category'', coalesce (field err ''category'') (JStr ''context-infrastructure'')),
             (''dependency'', coalesce (field err ''dependency'') (JStr ''unknown'')),
             (''causeCode'', coalesce (field err ''causeCode'') JNull)]
      else if starts_with message ''handoff_review_revision_ambiguous:''
      then Some [(''code'', JStr ''handoff_review_revision_ambiguous''), (''message'', JStr message),
             (''retryable'', JBool False), (''category'', JStr ''runtime-contract''),
             (''dependency'', JStr ''review-revision-lineage''), (''causeCode'', JStr message)]
      else None)"

definition pg_recordPolicyDecision :: "env \<Rightarrow> jsval \<Rightarrow> jsval \<Rightarrow> string \<Rightarrow> obj \<Rightarrow> unit pg_m" where
  "pg_recordPolicyDecision e runId taskId operation d =
     (if \<not> truthy runId then returnM ()
      else pg_event e runId taskId ''policy.decision''
             (JObj (assign [(''operation'', JStr operation), (''authoritative'', JBool True)] d)))"

definition started_ms :: "env \<Rightarrow> obj \<Rightarrow> int option" where
  "started_ms e row =
     (if truthy (get row ''started_at'')
      then (case parse_date e (js_string (get row ''started_at'')) of Some ms \<Rightarrow> if ms = 0 then None else Some ms | None \<Rightarrow> None)
      else None)"

definition preparation_patch :: "bool \<Rightarrow> int \<Rightarrow> obj \<Rightarrow> jsval \<Rightarrow> jsval \<Rightarrow> obj" where
  "preparation_patch canRetry attempt failure retryNotBefore completedAt =
     [(''status'', JStr (if canRetry then ''retrying'' else ''failed'')), (''attempt'', JNum attempt),
      (''error_code'', get failure ''code''), (''error_message'', get failure ''message''), (''lease_owner'', JNull),
      (''lease_expires_at'', JNull), (''retry_not_before'', retryNotBefore), (''completed_at'', completedAt)]"

definition retry_delay_of :: "obj \<Rightarrow> int" where
  "retry_delay_of d = max 0 (num_or 30000 (get d ''retryAfterMs''))"

definition preparation_failed_payload :: "obj \<Rightarrow> int \<Rightarrow> obj \<Rightarrow> bool \<Rightarrow> jsval \<Rightarrow> jsval \<Rightarrow> obj \<Rightarrow> jsval" where
  "preparation_failed_payload row attempt failure canRetry retryAfterMs retryNotBefore d = JObj
     [(''attempt'', JNum attempt), (''dispatchGeneration'', JNum (num_or 0 (get row ''dispatch_generation''))),
      (''fencingToken'', JNum (num_or 0 (get row ''fencing_token''))), (''code'', get failure ''code''),
      (''category'', get failure ''category''), (''dependency'', get failure ''dependency''),
      (''causeCode'', get failure ''causeCode''), (''retryable'', JBool canRetry), (''retryAfterMs'', retryAfterMs),
      (''policyRetryAfterMs'', retryAfterMs), (''policyCode'', coalesce (get d ''code'') JNull), (''retryNotBefore'', retryNotBefore)]"

text \<open>The result is \<open>canRetry\<close>, the attempt and the new status.\<close>

definition persistPreparationFailure ::
  "env \<Rightarrow> (nat \<Rightarrow> rat) \<Rightarrow> options \<Rightarrow> obj \<Rightarrow> obj \<Rightarrow> obj \<Rightarrow> (bool \<times> int \<times> string) pg_m" where
  "persistPreparationFailure e rng opts plan row failure =
     (let runId = get plan ''runId''; taskId = get row ''task_id''; attempt = num_or 0 (get row ''attempt'') + 1;
          maxAttempts = coalesce (coalesce (get row ''max_attempts'') (op_maxAttempts opts)) (JNum 1) in
      bindM (pg_listEvents e (js_string runId)) (\<lambda>events. bindM (db_nowMs e) (\<lambda>budgetNow.
      bindM (db_random rng) (\<lambda>r. bindM (db_nowMs e) (\<lambda>delayNow.
      let d = evaluateRetry e (op_env opts) (op_engine opts)
                (JObj [(''failure'', JObj failure), (''attempt'', JNum attempt), (''maxAttempts'', maxAttempts)])
                (deriveRetryBudgetState e events taskId (started_ms e row) budgetNow) r delayNow;
          canRetry = is_allowed d; retryAfterMs = (if canRetry then JNum (retry_delay_of d) else JNull);
          disposition = coalesce (field (get d ''details'') ''retryDisposition'') JNull;
          backoffApplied = JBool (canRetry \<and> retry_delay_of d > 0) in
      seqM (pg_recordPolicyDecision e runId taskId ''retry'' d)
      (bindM (if canRetry then bindM (db_now_plus e (retry_delay_of d)) (\<lambda>t. returnM (JStr t)) else returnM JNull) (\<lambda>retryNotBefore.
      bindM (if canRetry then returnM JNull else bindM (db_now e) (\<lambda>t. returnM (JStr t))) (\<lambda>completedAt.
      seqM (pg_updateTask (js_string taskId) (preparation_patch canRetry attempt failure retryNotBefore completedAt) JUndef)
      (seqM (pg_event e runId taskId ''context.preparation_failed''
               (preparation_failed_payload row attempt failure canRetry retryAfterMs retryNotBefore d))
      (seqM (pg_event e runId taskId (if canRetry then ''task.retry_scheduled'' else ''task.failed'') (JObj
               [(''attempt'', JNum attempt), (''code'', get failure ''code''), (''message'', get failure ''message''),
                (''failureCategory'', coalesce (get failure ''category'') JNull), (''retryable'', JBool canRetry),
                (''retryDisposition'', disposition), (''retryAfterMs'', retryAfterMs), (''backoffApplied'', backoffApplied),
                (''reason'', JStr ''context_preparation_failed'')]))
      (seqM (whenM canRetry (seqM (pg_event e runId taskId ''retry.true_scheduled'' (JObj
               [(''attempt'', JNum attempt), (''failureCode'', get failure ''code''),
                (''failureCategory'', coalesce (get failure ''category'') JNull),
                (''failureMessage'', JStr (take 4000 (js_string (coalesce (get failure ''message'') (JStr ''Context preparation failed''))))),
                (''retryDisposition'', disposition), (''retryAfterMs'', retryAfterMs), (''retryNotBefore'', retryNotBefore),
                (''backoffApplied'', backoffApplied), (''repairExhausted'', JBool False)]))
             (whenM (retry_delay_of d > 0) (pg_event e runId taskId ''retry.backoff_applied'' (JObj
               [(''attempt'', JNum attempt), (''failureCode'', get failure ''code''), (''retryDisposition'', disposition),
                (''retryAfterMs'', retryAfterMs)])))))
      (returnM (canRetry, attempt, if canRetry then ''retrying'' else ''failed'')))))))))))))"

subsection \<open>Pending results and expired leases\<close>

definition plan_of :: "(jsval \<times> jsval) list \<Rightarrow> jsval \<Rightarrow> jsval" where
  "plan_of plans taskId = (case map_of plans taskId of None \<Rightarrow> JUndef | Some taskPlan \<Rightarrow> taskPlan)"

definition finalizePendingResults :: "env \<Rightarrow> host \<Rightarrow> obj \<Rightarrow> unit pg_m" where
  "finalizePendingResults e h plan =
     (let runId = get plan ''runId''; plans = taskPlanMap plan in
      bindM (pg_listPendingExecutionResults e (js_string runId)) (\<lambda>rows.
      forM (\<lambda>resultRow.
        let taskPlan = plan_of plans (get resultRow ''task_id'') in
        if truthy taskPlan then h_finalizeExecutionResult h plan taskPlan resultRow
        else
            seqM (pg_event e runId (get resultRow ''task_id'') ''execution.result.orphaned''
                    (JObj [(''resultId'', get resultRow ''result_id'')]))
            (seqM (pg_consumeExecutionResult e (js_string (get resultRow ''result_id''))) (returnM ()))) rows))"

definition lease_expired :: "env \<Rightarrow> int \<Rightarrow> obj \<Rightarrow> bool" where
  "lease_expired e now task \<longleftrightarrow> get task ''status'' = JStr ''running'' \<and> truthy (get task ''lease_expires_at'')
     \<and> (case parse_date e (js_string (get task ''lease_expires_at'')) of None \<Rightarrow> False | Some expires \<Rightarrow> expires \<le> now)"

definition expired_patch :: obj where
  "expired_patch =
     [(''status'', JStr ''routed''), (''lease_owner'', JNull), (''lease_expires_at'', JNull),
      (''error_code'', JStr ''execution_lease_expired''),
      (''error_message'', JStr ''Execution lease expired before a fenced result was committed''), (''cleanup_state'', JStr ''queued'')]"

definition recoverExpiredExecutions :: "env \<Rightarrow> obj \<Rightarrow> unit pg_m" where
  "recoverExpiredExecutions e plan =
     (let runId = get plan ''runId'' in
      bindM (db_nowMs e) (\<lambda>now. bindM (pg_listTasks e (js_string runId)) (\<lambda>tasks.
      forM (\<lambda>task. whenM (lease_expired e now task)
        (seqM (pg_updateTask (js_string (get task ''task_id'')) expired_patch JUndef)
        (seqM (pg_event e runId (get task ''task_id'') ''execution.lease_expired'' (JObj
            [(''taskAttempt'', get task ''attempt''), (''dispatchGeneration'', get task ''dispatch_generation''),
             (''fencingToken'', get task ''fencing_token'')]))
         (catchM (pg_requestWorkspaceCleanup e (js_string (get task ''task_id'')) ''expired_execution_lease''))))) tasks)))"

subsection \<open>Tasks behind failed dependencies\<close>

definition doomed :: "(jsval \<times> jsval) list \<Rightarrow> obj \<Rightarrow> bool" where
  "doomed states task \<longleftrightarrow> waiting task \<and> dependenciesFailed task states"

definition cancelled_patch :: "string \<Rightarrow> obj" where
  "cancelled_patch completedAt =
     [(''status'', JStr ''cancelled''), (''completed_at'', JStr completedAt), (''error_code'', JStr ''dependency_failed''),
      (''error_message'', JStr ''Upstream task did not integrate'')]"

definition cancel_doomed :: "env \<Rightarrow> jsval \<Rightarrow> obj \<Rightarrow> unit pg_m" where
  "cancel_doomed e runId task =
     bindM (db_now e) (\<lambda>now.
     seqM (pg_updateTask (js_string (get task ''task_id'')) (cancelled_patch now) JUndef)
       (pg_event e runId (get task ''task_id'') ''task.cancelled'' (JObj [(''reason'', JStr ''dependency_failed'')])))"

text \<open>One round of the loop; the result is \<open>changed\<close>.\<close>

definition cascade_round :: "env \<Rightarrow> jsval \<Rightarrow> bool pg_m" where
  "cascade_round e runId =
     bindM (pg_listTasks e (js_string runId)) (\<lambda>tasks.
     let selected = filter (doomed (stateMap tasks)) tasks in
     seqM (forM (cancel_doomed e runId) selected) (returnM (selected \<noteq> [])))"

partial_function (option) cascade_loop :: "env \<Rightarrow> jsval \<Rightarrow> db \<Rightarrow> (unit res \<times> db) option" where
  "cascade_loop e runId s =
     (case cascade_round e runId s of
        (Inl err, t) \<Rightarrow> Some (Inl err, t)
      | (Inr changed, t) \<Rightarrow> if changed then cascade_loop e runId t else Some (Inr (), t))"

text \<open>A run that never ends has no result; \<open>ReconcilerProps\<close> shows that the loop ends.\<close>

definition cascadeDependencyFailures :: "env \<Rightarrow> obj \<Rightarrow> unit pg_m" where
  "cascadeDependencyFailures e plan s =
     (case cascade_loop e (get plan ''runId'') s of Some r \<Rightarrow> r | None \<Rightarrow> (Inl ''never_ends'', s))"

subsection \<open>Dispatch\<close>

text \<open>The preparation of one selected task: nothing when it failed in a way that was recorded.\<close>

definition prepare_ready ::
  "env \<Rightarrow> (nat \<Rightarrow> rat) \<Rightarrow> host \<Rightarrow> options \<Rightarrow> obj \<Rightarrow> jsval \<Rightarrow> obj \<Rightarrow> (obj \<times> obj) option pg_m" where
  "prepare_ready e rng h opts plan runStatus row =
     (let runId = get plan ''runId''; taskId = get row ''task_id''; taskPlan = plan_of (taskPlanMap plan) taskId in
      seqM (guardM (truthy taskPlan) (''scheduler_ready_task_missing_plan:'' @ js_string taskId))
      (bindM (db_nowMs e) (\<lambda>now.
      let d = evaluateDispatch e (op_engine opts) (JObj
                [(''runStatus'', runStatus), (''taskStatus'', get row ''status''), (''dependenciesSatisfied'', JBool True),
                 (''retryWindowOpen'', JBool (retryWindowOpen e row now)),
                 (''topologyReady'', JBool (h_bootstrapTopologyReadyForTask h plan taskPlan))]) in
      seqM (pg_recordPolicyDecision e runId taskId ''dispatch'' d)
      (seqM (pg_event e runId taskId ''policy.dispatch_decision''
               (JObj (assign d [(''policyFingerprint'', JStr (pe_fingerprint (op_engine opts)))])))
      (seqM (liftR (assertPolicyAllowed d ''runtime_policy_dispatch_denied''))
      (bindM (h_prepareTaskExecution h plan taskPlan) (\<lambda>outcome.
       case outcome of
         Inr prepared \<Rightarrow> returnM (Some (row, prepared))
       | Inl err \<Rightarrow>
           (case classifyPreparationFailure err of
              None \<Rightarrow> throwM (error_message err)
            | Some failure \<Rightarrow> seqM (persistPreparationFailure e rng opts plan row failure) (returnM None)))))))))"

definition replacement_key :: "env \<Rightarrow> jsval \<Rightarrow> jsval \<Rightarrow> jsval \<Rightarrow> dispatch_result \<Rightarrow> string" where
  "replacement_key e runId taskId attempt result = stableFingerprint e (JObj
     [(''runId'', runId), (''taskId'', taskId), (''taskAttempt'', attempt),
      (''dispatchGeneration'', JNum (dr_dispatchGeneration result)), (''fencingToken'', JNum (dr_fencingToken result)),
      (''eventType'', JStr ''repair.replacement_execution_dispatched'')])"

definition replacement_payload :: "jsval \<Rightarrow> jsval \<Rightarrow> dispatch_result \<Rightarrow> string \<Rightarrow> obj" where
  "replacement_payload resume attempt result key =
     [(''sourceTaskAttempt'', field resume ''taskAttempt''), (''taskAttempt'', attempt),
      (''sameTaskAttempt'', JBool (same_number (field resume ''taskAttempt'') attempt)),
      (''sourceDispatchGeneration'', field resume ''sourceDispatchGeneration''),
      (''dispatchGeneration'', JNum (dr_dispatchGeneration result)),
      (''sourceFencingToken'', field resume ''sourceFencingToken''), (''fencingToken'', JNum (dr_fencingToken result)),
      (''checkpointStatus'', field resume ''checkpointStatus''), (''checkpointEffectKey'', field resume ''checkpointEffectKey''),
      (''skippedFullAgentInvocationExpected'', JBool True), (''effectKey'', JStr key)]"

text \<open>The dispatch of one prepared task; the result counts it when it was queued.\<close>

definition dispatch_prepared :: "env \<Rightarrow> obj \<Rightarrow> obj \<times> obj \<Rightarrow> unit option pg_m" where
  "dispatch_prepared e plan item =
     (case item of (row, prepared) \<Rightarrow>
      let taskId = js_string (get row ''task_id''); attempt = field (get prepared ''reasoning'') ''attempt'';
          resume = get prepared ''repairResume'' in
      bindM (pg_dispatchPreparedTask e taskId attempt (get prepared ''descriptorPath'')
               (if truthy resume then ''process_loss_repair_resume'' else ''dependencies_satisfied'')) (\<lambda>result.
      if \<not> dr_dispatched result then returnM None
      else if \<not> truthy resume then returnM (Some ())
      else
        seqM (guardM (js_number (field resume ''nextDispatchGeneration'') = Some (dr_dispatchGeneration result)
                \<and> js_number (field resume ''nextFencingToken'') = Some (dr_fencingToken result))
              (''replacement_dispatch_identity_mismatch:'' @ taskId @ '':'' @ int_string (dr_dispatchGeneration result)
                @ '':'' @ int_string (dr_fencingToken result)))
        (let key = replacement_key e (get plan ''runId'') (get row ''task_id'') attempt result in
         seqM (pg_eventOnce e (get plan ''runId'') (get row ''task_id'') ''repair.replacement_execution_dispatched''
                 (replacement_payload resume attempt result key) (JStr key))
         (returnM (Some ())))))"

definition dispatchReadyTasks ::
  "env \<Rightarrow> (nat \<Rightarrow> rat) \<Rightarrow> host \<Rightarrow> options \<Rightarrow> obj \<Rightarrow> obj list \<Rightarrow> (nat \<times> nat) pg_m" where
  "dispatchReadyTasks e rng h opts plan tasks =
     (let runId = get plan ''runId'' in
      bindM (db_nowMs e) (\<lambda>now.
      let chosen = selectReadyDispatchTasks e tasks (op_maxParallel opts) now in
      if sel_available chosen = Some 0 then returnM (0, sel_active chosen)
      else
        bindM (pg_getRun (js_string runId)) (\<lambda>run.
        let runStatus = coalesce (case run of None \<Rightarrow> JUndef | Some r \<Rightarrow> get r ''status'') (JStr ''running'') in
        bindM (db_nowMs e) (\<lambda>preparationStartedAt.
        bindM (collectM (prepare_ready e rng h opts plan runStatus) (sel_ready chosen)) (\<lambda>prepared.
        bindM (db_nowMs e) (\<lambda>preparationEndedAt.
        seqM (pg_event e runId JNull ''scheduler.ready_preparation.completed'' (JObj
               [(''selected'', JNum (int (length (sel_ready chosen)))), (''prepared'', JNum (int (length prepared))),
                (''concurrency'', JNum (max 1 (int (length (sel_ready chosen))))),
                (''durationMs'', JNum (max 0 (preparationEndedAt - preparationStartedAt))),
                (''strategy'', JStr ''parallel-ready-task-preparation/v1'')]))
        (bindM (collectM (dispatch_prepared e plan) prepared) (\<lambda>done.
         bindM (pg_getRun (js_string runId)) (\<lambda>current.
         let currentPeak = num_or 0 (case current of None \<Rightarrow> JUndef | Some r \<Rightarrow> get r ''peak_parallel'');
             observed = sel_active chosen + length done in
         seqM (whenM (currentPeak < int observed)
           (seqM (pg_updateRun (js_string runId) [(''peak_parallel'', JNum (int observed))] JUndef id) (returnM ())))
         (returnM (length done, observed)))))))))))"

subsection \<open>Prefetch\<close>

definition blocked_waiting :: "host \<Rightarrow> obj \<Rightarrow> (jsval \<times> jsval) list \<Rightarrow> obj \<Rightarrow> bool" where
  "blocked_waiting h plan states task \<longleftrightarrow>
     waiting task \<and> h_bootstrapTopologyReadyForTask h plan (plan_of (taskPlanMap plan) (get task ''task_id''))
     \<and> \<not> dependenciesSatisfied task states \<and> \<not> dependenciesFailed task states"

text \<open>
  The batches of \<open>Promise.allSettled\<close> run one after the other; an error of the recording event is swallowed by
  \<open>allSettled\<close>.
\<close>

definition prefetch_one :: "env \<Rightarrow> host \<Rightarrow> obj \<Rightarrow> obj \<Rightarrow> unit pg_m" where
  "prefetch_one e h plan row =
     (let taskPlan = plan_of (taskPlanMap plan) (get row ''task_id'') in
      if \<not> truthy taskPlan \<or> \<not> h_bootstrapTopologyReadyForTask h plan taskPlan then returnM ()
      else (\<lambda>s. case h_prefetchTaskPreparation h plan taskPlan s of
               (Inr _, t) \<Rightarrow> (Inr (), t)
             | (Inl message, t) \<Rightarrow> catchM (pg_event e (get plan ''runId'') (get row ''task_id'') ''task.prefetch.degraded''
                   (JObj [(''message'', JStr message)])) t))"

definition prefetchBlockedTasks :: "env \<Rightarrow> host \<Rightarrow> obj \<Rightarrow> obj list \<Rightarrow> unit pg_m" where
  "prefetchBlockedTasks e h plan tasks = forM (prefetch_one e h plan) (filter (blocked_waiting h plan (stateMap tasks)) tasks)"

subsection \<open>One reconciliation\<close>

record outcome =
  oc_status :: jsval
  oc_terminal :: bool
  oc_claimed :: bool
  oc_dispatched :: nat

definition all_terminal :: "obj list \<Rightarrow> bool" where
  "all_terminal tasks \<longleftrightarrow> tasks \<noteq> [] \<and> list_all (\<lambda>task. status_in (get task ''status'') TERMINAL_TASK_STATUSES) tasks"

definition ended :: "jsval \<Rightarrow> outcome" where
  "ended status = \<lparr>oc_status = status, oc_terminal = True, oc_claimed = True, oc_dispatched = 0\<rparr>"

definition status_of_run :: "obj option \<Rightarrow> jsval" where
  "status_of_run run = (case run of None \<Rightarrow> JUndef | Some r \<Rightarrow> get r ''status'')"

definition plan_json_of :: "obj option \<Rightarrow> obj" where
  "plan_json_of run = (case run of None \<Rightarrow> [] | Some r \<Rightarrow> fields_of (get r ''plan_json''))"

definition finish_run :: "host \<Rightarrow> obj \<Rightarrow> outcome pg_m" where
  "finish_run h plan =
     bindM (pg_getRun (js_string (get plan ''runId''))) (\<lambda>run.
     bindM (h_finalizeExecution h plan (num_or 0 (case run of None \<Rightarrow> JUndef | Some r \<Rightarrow> get r ''peak_parallel''))) (\<lambda>finalized.
     returnM (ended (get finalized ''status''))))"

definition start_run :: "env \<Rightarrow> options \<Rightarrow> obj \<Rightarrow> obj \<Rightarrow> unit pg_m" where
  "start_run e opts run plan =
     whenM (get run ''status'' = JStr ''routed'')
       (bindM (if nullish (get run ''started_at'') then bindM (db_now e) (\<lambda>t. returnM (JStr t)) else returnM (get run ''started_at''))
         (\<lambda>startedAt.
        seqM (pg_updateRun (js_string (get plan ''runId''))
          [(''status'', JStr ''running''), (''started_at'', startedAt), (''executor'', op_executorCommand opts),
           (''workspace_mode'', op_workspaceMode opts), (''max_parallel'', op_maxParallel opts),
           (''runtime_driver'', JStr ''event-driven-v1'')] JUndef id)
        (pg_event e (get plan ''runId'') JNull ''run.running'' (JObj
          [(''driver'', JStr ''event-driven-v1''), (''maxParallel'', op_maxParallel opts), (''integrate'', op_integrate opts)]))))"

definition truly_ready :: "env \<Rightarrow> int \<Rightarrow> obj list \<Rightarrow> obj \<Rightarrow> bool" where
  "truly_ready e now tasks task \<longleftrightarrow> waiting task \<and> retryWindowOpen e task now \<and> dependenciesSatisfied task (stateMap tasks)"

definition report_waiting :: "env \<Rightarrow> obj \<Rightarrow> obj list \<Rightarrow> nat \<Rightarrow> unit pg_m" where
  "report_waiting e plan tasks dispatched =
     (let nonTerminal = filter (\<lambda>task. \<not> status_in (get task ''status'') TERMINAL_TASK_STATUSES) tasks in
      whenM (\<not> list_ex occupying nonTerminal \<and> list_ex waiting nonTerminal \<and> dispatched = 0)
        (bindM (db_nowMs e) (\<lambda>now.
         whenM (\<not> list_ex (truly_ready e now tasks) nonTerminal)
           (pg_event e (get plan ''runId'') JNull ''scheduler.waiting_dependencies''
              (JObj [(''taskIds'', JArr (map (\<lambda>task. get task ''task_id'') nonTerminal))])))))"

text \<open>The part after the lease was claimed, up to the \<open>finally\<close> block.\<close>

definition reconcile_claimed :: "env \<Rightarrow> (nat \<Rightarrow> rat) \<Rightarrow> host \<Rightarrow> options \<Rightarrow> string \<Rightarrow> outcome pg_m" where
  "reconcile_claimed e rng h opts runId =
     bindM (pg_getRun runId) (\<lambda>run1.
     let plan1 = plan_json_of run1 in
     seqM (start_run e opts (case run1 of None \<Rightarrow> [] | Some r \<Rightarrow> r) plan1)
     (seqM (finalizePendingResults e h plan1)
     (bindM (pg_getRun (js_string (get plan1 ''runId''))) (\<lambda>run2.
      if isTerminalRunStatus (status_of_run run2) then returnM (ended (status_of_run run2))
      else
        bindM (h_refineBootstrapTopologyIfReady h (plan_json_of run2)) (\<lambda>plan2.
        seqM (recoverExpiredExecutions e plan2)
        (seqM (cascadeDependencyFailures e plan2)
        (bindM (h_compileRefinedDagIfReady h plan2) (\<lambda>plan.
        bindM (pg_getRun (js_string (get plan ''runId''))) (\<lambda>run3.
        if isTerminalRunStatus (status_of_run run3) then returnM (ended (status_of_run run3))
        else
          bindM (pg_listTasks e (js_string (get plan ''runId''))) (\<lambda>tasks1.
          if all_terminal tasks1 then finish_run h plan
          else
            bindM (dispatchReadyTasks e rng h opts plan tasks1) (\<lambda>dispatch.
            seqM (cascadeDependencyFailures e plan)
            (bindM (pg_listTasks e (js_string (get plan ''runId''))) (\<lambda>tasks2.
             if all_terminal tasks2 then finish_run h plan
             else
               seqM (prefetchBlockedTasks e h plan tasks2)
               (bindM (pg_listTasks e (js_string (get plan ''runId''))) (\<lambda>tasks3.
               seqM (report_waiting e plan tasks3 (fst dispatch))
               (bindM (pg_getRun (js_string (get plan ''runId''))) (\<lambda>run4.
                returnM \<lparr>oc_status = status_of_run run4, oc_terminal = False, oc_claimed = True,
                         oc_dispatched = fst dispatch\<rparr>)))))))))))))))))"

definition reconcileRun :: "env \<Rightarrow> (nat \<Rightarrow> rat) \<Rightarrow> host \<Rightarrow> options \<Rightarrow> string \<Rightarrow> string \<Rightarrow> outcome pg_m" where
  "reconcileRun e rng h opts runId ownerId =
     bindM (pg_getRun runId) (\<lambda>initial.
     case initial of
       None \<Rightarrow> throwM (''run_not_found:'' @ runId)
     | Some run \<Rightarrow>
         if isTerminalRunStatus (get run ''status'') then returnM (ended (get run ''status''))
         else
           bindM (pg_claimRunReconcile e runId ownerId 120000) (\<lambda>claim.
           case claim of
             None \<Rightarrow> returnM \<lparr>oc_status = get run ''status'', oc_terminal = False, oc_claimed = False, oc_dispatched = 0\<rparr>
           | Some _ \<Rightarrow> finallyM (reconcile_claimed e rng h opts runId)
               (catchM (pg_releaseRunReconcile runId ownerId))))"

end
