(* ===== verification/ControlPlane.thy ===== *)
theory ControlPlane
  imports Reconciler Continuation Utils
begin

text \<open>
  The control plane (\<open>control-plane.mjs\<close>) and the engine behind it (\<open>dynamic-dag-engine.mjs\<close>): starting,
  cancelling, resuming and retrying runs over the PostgreSQL store, the options of an execution, the views of runs
  and tasks, the guard on observations of a parked session (\<open>parked-orchestrator-guard.mjs\<close>) and the check that an
  execution plane is there (\<open>execution-plane-readiness.mjs\<close>).

  Arguments of the model: the planner behind \<open>engine.plan\<close>, which reasons with a language model and writes
  files, and the HTTP check of a continuation target. The wake-up of the driver that follows a change is modelled in
  \<open>RuntimeDriver\<close>.
\<close>

subsection \<open>Options of an execution\<close>

definition int_option :: "jsval \<Rightarrow> obj \<Rightarrow> string \<Rightarrow> int \<Rightarrow> int \<Rightarrow> int \<Rightarrow> int" where
  "int_option v penv name fallback mn mx = asInteger (coalesce v (get penv name)) fallback mn mx"

record execution_options =
  eo_workspaceMode :: jsval
  eo_maxParallel :: int
  eo_maxAttempts :: int
  eo_contextBudgetBytes :: int
  eo_taskTimeoutMs :: int
  eo_prefetchParallel :: int
  eo_dockerHealthTimeoutMs :: int
  eo_retryDelaysMs :: "int list"
  eo_integrate :: bool

definition executionOptions :: "obj \<Rightarrow> obj \<Rightarrow> execution_options" where
  "executionOptions penv input =
     \<lparr>eo_workspaceMode = coalesce (coalesce (get input ''workspaceMode'') (get penv ''AGENT_HARNESS_AGENT_WORKSPACE_MODE'')) (JStr ''auto''),
      eo_maxParallel = int_option (get input ''maxParallel'') penv ''AGENT_HARNESS_AGENT_MAX_PARALLEL'' 3 1 16,
      eo_maxAttempts = int_option (get input ''maxAttempts'') penv ''AGENT_HARNESS_AGENT_MAX_ATTEMPTS'' 3 1 9,
      eo_contextBudgetBytes = int_option (get input ''contextBudgetBytes'') penv ''AGENT_HARNESS_AGENT_CONTEXT_BUDGET_BYTES'' 120000 10000 2000000,
      eo_taskTimeoutMs = int_option (get input ''taskTimeoutMs'') penv ''AGENT_HARNESS_AGENT_TASK_TIMEOUT_MS'' 3600000 1000 86400000,
      eo_prefetchParallel = int_option (get input ''prefetchParallel'') penv ''AGENT_HARNESS_AGENT_PREFETCH_PARALLEL'' 2 1 4,
      eo_dockerHealthTimeoutMs = int_option (get input ''dockerHealthTimeoutMs'') penv ''AGENT_HARNESS_AGENT_DOCKER_HEALTH_TIMEOUT_MS'' 600000 1000 3600000,
      eo_retryDelaysMs = [1000, 3000, 10000],
      eo_integrate = asBoolean (coalesce (get input ''integrate'') (get penv ''AGENT_HARNESS_AGENT_AUTO_INTEGRATE'')) True\<rparr>"

subsection \<open>Views\<close>

definition publicRun :: "obj \<Rightarrow> obj" where
  "publicRun run =
     map (\<lambda>(k, c). (k, get run c))
       [(''runId'', ''run_id''), (''status'', ''status''), (''engine'', ''engine''), (''graphVersion'', ''graph_version''),
        (''runtimeDriver'', ''runtime_driver''), (''createdAt'', ''created_at''), (''startedAt'', ''started_at''),
        (''completedAt'', ''completed_at''), (''errorCode'', ''error_code''), (''errorMessage'', ''error_message''),
        (''stateVersion'', ''state_version''), (''reconcileGeneration'', ''reconcile_generation''),
        (''maxParallel'', ''max_parallel''), (''peakParallel'', ''peak_parallel'')]"

definition publicTask :: "obj \<Rightarrow> obj" where
  "publicTask task =
     map (\<lambda>(k, c). (k, get task c))
       [(''taskId'', ''task_id''), (''agentId'', ''agent_id''), (''role'', ''role''), (''status'', ''status''),
        (''attempt'', ''attempt''), (''maxAttempts'', ''max_attempts''), (''dispatchGeneration'', ''dispatch_generation''),
        (''fencingToken'', ''fencing_token''), (''leaseOwner'', ''lease_owner''), (''leaseExpiresAt'', ''lease_expires_at''),
        (''cleanupState'', ''cleanup_state''), (''cleanupAttempts'', ''cleanup_attempts''), (''cleanupError'', ''cleanup_error''),
        (''modelId'', ''model_id''), (''modelVariant'', ''model_variant''), (''reasoningEffort'', ''reasoning_effort''),
        (''stepsLimit'', ''steps_limit''), (''stepsUsed'', ''steps_used''), (''stepLimitReached'', ''step_limit_reached''),
        (''stopReason'', ''stop_reason''), (''opencodeSessionId'', ''opencode_session_id''), (''startedAt'', ''started_at''),
        (''completedAt'', ''completed_at''), (''stateVersion'', ''state_version''), (''inputTokens'', ''input_tokens''),
        (''cachedInputTokens'', ''cached_input_tokens''), (''outputTokens'', ''output_tokens''), (''costUsd'', ''cost_usd''),
        (''errorCode'', ''error_code''), (''errorMessage'', ''error_message'')]"

definition or_null_text :: "string option \<Rightarrow> jsval" where
  "or_null_text v = (case v of None \<Rightarrow> JNull | Some s \<Rightarrow> JStr s)"

definition current_delivery :: "obj \<Rightarrow> jsval" where
  "current_delivery continuation =
     (let deliveries = elements (get continuation ''deliveries'') in
      if truthy (get continuation ''currentDeliveryId'')
      then (case find (\<lambda>d. field d ''deliveryId'' = get continuation ''currentDeliveryId'') deliveries of None \<Rightarrow> JNull | Some d \<Rightarrow> d)
      else if deliveries = [] then JNull else last deliveries)"

definition continuationDiagnostic :: "obj option \<Rightarrow> jsval \<Rightarrow> obj option" where
  "continuationDiagnostic continuation runStatus =
     (case continuation of None \<Rightarrow> None
      | Some cont \<Rightarrow>
          let terminalEvent = runStatusToContinuationEvent runStatus; current = current_delivery cont in
          Some (assign cont [(''diagnostic'', JObj
            [(''runStatus'', runStatus), (''wakeEligible'', JBool (terminalEvent \<noteq> None)),
             (''expectedTerminalEvent'', or_null_text terminalEvent),
             (''phase'', JStr
                (if terminalEvent \<noteq> None then
                   (if field current ''status'' = JStr ''observed'' then ''wake-observed''
                    else if truthy current then ''wake-delivery-active'' else ''wake-materialization-pending'')
                 else ''waiting-for-run-terminal'')),
             (''currentDeliveryStatus'', coalesce (field current ''status'') JNull),
             (''automaticPollingRequired'', JBool False)])]))"

subsection \<open>Observations of a parked session\<close>

definition status_run_id :: "jsval \<Rightarrow> string" where
  "status_run_id status =
     (let run = coalesce (field status ''run'') JNull in
      trim (js_string (coalesce (coalesce (field run ''runId'') (field run ''run_id'')) (JStr []))))"

definition continuationStillRequiresPark :: "jsval \<Rightarrow> bool" where
  "continuationStillRequiresPark status =
     (let diagnostic = coalesce (field (field status ''continuation'') ''diagnostic'') JNull;
          runStatus = toLowerCase (JsPrelude.compact (field (field status ''run'') ''status''));
          phase = JsPrelude.compact (field diagnostic ''phase'');
          deliveryStatus = toLowerCase (JsPrelude.compact (field diagnostic ''currentDeliveryStatus'')) in
      if status_run_id status = [] \<or> \<not> truthy (field status ''continuation'') then False
      else if runStatus \<notin> set TERMINAL_RUN_STATUSES then phase = ''waiting-for-run-terminal''
      else if phase = ''wake-materialization-pending'' then True
      else if phase = ''wake-delivery-active'' then deliveryStatus \<notin> {''accepted'', ''observed''}
      else False)"

definition parkedObservationViolation :: "jsval \<Rightarrow> jsval \<Rightarrow> string option" where
  "parkedObservationViolation toolName status =
     (if status_run_id status = [] \<or> \<not> continuationStillRequiresPark status then None
      else Some (''agent_runtime_main_orchestrator_parked_observation_denied:'' @ js_string (coalesce toolName (JStr ''observation''))
             @ '':'' @ status_run_id status))"

datatype disposition = Allow | Allow_human | Deny string

definition parkedObservationDisposition :: "jsval \<Rightarrow> jsval \<Rightarrow> jsval \<Rightarrow> disposition" where
  "parkedObservationDisposition toolName status invocationOrigin =
     (case parkedObservationViolation toolName status of
        None \<Rightarrow> Allow
      | Some violation \<Rightarrow>
          let origin = (let v = trim (js_string (coalesce invocationOrigin (JStr ''unknown''))) in if v = [] then ''unknown'' else v) in
          if origin = ''explicit-human-turn'' then Allow_human else Deny violation)"

subsection \<open>Cancelling a run\<close>

definition manual_cancel_patch :: "string \<Rightarrow> obj" where
  "manual_cancel_patch completedAt =
     [(''status'', JStr ''cancelled''), (''completed_at'', JStr completedAt), (''error_code'', JStr ''manual_cancel''),
      (''error_message'', JStr ''Cancelled by operator'')]"

definition cancel_task :: "env \<Rightarrow> obj \<Rightarrow> unit pg_m" where
  "cancel_task e task =
     whenM (\<not> status_in (get task ''status'') TERMINAL_TASK_STATUSES)
       (bindM (db_now e) (\<lambda>now.
        seqM (pg_updateTask (js_string (get task ''task_id'')) (manual_cancel_patch now) JUndef)
          (whenM (truthy (get task ''workspace_path''))
             (catchM (pg_requestWorkspaceCleanup e (js_string (get task ''task_id'')) ''run_cancelled'')))))"

definition cancelRun :: "env \<Rightarrow> string \<Rightarrow> string \<Rightarrow> unit pg_m" where
  "cancelRun e runId source =
     bindM (pg_getRun runId) (\<lambda>run.
     case run of
       None \<Rightarrow> throwM (''run_not_found:'' @ runId)
     | Some _ \<Rightarrow>
         bindM (pg_listTasks e runId) (\<lambda>tasks.
         seqM (forM (cancel_task e) tasks)
         (bindM (db_now e) (\<lambda>now.
         seqM (pg_updateRun runId [(''status'', JStr ''cancelled''), (''completed_at'', JStr now)] JUndef id)
         (seqM (pg_event e (JStr runId) JNull ''run.cancelled'' (JObj [(''source'', JStr source)]))
         (seqM (pg_materializeContinuationWake e runId (JStr ''cancelled'')) (returnM ())))))))"

definition cp_cancel :: "env \<Rightarrow> string \<Rightarrow> unit pg_m" where
  "cp_cancel e runId =
     seqM (cancelRun e runId ''dynamic-dag'') (catchM (pg_requestReconcile e runId ''run_cancelled''))"

subsection \<open>Resuming and retrying\<close>

text \<open>The result is whether the run was launched again.\<close>

definition cp_resume :: "env \<Rightarrow> string \<Rightarrow> bool pg_m" where
  "cp_resume e runId =
     bindM (pg_getRun runId) (\<lambda>run.
     case run of
       None \<Rightarrow> throwM (''run_not_found:'' @ runId)
     | Some r \<Rightarrow>
         if status_in (get r ''status'') TERMINAL_RUN_STATUSES then returnM False
         else seqM (pg_requestReconcile e runId ''manual_resume'') (returnM True))"

definition engine_resume :: "env \<Rightarrow> (nat \<Rightarrow> rat) \<Rightarrow> host \<Rightarrow> options \<Rightarrow> string \<Rightarrow> string \<Rightarrow> outcome pg_m" where
  "engine_resume e rng h opts runId ownerId =
     bindM (pg_getRun runId) (\<lambda>existing.
     case existing of
       None \<Rightarrow> throwM (''run_not_found:'' @ runId)
     | Some run \<Rightarrow>
         if status_in (get run ''status'') TERMINAL_RUN_STATUSES then returnM (ended (get run ''status''))
         else
           let planRunId = js_string (get (plan_json_of existing) ''runId'') in
           seqM (pg_requestReconcile e planRunId ''engine_resume'') (reconcileRun e rng h opts planRunId ownerId))"

definition RETRYABLE_TASKS :: "string list" where
  "RETRYABLE_TASKS = [''failed'', ''blocked'', ''cancelled'']"

definition manual_retry_failure :: "obj \<Rightarrow> jsval" where
  "manual_retry_failure task = JObj
     [(''code'', JStr (''manual_retry:'' @ js_string (coalesce (get task ''error_code'') (get task ''status'')))), (''retryable'', JBool True)]"

definition no_budget :: budget_state where
  "no_budget = \<lparr>bs_elapsedMs = Some 0, bs_cumulativeBackoffMs = Some 0\<rparr>"

definition retried_task_patch :: obj where
  "retried_task_patch = [(''status'', JStr ''routed''), (''error_code'', JNull), (''error_message'', JNull), (''completed_at'', JNull),
     (''retry_not_before'', JNull)]"

definition cp_retry :: "env \<Rightarrow> (nat \<Rightarrow> rat) \<Rightarrow> obj \<Rightarrow> engine \<Rightarrow> string \<Rightarrow> string \<Rightarrow> unit pg_m" where
  "cp_retry e rng penv engine runId taskId =
     bindM (pg_getRun runId) (\<lambda>found.
     case found of
       None \<Rightarrow> throwM (''run_not_found:'' @ runId)
     | Some run \<Rightarrow>
         seqM (guardM (\<not> status_in (get run ''status'') TERMINAL_RUN_STATUSES)
                 (''agent_retry_terminal_run_forbidden:'' @ runId @ '':'' @ js_string (get run ''status'') @ '':start_new_run''))
         (bindM (pg_getTask taskId) (\<lambda>selected.
          case selected of
            None \<Rightarrow> throwM (''task_not_found:'' @ taskId)
          | Some task \<Rightarrow>
              seqM (guardM (get task ''run_id'' = JStr runId) (''task_not_found:'' @ taskId))
              (seqM (guardM (status_in (get task ''status'') RETRYABLE_TASKS) (''task_not_retryable_from_status:'' @ js_string (get task ''status'')))
              (bindM (db_random rng) (\<lambda>r. bindM (db_nowMs e) (\<lambda>nowMs.
               let d = evaluateRetry e penv engine (JObj [(''failure'', manual_retry_failure task), (''attempt'', get task ''attempt''),
                         (''maxAttempts'', get task ''max_attempts'')]) no_budget r nowMs in
               seqM (pg_recordPolicyDecision e (JStr runId) (JStr taskId) ''retry'' d)
               (seqM (liftR (assertPolicyAllowed d ''runtime_policy_manual_retry_denied''))
               (seqM (pg_updateTask taskId retried_task_patch JUndef)
               (seqM (pg_updateRun runId [(''status'', JStr ''routed''), (''completed_at'', JNull), (''error_code'', JNull), (''error_message'', JNull)] JUndef id)
               (seqM (pg_event e (JStr runId) (JStr taskId) ''task.manual_retry''
                        (JObj [(''priorAttempt'', get task ''attempt''), (''source'', JStr ''context-engine-mcp'')]))
               (seqM (pg_requestReconcile e runId ''manual_retry'') (returnM ())))))))))))))"

subsection \<open>Starting a run\<close>

text \<open>The readiness of the execution plane: the required worker is healthy, or none is required.\<close>

definition health_reason :: "worker_health \<Rightarrow> string" where
  "health_reason w = (if \<not> wh_available w then ''worker_not_registered''
     else ''heartbeat_age_ms:'' @ (case wh_ageMs w of None \<Rightarrow> ''NaN'' | Some a \<Rightarrow> int_string a))"

definition assertAgentStartWorkerReadiness :: "worker_health option \<Rightarrow> bool \<Rightarrow> unit res" where
  "assertAgentStartWorkerReadiness worker required =
     (if \<not> required then Inr ()
      else case worker of
        None \<Rightarrow> Inl ''agent_runtime_worker_unavailable:heartbeat_age_ms:unknown''
      | Some w \<Rightarrow> if wh_healthy w then Inr () else Inl (''agent_runtime_worker_unavailable:'' @ health_reason w))"

definition assertExecutionPlaneReadyForStart :: "env \<Rightarrow> obj \<Rightarrow> unit pg_m" where
  "assertExecutionPlaneReadyForStart e penv =
     (let required = asBoolean (get penv ''AGENT_HARNESS_RUNTIME_WORKER_REQUIRED'') True;
          maxAgeMs = asInteger (get penv ''AGENT_HARNESS_RUNTIME_WORKER_HEARTBEAT_TIMEOUT_MS'') 45000 1000 300000 in
      bindM (if required then bindM (pg_runtimeWorkerHealth e maxAgeMs) (\<lambda>w. returnM (Some w)) else returnM None) (\<lambda>worker.
      liftR (assertAgentStartWorkerReadiness worker required)))"

record target_binding =
  bi_adapterId :: string
  bi_sessionId :: jsval
  bi_serverUrl :: jsval

datatype started = Reused string jsval bool | Created obj

definition reuse_payload :: "obj \<Rightarrow> jsval" where
  "reuse_payload invocation = JObj
     [(''origin'', coalesce (get invocation ''origin'') (JStr ''unknown'')), (''sessionId'', coalesce (get invocation ''sessionId'') JNull),
      (''callId'', coalesce (get invocation ''callId'') JNull), (''userMessageId'', coalesce (get invocation ''userMessageId'') JNull),
      (''provenanceSource'', coalesce (get invocation ''provenanceSource'') (JStr ''missing'')),
      (''historySource'', coalesce (get invocation ''historySource'') JNull),
      (''historyErrorCode'', coalesce (get invocation ''historyErrorCode'') JNull), (''authoritative'', JBool True), (''deduplicated'', JBool True)]"

text \<open>\<open>createOrReuse\<close>; \<open>plan\<close> is \<open>engine.plan\<close>, which creates the run in the store and returns its plan.\<close>

definition createOrReuse :: "env \<Rightarrow> obj \<Rightarrow> obj pg_m \<Rightarrow> string \<Rightarrow> target_binding option \<Rightarrow> obj \<Rightarrow> started pg_m" where
  "createOrReuse e penv plan request continuation invocation =
     (let create = seqM (assertExecutionPlaneReadyForStart e penv) (bindM plan (\<lambda>value. returnM (Created value))) in
      case continuation of
        None \<Rightarrow> create
      | Some b \<Rightarrow>
          bindM (pg_findActiveRunByContinuationTarget e (bi_adapterId b) (bi_sessionId b) (bi_serverUrl b)) (\<lambda>active.
          case active of
            None \<Rightarrow> create
          | Some run \<Rightarrow>
              seqM (whenM (get invocation ''provenanceSource'' = JStr ''opencode-plugin-sidechannel'')
                      (pg_event e (get run ''run_id'') JNull ''orchestrator.agent_start_provenance_accepted'' (reuse_payload invocation)))
              (returnM (Reused (js_string (get run ''run_id'')) (coalesce (field (get run ''plan_json'') ''phase'') JNull)
                 (trim (js_string (coalesce (get run ''request'') (JStr []))) = trim request)))))"

definition bindContinuation :: "env \<Rightarrow> string \<Rightarrow> target_binding \<Rightarrow> jsval \<Rightarrow> obj option pg_m" where
  "bindContinuation e runId b registration =
     bindM (pg_getRun runId) (\<lambda>found.
     case found of
       None \<Rightarrow> throwM (''run_not_found:'' @ runId)
     | Some run \<Rightarrow>
         seqM (guardM (\<not> status_in (get run ''status'') TERMINAL_RUN_STATUSES)
                 (''agent_continuation_bind_terminal_run_forbidden:'' @ runId @ '':'' @ js_string (get run ''status'')))
         (bindM (pg_findActiveRunByContinuationTarget e (bi_adapterId b) (bi_sessionId b) (bi_serverUrl b)) (\<lambda>active.
          seqM (guardM (case active of None \<Rightarrow> True | Some a \<Rightarrow> get a ''run_id'' = JStr runId)
                  (''agent_continuation_session_active_run_conflict:'' @ js_string (case active of None \<Rightarrow> JUndef | Some a \<Rightarrow> get a ''run_id'')))
          (seqM (pg_registerContinuation e runId registration)
          (bindM (pg_continuationState e runId) (\<lambda>state. returnM (continuationDiagnostic state (get run ''status''))))))))"

end
