(* ===== verification/ReconcilerProps.thy ===== *)
theory ReconcilerProps
  imports Reconciler PgStoreInv
begin

text \<open>
  The cascade of dependency failures ends and leaves no task waiting behind a failed one; a reconciliation keeps what
  the store keeps and always gives its lease back.
\<close>

subsection \<open>The cascade ends\<close>

text \<open>Task rows have distinct identifiers that are strings, as the primary key and the column type guarantee.\<close>

definition tasks_ok :: "db \<Rightarrow> bool" where
  "tasks_ok s \<longleftrightarrow> distinct (map (\<lambda>r. get r ''task_id'') (tables s Tasks))
     \<and> list_all (\<lambda>r. \<exists>i. get r ''task_id'' = JStr i) (tables s Tasks)"

text \<open>What cancelling the tasks named in \<open>ids\<close> does to a row.\<close>

definition cancel_rel :: "jsval set \<Rightarrow> obj \<Rightarrow> obj \<Rightarrow> bool" where
  "cancel_rel ids r r' \<longleftrightarrow> get r' ''task_id'' = get r ''task_id'' \<and> get r' ''run_id'' = get r ''run_id''
     \<and> (r' = r \<or> get r ''task_id'' \<in> ids \<and> get r' ''status'' = JStr ''cancelled'')"

lemma cancel_rel_trans: "cancel_rel A r r' \<Longrightarrow> cancel_rel B r' r'' \<Longrightarrow> cancel_rel (A \<union> B) r r''"
  by (auto simp: cancel_rel_def)

lemma cancel_rel_refl: "cancel_rel A r r"
  by (simp add: cancel_rel_def)

definition cancelled_row :: "string \<Rightarrow> obj \<Rightarrow> obj" where
  "cancelled_row now r = plus_one ''state_version'' (assign r (patch_entries TASK_PATCH_COLUMNS (cancelled_patch now)))"

lemma cancelled_entries: "patch_entries TASK_PATCH_COLUMNS (cancelled_patch now) = cancelled_patch now"
  by (simp add: patch_entries_def TASK_PATCH_COLUMNS_def cancelled_patch_def)

lemma cancelled_row_get:
  "get (cancelled_row now r) ''status'' = JStr ''cancelled''" "get (cancelled_row now r) ''task_id'' = get r ''task_id''"
  "get (cancelled_row now r) ''run_id'' = get r ''run_id''"
  unfolding cancelled_row_def cancelled_entries by (simp_all add: cancelled_patch_def plus_one_def)

lemma pg_event_outcome:
  "\<exists>r t. pg_event e runId taskId ty payload s = (r, t) \<and> (r = Inr () \<or> r = Inl ''duplicate_key'')
     \<and> tables t Tasks = tables s Tasks"
  by (simp add: pg_event_def bindM_def db_newId_def db_now_def sql_insert_def)

lemma cancel_doomed_outcome:
  assumes "get task ''task_id'' = JStr i"
  shows "\<exists>r t now. cancel_doomed e runId task s = (r, t) \<and> (r = Inr () \<or> r = Inl ''duplicate_key'')
    \<and> tables t Tasks = map (\<lambda>x. if get x ''task_id'' = JStr i then cancelled_row now x else x) (tables s Tasks)"
proof -
  define now where "now = clock e (db_tick s)"
  define s' where "s' = put_table Tasks (update_rows (\<lambda>x. get x ''task_id'' = JStr i) (cancelled_row now) (tables s Tasks))
     (s\<lparr>db_tick := Suc (db_tick s)\<rparr>)"
  have "patch_entries TASK_PATCH_COLUMNS (cancelled_patch now) \<noteq> []"
    unfolding cancelled_entries by (simp add: cancelled_patch_def)
  then have upd: "\<exists>out. pg_updateTask i (cancelled_patch now) JUndef (s\<lparr>db_tick := Suc (db_tick s)\<rparr>) = (Inr out, s')"
    by (auto simp: pg_updateTask_def bindM_def sql_update_def s'_def cancelled_row_def[abs_def])
  obtain r t where ev: "pg_event e runId (JStr i) ''task.cancelled'' (JObj [(''reason'', JStr ''dependency_failed'')]) s' = (r, t)"
    "r = Inr () \<or> r = Inl ''duplicate_key''" "tables t Tasks = tables s' Tasks"
    using pg_event_outcome by blast
  from upd obtain out where "pg_updateTask i (cancelled_patch now) JUndef (s\<lparr>db_tick := Suc (db_tick s)\<rparr>) = (Inr out, s')" by blast
  then have "cancel_doomed e runId task s = (r, t)"
    using ev(1) by (simp add: cancel_doomed_def bindM_def seqM_def db_now_def assms now_def)
  moreover have "tables s' Tasks = map (\<lambda>x. if get x ''task_id'' = JStr i then cancelled_row now x else x) (tables s Tasks)"
    by (simp add: s'_def update_rows_def)
  ultimately show ?thesis using ev by auto
qed

lemma cancel_all_outcome:
  assumes "list_all (\<lambda>task. \<exists>i. get task ''task_id'' = JStr i) selected"
  shows "\<exists>r t. forM (cancel_doomed e runId) selected s = (r, t) \<and> (r = Inr () \<or> r = Inl ''duplicate_key'')
    \<and> list_all2 (cancel_rel (set (map (\<lambda>x. get x ''task_id'') selected))) (tables s Tasks) (tables t Tasks)
    \<and> (r = Inr () \<longrightarrow> list_all (\<lambda>x. get x ''task_id'' \<in> set (map (\<lambda>x. get x ''task_id'') selected)
          \<longrightarrow> get x ''status'' = JStr ''cancelled'') (tables t Tasks))"
  using assms
proof (induction selected arbitrary: s)
  case Nil
  show ?case by (simp add: list_all2_refl cancel_rel_refl list_all_iff)
next
  case (Cons task selected)
  let ?ids = "set (map (\<lambda>x. get x ''task_id'') selected)"
  from Cons.prems obtain i where i: "get task ''task_id'' = JStr i" by auto
  obtain r t now where 1: "cancel_doomed e runId task s = (r, t)" "r = Inr () \<or> r = Inl ''duplicate_key''"
    and rows: "tables t Tasks = map (\<lambda>x. if get x ''task_id'' = JStr i then cancelled_row now x else x) (tables s Tasks)"
    using cancel_doomed_outcome[OF i] by blast
  have one: "list_all2 (cancel_rel {JStr i}) (tables s Tasks) (tables t Tasks)"
    unfolding rows by (auto simp: list_all2_conv_all_nth cancel_rel_def cancelled_row_get)
  show ?case
  proof (cases r)
    case (Inl err)
    then have "forM (cancel_doomed e runId) (task # selected) s = (r, t)"
      using 1(1) by (simp add: seqM_def bindM_def)
    moreover have "list_all2 (cancel_rel (set (map (\<lambda>x. get x ''task_id'') (task # selected)))) (tables s Tasks) (tables t Tasks)"
      using one by (rule list_all2_mono) (auto simp: cancel_rel_def i)
    ultimately show ?thesis using 1(2) Inl by auto
  next
    case (Inr u)
    from Cons.prems have "list_all (\<lambda>task. \<exists>i. get task ''task_id'' = JStr i) selected" by simp
    from Cons.IH[OF this, of t] obtain r' t' where 2: "forM (cancel_doomed e runId) selected t = (r', t')"
      "r' = Inr () \<or> r' = Inl ''duplicate_key''" "list_all2 (cancel_rel ?ids) (tables t Tasks) (tables t' Tasks)"
      "r' = Inr () \<longrightarrow> list_all (\<lambda>x. get x ''task_id'' \<in> ?ids \<longrightarrow> get x ''status'' = JStr ''cancelled'') (tables t' Tasks)" by blast
    have "forM (cancel_doomed e runId) (task # selected) s = (r', t')"
      using 1(1) Inr 2(1) by (simp add: seqM_def bindM_def)
    moreover have "list_all2 (cancel_rel (set (map (\<lambda>x. get x ''task_id'') (task # selected)))) (tables s Tasks) (tables t' Tasks)"
    proof (rule list_all2_trans[OF _ one 2(3)])
      fix a b c
      assume "cancel_rel {JStr i} a b" "cancel_rel ?ids b c"
      then have "cancel_rel ({JStr i} \<union> ?ids) a c" by (rule cancel_rel_trans)
      then show "cancel_rel (set (map (\<lambda>x. get x ''task_id'') (task # selected))) a c" by (simp add: i)
    qed
    moreover have "get x ''status'' = JStr ''cancelled''"
      if "x \<in> set (tables t' Tasks)" "get x ''task_id'' = JStr i" for x
    proof -
      from that(1) 2(3) obtain y where y: "y \<in> set (tables t Tasks)" "cancel_rel ?ids y x"
        by (metis list_all2_conv_all_nth in_set_conv_nth)
      with that(2) have "get y ''task_id'' = JStr i" by (simp add: cancel_rel_def)
      with y(1) rows have "get y ''status'' = JStr ''cancelled''" by (auto simp: cancelled_row_get split: if_splits)
      with y(2) show ?thesis by (auto simp: cancel_rel_def)
    qed
    ultimately show ?thesis using 2(2,4) by (auto simp: i list_all_iff)
  qed
qed

text \<open>What the cascade may do to a row: nothing, or cancel it when it was waiting.\<close>

definition task_cancelled :: "obj \<Rightarrow> obj \<Rightarrow> bool" where
  "task_cancelled r r' \<longleftrightarrow> get r' ''task_id'' = get r ''task_id'' \<and> get r' ''run_id'' = get r ''run_id''
     \<and> (r' = r \<or> waiting r \<and> get r' ''status'' = JStr ''cancelled'')"

lemma task_cancelled_trans: "task_cancelled r r' \<Longrightarrow> task_cancelled r' r'' \<Longrightarrow> task_cancelled r r''"
  by (auto simp: task_cancelled_def waiting_def)

lemma task_cancelled_refl: "task_cancelled r r"
  by (simp add: task_cancelled_def)

definition waiting_tasks :: "db \<Rightarrow> nat" where
  "waiting_tasks s = length (filter waiting (tables s Tasks))"

lemma cancelled_not_waiting: "get r ''status'' = JStr ''cancelled'' \<Longrightarrow> \<not> waiting r"
  by (simp add: waiting_def)

lemma fewer_waiting:
  "list_all2 task_cancelled xs ys \<Longrightarrow> length (filter waiting ys) \<le> length (filter waiting xs)
     \<and> (\<forall>x \<in> set xs. waiting x \<longrightarrow> (\<forall>y \<in> set ys. get y ''task_id'' = get x ''task_id'' \<longrightarrow> \<not> waiting y)
          \<longrightarrow> length (filter waiting ys) < length (filter waiting xs))"
proof (induction rule: list_all2_induct)
  case (Cons x xs y ys)
  from Cons.hyps have y: "waiting y \<Longrightarrow> waiting x" "get y ''task_id'' = get x ''task_id''"
    by (auto simp: task_cancelled_def cancelled_not_waiting)
  show ?case
  proof (intro conjI ballI impI)
    show "length (filter waiting (y # ys)) \<le> length (filter waiting (x # xs))" using Cons.IH y by auto
    fix z
    assume z: "z \<in> set (x # xs)" "waiting z" "\<forall>w \<in> set (y # ys). get w ''task_id'' = get z ''task_id'' \<longrightarrow> \<not> waiting w"
    show "length (filter waiting (y # ys)) < length (filter waiting (x # xs))"
    proof (cases "z = x")
      case True
      with z(2,3) y(2) have "waiting x" "\<not> waiting y" by auto
      with Cons.IH show ?thesis by auto
    next
      case False
      with z have "z \<in> set xs" "\<forall>w \<in> set ys. get w ''task_id'' = get z ''task_id'' \<longrightarrow> \<not> waiting w" by auto
      with Cons.IH z(2) have "length (filter waiting ys) < length (filter waiting xs)" by blast
      with y(1) show ?thesis by auto
    qed
  qed
qed simp

lemma set_order_by [simp]: "set (order_by e ks rows) = set rows"
  by (simp add: order_by_def)

definition run_tasks :: "env \<Rightarrow> jsval \<Rightarrow> db \<Rightarrow> obj list" where
  "run_tasks e runId s = order_by e [''task_id''] (filter (col_is ''run_id'' (JStr (js_string runId))) (tables s Tasks))"

definition doomed_tasks :: "env \<Rightarrow> jsval \<Rightarrow> db \<Rightarrow> obj list" where
  "doomed_tasks e runId s = filter (doomed (stateMap (run_tasks e runId s))) (run_tasks e runId s)"

lemma cascade_round_run:
  "cascade_round e runId s =
     (case forM (cancel_doomed e runId) (doomed_tasks e runId s) s of
        (Inl err, t) \<Rightarrow> (Inl err, t) | (Inr _, t) \<Rightarrow> (Inr (doomed_tasks e runId s \<noteq> []), t))"
  by (simp add: cascade_round_def pg_listTasks_def sql_select_def bindM_def seqM_def Let_def doomed_tasks_def run_tasks_def
      split: prod.splits sum.splits)

lemma doomed_tasks_rows: "task \<in> set (doomed_tasks e runId s) \<Longrightarrow> task \<in> set (tables s Tasks) \<and> waiting task"
  by (auto simp: doomed_tasks_def run_tasks_def doomed_def)

lemma tasks_ok_conv:
  "tasks_ok s \<longleftrightarrow> distinct (map (\<lambda>r. get r ''task_id'') (tables s Tasks))
     \<and> list_all (\<lambda>v. \<exists>i. v = JStr i) (map (\<lambda>r. get r ''task_id'') (tables s Tasks))"
  by (simp add: tasks_ok_def list_all_iff)

lemma tasks_ok_ids:
  assumes "tasks_ok s" and "list_all2 task_cancelled (tables s Tasks) (tables t Tasks)"
  shows "tasks_ok t"
proof -
  have "map (\<lambda>r. get r ''task_id'') (tables t Tasks) = map (\<lambda>r. get r ''task_id'') (tables s Tasks)"
    using assms(2) by (induction rule: list_all2_induct) (auto simp: task_cancelled_def)
  with assms(1) show ?thesis unfolding tasks_ok_conv by (simp only:)
qed

lemma cascade_round_outcome:
  assumes ok: "tasks_ok s"
  shows "\<exists>r t. cascade_round e runId s = (r, t) \<and> list_all2 task_cancelled (tables s Tasks) (tables t Tasks)
    \<and> (r = Inl ''duplicate_key'' \<or> r = Inr (doomed_tasks e runId s \<noteq> []))
    \<and> (r = Inr True \<longrightarrow> waiting_tasks t < waiting_tasks s) \<and> (r = Inr False \<longrightarrow> t = s)"
proof -
  let ?sel = "doomed_tasks e runId s"
  let ?ids = "set (map (\<lambda>x. get x ''task_id'') ?sel)"
  have "list_all (\<lambda>task. \<exists>i. get task ''task_id'' = JStr i) ?sel"
    using ok doomed_tasks_rows unfolding tasks_ok_def list_all_iff by blast
  from cancel_all_outcome[OF this, of e runId s] obtain r t where
    run: "forM (cancel_doomed e runId) ?sel s = (r, t)" "r = Inr () \<or> r = Inl ''duplicate_key''"
    and rel: "list_all2 (cancel_rel ?ids) (tables s Tasks) (tables t Tasks)"
    and cancelled: "r = Inr () \<longrightarrow> list_all (\<lambda>x. get x ''task_id'' \<in> ?ids \<longrightarrow> get x ''status'' = JStr ''cancelled'') (tables t Tasks)"
    by blast
  have waits: "waiting x" if "x \<in> set (tables s Tasks)" "get x ''task_id'' \<in> ?ids" for x
  proof -
    from that(2) obtain y where y: "y \<in> set ?sel" "get y ''task_id'' = get x ''task_id''" by auto
    with doomed_tasks_rows have "y \<in> set (tables s Tasks)" "waiting y" by blast+
    moreover have "inj_on (\<lambda>r. get r ''task_id'') (set (tables s Tasks))" using ok by (simp add: tasks_ok_def distinct_map)
    ultimately show ?thesis using y(2) that(1) by (metis inj_onD)
  qed
  have step: "list_all2 task_cancelled (tables s Tasks) (tables t Tasks)"
    using rel waits by (auto simp: list_all2_conv_all_nth cancel_rel_def task_cancelled_def)
  have fewer: "waiting_tasks t < waiting_tasks s" if "r = Inr ()" "?sel \<noteq> []"
  proof -
    from that(2) obtain x where "x \<in> set ?sel" by (cases ?sel) auto
    then have x: "x \<in> set (tables s Tasks)" "waiting x" "get x ''task_id'' \<in> ?ids" using doomed_tasks_rows by auto
    have "\<not> waiting y" if "y \<in> set (tables t Tasks)" "get y ''task_id'' = get x ''task_id''" for y
      using cancelled \<open>r = Inr ()\<close> that x(3) by (simp add: list_all_iff cancelled_not_waiting)
    with fewer_waiting[OF step] x(1,2) show ?thesis unfolding waiting_tasks_def by blast
  qed
  have same: "t = s" if "?sel = []" using run(1) that by simp
  show ?thesis
  proof (cases r)
    case (Inl err)
    then have "cascade_round e runId s = (Inl ''duplicate_key'', t)" using run by (simp add: cascade_round_run)
    with step show ?thesis by auto
  next
    case (Inr u)
    then have "cascade_round e runId s = (Inr (?sel \<noteq> []), t)" using run by (simp add: cascade_round_run)
    with step fewer same Inr show ?thesis by auto
  qed
qed

lemma cascade_ends:
  assumes "tasks_ok s"
  shows "\<exists>r t. cascade_loop e runId s = Some (r, t) \<and> list_all2 task_cancelled (tables s Tasks) (tables t Tasks)
    \<and> (r = Inl ''duplicate_key'' \<or> r = Inr () \<and> doomed_tasks e runId t = [])"
  using assms
proof (induction "waiting_tasks s" arbitrary: s rule: less_induct)
  case less
  obtain r t where round: "cascade_round e runId s = (r, t)" "list_all2 task_cancelled (tables s Tasks) (tables t Tasks)"
    "r = Inl ''duplicate_key'' \<or> r = Inr (doomed_tasks e runId s \<noteq> [])"
    "r = Inr True \<longrightarrow> waiting_tasks t < waiting_tasks s" "r = Inr False \<longrightarrow> t = s"
    using cascade_round_outcome[OF less.prems] by blast
  consider "r = Inl ''duplicate_key''" | "r = Inr False" | "r = Inr True" using round(3) by (cases "doomed_tasks e runId s \<noteq> []") auto
  then show ?case
  proof cases
    case 1
    then have "cascade_loop e runId s = Some (Inl ''duplicate_key'', t)"
      using round(1) by (subst cascade_loop.simps) simp
    with round(2) show ?thesis by blast
  next
    case 2
    then have "cascade_loop e runId s = Some (Inr (), t)" "doomed_tasks e runId t = []"
      using round by (subst cascade_loop.simps, auto)
    with round(2) show ?thesis by blast
  next
    case 3
    then have next_round: "cascade_loop e runId s = cascade_loop e runId t"
      using round(1) by (subst cascade_loop.simps) simp
    from less.hyps[of t] 3 round(4) tasks_ok_ids[OF less.prems round(2)] obtain r' u where
      rest: "cascade_loop e runId t = Some (r', u)" "list_all2 task_cancelled (tables t Tasks) (tables u Tasks)"
      "r' = Inl ''duplicate_key'' \<or> r' = Inr () \<and> doomed_tasks e runId u = []" by blast
    have "list_all2 task_cancelled (tables s Tasks) (tables u Tasks)"
      by (rule list_all2_trans[OF _ round(2) rest(2)]) (rule task_cancelled_trans)
    with next_round rest show ?thesis by auto
  qed
qed

text \<open>C22: the cascade of failed dependencies ends. From every database whose tasks have distinct identifiers the loop
  returns: either an insertion of an event failed on its key, or no waiting task of the run has a failed, blocked or
  cancelled dependency any more. In both cases every task row is as it was, or was waiting and is now cancelled.\<close>

theorem cascade_terminates:
  assumes "tasks_ok s"
  shows "\<exists>r t. cascade_loop e (get plan ''runId'') s = Some (r, t) \<and> cascadeDependencyFailures e plan s = (r, t)
    \<and> (r = Inl ''duplicate_key'' \<or> r = Inr () \<and> doomed_tasks e (get plan ''runId'') t = [])
    \<and> list_all2 task_cancelled (tables s Tasks) (tables t Tasks)"
proof -
  from cascade_ends[OF assms, of e "get plan ''runId''"] obtain r t where
    "cascade_loop e (get plan ''runId'') s = Some (r, t)" "list_all2 task_cancelled (tables s Tasks) (tables t Tasks)"
    "r = Inl ''duplicate_key'' \<or> r = Inr () \<and> doomed_tasks e (get plan ''runId'') t = []" by blast
  then show ?thesis by (simp add: cascadeDependencyFailures_def)
qed

definition sample_tasks :: db where
  "sample_tasks = db_init\<lparr>tables := (\<lambda>t. if t = Tasks then
      [[(''task_id'', JStr ''a''), (''run_id'', JStr ''r''), (''status'', JStr ''failed'')],
       [(''task_id'', JStr ''b''), (''run_id'', JStr ''r''), (''status'', JStr ''routed''), (''dependencies_json'', JArr [JStr ''a''])]]
      else [])\<rparr>"

theorem cascade_terminates_witness:
  "\<exists>r t. cascade_loop sample_env (get [(''runId'', JStr ''r'')] ''runId'') sample_tasks = Some (r, t)
    \<and> cascadeDependencyFailures sample_env [(''runId'', JStr ''r'')] sample_tasks = (r, t)
    \<and> (r = Inl ''duplicate_key'' \<or> r = Inr () \<and> doomed_tasks sample_env (get [(''runId'', JStr ''r'')] ''runId'') t = [])
    \<and> list_all2 task_cancelled (tables sample_tasks Tasks) (tables t Tasks)"
  by (rule cascade_terminates) (simp add: tasks_ok_def sample_tasks_def)

subsection \<open>The lease is given back\<close>

definition lease_held :: "string \<Rightarrow> string \<Rightarrow> obj \<Rightarrow> bool" where
  "lease_held runId ownerId r \<longleftrightarrow> col_is ''run_id'' (JStr runId) r \<and> col_is ''reconcile_lease_owner'' (JStr ownerId) r"

lemma pg_getRun_run: "pg_getRun runId s = (Inr (run_of s runId), s)"
  by (simp add: pg_getRun_def run_of_def sql_first_def)

lemma release_frees: "\<not> list_ex (lease_held runId ownerId) (tables (snd (catchM (pg_releaseRunReconcile runId ownerId) s)) Runs)"
  by (auto simp: catchM_def pg_releaseRunReconcile_def seqM_def bindM_def sql_update_def update_rows_def list_ex_iff
      lease_held_def col_is_def sql_eq_def col_def)

lemma finally_state: "finallyM m (catchM f) s = (r, t) \<Longrightarrow> \<exists>u. t = snd (catchM f u)"
  by (auto simp: finallyM_def catchM_def split: prod.splits)

lemma claim_unclaimed: "pg_claimRunReconcile e runId ownerId ms s = (Inr None, t) \<Longrightarrow> tables t = tables s"
proof -
  assume "pg_claimRunReconcile e runId ownerId ms s = (Inr None, t)"
  moreover have "filter P rows = [] \<Longrightarrow> update_rows P f rows = rows" for P f rows
    by (induction rows) (auto simp: update_rows_def split: if_splits)
  ultimately show ?thesis
    by (auto simp: pg_claimRunReconcile_def bindM_def db_now_plus_def db_now_def sql_update_def fun_eq_iff split: list.splits)
qed

text \<open>C20: a reconciliation never keeps its lease. Whatever the phases it calls do, and whether they return or throw, an
  owner that did not hold the lease of the run before the call does not hold it afterwards.\<close>

theorem reconcile_gives_lease_back:
  assumes "reconcileRun e rng h opts runId ownerId s = (r, t)" and "\<not> list_ex (lease_held runId ownerId) (tables s Runs)"
  shows "\<not> list_ex (lease_held runId ownerId) (tables t Runs)"
proof (cases "run_of s runId")
  case None
  with assms show ?thesis by (simp add: reconcileRun_def pg_getRun_run bindM_def)
next
  case (Some run)
  show ?thesis
  proof (cases "isTerminalRunStatus (get run ''status'')")
    case True
    with Some assms show ?thesis by (simp add: reconcileRun_def pg_getRun_run bindM_def)
  next
    case False
    obtain c u where claim: "pg_claimRunReconcile e runId ownerId 120000 s = (Inr c, u)"
      by (simp add: pg_claimRunReconcile_def bindM_def db_now_plus_def db_now_def sql_update_def)
    show ?thesis
    proof (cases c)
      case None
      with claim have "tables u = tables s" by (auto dest: claim_unclaimed)
      moreover have "t = u" using assms(1) Some False claim None by (simp add: reconcileRun_def pg_getRun_run bindM_def)
      ultimately show ?thesis using assms(2) by simp
    next
      case (Some row)
      with assms(1) \<open>run_of s runId = Some run\<close> False claim have
        "finallyM (reconcile_claimed e rng h opts runId) (catchM (pg_releaseRunReconcile runId ownerId)) u = (r, t)"
        by (simp add: reconcileRun_def pg_getRun_run bindM_def)
      from finally_state[OF this] release_frees show ?thesis by auto
    qed
  qed
qed

definition idle_host :: host where
  "idle_host = \<lparr>h_prepareTaskExecution = (\<lambda>plan task. returnM (Inl JUndef)), h_prefetchTaskPreparation = (\<lambda>plan task. returnM ()),
     h_finalizeExecutionResult = (\<lambda>plan task row. throwM ''broken''), h_finalizeExecution = (\<lambda>plan peak. returnM []),
     h_refineBootstrapTopologyIfReady = returnM, h_compileRefinedDagIfReady = returnM,
     h_bootstrapTopologyReadyForTask = (\<lambda>plan task. True)\<rparr>"

definition sample_options :: options where
  "sample_options = \<lparr>op_engine = default_engine sample_env, op_maxParallel = JNum 2, op_maxAttempts = JNum 3,
     op_executorCommand = JNull, op_workspaceMode = JNull, op_integrate = JBool True, op_env = []\<rparr>"

definition sample_run :: db where
  "sample_run = db_init\<lparr>tables := (\<lambda>t. if t = Runs then
      [[(''run_id'', JStr ''r''), (''status'', JStr ''running''), (''plan_json'', JObj [(''runId'', JStr ''r'')])]] else [])\<rparr>"

theorem reconcile_gives_lease_back_witness:
  "\<not> list_ex (lease_held ''r'' ''me'')
     (tables (snd (reconcileRun sample_env (\<lambda>_. 0) idle_host sample_options ''r'' ''me'' sample_run)) Runs)"
  by (rule reconcile_gives_lease_back[OF prod.collapse[symmetric]])
     (simp add: sample_run_def lease_held_def col_is_def sql_eq_def col_def)

subsection \<open>Dispatch stays within the capacity\<close>

lemma collect_length: "collectM f xs s = (Inr ys, t) \<Longrightarrow> length ys \<le> length xs"
proof (induction xs arbitrary: s ys t)
  case (Cons x xs)
  then obtain v s1 vs s2 where "f x s = (Inr v, s1)" "collectM f xs s1 = (Inr vs, s2)" "ys = (case v of None \<Rightarrow> vs | Some y \<Rightarrow> y # vs)"
    by (auto simp: bindM_Inr)
  with Cons.IH[of s1 vs s2] show ?case by (auto split: option.splits)
qed simp

text \<open>C21: dispatch respects \<open>maxParallel\<close>. When \<open>dispatchReadyTasks\<close> returns, the number of tasks it queued is at most the
  number of free slots, so the tasks that were active together with the new ones do not exceed \<open>maxParallel\<close> unless
  they already did, whatever the preparation of the tasks did.\<close>

theorem dispatch_within_capacity:
  assumes "dispatchReadyTasks e rng h opts plan tasks s = (Inr (dispatched, observed), t)"
  shows "dispatched \<le> slots tasks (op_maxParallel opts) \<and> observed = length (filter occupying tasks) + dispatched
    \<and> observed \<le> max (length (filter occupying tasks))
        (case js_number (coalesce (op_maxParallel opts) (JNum 1)) of None \<Rightarrow> 0 | Some n \<Rightarrow> nat n)"
proof -
  define now where "now = clock_ms e (db_tick s)"
  define chosen where "chosen = selectReadyDispatchTasks e tasks (op_maxParallel opts) now"
  have active: "sel_active chosen = length (filter occupying tasks)"
    by (simp add: chosen_def selectReadyDispatchTasks_def Let_def)
  have ready: "length (sel_ready chosen) \<le> slots tasks (op_maxParallel opts)"
    by (simp add: chosen_def ready_take)
  have "dispatched \<le> length (sel_ready chosen) \<and> observed = sel_active chosen + dispatched"
  proof (cases "sel_available chosen = Some 0")
    case True
    with assms show ?thesis by (auto simp: dispatchReadyTasks_def db_nowMs_def bindM_def Let_def now_def chosen_def)
  next
    case False
    with assms obtain prepared queued s1 s2 s3 s4 runStatus where
      "collectM (prepare_ready e rng h opts plan runStatus) (sel_ready chosen) s1 = (Inr prepared, s2)"
      "collectM (dispatch_prepared e plan) prepared s3 = (Inr queued, s4)"
      "dispatched = length queued" "observed = sel_active chosen + length queued"
      by (auto simp: dispatchReadyTasks_def db_nowMs_def bindM_Inr seqM_Inr Let_def now_def chosen_def)
    with collect_length[of "prepare_ready e rng h opts plan runStatus" "sel_ready chosen" s1 prepared s2]
      collect_length[of "dispatch_prepared e plan" prepared s3 queued s4] show ?thesis by simp
  qed
  with active ready show ?thesis by (auto simp: slots_def split: option.splits)
qed

definition sample_plan :: obj where
  "sample_plan = [(''runId'', JStr ''r''), (''tasks'', JArr [JObj [(''taskId'', JStr ''t'')]])]"

definition sample_task_rows :: "obj list" where
  "sample_task_rows = [[(''task_id'', JStr ''t''), (''run_id'', JStr ''r''), (''status'', JStr ''running'')],
     [(''task_id'', JStr ''u''), (''run_id'', JStr ''r''), (''status'', JStr ''routed''), (''dependencies_json'', JArr [JStr ''t''])]]"

lemma sample_selection:
  "selectReadyDispatchTasks sample_env sample_task_rows (JNum 2) now = \<lparr>sel_active = 1, sel_available = Some 1, sel_ready = []\<rparr>"
  by (simp add: selectReadyDispatchTasks_def Let_def sample_task_rows_def occupying_def eligible_def waiting_def retryWindowOpen_def
      dependenciesSatisfied_def stateMap_def task_dependencies_def state_of_def SUCCESS_TASK_STATUSES_def)

lemma sample_round:
  "fst (dispatchReadyTasks sample_env (\<lambda>_. 0) idle_host sample_options sample_plan sample_task_rows sample_run) = Inr (0, 1)"
  by (simp add: dispatchReadyTasks_def Let_def sample_selection sample_options_def sample_plan_def db_nowMs_def bindM_def seqM_def
      pg_getRun_run run_of_def sample_run_def db_init_def pg_event_def db_newId_def db_now_def sql_insert_def duplicate_def
      whenM_def pg_updateRun_def patch_entries_def RUN_PATCH_COLUMNS_def sql_update_def assertTerminalRunPatch_def
      update_rows_def patch_guard_def has_own_def col_in_def TERMINAL_RUN_STATUSES_def isTerminalRunStatus_def)

theorem dispatch_within_capacity_witness:
  "(0 :: nat) \<le> slots sample_task_rows (op_maxParallel sample_options) \<and> (1 :: nat) = length (filter occupying sample_task_rows) + 0
    \<and> (1 :: nat) \<le> max (length (filter occupying sample_task_rows))
        (case js_number (coalesce (op_maxParallel sample_options) (JNum 1)) of None \<Rightarrow> 0 | Some n \<Rightarrow> nat n)"
proof -
  obtain t where "dispatchReadyTasks sample_env (\<lambda>_. 0) idle_host sample_options sample_plan sample_task_rows sample_run = (Inr (0, 1), t)"
    using sample_round by (metis prod.collapse)
  then show ?thesis by (rule dispatch_within_capacity)
qed

end
