(* ===== verification/Progress.thy ===== *)
theory Progress
  imports ReconcilerProps
begin

text \<open>
  The scheduler does not get stuck. Over the rows of a run whose dependencies are acyclic and stay within the run, the
  cascade of failed dependencies (\<open>ReconcilerProps\<close>) and the selection of ready tasks (\<open>Scheduler\<close>)
  together leave no state in which work remains, nothing runs and nothing is selected.
\<close>

subsection \<open>Reading the state map\<close>

lemma fold_update_other:
  "k \<notin> f ` set xs \<Longrightarrow> map_of (fold (\<lambda>x m. AList.update (f x) (g x) m) xs m) k = map_of m k"
  by (induction xs arbitrary: m) (auto simp: update_conv')

lemma fold_update_own:
  "distinct (map f xs) \<Longrightarrow> x \<in> set xs \<Longrightarrow> map_of (fold (\<lambda>x m. AList.update (f x) (g x) m) xs m) (f x) = Some (g x)"
proof (induction xs arbitrary: m)
  case (Cons y xs)
  show ?case
  proof (cases "x = y")
    case True
    with Cons.prems(1) have "f x \<notin> f ` set xs" by simp
    with True show ?thesis by (simp add: fold_update_other update_conv')
  qed (use Cons in auto)
qed simp

lemma state_of_task:
  "distinct (map (\<lambda>r. get r ''task_id'') tasks) \<Longrightarrow> task \<in> set tasks \<Longrightarrow> state_of (stateMap tasks) (get task ''task_id'') = get task ''status''"
  using fold_update_own[of "\<lambda>r. get r ''task_id''" tasks task "\<lambda>r. get r ''status''" "[]"]
  by (simp add: state_of_def stateMap_def)

subsection \<open>A minimal open task is ready\<close>

definition has_ended :: "obj \<Rightarrow> bool" where
  "has_ended task \<longleftrightarrow> status_in (get task ''status'') TERMINAL_TASK_STATUSES"

definition depends :: "obj list \<Rightarrow> (jsval \<times> jsval) set" where
  "depends tasks = {(d, get task ''task_id'') | d task. task \<in> set tasks \<and> d \<in> set (task_dependencies task)}"

text \<open>The rows of one run: identifiers are unique, every status is one the runtime writes, and the dependencies are
  acyclic and name tasks of the run.\<close>

definition run_graph :: "obj list \<Rightarrow> bool" where
  "run_graph tasks \<longleftrightarrow> distinct (map (\<lambda>r. get r ''task_id'') tasks)
     \<and> list_all (\<lambda>task. waiting task \<or> occupying task \<or> has_ended task) tasks
     \<and> acyclic (depends tasks)
     \<and> list_all (\<lambda>task. set (task_dependencies task) \<subseteq> (\<lambda>r. get r ''task_id'') ` set tasks) tasks"

lemma finite_depends: "finite (depends tasks)"
proof -
  have "depends tasks = (\<Union>task \<in> set tasks. (\<lambda>d. (d, get task ''task_id'')) ` set (task_dependencies task))"
    by (auto simp: depends_def)
  then show ?thesis by simp
qed

lemma ended_cases: "has_ended task \<Longrightarrow>
    status_in (get task ''status'') SUCCESS_TASK_STATUSES \<or> status_in (get task ''status'') [''failed'', ''blocked'', ''cancelled'']"
  by (auto simp: has_ended_def status_in_def TERMINAL_TASK_STATUSES_def SUCCESS_TASK_STATUSES_def split: jsval.splits)

lemma ready_task_exists:
  assumes graph: "run_graph tasks" and open_task: "\<not> list_all has_ended tasks"
    and idle: "\<not> list_ex occupying tasks" and cascaded: "\<not> list_ex (doomed (stateMap tasks)) tasks"
  shows "\<exists>task \<in> set tasks. waiting task \<and> dependenciesSatisfied task (stateMap tasks)"
proof -
  let ?open = "{get task ''task_id'' | task. task \<in> set tasks \<and> \<not> has_ended task}"
  have "acyclic (depends tasks)" using graph by (simp add: run_graph_def)
  with finite_depends have wf: "wf (depends tasks)" by (rule finite_acyclic_wf)
  obtain first where "first \<in> set tasks" "\<not> has_ended first" using open_task by (auto simp: list_all_iff)
  then have "get first ''task_id'' \<in> ?open" by blast
  then obtain k where k: "k \<in> ?open" "\<And>d. (d, k) \<in> depends tasks \<Longrightarrow> d \<notin> ?open" by (rule wfE_min[OF wf]) blast
  from k(1) obtain task where task: "task \<in> set tasks" "\<not> has_ended task" "k = get task ''task_id''" by blast
  with graph idle have waits: "waiting task" by (auto simp: run_graph_def list_all_iff list_ex_iff)
  have "status_in (state_of (stateMap tasks) d) SUCCESS_TASK_STATUSES" if d: "d \<in> set (task_dependencies task)" for d
  proof -
    have "(d, k) \<in> depends tasks" using d task by (auto simp: depends_def)
    moreover obtain other where other: "other \<in> set tasks" "get other ''task_id'' = d"
    proof -
      have "set (task_dependencies task) \<subseteq> (\<lambda>r. get r ''task_id'') ` set tasks"
        using graph task(1) by (simp add: run_graph_def list_all_iff)
      with d show ?thesis using that by auto
    qed
    ultimately have "has_ended other" using k(2) by blast
    moreover have "state_of (stateMap tasks) d = get other ''status''"
      using state_of_task[of tasks other] graph other by (simp add: run_graph_def)
    moreover have "\<not> status_in (state_of (stateMap tasks) d) [''failed'', ''blocked'', ''cancelled'']"
      using cascaded task(1) waits d by (auto simp: list_ex_iff doomed_def dependenciesFailed_def)
    ultimately show ?thesis using ended_cases by metis
  qed
  with task(1) waits show ?thesis by (auto simp: dependenciesSatisfied_def list_all_iff)
qed

text \<open>C8: the scheduler makes progress. Take a run whose task rows have unique identifiers and acyclic dependencies within
  the run. After the cascade of failed dependencies has returned, and when every waiting task's retry window is open and
  \<open>maxParallel\<close> is at least one, either all tasks have ended, or a task is queued or running, or the selection is
  not empty: there is no deadlock.\<close>

theorem scheduler_progress:
  assumes "tasks_ok s" and "cascadeDependencyFailures e plan s = (Inr (), t)"
    and "tasks = run_tasks e (get plan ''runId'') t" and "run_graph tasks"
    and "\<forall>task \<in> set tasks. waiting task \<longrightarrow> retryWindowOpen e task now"
    and "js_number (coalesce maxParallel (JNum 1)) = Some n" and "0 < n"
  shows "list_all has_ended tasks \<or> list_ex occupying tasks
    \<or> sel_ready (selectReadyDispatchTasks e tasks maxParallel now) \<noteq> []"
proof -
  let ?runId = "get plan ''runId''"
  obtain r u where "cascade_loop e ?runId s = Some (r, u)" "r = Inl ''duplicate_key'' \<or> r = Inr () \<and> doomed_tasks e ?runId u = []"
    using cascade_ends[OF assms(1), of e ?runId] by blast
  with assms(2) have "doomed_tasks e ?runId t = []" by (auto simp: cascadeDependencyFailures_def)
  then have cascaded: "\<not> list_ex (doomed (stateMap tasks)) tasks"
    unfolding doomed_tasks_def assms(3)[symmetric] by (auto simp: filter_empty_conv list_ex_iff)
  have "sel_ready (selectReadyDispatchTasks e tasks maxParallel now) \<noteq> []"
    if unsettled: "\<not> list_all has_ended tasks" and idle: "\<not> list_ex occupying tasks"
  proof -
    obtain task where task: "task \<in> set tasks" "waiting task" "dependenciesSatisfied task (stateMap tasks)"
      using ready_task_exists[OF assms(4) unsettled idle cascaded] by blast
    with assms(5) have "task \<in> set (filter (eligible e tasks now) tasks)" by (simp add: eligible_def)
    then have "task \<in> set (foldr (insert_ordered (by_task_id e)) (filter (eligible e tasks now) tasks) [])"
      unfolding set_foldr_ordered .
    then have "foldr (insert_ordered (by_task_id e)) (filter (eligible e tasks now) tasks) [] \<noteq> []" by (rule list.set_cases) simp_all
    moreover have "filter occupying tasks = []" using idle by (auto simp: filter_empty_conv list_ex_iff)
    then have "slots tasks maxParallel \<noteq> 0" using assms(6,7) by (simp add: slots_def)
    ultimately show ?thesis unfolding ready_take take_eq_Nil by blast
  qed
  then show ?thesis by (cases "list_all has_ended tasks"; cases "list_ex occupying tasks") simp_all
qed

definition chain_tasks :: "obj list" where
  "chain_tasks =
     [[(''task_id'', JStr ''a''), (''run_id'', JStr ''r''), (''status'', JStr ''integrated'')],
      [(''task_id'', JStr ''b''), (''run_id'', JStr ''r''), (''status'', JStr ''routed''), (''dependencies_json'', JArr [JStr ''a''])]]"

definition chain_db :: db where
  "chain_db = db_init\<lparr>tables := (\<lambda>t. if t = Tasks then chain_tasks else [])\<rparr>"

theorem scheduler_progress_witness:
  "sel_ready (selectReadyDispatchTasks sample_env (run_tasks sample_env (JStr ''r'') chain_db) (JNum 2) 0) \<noteq> []"
proof -
  have rows: "run_tasks sample_env (JStr ''r'') chain_db = chain_tasks" by code_simp
  have none: "doomed_tasks sample_env (JStr ''r'') chain_db = []" by code_simp
  have ok: "tasks_ok chain_db" by (simp add: tasks_ok_def chain_db_def chain_tasks_def)
  have ended: "cascadeDependencyFailures sample_env [(''runId'', JStr ''r'')] chain_db = (Inr (), chain_db)"
    unfolding cascadeDependencyFailures_def
    by (subst cascade_loop.simps) (simp add: cascade_round_run none)
  have "depends chain_tasks \<subseteq> {(JStr ''a'', JStr ''b'')}"
    by (auto simp: depends_def chain_tasks_def task_dependencies_def)
  moreover have "acyclic {(JStr ''a'', JStr ''b'')}" unfolding acyclic_insert by (simp add: acyclic_def)
  ultimately have "acyclic (depends chain_tasks)" by (rule acyclic_subset[rotated])
  then have graph: "run_graph chain_tasks"
    by (simp add: run_graph_def) (simp add: chain_tasks_def task_dependencies_def waiting_def has_ended_def TERMINAL_TASK_STATUSES_def)
  have open_windows: "\<forall>task \<in> set chain_tasks. waiting task \<longrightarrow> retryWindowOpen sample_env task 0"
    by (simp add: chain_tasks_def waiting_def retryWindowOpen_def)
  have "\<not> list_all has_ended chain_tasks" "\<not> list_ex occupying chain_tasks" by code_simp+
  then show ?thesis
    using scheduler_progress[OF ok ended, of chain_tasks 0 "JNum 2" 2] graph open_windows rows by simp
qed

end
