(* ===== verification/StoreRefinement.thy ===== *)
theory StoreRefinement
  imports MemStoreProps PgStoreProps
begin

text \<open>
  The abstract run register that both orchestration stores implement. A run is a finite record of
  columns; \<open>updateRun\<close> is a guarded compare-and-swap on it: an unknown run is reported, a stale version or
  a change of an ended run is refused without effect, and everything else writes the patched columns and
  raises the version. The locale \<open>run_register\<close> states that a concrete \<open>updateRun\<close> refines this
  specification through an abstraction function; it is interpreted on the in-memory store
  (\<^verbatim>\<open>in-memory-test-store.mjs\<close>) and on the PostgreSQL store (\<^verbatim>\<open>store.mjs\<close>), so that whatever tests show
  on the former holds of the latter.
\<close>

subsection \<open>The specification\<close>

type_synonym run_view = "string \<Rightarrow> jsval"

datatype update_outcome = Missing | Declined | Written run_view

definition spec_write :: "obj \<Rightarrow> run_view \<Rightarrow> run_view" where
  "spec_write patch view = (\<lambda>k.
     if k = ''state_version'' then JNum (num_or 0 (view k) + 1)
     else if has_own patch k then coalesce (get patch k) JNull else view k)"

definition spec_refuses :: "obj \<Rightarrow> jsval \<Rightarrow> run_view \<Rightarrow> bool" where
  "spec_refuses patch expectedVersion view \<longleftrightarrow>
     (expectedVersion \<noteq> JUndef \<and> view ''state_version'' \<noteq> expectedVersion)
     \<or> isTerminalRunStatus (view ''status'')
       \<and> (\<exists>k \<in> {''status'', ''completed_at''}. has_own patch k \<and> coalesce (get patch k) JNull \<noteq> view k)"

definition spec_updateRun :: "string \<Rightarrow> obj \<Rightarrow> jsval \<Rightarrow> (string \<rightharpoonup> run_view) \<Rightarrow> update_outcome \<times> (string \<rightharpoonup> run_view)" where
  "spec_updateRun runId patch expectedVersion reg =
     (case reg runId of
        None \<Rightarrow> (Missing, reg)
      | Some view \<Rightarrow>
          if spec_refuses patch expectedVersion view then (Declined, reg)
          else (Written (spec_write patch view), reg(runId \<mapsto> spec_write patch view)))"

text \<open>The patches the runtime writes: at least one column, each once, all among the columns a run patch may set.\<close>

definition run_patch :: "obj \<Rightarrow> bool" where
  "run_patch patch \<longleftrightarrow> patch \<noteq> [] \<and> distinct (map fst patch) \<and> fst ` set patch \<subseteq> set RUN_PATCH_COLUMNS"

definition outcome_of :: "obj option res \<Rightarrow> update_outcome" where
  "outcome_of r = (case r of Inl _ \<Rightarrow> Declined | Inr None \<Rightarrow> Missing | Inr (Some row) \<Rightarrow> Written (col row))"

type_synonym update_call = "string \<times> obj \<times> jsval"

fun spec_updates :: "update_call list \<Rightarrow> (string \<rightharpoonup> run_view) \<Rightarrow> update_outcome list \<times> (string \<rightharpoonup> run_view)" where
  "spec_updates [] reg = ([], reg)"
| "spec_updates ((runId, patch, expected) # calls) reg =
     (let (out, reg') = spec_updateRun runId patch expected reg; (outs, reg'') = spec_updates calls reg' in (out # outs, reg''))"

fun updates :: "(string \<Rightarrow> obj \<Rightarrow> jsval \<Rightarrow> ('s, obj option) sm) \<Rightarrow> update_call list \<Rightarrow> 's \<Rightarrow> update_outcome list \<times> 's" where
  "updates upd [] s = ([], s)"
| "updates upd ((runId, patch, expected) # calls) s =
     (let (r, s') = upd runId patch expected s; (outs, s'') = updates upd calls s' in (outcome_of r # outs, s''))"

definition run_patches :: "update_call list \<Rightarrow> bool" where
  "run_patches calls \<longleftrightarrow> list_all (\<lambda>(runId, patch, expected). run_patch patch) calls"

subsection \<open>The contract\<close>

locale run_register =
  fixes upd :: "string \<Rightarrow> obj \<Rightarrow> jsval \<Rightarrow> ('s, obj option) sm"
    and runs :: "'s \<Rightarrow> (string \<rightharpoonup> run_view)"
    and inv :: "'s \<Rightarrow> bool"
  assumes upd_refines: "inv s \<Longrightarrow> run_patch patch \<Longrightarrow> upd runId patch expected s = (r, t) \<Longrightarrow>
      spec_updateRun runId patch expected (runs s) = (outcome_of r, runs t)"
    and upd_inv: "inv s \<Longrightarrow> run_patch patch \<Longrightarrow> upd runId patch expected s = (r, t) \<Longrightarrow> inv t"
begin

lemma updates_refine:
  "inv s \<Longrightarrow> run_patches calls \<Longrightarrow> updates upd calls s = (outs, t) \<Longrightarrow>
     spec_updates calls (runs s) = (outs, runs t) \<and> inv t"
proof (induction calls arbitrary: s outs)
  case (Cons call calls)
  obtain runId patch expected where call: "call = (runId, patch, expected)" by (cases call)
  obtain r s' where step: "upd runId patch expected s = (r, s')" by (cases "upd runId patch expected s")
  obtain outs' where rest: "updates upd calls s' = (outs', t)" "outs = outcome_of r # outs'"
    using Cons.prems(3) by (auto simp: call step split: prod.splits)
  from Cons.prems(2) have ok: "run_patch patch" "run_patches calls" by (simp_all add: call run_patches_def)
  from Cons.IH[OF upd_inv[OF Cons.prems(1) ok(1) step] ok(2) rest(1)] upd_refines[OF Cons.prems(1) ok(1) step] rest(2)
  show ?case by (simp add: call)
qed simp

end

subsection \<open>A written row\<close>

definition numbered_version :: "obj \<Rightarrow> bool" where
  "numbered_version row \<longleftrightarrow> (\<exists>n. get row ''state_version'' = JNum n)"

lemma col_version: "numbered_version row \<Longrightarrow> col row ''state_version'' = get row ''state_version''"
  by (auto simp: numbered_version_def col_def coalesce_def)

lemma run_patch_no_version: "run_patch patch \<Longrightarrow> \<not> has_own patch ''state_version''"
  by (auto simp: run_patch_def has_own_def RUN_PATCH_COLUMNS_def dest: subsetD)

lemma run_patch_no_id: "run_patch patch \<Longrightarrow> \<not> has_own patch ''run_id''"
  by (auto simp: run_patch_def has_own_def RUN_PATCH_COLUMNS_def dest: subsetD)

lemma bumped_view:
  assumes "run_patch patch" and "numbered_version row"
  shows "col (bump_version (assign row patch)) = spec_write patch (col row)" and "numbered_version (bump_version (assign row patch))"
  using assms run_patch_no_version[OF assms(1)]
  by (auto simp: fun_eq_iff col_def spec_write_def bump_version_def incr_def numbered_version_def coalesce_def num_or_def
      get_assign_own get_assign_other run_patch_def)

lemma entries_of_run_patch:
  assumes "run_patch patch"
  shows "patch_entries RUN_PATCH_COLUMNS patch = map (\<lambda>(k, v). (k, coalesce v JNull)) patch"
    and "patch_entries RUN_PATCH_COLUMNS patch \<noteq> []"
    and "has_own (patch_entries RUN_PATCH_COLUMNS patch) k = has_own patch k"
    and "has_own patch k \<Longrightarrow> get (patch_entries RUN_PATCH_COLUMNS patch) k = coalesce (get patch k) JNull"
proof -
  have all: "filter (\<lambda>(k, v). k \<in> set RUN_PATCH_COLUMNS) patch = patch"
    using assms by (auto simp: run_patch_def filter_id_conv)
  then show eq: "patch_entries RUN_PATCH_COLUMNS patch = map (\<lambda>(k, v). (k, coalesce v JNull)) patch"
    by (simp add: patch_entries_def)
  show "patch_entries RUN_PATCH_COLUMNS patch \<noteq> []" using assms by (simp add: eq run_patch_def)
  show "has_own (patch_entries RUN_PATCH_COLUMNS patch) k = has_own patch k"
    by (auto simp: eq has_own_def image_image case_prod_beta)
  show "get (patch_entries RUN_PATCH_COLUMNS patch) k = coalesce (get patch k) JNull" if "has_own patch k"
    using that unfolding eq by (induction patch) (force simp: has_own_def)+
qed

lemma written_view:
  assumes "run_patch patch" and "numbered_version row"
  shows "col (plus_one ''state_version'' (assign row (patch_entries RUN_PATCH_COLUMNS patch))) = spec_write patch (col row)"
    and "numbered_version (plus_one ''state_version'' (assign row (patch_entries RUN_PATCH_COLUMNS patch)))"
proof -
  let ?es = "patch_entries RUN_PATCH_COLUMNS patch"
  have dist: "distinct (map fst ?es)"
    using assms(1) by (simp add: entries_of_run_patch run_patch_def case_prod_beta comp_def)
  have "get (assign row ?es) k = (if has_own patch k then coalesce (get patch k) JNull else get row k)" for k
    using entries_of_run_patch[OF assms(1)] dist by (simp add: get_assign_own get_assign_other)
  with assms(2) run_patch_no_version[OF assms(1)]
  show "col (plus_one ''state_version'' (assign row ?es)) = spec_write patch (col row)"
    by (auto simp: fun_eq_iff col_def spec_write_def plus_one_def numbered_version_def coalesce_def)
  show "numbered_version (plus_one ''state_version'' (assign row ?es))"
    by (simp add: plus_one_def numbered_version_def)
qed

lemma guard_refuses:
  "assertTerminalRunPatch (Some row) patch = Inr () \<longleftrightarrow>
     \<not> (isTerminalRunStatus (col row ''status'')
        \<and> (\<exists>k \<in> {''status'', ''completed_at''}. has_own patch k \<and> coalesce (get patch k) JNull \<noteq> col row k))"
proof (cases "isTerminalRunStatus (get row ''status'')")
  case True
  then have "col row ''status'' = get row ''status''" by (auto simp: col_def coalesce_def dest: terminal_status_truthy)
  with True show ?thesis by (auto simp: assertTerminalRunPatch_def Let_def col_def)
next
  case False
  have "isTerminalRunStatus (col row ''status'') = isTerminalRunStatus (get row ''status'')"
    by (auto simp: col_def isTerminalRunStatus_def coalesce_def)
  with False show ?thesis by simp
qed

lemma refuses_iff:
  assumes "numbered_version row"
  shows "spec_refuses patch expected (col row) \<longleftrightarrow>
    version_conflict expected row \<or> assertTerminalRunPatch (Some row) patch \<noteq> Inr ()"
  unfolding spec_refuses_def version_conflict_def guard_refuses col_version[OF assms] by blast

subsection \<open>The in-memory store\<close>

definition mem_runs :: "mem_store \<Rightarrow> (string \<rightharpoonup> run_view)" where
  "mem_runs s = (\<lambda>runId. map_option col (map_of (ms_runs s) runId))"

definition mem_versions :: "mem_store \<Rightarrow> bool" where
  "mem_versions s \<longleftrightarrow> list_all (\<lambda>kr. numbered_version (snd kr)) (ms_runs s)"

interpretation mem_register: run_register mem_updateRun mem_runs mem_versions
proof
  fix s t :: mem_store and patch expected runId r
  assume inv: "mem_versions s" and patch: "run_patch patch" and run: "mem_updateRun runId patch expected s = (r, t)"
  have "spec_updateRun runId patch expected (mem_runs s) = (outcome_of r, mem_runs t) \<and> mem_versions t"
  proof (cases "map_of (ms_runs s) runId")
    case None
    with run inv show ?thesis by (auto simp: mem_updateRun_run spec_updateRun_def mem_runs_def outcome_of_def)
  next
    case (Some row)
    then have numbered: "numbered_version row" using inv map_of_SomeD[OF Some] by (force simp: mem_versions_def list_all_iff)
    let ?row = "bump_version (assign row patch)"
    show ?thesis
    proof (cases "spec_refuses patch expected (col row)")
      case True
      with run Some inv refuses_iff[OF numbered] show ?thesis
        by (auto simp: mem_updateRun_run spec_updateRun_def mem_runs_def outcome_of_def split: sum.splits if_splits)
    next
      case False
      with refuses_iff[OF numbered] have ok: "\<not> version_conflict expected row" "assertTerminalRunPatch (Some row) patch = Inr ()"
        by blast+
      with run Some have "r = Inr (Some ?row)" "t = s\<lparr>ms_runs := AList.update runId ?row (ms_runs s)\<rparr>"
        by (simp_all add: mem_updateRun_run)
      moreover have "mem_versions (s\<lparr>ms_runs := AList.update runId ?row (ms_runs s)\<rparr>)"
        using inv bumped_view(2)[OF patch numbered] by (simp add: mem_versions_def list_all_update)
      ultimately show ?thesis
        using Some False bumped_view(1)[OF patch numbered]
        by (simp add: spec_updateRun_def mem_runs_def outcome_of_def update_conv' fun_eq_iff)
    qed
  qed
  then show "spec_updateRun runId patch expected (mem_runs s) = (outcome_of r, mem_runs t)" "mem_versions t" by blast+
qed

subsection \<open>The PostgreSQL store\<close>

definition pg_runs :: "db \<Rightarrow> (string \<rightharpoonup> run_view)" where
  "pg_runs s = (\<lambda>runId. map_option col (run_of s runId))"

definition pg_versions :: "db \<Rightarrow> bool" where
  "pg_versions s \<longleftrightarrow> pg_unique s \<and> list_all numbered_version (tables s Runs)"

text \<open>A call during which no other client writes.\<close>

definition pg_updateRun_alone :: "string \<Rightarrow> obj \<Rightarrow> jsval \<Rightarrow> obj option pg_m" where
  "pg_updateRun_alone runId patch expectedVersion = pg_updateRun runId patch expectedVersion id"

lemma terminal_column: "col_in ''status'' TERMINAL_RUN_STATUSES row = isTerminalRunStatus (col row ''status'')"
  by (auto simp: col_in_def isTerminalRunStatus_def col_def coalesce_def TERMINAL_RUN_STATUSES_def)

lemma guards_iff:
  "patch_guard patch ''status'' row \<and> patch_guard patch ''completed_at'' row \<longleftrightarrow> assertTerminalRunPatch (Some row) patch = Inr ()"
  unfolding guard_refuses patch_guard_def terminal_column by auto

lemma filter_single: "filter P xs = [x] \<Longrightarrow> filter (\<lambda>r. P r \<and> Q r) xs = (if Q x then [x] else [])"
  using filter_filter[of Q P xs] by (auto split: if_splits)

lemma if_flip: "b = (\<not> c) \<Longrightarrow> (if b then x else y) = (if c then y else x)"
  by simp

lemma statement_selects:
  assumes "pg_versions s" and "run_of s runId = Some row"
  shows "filter (\<lambda>r. col_is ''run_id'' (JStr runId) r \<and> patch_guard patch ''status'' r \<and> patch_guard patch ''completed_at'' r
      \<and> (expected \<noteq> JUndef \<longrightarrow> col_is ''state_version'' expected r)) (tables s Runs)
    = (if spec_refuses patch expected (col row) then [] else [row])"
proof -
  have only: "filter (col_is ''run_id'' (JStr runId)) (tables s Runs) = [row]"
    using assms unique_find[of s "''run_id''" runId Runs row] by (simp add: pg_versions_def run_of_def)
  have "numbered_version row"
    using assms by (auto simp: pg_versions_def run_of_def list_all_iff find_Some_iff)
  then have "(patch_guard patch ''status'' row \<and> patch_guard patch ''completed_at'' row
      \<and> (expected \<noteq> JUndef \<longrightarrow> col_is ''state_version'' expected row)) = (\<not> spec_refuses patch expected (col row))"
    unfolding refuses_iff[OF \<open>numbered_version row\<close>] guards_iff[symmetric]
    by (auto simp: version_conflict_def col_is_def sql_eq_def numbered_version_def col_def coalesce_def)
  then show ?thesis unfolding filter_single[OF only] by (rule if_flip)
qed

lemma pg_updateRun_alone_run:
  assumes "pg_versions s" and "run_patch patch"
  defines "written \<equiv> (\<lambda>r. plus_one ''state_version'' (assign r (patch_entries RUN_PATCH_COLUMNS patch)))"
  shows "run_of s runId = None \<Longrightarrow> pg_updateRun_alone runId patch expected s = (Inr None, s)"
    and "run_of s runId = Some row \<Longrightarrow> spec_refuses patch expected (col row) \<Longrightarrow>
           \<exists>msg. pg_updateRun_alone runId patch expected s = (Inl msg, s)"
    and "run_of s runId = Some row \<Longrightarrow> \<not> spec_refuses patch expected (col row) \<Longrightarrow>
           \<exists>P. P row \<and> (\<forall>r \<in> set (tables s Runs). P r \<longrightarrow> r = row)
             \<and> pg_updateRun_alone runId patch expected s = (Inr (Some (written row)), put_table Runs (update_rows P written (tables s Runs)) s)"
proof -
  let ?P = "\<lambda>r. col_is ''run_id'' (JStr runId) r \<and> patch_guard patch ''status'' r \<and> patch_guard patch ''completed_at'' r
      \<and> (expected \<noteq> JUndef \<longrightarrow> col_is ''state_version'' expected r)"
  note def = pg_updateRun_alone_def pg_updateRun_def entries_of_run_patch(2)[OF assms(2)] pg_getRun_def sql_first_def
  show "pg_updateRun_alone runId patch expected s = (Inr None, s)" if "run_of s runId = None"
    using that by (simp add: def run_of_def)
  have numbered: "numbered_version row" if "run_of s runId = Some row"
    using that assms(1) by (auto simp: pg_versions_def run_of_def list_all_iff find_Some_iff)
  show "\<exists>msg. pg_updateRun_alone runId patch expected s = (Inl msg, s)"
    if row: "run_of s runId = Some row" and refused: "spec_refuses patch expected (col row)"
  proof (cases "assertTerminalRunPatch (Some row) patch")
    case (Inr _)
    with refused refuses_iff[OF numbered[OF row]] have conflict: "expected \<noteq> JUndef" "get row ''state_version'' \<noteq> expected"
      by (auto simp: version_conflict_def)
    have none: "filter ?P (tables s Runs) = []" using statement_selects[OF assms(1) row] refused by simp
    then have "update_rows ?P written (tables s Runs) = tables s Runs"
      by (intro update_rows_unchanged) (auto simp: filter_empty_conv)
    with row Inr conflict none show ?thesis
      unfolding written_def
      by (simp add: def run_of_def sql_update_def bindM_def seqM_def put_table_def Let_def guardM_def)
  qed (use row in \<open>simp add: def run_of_def seqM_def\<close>)
  show "\<exists>P. P row \<and> (\<forall>r \<in> set (tables s Runs). P r \<longrightarrow> r = row)
      \<and> pg_updateRun_alone runId patch expected s = (Inr (Some (written row)), put_table Runs (update_rows P written (tables s Runs)) s)"
    if row: "run_of s runId = Some row" and ok: "\<not> spec_refuses patch expected (col row)"
  proof (intro exI conjI)
    have one: "filter ?P (tables s Runs) = [row]" using statement_selects[OF assms(1) row] ok by simp
    then have "row \<in> set (filter ?P (tables s Runs))" by simp
    then show "?P row" by simp
    show "\<forall>r \<in> set (tables s Runs). ?P r \<longrightarrow> r = row"
    proof (intro ballI impI)
      fix r assume "r \<in> set (tables s Runs)" "?P r"
      then have "r \<in> set (filter ?P (tables s Runs))" by simp
      with one show "r = row" by simp
    qed
    have "assertTerminalRunPatch (Some row) patch = Inr ()" using ok refuses_iff[OF numbered[OF row]] by blast
    with row one show "pg_updateRun_alone runId patch expected s
        = (Inr (Some (written row)), put_table Runs (update_rows ?P written (tables s Runs)) s)"
      unfolding written_def by (simp add: def run_of_def sql_update_def bindM_def seqM_def)
  qed
qed

interpretation pg_register: run_register pg_updateRun_alone pg_runs pg_versions
proof
  fix s t :: db and patch expected runId r
  assume inv: "pg_versions s" and patch: "run_patch patch" and run: "pg_updateRun_alone runId patch expected s = (r, t)"
  let ?written = "\<lambda>row. plus_one ''state_version'' (assign row (patch_entries RUN_PATCH_COLUMNS patch))"
  note calls = pg_updateRun_alone_run[OF inv patch, where runId = runId and expected = expected]
  have uniq: "pg_unique t"
    using pgu.keepsD[OF pgu_updateRun[of id] run[unfolded pg_updateRun_alone_def]] inv
    by (auto simp: pg_unique_step_def pg_versions_def)
  have "spec_updateRun runId patch expected (pg_runs s) = (outcome_of r, pg_runs t) \<and> list_all numbered_version (tables t Runs)"
  proof (cases "run_of s runId")
    case None
    with run inv calls(1) show ?thesis by (auto simp: spec_updateRun_def pg_runs_def outcome_of_def pg_versions_def)
  next
    case (Some row)
    then have numbered: "numbered_version row"
      using inv by (auto simp: pg_versions_def run_of_def list_all_iff find_Some_iff)
    show ?thesis
    proof (cases "spec_refuses patch expected (col row)")
      case True
      with run calls(2)[OF Some True] Some inv show ?thesis
        by (auto simp: spec_updateRun_def pg_runs_def outcome_of_def pg_versions_def)
    next
      case False
      from calls(3)[OF Some False] run obtain P where P: "P row" "\<forall>r \<in> set (tables s Runs). P r \<longrightarrow> r = row"
        and r: "r = Inr (Some (?written row))" and t: "t = put_table Runs (update_rows P ?written (tables s Runs)) s" by auto
      have id: "col_is ''run_id'' (JStr k) (?written q) = col_is ''run_id'' (JStr k) q" for k q
        using keys_not_patched(1) by (simp add: col_is_def col_def plus_one_def get_patched_other)
      have key: "col_is ''run_id'' (JStr k) row \<Longrightarrow> k = runId" for k
        using Some by (auto simp: run_of_def find_Some_iff col_is_def sql_eq_def)
      have found: "find (col_is ''run_id'' (JStr k)) (tables t Runs)
          = map_option (\<lambda>r. if P r then ?written r else r) (find (col_is ''run_id'' (JStr k)) (tables s Runs))" for k
        unfolding t put_table_def using find_update_rows[where f = ?written and Q = "col_is ''run_id'' (JStr k)", OF id] by simp
      have other: "\<not> P q" if "find (col_is ''run_id'' (JStr k)) (tables s Runs) = Some q" "k \<noteq> runId" for k q
      proof -
        from that(1) have "q \<in> set (tables s Runs)" "col_is ''run_id'' (JStr k) q" by (auto simp: find_Some_iff)
        with that(2) key P(2) show ?thesis by metis
      qed
      have "pg_runs t k = ((pg_runs s)(runId \<mapsto> spec_write patch (col row))) k" for k
        using Some[unfolded run_of_def] P(1) other[of k] written_view(1)[OF patch numbered]
        by (cases "find (col_is ''run_id'' (JStr k)) (tables s Runs)") (auto simp: pg_runs_def run_of_def found)
      moreover have "list_all numbered_version (tables t Runs)"
        using inv P written_view(2)[OF patch numbered] by (auto simp: t put_table_def update_rows_def pg_versions_def list_all_iff)
      ultimately show ?thesis
        using Some False r written_view(1)[OF patch numbered] by (auto simp: spec_updateRun_def pg_runs_def outcome_of_def)
    qed
  qed
  with uniq show "spec_updateRun runId patch expected (pg_runs s) = (outcome_of r, pg_runs t)" "pg_versions t"
    by (simp_all add: pg_versions_def)
qed

subsection \<open>Both stores implement the register\<close>

text \<open>C7: the two stores are the same register. Started with the same runs and given the same run patches, with or
  without an expected version, the in-memory store and the PostgreSQL store answer every call alike, which is the
  answer of the specification (the written columns, a missing run, or a refusal that changes nothing), and end
  with the same runs.\<close>

theorem stores_refine_register:
  assumes "mem_versions m" and "pg_versions d" and "mem_runs m = pg_runs d" and "run_patches calls"
    and "updates mem_updateRun calls m = (mem_outs, m')" and "updates pg_updateRun_alone calls d = (pg_outs, d')"
  shows "spec_updates calls (pg_runs d) = (pg_outs, pg_runs d') \<and> mem_outs = pg_outs \<and> mem_runs m' = pg_runs d'"
  using mem_register.updates_refine[OF assms(1,4,5)] pg_register.updates_refine[OF assms(2,4,6)] assms(3) by simp

text \<open>A closing update, the same one from a stale reader, and a late attempt to fail the closed run.\<close>

definition sample_calls :: "update_call list" where
  "sample_calls = [(''r1'', [(''status'', JStr ''closed''), (''completed_at'', JStr ''t'')], JNum 1),
     (''r1'', [(''status'', JStr ''failed'')], JNum 1), (''r1'', [(''status'', JStr ''failed'')], JUndef),
     (''r2'', [(''status'', JStr ''failed'')], JUndef)]"

definition plain_run :: obj where
  "plain_run = [(''run_id'', JStr ''r1''), (''status'', JStr ''running''), (''state_version'', JNum 1)]"

theorem stores_refine_register_witness:
  "map (\<lambda>out. case out of Written view \<Rightarrow> Some (view ''status'', view ''state_version'') | _ \<Rightarrow> None)
      (fst (updates pg_updateRun_alone sample_calls (db_init\<lparr>tables := (\<lambda>t. if t = Runs then [plain_run] else [])\<rparr>)))
    = [Some (JStr ''closed'', JNum 2), None, None, None]
   \<and> fst (updates pg_updateRun_alone sample_calls (db_init\<lparr>tables := (\<lambda>t. if t = Runs then [plain_run] else [])\<rparr>))
    = fst (updates mem_updateRun sample_calls (mem_init\<lparr>ms_runs := [(''r1'', plain_run)]\<rparr>))"
proof -
  let ?d = "db_init\<lparr>tables := (\<lambda>t. if t = Runs then [plain_run] else [])\<rparr>" and ?m = "mem_init\<lparr>ms_runs := [(''r1'', plain_run)]\<rparr>"
  have run: "numbered_version plain_run" by (auto simp: numbered_version_def plain_run_def)
  have inv: "mem_versions ?m" "pg_versions ?d"
    using run by (auto simp: mem_versions_def pg_versions_def pg_unique_def keys_unique_def list_all_iff)
  have runs: "mem_runs ?m = pg_runs ?d"
    by (auto simp: mem_runs_def pg_runs_def run_of_def plain_run_def fun_eq_iff)
  have ok: "run_patches sample_calls" by code_simp
  obtain mo m' po d' where ups: "updates mem_updateRun sample_calls ?m = (mo, m')" "updates pg_updateRun_alone sample_calls ?d = (po, d')"
    by (metis surj_pair)
  from stores_refine_register[OF inv runs ok ups] have
    "spec_updates sample_calls (pg_runs ?d) = (po, pg_runs d')" "mo = po" by blast+
  moreover have "pg_runs ?d = [''r1'' \<mapsto> col plain_run]" by (auto simp: pg_runs_def run_of_def plain_run_def fun_eq_iff)
  moreover have "map (\<lambda>out. case out of Written view \<Rightarrow> Some (view ''status'', view ''state_version'') | _ \<Rightarrow> None)
      (fst (spec_updates sample_calls [''r1'' \<mapsto> col plain_run])) = [Some (JStr ''closed'', JNum 2), None, None, None]"
    by code_simp
  ultimately show ?thesis unfolding ups by simp
qed

end
