(* ===== verification/ControlPlaneProps.thy ===== *)
theory ControlPlaneProps
  imports ControlPlane Progress StoreRefinement
begin

text \<open>
  What the operator's commands do to the store: a cancelled run has no open task left, and a manual retry is always
  refused by the policy engine, whatever the policy document says.
\<close>

subsection \<open>What cancelling leaves alone\<close>

definition task_later :: "obj \<Rightarrow> obj \<Rightarrow> bool" where
  "task_later r r' \<longleftrightarrow> get r' ''task_id'' = get r ''task_id'' \<and> get r' ''run_id'' = get r ''run_id'' \<and> (has_ended r \<longrightarrow> has_ended r')"

definition task_frame :: "db \<Rightarrow> db \<Rightarrow> bool" where
  "task_frame s t \<longleftrightarrow> tables t Runs = tables s Runs \<and> list_all2 task_later (tables s Tasks) (tables t Tasks)"

interpretation tf: db_preorder task_frame
proof
  show "task_frame s u" if "task_frame s t" "task_frame t u" for s t u
    using that list_all2_trans[of task_later task_later task_later] by (auto simp: task_frame_def task_later_def)
qed (auto simp: task_frame_def task_later_def list_all2_refl)

lemma tf_insert: "t \<noteq> Runs \<Longrightarrow> t \<noteq> Tasks \<Longrightarrow> tf.insert_ok t row"
  by (auto simp: tf.insert_ok_def task_frame_def task_later_def list_all2_refl)

lemma tf_update: "t \<noteq> Runs \<Longrightarrow> t \<noteq> Tasks \<Longrightarrow> tf.update_ok t P f"
  by (auto simp: tf.update_ok_def task_frame_def task_later_def list_all2_refl)

lemma tf_update_tasks: "(\<And>r. task_later r (f r)) \<Longrightarrow> tf.update_ok Tasks P f"
  by (auto simp: tf.update_ok_def task_frame_def update_rows_def list_all2_conv_all_nth task_later_def)

lemma tf_catch: "tf.keeps m \<Longrightarrow> tf.keeps (catchM m)"
  by (simp add: tf.keeps_def catchM_def)

lemma cancelled_later:
  "task_later r (plus_one ''state_version'' (assign r (patch_entries TASK_PATCH_COLUMNS (manual_cancel_patch now))))"
  "has_ended (plus_one ''state_version'' (assign r (patch_entries TASK_PATCH_COLUMNS (manual_cancel_patch now))))"
  by (simp_all add: task_later_def has_ended_def patch_entries_def TASK_PATCH_COLUMNS_def manual_cancel_patch_def plus_one_def
      TERMINAL_TASK_STATUSES_def)

lemma tf_updateTask: "tf.keeps (pg_updateTask taskId (manual_cancel_patch now) v)"
  unfolding pg_updateTask_def pg_getTask_def
  by (intro tf.keeps_statements tf_update_tasks cancelled_later(1))

lemma tf_cleanup: "tf.keeps (pg_requestWorkspaceCleanup e taskId reason)"
  unfolding pg_requestWorkspaceCleanup_def pg_enqueueRuntimeOutbox_def Let_def
  by (intro tf.keeps_statements tf_update_tasks tf_insert tf_update) (auto simp: task_later_def has_ended_def plus_one_def)

lemma tf_cancel_task: "tf.keeps (cancel_task e task)"
  unfolding cancel_task_def by (intro tf.keeps_statements tf_updateTask tf_catch tf_cleanup)

definition task_closed :: "obj \<Rightarrow> db \<Rightarrow> bool" where
  "task_closed task s \<longleftrightarrow> list_all (\<lambda>r. get r ''task_id'' = get task ''task_id'' \<longrightarrow> has_ended r) (tables s Tasks)"

lemma task_closed_later: "task_closed task s \<Longrightarrow> task_frame s t \<Longrightarrow> task_closed task t"
  by (auto simp: task_closed_def task_frame_def list_all_length list_all2_conv_all_nth task_later_def)

lemma cancel_task_closes:
  assumes "get task ''task_id'' = JStr i" and "\<not> has_ended task" and "cancel_task e task s = (Inr (), t)"
  shows "task_closed task t"
proof -
  let ?now = "clock e (db_tick s)" and ?s = "s\<lparr>db_tick := Suc (db_tick s)\<rparr>"
  let ?f = "\<lambda>r. plus_one ''state_version'' (assign r (patch_entries TASK_PATCH_COLUMNS (manual_cancel_patch ?now)))"
  let ?u = "put_table Tasks (update_rows (\<lambda>r. get r ''task_id'' = JStr i) ?f (tables s Tasks)) ?s"
  have "patch_entries TASK_PATCH_COLUMNS (manual_cancel_patch ?now) \<noteq> []"
    by (simp add: patch_entries_def TASK_PATCH_COLUMNS_def manual_cancel_patch_def)
  then have upd: "\<exists>row. pg_updateTask i (manual_cancel_patch ?now) JUndef ?s = (Inr row, ?u)"
    by (simp add: pg_updateTask_def bindM_def sql_update_def)
  let ?rest = "whenM (truthy (get task ''workspace_path'')) (catchM (pg_requestWorkspaceCleanup e i ''run_cancelled''))"
  have "?rest ?u = (Inr (), t)"
    using assms upd by (auto simp: cancel_task_def has_ended_def whenM_def bindM_def seqM_def db_now_def)
  moreover have "tf.keeps ?rest" by (intro tf.keeps_statements tf_catch tf_cleanup)
  ultimately have "task_frame ?u t" using tf.keepsD by blast
  moreover have "task_closed task ?u"
    using cancelled_later(2) by (auto simp: task_closed_def assms(1) update_rows_def list_all_iff not_nullish_col)
  ultimately show ?thesis using task_closed_later by blast
qed

lemma cancel_tasks_close:
  assumes "tasks_ok s" and "pg_listTasks e runId s = (Inr tasks, s)" and "forM (cancel_task e) tasks s = (Inr (), t)"
  shows "\<forall>r \<in> set (tables t Tasks). col_is ''run_id'' (JStr runId) r \<longrightarrow> has_ended r"
proof (intro ballI impI)
  fix r
  assume r: "r \<in> set (tables t Tasks)" "col_is ''run_id'' (JStr runId) r"
  have tasks: "set tasks = {x \<in> set (tables s Tasks). col_is ''run_id'' (JStr runId) x}"
    using assms(2) by (auto simp: pg_listTasks_def bindM_def)
  have frame: "task_frame s t" using tf.keepsD[OF tf.keeps_for[OF tf_cancel_task] assms(3)] .
  then obtain x where x: "x \<in> set (tables s Tasks)" "task_later x r"
    using r(1) unfolding task_frame_def list_all2_conv_all_nth in_set_conv_nth by metis
  with r(2) tasks have in_run: "x \<in> set tasks" by (simp add: task_later_def col_is_def col_def)
  have step: "task_closed y s \<or> (\<forall>u v. cancel_task e y u = (Inr (), v) \<longrightarrow> task_closed y v)" if "y \<in> set tasks" for y
  proof (cases "has_ended y")
    case True
    have "z = y" if "z \<in> set (tables s Tasks)" "get z ''task_id'' = get y ''task_id''" for z
      using that assms(1) \<open>y \<in> set tasks\<close> tasks unfolding tasks_ok_def distinct_map inj_on_def by blast
    with True show ?thesis by (auto simp: task_closed_def list_all_iff)
  next
    case False
    from that tasks assms(1) obtain i where "get y ''task_id'' = JStr i" by (auto simp: tasks_ok_def list_all_iff)
    with False cancel_task_closes show ?thesis by blast
  qed
  have "task_closed x t"
    by (rule tf.for_establishes[OF tf_cancel_task task_closed_later step assms(3) in_run])
  with r(1) x(2) show "has_ended r" by (simp add: task_closed_def list_all_iff task_later_def)
qed

subsection \<open>A cancelled run is settled\<close>

interpretation tk: db_preorder "\<lambda>s t. tables t Tasks = tables s Tasks"
  by unfold_locales auto

lemma tk_ok: "t \<noteq> Tasks \<Longrightarrow> tk.insert_ok t row" "t \<noteq> Tasks \<Longrightarrow> tk.update_ok t P f"
  by (auto simp: tk.insert_ok_def tk.update_ok_def)

lemma tk_updateRun: "tk.keeps (pg_updateRun runId patch v id)"
  unfolding pg_updateRun_def pg_getRun_def Let_def
  by (intro tk.keeps_statements tk.keeps_modify tk_ok) simp_all

lemma tk_event: "tk.keeps (pg_event e runId taskId ty payload)"
  unfolding pg_event_def by (intro tk.keeps_statements tk_ok) simp_all

lemma tk_enqueue: "tk.keeps (pg_enqueueRuntimeOutbox e runId taskId kind generation payload)"
  unfolding pg_enqueueRuntimeOutbox_def Let_def by (intro tk.keeps_statements tk_ok) simp_all

lemma tk_wake: "tk.keeps (pg_materializeContinuationWake e runId status)"
proof -
  have "tk.keeps (pg_create_wake e runId cont ty occ key)" for cont ty occ key
    unfolding pg_create_wake_def pg_event_at_def Let_def by (intro tk.keeps_statements tk_ok tk_enqueue; simp)
  then show ?thesis
    unfolding pg_materializeContinuationWake_def pg_getRun_def continuation_row_of_def Let_def
    by (auto intro!: tk.keeps_statements split: option.split)
qed

lemma pgu_catch: "pgu.keeps m \<Longrightarrow> pgu.keeps (catchM m)"
  by (simp add: pgu.keeps_def catchM_def)

lemma pgu_cancel_task: "pgu.keeps (cancel_task e task)"
  unfolding cancel_task_def by (intro pgu_method_intros pgu_updateTask pgu_results pgu_catch)

lemma cancelled_patch_ok: "run_patch [(''status'', JStr ''cancelled''), (''completed_at'', JStr now)]"
  by (simp add: run_patch_def RUN_PATCH_COLUMNS_def)

lemma cancel_update_status:
  assumes "pg_versions s" and "run_of s runId = Some run"
    and "pg_updateRun runId [(''status'', JStr ''cancelled''), (''completed_at'', JStr now)] JUndef id s = (Inr out, t)"
  shows "\<exists>run'. run_of t runId = Some run' \<and> get run' ''status'' = JStr ''cancelled''"
proof -
  let ?patch = "[(''status'', JStr ''cancelled''), (''completed_at'', JStr now)]"
  have "spec_updateRun runId ?patch JUndef (pg_runs s) = (outcome_of (Inr out), pg_runs t)"
    using pg_register.upd_refines[OF assms(1) cancelled_patch_ok] assms(3) by (simp add: pg_updateRun_alone_def)
  moreover have "pg_runs s runId = Some (col run)" using assms(2) by (simp add: pg_runs_def)
  ultimately have "pg_runs t = (pg_runs s)(runId \<mapsto> spec_write ?patch (col run))"
    by (auto simp: spec_updateRun_def outcome_of_def split: if_splits option.splits)
  then have "pg_runs t runId = Some (spec_write ?patch (col run))" by simp
  then obtain run' where run': "run_of t runId = Some run'" "col run' = spec_write ?patch (col run)" by (auto simp: pg_runs_def)
  have "col run' ''status'' = JStr ''cancelled''" unfolding run'(2) by (simp add: spec_write_def has_own_def)
  with run'(1) show ?thesis by (auto simp: col_def coalesce_def split: if_splits)
qed

text \<open>C1: a cancelled run is settled. When \<open>cancelRun\<close> returns, the run is stored as cancelled and none of its tasks is
  open: every row of the run is integrated, verified, failed, blocked or cancelled, so that nothing of the run is dispatched
  any more.\<close>

theorem cancel_settles_run:
  assumes "pg_versions s" and "tasks_ok s" and "cancelRun e runId source s = (Inr (), t)"
  shows "(\<exists>run. run_of t runId = Some run \<and> get run ''status'' = JStr ''cancelled'')
    \<and> (\<forall>task \<in> set (tables t Tasks). col_is ''run_id'' (JStr runId) task \<longrightarrow> has_ended task)"
proof -
  let ?rest = "seqM (pg_event e (JStr runId) JNull ''run.cancelled'' (JObj [(''source'', JStr source)]))
      (seqM (pg_materializeContinuationWake e runId (JStr ''cancelled'')) (returnM ()))"
  obtain run tasks u now v out where run: "run_of s runId = Some run"
    and tasks: "pg_listTasks e runId s = (Inr tasks, s)" "forM (cancel_task e) tasks s = (Inr (), u)"
    and upd: "pg_updateRun runId [(''status'', JStr ''cancelled''), (''completed_at'', JStr now)] JUndef id
        (u\<lparr>db_tick := Suc (db_tick u)\<rparr>) = (Inr out, v)" and rest: "?rest v = (Inr (), t)"
    using assms(3)
    by (auto simp: cancelRun_def bindM_Inr seqM_Inr pg_getRun_run pg_listTasks_def db_now_def split: option.splits)
  have frame: "task_frame s u" using tf.keepsD[OF tf.keeps_for[OF tf_cancel_task] tasks(2)] .
  have "pg_unique u"
    using pgu.keepsD[OF pgu.keeps_for[OF pgu_cancel_task] tasks(2)] assms(1) by (simp add: pg_unique_step_def pg_versions_def)
  then have versions: "pg_versions (u\<lparr>db_tick := Suc (db_tick u)\<rparr>)"
    using assms(1) frame by (simp add: pg_versions_def task_frame_def pg_unique_def)
  have "run_of (u\<lparr>db_tick := Suc (db_tick u)\<rparr>) runId = Some run" using run frame by (simp add: run_of_def task_frame_def)
  from cancel_update_status[OF versions this upd] obtain run' where
    run': "run_of v runId = Some run'" "get run' ''status'' = JStr ''cancelled''" by blast
  have "pg.keeps ?rest" by (intro pg_method_intros pg_methods_keep)
  then have "pg_extends v t" using rest by (rule pg.keepsD)
  with run' have "\<exists>run. run_of t runId = Some run \<and> get run ''status'' = JStr ''cancelled''"
    by (force simp: pg_extends_def run_kept_def)
  moreover have "tables v Tasks = tables u Tasks" using tk.keepsD[OF tk_updateRun upd] by simp
  moreover have "tk.keeps ?rest" by (intro tk.keeps_statements tk_event tk_wake)
  then have "tables t Tasks = tables v Tasks" using rest by (rule tk.keepsD)
  moreover note cancel_tasks_close[OF assms(2) tasks]
  ultimately show ?thesis by simp
qed

definition open_run :: db where
  "open_run = db_init\<lparr>tables := (\<lambda>t. if t = Runs then [plain_run] else if t = Tasks then
      [[(''task_id'', JStr ''a''), (''run_id'', JStr ''r1''), (''status'', JStr ''routed'')],
       [(''task_id'', JStr ''b''), (''run_id'', JStr ''r1''), (''status'', JStr ''integrated'')]] else [])\<rparr>"

theorem cancel_settles_run_witness:
  "\<exists>t run. cancelRun sample_env ''r1'' ''dynamic-dag'' open_run = (Inr (), t) \<and> run_of t ''r1'' = Some run
     \<and> get run ''status'' = JStr ''cancelled'' \<and> (\<forall>task \<in> set (tables t Tasks). col_is ''run_id'' (JStr ''r1'') task \<longrightarrow> has_ended task)"
proof -
  have "fst (cancelRun sample_env ''r1'' ''dynamic-dag'' open_run) = Inr ()" by code_simp
  then obtain t where t: "cancelRun sample_env ''r1'' ''dynamic-dag'' open_run = (Inr (), t)" by (metis prod.collapse)
  have "pg_versions open_run"
    by (auto simp: pg_versions_def pg_unique_def keys_unique_def list_all_iff open_run_def plain_run_def numbered_version_def)
  moreover have "tasks_ok open_run" by (simp add: tasks_ok_def open_run_def)
  ultimately show ?thesis using cancel_settles_run[OF _ _ t] t by blast
qed

subsection \<open>Manual retries\<close>

lemma manual_code_unknown: "strategy_entry (''manual_retry:'' @ x) = None"
  by (auto simp: strategy_entry_def RETRY_FAILURE_STRATEGIES_def OBJECT_PROTOTYPE_KEYS_def)

lemma trim_manual: "\<exists>y. trim (''manual_retry:'' @ x) = ''manual_retry:'' @ y"
proof (cases "\<forall>c \<in> set x. is_space c")
  case True
  then have "dropWhile is_space (rev x @ rev ''manual_retry:'') = dropWhile is_space (rev ''manual_retry:'')"
    by (intro dropWhile_append2) simp
  also have "\<dots> = rev ''manual_retry:''" by (simp add: is_space_def)
  finally have "dropWhile is_space (rev x @ rev ''manual_retry:'') = rev ''manual_retry:''" .
  then show ?thesis by (intro exI[of _ "[]"]) (simp add: trim_def is_space_def)
next
  case False
  then have "dropWhile is_space (rev x @ rev ''manual_retry:'') = dropWhile is_space (rev x) @ rev ''manual_retry:''"
    by (auto simp: dropWhile_append1)
  then show ?thesis by (intro exI[of _ "rev (dropWhile is_space (rev x))"]) (simp add: trim_def is_space_def)
qed

lemma manual_failure_unclassified: "retryDispositionForFailure (manual_retry_failure task) = JStr ''unclassified''"
proof -
  let ?text = "js_string (coalesce (get task ''error_code'') (get task ''status''))"
  obtain y where y: "trim (''manual_retry:'' @ ?text) = ''manual_retry:'' @ y" using trim_manual by blast
  then have "JsPrelude.compact (field (manual_retry_failure task) ''code'') = ''manual_retry:'' @ y"
    by (simp add: JsPrelude.compact_def manual_retry_failure_def)
  then have "strategyForFailure (manual_retry_failure task) = None"
    using manual_code_unknown[of y]
    by (simp add: strategyForFailure_def Let_def manual_retry_failure_def EXPLICIT_DISPOSITIONS_def TRANSIENT_CATEGORIES_def)
  then show ?thesis by (simp add: retryDispositionForFailure_def manual_retry_failure_def)
qed

lemma unclassified_denied:
  assumes "retryDispositionForFailure (field input ''failure'') = JStr ''unclassified''"
  shows "\<not> is_allowed (evaluateRetry e penv engine input state r nowMs)"
proof -
  have "\<not> rd_classificationKnown (retry_efficiency e penv engine input state r nowMs)"
    using assms by (simp add: retry_efficiency_def retryEfficiencyDetails_def Let_def)
  then show ?thesis by (simp add: evaluateRetry_def Let_def)
qed

lemma pg_getTask_run: "pg_getTask taskId s = (Inr (task_of s taskId), s)"
  by (simp add: pg_getTask_def task_of_def sql_first_def)

text \<open>C3: an operator's retry is never granted. The failure that \<open>retry\<close> submits to the policy engine carries the code
  \<open>manual_retry:\<close> followed by the error code of the task, which no entry of the registry of failure strategies
  matches, and no category; the engine therefore denies it under every policy document, and the command always ends in an
  error with the runs and the tasks unchanged.\<close>

theorem manual_retry_never_granted:
  "\<exists>message t. cp_retry e rng penv engine runId taskId s = (Inl message, t)
     \<and> tables t Runs = tables s Runs \<and> tables t Tasks = tables s Tasks"
proof -
  let ?input = "\<lambda>task. JObj [(''failure'', manual_retry_failure task), (''attempt'', get task ''attempt''), (''maxAttempts'', get task ''max_attempts'')]"
  have denied: "\<exists>message. assertPolicyAllowed (evaluateRetry e penv engine (?input task) no_budget r now) p = Inl message" for task r now p
    using unclassified_denied[of "?input task"] manual_failure_unclassified by (simp add: assertPolicyAllowed_def)
  have recorded: "\<exists>r t. pg_recordPolicyDecision e a b op d u = (r, t) \<and> tables t Runs = tables u Runs \<and> tables t Tasks = tables u Tasks" for a b op d u
    by (simp add: pg_recordPolicyDecision_def pg_event_def bindM_def db_newId_def db_now_def sql_insert_def)
  show ?thesis
  proof (cases "run_of s runId")
    case (Some run)
    note run = this
    show ?thesis
    proof (cases "task_of s taskId")
      case (Some task)
      let ?u = "s\<lparr>db_tick := Suc (Suc (db_tick s))\<rparr>" and ?now = "clock_ms e (Suc (db_tick s))"
      let ?d = "evaluateRetry e penv engine (?input task) no_budget (rng (db_tick s)) ?now"
      obtain message where no: "assertPolicyAllowed ?d ''runtime_policy_manual_retry_denied'' = Inl message" using denied by blast
      obtain r t where rec: "pg_recordPolicyDecision e (JStr runId) (JStr taskId) ''retry'' ?d ?u = (r, t)"
        "tables t Runs = tables s Runs" "tables t Tasks = tables s Tasks" using recorded[of "JStr runId" "JStr taskId" "''retry''" ?d ?u] by auto
      show ?thesis
        using run Some no rec
        by (cases r) (simp_all add: cp_retry_def pg_getRun_run pg_getTask_run bindM_def seqM_def guardM_def Let_def db_random_def db_nowMs_def)
    qed (use run in \<open>simp add: cp_retry_def pg_getRun_run pg_getTask_run bindM_def seqM_def guardM_def\<close>)
  qed (simp add: cp_retry_def pg_getRun_run bindM_def)
qed

end
