(* ===== verification/RuntimeDriver.thy ===== *)
theory RuntimeDriver
  imports ControlPlane
begin

text \<open>
  The driver of the control plane (\<open>runtime-driver.mjs\<close>): it collects the runs that were woken, by a
  notification or by the periodic repair sweep, and reconciles them in batches until none is left.

  The state holds the set of pending runs in insertion order, the flags of the scheduling, the last error of each run,
  the database, and the runs whose reconciliation was logged as started. A notification may arrive while a batch is
  reconciled; \<open>wakes k\<close> are the runs woken during batch \<open>k\<close>, an argument of the model.
  The reconciliations of one batch, which the code starts together, are modelled in the order of the batch. The presentation
  service is not modelled.
\<close>

record driver =
  dv_pending :: "string list"
  dv_started :: bool
  dv_draining :: bool
  dv_drainScheduled :: bool
  dv_lastErrors :: "(string \<times> string \<times> string) list"
  dv_reconcileParallel :: int
  dv_repairIntervalMs :: int
  dv_db :: db
  dv_log :: "string list"

text \<open>What the driver is built with: the environment, the policy engine and the modules of the reconciler; \<open>dc_errorCode\<close>
  is the \<open>code\<close> property of an error with the given message.\<close>

record driver_config =
  dc_env :: env
  dc_rng :: "nat \<Rightarrow> rat"
  dc_host :: host
  dc_engine :: engine
  dc_penv :: obj
  dc_executorCommand :: jsval
  dc_ownerId :: string
  dc_errorCode :: "string \<Rightarrow> jsval"

definition number_or :: "int \<Rightarrow> jsval \<Rightarrow> int" where
  "number_or fallback v = (case js_number v of None \<Rightarrow> fallback | Some n \<Rightarrow> if n = 0 then fallback else n)"

definition new_driver :: "jsval \<Rightarrow> jsval \<Rightarrow> db \<Rightarrow> driver" where
  "new_driver repairIntervalMs reconcileParallel db =
     \<lparr>dv_pending = [], dv_started = False, dv_draining = False, dv_drainScheduled = False, dv_lastErrors = [],
      dv_reconcileParallel = max 1 (min 8 (number_or 2 reconcileParallel)),
      dv_repairIntervalMs = max 5000 (number_or 30000 repairIntervalMs), dv_db = db, dv_log = []\<rparr>"

definition safeRunId :: "jsval \<Rightarrow> string option" where
  "safeRunId payload =
     (let v = trim (js_string (coalesce payload (JStr []))) in if v \<noteq> [] \<and> length v \<le> 200 then Some v else None)"

definition scheduleDrain :: "driver \<Rightarrow> driver" where
  "scheduleDrain d =
     (if \<not> dv_started d \<or> dv_draining d \<or> dv_drainScheduled d \<or> dv_pending d = [] then d else d\<lparr>dv_drainScheduled := True\<rparr>)"

definition set_add :: "string \<Rightarrow> string list \<Rightarrow> string list" where
  "set_add x xs = (if x \<in> set xs then xs else xs @ [x])"

definition wake :: "jsval \<Rightarrow> driver \<Rightarrow> driver" where
  "wake runId d =
     (case safeRunId runId of
        None \<Rightarrow> d
      | Some normalized \<Rightarrow>
          if \<not> dv_started d then d else scheduleDrain (d\<lparr>dv_pending := set_add normalized (dv_pending d)\<rparr>))"

subsection \<open>One reconciliation\<close>

definition number_or_undefined :: "jsval \<Rightarrow> jsval" where
  "number_or_undefined v = (case js_number v of Some n \<Rightarrow> if n = 0 then JUndef else JNum n | None \<Rightarrow> JUndef)"

definition persisted_options :: "obj \<Rightarrow> obj list \<Rightarrow> obj" where
  "persisted_options run taskRows =
     [(''workspaceMode'', get run ''workspace_mode''), (''maxParallel'', number_or_undefined (get run ''max_parallel'')),
      (''maxAttempts'', number_or_undefined (JNum (fold (\<lambda>task m. max m (num_or 0 (get task ''max_attempts''))) taskRows 0))),
      (''contextBudgetBytes'', number_or_undefined (get run ''context_budget_bytes'')),
      (''taskTimeoutMs'', number_or_undefined (get run ''task_timeout_ms'')),
      (''integrate'', JBool (get run ''auto_integrate'' \<noteq> JBool False))]"

definition options_of :: "driver_config \<Rightarrow> obj \<Rightarrow> options" where
  "options_of c persisted =
     (let eo = executionOptions (dc_penv c) persisted in
      \<lparr>op_engine = dc_engine c, op_maxParallel = JNum (eo_maxParallel eo), op_maxAttempts = JNum (eo_maxAttempts eo),
       op_executorCommand = dc_executorCommand c, op_workspaceMode = eo_workspaceMode eo, op_integrate = JBool (eo_integrate eo),
       op_env = dc_penv c\<rparr>)"

definition reconcile_body :: "driver_config \<Rightarrow> string \<Rightarrow> unit pg_m" where
  "reconcile_body c runId =
     bindM (pg_getRun runId) (\<lambda>found.
     case found of
       None \<Rightarrow> returnM ()
     | Some run \<Rightarrow>
         bindM (pg_listTasks (dc_env c) runId) (\<lambda>taskRows.
         seqM (reconcileRun (dc_env c) (dc_rng c) (dc_host c) (options_of c (persisted_options run taskRows))
                 (js_string (get (plan_json_of found) ''runId'')) (dc_ownerId c))
         (returnM ())))"

text \<open>Recording an event about a run that still exists; errors are swallowed.\<close>

definition note_event :: "driver_config \<Rightarrow> string \<Rightarrow> string \<Rightarrow> jsval \<Rightarrow> db \<Rightarrow> db" where
  "note_event c runId eventType payload s =
     snd (bindM (pg_getRun runId) (\<lambda>run. whenM (run \<noteq> None) (pg_event (dc_env c) (JStr runId) JNull eventType payload)) s)"

definition reconcileOne :: "driver_config \<Rightarrow> string \<Rightarrow> driver \<Rightarrow> driver" where
  "reconcileOne c runId d0 =
     (let d = d0\<lparr>dv_log := dv_log d0 @ [runId]\<rparr> in
      case reconcile_body c runId (dv_db d) of
        (Inr _, s) \<Rightarrow>
          (let d1 = d\<lparr>dv_lastErrors := AList.delete runId (dv_lastErrors d)\<rparr> in
           case map_of (dv_lastErrors d) runId of
             None \<Rightarrow> d1\<lparr>dv_db := s\<rparr>
           | Some (failedAt, message) \<Rightarrow> d1\<lparr>dv_db := note_event c runId ''runtime.reconcile_recovered''
               (JObj [(''previousMessage'', JStr message), (''failedAt'', JStr failedAt)]) s\<rparr>)
      | (Inl message, s) \<Rightarrow>
          d\<lparr>dv_lastErrors := AList.update runId (clock (dc_env c) (db_tick s), message) (dv_lastErrors d),
            dv_db := note_event c runId ''runtime.reconcile_failed''
               (JObj [(''code'', dc_errorCode c message), (''message'', JStr message)]) (s\<lparr>db_tick := Suc (db_tick s)\<rparr>)\<rparr>)"

subsection \<open>Draining\<close>

definition next_batch :: "driver \<Rightarrow> string list" where
  "next_batch d = take (nat (dv_reconcileParallel d)) (dv_pending d)"

text \<open>One turn of the loop: the batch leaves the pending runs before it is reconciled, so that a run that is woken meanwhile
  is pending again.\<close>

definition drain_batch :: "driver_config \<Rightarrow> string list \<Rightarrow> driver \<Rightarrow> driver" where
  "drain_batch c arrived d =
     (let batch = next_batch d; d1 = d\<lparr>dv_pending := filter (\<lambda>r. r \<notin> set batch) (dv_pending d)\<rparr>;
          d2 = fold (reconcileOne c) batch d1 in
      fold (\<lambda>r. wake (JStr r)) arrived d2)"

partial_function (option) drain_loop :: "driver_config \<Rightarrow> (nat \<Rightarrow> string list) \<Rightarrow> nat \<Rightarrow> driver \<Rightarrow> driver option" where
  "drain_loop c wakes k d =
     (if dv_pending d \<noteq> [] \<and> dv_started d then drain_loop c wakes (Suc k) (drain_batch c (wakes k) d) else Some d)"

text \<open>A drain that is not already in flight; the last step looks again for runs that were woken after the final test.\<close>

definition drain :: "driver_config \<Rightarrow> (nat \<Rightarrow> string list) \<Rightarrow> driver \<Rightarrow> driver option" where
  "drain c wakes d =
     (if \<not> dv_started d then Some d
      else map_option (\<lambda>d'. scheduleDrain (d'\<lparr>dv_draining := False\<rparr>)) (drain_loop c wakes 0 (d\<lparr>dv_draining := True\<rparr>)))"

definition repairSweep :: "driver_config \<Rightarrow> (nat \<Rightarrow> string list) \<Rightarrow> driver \<Rightarrow> driver option" where
  "repairSweep c wakes d =
     (if \<not> dv_started d then Some d
      else case bindM (pg_listRunnableRuns (dc_env c) 200) (\<lambda>runs.
                seqM (pg_repairTerminalContinuationWakes (dc_env c) 200) (returnM runs)) (dv_db d) of
        (Inl _, s) \<Rightarrow> Some (d\<lparr>dv_db := s\<rparr>)
      | (Inr runs, s) \<Rightarrow>
          drain c wakes (d\<lparr>dv_db := s, dv_pending := fold (\<lambda>run. set_add (js_string (get run ''run_id''))) runs (dv_pending d)\<rparr>))"

text \<open>Starting opens the store and the listener, which is input and output only, and sweeps once; stopping forgets what is
  pending, and nothing new is scheduled.\<close>

definition start_driver :: "driver_config \<Rightarrow> (nat \<Rightarrow> string list) \<Rightarrow> driver \<Rightarrow> driver option" where
  "start_driver c wakes d = (if dv_started d then Some d else repairSweep c wakes (d\<lparr>dv_started := True\<rparr>))"

definition stop_driver :: "driver \<Rightarrow> driver" where
  "stop_driver d = d\<lparr>dv_started := False, dv_pending := []\<rparr>"

subsection \<open>Nothing that was woken is lost\<close>

lemma reconcileOne_frame [simp]:
  "dv_pending (reconcileOne c r d) = dv_pending d" "dv_started (reconcileOne c r d) = dv_started d"
  "dv_reconcileParallel (reconcileOne c r d) = dv_reconcileParallel d" "dv_log (reconcileOne c r d) = dv_log d @ [r]"
  "dv_draining (reconcileOne c r d) = dv_draining d"
  by (auto simp: reconcileOne_def Let_def split: prod.splits sum.splits option.splits)

lemma reconcile_batch_frame [simp]:
  "dv_pending (fold (reconcileOne c) rs d) = dv_pending d" "dv_started (fold (reconcileOne c) rs d) = dv_started d"
  "dv_reconcileParallel (fold (reconcileOne c) rs d) = dv_reconcileParallel d" "dv_log (fold (reconcileOne c) rs d) = dv_log d @ rs"
  "dv_draining (fold (reconcileOne c) rs d) = dv_draining d"
  by (induction rs arbitrary: d) simp_all

lemma scheduleDrain_frame [simp]:
  "dv_pending (scheduleDrain d) = dv_pending d" "dv_started (scheduleDrain d) = dv_started d"
  "dv_reconcileParallel (scheduleDrain d) = dv_reconcileParallel d" "dv_log (scheduleDrain d) = dv_log d"
  "dv_draining (scheduleDrain d) = dv_draining d"
  by (simp_all add: scheduleDrain_def)

lemma wake_frame [simp]:
  "dv_started (wake r d) = dv_started d" "dv_reconcileParallel (wake r d) = dv_reconcileParallel d" "dv_log (wake r d) = dv_log d"
  "dv_draining (wake r d) = dv_draining d"
  by (simp_all add: wake_def split: option.splits)

lemma wakes_frame [simp]:
  "dv_started (fold (\<lambda>r. wake (JStr r)) rs d) = dv_started d"
  "dv_reconcileParallel (fold (\<lambda>r. wake (JStr r)) rs d) = dv_reconcileParallel d" "dv_log (fold (\<lambda>r. wake (JStr r)) rs d) = dv_log d"
  by (induction rs arbitrary: d) simp_all

lemma wake_pending: "set (dv_pending d) \<subseteq> set (dv_pending (wake r d))" "length (dv_pending (wake r d)) \<le> Suc (length (dv_pending d))"
  by (auto simp: wake_def set_add_def split: option.splits)

lemma wakes_pending:
  "set (dv_pending d) \<subseteq> set (dv_pending (fold (\<lambda>r. wake (JStr r)) rs d))
   \<and> length (dv_pending (fold (\<lambda>r. wake (JStr r)) rs d)) \<le> length rs + length (dv_pending d)"
proof (induction rs arbitrary: d)
  case (Cons r rs)
  from Cons.IH[of "wake (JStr r) d"] wake_pending[where d = d and r = "JStr r"] show ?case by auto
qed simp

lemma wake_distinct: "distinct (dv_pending d) \<Longrightarrow> distinct (dv_pending (wake r d))"
  by (auto simp: wake_def set_add_def split: option.splits)

lemma batch_rest: "dv_pending d = next_batch d @ drop (nat (dv_reconcileParallel d)) (dv_pending d)"
  by (simp add: next_batch_def)

lemma filter_batch:
  assumes "distinct (dv_pending d)"
  shows "filter (\<lambda>r. r \<notin> set (next_batch d)) (dv_pending d) = drop (nat (dv_reconcileParallel d)) (dv_pending d)"
proof -
  from assms batch_rest[of d] have "distinct (next_batch d @ drop (nat (dv_reconcileParallel d)) (dv_pending d))" by simp
  then have "filter (\<lambda>r. r \<notin> set (next_batch d)) (next_batch d @ drop (nat (dv_reconcileParallel d)) (dv_pending d))
      = drop (nat (dv_reconcileParallel d)) (dv_pending d)"
    by (auto simp: filter_id_conv)
  then show ?thesis using batch_rest[of d] by simp
qed

lemma drain_batch_effect:
  assumes "dv_started d" and "distinct (dv_pending d)"
  shows "dv_started (drain_batch c arrived d)" "distinct (dv_pending (drain_batch c arrived d))"
    "dv_reconcileParallel (drain_batch c arrived d) = dv_reconcileParallel d"
    "dv_log (drain_batch c arrived d) = dv_log d @ next_batch d"
    "set (dv_pending d) \<subseteq> set (next_batch d) \<union> set (dv_pending (drain_batch c arrived d))"
    "length (dv_pending (drain_batch c arrived d)) + length (next_batch d) \<le> length arrived + length (dv_pending d)"
    "arrived = [] \<Longrightarrow> dv_pending d = next_batch d @ dv_pending (drain_batch c arrived d)"
proof -
  let ?left = "drop (nat (dv_reconcileParallel d)) (dv_pending d)"
  let ?d2 = "fold (reconcileOne c) (next_batch d) (d\<lparr>dv_pending := ?left\<rparr>)"
  have run: "drain_batch c arrived d = fold (\<lambda>r. wake (JStr r)) arrived ?d2"
    using filter_batch[OF assms(2)] by (simp add: drain_batch_def Let_def)
  show "dv_started (drain_batch c arrived d)" "dv_reconcileParallel (drain_batch c arrived d) = dv_reconcileParallel d"
    "dv_log (drain_batch c arrived d) = dv_log d @ next_batch d"
    using assms by (simp_all add: run)
  have "distinct (dv_pending (fold (\<lambda>r. wake (JStr r)) rs x))" if "distinct (dv_pending x)" for rs x
    using that by (induction rs arbitrary: x) (auto intro: wake_distinct)
  then show "distinct (dv_pending (drain_batch c arrived d))" using assms(2) by (simp add: run)
  have pend: "set ?left \<subseteq> set (dv_pending (drain_batch c arrived d))"
    "length (dv_pending (drain_batch c arrived d)) \<le> length arrived + length ?left"
    using wakes_pending[of ?d2 arrived] by (simp_all add: run)
  have "set (dv_pending d) = set (next_batch d) \<union> set ?left" by (subst batch_rest) simp
  with pend(1) show "set (dv_pending d) \<subseteq> set (next_batch d) \<union> set (dv_pending (drain_batch c arrived d))" by blast
  have "length (dv_pending d) = length (next_batch d) + length ?left" by (subst batch_rest) simp
  with pend(2) show "length (dv_pending (drain_batch c arrived d)) + length (next_batch d) \<le> length arrived + length (dv_pending d)"
    by linarith
  show "dv_pending d = next_batch d @ dv_pending (drain_batch c arrived d)" if "arrived = []"
  proof -
    have "dv_pending (drain_batch c arrived d) = ?left" unfolding run unfolding that by simp
    with batch_rest[of d] show ?thesis by simp
  qed
qed

lemma batch_nonempty: "1 \<le> dv_reconcileParallel d \<Longrightarrow> dv_pending d \<noteq> [] \<Longrightarrow> 1 \<le> length (next_batch d)"
  by (cases "dv_pending d") (auto simp: next_batch_def)

lemma drain_loop_ends:
  assumes "dv_started d" and "distinct (dv_pending d)" and "1 \<le> dv_reconcileParallel d" and "\<forall>j \<ge> n. wakes j = []"
  shows "\<exists>d' log. drain_loop c wakes k d = Some d' \<and> dv_pending d' = [] \<and> dv_log d' = dv_log d @ log
    \<and> set (dv_pending d) \<subseteq> set log \<and> length log \<le> length (dv_pending d) + (\<Sum>j = k..<n. length (wakes j))
    \<and> ((\<forall>j. wakes j = []) \<longrightarrow> log = dv_pending d)"
  using assms
proof (induction "length (dv_pending d) + (\<Sum>j = k..<n. length (wakes j))" arbitrary: d k rule: less_induct)
  case less
  show ?case
  proof (cases "dv_pending d = []")
    case True
    then show ?thesis by (subst drain_loop.simps) simp
  next
    case False
    let ?d = "drain_batch c (wakes k) d"
    note effect = drain_batch_effect[OF less.prems(1,2), where c = c and arrived = "wakes k"]
    have sums: "(\<Sum>j = k..<n. length (wakes j)) = length (wakes k) + (\<Sum>j = Suc k..<n. length (wakes j))"
      using less.prems(4) by (cases "k < n") (auto simp: sum.atLeast_Suc_lessThan)
    have batch: "1 \<le> length (next_batch d)" using less.prems(3) False by (rule batch_nonempty)
    have smaller: "length (dv_pending ?d) + (\<Sum>j = Suc k..<n. length (wakes j)) < length (dv_pending d) + (\<Sum>j = k..<n. length (wakes j))"
      using effect(6) batch sums by linarith
    have "1 \<le> dv_reconcileParallel ?d" using effect(3) less.prems(3) by simp
    from less.hyps[OF smaller effect(1,2) this less.prems(4)] obtain d' log where
      rest: "drain_loop c wakes (Suc k) ?d = Some d'" "dv_pending d' = []" "dv_log d' = dv_log ?d @ log" "set (dv_pending ?d) \<subseteq> set log"
        "length log \<le> length (dv_pending ?d) + (\<Sum>j = Suc k..<n. length (wakes j))" "(\<forall>j. wakes j = []) \<longrightarrow> log = dv_pending ?d"
      by blast
    have "drain_loop c wakes k d = Some d'" using False less.prems(1) rest(1) by (subst drain_loop.simps) simp
    moreover have "set (dv_pending d) \<subseteq> set (next_batch d @ log)" using effect(5) rest(4) by auto
    moreover have "length (next_batch d @ log) \<le> length (dv_pending d) + (\<Sum>j = k..<n. length (wakes j))"
      using effect(6) rest(5) sums by simp
    moreover have "(\<forall>j. wakes j = []) \<longrightarrow> next_batch d @ log = dv_pending d" using effect(7) rest(6) by simp
    ultimately show ?thesis using rest(2,3) effect(4)
      by (intro exI[of _ d'] exI[of _ "next_batch d @ log"]) simp
  qed
qed

lemma new_driver_parallel: "1 \<le> dv_reconcileParallel (new_driver i p db)" "dv_reconcileParallel (new_driver i p db) \<le> 8"
  by (simp_all add: new_driver_def)

text \<open>C2: no wake is lost and none is invented. When only finitely many notifications arrive, a drain of a started driver
  ends with nothing pending and the drain flag cleared. Every run that was pending has been reconciled; the number of
  reconciliations is at most the number of runs that were pending plus the number of notifications; and when no notification
  arrives, the pending runs are reconciled exactly once each, in the order in which they were woken.\<close>

theorem drain_reconciles_pending:
  assumes "dv_started d" and "distinct (dv_pending d)" and "1 \<le> dv_reconcileParallel d" and "\<forall>j \<ge> n. wakes j = []"
  shows "\<exists>d' log. drain c wakes d = Some d' \<and> dv_pending d' = [] \<and> \<not> dv_draining d' \<and> dv_log d' = dv_log d @ log
    \<and> set (dv_pending d) \<subseteq> set log \<and> length log \<le> length (dv_pending d) + (\<Sum>j = 0..<n. length (wakes j))
    \<and> ((\<forall>j. wakes j = []) \<longrightarrow> log = dv_pending d)"
proof -
  have "dv_started (d\<lparr>dv_draining := True\<rparr>)" "distinct (dv_pending (d\<lparr>dv_draining := True\<rparr>))"
    "1 \<le> dv_reconcileParallel (d\<lparr>dv_draining := True\<rparr>)" using assms by simp_all
  from drain_loop_ends[OF this assms(4), where c = c and k = 0] obtain d' log where
    "drain_loop c wakes 0 (d\<lparr>dv_draining := True\<rparr>) = Some d'" "dv_pending d' = []" "dv_log d' = dv_log d @ log"
    "set (dv_pending d) \<subseteq> set log" "length log \<le> length (dv_pending d) + (\<Sum>j = 0..<n. length (wakes j))"
    "(\<forall>j. wakes j = []) \<longrightarrow> log = dv_pending d" by auto
  with assms(1) show ?thesis
    by (intro exI[of _ "scheduleDrain (d'\<lparr>dv_draining := False\<rparr>)"] exI[of _ log]) (simp add: drain_def)
qed

definition sample_driver :: driver where
  "sample_driver = (new_driver JUndef (JNum 2) db_init)\<lparr>dv_started := True, dv_pending := [''a'', ''b'', ''c'']\<rparr>"

theorem drain_reconciles_pending_witness:
  "\<forall>c. \<exists>d'. drain c (\<lambda>_. []) sample_driver = Some d' \<and> dv_pending d' = [] \<and> dv_log d' = [''a'', ''b'', ''c'']"
proof
  fix c
  have "dv_started sample_driver" "distinct (dv_pending sample_driver)" "1 \<le> dv_reconcileParallel sample_driver"
    by (simp_all add: sample_driver_def new_driver_def number_or_def)
  from drain_reconciles_pending[OF this, of 0 "\<lambda>_. []" c]
  show "\<exists>d'. drain c (\<lambda>_. []) sample_driver = Some d' \<and> dv_pending d' = [] \<and> dv_log d' = [''a'', ''b'', ''c'']"
    by (auto simp: sample_driver_def new_driver_def)
qed

end
