(* ===== verification/ReviewTopology.thy ===== *)
theory ReviewTopology
  imports Kahn JsText
begin

text \<open>
  The review stages of the bootstrap phase and the decisions they wait for
  (\<open>bootstrap-review-dependencies.mjs\<close>): edges are normalised, inferred from the request, merged, checked for
  cycles and turned into task dependencies. An edge is an object with \<open>fromStage\<close>, \<open>toStage\<close>,
  \<open>requiredDecision\<close> and further fields.
\<close>

definition REVIEW_STAGES :: "string list" where
  "REVIEW_STAGES = [''architecture-review'', ''database-review'', ''infrastructure-review'', ''ai-operations-review'',
     ''security-review'']"

text \<open>\<^verbatim>\<open>/^[a-z0-9]+(?:-[a-z0-9]+)*-review$/\<close>\<close>

definition slug_part :: re where
  "slug_part = re_plus (Cls (\<lambda>c. is_lower c \<or> is_digit c))"

definition REVIEW_STAGE_PATTERN :: re where
  "REVIEW_STAGE_PATTERN = re_seq [TextStart, slug_part, Star (Seq (lit ''-'') slug_part), lit ''-review'', TextEnd]"

subsection \<open>Inference from the request\<close>

record heuristic_rule =
  hr_fromStage :: string
  hr_toStage :: string
  hr_requiredDecision :: string
  hr_pattern :: re
  hr_rationale :: string

definition dash_space :: re where
  "dash_space = any_of ''- ''"

definition anything :: re where
  "anything = Star any_char"

definition event_driven :: re where
  "event_driven = re_seq [lit ''event'', dash_space, lit ''driven'']"

definition pg_or_db :: re where
  "pg_or_db = re_alt [lit ''postgres'', lit ''database'']"

definition authority :: re where
  "authority = re_alt [lit ''authority'', lit ''authoritative'']"

definition whole_words :: "re list \<Rightarrow> re" where
  "whole_words rs = re_seq [WordEdge, re_alt rs, WordEdge]"

text \<open>The words of the four rules, shared with \<open>bootstrap-capabilities.mjs\<close>.\<close>

definition authority_words :: re where
  "authority_words = whole_words
     [re_seq [lit ''source'', dash_space, lit ''of'', dash_space, lit ''truth''], lit ''state authority'',
     re_seq [lit ''authoritative '', re_alt [lit ''store'', lit ''state'']], lit ''transaction boundary'',
     lit ''consistency boundary'', lit ''outbox'', lit ''inbox'', re_seq [lit ''exactly'', dash_space, lit ''once''],
     re_seq [event_driven, lit '' persistence''], re_seq [event_driven, anything, pg_or_db],
     re_seq [pg_or_db, anything, event_driven], re_seq [lit ''redis'', anything, authority],
     re_seq [authority, anything, lit ''redis'']]"

definition topology_words :: re where
  "topology_words = whole_words
     [lit ''execution plane'', lit ''control plane'', lit ''worker topology'', lit ''queue topology'',
     lit ''queue ownership'', lit ''service boundary'', lit ''deployment topology'', lit ''scaling boundary'',
     lit ''runtime topology'', lit ''network boundary'', re_seq [event_driven, anything, lit ''worker''],
     re_seq [lit ''rabbitmq'', anything, lit ''topology'']]"

definition inference_words :: re where
  "inference_words = whole_words
     [lit ''semantic plane'', lit ''model residency'', lit ''model routing boundary'', lit ''inference boundary'',
     lit ''embedding service'', lit ''retrieval topology'', lit ''gpu scheduler'',
     re_seq [lit ''gpu'', anything, lit ''residency''], lit ''llm fallback semantics'', lit ''model authority'']"

definition availability_words :: re where
  "availability_words = whole_words
     [lit ''database failover'', re_seq [lit ''postgres'', re_opt (lit ''ql''), lit '' ha''],
     re_seq [lit ''postgres'', re_opt (lit ''ql''), lit '' replication''], lit ''database replication'',
     lit ''database provisioning'', lit ''connection pool topology'']"

definition HEURISTIC_RULES :: "heuristic_rule list" where
  "HEURISTIC_RULES =
    [\<lparr>hr_fromStage = ''architecture-review'', hr_toStage = ''database-review'',
      hr_requiredDecision = ''state-and-transaction-authority'',
      hr_pattern = authority_words,
      hr_rationale = ''Database review depends on an architectural authority/consistency decision that is not safely inferable from persistence mechanics alone.''\<rparr>,
     \<lparr>hr_fromStage = ''architecture-review'', hr_toStage = ''infrastructure-review'',
      hr_requiredDecision = ''runtime-and-deployment-topology'',
      hr_pattern = topology_words,
      hr_rationale = ''Infrastructure review depends on an architectural runtime/topology decision before it can finalize deployment and capacity constraints.''\<rparr>,
     \<lparr>hr_fromStage = ''architecture-review'', hr_toStage = ''ai-operations-review'',
      hr_requiredDecision = ''model-and-inference-boundary'',
      hr_pattern = inference_words,
      hr_rationale = ''AI/LLMOps review depends on an architectural model/inference boundary before it can finalize operational gates.''\<rparr>,
     \<lparr>hr_fromStage = ''database-review'', hr_toStage = ''infrastructure-review'',
      hr_requiredDecision = ''database-availability-topology'',
      hr_pattern = availability_words,
      hr_rationale = ''Infrastructure review depends on a database availability/provisioning decision before it can finalize runtime readiness constraints.''\<rparr>]"

definition inferBootstrapReviewDependencies :: "jsval \<Rightarrow> string list \<Rightarrow> obj list" where
  "inferBootstrapReviewDependencies request selectedStages =
     (let txt = js_string (coalesce request (JStr [])) in
      map (\<lambda>rule. [(''fromStage'', JStr (hr_fromStage rule)), (''toStage'', JStr (hr_toStage rule)),
            (''requiredDecision'', JStr (hr_requiredDecision rule)), (''rationale'', JStr (hr_rationale rule)),
            (''provenance'', JStr ''heuristic-decision-dependency'')])
        (filter (\<lambda>rule. hr_fromStage rule \<in> set selectedStages \<and> hr_toStage rule \<in> set selectedStages
            \<and> re_test_ci (hr_pattern rule) txt) HEURISTIC_RULES))"

subsection \<open>Normalisation and merging\<close>

definition edgeKey :: "obj \<Rightarrow> string" where
  "edgeKey edge = js_string (get edge ''fromStage'') @ ''->'' @ js_string (get edge ''toStage'') @ '':''
     @ js_string (get edge ''requiredDecision'')"

definition assertReviewStage :: "string \<Rightarrow> string \<Rightarrow> unit res" where
  "assertReviewStage stage fieldName =
     ensure (re_test REVIEW_STAGE_PATTERN stage) (''bootstrap_review_dependency_invalid_'' @ fieldName @ '':'' @ stage)"

definition normalize_edge :: "string \<Rightarrow> jsval \<Rightarrow> obj res" where
  "normalize_edge provenance raw =
     (case raw of
        JObj raw_fields \<Rightarrow>
          (let fromStage = compact (get raw_fields ''fromStage''); toStage = compact (get raw_fields ''toStage'');
               requiredDecision = compact (get raw_fields ''requiredDecision''); rationale = compact (get raw_fields ''rationale'');
               given = compact (get raw_fields ''provenance'') in
           bindR (assertReviewStage fromStage ''source'') (\<lambda>_.
           bindR (assertReviewStage toStage ''target'') (\<lambda>_.
           bindR (ensure (fromStage \<noteq> toStage) (''bootstrap_review_dependency_self_cycle:'' @ fromStage)) (\<lambda>_.
           bindR (ensure (requiredDecision \<noteq> []) ''bootstrap_review_dependency_required_decision_missing'') (\<lambda>_.
           bindR (ensure (rationale \<noteq> []) ''bootstrap_review_dependency_rationale_missing'') (\<lambda>_.
           Inr [(''fromStage'', JStr fromStage), (''toStage'', JStr toStage), (''requiredDecision'', JStr requiredDecision),
                (''rationale'', JStr rationale), (''provenance'', JStr (if given \<noteq> [] then given else provenance))]))))))
      | _ \<Rightarrow> Inl ''bootstrap_review_dependency_invalid_entry'')"

fun normalize_edges :: "string \<Rightarrow> jsval list \<Rightarrow> string list \<Rightarrow> obj list \<Rightarrow> obj list res" where
  "normalize_edges provenance [] seen normalized = Inr normalized"
| "normalize_edges provenance (raw # rest) seen normalized =
     bindR (normalize_edge provenance raw) (\<lambda>edge.
     if edgeKey edge \<in> set seen then normalize_edges provenance rest seen normalized
     else normalize_edges provenance rest (seen @ [edgeKey edge]) (normalized @ [edge]))"

definition normalizeBootstrapReviewDependencies :: "jsval \<Rightarrow> string \<Rightarrow> obj list res" where
  "normalizeBootstrapReviewDependencies value provenance =
     (if nullish value then Inr []
      else case value of
        JArr xs \<Rightarrow> normalize_edges provenance xs [] []
      | _ \<Rightarrow> Inl ''bootstrap_review_dependencies_invalid'')"

fun merge_edges :: "obj list \<Rightarrow> string list \<Rightarrow> obj list" where
  "merge_edges [] seen = []"
| "merge_edges (edge # edges) seen =
     (if edgeKey edge \<in> set seen then merge_edges edges seen
      else edge # merge_edges edges (edgeKey edge # seen))"

definition mergeBootstrapReviewDependencies :: "obj list list \<Rightarrow> obj list" where
  "mergeBootstrapReviewDependencies groups = merge_edges (concat groups) []"

subsection \<open>The cycle check\<close>

text \<open>The ends of an edge; stages are compared as strings.\<close>

definition edge_from :: "obj \<Rightarrow> string" where
  "edge_from edge = js_string (get edge ''fromStage'')"

definition edge_to :: "obj \<Rightarrow> string" where
  "edge_to edge = js_string (get edge ''toStage'')"

definition selected_arcs :: "obj list \<Rightarrow> string list \<Rightarrow> (string \<times> string) list" where
  "selected_arcs edges selected =
     filter (\<lambda>(u, v). u \<in> set selected \<and> v \<in> set selected) (map (\<lambda>edge. (edge_from edge, edge_to edge)) edges)"

text \<open>\<open>outgoing.get(from).push(to)\<close> and \<open>indegree.set(to, (indegree.get(to) ?? 0) + 1)\<close>\<close>

fun push_arc :: "string \<times> string \<Rightarrow> (string \<times> string list) list \<times> degrees \<Rightarrow> (string \<times> string list) list \<times> degrees" where
  "push_arc (u, v) (outgoing, indegree) =
     (AList.update u (targets_of outgoing u @ [v]) outgoing, AList.update v (degree indegree v + 1) indegree)"

definition stage_maps :: "string list \<Rightarrow> (string \<times> string) list \<Rightarrow> (string \<times> string list) list \<times> degrees" where
  "stage_maps selected arcs = fold push_arc arcs (map (\<lambda>s. (s, [])) selected, map (\<lambda>s. (s, 0)) selected)"

definition assertAcyclicBootstrapReviewDependencies :: "obj list \<Rightarrow> string list \<Rightarrow> unit res" where
  "assertAcyclicBootstrapReviewDependencies edges selectedStages =
     (let selected = uniq selectedStages;
          (outgoing, indegree) = stage_maps selected (selected_arcs edges selected);
          (visited, final) = kahn_loop Fifo (targets_of outgoing) (filter (\<lambda>s. degree indegree s = 0) selected) indegree 0 in
      if visited \<noteq> length selected
      then Inl (''bootstrap_review_dependency_cycle:'' @ join '','' (sort (filter (\<lambda>s. degree final s > 0) selected)))
      else Inr ())"

subsection \<open>Task dependencies\<close>

definition dependencyStagesFromEdges :: "obj list \<Rightarrow> string list" where
  "dependencyStagesFromEdges edges = uniq (concat (map (\<lambda>edge. [edge_from edge, edge_to edge]) edges))"

definition reviewDependenciesForStage :: "string \<Rightarrow> string \<Rightarrow> obj list \<Rightarrow> (string \<times> string) list \<Rightarrow> string list" where
  "reviewDependenciesForStage stage discoveryTaskId edges taskIdByStage =
     (let upstream = concat (map (\<lambda>edge. case map_of taskIdByStage (edge_from edge) of None \<Rightarrow> [] | Some t \<Rightarrow> if t = [] then [] else [t])
            (filter (\<lambda>edge. edge_to edge = stage) edges)) in
      uniq (discoveryTaskId # upstream))"

definition truthy_field :: "obj \<Rightarrow> string \<Rightarrow> obj" where
  "truthy_field edge k = (if truthy (get edge k) then [(k, get edge k)] else [])"

definition task_for_stage :: "(string \<times> string) list \<Rightarrow> string \<Rightarrow> jsval" where
  "task_for_stage taskIdByStage stage = (case map_of taskIdByStage stage of None \<Rightarrow> JNull | Some t \<Rightarrow> JStr t)"

definition materializeBootstrapReviewDependencies :: "obj list \<Rightarrow> (string \<times> string) list \<Rightarrow> obj list" where
  "materializeBootstrapReviewDependencies edges taskIdByStage =
     map (\<lambda>edge. [(''fromStage'', get edge ''fromStage''), (''toStage'', get edge ''toStage''),
        (''fromTaskId'', task_for_stage taskIdByStage (edge_from edge)),
        (''toTaskId'', task_for_stage taskIdByStage (edge_to edge)), (''requiredDecision'', get edge ''requiredDecision'')]
        @ truthy_field edge ''factId'' @ truthy_field edge ''fromCapabilityId'' @ truthy_field edge ''toCapabilityId''
        @ truthy_field edge ''legacyRequiredDecision''
        @ [(''rationale'', get edge ''rationale''), (''provenance'', get edge ''provenance'')]) edges"

subsection \<open>The cycle check is exact\<close>

lemma targets_of_update [simp]: "targets_of (AList.update u ts outgoing) w = (if w = u then ts else targets_of outgoing w)"
  by (simp add: targets_of_def)

lemma fold_push_arc:
  "fold push_arc arcs (outgoing, indegree) = (outgoing', indegree') \<Longrightarrow>
     targets_of outgoing' u = targets_of outgoing u @ map snd (filter (\<lambda>arc. fst arc = u) arcs)
     \<and> degree indegree' v = degree indegree v + int (length (filter (\<lambda>arc. snd arc = v) arcs))"
proof (induction arcs arbitrary: outgoing indegree)
  case (Cons arc arcs)
  obtain a b where arc: "arc = (a, b)" by (cases arc)
  from Cons.prems have "fold push_arc arcs (AList.update a (targets_of outgoing a @ [b]) outgoing,
      AList.update b (degree indegree b + 1) indegree) = (outgoing', indegree')"
    by (simp add: arc)
  from Cons.IH[OF this] show ?case by (simp add: arc)
qed simp

lemma initial_maps: "targets_of (map (\<lambda>s. (s, [])) xs) u = []" "degree (map (\<lambda>s. (s, 0)) xs) v = 0"
  by (induction xs) (auto simp: targets_of_def degree_def split: option.splits if_splits)

lemma stage_maps_graph:
  "targets_of (fst (stage_maps selected arcs)) u = map snd (filter (\<lambda>arc. fst arc = u) arcs)"
  "degree (snd (stage_maps selected arcs)) v = int (length (filter (\<lambda>arc. snd arc = v) arcs))"
  using fold_push_arc[of arcs "map (\<lambda>s. (s, [])) selected" "map (\<lambda>s. (s, 0)) selected"
      "fst (stage_maps selected arcs)" "snd (stage_maps selected arcs)"]
  by (simp_all add: stage_maps_def initial_maps)

interpretation review: stage_graph "uniq selected" "selected_arcs edges (uniq selected)"
  "targets_of (fst (stage_maps (uniq selected) (selected_arcs edges (uniq selected))))"
  "snd (stage_maps (uniq selected) (selected_arcs edges (uniq selected)))" for edges selected
  by unfold_locales (auto simp: stage_maps_graph selected_arcs_def)

text \<open>C31: the bootstrap cycle check is exact. It succeeds if and only if the dependencies between the selected stages
  have no cycle, whatever the order and the number of the edges; edges that leave the selection do not count.\<close>

theorem review_acyclic_iff:
  "assertAcyclicBootstrapReviewDependencies edges selectedStages = Inr () \<longleftrightarrow>
     acyclic (set (selected_arcs edges (uniq selectedStages)))"
proof -
  let ?selected = "uniq selectedStages"
  let ?maps = "stage_maps ?selected (selected_arcs edges ?selected)"
  obtain visited final where run: "kahn_loop Fifo (targets_of (fst ?maps))
      (arrange Fifo (filter (\<lambda>s. degree (snd ?maps) s = 0) ?selected)) (snd ?maps) 0 = (visited, final)"
    by (cases "kahn_loop Fifo (targets_of (fst ?maps))
      (arrange Fifo (filter (\<lambda>s. degree (snd ?maps) s = 0) ?selected)) (snd ?maps) 0")
  from review.kahn_correct(1)[where a = Fifo, folded review.start_def] run
  have "visited = length ?selected \<longleftrightarrow> acyclic (set (selected_arcs edges ?selected))"
    by (simp add: review.start_def)
  then show ?thesis
    using run by (auto simp: assertAcyclicBootstrapReviewDependencies_def Let_def split: prod.splits)
qed

subsection \<open>Normalisation is idempotent\<close>

lemma compact_JStr [simp]: "compact (JStr s) = trim s"
  by (simp add: compact_def)

lemma trim_compact [simp]: "trim (compact v) = compact v"
  by (simp add: compact_def)

lemma normalize_edge_fixed:
  assumes "trim provenance = provenance" and "normalize_edge provenance raw = Inr edge"
  shows "normalize_edge provenance (JObj edge) = Inr edge"
proof -
  obtain raw_fields where raw: "raw = JObj raw_fields"
    using assms(2) by (cases raw) (auto simp: normalize_edge_def)
  show ?thesis
    using assms unfolding raw normalize_edge_def jsval.case Let_def
    by (auto simp: bindR_Inr)
qed

lemma normalize_edges_inv:
  assumes "trim provenance = provenance"
  shows "normalize_edges provenance raws (map edgeKey acc) acc = Inr edges \<Longrightarrow> distinct (map edgeKey acc)
    \<Longrightarrow> list_all (\<lambda>edge. normalize_edge provenance (JObj edge) = Inr edge) acc
    \<Longrightarrow> distinct (map edgeKey edges) \<and> list_all (\<lambda>edge. normalize_edge provenance (JObj edge) = Inr edge) edges"
proof (induction raws arbitrary: acc)
  case (Cons raw raws)
  from Cons.prems(1) obtain edge where edge: "normalize_edge provenance raw = Inr edge"
    by (auto simp: bindR_Inr)
  show ?case
  proof (cases "edgeKey edge \<in> set (map edgeKey acc)")
    case True
    with Cons.prems(1) edge have "normalize_edges provenance raws (map edgeKey acc) acc = Inr edges" by simp
    from Cons.IH[OF this Cons.prems(2,3)] show ?thesis .
  next
    case False
    with Cons.prems(1) edge have run: "normalize_edges provenance raws (map edgeKey (acc @ [edge])) (acc @ [edge]) = Inr edges"
      by simp
    show ?thesis
      by (rule Cons.IH[OF run]) (use False Cons.prems(2,3) normalize_edge_fixed[OF assms edge] in auto)
  qed
qed simp

lemma normalize_edges_id:
  assumes "list_all (\<lambda>edge. normalize_edge provenance (JObj edge) = Inr edge) edges"
    and "distinct (map edgeKey (acc @ edges))"
  shows "normalize_edges provenance (map JObj edges) (map edgeKey acc) acc = Inr (acc @ edges)"
  using assms
proof (induction edges arbitrary: acc)
  case (Cons edge edges)
  have "edgeKey edge \<notin> set (map edgeKey acc)" using Cons.prems(2) by auto
  with Cons.prems Cons.IH[of "acc @ [edge]"] show ?case by simp
qed simp

text \<open>C40: normalisation is a projection. The edges it returns have distinct keys, and normalising the returned list again
  under the same provenance returns it unchanged.\<close>

theorem review_normalize_idempotent:
  assumes "trim provenance = provenance" and "normalizeBootstrapReviewDependencies v provenance = Inr edges"
  shows "distinct (map edgeKey edges)
    \<and> normalizeBootstrapReviewDependencies (JArr (map JObj edges)) provenance = Inr edges"
proof (cases "nullish v")
  case True
  with assms(2) show ?thesis by (simp add: normalizeBootstrapReviewDependencies_def)
next
  case False
  with assms(2) obtain raws where "normalize_edges provenance raws [] [] = Inr edges"
    by (cases v) (auto simp: normalizeBootstrapReviewDependencies_def)
  with normalize_edges_inv[OF assms(1), of raws "[]" edges]
  have inv: "distinct (map edgeKey edges)" "list_all (\<lambda>edge. normalize_edge provenance (JObj edge) = Inr edge) edges" by auto
  with normalize_edges_id[of provenance edges "[]"] show ?thesis
    by (simp add: normalizeBootstrapReviewDependencies_def)
qed

definition sample_review_edge :: obj where
  "sample_review_edge = [(''fromStage'', JStr ''a-review''), (''toStage'', JStr ''b-review''),
     (''requiredDecision'', JStr ''d''), (''rationale'', JStr ''why'')]"

lemma sample_review_edge_normal:
  "normalizeBootstrapReviewDependencies (JArr [JObj sample_review_edge, JObj sample_review_edge]) ''r'' =
     Inr [sample_review_edge @ [(''provenance'', JStr ''r'')]]"
  by code_simp

theorem review_normalize_idempotent_witness:
  "normalizeBootstrapReviewDependencies (JArr (map JObj [sample_review_edge @ [(''provenance'', JStr ''r'')]])) ''r''
     = Inr [sample_review_edge @ [(''provenance'', JStr ''r'')]]"
  using review_normalize_idempotent[OF _ sample_review_edge_normal] by (simp add: trim_def is_space_def)

end
