(* ===== verification/BootstrapCapabilities.thy ===== *)
theory BootstrapCapabilities
  imports ReviewTopology
begin

text \<open>
  Review capabilities and the facts they decide (\<open>bootstrap-capabilities.mjs\<close>): the catalog read from the registry,
  the normalisation of fact requirements, and the topology of review stages they induce. A registry is what
  \<open>agent-catalog.mjs\<close> assembles: the agents, their index and the workflow document.
\<close>

record registry =
  rg_orchestrator :: string
  rg_agents :: "obj list"
  rg_byId :: "(string \<times> obj) list"
  rg_workflow :: jsval

record capability =
  cp_capabilityId :: string
  cp_stage :: string
  cp_agentId :: string
  cp_impactField :: jsval
  cp_providesFacts :: "string list"

record catalog =
  ct_factContractVersion :: string
  ct_capabilities :: "capability list"
  ct_byId :: "(string \<times> capability) list"
  ct_byStage :: "(string \<times> capability) list"
  ct_providersByFact :: "(string \<times> capability list) list"
  ct_authoritativeSources :: "jsval list"

definition BOOTSTRAP_CAPABILITY_CONTRACT_VERSION :: string where
  "BOOTSTRAP_CAPABILITY_CONTRACT_VERSION = ''bootstrap-capabilities/v1''"

definition BOOTSTRAP_FACT_CONTRACT_VERSION :: string where
  "BOOTSTRAP_FACT_CONTRACT_VERSION = ''bootstrap-facts/v1''"

definition RESERVED_PROCESS_STAGES :: "string list" where
  "RESERVED_PROCESS_STAGES = [''product-discovery'', ''technical-refinement'', ''implementation'', ''quality-assurance'',
     ''operational-readiness'', ''product-acceptance'']"

definition isBootstrapReviewStage :: "jsval \<Rightarrow> bool" where
  "isBootstrapReviewStage stage \<longleftrightarrow> re_test REVIEW_STAGE_PATTERN (compact stage) \<and> compact stage \<notin> set RESERVED_PROCESS_STAGES"

definition DEFAULT_AUTHORITATIVE_SOURCES :: "string list" where
  "DEFAULT_AUTHORITATIVE_SOURCES = [''product-discovery'', ''frozen-adr'', ''project-memory'', ''repository-context'']"

definition FACT_ALIASES :: "(string \<times> string) list" where
  "FACT_ALIASES =
    [(''state-authority'', ''decision.state-authority''), (''state-and-transaction-authority'', ''decision.state-authority''),
     (''transaction-boundary'', ''decision.transaction-boundary''), (''consistency-boundary'', ''decision.consistency-boundary''),
     (''runtime-and-deployment-topology'', ''decision.runtime-topology''), (''runtime-topology'', ''decision.runtime-topology''),
     (''deployment-topology'', ''decision.runtime-topology''), (''model-and-inference-boundary'', ''decision.model-inference-boundary''),
     (''model-inference-boundary'', ''decision.model-inference-boundary''),
     (''database-availability-topology'', ''decision.database-availability-topology'')]"

record fact_rule =
  fr_factId :: string
  fr_requiredDecision :: string
  fr_consumer :: string
  fr_provider :: string
  fr_pattern :: re
  fr_rationale :: string

definition HEURISTIC_FACT_RULES :: "fact_rule list" where
  "HEURISTIC_FACT_RULES =
    [\<lparr>fr_factId = ''decision.state-authority'', fr_requiredDecision = ''state-and-transaction-authority'',
      fr_consumer = ''review.database'', fr_provider = ''review.architecture'', fr_pattern = authority_words,
      fr_rationale = ''Database review needs an unresolved state/consistency authority decision from Architecture.''\<rparr>,
     \<lparr>fr_factId = ''decision.runtime-topology'', fr_requiredDecision = ''runtime-and-deployment-topology'',
      fr_consumer = ''review.infrastructure'', fr_provider = ''review.architecture'', fr_pattern = topology_words,
      fr_rationale = ''Infrastructure review needs an unresolved Runtime/deployment topology decision from Architecture.''\<rparr>,
     \<lparr>fr_factId = ''decision.model-inference-boundary'', fr_requiredDecision = ''model-and-inference-boundary'',
      fr_consumer = ''review.ai-operations'', fr_provider = ''review.architecture'', fr_pattern = inference_words,
      fr_rationale = ''AI/LLMOps review needs an unresolved model/inference boundary decision from Architecture.''\<rparr>,
     \<lparr>fr_factId = ''decision.database-availability-topology'', fr_requiredDecision = ''database-availability-topology'',
      fr_consumer = ''review.infrastructure'', fr_provider = ''review.database'', fr_pattern = availability_words,
      fr_rationale = ''Infrastructure review needs an unresolved database availability/provisioning decision from Database.''\<rparr>]"

text \<open>\<open>text.replace(/\<^verbatim>\<open>\s\<close>+/g, "-")\<close>\<close>

fun white_dash :: "bool \<Rightarrow> string \<Rightarrow> string" where
  "white_dash inrun [] = []"
| "white_dash inrun (c # cs) =
     (if is_space c then (if inrun then white_dash True cs else CHR ''-'' # white_dash True cs) else c # white_dash False cs)"

definition normalizeFactId :: "jsval \<Rightarrow> string res" where
  "normalizeFactId v =
     (let compacted = white_dash False (toLowerCase (compact v)) in
      if compacted = [] then Inl ''bootstrap_fact_id_missing''
      else case map_of FACT_ALIASES compacted of
        Some alias \<Rightarrow> Inr alias
      | None \<Rightarrow>
          if starts_with compacted ''decision.'' then Inr compacted
          else Inr (''decision.'' @ (if starts_with compacted ''decision-'' then drop 9 compacted else compacted)))"

subsection \<open>The catalog\<close>

definition or_text :: "string \<Rightarrow> string \<Rightarrow> string" where
  "or_text a b = (if a \<noteq> [] then a else b)"

definition capability_of :: "registry \<Rightarrow> jsval \<Rightarrow> capability res" where
  "capability_of registry entry =
     (let capabilityId = compact (field entry ''capabilityId''); stage = compact (field entry ''stage'');
          agentId = compact (field entry ''agentId'') in
      bindR (ensure (capabilityId \<noteq> []) (''bootstrap_capability_id_missing:'' @ or_text stage (or_text agentId ''unknown''))) (\<lambda>_.
      bindR (ensure (isBootstrapReviewStage (JStr stage)) (''bootstrap_capability_stage_invalid:'' @ stage)) (\<lambda>_.
      bindR (ensure (agentId \<noteq> [] \<and> map_of (rg_byId registry) agentId \<noteq> None)
               (''bootstrap_capability_agent_invalid:'' @ or_text agentId ''missing'')) (\<lambda>_.
      bindR (mapR normalizeFactId (elements (field entry ''providesFacts''))) (\<lambda>facts.
      bindR (ensure (facts \<noteq> []) (''bootstrap_capability_facts_missing:'' @ capabilityId)) (\<lambda>_.
      Inr \<lparr>cp_capabilityId = capabilityId, cp_stage = stage, cp_agentId = agentId,
           cp_impactField = coalesce (field entry ''impactField'') JNull, cp_providesFacts = uniq facts\<rparr>))))))"

definition add_provider :: "capability \<Rightarrow> string \<Rightarrow> (string \<times> capability list) list \<Rightarrow> (string \<times> capability list) list" where
  "add_provider cap factId m = AList.update factId ((case map_of m factId of None \<Rightarrow> [] | Some ps \<Rightarrow> ps) @ [cap]) m"

type_synonym catalog_maps = "(string \<times> capability) list \<times> (string \<times> capability) list \<times> (string \<times> capability list) list"

fun index_capabilities :: "capability list \<Rightarrow> catalog_maps \<Rightarrow> catalog_maps res" where
  "index_capabilities [] maps = Inr maps"
| "index_capabilities (cap # caps) (byId, byStage, providers) =
     bindR (ensure (map_of byId (cp_capabilityId cap) = None) (''bootstrap_capability_duplicate:'' @ cp_capabilityId cap)) (\<lambda>_.
     bindR (ensure (map_of byStage (cp_stage cap) = None) (''bootstrap_capability_stage_duplicate:'' @ cp_stage cap)) (\<lambda>_.
     index_capabilities caps
       (AList.update (cp_capabilityId cap) cap byId, AList.update (cp_stage cap) cap byStage,
        fold (add_provider cap) (cp_providesFacts cap) providers)))"

definition capabilityCatalogFromRegistry :: "registry \<Rightarrow> catalog res" where
  "capabilityCatalogFromRegistry registry =
     (let bootstrap = coalesce (field (rg_workflow registry) ''bootstrap'') (JObj []);
          raw = elements (field bootstrap ''reviewCapabilities'');
          factResolution = coalesce (field bootstrap ''factResolution'') (JObj []);
          version = or_text (compact (field factResolution ''contractVersion'')) BOOTSTRAP_FACT_CONTRACT_VERSION;
          sources = uniq (filter truthy (case field factResolution ''authoritativeSources'' of
                      JArr xs \<Rightarrow> xs | _ \<Rightarrow> map JStr DEFAULT_AUTHORITATIVE_SOURCES)) in
      bindR (ensure (raw \<noteq> []) ''bootstrap_capability_catalog_missing'') (\<lambda>_.
      bindR (mapR (capability_of registry) raw) (\<lambda>caps.
      bindR (index_capabilities caps ([], [], [])) (\<lambda>(byId, byStage, providers).
      bindR (ensure (version = BOOTSTRAP_FACT_CONTRACT_VERSION) (''bootstrap_fact_contract_version_invalid:'' @ version)) (\<lambda>_.
      bindR (ensure (sources \<noteq> []) ''bootstrap_fact_authoritative_sources_missing'') (\<lambda>_.
      Inr \<lparr>ct_factContractVersion = version, ct_capabilities = caps, ct_byId = byId, ct_byStage = byStage,
           ct_providersByFact = providers, ct_authoritativeSources = sources\<rparr>))))))"

definition reviewStages :: "catalog \<Rightarrow> string list" where
  "reviewStages catalog = map cp_stage (ct_capabilities catalog)"

subsection \<open>Fact requirements\<close>

record requirement =
  rq_factId :: string
  rq_legacyRequiredDecision :: jsval
  rq_consumerCapabilityId :: string
  rq_resolution :: string
  rq_providerCapabilityId :: "string option"
  rq_source :: string
  rq_evidence :: string
  rq_rationale :: string
  rq_provenance :: string

definition provider_json :: "requirement \<Rightarrow> jsval" where
  "provider_json r = (case rq_providerCapabilityId r of None \<Rightarrow> JNull | Some p \<Rightarrow> JStr p)"

definition requirement_json :: "requirement \<Rightarrow> obj" where
  "requirement_json r =
     [(''factId'', JStr (rq_factId r)), (''legacyRequiredDecision'', rq_legacyRequiredDecision r),
      (''consumerCapabilityId'', JStr (rq_consumerCapabilityId r)), (''resolution'', JStr (rq_resolution r)),
      (''providerCapabilityId'', provider_json r), (''source'', JStr (rq_source r)), (''evidence'', JStr (rq_evidence r)),
      (''rationale'', JStr (rq_rationale r)), (''provenance'', JStr (rq_provenance r))]"

definition requirementIdentity :: "requirement \<Rightarrow> string" where
  "requirementIdentity r = rq_consumerCapabilityId r @ ''|'' @ rq_factId r"

definition requirementKey :: "requirement \<Rightarrow> string" where
  "requirementKey r = join ''|'' [rq_consumerCapabilityId r, rq_factId r, rq_resolution r,
     (case rq_providerCapabilityId r of None \<Rightarrow> [] | Some p \<Rightarrow> p), rq_source r]"

definition resolveProviderCapability :: "catalog \<Rightarrow> string \<Rightarrow> string \<Rightarrow> capability res" where
  "resolveProviderCapability catalog factId requested =
     (if requested \<noteq> [] then
        (case map_of (ct_byId catalog) requested of
           None \<Rightarrow> Inl (''bootstrap_fact_provider_capability_unknown:'' @ requested)
         | Some provider \<Rightarrow>
             if factId \<notin> set (cp_providesFacts provider)
             then Inl (''bootstrap_fact_provider_does_not_provide:'' @ requested @ '':'' @ factId)
             else Inr provider)
      else
        (case (case map_of (ct_providersByFact catalog) factId of None \<Rightarrow> [] | Some ps \<Rightarrow> ps) of
           [] \<Rightarrow> Inl (''bootstrap_fact_provider_missing:'' @ factId)
         | [provider] \<Rightarrow> Inr provider
         | ps \<Rightarrow> Inl (''bootstrap_fact_provider_ambiguous:'' @ factId @ '':'' @ join '','' (sort (map cp_capabilityId ps)))))"

definition or_js :: "jsval \<Rightarrow> jsval \<Rightarrow> jsval" where
  "or_js a b = (if truthy a then a else b)"

text \<open>The provider of a requirement: none for a fact taken from authoritative context.\<close>

definition requirement_provider :: "catalog \<Rightarrow> string \<Rightarrow> string \<Rightarrow> string \<Rightarrow> string \<Rightarrow> string \<Rightarrow> string option res" where
  "requirement_provider catalog factId consumerCapabilityId resolution source requested =
     (if resolution = ''authoritative-context'' then
        bindR (ensure (JStr source \<in> set (ct_authoritativeSources catalog)) (''bootstrap_fact_authoritative_source_invalid:'' @ source)) (\<lambda>_.
        bindR (ensure (requested = []) (''bootstrap_fact_authoritative_provider_forbidden:'' @ factId)) (\<lambda>_. Inr None))
      else
        bindR (resolveProviderCapability catalog factId requested) (\<lambda>provider.
        bindR (ensure (cp_capabilityId provider \<noteq> consumerCapabilityId)
                 (''bootstrap_fact_self_dependency:'' @ consumerCapabilityId @ '':'' @ factId)) (\<lambda>_.
        Inr (Some (cp_capabilityId provider)))))"

definition normalize_requirement :: "catalog \<Rightarrow> string \<Rightarrow> jsval \<Rightarrow> requirement res" where
  "normalize_requirement catalog provenance raw =
     (case raw of
        JObj ps \<Rightarrow>
          bindR (normalizeFactId (coalesce (get ps ''factId'') (get ps ''requiredDecision''))) (\<lambda>factId.
          let consumerCapabilityId = compact (get ps ''consumerCapabilityId'');
              resolution = compact (or_js (get ps ''resolution'')
                (JStr (if truthy (get ps ''providerCapabilityId'') then ''review'' else ''authoritative-context'')));
              source = compact (or_js (get ps ''source'') (JStr provenance)); evidence = compact (get ps ''evidence'');
              rationale = compact (get ps ''rationale''); legacy = compact (get ps ''requiredDecision'') in
          bindR (ensure (map_of (ct_byId catalog) consumerCapabilityId \<noteq> None)
                   (''bootstrap_fact_consumer_capability_unknown:'' @ or_text consumerCapabilityId ''missing'')) (\<lambda>_.
          bindR (ensure (resolution = ''review'' \<or> resolution = ''authoritative-context'') (''bootstrap_fact_resolution_invalid:'' @ resolution)) (\<lambda>_.
          bindR (ensure (source \<noteq> []) ''bootstrap_fact_source_missing'') (\<lambda>_.
          bindR (ensure (evidence \<noteq> []) ''bootstrap_fact_evidence_missing'') (\<lambda>_.
          bindR (ensure (rationale \<noteq> []) ''bootstrap_fact_rationale_missing'') (\<lambda>_.
          bindR (requirement_provider catalog factId consumerCapabilityId resolution source (compact (get ps ''providerCapabilityId''))) (\<lambda>provider.
          Inr \<lparr>rq_factId = factId, rq_legacyRequiredDecision = (if legacy \<noteq> [] then JStr legacy else JNull),
               rq_consumerCapabilityId = consumerCapabilityId, rq_resolution = resolution, rq_providerCapabilityId = provider,
               rq_source = source, rq_evidence = evidence, rq_rationale = rationale,
               rq_provenance = or_text (compact (get ps ''provenance'')) provenance\<rparr>)))))))
      | _ \<Rightarrow> Inl ''bootstrap_fact_requirement_invalid_entry'')"

text \<open>Two requirements on one fact that want it from different places.\<close>

definition conflicts :: "requirement \<Rightarrow> requirement \<Rightarrow> bool" where
  "conflicts prior r \<longleftrightarrow> rq_resolution prior \<noteq> rq_resolution r \<or> rq_providerCapabilityId prior \<noteq> rq_providerCapabilityId r
     \<or> rq_source prior \<noteq> rq_source r"

fun normalize_requirements ::
  "catalog \<Rightarrow> string \<Rightarrow> jsval list \<Rightarrow> string list \<Rightarrow> (string \<times> requirement) list \<Rightarrow> requirement list \<Rightarrow> requirement list res" where
  "normalize_requirements catalog provenance [] seen identityMap normalized = Inr normalized"
| "normalize_requirements catalog provenance (raw # rest) seen identityMap normalized =
     bindR (normalize_requirement catalog provenance raw) (\<lambda>r.
     bindR (ensure (\<not> (case map_of identityMap (requirementIdentity r) of None \<Rightarrow> False | Some prior \<Rightarrow> conflicts prior r))
              (''bootstrap_fact_requirement_conflict:'' @ rq_consumerCapabilityId r @ '':'' @ rq_factId r)) (\<lambda>_.
     let identityMap' = AList.update (requirementIdentity r) r identityMap in
     if requirementKey r \<in> set seen then normalize_requirements catalog provenance rest seen identityMap' normalized
     else normalize_requirements catalog provenance rest (seen @ [requirementKey r]) identityMap' (normalized @ [r])))"

definition normalizeBootstrapFactRequirements :: "jsval \<Rightarrow> catalog \<Rightarrow> string \<Rightarrow> requirement list res" where
  "normalizeBootstrapFactRequirements v catalog provenance =
     (if nullish v then Inr []
      else case v of
        JArr xs \<Rightarrow> normalize_requirements catalog provenance xs [] [] []
      | _ \<Rightarrow> Inl ''bootstrap_fact_requirements_invalid'')"

definition legacy_requirement :: "catalog \<Rightarrow> string \<Rightarrow> obj \<Rightarrow> jsval res" where
  "legacy_requirement catalog provenance edge =
     (let fromText = js_string (get edge ''fromStage''); toText = js_string (get edge ''toStage'') in
      case map_of (ct_byStage catalog) (compact (get edge ''fromStage'')) of
        None \<Rightarrow> Inl (''bootstrap_fact_legacy_provider_stage_unknown:'' @ fromText)
      | Some provider \<Rightarrow>
          (case map_of (ct_byStage catalog) (compact (get edge ''toStage'')) of
             None \<Rightarrow> Inl (''bootstrap_fact_legacy_consumer_stage_unknown:'' @ toText)
           | Some consumer \<Rightarrow>
               bindR (normalizeFactId (get edge ''requiredDecision'')) (\<lambda>factId.
               Inr (JObj [(''factId'', JStr factId), (''consumerCapabilityId'', JStr (cp_capabilityId consumer)),
                 (''resolution'', JStr ''review''), (''providerCapabilityId'', JStr (cp_capabilityId provider)),
                 (''source'', JStr ''reasoning''),
                 (''evidence'', JStr (or_text (compact (get edge ''evidence'')) (''Legacy V11.5 edge '' @ fromText @ ''->'' @ toText))),
                 (''rationale'', JStr (or_text (compact (get edge ''rationale'')) (''Legacy dependency '' @ fromText @ ''->'' @ toText))),
                 (''provenance'', or_js (get edge ''provenance'') (JStr provenance))]))))"

definition legacyEdgesToFactRequirements :: "jsval \<Rightarrow> catalog \<Rightarrow> string \<Rightarrow> requirement list res" where
  "legacyEdgesToFactRequirements edges catalog provenance =
     (case edges of
        JArr xs \<Rightarrow> bindR (mapR (\<lambda>edge. legacy_requirement catalog provenance (case edge of JObj ps \<Rightarrow> ps | _ \<Rightarrow> [])) xs) (\<lambda>raws.
          normalizeBootstrapFactRequirements (JArr raws) catalog provenance)
      | _ \<Rightarrow> Inr [])"

definition rule_requirement :: "fact_rule \<Rightarrow> jsval" where
  "rule_requirement rule = JObj
     [(''factId'', JStr (fr_factId rule)), (''requiredDecision'', JStr (fr_requiredDecision rule)),
      (''consumerCapabilityId'', JStr (fr_consumer rule)), (''providerCapabilityId'', JStr (fr_provider rule)),
      (''rationale'', JStr (fr_rationale rule)), (''resolution'', JStr ''review''), (''source'', JStr ''reasoning''),
      (''evidence'', JStr (''High-confidence bounded heuristic matched request text for '' @ fr_factId rule @ ''.'')),
      (''provenance'', JStr ''heuristic-fact-dependency'')]"

definition inferBootstrapFactRequirements :: "jsval \<Rightarrow> catalog \<Rightarrow> requirement list res" where
  "inferBootstrapFactRequirements request catalog =
     normalizeBootstrapFactRequirements (JArr (map rule_requirement
       (filter (\<lambda>rule. map_of (ct_byId catalog) (fr_consumer rule) \<noteq> None \<and> map_of (ct_byId catalog) (fr_provider rule) \<noteq> None
           \<and> re_test_ci (fr_pattern rule) (js_string (coalesce request (JStr [])))) HEURISTIC_FACT_RULES)))
     catalog ''heuristic-fact-dependency''"

subsection \<open>The topology\<close>

record fact_edge =
  fe_fromCapabilityId :: string
  fe_toCapabilityId :: string
  fe_fromStage :: string
  fe_toStage :: string
  fe_requirement :: requirement

text \<open>A binding is a requirement with the stages of its consumer and, for an open decision, of its provider.\<close>

record binding =
  fb_requirement :: requirement
  fb_consumerStage :: string
  fb_providerStage :: "string option"
  fb_status :: string

record topology =
  tp_requirements :: "requirement list"
  tp_bindings :: "binding list"
  tp_edges :: "fact_edge list"
  tp_requiredCapabilityIds :: "string list"

definition fact_arcs :: "fact_edge list \<Rightarrow> string list \<Rightarrow> (string \<times> string) list" where
  "fact_arcs edges selected =
     filter (\<lambda>(u, v). u \<in> set selected \<and> v \<in> set selected) (map (\<lambda>edge. (fe_fromStage edge, fe_toStage edge)) edges)"

definition assertAcyclic :: "fact_edge list \<Rightarrow> string list \<Rightarrow> unit res" where
  "assertAcyclic edges stages =
     (let selected = uniq stages;
          (outgoing, indegree) = stage_maps selected (fact_arcs edges selected);
          (visited, final) = kahn_loop Sorted (targets_of outgoing) (sort (filter (\<lambda>s. degree indegree s = 0) selected)) indegree 0 in
      if visited \<noteq> length selected
      then Inl (''bootstrap_fact_dependency_cycle:'' @ join '','' (sort (filter (\<lambda>s. degree final s > 0) selected)))
      else Inr ())"

definition stage_of :: "catalog \<Rightarrow> string \<Rightarrow> string" where
  "stage_of catalog capabilityId = (case map_of (ct_byId catalog) capabilityId of None \<Rightarrow> [] | Some cap \<Rightarrow> cp_stage cap)"

definition edge_of :: "catalog \<Rightarrow> requirement \<Rightarrow> fact_edge option" where
  "edge_of catalog r = map_option (\<lambda>provider.
     \<lparr>fe_fromCapabilityId = provider, fe_toCapabilityId = rq_consumerCapabilityId r, fe_fromStage = stage_of catalog provider,
      fe_toStage = stage_of catalog (rq_consumerCapabilityId r), fe_requirement = r\<rparr>) (rq_providerCapabilityId r)"

definition binding_of :: "catalog \<Rightarrow> requirement \<Rightarrow> binding" where
  "binding_of catalog r =
     \<lparr>fb_requirement = r, fb_consumerStage = stage_of catalog (rq_consumerCapabilityId r),
      fb_providerStage = map_option (stage_of catalog) (rq_providerCapabilityId r),
      fb_status = (if rq_resolution r = ''authoritative-context'' then ''resolved'' else ''unresolved-review-input'')\<rparr>"

definition factEdgeKey :: "fact_edge \<Rightarrow> string" where
  "factEdgeKey edge = fe_fromStage edge @ ''->'' @ fe_toStage edge @ '':'' @ rq_factId (fe_requirement edge)"

fun unique_edges :: "string list \<Rightarrow> fact_edge list \<Rightarrow> fact_edge list" where
  "unique_edges seen [] = []"
| "unique_edges seen (edge # edges) =
     (if factEdgeKey edge \<in> set seen then unique_edges seen edges else edge # unique_edges (factEdgeKey edge # seen) edges)"

definition required_ids :: "requirement list \<Rightarrow> string list" where
  "required_ids rs = uniq (concat (map (\<lambda>r. rq_consumerCapabilityId r # (case rq_providerCapabilityId r of None \<Rightarrow> [] | Some p \<Rightarrow> [p])) rs))"

definition resolveBootstrapFactTopology :: "catalog \<Rightarrow> jsval \<Rightarrow> topology res" where
  "resolveBootstrapFactTopology catalog requirements =
     bindR (normalizeBootstrapFactRequirements requirements catalog ''reasoning'') (\<lambda>normalized.
     let edges = unique_edges [] (List.map_filter (edge_of catalog) normalized);
         stages = uniq (filter (\<lambda>s. s \<noteq> []) (map (stage_of catalog) (required_ids normalized))) in
     bindR (assertAcyclic edges stages) (\<lambda>_.
     Inr \<lparr>tp_requirements = normalized, tp_bindings = map (binding_of catalog) normalized, tp_edges = edges,
          tp_requiredCapabilityIds = sort (required_ids normalized)\<rparr>))"

definition fact_edge_json :: "fact_edge \<Rightarrow> obj" where
  "fact_edge_json edge =
     (let r = fe_requirement edge in
      [(''fromCapabilityId'', JStr (fe_fromCapabilityId edge)), (''toCapabilityId'', JStr (fe_toCapabilityId edge)),
       (''fromStage'', JStr (fe_fromStage edge)), (''toStage'', JStr (fe_toStage edge)), (''requiredDecision'', JStr (rq_factId r)),
       (''legacyRequiredDecision'', rq_legacyRequiredDecision r), (''factId'', JStr (rq_factId r)), (''rationale'', JStr (rq_rationale r)),
       (''evidence'', JStr (rq_evidence r)), (''source'', JStr (rq_source r)), (''provenance'', JStr (rq_provenance r))])"

definition materializeBootstrapFactBindings :: "binding list \<Rightarrow> (string \<times> string) list \<Rightarrow> obj list" where
  "materializeBootstrapFactBindings bindings taskIdByStage =
     map (\<lambda>b. let r = fb_requirement b in
       [(''factId'', JStr (rq_factId r)), (''status'', JStr (fb_status b)), (''resolution'', JStr (rq_resolution r)),
        (''consumerCapabilityId'', JStr (rq_consumerCapabilityId r)), (''consumerStage'', JStr (fb_consumerStage b)),
        (''consumerTaskId'', task_for_stage taskIdByStage (fb_consumerStage b)), (''providerCapabilityId'', provider_json r),
        (''providerStage'', (case fb_providerStage b of None \<Rightarrow> JNull | Some s \<Rightarrow> JStr s)),
        (''providerTaskId'', (case fb_providerStage b of None \<Rightarrow> JNull | Some s \<Rightarrow> task_for_stage taskIdByStage s)),
        (''source'', JStr (rq_source r)), (''evidence'', JStr (rq_evidence r)), (''rationale'', JStr (rq_rationale r)),
        (''provenance'', JStr (rq_provenance r))]) bindings"

definition capabilityIdsForStages :: "catalog \<Rightarrow> string list \<Rightarrow> string list" where
  "capabilityIdsForStages catalog stages =
     uniq (filter (\<lambda>i. i \<noteq> []) (List.map_filter (\<lambda>stage. map_option cp_capabilityId (map_of (ct_byStage catalog) stage)) stages))"

subsection \<open>What the catalog promises\<close>

definition stage_char :: "char \<Rightarrow> bool" where
  "stage_char c \<longleftrightarrow> is_lower c \<or> is_digit c \<or> c = CHR ''-''"

lemma slug_part_chars: "classes_within stage_char slug_part"
  by (simp add: slug_part_def re_plus_def stage_char_def)

lemma review_stage_chars:
  assumes "isBootstrapReviewStage (JStr stage)" and "trim stage = stage"
  shows "stage \<noteq> [] \<and> list_all stage_char stage"
proof -
  have pattern: "re_test (re_seq (TextStart # [slug_part, Star (Seq (lit ''-'') slug_part)] @ [lit ''-review'', TextEnd])) stage"
    using assms by (simp add: isBootstrapReviewStage_def REVIEW_STAGE_PATTERN_def)
  have "list_all stage_char stage"
    by (rule anchored_chars[OF pattern]) (simp add: slug_part_chars classes_within_lit stage_char_def is_lower_def)
  moreover have "\<not> re_test (re_seq (TextStart # [slug_part, Star (Seq (lit ''-'') slug_part)] @ [lit ''-review'', TextEnd])) []"
    by code_simp
  ultimately show ?thesis using pattern by metis
qed

text \<open>The indexes of a catalog agree with its capabilities.\<close>

definition maps_sound :: "capability set \<Rightarrow> catalog_maps \<Rightarrow> bool" where
  "maps_sound C maps \<longleftrightarrow> (case maps of (byId, byStage, providers) \<Rightarrow>
     (\<forall>i c. map_of byId i = Some c \<longrightarrow> c \<in> C \<and> cp_capabilityId c = i)
     \<and> (\<forall>i c. map_of byStage i = Some c \<longrightarrow> c \<in> C \<and> cp_stage c = i)
     \<and> (\<forall>f ps c. map_of providers f = Some ps \<longrightarrow> c \<in> set ps \<longrightarrow> c \<in> C \<and> f \<in> set (cp_providesFacts c)))"

definition providers_sound :: "capability set \<Rightarrow> (string \<times> capability list) list \<Rightarrow> bool" where
  "providers_sound C m \<longleftrightarrow> (\<forall>f ps c. map_of m f = Some ps \<longrightarrow> c \<in> set ps \<longrightarrow> c \<in> C \<and> f \<in> set (cp_providesFacts c))"

lemma add_provider_sound:
  "providers_sound C m \<Longrightarrow> cap \<in> C \<Longrightarrow> set facts \<subseteq> set (cp_providesFacts cap) \<Longrightarrow> providers_sound C (fold (add_provider cap) facts m)"
proof (induction facts arbitrary: m)
  case (Cons g facts)
  have "c \<in> C \<and> f \<in> set (cp_providesFacts c)" if step: "map_of (add_provider cap g m) f = Some ps" "c \<in> set ps" for f ps c
  proof -
    have "c = cap \<and> f = g \<or> (\<exists>qs. map_of m f = Some qs \<and> c \<in> set qs)"
      using step by (cases "f = g"; cases "map_of m g") (auto simp: add_provider_def)
    with Cons.prems show ?thesis unfolding providers_sound_def by (elim disjE) (simp, blast)
  qed
  then have "providers_sound C (add_provider cap g m)" unfolding providers_sound_def by blast
  with Cons.prems Cons.IH show ?case by simp
qed simp

lemma index_sound:
  assumes "index_capabilities caps maps = Inr maps'" and "maps_sound C maps" and "set caps \<subseteq> C"
  shows "maps_sound C maps'"
  using assms
proof (induction caps maps rule: index_capabilities.induct)
  case (2 cap caps byId byStage providers)
  have old: "maps_sound C (byId, byStage, providers)" and cap: "cap \<in> C" using 2(3,4) by simp_all
  then have "providers_sound C providers" unfolding maps_sound_def providers_sound_def prod.case by blast
  then have "providers_sound C (fold (add_provider cap) (cp_providesFacts cap) providers)"
    using cap by (rule add_provider_sound) simp
  note old cap this
  then have "maps_sound C (AList.update (cp_capabilityId cap) cap byId, AList.update (cp_stage cap) cap byStage,
        fold (add_provider cap) (cp_providesFacts cap) providers)"
    unfolding maps_sound_def providers_sound_def prod.case map_of_update by (simp split: if_splits)
  with 2 show ?case by (simp add: bindR_Inr)
qed simp

lemma index_complete:
  assumes "index_capabilities caps maps = Inr (byId', byStage', providers')"
  shows "(\<forall>i c. map_of (fst maps) i = Some c \<longrightarrow> map_of byId' i = Some c)
    \<and> (\<forall>c \<in> set caps. map_of byId' (cp_capabilityId c) = Some c)"
  using assms
proof (induction caps maps rule: index_capabilities.induct)
  case (2 cap caps byId byStage providers)
  then have new: "map_of byId (cp_capabilityId cap) = None" by (simp add: bindR_Inr)
  have IH: "\<forall>i c. map_of (AList.update (cp_capabilityId cap) cap byId) i = Some c \<longrightarrow> map_of byId' i = Some c"
      "\<forall>c \<in> set caps. map_of byId' (cp_capabilityId c) = Some c"
    using 2 by (simp_all add: bindR_Inr)
  have "map_of byId' i = Some c" if "map_of byId i = Some c" for i c
    using IH(1) that new by (cases "i = cp_capabilityId cap") (simp_all del: map_of_update add: update_conv')
  moreover have "map_of byId' (cp_capabilityId cap) = Some cap" using IH(1) by simp
  ultimately show ?case using IH(2) by simp
qed simp

lemma compact_fixed: "trim (compact v) = compact v"
  by (simp add: compact_def)

lemma capability_of_stage:
  assumes "capability_of registry entry = Inr c"
  shows "cp_stage c \<noteq> [] \<and> list_all stage_char (cp_stage c)"
proof -
  have "cp_stage c = compact (field entry ''stage'') \<and> isBootstrapReviewStage (JStr (compact (field entry ''stage'')))"
    using assms by (auto simp: capability_of_def Let_def bindR_Inr)
  with review_stage_chars compact_fixed show ?thesis by metis
qed

lemma mapR_Inr_set: "mapR f xs = Inr ys \<Longrightarrow> y \<in> set ys \<Longrightarrow> \<exists>x \<in> set xs. f x = Inr y"
  by (induction xs arbitrary: ys) (auto simp: bindR_Inr)

lemma catalog_sound:
  assumes "capabilityCatalogFromRegistry registry = Inr catalog"
  shows "map_of (ct_byId catalog) i = Some c \<Longrightarrow> c \<in> set (ct_capabilities catalog) \<and> cp_capabilityId c = i"
    and "map_of (ct_byStage catalog) i = Some c \<Longrightarrow> c \<in> set (ct_capabilities catalog) \<and> cp_stage c = i"
    and "map_of (ct_providersByFact catalog) f = Some ps \<Longrightarrow> c \<in> set ps
      \<Longrightarrow> c \<in> set (ct_capabilities catalog) \<and> f \<in> set (cp_providesFacts c)"
    and "c \<in> set (ct_capabilities catalog) \<Longrightarrow> cp_stage c \<noteq> [] \<and> list_all stage_char (cp_stage c)"
    and "c \<in> set (ct_capabilities catalog) \<Longrightarrow> map_of (ct_byId catalog) (cp_capabilityId c) = Some c"
proof -
  obtain caps byId byStage providers raw where
    caps: "mapR (capability_of registry) raw = Inr caps" "index_capabilities caps ([], [], []) = Inr (byId, byStage, providers)"
      "ct_capabilities catalog = caps" "ct_byId catalog = byId" "ct_byStage catalog = byStage" "ct_providersByFact catalog = providers"
    using assms by (auto simp: capabilityCatalogFromRegistry_def Let_def bindR_Inr)
  have "maps_sound (set caps) (byId, byStage, providers)"
    using index_sound[OF caps(2), of "set caps"] by (simp add: maps_sound_def)
  then show "map_of (ct_byId catalog) i = Some c \<Longrightarrow> c \<in> set (ct_capabilities catalog) \<and> cp_capabilityId c = i"
    and "map_of (ct_byStage catalog) i = Some c \<Longrightarrow> c \<in> set (ct_capabilities catalog) \<and> cp_stage c = i"
    and "map_of (ct_providersByFact catalog) f = Some ps \<Longrightarrow> c \<in> set ps
      \<Longrightarrow> c \<in> set (ct_capabilities catalog) \<and> f \<in> set (cp_providesFacts c)"
    by (auto simp: maps_sound_def caps)
  show "c \<in> set (ct_capabilities catalog) \<Longrightarrow> cp_stage c \<noteq> [] \<and> list_all stage_char (cp_stage c)"
    using mapR_Inr_set[OF caps(1)] capability_of_stage by (auto simp: caps)
  show "c \<in> set (ct_capabilities catalog) \<Longrightarrow> map_of (ct_byId catalog) (cp_capabilityId c) = Some c"
    using index_complete[OF caps(2)] by (simp add: caps)
qed

subsection \<open>What the topology promises\<close>

interpretation fact: stage_graph "uniq stages" "fact_arcs edges (uniq stages)"
  "targets_of (fst (stage_maps (uniq stages) (fact_arcs edges (uniq stages))))"
  "snd (stage_maps (uniq stages) (fact_arcs edges (uniq stages)))" for edges stages
  by unfold_locales (auto simp: stage_maps_graph fact_arcs_def)

lemma assertAcyclic_iff: "assertAcyclic edges stages = Inr () \<longleftrightarrow> acyclic (set (fact_arcs edges (uniq stages)))"
proof -
  let ?maps = "stage_maps (uniq stages) (fact_arcs edges (uniq stages))"
  let ?run = "kahn_loop Sorted (targets_of (fst ?maps)) (arrange Sorted (fact.start stages edges)) (snd ?maps) 0"
  obtain visited final where run: "?run = (visited, final)" by (cases ?run)
  from fact.kahn_correct(1)[OF run]
  have "visited = length (uniq stages) \<longleftrightarrow> acyclic (set (fact_arcs edges (uniq stages)))" .
  then show ?thesis
    using run by (auto simp: assertAcyclic_def fact.start_def Let_def split: prod.splits)
qed

text \<open>A normalised requirement names known capabilities and has its fact from a capability that decides it or from context.\<close>

definition requirement_ok :: "catalog \<Rightarrow> requirement \<Rightarrow> bool" where
  "requirement_ok catalog r \<longleftrightarrow>
     (\<exists>c. map_of (ct_byId catalog) (rq_consumerCapabilityId r) = Some c)
     \<and> (case rq_providerCapabilityId r of
          None \<Rightarrow> rq_resolution r = ''authoritative-context'' \<and> JStr (rq_source r) \<in> set (ct_authoritativeSources catalog)
        | Some p \<Rightarrow> rq_resolution r = ''review'' \<and> p \<noteq> rq_consumerCapabilityId r
            \<and> (\<exists>c \<in> set (ct_capabilities catalog). cp_capabilityId c = p \<and> rq_factId r \<in> set (cp_providesFacts c)))"

lemma provider_ok:
  assumes "capabilityCatalogFromRegistry registry = Inr catalog" and "resolveProviderCapability catalog factId requested = Inr c"
  shows "c \<in> set (ct_capabilities catalog) \<and> factId \<in> set (cp_providesFacts c)"
proof (cases "requested = []")
  case True
  with assms(2) obtain ps where "map_of (ct_providersByFact catalog) factId = Some ps" "c \<in> set ps"
    by (cases "map_of (ct_providersByFact catalog) factId")
      (auto simp: resolveProviderCapability_def split: list.splits)
  with catalog_sound(3)[OF assms(1)] show ?thesis by blast
next
  case False
  with assms(2) have "map_of (ct_byId catalog) requested = Some c" "factId \<in> set (cp_providesFacts c)"
    by (auto simp: resolveProviderCapability_def split: option.splits if_splits)
  with catalog_sound(1)[OF assms(1)] show ?thesis by blast
qed

lemma normalize_requirement_ok:
  assumes "capabilityCatalogFromRegistry registry = Inr catalog" and "normalize_requirement catalog provenance raw = Inr r"
  shows "requirement_ok catalog r"
proof -
  obtain ps where raw: "raw = JObj ps" using assms(2) by (cases raw) (auto simp: normalize_requirement_def)
  have req: "requirement_provider catalog (rq_factId r) (rq_consumerCapabilityId r) (rq_resolution r) (rq_source r)
      (compact (get ps ''providerCapabilityId'')) = Inr (rq_providerCapabilityId r)"
    and known: "map_of (ct_byId catalog) (rq_consumerCapabilityId r) \<noteq> None"
    and res: "rq_resolution r = ''review'' \<or> rq_resolution r = ''authoritative-context''"
    using assms(2) unfolding raw normalize_requirement_def jsval.case Let_def by (auto simp: bindR_Inr)
  show ?thesis
  proof (cases "rq_resolution r = ''authoritative-context''")
    case True
    with req known show ?thesis by (auto simp: requirement_provider_def requirement_ok_def bindR_Inr)
  next
    case False
    with req obtain c where "resolveProviderCapability catalog (rq_factId r) (compact (get ps ''providerCapabilityId'')) = Inr c"
        "cp_capabilityId c \<noteq> rq_consumerCapabilityId r" "rq_providerCapabilityId r = Some (cp_capabilityId c)"
      by (auto simp: requirement_provider_def bindR_Inr)
    with provider_ok[OF assms(1)] known res False show ?thesis by (auto simp: requirement_ok_def)
  qed
qed

lemma normalize_requirements_ok:
  assumes "capabilityCatalogFromRegistry registry = Inr catalog"
  shows "normalize_requirements catalog provenance raws seen identityMap acc = Inr rs \<Longrightarrow> list_all (requirement_ok catalog) acc
    \<Longrightarrow> list_all (requirement_ok catalog) rs"
proof (induction raws arbitrary: seen identityMap acc)
  case (Cons raw raws)
  from Cons.prems(1) obtain r where r: "normalize_requirement catalog provenance raw = Inr r"
    by (auto simp: bindR_Inr)
  with normalize_requirement_ok[OF assms] have "requirement_ok catalog r" by blast
  with Cons r show ?case by (auto simp: bindR_Inr Let_def split: if_splits)
qed simp

end
