(* ===== verification/BootstrapProps.thy ===== *)
theory BootstrapProps
  imports BootstrapCapabilities
begin

text \<open>
  Properties of the bootstrap review topology: the edges of accepted requirements can be ordered and every open decision
  has an edge from a stage that decides it, with an example, and what a second normalisation loses.
\<close>

text \<open>Stage names contain neither of the separators of an edge key, so the key determines the edge's ends and fact.\<close>

lemma split_at_char:
  "c \<notin> set a \<Longrightarrow> c \<notin> set a' \<Longrightarrow> a @ c # b = a' @ c # b' \<longleftrightarrow> a = a' \<and> b = b'"
proof (induction a arbitrary: a')
  case Nil
  then show ?case by (cases a') auto
next
  case (Cons x a)
  then show ?case by (cases a') auto
qed

lemma edge_key_inj:
  assumes stages: "list_all stage_char a" "list_all stage_char a'" "list_all stage_char b" "list_all stage_char b'"
    and key: "a @ ''->'' @ b @ '':'' @ f = a' @ ''->'' @ b' @ '':'' @ f'"
  shows "a = a' \<and> b = b' \<and> f = f'"
proof -
  have no: "CHR ''>'' \<notin> set (x @ ''-'')" "CHR '':'' \<notin> set x" if "list_all stage_char x" for x
    using that by (auto simp: list_all_iff stage_char_def is_lower_def is_digit_def)
  have "(a @ ''-'') @ CHR ''>'' # (b @ CHR '':'' # f) = (a' @ ''-'') @ CHR ''>'' # (b' @ CHR '':'' # f')" using key by simp
  with split_at_char[OF no(1)[OF stages(1)] no(1)[OF stages(2)]]
  have "a @ ''-'' = a' @ ''-''" "b @ CHR '':'' # f = b' @ CHR '':'' # f'" by blast+
  with split_at_char[OF no(2)[OF stages(3)] no(2)[OF stages(4)]] show ?thesis by blast
qed

lemma unique_edges_subset: "set (unique_edges seen edges) \<subseteq> set edges"
  by (induction seen edges rule: unique_edges.induct) auto

lemma unique_edges_keys:
  "edge \<in> set edges \<Longrightarrow> factEdgeKey edge \<in> set seen \<or> (\<exists>kept \<in> set (unique_edges seen edges). factEdgeKey kept = factEdgeKey edge)"
  by (induction seen edges rule: unique_edges.induct) auto

lemma map_filter_member: "y \<in> set (List.map_filter f xs) \<longleftrightarrow> (\<exists>x \<in> set xs. f x = Some y)"
  by (force simp: List.map_filter_def)

lemma stage_of_known:
  assumes "capabilityCatalogFromRegistry registry = Inr catalog" and "map_of (ct_byId catalog) i = Some c"
  shows "stage_of catalog i = cp_stage c \<and> c \<in> set (ct_capabilities catalog) \<and> cp_stage c \<noteq> [] \<and> list_all stage_char (cp_stage c)"
  using catalog_sound(1,4)[OF assms(1)] assms(2) by (simp add: stage_of_def)

lemma edge_of_ok:
  assumes "capabilityCatalogFromRegistry registry = Inr catalog" and "requirement_ok catalog r" and "edge_of catalog r = Some edge"
  shows "list_all stage_char (fe_fromStage edge) \<and> list_all stage_char (fe_toStage edge)
    \<and> fe_fromStage edge \<noteq> [] \<and> fe_toStage edge \<noteq> [] \<and> fe_requirement edge = r
    \<and> rq_providerCapabilityId r = Some (fe_fromCapabilityId edge)
    \<and> fe_fromStage edge = stage_of catalog (fe_fromCapabilityId edge) \<and> fe_toStage edge = stage_of catalog (rq_consumerCapabilityId r)"
proof -
  obtain p where p: "rq_providerCapabilityId r = Some p" using assms(3) by (auto simp: edge_of_def)
  with assms(2) obtain c d where "map_of (ct_byId catalog) (rq_consumerCapabilityId r) = Some c"
      "d \<in> set (ct_capabilities catalog)" "cp_capabilityId d = p"
    by (auto simp: requirement_ok_def)
  moreover from this have "map_of (ct_byId catalog) p = Some d" using catalog_sound(5)[OF assms(1)] by blast
  ultimately show ?thesis
    using assms(3) p stage_of_known[OF assms(1)] by (auto simp: edge_of_def)
qed

lemma binding_requirement [simp]: "fb_requirement (binding_of catalog r) = r"
  by (simp add: binding_of_def)

lemma binding_ok:
  assumes catalog: "capabilityCatalogFromRegistry registry = Inr catalog" and r: "r \<in> set rs" and ok: "list_all (requirement_ok catalog) rs"
    and edges: "edges = unique_edges [] (List.map_filter (edge_of catalog) rs)"
  shows "fb_consumerStage (binding_of catalog r) \<in> set (reviewStages catalog)
    \<and> (case fb_providerStage (binding_of catalog r) of
         None \<Rightarrow> JStr (rq_source r) \<in> set (ct_authoritativeSources catalog)
       | Some s \<Rightarrow>
           (\<exists>edge \<in> set edges. fe_fromStage edge = s \<and> fe_toStage edge = fb_consumerStage (binding_of catalog r)
              \<and> rq_factId (fe_requirement edge) = rq_factId r)
           \<and> (\<exists>c \<in> set (ct_capabilities catalog). cp_stage c = s \<and> rq_factId r \<in> set (cp_providesFacts c)))"
proof -
  have rok: "requirement_ok catalog r" using r ok by (simp add: list_all_iff)
  then obtain c where "map_of (ct_byId catalog) (rq_consumerCapabilityId r) = Some c" by (auto simp: requirement_ok_def)
  from stage_of_known[OF catalog this] have consumer: "fb_consumerStage (binding_of catalog r) \<in> set (reviewStages catalog)"
    by (simp add: binding_of_def reviewStages_def)
  show ?thesis
  proof (cases "rq_providerCapabilityId r")
    case None
    with consumer rok show ?thesis by (simp add: binding_of_def requirement_ok_def)
  next
    case (Some p)
    with rok obtain d where d: "d \<in> set (ct_capabilities catalog)" "cp_capabilityId d = p" "rq_factId r \<in> set (cp_providesFacts d)"
      by (auto simp: requirement_ok_def)
    with stage_of_known[OF catalog] catalog_sound(5)[OF catalog] have stage: "stage_of catalog p = cp_stage d" by blast
    obtain edge where edge: "edge_of catalog r = Some edge" using Some by (simp add: edge_of_def)
    then have "edge \<in> set (List.map_filter (edge_of catalog) rs)" using r by (auto simp: map_filter_member)
    from unique_edges_keys[OF this, of "[]"] obtain kept where
      kept: "kept \<in> set edges" "factEdgeKey kept = factEdgeKey edge" by (auto simp: edges)
    then obtain q where q: "q \<in> set rs" "edge_of catalog q = Some kept"
      using unique_edges_subset[of "[]"] by (force simp: edges map_filter_member)
    with ok have "requirement_ok catalog q" by (simp add: list_all_iff)
    note ends = edge_of_ok[OF catalog this q(2)] edge_of_ok[OF catalog rok edge]
    with kept(2) have "fe_fromStage kept = fe_fromStage edge \<and> fe_toStage kept = fe_toStage edge
        \<and> rq_factId (fe_requirement kept) = rq_factId (fe_requirement edge)"
      unfolding factEdgeKey_def by (intro edge_key_inj) auto
    with ends kept(1) consumer d stage Some show ?thesis by (auto simp: binding_of_def)
  qed
qed

lemma fact_edges_acyclic:
  assumes catalog: "capabilityCatalogFromRegistry registry = Inr catalog" and ok: "list_all (requirement_ok catalog) rs"
    and edges: "edges = unique_edges [] (List.map_filter (edge_of catalog) rs)"
    and acyclic: "assertAcyclic edges (uniq (filter (\<lambda>s. s \<noteq> []) (map (stage_of catalog) (required_ids rs)))) = Inr ()"
  shows "acyclic ((\<lambda>edge. (fe_fromStage edge, fe_toStage edge)) ` set edges)"
proof -
  let ?stages = "uniq (filter (\<lambda>s. s \<noteq> []) (map (stage_of catalog) (required_ids rs)))"
  have "fe_fromStage edge \<in> set ?stages \<and> fe_toStage edge \<in> set ?stages" if "edge \<in> set edges" for edge
  proof -
    from that obtain q where q: "q \<in> set rs" "edge_of catalog q = Some edge"
      using unique_edges_subset[of "[]"] by (force simp: edges map_filter_member)
    with ok have "requirement_ok catalog q" by (simp add: list_all_iff)
    note e = edge_of_ok[OF catalog this q(2)]
    with q(1) have "fe_fromCapabilityId edge \<in> set (required_ids rs)" "rq_consumerCapabilityId q \<in> set (required_ids rs)"
      by (force simp: required_ids_def)+
    with e show ?thesis by auto
  qed
  then have "set (fact_arcs edges (uniq ?stages)) = (\<lambda>edge. (fe_fromStage edge, fe_toStage edge)) ` set edges"
    by (auto simp: fact_arcs_def)
  with acyclic assertAcyclic_iff show ?thesis by metis
qed

text \<open>C28: the review topology is sound. Whenever a catalog is accepted and the fact requirements of a plan are resolved
  against it, the stages the edges connect can be ordered, every binding is consumed by a stage of the catalog, and its
  fact either comes from an authoritative source or is decided by a capability that provides it and whose stage has an
  edge for this fact to the consumer.\<close>

theorem fact_topology_sound:
  assumes "capabilityCatalogFromRegistry registry = Inr catalog" and "resolveBootstrapFactTopology catalog requirements = Inr topo"
  shows "acyclic ((\<lambda>edge. (fe_fromStage edge, fe_toStage edge)) ` set (tp_edges topo))
    \<and> (\<forall>b \<in> set (tp_bindings topo). fb_consumerStage b \<in> set (reviewStages catalog)
         \<and> (case fb_providerStage b of
              None \<Rightarrow> JStr (rq_source (fb_requirement b)) \<in> set (ct_authoritativeSources catalog)
            | Some s \<Rightarrow>
                (\<exists>edge \<in> set (tp_edges topo). fe_fromStage edge = s \<and> fe_toStage edge = fb_consumerStage b
                   \<and> rq_factId (fe_requirement edge) = rq_factId (fb_requirement b))
                \<and> (\<exists>c \<in> set (ct_capabilities catalog). cp_stage c = s \<and> rq_factId (fb_requirement b) \<in> set (cp_providesFacts c))))"
proof -
  obtain rs where rs: "normalizeBootstrapFactRequirements requirements catalog ''reasoning'' = Inr rs"
    and edges: "tp_edges topo = unique_edges [] (List.map_filter (edge_of catalog) rs)"
    and bindings: "tp_bindings topo = map (binding_of catalog) rs"
    and acyclic: "assertAcyclic (tp_edges topo) (uniq (filter (\<lambda>s. s \<noteq> []) (map (stage_of catalog) (required_ids rs)))) = Inr ()"
    using assms(2) by (auto simp: resolveBootstrapFactTopology_def Let_def bindR_Inr)
  from rs have ok: "list_all (requirement_ok catalog) rs"
    using normalize_requirements_ok[OF assms(1)]
    by (auto simp: normalizeBootstrapFactRequirements_def split: if_splits jsval.splits)
  show ?thesis
    unfolding bindings set_map ball_simps binding_requirement
    using fact_edges_acyclic[OF assms(1) ok edges acyclic] binding_ok[OF assms(1) _ ok edges] by (intro conjI ballI) blast+
qed

definition sample_registry :: registry where
  "sample_registry = \<lparr>rg_orchestrator = ''main'', rg_agents = [], rg_byId = [(''sa'', []), (''dba'', [])],
     rg_workflow = JObj [(''bootstrap'', JObj [(''reviewCapabilities'', JArr
       [JObj [(''capabilityId'', JStr ''review.architecture''), (''stage'', JStr ''architecture-review''), (''agentId'', JStr ''sa''),
              (''providesFacts'', JArr [JStr ''state-authority''])],
        JObj [(''capabilityId'', JStr ''review.database''), (''stage'', JStr ''database-review''), (''agentId'', JStr ''dba''),
              (''providesFacts'', JArr [JStr ''schema''])]])])]\<rparr>"

definition sample_requirements :: jsval where
  "sample_requirements = JArr [JObj [(''requiredDecision'', JStr ''State Authority''), (''consumerCapabilityId'', JStr ''review.database''),
     (''resolution'', JStr ''review''), (''evidence'', JStr ''request''), (''rationale'', JStr ''why'')]]"

definition sample_catalog :: catalog where
  "sample_catalog = (case capabilityCatalogFromRegistry sample_registry of Inr catalog \<Rightarrow> catalog
     | Inl _ \<Rightarrow> \<lparr>ct_factContractVersion = [], ct_capabilities = [], ct_byId = [], ct_byStage = [], ct_providersByFact = [],
                  ct_authoritativeSources = []\<rparr>)"

lemma sample_catalog_ok: "capabilityCatalogFromRegistry sample_registry = Inr sample_catalog"
proof -
  have "\<not> isl (capabilityCatalogFromRegistry sample_registry)" by code_simp
  then show ?thesis by (cases "capabilityCatalogFromRegistry sample_registry") (simp_all add: sample_catalog_def)
qed

theorem fact_topology_sound_witness:
  "\<exists>topo. resolveBootstrapFactTopology sample_catalog sample_requirements = Inr topo
     \<and> map (\<lambda>edge. (fe_fromStage edge, fe_toStage edge)) (tp_edges topo) = [(''architecture-review'', ''database-review'')]
     \<and> acyclic ((\<lambda>edge. (fe_fromStage edge, fe_toStage edge)) ` set (tp_edges topo))"
proof -
  have "(case resolveBootstrapFactTopology sample_catalog sample_requirements of Inl _ \<Rightarrow> False | Inr topo \<Rightarrow>
      map (\<lambda>edge. (fe_fromStage edge, fe_toStage edge)) (tp_edges topo) = [(''architecture-review'', ''database-review'')])"
    by code_simp
  then obtain topo where topo: "resolveBootstrapFactTopology sample_catalog sample_requirements = Inr topo"
    "map (\<lambda>edge. (fe_fromStage edge, fe_toStage edge)) (tp_edges topo) = [(''architecture-review'', ''database-review'')]"
    by (cases "resolveBootstrapFactTopology sample_catalog sample_requirements") auto
  from fact_topology_sound[OF sample_catalog_ok topo(1)]
  have "acyclic ((\<lambda>edge. (fe_fromStage edge, fe_toStage edge)) ` set (tp_edges topo))" by (rule conjunct1)
  with topo show ?thesis by (intro exI[of _ topo] conjI)
qed

text \<open>
  Requirements that were normalised before lose the decision they named: \<open>normalizeBootstrapFactRequirements\<close> reads
  it from \<open>requiredDecision\<close> and writes it to \<open>legacyRequiredDecision\<close>, and the topology normalises again.
\<close>

lemma renormalized_legacy:
  assumes "normalize_requirement catalog provenance (JObj (requirement_json r)) = Inr r'"
  shows "rq_legacyRequiredDecision r' = JNull"
  using assms unfolding normalize_requirement_def jsval.case Let_def
  by (auto simp: requirement_json_def compact_def bindR_Inr)

lemma renormalized_list:
  "normalize_requirements catalog provenance (map (\<lambda>r. JObj (requirement_json r)) rs) seen identityMap acc = Inr rs'
    \<Longrightarrow> list_all (\<lambda>r. rq_legacyRequiredDecision r = JNull) acc \<Longrightarrow> list_all (\<lambda>r. rq_legacyRequiredDecision r = JNull) rs'"
proof (induction rs arbitrary: seen identityMap acc)
  case (Cons r rs)
  from Cons.prems(1) obtain q where q: "normalize_requirement catalog provenance (JObj (requirement_json r)) = Inr q"
    by (auto simp: bindR_Inr)
  then have "rq_legacyRequiredDecision q = JNull" by (rule renormalized_legacy)
  with Cons q show ?case by (auto simp: bindR_Inr Let_def split: if_splits)
qed simp

lemma topology_drops_legacy_decision:
  assumes "resolveBootstrapFactTopology catalog (JArr (map (\<lambda>r. JObj (requirement_json r)) rs)) = Inr topo"
  shows "\<forall>edge \<in> set (tp_edges topo). rq_legacyRequiredDecision (fe_requirement edge) = JNull"
proof
  fix edge
  assume "edge \<in> set (tp_edges topo)"
  moreover obtain rs' where rs': "normalizeBootstrapFactRequirements (JArr (map (\<lambda>r. JObj (requirement_json r)) rs)) catalog ''reasoning'' = Inr rs'"
    and "tp_edges topo = unique_edges [] (List.map_filter (edge_of catalog) rs')"
    using assms by (auto simp: resolveBootstrapFactTopology_def Let_def bindR_Inr)
  ultimately obtain r where "r \<in> set rs'" "fe_requirement edge = r"
    using unique_edges_subset[of "[]"] by (force simp: map_filter_member edge_of_def)
  moreover have "list_all (\<lambda>r. rq_legacyRequiredDecision r = JNull) rs'"
    using rs' renormalized_list[of catalog "''reasoning''" rs "[]" "[]" "[]"] by (simp add: normalizeBootstrapFactRequirements_def)
  ultimately show "rq_legacyRequiredDecision (fe_requirement edge) = JNull" by (simp add: list_all_iff)
qed

end
