(* ===== verification/PlanCycles.thy ===== *)
theory PlanCycles
  imports JsPrelude
begin

text \<open>
  The search for dependency cycles among the work items of an implementation plan (\<open>collectCycleIssues\<close> in
  \<open>dag-compiler.mjs\<close>): a depth-first search with the path it is on, the items it has left, and the cycles it has
  reported. The search ends because the path only holds known items and never repeats one.
\<close>

record dfs =
  df_visited :: "jsval list"
  df_seenCycles :: "string list"
  df_issues :: "string list"

text \<open>\<open>byId\<close> keeps the first item of an identifier, as a lookup in this list does.\<close>

definition items_by_id :: "jsval list \<Rightarrow> (jsval \<times> jsval) list" where
  "items_by_id workItems = map (\<lambda>item. (field item ''id'', item)) workItems"

definition item_dependencies :: "jsval \<Rightarrow> jsval list" where
  "item_dependencies item = elements (field item ''dependencies'')"

text \<open>The part of the path from the repeated item on, closed by that item.\<close>

definition cycle_signature :: "jsval list \<Rightarrow> jsval \<Rightarrow> string" where
  "cycle_signature stack dependency =
     join ''->'' (map (\<lambda>v. if nullish v then [] else js_string v) (dropWhile (\<lambda>v. v \<noteq> dependency) stack @ [dependency]))"

definition report_cycle :: "jsval list \<Rightarrow> jsval \<Rightarrow> dfs \<Rightarrow> dfs" where
  "report_cycle stack dependency st =
     (let signature = cycle_signature stack dependency in
      if signature \<in> set (df_seenCycles st) then st
      else st\<lparr>df_seenCycles := df_seenCycles st @ [signature],
              df_issues := df_issues st @ [''implementation_plan_cycle:'' @ signature]\<rparr>)"

text \<open>
  The loop over the dependencies of the last item of \<open>stack\<close>, the calls of \<open>visit\<close> included; the outer
  loop over the work items is the same loop with an empty path.
\<close>

function visit_all :: "(jsval \<times> jsval) list \<Rightarrow> jsval list \<Rightarrow> jsval list \<Rightarrow> dfs \<Rightarrow> dfs" where
  "visit_all byId stack [] st = st"
| "visit_all byId stack (dependency # rest) st =
     (case map_of byId dependency of
        None \<Rightarrow> visit_all byId stack rest st
      | Some item \<Rightarrow>
          if dependency \<in> set stack then visit_all byId stack rest (report_cycle stack dependency st)
          else if dependency \<in> set (df_visited st) then visit_all byId stack rest st
          else
            let inner = visit_all byId (stack @ [dependency]) (item_dependencies item) st in
            visit_all byId stack rest (inner\<lparr>df_visited := df_visited inner @ [dependency]\<rparr>))"
  by pat_completeness auto
termination
proof (relation "(\<lambda>(byId, stack, rest, st). card (dom (map_of byId) - set stack)) <*mlex*> measure (\<lambda>(byId, stack, rest, st). length rest)",
    goal_cases)
  case 1
  show ?case by (intro wf_mlex wf_measure)
next
  case (5 byId stack dependency rest st item)
  have "dom (map_of byId) - set (stack @ [dependency]) \<subset> dom (map_of byId) - set stack" using 5 by auto
  then have "card (dom (map_of byId) - set (stack @ [dependency])) < card (dom (map_of byId) - set stack)"
    by (intro psubset_card_mono) (simp_all add: finite_dom_map_of)
  then show ?case by (intro mlex_less) simp
qed (auto intro: mlex_leq)

definition collectCycleIssues :: "jsval list \<Rightarrow> string list" where
  "collectCycleIssues workItems =
     df_issues (visit_all (items_by_id workItems) [] (map (\<lambda>item. field item ''id'') workItems)
       \<lparr>df_visited = [], df_seenCycles = [], df_issues = []\<rparr>)"

subsection \<open>The search is exact\<close>

text \<open>An arc leads from an item to a known item it depends on.\<close>

definition work_arcs :: "(jsval \<times> jsval) list \<Rightarrow> (jsval \<times> jsval) set" where
  "work_arcs byId = {(v, d). \<exists>item. map_of byId v = Some item \<and> d \<in> set (item_dependencies item) \<and> map_of byId d \<noteq> None}"

text \<open>What has been left is closed under dependencies and lies on no cycle.\<close>

definition settled :: "(jsval \<times> jsval) list \<Rightarrow> jsval set \<Rightarrow> bool" where
  "settled byId V \<longleftrightarrow> work_arcs byId `` V \<subseteq> V \<and> (\<forall>v \<in> V. (v, v) \<notin> (work_arcs byId)\<^sup>+)"

lemma settled_insert:
  assumes "settled byId V" and "work_arcs byId `` {d} \<subseteq> V"
  shows "settled byId (insert d V)"
proof (cases "d \<in> V")
  case True
  with assms show ?thesis by (simp add: insert_absorb)
next
  case False
  have closed: "v \<in> V" if "(u, v) \<in> (work_arcs byId)\<^sup>*" "u \<in> V" for u v
    using that assms(1) by (induction rule: rtrancl_induct) (auto simp: settled_def)
  have "(d, d) \<notin> (work_arcs byId)\<^sup>+"
  proof
    assume "(d, d) \<in> (work_arcs byId)\<^sup>+"
    then obtain x where "(d, x) \<in> work_arcs byId" "(x, d) \<in> (work_arcs byId)\<^sup>*" by (meson tranclD)
    with assms(2) closed False show False by blast
  qed
  with assms show ?thesis by (auto simp: settled_def)
qed

definition reports_consistent :: "dfs \<Rightarrow> bool" where
  "reports_consistent st \<longleftrightarrow> (df_issues st = [] \<longrightarrow> df_seenCycles st = [])"

lemma report_cycle_facts:
  "reports_consistent st \<Longrightarrow> df_issues (report_cycle stack d st) \<noteq> [] \<and> reports_consistent (report_cycle stack d st)"
  "df_visited (report_cycle stack d st) = df_visited st"
  by (auto simp: report_cycle_def reports_consistent_def Let_def)

lemma visit_all_settles:
  assumes "reports_consistent st"
  shows "reports_consistent (visit_all byId stack ds st)
    \<and> set (df_visited st) \<subseteq> set (df_visited (visit_all byId stack ds st))
    \<and> (df_issues (visit_all byId stack ds st) = [] \<longrightarrow> df_issues st = [])
    \<and> (df_issues (visit_all byId stack ds st) = [] \<longrightarrow> settled byId (set (df_visited st))
        \<longrightarrow> settled byId (set (df_visited (visit_all byId stack ds st)))
          \<and> set ds \<inter> dom (map_of byId) \<subseteq> set (df_visited (visit_all byId stack ds st)))"
  using assms
proof (induction byId stack ds st rule: visit_all.induct)
  case (2 byId stack d ds st)
  show ?case
  proof (cases "map_of byId d")
    case None
    then show ?thesis using 2 by auto
  next
    case (Some item)
    note found = this
    show ?thesis
    proof (cases "d \<in> set stack")
      case True
      with found 2(2) report_cycle_facts 2(6) show ?thesis by simp
    next
      case fresh: False
      show ?thesis
      proof (cases "d \<in> set (df_visited st)")
        case True
        with found fresh 2(3) 2(6) show ?thesis by auto
      next
        case False
        let ?inner = "visit_all byId (stack @ [d]) (item_dependencies item) st"
        let ?next = "?inner\<lparr>df_visited := df_visited ?inner @ [d]\<rparr>"
        have inner: "reports_consistent ?inner" "set (df_visited st) \<subseteq> set (df_visited ?inner)"
          "df_issues ?inner = [] \<Longrightarrow> df_issues st = []"
          "df_issues ?inner = [] \<Longrightarrow> settled byId (set (df_visited st))
            \<Longrightarrow> settled byId (set (df_visited ?inner)) \<and> set (item_dependencies item) \<inter> dom (map_of byId) \<subseteq> set (df_visited ?inner)"
          using 2(4)[OF found fresh False 2(6)] by blast+
        have "reports_consistent ?next" using inner(1) by (simp add: reports_consistent_def)
        note outer = 2(5)[OF found fresh False refl this]
        have settle: "settled byId (set (df_visited ?next))"
          if "df_issues ?inner = []" "settled byId (set (df_visited st))"
        proof -
          have "work_arcs byId `` {d} \<subseteq> set (df_visited ?inner)"
            using inner(4)[OF that] found by (auto simp: work_arcs_def)
          with inner(4)[OF that] show ?thesis using settled_insert by simp
        qed
        have run: "visit_all byId stack (d # ds) st = visit_all byId stack ds ?next"
          using found fresh False by (simp add: Let_def)
        show ?thesis unfolding run using outer inner settle by auto
      qed
    qed
  qed
qed simp

text \<open>A report is always about a cycle: the path leads from the repeated item to the item that depends on it.\<close>

lemma visit_all_sound:
  assumes "\<forall>u \<in> set stack. (u, last stack) \<in> (work_arcs byId)\<^sup>*"
    and "stack \<noteq> [] \<longrightarrow> (\<forall>d \<in> set ds. map_of byId d \<noteq> None \<longrightarrow> (last stack, d) \<in> work_arcs byId)"
    and "acyclic (work_arcs byId)"
  shows "df_issues (visit_all byId stack ds st) = df_issues st"
  using assms
proof (induction byId stack ds st rule: visit_all.induct)
  case (2 byId stack d ds st)
  show ?case
  proof (cases "map_of byId d")
    case None
    then show ?thesis using 2 by simp
  next
    case (Some item)
    have fresh: "d \<notin> set stack"
    proof
      assume on: "d \<in> set stack"
      then have "(d, last stack) \<in> (work_arcs byId)\<^sup>*" "(last stack, d) \<in> work_arcs byId"
        using 2(6,7) Some by (auto dest: length_pos_if_in_set)
      then have "(d, d) \<in> (work_arcs byId)\<^sup>+" by (rule rtrancl_into_trancl1)
      with 2(8) show False by (simp add: acyclic_def)
    qed
    show ?thesis
    proof (cases "d \<in> set (df_visited st)")
      case True
      with Some fresh 2(3,6-8) show ?thesis by simp
    next
      case False
      let ?inner = "visit_all byId (stack @ [d]) (item_dependencies item) st"
      have path: "\<forall>u \<in> set (stack @ [d]). (u, last (stack @ [d])) \<in> (work_arcs byId)\<^sup>*"
      proof
        fix u
        assume "u \<in> set (stack @ [d])"
        then show "(u, last (stack @ [d])) \<in> (work_arcs byId)\<^sup>*"
          using 2(6,7) Some by (cases "u = d") (auto intro: rtrancl_into_rtrancl)
      qed
      have "df_issues ?inner = df_issues st"
        using 2(4)[OF Some fresh False path] 2(8) Some by (auto simp: work_arcs_def)
      moreover have "df_issues (visit_all byId stack ds (?inner\<lparr>df_visited := df_visited ?inner @ [d]\<rparr>)) = df_issues ?inner"
        using 2(5)[OF Some fresh False refl] 2(6-8) by simp
      ultimately show ?thesis using Some fresh False by (simp add: Let_def)
    qed
  qed
qed simp

text \<open>C30: the cycle search of the plan compiler is exact. It reports nothing if and only if the dependencies between the
  work items, as far as they name known items, have no cycle; the search ends on every plan.\<close>

theorem plan_cycles_iff: "collectCycleIssues workItems = [] \<longleftrightarrow> acyclic (work_arcs (items_by_id workItems))"
proof -
  let ?byId = "items_by_id workItems" and ?ids = "map (\<lambda>item. field item ''id'') workItems"
  let ?start = "\<lparr>df_visited = [], df_seenCycles = [], df_issues = []\<rparr>"
  have ids: "dom (map_of ?byId) = set ?ids" by (simp add: dom_map_of_conv_image_fst items_by_id_def image_image)
  show ?thesis
  proof
    assume none: "collectCycleIssues workItems = []"
    have "settled ?byId (set (df_visited (visit_all ?byId [] ?ids ?start)))
        \<and> set ?ids \<inter> dom (map_of ?byId) \<subseteq> set (df_visited (visit_all ?byId [] ?ids ?start))"
      using visit_all_settles[of ?start ?byId "[]" ?ids] none
      by (simp add: collectCycleIssues_def reports_consistent_def settled_def)
    then have "\<forall>v \<in> dom (map_of ?byId). (v, v) \<notin> (work_arcs ?byId)\<^sup>+" using ids by (auto simp: settled_def)
    moreover have "v \<in> dom (map_of ?byId)" if "(v, v) \<in> (work_arcs ?byId)\<^sup>+" for v
      using tranclD[OF that] by (auto simp: work_arcs_def)
    ultimately show "acyclic (work_arcs ?byId)" unfolding acyclic_def by blast
  next
    assume "acyclic (work_arcs ?byId)"
    with visit_all_sound[of "[]" ?byId ?ids ?start] show "collectCycleIssues workItems = []"
      by (simp add: collectCycleIssues_def)
  qed
qed

end
