(* ===== verification/ValidationCommand.thy ===== *)
theory ValidationCommand
  imports Contracts JsText
begin

text \<open>
  Validation commands (\<open>validation-command.mjs\<close>): which text counts as an executable command, the scope it needs, the
  identifiers of commands, and the focused validation a request asks for. The regular expressions are those of the
  code, over the alphabet of code units below 256.
\<close>

definition KNOWN_VALIDATION_EXECUTABLES :: "string list" where
  "KNOWN_VALIDATION_EXECUTABLES =
    [''bash'', ''biome'', ''bun'', ''cargo'', ''cd'', ''cmake'', ''cmd'', ''cmd.exe'', ''corepack'', ''ctest'',
     ''deno'', ''docker'', ''docker-compose'', ''dotnet'', ''env'', ''eslint'', ''export'', ''git'', ''go'', ''gradle'',
     ''gradlew'', ''java'', ''javac'', ''jest'', ''make'', ''mvn'', ''mvnw'', ''mypy'', ''node'', ''npm'', ''npx'', ''nx'',
     ''pip'', ''pip3'', ''pipx'', ''pnpm'', ''poetry'', ''powershell'', ''powershell.exe'', ''pwsh'', ''py'', ''pytest'',
     ''python'', ''python3'', ''ruff'', ''rustc'', ''set'', ''sh'', ''tsc'', ''tox'', ''turbo'', ''uv'', ''vitest'', ''yarn'', ''zsh'']"

definition REPOSITORY_RELATIVE_VALIDATION_SCRIPT_EXTENSION :: re where
  "REPOSITORY_RELATIVE_VALIDATION_SCRIPT_EXTENSION =
     re_seq [lit ''.'', re_alt (map lit [''sh'', ''bash'', ''zsh'', ''fish'', ''ps1'', ''cmd'', ''bat'', ''exe'', ''com'', ''py'', ''pyw'',
       ''js'', ''mjs'', ''cjs'', ''ts'', ''mts'', ''cts'', ''rb'', ''pl'', ''php'', ''jar'']), TextEnd]"

definition VALIDATION_EXECUTION_SCOPES :: "string list" where
  "VALIDATION_EXECUTION_SCOPES = [''workspace'', ''container'', ''authoritative-host'', ''live'']"

subsection \<open>Executable commands\<close>

definition stripQuotes :: "string \<Rightarrow> string" where
  "stripQuotes text =
     (if length text \<ge> 2 \<and> (hd text = CHR 0x22 \<and> last text = CHR 0x22 \<or> hd text = CHR 0x27 \<and> last text = CHR 0x27)
      then butlast (tl text) else text)"

definition line_break :: "char \<Rightarrow> bool" where
  "line_break c \<longleftrightarrow> c = CHR 0x0A \<or> c = CHR 0x0D"

definition ident_first :: "char \<Rightarrow> bool" where
  "ident_first c \<longleftrightarrow> is_lower c \<or> is_upper c \<or> c = CHR ''_''"

text \<open>A leading assignment of an environment variable.\<close>

definition env_assignment :: re where
  "env_assignment = re_seq [TextStart, Cls ident_first, Star (Cls is_word), lit ''='', re_plus (Cls (\<lambda>c. \<not> is_space c)), TextEnd]"

definition firstExecutableToken :: "jsval \<Rightarrow> string option" where
  "firstExecutableToken command =
     (let text = compact command in
      if text = [] \<or> list_ex line_break text then None
      else
        case dropWhile (re_test env_assignment) (split_white [] text) of
          [] \<Rightarrow> None
        | token # _ \<Rightarrow> Some (stripQuotes token))"

definition exit_prose :: re where
  "exit_prose = re_seq [white, re_alt [Seq (lit ''exit'') (re_opt (lit ''s'')), Seq (lit ''return'') (re_opt (lit ''s''))], re_plus white,
     re_opt (Seq (lit ''with'') (re_plus white)), re_opt (Seq (lit ''exit'') (re_plus white)), Alt (lit ''code'') (lit ''status''), WordEdge]"

definition outcome_prose :: re where
  "outcome_prose = re_seq [white,
     re_alt [Seq (lit ''passe'') (re_opt (lit ''s'')), Seq (lit ''succeed'') (re_opt (lit ''s'')), Seq (lit ''fail'') (re_opt (lit ''s'')),
             Seq (lit ''complete'') (re_opt (lit ''s''))],
     Star white,
     re_opt (re_alt [lit ''successfully'', lit ''cleanly'', re_seq [lit ''with'', re_plus white, Alt (lit ''success'') (lit ''failure'')]]),
     re_opt (any_of ''.!?''), TextEnd]"

definition looksLikeValidationProse :: "jsval \<Rightarrow> bool" where
  "looksLikeValidationProse command =
     (let text = compact command in
      text \<noteq> [] \<and> (re_test_iu exit_prose text \<or> re_test_iu outcome_prose text))"

definition slash_class :: re where
  "slash_class = any_of [CHR 0x5C, CHR ''/'']"

definition path_prefix :: re where
  "path_prefix = re_seq [TextStart, re_alt
     [re_seq [re_opt (lit ''.''), re_opt (lit ''.''), slash_class], re_seq [lit ''~'', slash_class],
      re_seq [Cls (\<lambda>c. is_lower c \<or> is_upper c), lit '':'', slash_class]]]"

definition segment_class :: re where
  "segment_class = re_plus (Cls (\<lambda>c. \<not> is_space c \<and> c \<noteq> CHR ''/''))"

definition relative_path :: re where
  "relative_path = re_seq [TextStart, segment_class, re_plus (Seq (lit ''/'') segment_class), TextEnd]"

text \<open>A path inside the repository that is plainly a script.\<close>

definition repository_script :: "string \<Rightarrow> bool" where
  "repository_script root =
     (let repositoryRelative = replace_char (CHR 0x5C) (CHR ''/'') root; parts = split_path [] repositoryRelative in
      re_test relative_path repositoryRelative
      \<and> (list_ex (\<lambda>segment. toLowerCase segment \<in> set [''scripts'', ''bin'', ''tools'']) (butlast parts)
         \<or> re_test_iu REPOSITORY_RELATIVE_VALIDATION_SCRIPT_EXTENSION (last parts)))"

definition isExecutableValidationCommand :: "jsval \<Rightarrow> bool" where
  "isExecutableValidationCommand command =
     (case firstExecutableToken command of
        None \<Rightarrow> False
      | Some root \<Rightarrow>
          root \<noteq> [] \<and> \<not> looksLikeValidationProse command
          \<and> (toLowerCase root \<in> set KNOWN_VALIDATION_EXECUTABLES \<or> re_test path_prefix root \<or> repository_script root))"

text \<open>The refused entries with their positions; a value that is not an array is reported at position -1.\<close>

definition invalidValidationCommands :: "jsval \<Rightarrow> (int \<times> jsval) list" where
  "invalidValidationCommands commands =
     (case commands of
        JUndef \<Rightarrow> []
      | JArr xs \<Rightarrow> filter (\<lambda>(index, command). \<not> isExecutableValidationCommand command)
                     (map (\<lambda>(i, command). (int i, command)) (enumerate 0 xs))
      | _ \<Rightarrow> [(- 1, commands)])"

text \<open>\<open>JSON.stringify(v)\<close> in a message, where an absent value prints as undefined\<close>

definition json_message :: "jsval \<Rightarrow> string" where
  "json_message v = (if v = JUndef then ''undefined'' else json_text v)"

definition assertExecutableValidationCommands :: "jsval \<Rightarrow> string \<Rightarrow> jsval res" where
  "assertExecutableValidationCommands commands label =
     (let invalid = invalidValidationCommands commands in
      if invalid = [] then Inr (if commands = JUndef then JArr [] else commands)
      else Inl (''validation_command_not_executable:'' @ join ''; ''
        (map (\<lambda>(index, command). label @ ''['' @ int_string index @ '']='' @ json_message command) invalid)))"

definition validationCommandId :: "env \<Rightarrow> jsval \<Rightarrow> string res" where
  "validationCommandId e command =
     (let normalized = compact command in
      if \<not> isExecutableValidationCommand (JStr normalized) then Inl (''validation_command_id_invalid:'' @ json_message command)
      else Inr (''vcmd:sha256:'' @ sha256 e normalized))"

text \<open>The issue of one position of the projection.\<close>

definition projection_issue :: "env \<Rightarrow> nat \<Rightarrow> jsval \<Rightarrow> jsval \<Rightarrow> string list" where
  "projection_issue e index commandId command =
     (case validationCommandId e (JStr (compact command)) of
        Inl _ \<Rightarrow> [''validation_command_projection_command_invalid:'' @ nat_string index]
      | Inr expected \<Rightarrow>
          if commandId \<noteq> JStr expected then [''validation_command_projection_id_mismatch:'' @ nat_string index] else [])"

definition array_or_default :: "jsval \<Rightarrow> jsval list option" where
  "array_or_default v = (case v of JUndef \<Rightarrow> Some [] | JArr xs \<Rightarrow> Some xs | _ \<Rightarrow> None)"

definition validationCommandProjectionIssues :: "env \<Rightarrow> jsval \<Rightarrow> jsval \<Rightarrow> string list" where
  "validationCommandProjectionIssues e commandIds commands =
     (case (array_or_default commandIds, array_or_default commands) of
        (Some ids, Some cs) \<Rightarrow>
          if length ids \<noteq> length cs then [''validation_command_projection_length_mismatch'']
          else concat (map (\<lambda>(index, commandId, command). projection_issue e index commandId command) (enumerate 0 (zip ids cs)))
      | _ \<Rightarrow> [''validation_command_projection_not_array''])"

subsection \<open>Execution scopes\<close>

definition normalizeValidationExecutionScope :: "jsval \<Rightarrow> string" where
  "normalizeValidationExecutionScope v =
     (let scope = toLowerCase (trim (js_string (coalesce v (JStr ''workspace'')))) in
      if scope \<in> set VALIDATION_EXECUTION_SCOPES then scope else ''workspace'')"

definition live_command :: re where
  "live_command = re_alt [lit ''runtime:agent-live-projector:probe'',
     re_seq [WordEdge, lit ''opencode'', re_plus white, lit ''attach'', WordEdge], lit ''runtime-progress-observation'']"

definition authoritative_mode :: re where
  "authoritative_mode = re_seq [lit ''--mode'', Alt (lit ''='') (re_plus white), lit ''authoritative'']"

definition host_probe :: re where
  "host_probe = re_alt [lit ''agent_harness_opencode_continuation_host_probe_url'', lit ''127.0.0.1:4096'', lit ''localhost:4096'']"

definition runtime_state_path :: re where
  "runtime_state_path = Seq (Alt TextStart (Cls (\<lambda>c. is_space c \<or> c \<in> set [CHR 0x22, CHR 0x27, CHR ''='', CHR ''/''])))
     (lit ''.runtime/agents/'')"

definition classifyValidationExecutionScope :: "jsval \<Rightarrow> string" where
  "classifyValidationExecutionScope command =
     (let text = toLowerCase (compact command) in
      if text = [] then ''workspace''
      else if re_test live_command text then ''live''
      else if re_test (lit ''runtime:agent-authoritative:readiness'') text then ''authoritative-host''
      else if re_test (lit ''runtime:agent-harness:validate'') text \<and> re_test authoritative_mode text then ''authoritative-host''
      else if re_test host_probe text then ''authoritative-host''
      else if re_test runtime_state_path (replace_char (CHR 0x5C) (CHR ''/'') text) then ''authoritative-host''
      else ''workspace'')"

definition validationScopeCompatibilityIssue :: "jsval \<Rightarrow> jsval \<Rightarrow> jsval \<Rightarrow> string option" where
  "validationScopeCompatibilityIssue taskStage declaredScope command =
     (let stage = toLowerCase (compact taskStage); declared = normalizeValidationExecutionScope declaredScope;
          inferred = classifyValidationExecutionScope command in
      if stage = ''implementation'' then
        (if declared \<noteq> ''workspace'' then Some (''validation_scope_forbidden_for_stage:implementation:'' @ declared)
         else if inferred \<noteq> ''workspace'' then Some (''validation_scope_exceeds_task:implementation:'' @ declared @ '':'' @ inferred)
         else None)
      else None)"

subsection \<open>The focused validation of a request\<close>

text \<open>
  The words that announce a focused validation at the end of the text before a code span, in Portuguese (with or
  without its accents, code units 231 and 227) or English.
\<close>

definition FOCUSED_VALIDATION_CONTEXT_PATTERN :: re where
  "FOCUSED_VALIDATION_CONTEXT_PATTERN = re_seq
     [re_alt [re_seq [lit ''valida'', any_of [CHR 0xE7, CHR ''c''], any_of [CHR ''a'', CHR 0xE3], lit ''o'', re_plus white, lit ''focad'', any_of ''ao''],
              re_seq [lit ''focused'', re_plus white, lit ''validation''], re_seq [lit ''validation'', re_plus white, lit ''focused'']],
      re_opt (Seq (re_plus white) (re_alt [lit ''em'', lit ''com'', lit ''using'', lit ''to''])),
      Star white, re_opt (any_of '':=-''), Star white, TextEnd]"

definition span_char :: "char \<Rightarrow> bool" where
  "span_char c \<longleftrightarrow> c \<noteq> CHR 0x60 \<and> \<not> line_break c"

text \<open>The inline code spans of a text in order, each with the text before it.\<close>

function inline_spans :: "string \<Rightarrow> string \<Rightarrow> (string \<times> string) list" where
  "inline_spans before [] = []"
| "inline_spans before (c # cs) =
     (let body = takeWhile span_char cs; rest = dropWhile span_char cs in
      if c = CHR 0x60 \<and> body \<noteq> [] \<and> rest \<noteq> [] \<and> hd rest = CHR 0x60
      then (before, body) # inline_spans (before @ c # body @ [CHR 0x60]) (tl rest)
      else inline_spans (before @ [c]) cs)"
  by pat_completeness auto
termination
proof (relation "measure (\<lambda>(before, text). length text)", goal_cases)
  case (2 before c cs body rest)
  then have "length rest \<le> length cs" by (simp add: length_dropWhile_le)
  then show ?case by simp
qed simp_all

definition focused_command :: "string \<times> string \<Rightarrow> string option" where
  "focused_command span =
     (case span of (before, body) \<Rightarrow>
      let command = trim body in
      if isExecutableValidationCommand (JStr command)
         \<and> re_test_iu FOCUSED_VALIDATION_CONTEXT_PATTERN (drop (length before - 160) before)
      then Some command else None)"

record directive =
  dv_mode :: string
  dv_commands :: "string list"

definition implementationValidationDirectiveFromRequest :: "jsval \<Rightarrow> directive" where
  "implementationValidationDirectiveFromRequest request =
     (let commands = uniq (List.map_filter focused_command (inline_spans [] (js_string (coalesce request (JStr []))))) in
      if commands \<noteq> [] then \<lparr>dv_mode = ''focused'', dv_commands = commands\<rparr> else \<lparr>dv_mode = ''none'', dv_commands = []\<rparr>)"

subsection \<open>What an executable command is\<close>

lemma executable_single_line:
  assumes "isExecutableValidationCommand command"
  shows "compact command \<noteq> [] \<and> \<not> list_ex line_break (compact command)"
  using assms by (auto simp: isExecutableValidationCommand_def firstExecutableToken_def Let_def split: option.splits if_splits)

lemma executable_not_prose: "isExecutableValidationCommand command \<Longrightarrow> \<not> looksLikeValidationProse command"
  by (auto simp: isExecutableValidationCommand_def split: option.splits)

lemma compact_compact: "compact (JStr (compact v)) = compact v"
  by (simp add: compact_def)

lemma executable_compact: "isExecutableValidationCommand (JStr (compact command)) = isExecutableValidationCommand command"
proof -
  have "firstExecutableToken (JStr (compact command)) = firstExecutableToken command"
    by (simp add: firstExecutableToken_def compact_compact)
  moreover have "looksLikeValidationProse (JStr (compact command)) = looksLikeValidationProse command"
    by (simp add: looksLikeValidationProse_def compact_compact)
  ultimately show ?thesis by (simp only: isExecutableValidationCommand_def)
qed

lemma invalid_Nil:
  "invalidValidationCommands (JArr xs) = [] \<longleftrightarrow> list_all isExecutableValidationCommand xs"
  using ball_enumerate[of 0 xs isExecutableValidationCommand]
  by (simp add: invalidValidationCommands_def filter_empty_conv list_all_iff split_beta)

lemma directive_commands:
  assumes "c \<in> set (dv_commands (implementationValidationDirectiveFromRequest request))"
  shows "isExecutableValidationCommand (JStr c) \<and> dv_mode (implementationValidationDirectiveFromRequest request) = ''focused''"
  using assms by (auto simp: implementationValidationDirectiveFromRequest_def Let_def List.map_filter_def focused_command_def
      split: if_splits)

end
