(* ===== verification/AcceptanceCriteria.thy ===== *)
theory AcceptanceCriteria
  imports JsText
begin

text \<open>
  The stage that proves an acceptance criterion (\<open>acceptance-criteria.mjs\<close>): the one the criterion names, or the one its
  wording suggests. Every criterion has exactly one stage, so the selections by stage partition the criteria.
\<close>

definition ACCEPTANCE_PROOF_STAGES :: "string list" where
  "ACCEPTANCE_PROOF_STAGES = [''implementation'', ''quality-assurance'', ''database-readiness'', ''infrastructure-readiness'',
     ''ai-readiness'', ''product-acceptance'']"

definition evidenceText :: "jsval \<Rightarrow> string" where
  "evidenceText criterion = toLowerCase (js_string (coalesce (field criterion ''statement'') (JStr [])) @ '' ''
     @ js_string (coalesce (field criterion ''verification'') (JStr [])))"

definition product_words :: re where
  "product_words = re_alt
     [re_seq [lit ''product'', re_plus white, lit ''acceptance''],
      re_seq [lit ''accept'', Alt (lit ''ed'') (lit ''ance''), re_plus white, lit ''by'', re_plus white, re_opt (Seq (lit ''the'') (re_plus white)), lit ''product''],
      re_seq [lit ''product'', re_plus white, lit ''owner'', re_plus white, lit ''accept'']]"

definition qa_words :: re where
  "qa_words = re_alt
     [re_seq [WordEdge, lit ''qa'', WordEdge], re_seq [lit ''quality'', re_plus white, lit ''assurance''],
      re_seq [lit ''independent'', re_plus white, Alt (lit ''qa'') (lit ''verification'')], re_seq [lit ''qa'', re_plus white, lit ''confirm'']]"

definition database_words :: re where
  "database_words = re_alt
     [re_seq [lit ''database'', re_plus white, lit ''readiness''],
      re_seq [lit ''migration'', re_plus white, Alt (lit ''safety'') (lit ''rollback'')], re_seq [lit ''database'', re_plus white, lit ''rollback'']]"

definition infrastructure_words :: re where
  "infrastructure_words = re_alt
     (Seq (lit ''deploy'') (Alt (lit ''ment'') (lit ''ability''))
      # map (\<lambda>w. re_seq [lit w, re_plus white, lit ''readiness'']) [''operational'', ''infrastructure'', ''rollback'', ''observability''])"

definition ai_words :: re where
  "ai_words = re_alt
     [re_seq [lit ''ai'', Star white, re_opt (Alt (lit ''/'') (lit ''and'')), Star white, lit ''ml'', re_plus white, lit ''readiness''],
      re_seq [lit ''model'', re_plus white, lit ''drift''], re_seq [lit ''model'', re_plus white, lit ''rollback''],
      re_seq [lit ''llm'', re_plus white, lit ''readiness'']]"

definition acceptanceCriterionProofStage :: "jsval \<Rightarrow> string" where
  "acceptanceCriterionProofStage criterion =
     (let explicit = compact (field criterion ''proofStage''); text = evidenceText criterion in
      if explicit \<in> set ACCEPTANCE_PROOF_STAGES then explicit
      else if re_test product_words text then ''product-acceptance''
      else if re_test qa_words text then ''quality-assurance''
      else if re_test database_words text then ''database-readiness''
      else if re_test infrastructure_words text then ''infrastructure-readiness''
      else if re_test ai_words text then ''ai-readiness''
      else ''implementation'')"

definition criteriaForProofStages :: "jsval \<Rightarrow> string list \<Rightarrow> jsval list" where
  "criteriaForProofStages criteria stages = filter (\<lambda>c. acceptanceCriterionProofStage c \<in> set stages) (elements criteria)"

definition implementationProofCriteria :: "jsval \<Rightarrow> jsval list" where
  "implementationProofCriteria criteria = criteriaForProofStages criteria [''implementation'']"

definition qaProofCriteria :: "jsval \<Rightarrow> jsval list" where
  "qaProofCriteria criteria = criteriaForProofStages criteria [''implementation'', ''quality-assurance'']"

definition databaseReadinessProofCriteria :: "jsval \<Rightarrow> jsval list" where
  "databaseReadinessProofCriteria criteria = criteriaForProofStages criteria [''database-readiness'']"

definition infrastructureReadinessProofCriteria :: "jsval \<Rightarrow> jsval list" where
  "infrastructureReadinessProofCriteria criteria = criteriaForProofStages criteria [''infrastructure-readiness'']"

definition aiReadinessProofCriteria :: "jsval \<Rightarrow> jsval list" where
  "aiReadinessProofCriteria criteria = criteriaForProofStages criteria [''ai-readiness'']"

definition nonAcceptanceProofCriteria :: "jsval \<Rightarrow> jsval list" where
  "nonAcceptanceProofCriteria criteria = filter (\<lambda>c. acceptanceCriterionProofStage c \<noteq> ''product-acceptance'') (elements criteria)"

lemma proof_stage_known: "acceptanceCriterionProofStage criterion \<in> set ACCEPTANCE_PROOF_STAGES"
  by (simp add: acceptanceCriterionProofStage_def Let_def ACCEPTANCE_PROOF_STAGES_def)

text \<open>Every criterion is proved in exactly one of the groups the compiler makes of them.\<close>

lemma proof_groups_partition:
  "set (elements criteria) = set (qaProofCriteria criteria) \<union> set (databaseReadinessProofCriteria criteria)
     \<union> set (infrastructureReadinessProofCriteria criteria) \<union> set (aiReadinessProofCriteria criteria)
     \<union> {c \<in> set (elements criteria). acceptanceCriterionProofStage c = ''product-acceptance''}"
  "set (nonAcceptanceProofCriteria criteria) = set (qaProofCriteria criteria) \<union> set (databaseReadinessProofCriteria criteria)
     \<union> set (infrastructureReadinessProofCriteria criteria) \<union> set (aiReadinessProofCriteria criteria)"
  using proof_stage_known
  by (auto simp: qaProofCriteria_def databaseReadinessProofCriteria_def infrastructureReadinessProofCriteria_def
      aiReadinessProofCriteria_def nonAcceptanceProofCriteria_def criteriaForProofStages_def ACCEPTANCE_PROOF_STAGES_def)

end
