(* ===== verification/ModelCapabilities.thy ===== *)
theory ModelCapabilities
  imports BootstrapCapabilities Utils
begin

text \<open>
  What a task asks of a model (\<open>model-capabilities.mjs\<close>), and the registry of agents
  (\<open>agent-catalog.mjs\<close>, \<open>agent-topology.mjs\<close>): the roles and modes an agent may have, how the
  catalog is assembled from the manifests, and which agent owns a path. Reading the manifests from disk is not modelled;
  \<open>assemble_catalog\<close> starts from their contents.
\<close>

definition HIGH_REASONING_STAGES :: "string list" where
  "HIGH_REASONING_STAGES = [''product-discovery'', ''architecture-review'', ''database-review'', ''infrastructure-review'',
     ''ai-operations-review'', ''technical-refinement'', ''quality-assurance'', ''operational-readiness'', ''product-acceptance'']"

definition texts_include :: "string list \<Rightarrow> jsval \<Rightarrow> bool" where
  "texts_include xs v \<longleftrightarrow> v \<in> JStr ` set xs"

definition task_role :: "obj \<Rightarrow> jsval" where
  "task_role task = coalesce (coalesce (get task ''sddRole'') (get task ''role'')) (JStr ''developer'')"

definition modelClassForTask :: "obj \<Rightarrow> jsval" where
  "modelClassForTask task =
     (let stage = get task ''stage''; role = task_role task in
      if truthy (field (get task ''executionRequirements'') ''modelClass'') then field (get task ''executionRequirements'') ''modelClass''
      else if stage = JStr ''quality-assurance'' \<or> role = JStr ''quality-assurance'' then JStr ''quality-high''
      else if stage = JStr ''technical-refinement'' \<or> role = JStr ''technical-lead'' then JStr ''reasoning-high''
      else if isBootstrapReviewStage stage \<or> texts_include HIGH_REASONING_STAGES stage
        \<or> texts_include [''product-owner'', ''solution-architect'', ''database-administrator'', ''devops-engineer'', ''ai-llmops-engineer''] role
        then JStr ''reasoning-high''
      else if get task ''role'' = JStr ''implementation'' \<or> get task ''role'' = JStr ''platform''
        \<or> texts_include [''developer'', ''platform-engineer''] role
        then JStr (if get task ''complexity'' = JStr ''low'' \<and> get task ''contractChange'' \<noteq> JBool True \<and> get task ''migration'' \<noteq> JBool True
                   then ''coding-fast'' else ''coding-pro'')
      else JStr ''reasoning-cost-balanced'')"

definition modelRequirementsForTask :: "obj \<Rightarrow> obj" where
  "modelRequirementsForTask task =
     (let modelClass = modelClassForTask task; role = task_role task; stage = get task ''stage'';
          explicit = coalesce (get task ''executionRequirements'') (JObj []);
          capabilities = uniq (filter truthy
            (map JStr ((if starts_with (js_string modelClass) ''coding'' then [''coding'', ''tool-use''] else [''reasoning'', ''tool-use''])
              @ (if isBootstrapReviewStage stage \<or> texts_include [''technical-lead'', ''product-owner'', ''solution-architect'', ''quality-assurance''] role
                    \<or> stage = JStr ''technical-refinement'' then [''structured-output''] else [])
              @ (if get task ''role'' = JStr ''verification'' \<or> stage = JStr ''quality-assurance'' then [''evidence-review''] else [])
              @ (if length (elements (get task ''ownedPaths'')) > 20 then [''long-context''] else []))
             @ elements (field explicit ''capabilities''))) in
      [(''modelClass'', modelClass), (''capabilities'', JArr capabilities),
       (''reasoningClass'', coalesce (coalesce (field explicit ''reasoningClass'') (get task ''reasoningLevel'')) (JStr ''medium'')),
       (''interactionMode'', coalesce (field explicit ''interactionMode'') (JStr ''subagent'')), (''binding'', JStr ''runtime-route'')])"

definition missing_capabilities :: "jsval \<Rightarrow> jsval list \<Rightarrow> jsval list" where
  "missing_capabilities requirements profile = filter (\<lambda>c. c \<notin> set profile) (elements (field requirements ''capabilities''))"

definition assertRouteSatisfiesRequirements :: "jsval \<Rightarrow> jsval \<Rightarrow> jsval \<Rightarrow> jsval res" where
  "assertRouteSatisfiesRequirements route requirements catalog =
     (let model = field route ''model'';
          profile = elements (field (field (field catalog ''models'') (js_string model)) ''profile'');
          missing = missing_capabilities requirements profile in
      bindR (ensure (truthy model) ''model_route_missing'') (\<lambda>_.
      bindR (ensure (profile = [] \<or> missing = [])
               (''model_route_capability_mismatch:'' @ js_string model @ '':'' @ join '','' (map js_string missing))) (\<lambda>_.
      Inr route)))"

subsection \<open>Agents\<close>

definition ORCHESTRATION_ROLES :: "string list" where
  "ORCHESTRATION_ROLES = [''orchestrator'', ''specialist'']"

definition INTERACTIVE_MODES :: "string list" where
  "INTERACTIVE_MODES = [''primary'', ''subagent'']"

definition SESSION_ROLES :: "string list" where
  "SESSION_ROLES = [''primary'']"

definition assertValue :: "jsval \<Rightarrow> string list \<Rightarrow> string \<Rightarrow> string \<Rightarrow> unit res" where
  "assertValue v allowed code agentId =
     ensure (texts_include allowed v) (code @ '':'' @ agentId @ '':'' @ js_string (coalesce v (JStr ''missing'')))"

definition agent_id :: "jsval \<Rightarrow> string" where
  "agent_id agent = js_string (coalesce (field agent ''id'') (JStr ''unknown''))"

definition validateRegistryAgentTopology :: "jsval \<Rightarrow> string \<Rightarrow> jsval res" where
  "validateRegistryAgentTopology agent orchestratorId =
     (let agentId = agent_id agent; role = field agent ''orchestrationRole''; mode = field agent ''interactiveMode'';
          expectedRole = (if agentId = orchestratorId then ''orchestrator'' else ''specialist'');
          expectedMode = (if agentId = orchestratorId then ''primary'' else ''subagent'') in
      bindR (assertValue role ORCHESTRATION_ROLES ''agent_orchestration_role_invalid'' agentId) (\<lambda>_.
      bindR (assertValue mode INTERACTIVE_MODES ''agent_interactive_mode_invalid'' agentId) (\<lambda>_.
      bindR (ensure (role = JStr expectedRole)
               (''agent_orchestration_role_mismatch:'' @ agentId @ '':'' @ js_string role @ '':'' @ expectedRole)) (\<lambda>_.
      bindR (ensure (mode = JStr expectedMode)
               (''agent_interactive_mode_mismatch:'' @ agentId @ '':'' @ js_string mode @ '':'' @ expectedMode)) (\<lambda>_.
      Inr agent)))))"

definition taskExecutionTopologyForAgent :: "jsval \<Rightarrow> obj res" where
  "taskExecutionTopologyForAgent agent =
     bindR (assertValue (field agent ''orchestrationRole'') ORCHESTRATION_ROLES ''agent_orchestration_role_invalid'' (agent_id agent)) (\<lambda>_.
     bindR (assertValue (field agent ''interactiveMode'') INTERACTIVE_MODES ''agent_interactive_mode_invalid'' (agent_id agent)) (\<lambda>_.
     Inr [(''orchestrationRole'', field agent ''orchestrationRole''), (''interactiveMode'', field agent ''interactiveMode''),
          (''sessionRole'', JStr ''primary'')]))"

definition resolveTaskExecutionTopology :: "jsval \<Rightarrow> obj res" where
  "resolveTaskExecutionTopology brief =
     (let topology = field brief ''executionTopology''; agentId = js_string (coalesce (field brief ''agentId'') (JStr ''unknown''));
          role = field topology ''orchestrationRole''; mode = field topology ''interactiveMode'' in
      if \<not> truthy topology
      then Inr [(''orchestrationRole'', JStr ''specialist''), (''interactiveMode'', JStr ''subagent''), (''sessionRole'', JStr ''primary''),
                (''compatibility'', JStr ''legacy-task-brief-v2'')]
      else
        bindR (assertValue role ORCHESTRATION_ROLES ''task_orchestration_role_invalid'' agentId) (\<lambda>_.
        bindR (assertValue mode INTERACTIVE_MODES ''task_interactive_mode_invalid'' agentId) (\<lambda>_.
        bindR (assertValue (field topology ''sessionRole'') SESSION_ROLES ''task_session_role_invalid'' agentId) (\<lambda>_.
        bindR (ensure (\<not> (role = JStr ''orchestrator'' \<and> mode \<noteq> JStr ''primary''))
                 (''task_execution_topology_invalid:'' @ agentId @ '':orchestrator_requires_primary_interactive_mode'')) (\<lambda>_.
        bindR (ensure (\<not> (role = JStr ''specialist'' \<and> mode \<noteq> JStr ''subagent''))
                 (''task_execution_topology_invalid:'' @ agentId @ '':specialist_requires_subagent_interactive_mode'')) (\<lambda>_.
        Inr (assign (case topology of JObj ps \<Rightarrow> ps | _ \<Rightarrow> []) [(''compatibility'', JNull)])))))))"

text \<open>The catalog from the manifests, the workflow and the model routing document.\<close>

definition assemble_catalog :: "obj list \<Rightarrow> jsval \<Rightarrow> jsval \<Rightarrow> registry res" where
  "assemble_catalog agents workflow modelRouting =
     (let orchestrator = field workflow ''entryAgent'';
          byId = fold (\<lambda>agent m. AList.update (js_string (get agent ''id'')) agent m) agents [];
          registry = \<lparr>rg_orchestrator = js_string orchestrator, rg_agents = agents, rg_byId = byId, rg_workflow = workflow\<rparr> in
      bindR (ensure (agents \<noteq> []) ''agent_catalog_empty'') (\<lambda>_.
      bindR (ensure (truthy orchestrator \<and> map_of byId (js_string orchestrator) \<noteq> None)
               (''agent_catalog_orchestrator_missing:'' @ js_string (coalesce orchestrator (JStr ''missing'')))) (\<lambda>_.
      bindR (mapR (\<lambda>agent. validateRegistryAgentTopology (JObj agent) (js_string orchestrator)) agents) (\<lambda>_.
      bindR (ensure (field modelRouting ''schemaVersion'' = JNum 1 \<and> truthy (field modelRouting ''classes'') \<and> truthy (field modelRouting ''models''))
               ''agent_model_routing_catalog_invalid'') (\<lambda>_.
      bindR (capabilityCatalogFromRegistry registry) (\<lambda>_. Inr registry))))))"

definition specialists :: "registry \<Rightarrow> obj list" where
  "specialists catalog = filter (\<lambda>agent. get agent ''id'' \<noteq> JStr (rg_orchestrator catalog)) (rg_agents catalog)"

definition owns_prefix :: "string \<Rightarrow> string \<Rightarrow> bool" where
  "owns_prefix normalized pattern \<longleftrightarrow>
     (let prefix = (if ends_with pattern ''/**'' then take (length pattern - 3) pattern else pattern) in
      normalized = prefix \<or> starts_with normalized (prefix @ ''/'') \<or> normalized = pattern)"

definition agentForPath :: "registry \<Rightarrow> jsval \<Rightarrow> obj option" where
  "agentForPath catalog candidate =
     (let normalized = replace_char (CHR 0x5C) (CHR ''/'') (js_string (coalesce candidate (JStr [])));
          found = concat (map (\<lambda>agent. map (\<lambda>_. agent)
            (filter (\<lambda>pattern. owns_prefix normalized (js_string pattern)) (elements (get agent ''primaryPaths'')))) (specialists catalog)) in
      case found of [agent] \<Rightarrow> Some agent | _ \<Rightarrow> None)"

lemma accepted_agent_roles:
  assumes "validateRegistryAgentTopology agent orchestratorId = Inr a"
  shows "a = agent \<and> field agent ''orchestrationRole'' = JStr (if agent_id agent = orchestratorId then ''orchestrator'' else ''specialist'')
    \<and> field agent ''interactiveMode'' = JStr (if agent_id agent = orchestratorId then ''primary'' else ''subagent'')"
  using assms by (auto simp: validateRegistryAgentTopology_def Let_def bindR_Inr)

text \<open>In an assembled catalog exactly the entry agent is an orchestrator.\<close>

lemma assembled_roles:
  assumes "assemble_catalog agents workflow modelRouting = Inr registry" and "agent \<in> set (rg_agents registry)"
  shows "get agent ''orchestrationRole'' = JStr ''orchestrator'' \<longleftrightarrow> agent_id (JObj agent) = rg_orchestrator registry"
proof -
  obtain ys where "mapR (\<lambda>agent. validateRegistryAgentTopology (JObj agent) (rg_orchestrator registry)) (rg_agents registry) = Inr ys"
    using assms(1) by (auto simp: assemble_catalog_def Let_def bindR_Inr)
  from mapR_Inr_nth[OF this] assms(2) obtain i where
    "validateRegistryAgentTopology (JObj agent) (rg_orchestrator registry) = Inr (ys ! i)"
    by (auto simp: in_set_conv_nth)
  from accepted_agent_roles[OF this] show ?thesis by (auto split: if_splits)
qed

end
