(* ===== verification/SchemaValidator.thy ===== *)
theory SchemaValidator
  imports Contracts
begin

text \<open>
  The validator of artifacts against JSON schemas (\<open>schema-validator.mjs\<close>). A schema is a JSON value; the errors of a
  node are collected in the order of the code. \<open>new RegExp(schema.pattern).test(value)\<close> is the argument
  \<open>regexp\<close>, since the pattern is data of the schema files.

  \<open>conforms\<close> is the meaning of the supported keywords, without messages; the validator reports no error exactly on
  the conforming values.
\<close>

subsection \<open>Values\<close>

text \<open>The properties every object inherits; \<open>in\<close> and \<open>properties[key]\<close> see them.\<close>

definition OBJECT_PROTOTYPE :: "string list" where
  "OBJECT_PROTOTYPE = [''constructor'', ''__defineGetter__'', ''__defineSetter__'', ''hasOwnProperty'', ''__lookupGetter__'',
     ''__lookupSetter__'', ''isPrototypeOf'', ''propertyIsEnumerable'', ''toString'', ''valueOf'', ''__proto__'', ''toLocaleString'']"

definition in_object :: "string \<Rightarrow> obj \<Rightarrow> bool" where
  "in_object k ps \<longleftrightarrow> has_own ps k \<or> k \<in> set OBJECT_PROTOTYPE"

text \<open>\<open>typeof v === "object"\<close> for a value that is not null\<close>

definition js_object_value :: "jsval \<Rightarrow> bool" where
  "js_object_value v \<longleftrightarrow> (case v of JArr _ \<Rightarrow> True | JObj _ \<Rightarrow> True | _ \<Rightarrow> False)"

fun js_typeof :: "jsval \<Rightarrow> string" where
  "js_typeof JUndef = ''undefined''"
| "js_typeof (JBool b) = ''boolean''"
| "js_typeof (JNum n) = ''number''"
| "js_typeof (JStr s) = ''string''"
| "js_typeof v = ''object''"

lemma size_element: "x \<in> set xs \<Longrightarrow> size x < size (JArr xs)"
  by (induction xs) auto

lemma size_entry: "(k, v) \<in> set ps \<Longrightarrow> size v < size (JObj ps)"
  by (induction ps) auto

function (sequential) jsonConstMatches :: "jsval \<Rightarrow> jsval \<Rightarrow> bool" where
  "jsonConstMatches (JArr xs) (JArr ys) \<longleftrightarrow> length xs = length ys \<and> list_all (\<lambda>(x, y). jsonConstMatches x y) (zip xs ys)"
| "jsonConstMatches (JObj ps) (JObj qs) \<longleftrightarrow>
     sort (map fst ps) = sort (map fst qs) \<and> list_all (\<lambda>(k, v). jsonConstMatches v (get qs k)) ps"
| "jsonConstMatches (JArr xs) (JObj qs) \<longleftrightarrow> False"
| "jsonConstMatches (JObj ps) (JArr ys) \<longleftrightarrow> False"
| "jsonConstMatches v w \<longleftrightarrow> v = w"
  by pat_completeness auto
termination
  by (relation "measure (\<lambda>(v, w). size v)") (auto dest!: set_zip_leftD dest: size_element size_entry)

definition typeMatches :: "jsval \<Rightarrow> jsval \<Rightarrow> bool" where
  "typeMatches value expected =
     (if expected = JStr ''null'' then value = JNull
      else if expected = JStr ''array'' then (case value of JArr _ \<Rightarrow> True | _ \<Rightarrow> False)
      else if expected = JStr ''object'' then (case value of JObj _ \<Rightarrow> True | _ \<Rightarrow> False)
      else if expected = JStr ''integer'' then (case value of JNum _ \<Rightarrow> True | _ \<Rightarrow> False)
      else JStr (js_typeof value) = expected)"

text \<open>\<open>schema.enum.includes(value)\<close>: arrays and objects are compared by identity.\<close>

definition enum_includes :: "jsval \<Rightarrow> jsval \<Rightarrow> bool" where
  "enum_includes options value \<longleftrightarrow> \<not> js_object_value value \<and> value \<in> set (elements options)"

text \<open>\<open>n < bound\<close> and \<open>bound < n\<close>, false when the bound is not a number\<close>

definition below :: "int \<Rightarrow> jsval \<Rightarrow> bool" where
  "below n bound \<longleftrightarrow> bound \<noteq> JUndef \<and> (case js_number bound of None \<Rightarrow> False | Some m \<Rightarrow> n < m)"

definition above :: "int \<Rightarrow> jsval \<Rightarrow> bool" where
  "above n bound \<longleftrightarrow> bound \<noteq> JUndef \<and> (case js_number bound of None \<Rightarrow> False | Some m \<Rightarrow> m < n)"

subsection \<open>The keywords of one node\<close>

definition schema_types :: "jsval \<Rightarrow> jsval list" where
  "schema_types schema = (case field schema ''type'' of JArr ts \<Rightarrow> ts | t \<Rightarrow> [t])"

definition type_wrong :: "jsval \<Rightarrow> jsval \<Rightarrow> bool" where
  "type_wrong value schema \<longleftrightarrow> truthy (field schema ''type'') \<and> \<not> list_ex (typeMatches value) (schema_types schema)"

definition const_wrong :: "jsval \<Rightarrow> jsval \<Rightarrow> bool" where
  "const_wrong value schema \<longleftrightarrow> field schema ''const'' \<noteq> JUndef \<and> \<not> jsonConstMatches value (field schema ''const'')"

definition enum_wrong :: "jsval \<Rightarrow> jsval \<Rightarrow> bool" where
  "enum_wrong value schema \<longleftrightarrow> truthy (field schema ''enum'') \<and> \<not> enum_includes (field schema ''enum'') value"

definition err_if :: "bool \<Rightarrow> string \<Rightarrow> string list" where
  "err_if b message = (if b then [message] else [])"

definition const_enum_errors :: "jsval \<Rightarrow> jsval \<Rightarrow> string \<Rightarrow> string list" where
  "const_enum_errors value schema path =
     err_if (const_wrong value schema) (path @ '': expected const '' @ json_text (field schema ''const''))
     @ err_if (enum_wrong value schema)
         (path @ '': expected one of '' @ join '', '' (map (\<lambda>v. if nullish v then [] else js_string v) (elements (field schema ''enum''))))"

text \<open>The tests on a string and on a number.\<close>

definition scalar_errors :: "env \<Rightarrow> (string \<Rightarrow> string \<Rightarrow> bool) \<Rightarrow> jsval \<Rightarrow> jsval \<Rightarrow> string \<Rightarrow> string list" where
  "scalar_errors e regexp value schema path =
     (case value of
        JStr s \<Rightarrow>
          err_if (below (int (length s)) (field schema ''minLength''))
            (path @ '': string shorter than '' @ js_string (field schema ''minLength''))
          @ err_if (truthy (field schema ''pattern'') \<and> \<not> regexp (js_string (field schema ''pattern'')) s) (path @ '': pattern mismatch'')
          @ err_if (field schema ''format'' = JStr ''date-time'' \<and> parse_date e s = None) (path @ '': invalid date-time'')
      | JNum n \<Rightarrow>
          err_if (below n (field schema ''minimum'')) (path @ '': below minimum '' @ js_string (field schema ''minimum''))
          @ err_if (above n (field schema ''maximum'')) (path @ '': above maximum '' @ js_string (field schema ''maximum''))
      | _ \<Rightarrow> [])"

text \<open>The schema of a property: its own, the one for additional properties, none, or a refusal.\<close>

datatype property_rule = Rule jsval | Free | Refused

definition property_rule_of :: "jsval \<Rightarrow> string \<Rightarrow> property_rule" where
  "property_rule_of schema key =
     (let additional =
        (if field schema ''additionalProperties'' = JBool False then Refused
         else if js_object_value (field schema ''additionalProperties'') then Rule (field schema ''additionalProperties'')
         else Free) in
      case map_of (case field schema ''properties'' of JObj ps \<Rightarrow> ps | _ \<Rightarrow> []) key of
        Some sub \<Rightarrow> if truthy sub then Rule sub else additional
      | None \<Rightarrow> if key \<in> set OBJECT_PROTOTYPE then Free else additional)"

definition missing_required :: "jsval \<Rightarrow> obj \<Rightarrow> string list" where
  "missing_required schema ps = filter (\<lambda>k. \<not> in_object k ps) (map js_string (elements (field schema ''required'')))"

text \<open>The subschemas of a schema are smaller.\<close>

lemma field_size: "truthy (field schema k) \<Longrightarrow> size (field schema k) < size schema"
proof (cases schema)
  case (JObj ps)
  assume "truthy (field schema k)"
  with JObj have "(k, get ps k) \<in> set ps" by (auto simp: get_def dest: map_of_SomeD split: option.splits)
  with JObj show ?thesis by (simp only: field.simps size_entry)
qed auto

lemma object_value_truthy: "js_object_value v \<Longrightarrow> truthy v"
  by (cases v) (simp_all add: js_object_value_def)

lemma elements_size: "b \<in> set (elements (field schema k)) \<Longrightarrow> size b < size schema"
  using size_element field_size[of schema k] by (cases "field schema k") fastforce+

lemma branch_size: "field schema k = JArr xs \<Longrightarrow> b \<in> set xs \<Longrightarrow> size b < size schema"
  using elements_size[of b schema k] by simp

lemma property_rule_size: "property_rule_of schema key = Rule sub \<Longrightarrow> size sub < size schema"
proof -
  assume rule: "property_rule_of schema key = Rule sub"
  have additional: "size sub < size schema" if "sub = field schema ''additionalProperties''" "js_object_value sub"
    using that field_size[of schema "''additionalProperties''"] object_value_truthy[of sub] by simp
  show ?thesis
  proof (cases "\<exists>ps. field schema ''properties'' = JObj ps \<and> (key, sub) \<in> set ps")
    case True
    then obtain ps where ps: "field schema ''properties'' = JObj ps" "(key, sub) \<in> set ps" by blast
    from ps(2) have "size sub < size (JObj ps)" by (rule size_entry)
    also have "size (JObj ps) < size schema" using field_size[of schema "''properties''"] ps(1) by simp
    finally show ?thesis .
  next
    case False
    with rule have "sub = field schema ''additionalProperties''" "js_object_value sub"
      by (auto simp: property_rule_of_def Let_def dest: map_of_SomeD split: if_splits option.splits jsval.splits)
    then show ?thesis by (rule additional)
  qed
qed

subsection \<open>The validator\<close>

function validateNode :: "env \<Rightarrow> (string \<Rightarrow> string \<Rightarrow> bool) \<Rightarrow> jsval \<Rightarrow> jsval \<Rightarrow> string \<Rightarrow> string list" where
  "validateNode e regexp value schema path =
     concat (map (\<lambda>branch. validateNode e regexp value branch path) (elements (field schema ''allOf'')))
     @ (case field schema ''anyOf'' of
          JArr _ \<Rightarrow> err_if (\<not> list_ex (\<lambda>branch. validateNode e regexp value branch path = []) (elements (field schema ''anyOf'')))
                      (path @ '': expected to match at least one anyOf branch'')
        | _ \<Rightarrow> [])
     @ (case field schema ''oneOf'' of
          JArr _ \<Rightarrow> err_if (length (filter (\<lambda>branch. validateNode e regexp value branch path = []) (elements (field schema ''oneOf''))) \<noteq> 1)
                      (path @ '': expected to match exactly one oneOf branch'')
        | _ \<Rightarrow> [])
     @ (if truthy (field schema ''if'') \<and> js_object_value (field schema ''if'') then
          (if validateNode e regexp value (field schema ''if'') path = []
           then (if truthy (field schema ''then'') then validateNode e regexp value (field schema ''then'') path else [])
           else (if truthy (field schema ''else'') then validateNode e regexp value (field schema ''else'') path else []))
        else [])
     @ const_enum_errors value schema path
     @ (if type_wrong value schema then [path @ '': expected type '' @ join ''|'' (map js_string (schema_types schema))]
        else
          scalar_errors e regexp value schema path
          @ (case value of
               JArr xs \<Rightarrow>
                 err_if (below (int (length xs)) (field schema ''minItems''))
                   (path @ '': expected at least '' @ js_string (field schema ''minItems'') @ '' items'')
                 @ (if truthy (field schema ''items'')
                    then concat (map (\<lambda>(index, item). validateNode e regexp item (field schema ''items'') (path @ ''['' @ nat_string index @ '']''))
                           (enumerate 0 xs))
                    else [])
             | JObj ps \<Rightarrow>
                 map (\<lambda>required. path @ ''.'' @ required @ '': required property missing'') (missing_required schema ps)
                 @ concat (map (\<lambda>(key, nested).
                     case property_rule_of schema key of
                       Rule sub \<Rightarrow> validateNode e regexp nested sub (path @ ''.'' @ key)
                     | Refused \<Rightarrow> [path @ ''.'' @ key @ '': additional property not allowed'']
                     | Free \<Rightarrow> []) ps)
             | _ \<Rightarrow> []))"
  by pat_completeness auto
termination
  by (relation "measure (\<lambda>(e, regexp, value, schema, path). size schema)")
    (auto intro: field_size elements_size branch_size property_rule_size)

declare validateNode.simps [simp del]

definition validateAgainstSchema :: "env \<Rightarrow> (string \<Rightarrow> string \<Rightarrow> bool) \<Rightarrow> jsval \<Rightarrow> jsval \<Rightarrow> string \<Rightarrow> bool \<times> string list" where
  "validateAgainstSchema e regexp value schema label =
     (let errors = validateNode e regexp value schema label in (errors = [], errors))"

definition assertSchema :: "env \<Rightarrow> (string \<Rightarrow> string \<Rightarrow> bool) \<Rightarrow> jsval \<Rightarrow> jsval \<Rightarrow> string \<Rightarrow> jsval res" where
  "assertSchema e regexp value schema label =
     (case validateAgainstSchema e regexp value schema label of (valid, errors) \<Rightarrow>
      if \<not> valid then Inl (''schema_validation_failed:'' @ label @ '':'' @ join ''; '' errors) else Inr value)"

subsection \<open>The meaning of a schema\<close>

function conforms :: "env \<Rightarrow> (string \<Rightarrow> string \<Rightarrow> bool) \<Rightarrow> jsval \<Rightarrow> jsval \<Rightarrow> bool" where
  "conforms e regexp value schema \<longleftrightarrow>
     list_all (conforms e regexp value) (elements (field schema ''allOf''))
     \<and> (case field schema ''anyOf'' of JArr branches \<Rightarrow> list_ex (conforms e regexp value) branches | _ \<Rightarrow> True)
     \<and> (case field schema ''oneOf'' of JArr branches \<Rightarrow> length (filter (conforms e regexp value) branches) = 1 | _ \<Rightarrow> True)
     \<and> (if js_object_value (field schema ''if'')
        then (if conforms e regexp value (field schema ''if'')
              then truthy (field schema ''then'') \<longrightarrow> conforms e regexp value (field schema ''then'')
              else truthy (field schema ''else'') \<longrightarrow> conforms e regexp value (field schema ''else''))
        else True)
     \<and> \<not> const_wrong value schema \<and> \<not> enum_wrong value schema \<and> \<not> type_wrong value schema
     \<and> (case value of
          JStr s \<Rightarrow> \<not> below (int (length s)) (field schema ''minLength'')
            \<and> (truthy (field schema ''pattern'') \<longrightarrow> regexp (js_string (field schema ''pattern'')) s)
            \<and> (field schema ''format'' = JStr ''date-time'' \<longrightarrow> parse_date e s \<noteq> None)
        | JNum n \<Rightarrow> \<not> below n (field schema ''minimum'') \<and> \<not> above n (field schema ''maximum'')
        | JArr xs \<Rightarrow> \<not> below (int (length xs)) (field schema ''minItems'')
            \<and> (truthy (field schema ''items'') \<longrightarrow> list_all (\<lambda>item. conforms e regexp item (field schema ''items'')) xs)
        | JObj ps \<Rightarrow> list_all (\<lambda>required. in_object (js_string required) ps) (elements (field schema ''required''))
            \<and> list_all (\<lambda>(key, nested).
                 case property_rule_of schema key of Rule sub \<Rightarrow> conforms e regexp nested sub | Refused \<Rightarrow> False | Free \<Rightarrow> True) ps
        | _ \<Rightarrow> True)"
  by pat_completeness auto
termination
  by (relation "measure (\<lambda>(e, regexp, value, schema). size schema)")
    (auto intro: field_size elements_size branch_size property_rule_size object_value_truthy)

declare conforms.simps [simp del]

lemma err_if_Nil [simp]: "err_if b m = [] \<longleftrightarrow> \<not> b"
  by (simp add: err_if_def)

lemma const_enum_Nil: "const_enum_errors value schema path = [] \<longleftrightarrow> \<not> const_wrong value schema \<and> \<not> enum_wrong value schema"
  by (simp add: const_enum_errors_def)

lemma missing_required_Nil:
  "missing_required schema ps = [] \<longleftrightarrow> list_all (\<lambda>required. in_object (js_string required) ps) (elements (field schema ''required''))"
  by (simp add: missing_required_def filter_empty_conv list_all_iff)

lemma filter_same: "(\<And>x. x \<in> set xs \<Longrightarrow> P x = Q x) \<Longrightarrow> filter P xs = filter Q xs"
  by (rule filter_cong) auto

lemma validate_conforms: "validateNode e regexp v schema path = [] \<longleftrightarrow> conforms e regexp v schema"
proof (induction e regexp v schema path rule: validateNode.induct)
  case (1 e regexp v schema path)
  note IH = this
  have all: "concat (map (\<lambda>branch. validateNode e regexp v branch path) (elements (field schema ''allOf''))) = []
      \<longleftrightarrow> list_all (conforms e regexp v) (elements (field schema ''allOf''))"
    using IH(1) by (auto simp: list_all_iff)
  have any: "(case field schema ''anyOf'' of JArr _ \<Rightarrow>
        err_if (\<not> list_ex (\<lambda>branch. validateNode e regexp v branch path = []) (elements (field schema ''anyOf''))) m | _ \<Rightarrow> []) = []
      \<longleftrightarrow> (case field schema ''anyOf'' of JArr branches \<Rightarrow> list_ex (conforms e regexp v) branches | _ \<Rightarrow> True)" for m
    using IH(2) by (auto simp: list_ex_iff split: jsval.splits)
  have one: "(case field schema ''oneOf'' of JArr _ \<Rightarrow>
        err_if (length (filter (\<lambda>branch. validateNode e regexp v branch path = []) (elements (field schema ''oneOf''))) \<noteq> 1) m | _ \<Rightarrow> []) = []
      \<longleftrightarrow> (case field schema ''oneOf'' of JArr branches \<Rightarrow> length (filter (conforms e regexp v) branches) = 1 | _ \<Rightarrow> True)" for m
    using IH(3) by (auto cong: filter_cong split: jsval.splits)
  have cond: "(if truthy (field schema ''if'') \<and> js_object_value (field schema ''if'') then
          (if validateNode e regexp v (field schema ''if'') path = []
           then (if truthy (field schema ''then'') then validateNode e regexp v (field schema ''then'') path else [])
           else (if truthy (field schema ''else'') then validateNode e regexp v (field schema ''else'') path else []))
        else []) = []
      \<longleftrightarrow> (if js_object_value (field schema ''if'')
        then (if conforms e regexp v (field schema ''if'')
              then truthy (field schema ''then'') \<longrightarrow> conforms e regexp v (field schema ''then'')
              else truthy (field schema ''else'') \<longrightarrow> conforms e regexp v (field schema ''else''))
        else True)"
    using IH(4,5,6) object_value_truthy by auto
  have items: "concat (map (\<lambda>(index, item). validateNode e regexp item (field schema ''items'') (path @ ''['' @ nat_string index @ '']'')) (enumerate 0 xs)) = []
      \<longleftrightarrow> list_all (\<lambda>item. conforms e regexp item (field schema ''items'')) xs"
    if "v = JArr xs" "\<not> type_wrong v schema" "truthy (field schema ''items'')" for xs
  proof -
    have "concat (map (\<lambda>(index, item). validateNode e regexp item (field schema ''items'') (path @ ''['' @ nat_string index @ '']'')) (enumerate 0 xs)) = []
      \<longleftrightarrow> (\<forall>p \<in> set (enumerate 0 xs). conforms e regexp (snd p) (field schema ''items''))"
      using IH(7)[OF that(2,1,3)] by (auto simp: split_beta)
    also have "\<dots> \<longleftrightarrow> (\<forall>item \<in> set xs. conforms e regexp item (field schema ''items''))" by (rule ball_enumerate)
    finally show ?thesis by (simp only: list_all_iff)
  qed
  have props: "concat (map (\<lambda>(key, nested). case property_rule_of schema key of
          Rule sub \<Rightarrow> validateNode e regexp nested sub (path @ ''.'' @ key)
        | Refused \<Rightarrow> [path @ ''.'' @ key @ '': additional property not allowed''] | Free \<Rightarrow> []) ps) = []
      \<longleftrightarrow> list_all (\<lambda>(key, nested). case property_rule_of schema key of
          Rule sub \<Rightarrow> conforms e regexp nested sub | Refused \<Rightarrow> False | Free \<Rightarrow> True) ps"
    if "v = JObj ps" "\<not> type_wrong v schema" for ps
    using IH(8)[OF that(2,1)] by (fastforce simp: list_all_iff split: property_rule.splits)
  show ?case
    apply (subst validateNode.simps, subst conforms.simps)
    apply (simp only: append_is_Nil_conv all any one cond const_enum_Nil)
    apply (cases "type_wrong v schema")
     apply simp
    apply (cases v)
    using items props apply (auto simp: scalar_errors_def missing_required_Nil)
    done
qed


text \<open>
  A schema that forbids additional properties does not refuse a property named like one that every object inherits.
\<close>

lemma prototype_property_accepted:
  assumes "key \<in> set OBJECT_PROTOTYPE"
  shows "conforms e regexp (JObj [(key, v)]) (JObj [(''type'', JStr ''object''), (''additionalProperties'', JBool False)])
    \<and> \<not> conforms e regexp (JObj [(''other'', v)]) (JObj [(''type'', JStr ''object''), (''additionalProperties'', JBool False)])"
proof -
  let ?schema = "JObj [(''type'', JStr ''object''), (''additionalProperties'', JBool False)]"
  have rules: "property_rule_of ?schema key = Free" "property_rule_of ?schema ''other'' = Refused"
    using assms by (simp_all add: property_rule_of_def OBJECT_PROTOTYPE_def)
  show ?thesis
    by (subst (1 2) conforms.simps)
      (simp add: rules js_object_value_def const_wrong_def enum_wrong_def type_wrong_def schema_types_def typeMatches_def)
qed

end
