(* ===== verification/DagCompiler.thy ===== *)
theory DagCompiler
  imports PlanCycles ValidationCommand AcceptanceCriteria ModelCapabilities SchemaValidator
begin

text \<open>
  The compiler of the technical lead's implementation plan into tasks (\<open>dag-compiler.mjs\<close>): path ownership, the
  canonical acceptance criteria, the inspection of a plan and the compiled task graph. Plans, items, criteria and agents
  are JSON values; a field that the code iterates over is an array or absent. Writing the compiled plan to disk
  (\<open>saveCompiledDag\<close>) is not modelled.
\<close>

definition IMPLEMENTATION_EXECUTION_ROLES :: "string list" where
  "IMPLEMENTATION_EXECUTION_ROLES = [''implementation'', ''platform'']"

definition slug :: "jsval \<Rightarrow> string" where
  "slug v = toLowerCase (strip_dashes (dash_runs False (trim (js_string v))))"

definition levelForComplexity :: "jsval \<Rightarrow> jsval" where
  "levelForComplexity v =
     (case map_of [(JStr ''low'', ''medium''), (JStr ''medium'', ''high''), (JStr ''high'', ''high''), (JStr ''critical'', ''max'')] v of
        None \<Rightarrow> JStr ''high'' | Some level \<Rightarrow> JStr level)"

subsection \<open>Path ownership\<close>

definition staticPrefix :: "string \<Rightarrow> string" where
  "staticPrefix v = takeWhile (\<lambda>c. c \<noteq> CHR ''*'') v"

definition patternsMayOverlap :: "string \<Rightarrow> string \<Rightarrow> bool" where
  "patternsMayOverlap a b =
     (if a = b then True
      else if CHR ''*'' \<notin> set a \<and> CHR ''*'' \<notin> set b then False
      else starts_with (staticPrefix a) (staticPrefix b) \<or> starts_with (staticPrefix b) (staticPrefix a)
        \<or> anyPatternMatches [a] b \<or> anyPatternMatches [b] a)"

definition texts_of :: "jsval \<Rightarrow> string list" where
  "texts_of v = map js_string (elements v)"

definition agentOwnedPatterns :: "obj \<Rightarrow> string list" where
  "agentOwnedPatterns agent = uniq (texts_of (get agent ''primaryPaths'') @ texts_of (get agent ''sharedPaths'')
     @ texts_of (get agent ''collaborativePaths''))"

definition primaryImplementationOwnersForPath :: "registry \<Rightarrow> string \<Rightarrow> obj list" where
  "primaryImplementationOwnersForPath registry path =
     filter (\<lambda>candidate. texts_include IMPLEMENTATION_EXECUTION_ROLES (get candidate ''executionRole'')
       \<and> get candidate ''ownershipMode'' \<noteq> JStr ''fallback-unclaimed-primary''
       \<and> anyPatternMatches (texts_of (get candidate ''primaryPaths'')) path) (rg_agents registry)"

definition agentCanOwnPath :: "registry \<Rightarrow> obj \<Rightarrow> string \<Rightarrow> bool" where
  "agentCanOwnPath registry agent path =
     (if anyPatternMatches (agentOwnedPatterns agent) path then True
      else if get agent ''ownershipMode'' \<noteq> JStr ''fallback-unclaimed-primary'' then False
      else primaryImplementationOwnersForPath registry path = [])"

definition registryAgent :: "registry \<Rightarrow> jsval \<Rightarrow> obj option" where
  "registryAgent registry agentId = (case agentId of JStr s \<Rightarrow> map_of (rg_byId registry) s | _ \<Rightarrow> None)"

subsection \<open>Canonical acceptance criteria\<close>

definition text_or_empty :: "jsval \<Rightarrow> string" where
  "text_or_empty v = js_string (coalesce v (JStr []))"

definition criterionAuthorityShape :: "jsval \<Rightarrow> jsval" where
  "criterionAuthorityShape criterion = JObj
     [(''id'', JStr (text_or_empty (field criterion ''id''))), (''source'', JStr (text_or_empty (field criterion ''source''))),
      (''statement'', JStr (text_or_empty (field criterion ''statement''))), (''blocking'', JBool (field criterion ''blocking'' \<noteq> JBool False)),
      (''verification'', JStr (text_or_empty (field criterion ''verification''))), (''proofStage'', coalesce (field criterion ''proofStage'') JNull)]"

record canonical =
  ca_plan :: jsval
  ca_normalized :: bool
  ca_omittedIds :: "string list"
  ca_extraIds :: "string list"
  ca_mutatedIds :: "string list"

text \<open>A \<open>Map\<close> from entries: the last value of a key, at the position of its first.\<close>

definition map_from :: "(string \<times> jsval) list \<Rightarrow> (string \<times> jsval) list" where
  "map_from entries = fold (\<lambda>(k, v) m. AList.update k v m) entries []"

definition canonicalizeImplementationPlanAcceptanceCriteria :: "jsval \<Rightarrow> jsval \<Rightarrow> canonical" where
  "canonicalizeImplementationPlanAcceptanceCriteria implementationPlan requiredAcceptanceCriteria =
     (let plan = clone (coalesce implementationPlan (JObj [])); required = elements requiredAcceptanceCriteria in
      if required = [] then \<lparr>ca_plan = plan, ca_normalized = False, ca_omittedIds = [], ca_extraIds = [], ca_mutatedIds = []\<rparr>
      else
        let supplied = elements (field plan ''acceptanceCriteria'');
            requiredById = map_from (map (\<lambda>c. (js_string (field c ''id''), c)) required);
            suppliedById = map_from (map (\<lambda>c. (text_or_empty (field c ''id''), c)) supplied);
            omittedIds = filter (\<lambda>i. map_of suppliedById i = None) (map fst requiredById);
            extraIds = filter (\<lambda>i. i \<noteq> [] \<and> map_of requiredById i = None) (map fst suppliedById);
            mutatedIds = map fst (filter (\<lambda>(i, r). case map_of suppliedById i of None \<Rightarrow> False
              | Some c \<Rightarrow> json_text (criterionAuthorityShape c) \<noteq> json_text (criterionAuthorityShape r)) requiredById) in
        \<lparr>ca_plan = JObj (AList.update ''acceptanceCriteria'' (clone (JArr required)) (case plan of JObj ps \<Rightarrow> ps | _ \<Rightarrow> [])),
         ca_normalized = (omittedIds \<noteq> [] \<or> extraIds \<noteq> [] \<or> mutatedIds \<noteq> [] \<or> length supplied \<noteq> length required),
         ca_omittedIds = omittedIds, ca_extraIds = extraIds, ca_mutatedIds = mutatedIds\<rparr>)"

subsection \<open>Inspection of a plan\<close>

record inspect_options =
  io_directive :: "directive option"
  io_catalog :: "jsval list option"

record inspection =
  in_issues :: "string list"
  in_workIds :: "jsval list"
  in_claimed :: "(jsval \<times> jsval) list"
  in_owners :: "(jsval \<times> jsval) list"
  in_coverage :: "(jsval \<times> nat) list"

text \<open>What the inspection of an item reads of the plan and the options.\<close>

record plan_view =
  pv_criteria :: "(jsval \<times> jsval) list"
  pv_implementationIds :: "jsval list"
  pv_focused :: "string list"
  pv_trusted :: "string list option"

definition push_issues :: "string list \<Rightarrow> inspection \<Rightarrow> inspection" where
  "push_issues issues st = st\<lparr>in_issues := in_issues st @ issues\<rparr>"

text \<open>\<open>${item.id}\<close>\<close>

definition id_text :: "jsval \<Rightarrow> string" where
  "id_text item = js_string (field item ''id'')"

definition item_commands :: "jsval \<Rightarrow> jsval list" where
  "item_commands item = elements (field item ''validation'')"

definition verification_text :: "jsval \<Rightarrow> string" where
  "verification_text criterion = trim (text_or_empty (field criterion ''verification''))"

definition criterionVerificationIsCommand :: "plan_view \<Rightarrow> string \<Rightarrow> bool" where
  "criterionVerificationIsCommand pv normalized \<longleftrightarrow> isExecutableValidationCommand (JStr normalized)
     \<and> (case pv_trusted pv of None \<Rightarrow> True | Some trusted \<Rightarrow> normalized \<in> set trusted)"

fun duplicate_criteria :: "jsval list \<Rightarrow> jsval list \<Rightarrow> string list" where
  "duplicate_criteria seen [] = []"
| "duplicate_criteria seen (c # cs) =
     (if field c ''id'' \<in> set seen
      then (''implementation_plan_duplicate_acceptance_criterion:'' @ id_text c) # duplicate_criteria seen cs
      else duplicate_criteria (field c ''id'' # seen) cs)"

definition note_work_id :: "jsval \<Rightarrow> inspection \<Rightarrow> inspection" where
  "note_work_id item st =
     (if field item ''id'' \<in> set (in_workIds st) then push_issues [''implementation_plan_duplicate_work_item:'' @ id_text item] st
      else st\<lparr>in_workIds := in_workIds st @ [field item ''id'']\<rparr>)"

definition command_issues :: "env \<Rightarrow> plan_view \<Rightarrow> jsval \<Rightarrow> string list" where
  "command_issues e pv item =
     map (\<lambda>(index, command). ''validation_command_not_executable:implementationPlan.workItems.'' @ id_text item @ ''.validation[''
            @ int_string index @ '']='' @ json_message command)
       (invalidValidationCommands (coalesce (field item ''validation'') (JArr [])))
     @ (if elements (field item ''validationCommandIds'') \<noteq> []
        then map (\<lambda>issue. ''implementation_plan_'' @ issue @ '':'' @ id_text item)
               (validationCommandProjectionIssues e (field item ''validationCommandIds'') (coalesce (field item ''validation'') (JArr [])))
        else [])
     @ concat (map (\<lambda>(index, command).
         (case validationScopeCompatibilityIssue (JStr ''implementation'') (coalesce (field item ''validationExecutionScope'') (JStr ''workspace'')) command of
            None \<Rightarrow> []
          | Some issue \<Rightarrow> [''implementation_plan_'' @ issue @ '':'' @ id_text item @ '':validation['' @ nat_string index @ '']''])
         @ (if pv_focused pv \<noteq> [] \<and> command \<notin> JStr ` set (pv_focused pv)
            then [''implementation_plan_focused_validation_extra:'' @ id_text item @ '':validation['' @ nat_string index @ '']='' @ json_message command]
            else [])) (enumerate 0 (item_commands item)))"

definition owner_text :: "jsval \<Rightarrow> string" where
  "owner_text item = js_string (field item ''ownerAgentId'')"

definition agent_issues :: "registry \<Rightarrow> jsval \<Rightarrow> string list" where
  "agent_issues registry item =
     (case registryAgent registry (field item ''ownerAgentId'') of
        None \<Rightarrow> [''implementation_plan_agent_unknown:'' @ owner_text item]
      | Some agent \<Rightarrow>
          if \<not> texts_include IMPLEMENTATION_EXECUTION_ROLES (get agent ''executionRole'')
          then [''implementation_plan_agent_not_implementer:'' @ owner_text item] else [])"

definition claim_path :: "registry \<Rightarrow> jsval \<Rightarrow> jsval \<Rightarrow> inspection \<Rightarrow> inspection" where
  "claim_path registry item path st =
     (let ownerId = field item ''ownerAgentId'';
          outside = (case registryAgent registry ownerId of
             None \<Rightarrow> []
           | Some agent \<Rightarrow>
               if \<not> agentCanOwnPath registry agent (js_string path)
               then [''implementation_plan_path_outside_agent_ownership:'' @ id_text item @ '':'' @ owner_text item @ '':'' @ js_string path]
               else []);
          overlaps = map (\<lambda>(p, held). ''implementation_plan_path_overlap:'' @ js_string p @ '':'' @ js_string held @ '':'' @ js_string path @ '':'' @ owner_text item)
             (filter (\<lambda>(p, held). held \<noteq> ownerId \<and> patternsMayOverlap (js_string p) (js_string path)) (in_claimed st));
          owner = (case map_of (in_owners st) path of None \<Rightarrow> JUndef | Some held \<Rightarrow> held);
          claimed = push_issues (outside @ overlaps) (st\<lparr>in_claimed := in_claimed st @ [(path, ownerId)]\<rparr>) in
      if truthy owner \<and> owner \<noteq> ownerId
      then push_issues [''implementation_plan_path_multi_owner:'' @ js_string path @ '':'' @ js_string owner @ '':'' @ owner_text item] claimed
      else if \<not> truthy owner then claimed\<lparr>in_owners := AList.update path ownerId (in_owners claimed)\<rparr>
      else claimed)"

definition glob_char :: "char \<Rightarrow> bool" where
  "glob_char c \<longleftrightarrow> c \<in> set ''*!?[]{}''"

definition item_criteria :: "jsval \<Rightarrow> jsval list" where
  "item_criteria item = elements (field item ''acceptanceCriteria'')"

definition reuse_criterion_issues :: "plan_view \<Rightarrow> jsval \<Rightarrow> jsval \<Rightarrow> string list" where
  "reuse_criterion_issues pv item criterionId =
     (case map_of (pv_criteria pv) criterionId of
        None \<Rightarrow> []
      | Some criterion \<Rightarrow>
          if criterionId \<notin> set (pv_implementationIds pv) then []
          else
            let verification = verification_text criterion in
            if \<not> criterionVerificationIsCommand pv verification
            then [''implementation_plan_deterministic_reuse_non_executable_criterion:'' @ id_text item @ '':'' @ js_string criterionId]
            else if JStr verification \<notin> set (item_commands item)
            then [''implementation_plan_deterministic_reuse_criterion_validation_missing:'' @ id_text item @ '':'' @ js_string criterionId @ '':''
                    @ json_text (JStr verification)]
            else [])"

definition issue_if :: "bool \<Rightarrow> string \<Rightarrow> string list" where
  "issue_if b message = (if b then [message] else [])"

definition reuse_issues :: "plan_view \<Rightarrow> jsval \<Rightarrow> string list" where
  "reuse_issues pv item =
     (if coalesce (field item ''executionMode'') (JStr ''agent'') = JStr ''deterministic-reuse'' then
        issue_if (field item ''contractChange'' = JBool True) (''implementation_plan_deterministic_reuse_contract_change:'' @ id_text item)
        @ issue_if (field item ''migration'' = JBool True) (''implementation_plan_deterministic_reuse_migration:'' @ id_text item)
        @ issue_if (coalesce (field item ''validationExecutionScope'') (JStr ''workspace'') \<noteq> JStr ''workspace'')
            (''implementation_plan_deterministic_reuse_scope:'' @ id_text item)
        @ issue_if (item_commands item = []) (''implementation_plan_deterministic_reuse_validation_missing:'' @ id_text item)
        @ map (\<lambda>path. ''implementation_plan_deterministic_reuse_exact_path_required:'' @ id_text item @ '':'' @ js_string path)
            (filter (\<lambda>path. list_ex glob_char (js_string path)) (elements (field item ''ownedPaths'')))
        @ concat (map (reuse_criterion_issues pv item) (item_criteria item))
      else [])"

text \<open>The criteria an item is assigned: whether they exist, and that the item runs the command that verifies them.\<close>

definition criterion_issues :: "plan_view \<Rightarrow> jsval \<Rightarrow> jsval \<Rightarrow> string list" where
  "criterion_issues pv item criterionId =
     (case map_of (pv_criteria pv) criterionId of
        None \<Rightarrow> [''implementation_plan_unknown_criterion:'' @ id_text item @ '':'' @ js_string criterionId]
      | Some criterion \<Rightarrow>
          if criterionId \<notin> set (pv_implementationIds pv) then []
          else
            let verification = verification_text criterion in
            issue_if (criterionVerificationIsCommand pv verification \<and> JStr verification \<notin> set (item_commands item))
              (''implementation_plan_criterion_verification_missing:'' @ id_text item @ '':'' @ js_string criterionId @ '':''
                @ json_text (JStr verification)))"

definition assigned :: "plan_view \<Rightarrow> jsval \<Rightarrow> jsval list" where
  "assigned pv item = filter (\<lambda>i. map_of (pv_criteria pv) i \<noteq> None \<and> i \<in> set (pv_implementationIds pv)) (item_criteria item)"

text \<open>\<open>coverage.get(criterionId) ?? 0\<close>\<close>

definition coverage_of :: "(jsval \<times> nat) list \<Rightarrow> jsval \<Rightarrow> nat" where
  "coverage_of coverage criterionId = (case map_of coverage criterionId of None \<Rightarrow> 0 | Some n \<Rightarrow> n)"

definition cover :: "jsval \<Rightarrow> (jsval \<times> nat) list \<Rightarrow> (jsval \<times> nat) list" where
  "cover criterionId coverage = AList.update criterionId (Suc (coverage_of coverage criterionId)) coverage"

definition inspect_item :: "env \<Rightarrow> registry \<Rightarrow> plan_view \<Rightarrow> jsval \<Rightarrow> inspection \<Rightarrow> inspection" where
  "inspect_item e registry pv item st =
     (let st1 = push_issues (command_issues e pv item @ agent_issues registry item) (note_work_id item st);
          st2 = fold (claim_path registry item) (elements (field item ''ownedPaths'')) st1;
          st3 = push_issues (reuse_issues pv item @ concat (map (criterion_issues pv item) (item_criteria item))
                  @ issue_if (assigned pv item = []) (''implementation_plan_work_item_without_implementation_criterion:'' @ id_text item)) st2 in
      st3\<lparr>in_coverage := fold cover (assigned pv item) (in_coverage st3)\<rparr>)"

record plan_inspection =
  pi_issues :: "string list"
  pi_criteria :: "(jsval \<times> jsval) list"
  pi_pathOwners :: "(jsval \<times> jsval) list"
  pi_implementationCriterionIds :: "jsval list"

definition focused_commands :: "directive option \<Rightarrow> string list" where
  "focused_commands directive =
     (case directive of
        None \<Rightarrow> []
      | Some d \<Rightarrow>
          if dv_mode d = ''focused'' then uniq (filter (\<lambda>c. isExecutableValidationCommand (JStr c)) (map trim (dv_commands d))) else [])"

definition trusted_commands :: "jsval list option \<Rightarrow> string list option" where
  "trusted_commands catalog = map_option (\<lambda>entries. filter (\<lambda>c. c \<noteq> []) (map (\<lambda>entry. compact (field entry ''command'')) entries)) catalog"

definition plan_criteria :: "jsval \<Rightarrow> jsval list" where
  "plan_criteria plan = elements (field plan ''acceptanceCriteria'')"

definition plan_items :: "jsval \<Rightarrow> jsval list" where
  "plan_items plan = elements (field plan ''workItems'')"

definition view_of :: "inspect_options \<Rightarrow> jsval \<Rightarrow> plan_view" where
  "view_of opts plan =
     \<lparr>pv_criteria = map (\<lambda>c. (field c ''id'', c)) (plan_criteria plan),
      pv_implementationIds = uniq (map (\<lambda>c. field c ''id'') (implementationProofCriteria (field plan ''acceptanceCriteria''))),
      pv_focused = focused_commands (io_directive opts), pv_trusted = trusted_commands (io_catalog opts)\<rparr>"

definition unknown_dependencies :: "jsval list \<Rightarrow> jsval \<Rightarrow> string list" where
  "unknown_dependencies workIds item =
     map (\<lambda>d. ''implementation_plan_dependency_unknown:'' @ id_text item @ '':'' @ js_string d)
       (filter (\<lambda>d. d \<notin> set workIds) (item_dependencies item))"

definition uncovered_criteria :: "(jsval \<times> nat) list \<Rightarrow> jsval list \<Rightarrow> string list" where
  "uncovered_criteria coverage criteria =
     map (\<lambda>c. ''implementation_plan_uncovered_criterion:'' @ id_text c)
       (filter (\<lambda>c. field c ''blocking'' \<noteq> JBool False \<and> coverage_of coverage (field c ''id'') = 0) criteria)"

definition focused_missing :: "plan_view \<Rightarrow> jsval list \<Rightarrow> string list" where
  "focused_missing pv items =
     map (\<lambda>c. ''implementation_plan_focused_validation_missing:'' @ json_text (JStr c))
       (filter (\<lambda>c. JStr c \<notin> set (concat (map item_commands items))) (pv_focused pv))"

definition inspect_start :: "jsval \<Rightarrow> inspection" where
  "inspect_start plan =
     \<lparr>in_issues = duplicate_criteria [] (plan_criteria plan), in_workIds = [], in_claimed = [], in_owners = [],
      in_coverage = map (\<lambda>c. (field c ''id'', 0)) (implementationProofCriteria (field plan ''acceptanceCriteria''))\<rparr>"

definition inspect_items :: "env \<Rightarrow> registry \<Rightarrow> inspect_options \<Rightarrow> jsval \<Rightarrow> inspection" where
  "inspect_items e registry opts plan = fold (inspect_item e registry (view_of opts plan)) (plan_items plan) (inspect_start plan)"

definition inspectImplementationPlan :: "env \<Rightarrow> registry \<Rightarrow> inspect_options \<Rightarrow> jsval \<Rightarrow> plan_inspection" where
  "inspectImplementationPlan e registry opts plan =
     (let pv = view_of opts plan; items = plan_items plan; st = inspect_items e registry opts plan in
      \<lparr>pi_issues = uniq (in_issues st @ concat (map (unknown_dependencies (in_workIds st)) items) @ collectCycleIssues items
          @ uncovered_criteria (in_coverage st) (implementationProofCriteria (field plan ''acceptanceCriteria''))
          @ focused_missing pv items),
       pi_criteria = pv_criteria pv, pi_pathOwners = in_owners st, pi_implementationCriterionIds = pv_implementationIds pv\<rparr>)"

definition collectImplementationPlanValidationIssues :: "env \<Rightarrow> registry \<Rightarrow> inspect_options \<Rightarrow> jsval \<Rightarrow> string list" where
  "collectImplementationPlanValidationIssues e registry opts plan =
     pi_issues (inspectImplementationPlan e registry opts (coalesce plan (JObj [(''acceptanceCriteria'', JArr []), (''workItems'', JArr [])])))"

definition validateCoverage :: "env \<Rightarrow> registry \<Rightarrow> inspect_options \<Rightarrow> jsval \<Rightarrow> plan_inspection res" where
  "validateCoverage e registry opts plan =
     (let found = inspectImplementationPlan e registry opts plan in
      bindR (ensure (pi_issues found = []) (''implementation_plan_validation_failed:'' @ join '' | '' (pi_issues found))) (\<lambda>_. Inr found))"

subsection \<open>The compiled tasks\<close>

definition implementation_task_id :: "string \<Rightarrow> jsval \<Rightarrow> string" where
  "implementation_task_id runId itemId = runId @ '':implementation:'' @ slug itemId"

definition assigned_criteria :: "plan_inspection \<Rightarrow> jsval \<Rightarrow> jsval list" where
  "assigned_criteria found item =
     map (\<lambda>i. case map_of (pi_criteria found) i of None \<Rightarrow> JUndef | Some c \<Rightarrow> c)
       (filter (\<lambda>i. i \<in> set (pi_implementationCriterionIds found)) (item_criteria item))"

definition implementationTask :: "registry \<Rightarrow> string \<Rightarrow> jsval \<Rightarrow> plan_inspection \<Rightarrow> jsval \<Rightarrow> jsval \<Rightarrow> obj res" where
  "implementationTask registry runId technicalLeadTaskId found commandAuthority item =
     (let assignedCriteria = assigned_criteria found item; level = levelForComplexity (field item ''complexity'') in
      case registryAgent registry (field item ''ownerAgentId'') of
        None \<Rightarrow> Inl (''implementation_plan_agent_unknown:'' @ owner_text item)
      | Some agent \<Rightarrow>
          let role = coalesce (get agent ''executionRole'') (JStr ''implementation''); sddRole = coalesce (get agent ''role'') (JStr ''developer'') in
          bindR (ensure (texts_include IMPLEMENTATION_EXECUTION_ROLES (get agent ''executionRole''))
                   (''implementation_plan_agent_not_implementer:'' @ owner_text item)) (\<lambda>_.
          bindR (ensure (assignedCriteria \<noteq> []) (''implementation_plan_work_item_without_implementation_criterion:'' @ id_text item)) (\<lambda>_.
          Inr [(''taskId'', JStr (implementation_task_id runId (field item ''id''))), (''agentId'', field item ''ownerAgentId''),
               (''objective'', field item ''objective''),
               (''dependencies'', JArr (uniq (technicalLeadTaskId # map (\<lambda>d. JStr (implementation_task_id runId d)) (item_dependencies item)))),
               (''ownedPaths'', JArr (uniq (elements (field item ''ownedPaths'')))), (''role'', role), (''sddRole'', sddRole),
               (''stage'', JStr ''implementation''), (''workItemId'', field item ''id''), (''reasoningLevel'', level),
               (''acceptanceCriteria'', JArr assignedCriteria), (''validation'', field item ''validation''),
               (''validationCommandIds'', coalesce (field item ''validationCommandIds'') (JArr [])),
               (''commandSpecIds'', coalesce (field item ''commandSpecIds'') (JArr [])), (''commandAuthority'', commandAuthority),
               (''validationExecutionScope'', coalesce (field item ''validationExecutionScope'') (JStr ''workspace'')),
               (''complexity'', field item ''complexity''), (''estimatedFiles'', field item ''estimatedFiles''),
               (''contractChange'', field item ''contractChange''), (''migration'', field item ''migration''),
               (''executionMode'', coalesce (field item ''executionMode'') (JStr ''agent'')),
               (''executionRequirements'', JObj (assign (assign [(''capabilityId'', JStr (''implementation.'' @ js_string (get agent ''id'')))]
                 (modelRequirementsForTask [(''stage'', JStr ''implementation''), (''role'', role), (''sddRole'', sddRole), (''reasoningLevel'', level),
                   (''complexity'', field item ''complexity''), (''contractChange'', field item ''contractChange''),
                   (''migration'', field item ''migration''), (''ownedPaths'', field item ''ownedPaths'')]))
                 [(''modelBinding'', JStr ''runtime-route'')]))])))"

definition runtimeReadinessCriterion :: "string \<Rightarrow> string \<Rightarrow> string \<Rightarrow> jsval" where
  "runtimeReadinessCriterion i statement verification = JObj [(''id'', JStr i), (''source'', JStr ''runtime''), (''statement'', JStr statement),
     (''blocking'', JBool True), (''verification'', JStr verification)]"

text \<open>The arguments that differ between the verification tasks; every caller passes \<open>validation\<close> explicitly.\<close>

record verification =
  vf_stage :: string
  vf_suffix :: string
  vf_objective :: string
  vf_dependencies :: "jsval list"
  vf_criteria :: "jsval list"
  vf_validation :: "jsval list"

definition verification_task_id :: "string \<Rightarrow> verification \<Rightarrow> string" where
  "verification_task_id runId v = runId @ '':'' @ vf_stage v @ (if vf_suffix v \<noteq> [] then '':'' @ vf_suffix v else [])"

definition verificationTask :: "string \<Rightarrow> obj \<Rightarrow> verification \<Rightarrow> obj" where
  "verificationTask runId agent v =
     [(''taskId'', JStr (verification_task_id runId v)), (''agentId'', get agent ''id''), (''objective'', JStr (vf_objective v)),
      (''dependencies'', JArr (uniq (vf_dependencies v))),
      (''ownedPaths'', JArr (uniq (elements (get agent ''primaryPaths'') @ elements (get agent ''collaborativePaths'') @ elements (get agent ''sharedPaths'')))),
      (''role'', JStr ''verification''), (''sddRole'', get agent ''role''), (''stage'', JStr (vf_stage v)),
      (''workItemId'', JStr (runId @ '':'' @ vf_stage v)), (''reasoningLevel'', JStr ''high''), (''acceptanceCriteria'', JArr (vf_criteria v)),
      (''validation'', JArr (vf_validation v)), (''complexity'', JStr ''high''), (''estimatedFiles'', JNum 0), (''contractChange'', JBool False),
      (''migration'', JBool False),
      (''executionRequirements'', JObj (assign (assign [(''capabilityId'', JStr (''verification.'' @ vf_stage v @ ''.'' @ js_string (get agent ''id'')))]
        (modelRequirementsForTask [(''stage'', JStr (vf_stage v)), (''role'', JStr ''verification''), (''sddRole'', get agent ''role''),
          (''reasoningLevel'', JStr ''high''), (''ownedPaths'', coalesce (get agent ''primaryPaths'') (JArr []))]))
        [(''modelBinding'', JStr ''runtime-route'')]))]"

definition task_at_stage :: "jsval list \<Rightarrow> string \<Rightarrow> jsval list" where
  "task_at_stage tasks stage = (case find (\<lambda>t. field t ''stage'' = JStr stage) tasks of None \<Rightarrow> [] | Some t \<Rightarrow> [field t ''taskId''])"

definition EVIDENCE_STAGES :: "string list" where
  "EVIDENCE_STAGES = [''product-discovery'', ''architecture-review'', ''database-review'', ''infrastructure-review'', ''ai-operations-review'']"

text \<open>
  One readiness task, when the workflow asks for it: it depends on quality assurance and on the matching bootstrap review,
  if there was one, and runs no command of its own (\<open>readinessValidation\<close>).
\<close>

definition readiness_for ::
  "obj \<Rightarrow> string \<Rightarrow> string \<Rightarrow> obj option \<Rightarrow> string \<Rightarrow> string \<Rightarrow> string \<Rightarrow> string \<Rightarrow> jsval list \<Rightarrow> obj list res" where
  "readiness_for plan qaTaskId flag agent missing suffix objective reviewStage criteria =
     (if \<not> truthy (field (get plan ''workflow'') flag) then Inr []
      else case agent of
        None \<Rightarrow> Inl missing
      | Some a \<Rightarrow> Inr [verificationTask (js_string (get plan ''runId'')) a
          \<lparr>vf_stage = ''operational-readiness'', vf_suffix = suffix, vf_objective = objective @ js_string (get plan ''request''),
           vf_dependencies = JStr qaTaskId # task_at_stage (elements (get plan ''tasks'')) reviewStage, vf_criteria = criteria, vf_validation = []\<rparr>])"

definition database_readiness :: "obj \<Rightarrow> registry \<Rightarrow> string \<Rightarrow> jsval \<Rightarrow> obj list res" where
  "database_readiness plan registry qaTaskId allCriteria =
     readiness_for plan qaTaskId ''requiresDatabase'' (map_of (rg_byId registry) ''database-administration'') ''database_agent_missing'' ''database''
       ''Prove scoped database readiness or explicitly prove no database impact for: '' ''database-review''
       (databaseReadinessProofCriteria allCriteria @ [runtimeReadinessCriterion ''PROC-DB-READY-1''
          ''Database readiness is explicit for the integrated increment: assigned database criteria pass or scoped no-impact is proven.''
          ''inspect accepted QA evidence and the upstream database review; approve only with database readiness or explicit no-impact evidence''])"

definition infrastructure_readiness :: "obj \<Rightarrow> registry \<Rightarrow> string \<Rightarrow> jsval \<Rightarrow> obj list res" where
  "infrastructure_readiness plan registry qaTaskId allCriteria =
     readiness_for plan qaTaskId ''requiresDevOps'' (map_of (rg_byId registry) ''devops-engineering'') ''devops_agent_missing'' ''devops''
       ''Prove scoped infrastructure readiness or explicitly prove no infrastructure impact for: '' ''infrastructure-review''
       (infrastructureReadinessProofCriteria allCriteria @ [runtimeReadinessCriterion ''PROC-INFRA-READY-1''
          ''Infrastructure readiness is explicit for the integrated increment: assigned infrastructure criteria pass or scoped no-impact is proven.''
          ''inspect accepted QA evidence and the upstream infrastructure review; approve only with deploy/rollback readiness or explicit no-impact evidence''])"

definition ai_readiness :: "obj \<Rightarrow> registry \<Rightarrow> string \<Rightarrow> jsval \<Rightarrow> obj list res" where
  "ai_readiness plan registry qaTaskId allCriteria =
     readiness_for plan qaTaskId ''requiresAiLlmOps'' (map_of (rg_byId registry) ''ai-llmops'') ''ai_llmops_agent_missing'' ''ai-llmops''
       ''Prove scoped AI/ML readiness or explicitly prove no AI/ML impact for: '' ''ai-operations-review''
       (aiReadinessProofCriteria allCriteria @ [runtimeReadinessCriterion ''PROC-AI-READY-1''
          ''AI/ML readiness is explicit for the integrated increment: assigned AI criteria pass or scoped no-impact is proven.''
          ''inspect accepted QA evidence and the upstream AI review; approve only with quality/rollback readiness or explicit no-impact evidence''])"

definition task_id_of :: "obj \<Rightarrow> jsval" where
  "task_id_of task = get task ''taskId''"

definition qa_verification :: "obj \<Rightarrow> jsval \<Rightarrow> obj list \<Rightarrow> verification" where
  "qa_verification plan implementationPlan implementationTasks =
     \<lparr>vf_stage = ''quality-assurance'', vf_suffix = [],
      vf_objective = ''Independently prove every blocking acceptance criterion for: '' @ js_string (get plan ''request''),
      vf_dependencies =
        map (\<lambda>t. field t ''taskId'') (filter (\<lambda>t. texts_include EVIDENCE_STAGES (field t ''stage'')) (elements (get plan ''tasks'')))
        @ field (get plan ''workflow'') ''technicalLeadTaskId'' # map task_id_of implementationTasks,
      vf_criteria = qaProofCriteria (field implementationPlan ''acceptanceCriteria''),
      vf_validation = uniq (concat (map item_commands (plan_items implementationPlan)))\<rparr>"

definition acceptance_verification :: "obj \<Rightarrow> jsval \<Rightarrow> string \<Rightarrow> obj list \<Rightarrow> verification" where
  "acceptance_verification plan implementationPlan qaTaskId readiness =
     \<lparr>vf_stage = ''product-acceptance'', vf_suffix = [],
      vf_objective = ''Accept or reject the increment against every approved product criterion for: '' @ js_string (get plan ''request''),
      vf_dependencies = JStr qaTaskId # map task_id_of readiness, vf_criteria = plan_criteria implementationPlan, vf_validation = []\<rparr>"

definition compiled_plan :: "obj \<Rightarrow> jsval \<Rightarrow> plan_inspection \<Rightarrow> jsval \<Rightarrow> obj list \<Rightarrow> obj" where
  "compiled_plan plan implementationPlan found compiledAt tasks = assign plan
     [(''phase'', JStr ''compiled''),
      (''sharedPathOwner'', JObj (assign (fields_of (get plan ''sharedPathOwner'')) (map (\<lambda>(k, v). (js_string k, v)) (pi_pathOwners found)))),
      (''workflow'', JObj (assign (fields_of (get plan ''workflow''))
         [(''implementationPlanRevision'', field implementationPlan ''revision''), (''compiledAt'', compiledAt)])),
      (''tasks'', JArr (elements (get plan ''tasks'') @ map JObj tasks))]"

text \<open>
  The compiler. The result holds the tasks of the plan it was given, one task per work item, the quality assurance task,
  the readiness tasks and product acceptance. \<open>now\<close> is the clock reading used when \<open>compiledAt\<close> is not given.
\<close>

definition compileImplementationDag ::
  "env \<Rightarrow> (string \<Rightarrow> string \<Rightarrow> bool) \<Rightarrow> registry \<Rightarrow> obj \<Rightarrow> jsval \<Rightarrow> jsval \<Rightarrow> jsval \<Rightarrow> string \<Rightarrow> jsval \<Rightarrow> obj res" where
  "compileImplementationDag e regexp registry plan technicalLeadHandoff schemas requiredAcceptanceCriteria now compiledAt =
     bindR (ensure (truthy (field technicalLeadHandoff ''implementationPlan'')) ''technical_lead_implementation_plan_missing'') (\<lambda>_.
     let implementationPlan = ca_plan (canonicalizeImplementationPlanAcceptanceCriteria
           (field technicalLeadHandoff ''implementationPlan'') requiredAcceptanceCriteria);
         runId = js_string (get plan ''runId''); workflow = get plan ''workflow''; allCriteria = field implementationPlan ''acceptanceCriteria'' in
     bindR (assertSchema e regexp implementationPlan (field schemas ''implementationPlan'') ''implementationPlan'') (\<lambda>_.
     bindR (validateCoverage e registry
              \<lparr>io_directive = Some (implementationValidationDirectiveFromRequest (get plan ''request'')), io_catalog = None\<rparr> implementationPlan) (\<lambda>found.
     bindR (mapR (implementationTask registry runId (field workflow ''technicalLeadTaskId'') found (coalesce (field implementationPlan ''commandAuthority'') JNull))
              (plan_items implementationPlan)) (\<lambda>implementationTasks.
     case (registryAgent registry (field workflow ''qualityAgentId''), map_of (rg_byId registry) ''product-owner'') of
       (Some qa, Some productOwner) \<Rightarrow>
         (let v = qa_verification plan implementationPlan implementationTasks; qaTaskId = verification_task_id runId v in
          bindR (database_readiness plan registry qaTaskId allCriteria) (\<lambda>database.
          bindR (infrastructure_readiness plan registry qaTaskId allCriteria) (\<lambda>devOps.
          bindR (ai_readiness plan registry qaTaskId allCriteria) (\<lambda>aiLlmOps.
          let readiness = database @ devOps @ aiLlmOps;
              compiled = compiled_plan plan implementationPlan found (coalesce compiledAt (JStr now))
                (implementationTasks @ verificationTask runId qa v # readiness
                 @ [verificationTask runId productOwner (acceptance_verification plan implementationPlan qaTaskId readiness)]) in
          bindR (assertSchema e regexp (JObj compiled) (field schemas ''executionPlan'') ''executionPlan'') (\<lambda>_. Inr compiled)))))
     | _ \<Rightarrow> Inl ''compiled_dag_process_agent_missing''))))"

end
