(* ===== verification/DagCompilerProps.thy ===== *)
theory DagCompilerProps
  imports DagCompiler
begin

text \<open>
  Properties of the plan compiler: what an accepted implementation plan satisfies, the shape of the compiled task graph,
  and a plan that is accepted although two of its work items become the same task.
\<close>

subsection \<open>The inspection of one item\<close>

lemma push_issues_simps [simp]:
  "in_issues (push_issues xs st) = in_issues st @ xs" "in_workIds (push_issues xs st) = in_workIds st"
  "in_claimed (push_issues xs st) = in_claimed st" "in_owners (push_issues xs st) = in_owners st"
  "in_coverage (push_issues xs st) = in_coverage st"
  by (simp_all add: push_issues_def)

lemma issue_if_Nil [simp]: "issue_if b m = [] \<longleftrightarrow> \<not> b"
  by (simp add: issue_if_def)

lemma note_work_id_facts:
  "in_issues (note_work_id item st) = [] \<longleftrightarrow> in_issues st = [] \<and> field item ''id'' \<notin> set (in_workIds st)"
  "field item ''id'' \<notin> set (in_workIds st) \<Longrightarrow> in_workIds (note_work_id item st) = in_workIds st @ [field item ''id'']"
  "in_claimed (note_work_id item st) = in_claimed st" "in_coverage (note_work_id item st) = in_coverage st"
  by (simp_all add: note_work_id_def)

text \<open>Ownership of one path: the owner's agent may own it and nobody else claimed an overlapping one.\<close>

definition path_free :: "registry \<Rightarrow> jsval \<Rightarrow> (jsval \<times> jsval) list \<Rightarrow> jsval \<Rightarrow> bool" where
  "path_free registry item claimed path \<longleftrightarrow>
     (\<forall>agent. registryAgent registry (field item ''ownerAgentId'') = Some agent \<longrightarrow> agentCanOwnPath registry agent (js_string path))
     \<and> (\<forall>(p, held) \<in> set claimed. held \<noteq> field item ''ownerAgentId'' \<longrightarrow> \<not> patternsMayOverlap (js_string p) (js_string path))"

lemma claim_path_facts:
  "in_issues (claim_path registry item path st) = [] \<Longrightarrow> in_issues st = [] \<and> path_free registry item (in_claimed st) path"
  "in_claimed (claim_path registry item path st) = in_claimed st @ [(path, field item ''ownerAgentId'')]"
  "in_workIds (claim_path registry item path st) = in_workIds st" "in_coverage (claim_path registry item path st) = in_coverage st"
  by (auto simp: claim_path_def path_free_def Let_def filter_empty_conv split: if_splits option.splits)

lemma claim_paths_facts:
  "in_claimed (fold (claim_path registry item) paths st) = in_claimed st @ map (\<lambda>p. (p, field item ''ownerAgentId'')) paths"
  "in_workIds (fold (claim_path registry item) paths st) = in_workIds st"
  "in_coverage (fold (claim_path registry item) paths st) = in_coverage st"
  by (induction paths arbitrary: st) (simp_all add: claim_path_facts)

lemma path_free_mono: "path_free registry item claimed path \<Longrightarrow> set claimed' \<subseteq> set claimed \<Longrightarrow> path_free registry item claimed' path"
  unfolding path_free_def by blast

lemma claim_paths_clean:
  "in_issues (fold (claim_path registry item) paths st) = []
    \<Longrightarrow> in_issues st = [] \<and> (\<forall>path \<in> set paths. path_free registry item (in_claimed st) path)"
proof (induction paths arbitrary: st)
  case (Cons path paths)
  let ?next = "claim_path registry item path st"
  from Cons.prems have "in_issues (fold (claim_path registry item) paths ?next) = []" by simp
  from Cons.IH[OF this] have next_ok: "in_issues ?next = []" "\<forall>q \<in> set paths. path_free registry item (in_claimed ?next) q" by blast+
  from next_ok(2) have "\<forall>q \<in> set paths. path_free registry item (in_claimed st) q"
    by (auto simp: claim_path_facts intro: path_free_mono)
  with claim_path_facts(1)[OF next_ok(1)] show ?case by simp
qed simp

text \<open>An item nothing was reported about.\<close>

definition item_clean :: "env \<Rightarrow> registry \<Rightarrow> plan_view \<Rightarrow> (jsval \<times> jsval) list \<Rightarrow> jsval \<Rightarrow> bool" where
  "item_clean e registry pv claimed item \<longleftrightarrow>
     command_issues e pv item = [] \<and> agent_issues registry item = [] \<and> reuse_issues pv item = []
     \<and> (\<forall>i \<in> set (item_criteria item). criterion_issues pv item i = []) \<and> assigned pv item \<noteq> []
     \<and> (\<forall>path \<in> set (elements (field item ''ownedPaths'')). path_free registry item claimed path)"

lemma inspect_item_clean:
  assumes "in_issues (inspect_item e registry pv item st) = []"
  shows "in_issues st = [] \<and> field item ''id'' \<notin> set (in_workIds st) \<and> item_clean e registry pv (in_claimed st) item"
proof -
  let ?st1 = "push_issues (command_issues e pv item @ agent_issues registry item) (note_work_id item st)"
  have "in_issues (fold (claim_path registry item) (elements (field item ''ownedPaths'')) ?st1) = []"
    using assms by (simp add: inspect_item_def Let_def)
  note paths = claim_paths_clean[OF this]
  with assms show ?thesis
    by (auto simp: inspect_item_def Let_def item_clean_def note_work_id_facts)
qed

definition owned_pairs :: "jsval \<Rightarrow> (jsval \<times> jsval) list" where
  "owned_pairs item = map (\<lambda>p. (p, field item ''ownerAgentId'')) (elements (field item ''ownedPaths''))"

lemma inspect_item_state:
  "in_claimed (inspect_item e registry pv item st) = in_claimed st @ owned_pairs item"
  "field item ''id'' \<notin> set (in_workIds st) \<Longrightarrow> in_workIds (inspect_item e registry pv item st) = in_workIds st @ [field item ''id'']"
  "in_coverage (inspect_item e registry pv item st) = fold cover (assigned pv item) (in_coverage st)"
  by (simp_all add: inspect_item_def Let_def claim_paths_facts note_work_id_facts owned_pairs_def)

subsection \<open>The inspection of all items\<close>

text \<open>The items are clean one after the other, each against the paths claimed before it.\<close>

fun items_clean :: "env \<Rightarrow> registry \<Rightarrow> plan_view \<Rightarrow> (jsval \<times> jsval) list \<Rightarrow> jsval list \<Rightarrow> bool" where
  "items_clean e registry pv claimed [] \<longleftrightarrow> True"
| "items_clean e registry pv claimed (item # items) \<longleftrightarrow>
     item_clean e registry pv claimed item \<and> items_clean e registry pv (claimed @ owned_pairs item) items"

lemma inspect_all_clean:
  assumes "in_issues (fold (inspect_item e registry pv) items st) = []" and "distinct (in_workIds st)"
  shows "in_issues st = [] \<and> items_clean e registry pv (in_claimed st) items
    \<and> in_workIds (fold (inspect_item e registry pv) items st) = in_workIds st @ map (\<lambda>item. field item ''id'') items
    \<and> distinct (in_workIds st @ map (\<lambda>item. field item ''id'') items)"
  using assms
proof (induction items arbitrary: st)
  case (Cons item items)
  let ?next = "inspect_item e registry pv item st"
  have rest: "in_issues (fold (inspect_item e registry pv) items ?next) = []" using Cons.prems(1) by simp
  have "in_issues ?next = []"
  proof -
    have "in_issues st' = []" if "in_issues (fold (inspect_item e registry pv) xs st') = []" for xs st'
      using that by (induction xs arbitrary: st') (auto dest: inspect_item_clean)
    with rest show ?thesis by blast
  qed
  note now = inspect_item_clean[OF this]
  then have ids: "in_workIds ?next = in_workIds st @ [field item ''id'']" by (simp add: inspect_item_state)
  with now Cons.prems(2) have "distinct (in_workIds ?next)" by simp
  from Cons.IH[OF rest this] now ids show ?case by (simp add: inspect_item_state)
qed simp

lemma fold_cover_count: "coverage_of (fold cover ids coverage) j = coverage_of coverage j + count_list ids j"
  by (induction ids arbitrary: coverage) (auto simp: coverage_of_def cover_def)

lemma inspect_all_coverage:
  "coverage_of (in_coverage (fold (inspect_item e registry pv) items st)) j
     = coverage_of (in_coverage st) j + sum_list (map (\<lambda>item. count_list (assigned pv item) j) items)"
  by (induction items arbitrary: st) (simp_all add: inspect_item_state fold_cover_count)

lemma overlap_sym: "patternsMayOverlap a b = patternsMayOverlap b a"
  by (auto simp: patternsMayOverlap_def)

lemma items_clean_paths:
  assumes "items_clean e registry pv claimed items" and "item \<in> set items"
  shows "item_clean e registry pv claimed item"
  using assms
proof (induction items arbitrary: claimed)
  case (Cons x items)
  show ?case
  proof (cases "item = x")
    case False
    with Cons have "item_clean e registry pv (claimed @ owned_pairs x) item" by auto
    then show ?thesis by (auto simp: item_clean_def intro: path_free_mono)
  qed (use Cons in simp)
qed simp

text \<open>Paths of items with different owners do not overlap.\<close>

definition separate :: "jsval \<Rightarrow> jsval \<Rightarrow> bool" where
  "separate item item' \<longleftrightarrow> (field item ''ownerAgentId'' \<noteq> field item' ''ownerAgentId'' \<longrightarrow>
     (\<forall>p \<in> set (elements (field item ''ownedPaths'')). \<forall>q \<in> set (elements (field item' ''ownedPaths'')).
        \<not> patternsMayOverlap (js_string p) (js_string q)))"

lemma separate_sym: "separate item item' = separate item' item"
  unfolding separate_def using overlap_sym by metis

lemma items_clean_separate:
  "items_clean e registry pv claimed items \<Longrightarrow> \<forall>item \<in> set items. \<forall>item' \<in> set items. separate item item'"
proof (induction items arbitrary: claimed)
  case (Cons x items)
  have later: "separate x y" if "y \<in> set items" for y
  proof -
    from Cons.prems that have "item_clean e registry pv (claimed @ owned_pairs x) y" by (auto intro: items_clean_paths)
    then show ?thesis by (fastforce simp: item_clean_def path_free_def owned_pairs_def separate_def)
  qed
  have self: "separate x x" by (simp add: separate_def)
  from Cons.prems have "items_clean e registry pv (claimed @ owned_pairs x) items" by simp
  from Cons.IH[OF this] later self separate_sym show ?case by auto
qed simp

subsection \<open>Accepted plans\<close>

lemma scope_issue_None:
  "validationScopeCompatibilityIssue (JStr ''implementation'') declared command = None
    \<Longrightarrow> classifyValidationExecutionScope command = ''workspace''"
proof -
  have "toLowerCase (compact (JStr ''implementation'')) = ''implementation''" by code_simp
  then show "validationScopeCompatibilityIssue (JStr ''implementation'') declared command = None
    \<Longrightarrow> classifyValidationExecutionScope command = ''workspace''"
    by (simp add: validationScopeCompatibilityIssue_def Let_def split: if_splits)
qed

lemma clean_commands:
  assumes "command_issues e pv item = []" and "command \<in> set (item_commands item)"
  shows "isExecutableValidationCommand command \<and> classifyValidationExecutionScope command = ''workspace''"
proof -
  obtain xs where xs: "field item ''validation'' = JArr xs" "command \<in> set xs"
    using assms(2) by (cases "field item ''validation''") (auto simp: item_commands_def)
  have "invalidValidationCommands (JArr xs) = []" using assms(1) xs(1) by (simp add: command_issues_def)
  with xs(2) have "isExecutableValidationCommand command" by (simp add: invalid_Nil list_all_iff)
  moreover have "\<forall>p \<in> set (enumerate 0 xs). validationScopeCompatibilityIssue (JStr ''implementation'')
      (coalesce (field item ''validationExecutionScope'') (JStr ''workspace'')) (snd p) = None"
    using assms(1) xs(1) by (auto simp: command_issues_def item_commands_def split_beta split: option.splits)
  then have "\<forall>c \<in> set xs. validationScopeCompatibilityIssue (JStr ''implementation'')
      (coalesce (field item ''validationExecutionScope'') (JStr ''workspace'')) c = None" by (rule ball_enumerate[THEN iffD1])
  then have "\<forall>c \<in> set xs. classifyValidationExecutionScope c = ''workspace''" using scope_issue_None by blast
  ultimately show ?thesis using xs(2) by blast
qed

lemma clean_agent:
  assumes "item_clean e registry pv claimed item"
  shows "\<exists>agent. registryAgent registry (field item ''ownerAgentId'') = Some agent
    \<and> texts_include IMPLEMENTATION_EXECUTION_ROLES (get agent ''executionRole'')
    \<and> (\<forall>path \<in> set (elements (field item ''ownedPaths'')). agentCanOwnPath registry agent (js_string path))"
  using assms by (auto simp: item_clean_def path_free_def agent_issues_def split: option.splits if_splits)

lemma uncovered_Nil:
  assumes "uncovered_criteria coverage criteria = []" and "c \<in> set criteria" and "field c ''blocking'' \<noteq> JBool False"
  shows "coverage_of coverage (field c ''id'') \<noteq> 0"
  using assms by (auto simp: uncovered_criteria_def filter_empty_conv)

lemma inspect_start_simps: "in_workIds (inspect_start plan) = []" "in_claimed (inspect_start plan) = []"
  by (simp_all add: inspect_start_def)

lemma initial_coverage: "coverage_of (map (\<lambda>c. (field c ''id'', 0)) criteria) i = 0"
  by (induction criteria) (auto simp: coverage_of_def)

lemma accepted_coverage:
  assumes "uncovered_criteria (in_coverage (inspect_items e registry opts plan)) (implementationProofCriteria (field plan ''acceptanceCriteria'')) = []"
    and "c \<in> set (implementationProofCriteria (field plan ''acceptanceCriteria''))" and "field c ''blocking'' \<noteq> JBool False"
  shows "\<exists>item \<in> set (plan_items plan). field c ''id'' \<in> set (assigned (view_of opts plan) item)"
proof (rule ccontr)
  assume "\<not> ?thesis"
  then have "map (\<lambda>item. count_list (assigned (view_of opts plan) item) (field c ''id'')) (plan_items plan) = map (\<lambda>_. 0) (plan_items plan)"
    by (auto intro: count_notin)
  then have "coverage_of (in_coverage (inspect_items e registry opts plan)) (field c ''id'') = 0"
    unfolding inspect_items_def inspect_all_coverage by (simp add: initial_coverage inspect_start_def)
  with uncovered_Nil[OF assms] show False by simp
qed

text \<open>C17: an accepted implementation plan is sound. When the inspection finds nothing to report, the work items have
  distinct identifiers and depend only on each other, without a cycle; every blocking criterion that implementation has to
  prove is assigned to an item; every item belongs to a registered implementation agent that may own each of its paths; paths
  of items with different owners do not overlap; and every validation command is a single executable command that
  needs no more than the workspace.\<close>

theorem accepted_plan_sound:
  assumes "pi_issues (inspectImplementationPlan e registry opts plan) = []"
  shows "distinct (map (\<lambda>item. field item ''id'') (plan_items plan))
    \<and> (\<forall>item \<in> set (plan_items plan). set (item_dependencies item) \<subseteq> (\<lambda>item. field item ''id'') ` set (plan_items plan))
    \<and> acyclic (work_arcs (items_by_id (plan_items plan)))
    \<and> (\<forall>c \<in> set (implementationProofCriteria (field plan ''acceptanceCriteria'')). field c ''blocking'' \<noteq> JBool False \<longrightarrow>
         (\<exists>item \<in> set (plan_items plan). field c ''id'' \<in> set (item_criteria item)))
    \<and> (\<forall>item \<in> set (plan_items plan).
         (\<exists>agent. registryAgent registry (field item ''ownerAgentId'') = Some agent
            \<and> texts_include IMPLEMENTATION_EXECUTION_ROLES (get agent ''executionRole'')
            \<and> (\<forall>path \<in> set (elements (field item ''ownedPaths'')). agentCanOwnPath registry agent (js_string path)))
         \<and> (\<forall>command \<in> set (item_commands item).
              isExecutableValidationCommand command \<and> classifyValidationExecutionScope command = ''workspace''))
    \<and> (\<forall>item \<in> set (plan_items plan). \<forall>item' \<in> set (plan_items plan). separate item item')"
proof -
  let ?pv = "view_of opts plan" and ?st = "inspect_items e registry opts plan"
  have parts: "in_issues ?st = []" "concat (map (unknown_dependencies (in_workIds ?st)) (plan_items plan)) = []"
      "collectCycleIssues (plan_items plan) = []"
      "uncovered_criteria (in_coverage ?st) (implementationProofCriteria (field plan ''acceptanceCriteria'')) = []"
    using assms by (simp_all add: inspectImplementationPlan_def Let_def)
  have clean: "items_clean e registry ?pv [] (plan_items plan)"
    and ids: "in_workIds ?st = map (\<lambda>item. field item ''id'') (plan_items plan)"
    and dist: "distinct (map (\<lambda>item. field item ''id'') (plan_items plan))"
    using inspect_all_clean[OF parts(1)[unfolded inspect_items_def]] inspect_start_simps[of plan] unfolding inspect_items_def by simp_all
  have deps: "\<forall>item \<in> set (plan_items plan). set (item_dependencies item) \<subseteq> (\<lambda>item. field item ''id'') ` set (plan_items plan)"
    using parts(2) by (auto simp: unknown_dependencies_def filter_empty_conv ids)
  have covered: "\<exists>item \<in> set (plan_items plan). field c ''id'' \<in> set (item_criteria item)"
    if "c \<in> set (implementationProofCriteria (field plan ''acceptanceCriteria''))" "field c ''blocking'' \<noteq> JBool False" for c
    using accepted_coverage[OF parts(4) that] by (auto simp: assigned_def)
  have item: "item_clean e registry ?pv [] item" if "item \<in> set (plan_items plan)" for item
    using items_clean_paths[OF clean that] .
  have commands: "isExecutableValidationCommand command \<and> classifyValidationExecutionScope command = ''workspace''"
    if "item \<in> set (plan_items plan)" "command \<in> set (item_commands item)" for item command
    using clean_commands[of e ?pv item command] item[OF that(1)] that(2) by (simp add: item_clean_def)
  show ?thesis
    using dist deps parts(3)[unfolded plan_cycles_iff] covered clean_agent[OF item] commands items_clean_separate[OF clean]
    by (intro conjI) blast+
qed

definition sample_team :: registry where
  "sample_team =
     (let agent = (\<lambda>i role. [(''id'', JStr i), (''executionRole'', JStr role), (''primaryPaths'', JArr [JStr ''src/**''])]);
          agents = [agent ''dev'' ''implementation'', agent ''qa'' ''verification'', agent ''product-owner'' ''verification''] in
      \<lparr>rg_orchestrator = ''main'', rg_agents = agents, rg_byId = map (\<lambda>a. (js_string (get a ''id''), a)) agents, rg_workflow = JNull\<rparr>)"

definition sample_item :: "string \<Rightarrow> string list \<Rightarrow> jsval" where
  "sample_item i deps = JObj [(''id'', JStr i), (''ownerAgentId'', JStr ''dev''), (''dependencies'', JArr (map JStr deps)),
     (''ownedPaths'', JArr [JStr ''src/a.js'']), (''acceptanceCriteria'', JArr [JStr ''AC-1'']), (''validation'', JArr [JStr ''npm test''])]"

definition sample_plan :: "jsval list \<Rightarrow> jsval" where
  "sample_plan items = JObj [(''revision'', JNum 1),
     (''acceptanceCriteria'', JArr [JObj [(''id'', JStr ''AC-1''), (''proofStage'', JStr ''implementation''), (''verification'', JStr ''npm test'')]]),
     (''workItems'', JArr items)]"

definition no_directive :: inspect_options where
  "no_directive = \<lparr>io_directive = None, io_catalog = None\<rparr>"

theorem accepted_plan_sound_witness:
  "pi_issues (inspectImplementationPlan sample_env sample_team no_directive (sample_plan [sample_item ''one'' [], sample_item ''two'' [''one'']])) = []
   \<and> acyclic (work_arcs (items_by_id (plan_items (sample_plan [sample_item ''one'' [], sample_item ''two'' [''one'']]))))"
proof -
  have "pi_issues (inspectImplementationPlan sample_env sample_team no_directive (sample_plan [sample_item ''one'' [], sample_item ''two'' [''one'']])) = []"
    by code_simp
  with accepted_plan_sound[OF this] show ?thesis by blast
qed

subsection \<open>The compiled graph\<close>

definition dependencies_of :: "obj \<Rightarrow> jsval set" where
  "dependencies_of task = set (elements (get task ''dependencies''))"

lemma verification_task_get:
  "get (verificationTask runId agent v) ''dependencies'' = JArr (uniq (vf_dependencies v))"
  "get (verificationTask runId agent v) ''taskId'' = JStr (verification_task_id runId v)"
  "get (verificationTask runId agent v) ''acceptanceCriteria'' = JArr (vf_criteria v)"
  by (simp_all add: verificationTask_def)

lemma implementation_task_get:
  assumes "implementationTask registry runId lead found auth item = Inr task"
  shows "get task ''taskId'' = JStr (implementation_task_id runId (field item ''id''))"
    and "dependencies_of task = insert lead ((\<lambda>d. JStr (implementation_task_id runId d)) ` set (item_dependencies item))"
    and "get task ''acceptanceCriteria'' = JArr (assigned_criteria found item)"
  using assms unfolding implementationTask_def Let_def dependencies_of_def
  by (auto simp: bindR_Inr split: option.splits)

lemma readiness_after_qa:
  assumes "readiness_for plan qaTaskId flag agent missing suffix objective reviewStage criteria = Inr tasks" and "task \<in> set tasks"
  shows "JStr qaTaskId \<in> dependencies_of task"
  using assms by (auto simp: readiness_for_def dependencies_of_def verification_task_get split: if_splits option.splits)

lemmas readiness_groups = database_readiness_def infrastructure_readiness_def ai_readiness_def

lemma duplicate_criteria_Nil: "duplicate_criteria seen cs = [] \<Longrightarrow> distinct (map (\<lambda>c. field c ''id'') cs) \<and> set seen \<inter> (\<lambda>c. field c ''id'') ` set cs = {}"
  by (induction seen cs rule: duplicate_criteria.induct) (auto split: if_splits)

lemma inspect_issues_start: "in_issues (fold (inspect_item e registry pv) items st) = [] \<Longrightarrow> in_issues st = []"
  by (induction items arbitrary: st) (auto dest: inspect_item_clean)

text \<open>In an accepted plan every blocking implementation criterion is among those its items carry into their tasks.\<close>

lemma accepted_criterion_carried:
  assumes "pi_issues (inspectImplementationPlan e registry opts plan) = []"
    and "c \<in> set (implementationProofCriteria (field plan ''acceptanceCriteria''))" and "field c ''blocking'' \<noteq> JBool False"
  shows "\<exists>item \<in> set (plan_items plan). c \<in> set (assigned_criteria (inspectImplementationPlan e registry opts plan) item)"
proof -
  have parts: "in_issues (inspect_items e registry opts plan) = []"
      "uncovered_criteria (in_coverage (inspect_items e registry opts plan)) (implementationProofCriteria (field plan ''acceptanceCriteria'')) = []"
    using assms(1) by (simp_all add: inspectImplementationPlan_def Let_def)
  from parts(1) have "duplicate_criteria [] (plan_criteria plan) = []"
    unfolding inspect_items_def by (auto dest: inspect_issues_start simp: inspect_start_def)
  then have dist: "distinct (map fst (map (\<lambda>c. (field c ''id'', c)) (plan_criteria plan)))"
    by (auto dest: duplicate_criteria_Nil simp: comp_def)
  have "c \<in> set (plan_criteria plan)"
    using assms(2) by (simp add: implementationProofCriteria_def criteriaForProofStages_def plan_criteria_def)
  then have lookup: "map_of (map (\<lambda>c. (field c ''id'', c)) (plan_criteria plan)) (field c ''id'') = Some c"
    by (intro map_of_is_SomeI[OF dist]) auto
  obtain item where item: "item \<in> set (plan_items plan)" "field c ''id'' \<in> set (assigned (view_of opts plan) item)"
    using accepted_coverage[OF parts(2) assms(2,3)] by blast
  have "c \<in> set (assigned_criteria (inspectImplementationPlan e registry opts plan) item)"
    using item(2) lookup
    by (force simp: assigned_def assigned_criteria_def inspectImplementationPlan_def Let_def view_of_def)
  with item(1) show ?thesis by blast
qed

lemma compiled_tasks:
  "get (compiled_plan plan implementationPlan found compiledAt tasks) ''tasks'' = JArr (elements (get plan ''tasks'') @ map JObj tasks)"
  by (simp add: compiled_plan_def)

lemma compile_parts:
  assumes "compileImplementationDag e regexp registry plan handoff schemas required now compiledAt = Inr compiled"
    and "implementationPlan = ca_plan (canonicalizeImplementationPlanAcceptanceCriteria (field handoff ''implementationPlan'') required)"
    and "opts = \<lparr>io_directive = Some (implementationValidationDirectiveFromRequest (get plan ''request'')), io_catalog = None\<rparr>"
  shows "\<exists>impl qa productOwner v readiness.
    pi_issues (inspectImplementationPlan e registry opts implementationPlan) = []
    \<and> mapR (implementationTask registry (js_string (get plan ''runId'')) (field (get plan ''workflow'') ''technicalLeadTaskId'')
         (inspectImplementationPlan e registry opts implementationPlan) (coalesce (field implementationPlan ''commandAuthority'') JNull))
         (plan_items implementationPlan) = Inr impl
    \<and> v = qa_verification plan implementationPlan impl
    \<and> (\<forall>task \<in> set readiness. JStr (verification_task_id (js_string (get plan ''runId'')) v) \<in> dependencies_of task)
    \<and> get compiled ''tasks'' = JArr (elements (get plan ''tasks'') @ map JObj (impl @ verificationTask (js_string (get plan ''runId'')) qa v # readiness
         @ [verificationTask (js_string (get plan ''runId'')) productOwner
              (acceptance_verification plan implementationPlan (verification_task_id (js_string (get plan ''runId'')) v) readiness)]))"
proof -
  let ?runId = "js_string (get plan ''runId'')" and ?all = "field implementationPlan ''acceptanceCriteria''"
  note run = assms(1)[unfolded compileImplementationDag_def Let_def assms(2)[symmetric] assms(3)[symmetric]]
  obtain qa productOwner where agents: "registryAgent registry (field (get plan ''workflow'') ''qualityAgentId'') = Some qa"
      "map_of (rg_byId registry) ''product-owner'' = Some productOwner"
    using run by (cases "registryAgent registry (field (get plan ''workflow'') ''qualityAgentId'')";
        cases "map_of (rg_byId registry) ''product-owner''") (auto simp: bindR_Inr)
  obtain found impl database devOps aiLlmOps where
    found: "validateCoverage e registry opts implementationPlan = Inr found"
    and impl: "mapR (implementationTask registry ?runId (field (get plan ''workflow'') ''technicalLeadTaskId'') found
       (coalesce (field implementationPlan ''commandAuthority'') JNull)) (plan_items implementationPlan) = Inr impl"
    and ready: "database_readiness plan registry (verification_task_id ?runId (qa_verification plan implementationPlan impl)) ?all = Inr database"
       "infrastructure_readiness plan registry (verification_task_id ?runId (qa_verification plan implementationPlan impl)) ?all = Inr devOps"
       "ai_readiness plan registry (verification_task_id ?runId (qa_verification plan implementationPlan impl)) ?all = Inr aiLlmOps"
    and compiled: "compiled = compiled_plan plan implementationPlan found (coalesce compiledAt (JStr now))
       (impl @ verificationTask ?runId qa (qa_verification plan implementationPlan impl) # (database @ devOps @ aiLlmOps)
        @ [verificationTask ?runId productOwner (acceptance_verification plan implementationPlan
             (verification_task_id ?runId (qa_verification plan implementationPlan impl)) (database @ devOps @ aiLlmOps))])"
    using run agents by (auto simp: bindR_Inr)
  have "found = inspectImplementationPlan e registry opts implementationPlan"
    "pi_issues (inspectImplementationPlan e registry opts implementationPlan) = []"
    using found by (auto simp: validateCoverage_def Let_def bindR_Inr)
  moreover have "\<forall>task \<in> set (database @ devOps @ aiLlmOps).
      JStr (verification_task_id ?runId (qa_verification plan implementationPlan impl)) \<in> dependencies_of task"
    using ready[unfolded readiness_groups] by (auto dest: readiness_after_qa)
  ultimately show ?thesis
    using impl compiled
    by (intro exI[of _ impl] exI[of _ qa] exI[of _ productOwner] exI[of _ "qa_verification plan implementationPlan impl"]
        exI[of _ "database @ devOps @ aiLlmOps"]) (simp add: compiled_tasks)
qed

text \<open>C16: the compiled graph proves what it has to, in order. A successful compilation appends to the tasks of the plan one task per
  work item, quality assurance, the readiness tasks and product acceptance. The task of an item depends on technical
  refinement and on the tasks of the items it depends on; quality assurance depends on every implementation task, every readiness
  task on quality assurance, and acceptance on quality assurance and all readiness tasks, with every criterion of the
  plan. Every blocking criterion that implementation has to prove is carried by an implementation task.\<close>

theorem compiled_dag_complete:
  assumes "compileImplementationDag e regexp registry plan handoff schemas required now compiledAt = Inr compiled"
    and "implementationPlan = ca_plan (canonicalizeImplementationPlanAcceptanceCriteria (field handoff ''implementationPlan'') required)"
  shows "\<exists>impl qa readiness acceptance.
    get compiled ''tasks'' = JArr (elements (get plan ''tasks'') @ map JObj (impl @ qa # readiness @ [acceptance]))
    \<and> list_all2 (\<lambda>item task.
         get task ''taskId'' = JStr (implementation_task_id (js_string (get plan ''runId'')) (field item ''id''))
         \<and> dependencies_of task = insert (field (get plan ''workflow'') ''technicalLeadTaskId'')
              ((\<lambda>d. JStr (implementation_task_id (js_string (get plan ''runId'')) d)) ` set (item_dependencies item)))
         (plan_items implementationPlan) impl
    \<and> (\<forall>task \<in> set impl. get task ''taskId'' \<in> dependencies_of qa)
    \<and> (\<forall>task \<in> set readiness. get qa ''taskId'' \<in> dependencies_of task)
    \<and> dependencies_of acceptance = insert (get qa ''taskId'') ((\<lambda>task. get task ''taskId'') ` set readiness)
    \<and> get acceptance ''acceptanceCriteria'' = JArr (plan_criteria implementationPlan)
    \<and> (\<forall>c \<in> set (implementationProofCriteria (field implementationPlan ''acceptanceCriteria'')). field c ''blocking'' \<noteq> JBool False \<longrightarrow>
         (\<exists>task \<in> set impl. c \<in> set (elements (get task ''acceptanceCriteria''))))"
proof -
  define opts where "opts = \<lparr>io_directive = Some (implementationValidationDirectiveFromRequest (get plan ''request'')), io_catalog = None\<rparr>"
  define found where "found = inspectImplementationPlan e registry opts implementationPlan"
  let ?runId = "js_string (get plan ''runId'')" and ?lead = "field (get plan ''workflow'') ''technicalLeadTaskId''"
  obtain impl qa productOwner v readiness where
    ok: "pi_issues found = []"
    and impl: "mapR (implementationTask registry ?runId ?lead found (coalesce (field implementationPlan ''commandAuthority'') JNull))
         (plan_items implementationPlan) = Inr impl"
    and v: "v = qa_verification plan implementationPlan impl"
    and ready: "\<forall>task \<in> set readiness. JStr (verification_task_id ?runId v) \<in> dependencies_of task"
    and tasks: "get compiled ''tasks'' = JArr (elements (get plan ''tasks'') @ map JObj (impl @ verificationTask ?runId qa v # readiness
         @ [verificationTask ?runId productOwner (acceptance_verification plan implementationPlan (verification_task_id ?runId v) readiness)]))"
    using compile_parts[OF assms opts_def] unfolding found_def by blast
  have each: "list_all2 (\<lambda>item task. implementationTask registry ?runId ?lead found (coalesce (field implementationPlan ''commandAuthority'') JNull) item = Inr task)
      (plan_items implementationPlan) impl"
    using mapR_Inr_length[OF impl] mapR_Inr_nth[OF impl] by (simp add: list_all2_conv_all_nth)
  then have deps: "list_all2 (\<lambda>item task.
         get task ''taskId'' = JStr (implementation_task_id ?runId (field item ''id''))
         \<and> dependencies_of task = insert ?lead ((\<lambda>d. JStr (implementation_task_id ?runId d)) ` set (item_dependencies item)))
         (plan_items implementationPlan) impl"
    by (rule list_all2_mono) (simp add: implementation_task_get)
  have carried: "\<exists>task \<in> set impl. c \<in> set (elements (get task ''acceptanceCriteria''))"
    if "c \<in> set (implementationProofCriteria (field implementationPlan ''acceptanceCriteria''))" "field c ''blocking'' \<noteq> JBool False" for c
  proof -
    from accepted_criterion_carried[OF ok[unfolded found_def] that] obtain item where
      item: "item \<in> set (plan_items implementationPlan)" "c \<in> set (assigned_criteria found item)" unfolding found_def by blast
    from item(1) obtain i where i: "i < length (plan_items implementationPlan)" "plan_items implementationPlan ! i = item"
      by (auto simp: in_set_conv_nth)
    have "impl ! i \<in> set impl" using list_all2_lengthD[OF each] i(1) by simp
    moreover have "implementationTask registry ?runId ?lead found (coalesce (field implementationPlan ''commandAuthority'') JNull) item = Inr (impl ! i)"
      using list_all2_nthD[OF each i(1)] i(2) by simp
    ultimately obtain task where "task \<in> set impl"
        "implementationTask registry ?runId ?lead found (coalesce (field implementationPlan ''commandAuthority'') JNull) item = Inr task" by blast
    with item(2) implementation_task_get(3) show ?thesis by (metis elements.simps(1))
  qed
  have qa: "\<forall>task \<in> set impl. get task ''taskId'' \<in> dependencies_of (verificationTask ?runId qa v)"
    by (simp add: dependencies_of_def verification_task_get v qa_verification_def task_id_of_def)
  show ?thesis
    by (intro exI[of _ impl] exI[of _ "verificationTask ?runId qa v"] exI[of _ readiness] exI conjI, rule tasks, rule deps, rule qa)
      (use ready carried in \<open>auto simp: dependencies_of_def verification_task_get acceptance_verification_def task_id_of_def\<close>)
qed

definition sample_bootstrap :: obj where
  "sample_bootstrap = [(''runId'', JStr ''r''), (''request'', JStr ''do''), (''tasks'', JArr []),
     (''workflow'', JObj [(''technicalLeadTaskId'', JStr ''r:lead''), (''qualityAgentId'', JStr ''qa'')])]"

definition sample_compile :: "jsval list \<Rightarrow> obj res" where
  "sample_compile items = compileImplementationDag sample_env (\<lambda>_ _. True) sample_team sample_bootstrap
     (JObj [(''implementationPlan'', sample_plan items)]) (JObj []) (JArr []) ''now'' JUndef"

definition sample_options :: inspect_options where
  "sample_options = \<lparr>io_directive = Some (implementationValidationDirectiveFromRequest (JStr ''do'')), io_catalog = None\<rparr>"


lemma no_schema: "assertSchema e regexp v JUndef label = Inr v"
proof -
  have "field JUndef k = JUndef" for k by simp
  then have "conforms e regexp v JUndef"
    by (simp add: conforms.simps[of e regexp v JUndef] type_wrong_def const_wrong_def enum_wrong_def below_def above_def
        js_object_value_def property_rule_of_def missing_required_def in_object_def list_all_iff split: jsval.splits)
  then show ?thesis by (simp add: assertSchema_def validateAgainstSchema_def validate_conforms)
qed

lemma sample_compile_ok:
  assumes "pi_issues (inspectImplementationPlan sample_env sample_team sample_options (sample_plan items)) = []"
    and "list_all (\<lambda>item. field item ''ownerAgentId'' = JStr ''dev''
       \<and> assigned_criteria (inspectImplementationPlan sample_env sample_team sample_options (sample_plan items)) item \<noteq> []) items"
    and "ca_plan (canonicalizeImplementationPlanAcceptanceCriteria (sample_plan items) (JArr [])) = sample_plan items"
  shows "\<exists>compiled. sample_compile items = Inr compiled"
proof -
  let ?found = "inspectImplementationPlan sample_env sample_team sample_options (sample_plan items)"
  let ?task = "implementationTask sample_team ''r'' (JStr ''r:lead'') ?found JNull"
  have agents: "\<exists>a. registryAgent sample_team (JStr ''dev'') = Some a \<and> get a ''executionRole'' = JStr ''implementation''"
    "registryAgent sample_team (JStr ''qa'') \<noteq> None" "map_of (rg_byId sample_team) ''product-owner'' \<noteq> None"
    by (simp_all add: registryAgent_def sample_team_def)
  have "\<exists>task. ?task item = Inr task" if "item \<in> set items" for item
    using that assms(2) agents(1)
    by (auto simp: implementationTask_def Let_def ensure_def list_all_iff IMPLEMENTATION_EXECUTION_ROLES_def texts_include_def)
  then obtain impl where impl: "mapR ?task items = Inr impl" using mapR_total by blast
  have reads: "field (JObj [(''implementationPlan'', sample_plan items)]) ''implementationPlan'' = sample_plan items"
    "plan_items (sample_plan items) = items" "field (sample_plan items) ''commandAuthority'' = JUndef" "truthy (sample_plan items)"
    "get sample_bootstrap ''runId'' = JStr ''r''" "get sample_bootstrap ''request'' = JStr ''do''"
    "field (get sample_bootstrap ''workflow'') ''technicalLeadTaskId'' = JStr ''r:lead''"
    "field (get sample_bootstrap ''workflow'') ''qualityAgentId'' = JStr ''qa''"
    by (simp_all add: sample_plan_def sample_bootstrap_def plan_items_def)
  have ready: "database_readiness sample_bootstrap sample_team q c = Inr []" "infrastructure_readiness sample_bootstrap sample_team q c = Inr []"
    "ai_readiness sample_bootstrap sample_team q c = Inr []" for q c
    by (simp_all add: readiness_groups readiness_for_def sample_bootstrap_def)
  obtain qa po where "registryAgent sample_team (JStr ''qa'') = Some qa" "map_of (rg_byId sample_team) ''product-owner'' = Some po"
    using agents(2,3) by blast
  with impl show ?thesis
    by (simp add: sample_compile_def compileImplementationDag_def Let_def reads assms(1,3) no_schema validateCoverage_def
       sample_options_def[symmetric] ready ensure_def)
qed

definition sample_items :: "jsval list" where
  "sample_items = [sample_item ''one'' [], sample_item ''two'' [''one'']]"

definition clashing_items :: "jsval list" where
  "clashing_items = [sample_item ''A'' [], sample_item ''a'' [''A'']]"

lemma sample_items_compile: "\<exists>compiled. sample_compile sample_items = Inr compiled"
  by (rule sample_compile_ok; code_simp)

lemma clashing_items_compile: "\<exists>compiled. sample_compile clashing_items = Inr compiled"
  by (rule sample_compile_ok; code_simp)
theorem compiled_dag_complete_witness:
  "\<exists>compiled impl qa readiness acceptance. sample_compile sample_items = Inr compiled
     \<and> get compiled ''tasks'' = JArr (map JObj (impl @ qa # readiness @ [acceptance]))
     \<and> (\<forall>task \<in> set impl. get task ''taskId'' \<in> dependencies_of qa)"
proof -
  obtain compiled where ok: "sample_compile sample_items = Inr compiled" using sample_items_compile ..
  from compiled_dag_complete[OF ok[unfolded sample_compile_def] refl] obtain impl qa readiness acceptance where
    "get compiled ''tasks'' = JArr (elements (get sample_bootstrap ''tasks'') @ map JObj (impl @ qa # readiness @ [acceptance]))"
    "\<forall>task \<in> set impl. get task ''taskId'' \<in> dependencies_of qa" by blast
  with ok show ?thesis by (simp add: sample_bootstrap_def) blast
qed

text \<open>Task identifiers are not unique. The compiler accepts a plan whose two work items differ only in the case of their
  identifiers; both become the task with the same identifier, and the task of the second item depends on itself.\<close>

lemma slug_collision_accepted:
  "\<exists>compiled first second rest. sample_compile clashing_items = Inr compiled
     \<and> get compiled ''tasks'' = JArr (JObj first # JObj second # rest) \<and> get first ''taskId'' = get second ''taskId''
     \<and> get second ''taskId'' \<in> dependencies_of second"
proof -
  let ?plan = "sample_plan clashing_items"
  let ?found = "inspectImplementationPlan sample_env sample_team sample_options ?plan"
  have canon: "?plan = ca_plan (canonicalizeImplementationPlanAcceptanceCriteria (field (JObj [(''implementationPlan'', ?plan)]) ''implementationPlan'') (JArr []))"
    by code_simp
  have items: "plan_items ?plan = clashing_items" by (simp add: plan_items_def sample_plan_def)
  have bootstrap: "get sample_bootstrap ''tasks'' = JArr []" "get sample_bootstrap ''request'' = JStr ''do''"
    "get sample_bootstrap ''runId'' = JStr ''r''" by (simp_all add: sample_bootstrap_def)
  obtain compiled where ok: "sample_compile clashing_items = Inr compiled" using clashing_items_compile ..
  from compile_parts[OF ok[unfolded sample_compile_def] canon refl] obtain impl lead auth rest where
    impl: "mapR (implementationTask sample_team ''r'' lead ?found auth) clashing_items = Inr impl"
    and tasks: "get compiled ''tasks'' = JArr (map JObj impl @ rest)"
    unfolding items bootstrap sample_options_def[symmetric] map_append js_string.simps elements.simps append_Nil by blast
  from mapR_Inr_length[OF impl] obtain first second where two: "impl = [first, second]"
    by (auto simp: clashing_items_def length_Suc_conv)
  have made: "implementationTask sample_team ''r'' lead ?found auth (sample_item ''A'' []) = Inr first"
    "implementationTask sample_team ''r'' lead ?found auth (sample_item ''a'' [''A'']) = Inr second"
    using impl by (auto simp: two clashing_items_def bindR_Inr)
  have "implementation_task_id ''r'' (field (sample_item ''A'' []) ''id'') = implementation_task_id ''r'' (field (sample_item ''a'' [''A'']) ''id'')"
    "implementation_task_id ''r'' (field (sample_item ''a'' [''A'']) ''id'') \<in> implementation_task_id ''r'' ` set (item_dependencies (sample_item ''a'' [''A'']))"
    by code_simp+
  with made tasks two ok show ?thesis by (auto simp: implementation_task_get)
qed

end
