(* ===== verification/ReviewContract.thy ===== *)
theory ReviewContract
  imports BootstrapCapabilities
begin

text \<open>
  The contract of review handoffs (\<open>review-contract.mjs\<close>): which revision a review stage attests, read from the
  artifacts upstream of it, and what a review has to say to be valid.
\<close>

definition FIXED_REVIEW_STAGES :: "string list" where
  "FIXED_REVIEW_STAGES = [''technical-refinement'', ''quality-assurance'', ''operational-readiness'', ''product-acceptance'']"

definition isSddReviewStage :: "jsval \<Rightarrow> bool" where
  "isSddReviewStage stage \<longleftrightarrow> isBootstrapReviewStage (JStr (compact stage)) \<or> compact stage \<in> set FIXED_REVIEW_STAGES"

definition positiveInteger :: "jsval \<Rightarrow> int option" where
  "positiveInteger v = (case js_number v of Some n \<Rightarrow> if 1 \<le> n then Some n else None | None \<Rightarrow> None)"

subsection \<open>Revisions named by criteria\<close>

text \<open>
  The pattern a source is searched with: an optional \<open>prd\<close> and separators, then \<open>revision\<close>, \<open>rev\<close> or
  \<open>r\<close>, an optional separator and a number. Every step has one way to match, so that a prefix matches in at most
  one way; the result is the number and the text behind it.
\<close>

definition revision_separator :: "char \<Rightarrow> bool" where
  "revision_separator c \<longleftrightarrow> c = CHR ''-'' \<or> c = CHR ''_'' \<or> c = CHR '' ''"

definition skip_separator :: "string \<Rightarrow> string" where
  "skip_separator s = (case s of c # cs \<Rightarrow> if revision_separator c then cs else s | [] \<Rightarrow> [])"

definition number_prefix :: "string \<Rightarrow> (string \<times> string) option" where
  "number_prefix s =
     (let t = skip_separator s; digits = takeWhile is_digit t; behind = dropWhile is_digit t in
      if digits = [] then None else Some (digits, behind))"

fun first_some :: "'a option list \<Rightarrow> 'a option" where
  "first_some [] = None"
| "first_some (x # xs) = (case x of None \<Rightarrow> first_some xs | Some y \<Rightarrow> Some y)"

definition revision_word :: "string \<Rightarrow> (string \<times> string) option" where
  "revision_word s = first_some (map (\<lambda>w. if starts_with_ci s w then number_prefix (drop (length w) s) else None)
     [''revision'', ''rev'', ''r''])"

definition revision_token :: "string \<Rightarrow> (string \<times> string) option" where
  "revision_token s = first_some
     [if starts_with_ci s ''prd'' then revision_word (dropWhile revision_separator (drop 3 s)) else None, revision_word s]"

definition alphanumeric :: "char \<Rightarrow> bool" where
  "alphanumeric c \<longleftrightarrow> is_lower c \<or> is_upper c \<or> is_digit c"

text \<open>The matches of the pattern in order; a match uses up one character behind its number.\<close>

definition revision_at :: "bool \<Rightarrow> string \<Rightarrow> (string \<times> string) option" where
  "revision_at start s = first_some
     [if start then revision_token s else None,
      case s of c # cs \<Rightarrow> if alphanumeric c then None else revision_token cs | [] \<Rightarrow> None]"

lemma number_prefix_shorter: "number_prefix s = Some (d, t) \<Longrightarrow> length t < length s"
proof -
  assume match: "number_prefix s = Some (d, t)"
  let ?u = "skip_separator s"
  from match have "takeWhile is_digit ?u \<noteq> []" "t = dropWhile is_digit ?u"
    by (auto simp: number_prefix_def Let_def split: if_splits)
  moreover have "length ?u = length (takeWhile is_digit ?u) + length (dropWhile is_digit ?u)"
    by (metis length_append takeWhile_dropWhile_id)
  moreover have "length ?u \<le> length s" by (cases s) (auto simp: skip_separator_def)
  ultimately show ?thesis by (cases "takeWhile is_digit ?u") auto
qed

lemma revision_word_shorter: "revision_word s = Some (d, t) \<Longrightarrow> length t < length s"
  by (auto simp: revision_word_def dest!: number_prefix_shorter split: if_splits option.splits)

lemma revision_token_shorter: "revision_token s = Some (d, t) \<Longrightarrow> length t < length s"
  by (auto simp: revision_token_def dest!: revision_word_shorter split: if_splits option.splits)
     (use length_dropWhile_le[of revision_separator "drop 3 s"] in auto)

lemma revision_at_shorter: "revision_at b s = Some (d, t) \<Longrightarrow> length t < length s"
  by (auto simp: revision_at_def dest!: revision_token_shorter split: if_splits list.splits option.splits)

function revision_matches :: "bool \<Rightarrow> string \<Rightarrow> string list" where
  "revision_matches start s =
     (case revision_at start s of
        Some (digits, behind) \<Rightarrow> digits # revision_matches False (drop 1 behind)
      | None \<Rightarrow> (case s of [] \<Rightarrow> [] | c # cs \<Rightarrow> revision_matches False cs))"
  by pat_completeness auto
termination
  by (relation "measure (\<lambda>(_, s). length s)") (auto dest!: revision_at_shorter)

declare revision_matches.simps [simp del]

definition ambiguous :: "string \<Rightarrow> int list \<Rightarrow> string" where
  "ambiguous label revisions = ''handoff_review_revision_ambiguous:'' @ label @ '':'' @ join '','' (map int_string revisions)"

definition only_revision :: "string \<Rightarrow> int list \<Rightarrow> jsval res" where
  "only_revision label revisions =
     (case uniq revisions of
        [] \<Rightarrow> Inr JNull
      | [r] \<Rightarrow> Inr (JNum r)
      | rs \<Rightarrow> Inl (ambiguous label rs))"

definition criterionRevision :: "jsval \<Rightarrow> jsval res" where
  "criterionRevision criteria = only_revision ''criterion_sources''
     (List.map_filter (\<lambda>digits. positiveInteger (JStr digits))
       (concat (map (\<lambda>criterion. revision_matches True (js_string (coalesce (field criterion ''source'') (JStr [])))) (elements criteria))))"

definition uniqueRevision :: "jsval list \<Rightarrow> string \<Rightarrow> jsval res" where
  "uniqueRevision values label = only_revision label (List.map_filter positiveInteger values)"

subsection \<open>The revision a stage attests\<close>

definition artifactStage :: "jsval \<Rightarrow> string" where
  "artifactStage artifact =
     (let explicit = compact (field (field (field artifact ''content'') ''sddReview'') ''stage'');
          producer = compact (field artifact ''producer'') in
      if explicit \<noteq> [] then explicit
      else rev (takeWhile (\<lambda>c. c \<noteq> CHR '':'') (rev producer)))"

definition isProductAuthorityArtifact :: "jsval \<Rightarrow> bool" where
  "isProductAuthorityArtifact artifact \<longleftrightarrow> artifactStage artifact = ''product-discovery''"

definition isImplementationPlanAuthorityArtifact :: "jsval \<Rightarrow> bool" where
  "isImplementationPlanAuthorityArtifact artifact \<longleftrightarrow> artifactStage artifact = ''technical-refinement''"

definition reviewed_revision :: "jsval \<Rightarrow> jsval" where
  "reviewed_revision artifact = field (field (field artifact ''content'') ''sddReview'') ''reviewedRevision''"

definition reviewRevisionForStages :: "jsval list \<Rightarrow> string list \<Rightarrow> string \<Rightarrow> jsval res" where
  "reviewRevisionForStages reviewArtifacts stages label = uniqueRevision
     (map reviewed_revision (filter (\<lambda>artifact. compact (field (field (field artifact ''content'') ''sddReview'') ''stage'') \<in> set stages)
        reviewArtifacts)) label"

definition product_revision :: "jsval list \<Rightarrow> jsval res" where
  "product_revision productArtifacts =
     bindR (uniqueRevision (map reviewed_revision productArtifacts) ''product'') (\<lambda>explicit.
     if nullish explicit
     then bindR (mapR (\<lambda>artifact. criterionRevision (field (field artifact ''content'') ''acceptanceCriteria'')) productArtifacts)
            (\<lambda>revisions. uniqueRevision revisions ''product'')
     else Inr explicit)"

definition authoritativeReviewRevisionFromContext :: "jsval \<Rightarrow> jsval \<Rightarrow> jsval res" where
  "authoritativeReviewRevisionFromContext stage contextPacket =
     (if \<not> isSddReviewStage stage then Inr (JNum 1)
      else
        let artifacts = elements (field contextPacket ''upstreamArtifacts'');
            reviewArtifacts = filter (\<lambda>artifact. \<not> isProductAuthorityArtifact artifact) artifacts in
        bindR (product_revision (filter isProductAuthorityArtifact artifacts)) (\<lambda>productRevision.
        let fallback = coalesce productRevision (JNum 1) in
        if isBootstrapReviewStage stage \<or> stage = JStr ''technical-refinement'' then Inr fallback
        else
          bindR (uniqueRevision (map (\<lambda>artifact. field (field (field artifact ''content'') ''implementationPlan'') ''revision'')
                   (filter isImplementationPlanAuthorityArtifact artifacts)) ''implementation-plan'') (\<lambda>planRevision.
          if stage = JStr ''operational-readiness'' then
            bindR (reviewRevisionForStages reviewArtifacts [''quality-assurance''] ''verification-lineage'') (\<lambda>qaRevision.
            bindR (uniqueRevision [planRevision, qaRevision] ''verification-lineage'') (\<lambda>verificationRevision.
            Inr (coalesce verificationRevision fallback)))
          else if stage = JStr ''product-acceptance'' then
            bindR (reviewRevisionForStages reviewArtifacts [''quality-assurance'', ''operational-readiness''] ''verification-lineage'')
              (\<lambda>directRevision.
            bindR (uniqueRevision [planRevision, directRevision] ''verification-lineage'') (\<lambda>verificationRevision.
            Inr (coalesce verificationRevision fallback)))
          else if \<not> nullish planRevision then Inr planRevision
          else
            bindR (uniqueRevision (map reviewed_revision reviewArtifacts) ''downstream-reviews'') (\<lambda>downstreamRevision.
            Inr (coalesce downstreamRevision fallback)))))"

subsection \<open>Validity of a review\<close>

definition requiredReviewDecision :: "jsval \<Rightarrow> string" where
  "requiredReviewDecision stage = (if stage = JStr ''product-acceptance'' then ''accepted'' else ''approved'')"

text \<open>\<open>None\<close> is a valid review, otherwise the code and the message of what is wrong.\<close>

definition text_or_missing :: "jsval \<Rightarrow> string" where
  "text_or_missing v = js_string (coalesce v (JStr ''missing''))"

definition blank_text :: "jsval \<Rightarrow> bool" where
  "blank_text v \<longleftrightarrow> (case v of JStr s \<Rightarrow> trim s = [] | _ \<Rightarrow> True)"

fun is_list :: "jsval \<Rightarrow> bool" where
  "is_list (JArr xs) = True"
| "is_list v = False"

definition review_issue :: "jsval \<Rightarrow> string \<Rightarrow> int \<Rightarrow> obj \<Rightarrow> (string \<times> string) option" where
  "review_issue stage expectedRole expectedRevision review =
     (let requiredDecision = requiredReviewDecision stage; decision = get review ''decision''; nextRole = get review ''nextRole'' in
      if get review ''role'' \<noteq> JStr expectedRole
      then Some (''review_role_mismatch'', ''sddReview.role expected='' @ expectedRole @ '' actual='' @ text_or_missing (get review ''role''))
      else if get review ''stage'' \<noteq> stage
      then Some (''review_stage_mismatch'', ''sddReview.stage expected='' @ js_string stage @ '' actual='' @ text_or_missing (get review ''stage''))
      else if get review ''reviewedRevision'' \<noteq> JNum expectedRevision
      then Some (''review_revision_mismatch'', ''sddReview.reviewedRevision expected='' @ int_string expectedRevision
             @ '' actual='' @ text_or_missing (get review ''reviewedRevision''))
      else if decision = JStr requiredDecision then
        (if get review ''requiredDeltas'' \<noteq> JArr []
         then Some (''review_approved_with_deltas'', requiredDecision @ '' requires requiredDeltas=[]'')
         else if nextRole \<noteq> JNull \<and> blank_text nextRole
         then Some (''review_approved_next_role_invalid'', requiredDecision @ '' nextRole must be null or a non-empty string'')
         else None)
      else if decision \<in> {JStr ''changes_requested'', JStr ''blocked''} then
        (if \<not> is_list (get review ''requiredDeltas'') \<or> elements (get review ''requiredDeltas'') = []
         then Some (''review_negative_without_deltas'', js_string decision @ '' requires non-empty requiredDeltas'')
         else if blank_text nextRole
         then Some (''review_negative_without_next_role'', js_string decision @ '' requires non-empty nextRole'')
         else None)
      else Some (''review_decision_invalid'', ''Invalid review decision for '' @ js_string stage @ '': '' @ text_or_missing decision))"

definition validateSddReviewContract :: "jsval \<Rightarrow> jsval \<Rightarrow> (string \<times> string) option" where
  "validateSddReviewContract brief handoff =
     (let sdd = field brief ''sdd''; stage = coalesce (field sdd ''stage'') (JStr ''implementation'') in
      if \<not> isSddReviewStage stage \<or> field handoff ''status'' \<noteq> JStr ''complete'' then None
      else
        case field handoff ''sddReview'' of
          JObj review \<Rightarrow>
            review_issue stage (js_string (coalesce (coalesce (field sdd ''role'') (field brief ''agentId'')) (JStr [])))
              (case positiveInteger (field sdd ''reviewedRevision'') of Some n \<Rightarrow> n | None \<Rightarrow> 1) review
        | _ \<Rightarrow> Some (''review_missing'', ''Stage '' @ js_string stage @ '' requires sddReview''))"

subsection \<open>Lemmas\<close>

lemma positiveInteger_pos: "positiveInteger v = Some n \<Longrightarrow> 1 \<le> n"
  by (auto simp: positiveInteger_def split: option.splits if_splits)

text \<open>A revision that was found is positive, and every source that names one names this one.\<close>

lemma only_revision_Inr:
  assumes "only_revision label revisions = Inr v"
  shows "(revisions = [] \<and> v = JNull) \<or> (\<exists>r. revisions \<noteq> [] \<and> set revisions = {r} \<and> v = JNum r)"
proof (cases "uniq revisions")
  case (Cons r rs)
  with assms have "rs = []" "v = JNum r" by (auto simp: only_revision_def split: list.splits)
  moreover from Cons \<open>rs = []\<close> have "set revisions = {r}" by (metis list.set(1) list.set(2) set_uniq)
  ultimately show ?thesis by auto
qed (use assms in \<open>auto simp: only_revision_def\<close>)

lemma uniqueRevision_Inr:
  assumes "uniqueRevision values label = Inr v"
  shows "(v = JNull \<and> (\<forall>x \<in> set values. positiveInteger x = None))
    \<or> (\<exists>r. v = JNum r \<and> 1 \<le> r \<and> (\<exists>x \<in> set values. positiveInteger x = Some r) \<and> (\<forall>x \<in> set values. positiveInteger x \<in> {None, Some r}))"
proof -
  have found: "set (List.map_filter positiveInteger values) = {r. \<exists>x \<in> set values. positiveInteger x = Some r}"
    by (force simp: map_filter_def)
  from only_revision_Inr[OF assms[unfolded uniqueRevision_def]] consider
      "List.map_filter positiveInteger values = []" "v = JNull"
    | r where "set (List.map_filter positiveInteger values) = {r}" "v = JNum r" by auto
  then show ?thesis
  proof cases
    case 1
    then have "{r. \<exists>x \<in> set values. positiveInteger x = Some r} = {}" using found by simp
    then have "positiveInteger x = None" if "x \<in> set values" for x using that by (cases "positiveInteger x") auto
    with 1(2) show ?thesis by blast
  next
    case 2
    then have only: "{r. \<exists>x \<in> set values. positiveInteger x = Some r} = {r}" using found by simp
    then have "\<exists>x \<in> set values. positiveInteger x = Some r" by auto
    moreover have "positiveInteger x \<in> {None, Some r}" if "x \<in> set values" for x
      using only that by (cases "positiveInteger x") auto
    ultimately show ?thesis using 2(2) positiveInteger_pos by blast
  qed
qed

definition is_revision :: "jsval \<Rightarrow> bool" where
  "is_revision v \<longleftrightarrow> (\<exists>n \<ge> 1. v = JNum n)"

lemma uniqueRevision_value: "uniqueRevision values label = Inr v \<Longrightarrow> v = JNull \<or> is_revision v"
  using uniqueRevision_Inr unfolding is_revision_def by blast

lemma product_revision_value: "product_revision artifacts = Inr v \<Longrightarrow> v = JNull \<or> is_revision v"
  unfolding product_revision_def bindR_Inr using uniqueRevision_value by (auto simp: bindR_Inr split: if_splits)

lemma revision_or: "is_revision w \<Longrightarrow> u = JNull \<or> is_revision u \<Longrightarrow> is_revision (coalesce u w)"
  by (auto simp: is_revision_def)

lemma uniqueRevision_or:
  "is_revision w \<Longrightarrow> bindR (uniqueRevision values label) (\<lambda>u. Inr (coalesce u w)) = Inr v \<Longrightarrow> is_revision v"
  unfolding bindR_Inr using revision_or uniqueRevision_value by blast

text \<open>The revision a review stage is asked to attest is a positive number.\<close>

lemma authoritative_revision_positive:
  assumes "authoritativeReviewRevisionFromContext stage packet = Inr v"
  shows "is_revision v"
proof (cases "isSddReviewStage stage")
  case True
  let ?artifacts = "elements (field packet ''upstreamArtifacts'')"
  obtain p where p: "product_revision (filter isProductAuthorityArtifact ?artifacts) = Inr p"
    using assms True by (auto simp: authoritativeReviewRevisionFromContext_def bindR_Inr Let_def)
  have fallback: "is_revision (coalesce p (JNum 1))"
    by (rule revision_or[OF _ product_revision_value[OF p]]) (simp add: is_revision_def)
  note body = assms[unfolded authoritativeReviewRevisionFromContext_def Let_def eqTrueI[OF True] not_True_eq_False if_False p bindR_simps]
  show ?thesis
  proof (cases "isBootstrapReviewStage stage \<or> stage = JStr ''technical-refinement''")
    case True
    with body fallback show ?thesis by simp
  next
    case False
    from body[unfolded if_not_P[OF False]] obtain plan where
        plan: "plan = JNull \<or> is_revision plan" and tail:
        "(if stage = JStr ''operational-readiness'' then
            bindR (reviewRevisionForStages (filter (\<lambda>a. \<not> isProductAuthorityArtifact a) ?artifacts) [''quality-assurance''] ''verification-lineage'')
              (\<lambda>q. bindR (uniqueRevision [plan, q] ''verification-lineage'') (\<lambda>u. Inr (coalesce u (coalesce p (JNum 1)))))
          else if stage = JStr ''product-acceptance'' then
            bindR (reviewRevisionForStages (filter (\<lambda>a. \<not> isProductAuthorityArtifact a) ?artifacts) [''quality-assurance'', ''operational-readiness''] ''verification-lineage'')
              (\<lambda>q. bindR (uniqueRevision [plan, q] ''verification-lineage'') (\<lambda>u. Inr (coalesce u (coalesce p (JNum 1)))))
          else if \<not> nullish plan then Inr plan
          else bindR (uniqueRevision (map reviewed_revision (filter (\<lambda>a. \<not> isProductAuthorityArtifact a) ?artifacts)) ''downstream-reviews'')
            (\<lambda>u. Inr (coalesce u (coalesce p (JNum 1))))) = Inr v"
      unfolding bindR_Inr[of "uniqueRevision _ ''implementation-plan''"] using uniqueRevision_value by blast
    show ?thesis
    proof (cases "stage = JStr ''operational-readiness'' \<or> stage = JStr ''product-acceptance''")
      case True
      with tail obtain q where "bindR (uniqueRevision [plan, q] ''verification-lineage'') (\<lambda>u. Inr (coalesce u (coalesce p (JNum 1)))) = Inr v"
        by (auto simp: bindR_Inr[of "reviewRevisionForStages x y z" for x y z] split: if_splits)
      then show ?thesis by (rule uniqueRevision_or[OF fallback])
    next
      case False
      with tail plan show ?thesis
        by (cases "nullish plan") (auto simp: nullish_def intro: uniqueRevision_or[OF fallback])
    qed
  qed
qed (use assms in \<open>auto simp: authoritativeReviewRevisionFromContext_def is_revision_def\<close>)

text \<open>A bootstrap review attests the product revision: only what product discovery produced is read.\<close>

lemma bootstrap_revision_authority:
  assumes "isBootstrapReviewStage stage"
    and "filter isProductAuthorityArtifact (elements (field packet ''upstreamArtifacts''))
       = filter isProductAuthorityArtifact (elements (field packet' ''upstreamArtifacts''))"
  shows "authoritativeReviewRevisionFromContext stage packet = authoritativeReviewRevisionFromContext stage packet'"
  using assms by (simp add: authoritativeReviewRevisionFromContext_def)

definition review_wellformed :: "jsval \<Rightarrow> string \<Rightarrow> int \<Rightarrow> obj \<Rightarrow> bool" where
  "review_wellformed stage role revision review \<longleftrightarrow>
     get review ''role'' = JStr role \<and> get review ''stage'' = stage \<and> get review ''reviewedRevision'' = JNum revision
     \<and> ((get review ''decision'' = JStr (requiredReviewDecision stage) \<and> get review ''requiredDeltas'' = JArr []
           \<and> (get review ''nextRole'' = JNull \<or> \<not> blank_text (get review ''nextRole'')))
        \<or> (get review ''decision'' \<in> {JStr ''changes_requested'', JStr ''blocked''}
           \<and> (\<exists>d ds. get review ''requiredDeltas'' = JArr (d # ds)) \<and> \<not> blank_text (get review ''nextRole'')))"

lemma deltas_given: "is_list v \<and> elements v \<noteq> [] \<longleftrightarrow> (\<exists>d ds. v = JArr (d # ds))"
  by (cases v) (auto simp: neq_Nil_conv)

lemma review_issue_None: "review_issue stage role revision review = None \<longleftrightarrow> review_wellformed stage role revision review"
  unfolding review_issue_def review_wellformed_def Let_def deltas_given[symmetric]
  by (auto simp: requiredReviewDecision_def)

end
