(* ===== verification/HandoffContract.thy ===== *)
theory HandoffContract
  imports Contracts CompletionGate
begin

text \<open>
  The handoff an agent returns is brought into shape before it is judged (\<open>handoff-contract.mjs\<close>,
  \<open>handoff-telemetry.mjs\<close>): identities that were echoed wrongly are corrected when the rest identifies the task, missing
  lists become empty, malformed entries are dropped, and telemetry keeps only what the runtime owns. The lemmas show that
  none of this adds evidence.
\<close>

definition VALIDATION_PHASES :: "string list" where
  "VALIDATION_PHASES = [''red'', ''implementation'', ''final'']"

definition VALIDATION_RESULTS :: "string list" where
  "VALIDATION_RESULTS = [''passed'', ''failed'', ''blocked'']"

definition SDD_REVIEW_KEYS :: "string list" where
  "SDD_REVIEW_KEYS = [''role'', ''stage'', ''decision'', ''reviewedRevision'', ''nextRole'', ''requiredDeltas'']"

definition SAFE_EMPTY_ARRAY_FIELDS :: "string list" where
  "SAFE_EMPTY_ARRAY_FIELDS =
     [''changedPaths'', ''reusedPaths'', ''contractChanges'', ''assumptions'', ''criterionResults'',
      ''validation'', ''residualRisks'', ''followUps'', ''usedContextPaths'']"

definition PATH_ARRAY_FIELDS :: "string list" where
  "PATH_ARRAY_FIELDS = [''changedPaths'', ''reusedPaths'', ''usedContextPaths'']"

definition TEXT_ARRAY_FIELDS :: "string list" where
  "TEXT_ARRAY_FIELDS = [''contractChanges'', ''assumptions'', ''residualRisks'', ''followUps'']"

definition CRITERION_RESULTS :: "string list" where
  "CRITERION_RESULTS = [''passed'', ''failed'', ''blocked'', ''not_applicable'']"

definition nonEmptyString :: "jsval \<Rightarrow> bool" where
  "nonEmptyString v \<longleftrightarrow> (case v of JStr s \<Rightarrow> trim s \<noteq> [] | _ \<Rightarrow> False)"

definition canonicalRevision :: "jsval \<Rightarrow> int option" where
  "canonicalRevision v =
     (case v of
        JNum n \<Rightarrow> if 1 \<le> n then Some n else None
      | JStr s \<Rightarrow>
          (if trim s \<noteq> [] \<and> list_all is_digit (trim s)
           then (case js_number (JStr (trim s)) of Some n \<Rightarrow> if 1 \<le> n then Some n else None | None \<Rightarrow> None)
           else None)
      | _ \<Rightarrow> None)"

fun is_text :: "jsval \<Rightarrow> bool" where
  "is_text (JStr s) = True"
| "is_text v = False"

fun is_flag :: "jsval \<Rightarrow> bool" where
  "is_flag (JBool b) = True"
| "is_flag v = False"

subsection \<open>Reviews\<close>

definition remap_revision :: "obj \<Rightarrow> obj \<times> string list" where
  "remap_revision review =
     (if \<not> has_own review ''reviewedRevision'' \<and> has_own review ''consumedRevision''
      then (case canonicalRevision (get review ''consumedRevision'') of
          Some n \<Rightarrow> (AList.update ''reviewedRevision'' (JNum n) review, [''sddReview.consumedRevision->reviewedRevision''])
        | None \<Rightarrow> (review, []))
      else (review, []))"

definition remap_next_role :: "obj \<Rightarrow> obj \<times> string list" where
  "remap_next_role review =
     (let returnedTo = get review ''returnedTo'' in
      if \<not> has_own review ''nextRole'' \<and> has_own review ''returnedTo'' \<and> (returnedTo = JNull \<or> nonEmptyString returnedTo)
      then (AList.update ''nextRole'' returnedTo review, [''sddReview.returnedTo->nextRole''])
      else (review, []))"

text \<open>The review, the remapped and the removed fields.\<close>

definition normalizeSddReview :: "jsval \<Rightarrow> jsval \<times> string list \<times> string list" where
  "normalizeSddReview review =
     (case review of
        JObj ps \<Rightarrow>
          (let (ps1, revisions) = remap_revision ps; (ps2, roles) = remap_next_role ps1;
               removed = filter (\<lambda>k. k \<notin> set SDD_REVIEW_KEYS) (map fst ps2) in
           (JObj (filter (\<lambda>(k, v). k \<in> set SDD_REVIEW_KEYS) ps2), revisions @ roles, map (\<lambda>k. ''sddReview.'' @ k) removed))
      | v \<Rightarrow> (v, [], []))"

definition provenance_role :: "obj \<Rightarrow> jsval \<Rightarrow> obj \<Rightarrow> obj \<times> string list" where
  "provenance_role brief expectedRole review =
     (if \<not> nonEmptyString (get review ''role'') \<and> nonEmptyString expectedRole
      then (AList.update ''role'' expectedRole review, [''sddReview.role<-TaskBrief.sdd.role''])
      else if nonEmptyString expectedRole \<and> get review ''role'' = get brief ''agentId'' \<and> get review ''role'' \<noteq> expectedRole
      then (AList.update ''role'' expectedRole review, [''sddReview.role:agentId->logicalRole''])
      else (review, []))"

definition provenance_stage :: "jsval \<Rightarrow> obj \<Rightarrow> obj \<times> string list" where
  "provenance_stage expectedStage review =
     (if \<not> nonEmptyString (get review ''stage'') \<and> truthy expectedStage
      then (AList.update ''stage'' expectedStage review, [''sddReview.stage<-TaskBrief.sdd.stage''])
      else (review, []))"

definition provenance_revision :: "int option \<Rightarrow> obj \<Rightarrow> obj \<times> string list" where
  "provenance_revision expectedRevision review =
     (case (canonicalRevision (get review ''reviewedRevision''), expectedRevision) of
        (None, Some n) \<Rightarrow> (AList.update ''reviewedRevision'' (JNum n) review, [''sddReview.reviewedRevision<-TaskBrief.sdd.reviewedRevision''])
      | (Some n, _) \<Rightarrow>
          (if get review ''reviewedRevision'' \<noteq> JNum n
           then (AList.update ''reviewedRevision'' (JNum n) review, [''sddReview.reviewedRevision:string->integer''])
           else (review, []))
      | (None, None) \<Rightarrow> (review, []))"

definition default_own :: "string \<Rightarrow> jsval \<Rightarrow> string \<Rightarrow> obj \<Rightarrow> obj \<times> string list" where
  "default_own k v note ob = (if has_own ob k then (ob, []) else (AList.update k v ob, [note]))"

definition provenance_defaults :: "jsval \<Rightarrow> obj \<Rightarrow> obj \<times> string list" where
  "provenance_defaults expectedStage review =
     (if get review ''decision'' = JStr (if expectedStage = JStr ''product-acceptance'' then ''accepted'' else ''approved'')
      then (let (r1, n1) = default_own ''requiredDeltas'' (JArr []) ''sddReview.requiredDeltas<-[]:positiveDecision'' review;
                (r2, n2) = default_own ''nextRole'' JNull ''sddReview.nextRole<-null:positiveDecision'' r1 in (r2, n1 @ n2))
      else (review, []))"

definition normalizeReviewProvenance :: "jsval \<Rightarrow> obj \<Rightarrow> jsval \<times> string list" where
  "normalizeReviewProvenance review brief =
     (case review of
        JObj ps \<Rightarrow>
          (let sdd = get brief ''sdd'' in
           if \<not> truthy sdd then (review, [])
           else
             let expectedRole = (if nonEmptyString (field sdd ''role'') then field sdd ''role'' else get brief ''agentId'');
                 expectedStage = (if nonEmptyString (field sdd ''stage'') then field sdd ''stage'' else JNull);
                 (r1, n1) = provenance_role brief expectedRole ps;
                 (r2, n2) = provenance_stage expectedStage r1;
                 (r3, n3) = provenance_revision (canonicalRevision (field sdd ''reviewedRevision'')) r2;
                 (r4, n4) = provenance_defaults expectedStage r3
             in (JObj r4, n1 @ n2 @ n3 @ n4))
      | v \<Rightarrow> (v, []))"

subsection \<open>Lists\<close>

text \<open>An entry that was dropped or rendered: its index and the reason.\<close>

definition indexed_note :: "nat \<Rightarrow> string \<Rightarrow> obj" where
  "indexed_note i reason = [(''index'', JNum (int i)), (''reason'', JStr reason)]"

definition rendered :: "jsval \<Rightarrow> string" where
  "rendered item = (case item of JObj _ \<Rightarrow> json_text item | JArr _ \<Rightarrow> json_text item | _ \<Rightarrow> js_string item)"

definition string_entry :: "bool \<Rightarrow> nat \<times> jsval \<Rightarrow> jsval option \<times> obj option" where
  "string_entry pathLike entry =
     (case entry of (i, item) \<Rightarrow>
      if nonEmptyString item then (Some item, None)
      else if \<not> pathLike \<and> \<not> nullish item \<and> trim (rendered item) \<noteq> []
      then (Some (JStr (rendered item)), Some (indexed_note i ''non_string_canonicalized''))
      else (None, Some (indexed_note i ''invalid_array_entry_dropped'')))"

text \<open>A list is normalised entry by entry: what is kept, and the notes on what was not kept as it was.\<close>

definition normalize_entries :: "(nat \<times> jsval \<Rightarrow> jsval option \<times> obj option) \<Rightarrow> jsval \<Rightarrow> jsval \<times> obj list" where
  "normalize_entries f v =
     (case v of
        JArr xs \<Rightarrow> (let rs = map f (enumerate 0 xs) in (JArr (List.map_filter fst rs), List.map_filter snd rs))
      | _ \<Rightarrow> (v, []))"

definition normalizeStringArray :: "bool \<Rightarrow> jsval \<Rightarrow> jsval \<times> obj list" where
  "normalizeStringArray pathLike = normalize_entries (string_entry pathLike)"

definition criterion_entry :: "nat \<times> jsval \<Rightarrow> jsval option \<times> obj option" where
  "criterion_entry entry =
     (case entry of (i, raw) \<Rightarrow>
      (case raw of
         JObj ps \<Rightarrow>
           (if \<not> nonEmptyString (get ps ''criterionId'') \<or> \<not> status_in (get ps ''result'') CRITERION_RESULTS
               \<or> \<not> is_text (get ps ''evidence'')
            then (None, Some (indexed_note i ''criterion_result_invalid''))
            else (Some (JObj [(''criterionId'', get ps ''criterionId''), (''result'', get ps ''result''),
                              (''evidence'', get ps ''evidence'')]), None))
       | _ \<Rightarrow> (None, Some (indexed_note i ''entry_not_object''))))"

definition normalizeCriterionResults :: "jsval \<Rightarrow> jsval \<times> obj list" where
  "normalizeCriterionResults = normalize_entries criterion_entry"

text \<open>The shape only a receipt of the runtime has.\<close>

definition runtime_receipt :: "env \<Rightarrow> obj \<Rightarrow> bool" where
  "runtime_receipt e raw \<longleftrightarrow> get raw ''authority'' = JStr ''runtime''
     \<and> (case get raw ''exitCode'' of JNum _ \<Rightarrow> True | JNull \<Rightarrow> True | _ \<Rightarrow> False)
     \<and> is_flag (get raw ''timedOut'')
     \<and> (case get raw ''executedAt'' of JStr t \<Rightarrow> parse_date e t \<noteq> None | _ \<Rightarrow> False)"

definition validation_issue :: "obj \<Rightarrow> string option" where
  "validation_issue raw =
     (if \<not> is_text (get raw ''command'') then Some ''command_invalid''
      else if \<not> status_in (get raw ''phase'') VALIDATION_PHASES then Some ''phase_invalid''
      else if \<not> status_in (get raw ''result'') VALIDATION_RESULTS then Some ''result_invalid''
      else if \<not> is_text (get raw ''evidence'') then Some ''evidence_invalid''
      else None)"

definition validation_entry :: "env \<Rightarrow> nat \<times> jsval \<Rightarrow> jsval option \<times> obj option" where
  "validation_entry e entry =
     (case entry of (i, raw) \<Rightarrow>
      (case raw of
         JObj ps \<Rightarrow>
           (case validation_issue ps of
              Some reason \<Rightarrow> (None, Some (indexed_note i reason))
            | None \<Rightarrow>
                (Some (JObj ([(''command'', get ps ''command''), (''phase'', get ps ''phase''),
                     (''blocking'', if is_flag (get ps ''blocking'') then get ps ''blocking'' else JBool True),
                     (''result'', get ps ''result''), (''evidence'', get ps ''evidence''),
                     (''authority'', JStr (if runtime_receipt e ps then ''runtime'' else ''model''))]
                   @ (if runtime_receipt e ps
                      then [(''exitCode'', get ps ''exitCode''), (''timedOut'', get ps ''timedOut''), (''executedAt'', get ps ''executedAt'')]
                      else []))), None))
       | _ \<Rightarrow> (None, Some (indexed_note i ''entry_not_object''))))"

definition defaulted_blocking :: "jsval \<Rightarrow> nat list" where
  "defaulted_blocking v = map fst (filter (\<lambda>(i, raw). (case raw of JObj ps \<Rightarrow> validation_issue ps = None \<and> \<not> is_flag (get ps ''blocking'') | _ \<Rightarrow> False))
     (enumerate 0 (elements v)))"

definition normalizeValidationEntries :: "env \<Rightarrow> jsval \<Rightarrow> jsval \<times> nat list \<times> obj list" where
  "normalizeValidationEntries e v =
     (case normalize_entries (validation_entry e) v of (next, dropped) \<Rightarrow> (next, defaulted_blocking v, dropped))"

subsection \<open>Identity\<close>

definition identityFields :: "obj \<Rightarrow> (string \<times> jsval) list" where
  "identityFields brief = [(''runId'', get brief ''runId''), (''taskId'', get brief ''taskId''), (''agentId'', get brief ''agentId'')]"

definition identity_match :: "obj \<Rightarrow> string \<times> jsval \<Rightarrow> bool" where
  "identity_match handoff f \<longleftrightarrow> nonEmptyString (get handoff (fst f)) \<and> get handoff (fst f) = snd f"

definition identity_conflict :: "obj \<Rightarrow> string \<times> jsval \<Rightarrow> bool" where
  "identity_conflict handoff f \<longleftrightarrow> nonEmptyString (get handoff (fst f)) \<and> get handoff (fst f) \<noteq> snd f"

definition text_of :: "jsval \<Rightarrow> string option" where
  "text_of v = (case v of JStr s \<Rightarrow> if trim s \<noteq> [] then Some s else None | _ \<Rightarrow> None)"

text \<open>What follows \<open>run:\<close> in a task identifier of the run.\<close>

definition task_suffix :: "string option \<Rightarrow> string option \<Rightarrow> string option" where
  "task_suffix run task =
     (case (run, task) of
        (Some r, Some t) \<Rightarrow> if starts_with t (r @ '':'') then Some (drop (length r + 1) t) else None
      | _ \<Rightarrow> None)"

definition character_differences :: "string option \<Rightarrow> string option \<Rightarrow> nat" where
  "character_differences a b =
     (case (a, b) of
        (Some s, Some t) \<Rightarrow> if length s = length t then length (filter (\<lambda>(c, d). c \<noteq> d) (zip s t)) else 0
      | _ \<Rightarrow> 0)"

definition canCanonicalizeIsolatedEcho :: "obj \<Rightarrow> obj \<Rightarrow> bool" where
  "canCanonicalizeIsolatedEcho brief handoff \<longleftrightarrow>
     length (filter (identity_conflict handoff) (identityFields brief)) = 1
     \<and> 2 \<le> length (filter (identity_match handoff) (identityFields brief))"

definition canCanonicalizeCorrelatedRunTaskEcho :: "obj \<Rightarrow> obj \<Rightarrow> bool" where
  "canCanonicalizeCorrelatedRunTaskEcho brief handoff \<longleftrightarrow>
     map fst (filter (identity_conflict handoff) (identityFields brief)) = [''runId'', ''taskId'']
     \<and> identity_match handoff (''agentId'', get brief ''agentId'')
     \<and> character_differences (text_of (get brief ''runId'')) (text_of (get handoff ''runId'')) = 1
     \<and> task_suffix (text_of (get brief ''runId'')) (text_of (get brief ''taskId'')) \<noteq> None
     \<and> task_suffix (text_of (get handoff ''runId'')) (text_of (get handoff ''taskId''))
       = task_suffix (text_of (get brief ''runId'')) (text_of (get brief ''taskId''))"

definition canCanonicalizeIdentityConflict :: "obj \<Rightarrow> obj \<Rightarrow> bool" where
  "canCanonicalizeIdentityConflict brief handoff \<longleftrightarrow>
     canCanonicalizeIsolatedEcho brief handoff \<or> canCanonicalizeCorrelatedRunTaskEcho brief handoff"

definition conflict_json :: "obj \<Rightarrow> string \<times> jsval \<Rightarrow> jsval" where
  "conflict_json handoff f = JObj [(''field'', JStr (fst f)), (''expected'', snd f), (''actual'', get handoff (fst f))]"

text \<open>
  The handoff with its identity, the fields that were filled in, the corrected echoes and the mismatches. The three fields
  have different names, so the loop changes each field at most once and reads it before it is changed.
\<close>

definition fix_identity :: "bool \<Rightarrow> obj \<Rightarrow> string \<times> jsval \<Rightarrow> obj \<Rightarrow> obj" where
  "fix_identity allowed handoff f acc =
     (if \<not> nonEmptyString (get handoff (fst f)) \<or> (identity_conflict handoff f \<and> allowed)
      then AList.update (fst f) (snd f) acc else acc)"

definition normalize_identity :: "obj \<Rightarrow> obj \<Rightarrow> obj \<times> string list \<times> jsval list \<times> jsval list" where
  "normalize_identity brief handoff =
     (let fields = identityFields brief; allowed = canCanonicalizeIdentityConflict brief handoff;
          conflicts = map (conflict_json handoff) (filter (identity_conflict handoff) fields) in
      (fold (fix_identity allowed handoff) fields handoff,
       map fst (filter (\<lambda>f. \<not> nonEmptyString (get handoff (fst f))) fields),
       if allowed then conflicts else [], if allowed then [] else conflicts))"

subsection \<open>The whole handoff\<close>

record normalized_handoff =
  nh_handoff :: jsval
  nh_changed :: bool
  nh_remappedFields :: "string list"
  nh_removedFields :: "string list"
  nh_defaultedFields :: "string list"
  nh_droppedValidationEntries :: "obj list"
  nh_mechanicallyNormalizedEntries :: "obj list"
  nh_identityEchoCorrections :: "jsval list"
  nh_identityMismatches :: "jsval list"

definition default_version :: "obj \<Rightarrow> obj \<times> string list" where
  "default_version = default_own ''schemaVersion'' (JNum 2) ''schemaVersion''"

text \<open>\<open>String(Math.max(1, Number(attempt) || 1))\<close>\<close>

definition authoritativeArtifactVersion :: "jsval \<Rightarrow> string" where
  "authoritativeArtifactVersion attempt = int_string (max 1 (case js_number attempt of Some n \<Rightarrow> if n = 0 then 1 else n | None \<Rightarrow> 1))"

definition set_artifact_version :: "jsval \<Rightarrow> obj \<Rightarrow> obj \<times> string list" where
  "set_artifact_version attempt handoff =
     (let version = JStr (authoritativeArtifactVersion attempt) in
      if get handoff ''artifactVersion'' \<noteq> version then (AList.update ''artifactVersion'' version handoff, [''artifactVersion'']) else (handoff, []))"

definition default_list :: "string \<Rightarrow> obj \<times> string list \<Rightarrow> obj \<times> string list" where
  "default_list k acc = (case default_own k (JArr []) k (fst acc) of (ob, notes) \<Rightarrow> (ob, snd acc @ notes))"

definition default_lists :: "obj \<Rightarrow> obj \<times> string list" where
  "default_lists handoff = fold default_list SAFE_EMPTY_ARRAY_FIELDS (handoff, [])"

definition field_note :: "string \<Rightarrow> obj \<Rightarrow> obj" where
  "field_note k note = assign [(''field'', JStr k)] note"

definition normalize_list :: "(jsval \<Rightarrow> jsval \<times> obj list) \<Rightarrow> string \<Rightarrow> obj \<times> obj list \<Rightarrow> obj \<times> obj list" where
  "normalize_list f k acc =
     (if has_own (fst acc) k
      then (case f (get (fst acc) k) of (v, notes) \<Rightarrow> (AList.update k v (fst acc), snd acc @ map (field_note k) notes))
      else acc)"

definition normalize_lists :: "obj \<Rightarrow> obj \<times> obj list" where
  "normalize_lists handoff = normalize_list normalizeCriterionResults ''criterionResults''
     (fold (\<lambda>k. normalize_list (normalizeStringArray (k \<in> set PATH_ARRAY_FIELDS)) k) (PATH_ARRAY_FIELDS @ TEXT_ARRAY_FIELDS) (handoff, []))"

definition add_finding :: "string \<Rightarrow> string \<Rightarrow> string \<Rightarrow> obj list \<Rightarrow> obj \<Rightarrow> obj" where
  "add_finding type status reason entries handoff =
     (if entries = [] then handoff
      else AList.update ''findings'' (JArr (elements (get handoff ''findings'')
             @ [JObj [(''type'', JStr type), (''status'', JStr status), (''reason'', JStr reason), (''entries'', JArr (map JObj entries))]])) handoff)"

text \<open>The review, then the validation entries; each with its notes.\<close>

definition normalize_review :: "obj \<Rightarrow> obj \<Rightarrow> obj \<times> string list \<times> string list" where
  "normalize_review brief handoff =
     (if has_own handoff ''sddReview''
      then (case normalizeSddReview (get handoff ''sddReview'') of (review, remapped, removed) \<Rightarrow>
            case normalizeReviewProvenance review brief of (provenance, normalizedFields) \<Rightarrow>
              (AList.update ''sddReview'' provenance handoff, remapped @ normalizedFields, removed))
      else (handoff, [], []))"

definition normalize_validation :: "env \<Rightarrow> obj \<Rightarrow> obj \<times> string list \<times> obj list" where
  "normalize_validation e handoff =
     (if has_own handoff ''validation''
      then (case normalizeValidationEntries e (get handoff ''validation'') of (next, defaulted, dropped) \<Rightarrow>
              (add_finding ''handoff_contract_normalization'' ''normalized'' ''malformed_validation_evidence_dropped'' dropped
                 (AList.update ''validation'' next handoff),
               map (\<lambda>i. ''validation['' @ nat_string i @ ''].blocking'') defaulted, dropped))
      else (handoff, [], []))"

definition unchanged_handoff :: "jsval \<Rightarrow> normalized_handoff" where
  "unchanged_handoff handoff =
     \<lparr>nh_handoff = handoff, nh_changed = False, nh_remappedFields = [], nh_removedFields = [], nh_defaultedFields = [],
      nh_droppedValidationEntries = [], nh_mechanicallyNormalizedEntries = [], nh_identityEchoCorrections = [], nh_identityMismatches = []\<rparr>"

definition normalizeModelHandoffContract :: "env \<Rightarrow> jsval \<Rightarrow> obj \<Rightarrow> jsval \<Rightarrow> normalized_handoff" where
  "normalizeModelHandoffContract e handoff brief attempt =
     (case handoff of
        JObj _ \<Rightarrow>
          (let (h1, version) = default_version (fields_of (clone handoff));
               (h2, filled, corrections, mismatches) = normalize_identity brief h1;
               (h3, artifact) = set_artifact_version attempt h2;
               (h4, lists) = default_lists h3;
               (h5, mechanical) = normalize_lists h4;
               h6 = add_finding ''handoff_mechanical_repair'' ''succeeded'' ''mechanically_safe_shape_normalization'' mechanical h5;
               (h7, remapped, removed) = normalize_review brief h6;
               (h8, blocking, dropped) = normalize_validation e h7;
               defaulted = version @ filled @ artifact @ lists @ blocking in
           \<lparr>nh_handoff = JObj h8,
            nh_changed = (remapped \<noteq> [] \<or> removed \<noteq> [] \<or> defaulted \<noteq> [] \<or> corrections \<noteq> [] \<or> dropped \<noteq> [] \<or> mechanical \<noteq> []),
            nh_remappedFields = remapped, nh_removedFields = removed, nh_defaultedFields = defaulted,
            nh_droppedValidationEntries = dropped, nh_mechanicallyNormalizedEntries = mechanical,
            nh_identityEchoCorrections = corrections, nh_identityMismatches = mismatches\<rparr>)
      | _ \<Rightarrow> unchanged_handoff handoff)"

definition MODEL_OWNED_TELEMETRY :: "string list" where
  "MODEL_OWNED_TELEMETRY = [''metrics'', ''executionTelemetry'', ''auxiliaryInvocations'']"

definition stripModelOwnedHandoffTelemetry :: "jsval \<Rightarrow> jsval \<times> string list" where
  "stripModelOwnedHandoffTelemetry handoff =
     (case clone handoff of
        JObj ps \<Rightarrow> (JObj (filter (\<lambda>(k, v). k \<notin> set MODEL_OWNED_TELEMETRY) ps), filter (has_own ps) MODEL_OWNED_TELEMETRY)
      | _ \<Rightarrow> (handoff, []))"

fun contains_text :: "string \<Rightarrow> string \<Rightarrow> bool" where
  "contains_text [] p = (p = [])"
| "contains_text (c # cs) p = (starts_with (c # cs) p \<or> contains_text cs p)"

definition classifyHandoffValidationError :: "string \<Rightarrow> obj" where
  "classifyHandoffValidationError message =
     (if contains_text message ''schema_validation_failed:handoffResult:''
      then [(''code'', JStr ''handoff_schema_invalid''), (''message'', JStr message), (''retryable'', JBool True),
            (''category'', JStr ''contract''), (''repairExhausted'', JBool True)]
      else if contains_text message ''handoff_identity_mismatch''
      then [(''code'', JStr ''handoff_identity_mismatch''), (''message'', JStr message), (''retryable'', JBool False), (''category'', JStr ''contract'')]
      else [(''code'', JStr ''handoff_invalid''), (''message'', JStr message), (''retryable'', JBool False), (''category'', JStr ''contract'')])"

subsection \<open>Telemetry\<close>

definition METRIC_KEYS :: "string list" where
  "METRIC_KEYS = [''inputTokens'', ''outputTokens'', ''cachedInputTokens'', ''contextBytes'', ''costUsd'']"

definition EXECUTION_TELEMETRY_KEYS :: "string list" where
  "EXECUTION_TELEMETRY_KEYS =
     [''modelId'', ''variant'', ''reasoningEffort'', ''stepsLimit'', ''stepsUsed'', ''stepLimitReached'', ''stopReason'',
      ''attempt'', ''sessionId'', ''usageSource'']"

definition REASONING_EFFORTS :: "string list" where
  "REASONING_EFFORTS = [''low'', ''medium'', ''high'', ''max'']"

definition USAGE_SOURCES :: "string list" where
  "USAGE_SOURCES = [''session-export'', ''json-stream'', ''handoff'', ''unavailable'']"

definition nonNegativeNumber :: "jsval \<Rightarrow> bool" where
  "nonNegativeNumber v \<longleftrightarrow> (case v of JNum n \<Rightarrow> 0 \<le> n | _ \<Rightarrow> False)"

definition metricValueIsValid :: "string \<Rightarrow> jsval \<Rightarrow> bool" where
  "metricValueIsValid key v \<longleftrightarrow> key \<in> set METRIC_KEYS \<and> nonNegativeNumber v"

definition telemetryValueIsValid :: "string \<Rightarrow> jsval \<Rightarrow> bool" where
  "telemetryValueIsValid key v =
     (if key = ''modelId'' then (case v of JStr s \<Rightarrow> s \<noteq> [] | _ \<Rightarrow> False)
      else if key \<in> {''variant'', ''stopReason'', ''sessionId''} then v = JNull \<or> is_text v
      else if key = ''reasoningEffort'' then status_in v REASONING_EFFORTS
      else if key = ''stepsLimit'' \<or> key = ''attempt'' then (case v of JNum n \<Rightarrow> 1 \<le> n | _ \<Rightarrow> False)
      else if key = ''stepsUsed'' then v = JNull \<or> nonNegativeNumber v
      else if key = ''stepLimitReached'' then v = JNull \<or> is_flag v
      else if key = ''usageSource'' then status_in v USAGE_SOURCES
      else False)"

definition sanitizeObject :: "string list \<Rightarrow> (string \<Rightarrow> jsval \<Rightarrow> bool) \<Rightarrow> jsval \<Rightarrow> jsval \<times> string list" where
  "sanitizeObject allowed valid v =
     (case v of
        JObj ps \<Rightarrow>
          (JObj (filter (\<lambda>(k, item). k \<in> set allowed \<and> valid k item) ps),
           map fst (filter (\<lambda>(k, item). \<not> (k \<in> set allowed \<and> valid k item)) ps))
      | _ \<Rightarrow> (coalesce v JUndef, []))"

text \<open>The handoff and the removed keys of both envelopes.\<close>

definition sanitizeHandoffTelemetryShape :: "obj \<Rightarrow> obj \<times> string list \<times> string list" where
  "sanitizeHandoffTelemetryShape handoff =
     (let (metrics, removedMetricKeys) = sanitizeObject METRIC_KEYS metricValueIsValid (get handoff ''metrics'');
          (telemetry, removedTelemetryKeys) = sanitizeObject EXECUTION_TELEMETRY_KEYS telemetryValueIsValid (get handoff ''executionTelemetry'');
          h1 = (if has_own handoff ''metrics'' then AList.update ''metrics'' (coalesce metrics (JObj [])) handoff else handoff);
          h2 = (if has_own handoff ''executionTelemetry'' then AList.update ''executionTelemetry'' (coalesce telemetry (JObj [])) h1 else h1) in
      (h2, removedMetricKeys, removedTelemetryKeys))"

subsection \<open>Lemmas\<close>

lemma has_own_update [simp]: "has_own (AList.update k v ob) k' \<longleftrightarrow> k' = k \<or> has_own ob k'"
  by (auto simp: has_own_def dom_update simp flip: dom_map_of_conv_image_fst)

lemma get_default_own: "get (fst (default_own k v note ob)) k' = (if k' = k \<and> \<not> has_own ob k then v else get ob k')"
  by (simp add: default_own_def)

lemma has_own_default_own: "has_own (fst (default_own k v note ob)) k' \<longleftrightarrow> k' = k \<or> has_own ob k'"
  by (auto simp: default_own_def)

lemma get_normalize_identity:
  "k \<notin> {''runId'', ''taskId'', ''agentId''} \<Longrightarrow> get (fst (normalize_identity brief h)) k = get h k"
  by (simp add: normalize_identity_def Let_def identityFields_def fix_identity_def)

lemma default_list_simps:
  "get (fst (default_list k acc)) k' = (if k' = k \<and> \<not> has_own (fst acc) k then JArr [] else get (fst acc) k')"
  "has_own (fst (default_list k acc)) k' \<longleftrightarrow> k' = k \<or> has_own (fst acc) k'"
  by (auto simp: default_list_def default_own_def)

lemma elements_default_lists:
  "elements (get (fst (fold default_list ks acc)) k) = elements (get (fst acc) k)"
proof (induction ks arbitrary: acc)
  case (Cons k' ks)
  have "\<not> has_own ob k \<Longrightarrow> get ob k = JUndef" for ob :: obj
    by (simp add: has_own_def get_def map_of_eq_None_iff[THEN iffD2])
  with Cons show ?case by (auto simp: default_list_simps)
qed simp

lemma has_own_default_lists: "k \<in> set ks \<or> has_own (fst acc) k \<Longrightarrow> has_own (fst (fold default_list ks acc)) k"
proof (induction ks arbitrary: acc)
  case (Cons k' ks)
  from Cons.prems have "k \<in> set ks \<or> has_own (fst (default_list k' acc)) k" by (auto simp: default_list_simps)
  from Cons.IH[OF this] show ?case by simp
qed simp

lemma normalize_list_simps:
  "get (fst (normalize_list f k acc)) k' = (if k' = k \<and> has_own (fst acc) k then fst (f (get (fst acc) k)) else get (fst acc) k')"
  "has_own (fst (normalize_list f k acc)) k' \<longleftrightarrow> has_own (fst acc) k'"
  by (auto simp: normalize_list_def split: prod.splits)

lemma normalize_lists_other:
  "k \<notin> set ks \<Longrightarrow> get (fst (fold (\<lambda>k. normalize_list (f k) k) ks acc)) k = get (fst acc) k"
  "has_own (fst (fold (\<lambda>k. normalize_list (f k) k) ks acc)) k \<longleftrightarrow> has_own (fst acc) k"
  by (induction ks arbitrary: acc) (auto simp: normalize_list_simps)

lemma get_add_finding: "k \<noteq> ''findings'' \<Longrightarrow> get (add_finding t st r es ob) k = get ob k"
  by (simp add: add_finding_def)

lemma has_own_add_finding: "has_own ob k \<Longrightarrow> has_own (add_finding t st r es ob) k"
  by (simp add: add_finding_def)

lemma normalize_review_other:
  "k \<noteq> ''sddReview'' \<Longrightarrow> get (fst (normalize_review brief h)) k = get h k"
  "has_own h k \<Longrightarrow> has_own (fst (normalize_review brief h)) k"
  by (auto simp: normalize_review_def split: prod.splits)

lemma normalize_validation_other:
  "k \<notin> {''validation'', ''findings''} \<Longrightarrow> get (fst (normalize_validation e h)) k = get h k"
  by (auto simp: normalize_validation_def get_add_finding split: prod.splits)

lemma normalize_validation_own:
  "has_own h ''validation'' \<Longrightarrow> get (fst (normalize_validation e h)) ''validation'' = fst (normalizeValidationEntries e (get h ''validation''))"
  by (auto simp: normalize_validation_def get_add_finding split: prod.splits)

lemma elements_normalize_entries:
  "elements (fst (normalize_entries f v)) = List.map_filter (fst \<circ> f) (enumerate 0 (elements v))"
  by (cases v) (simp_all add: normalize_entries_def Let_def map_filter_def comp_def filter_map)

text \<open>The last steps of the normalisation, by name.\<close>

definition shaped :: "obj \<Rightarrow> jsval \<Rightarrow> obj \<Rightarrow> obj" where
  "shaped brief attempt ps = fst (default_lists (fst (set_artifact_version attempt (fst (normalize_identity brief (fst (default_version ps)))))))"

definition judged :: "env \<Rightarrow> obj \<Rightarrow> obj \<times> obj list \<Rightarrow> obj" where
  "judged e brief h = fst (normalize_validation e (fst (normalize_review brief
     (add_finding ''handoff_mechanical_repair'' ''succeeded'' ''mechanically_safe_shape_normalization'' (snd h) (fst h)))))"

lemma normalized_handoff_eq:
  "clone (JObj ps) = JObj ps \<Longrightarrow>
     nh_handoff (normalizeModelHandoffContract e (JObj ps) brief attempt) = JObj (judged e brief (normalize_lists (shaped brief attempt ps)))"
  by (simp add: normalizeModelHandoffContract_def shaped_def judged_def fields_of_def Let_def split: prod.splits del: clone.simps)

lemma elements_shaped:
  "k \<notin> {''schemaVersion'', ''runId'', ''taskId'', ''agentId'', ''artifactVersion''} \<Longrightarrow>
     elements (get (shaped brief attempt ps) k) = elements (get ps k)"
  by (simp add: shaped_def default_lists_def elements_default_lists set_artifact_version_def Let_def get_normalize_identity
      default_version_def get_default_own)

lemma has_own_shaped: "k \<in> set SAFE_EMPTY_ARRAY_FIELDS \<Longrightarrow> has_own (shaped brief attempt ps) k"
  by (simp add: shaped_def default_lists_def has_own_default_lists)

lemma has_own_normalize_lists: "has_own (fst (normalize_lists h)) k \<longleftrightarrow> has_own h k"
  by (simp add: normalize_lists_def normalize_list_simps normalize_lists_other)

lemma normalize_lists_criteria:
  "has_own h ''criterionResults'' \<Longrightarrow> get (fst (normalize_lists h)) ''criterionResults'' = fst (normalizeCriterionResults (get h ''criterionResults''))"
  by (simp add: normalize_lists_def normalize_list_simps normalize_lists_other PATH_ARRAY_FIELDS_def TEXT_ARRAY_FIELDS_def)

lemma normalize_lists_validation: "get (fst (normalize_lists h)) ''validation'' = get h ''validation''"
  by (simp add: normalize_lists_def normalize_list_simps normalize_lists_other PATH_ARRAY_FIELDS_def TEXT_ARRAY_FIELDS_def)

text \<open>The judged lists, entry by entry.\<close>

lemma normalized_criteria:
  assumes "clone (JObj ps) = JObj ps" and "nh_handoff (normalizeModelHandoffContract e (JObj ps) brief attempt) = JObj qs"
  shows "elements (get qs ''criterionResults'') = List.map_filter (fst \<circ> criterion_entry) (enumerate 0 (elements (get ps ''criterionResults'')))"
proof -
  have own: "has_own (shaped brief attempt ps) ''criterionResults''"
    by (rule has_own_shaped) (simp add: SAFE_EMPTY_ARRAY_FIELDS_def)
  have "get qs ''criterionResults'' = get (fst (normalize_lists (shaped brief attempt ps))) ''criterionResults''"
    using assms normalized_handoff_eq[OF assms(1)]
    by (auto simp: judged_def normalize_validation_other normalize_review_other get_add_finding)
  then show ?thesis
    using own by (simp add: normalize_lists_criteria normalizeCriterionResults_def elements_normalize_entries elements_shaped)
qed

lemma normalized_validation:
  assumes "clone (JObj ps) = JObj ps" and "nh_handoff (normalizeModelHandoffContract e (JObj ps) brief attempt) = JObj qs"
  shows "elements (get qs ''validation'') = List.map_filter (fst \<circ> validation_entry e) (enumerate 0 (elements (get ps ''validation'')))"
proof -
  have "has_own (fst (normalize_lists (shaped brief attempt ps))) ''validation''"
    by (simp add: has_own_normalize_lists has_own_shaped SAFE_EMPTY_ARRAY_FIELDS_def)
  then have "get qs ''validation'' = fst (normalizeValidationEntries e (get (shaped brief attempt ps) ''validation''))"
    using assms normalized_handoff_eq[OF assms(1)]
    by (auto simp: judged_def normalize_validation_own normalize_review_other get_add_finding has_own_add_finding normalize_lists_validation)
  then show ?thesis
    by (simp add: normalizeValidationEntries_def case_prod_beta elements_normalize_entries elements_shaped)
qed

lemma kept_entry: "r \<in> set (List.map_filter (fst \<circ> f) (enumerate n xs)) \<Longrightarrow> \<exists>i raw. raw \<in> set xs \<and> fst (f (i, raw)) = Some r"
proof -
  assume "r \<in> set (List.map_filter (fst \<circ> f) (enumerate n xs))"
  then obtain i raw where "(i, raw) \<in> set (enumerate n xs)" "fst (f (i, raw)) = Some r"
    by (auto simp: map_filter_def)
  moreover from this(1) have "raw \<in> set xs" by (auto simp: enumerate_eq_zip dest: set_zip_rightD)
  ultimately show ?thesis by blast
qed

lemma criterion_kept:
  "fst (criterion_entry (i, raw)) = Some r \<Longrightarrow>
     field r ''criterionId'' = field raw ''criterionId'' \<and> field r ''result'' = field raw ''result'' \<and> field r ''evidence'' = field raw ''evidence''"
  by (auto simp: criterion_entry_def split: jsval.splits if_splits)

lemma validation_kept:
  "fst (validation_entry e (i, raw)) = Some r \<Longrightarrow>
     field r ''command'' = field raw ''command'' \<and> field r ''phase'' = field raw ''phase'' \<and> field r ''result'' = field raw ''result''
     \<and> field r ''evidence'' = field raw ''evidence'' \<and> (is_runtime r \<longrightarrow> runtime_receipt e (fields_of raw))"
  by (auto simp: validation_entry_def is_runtime_def fields_of_def split: jsval.splits if_splits option.splits)

lemma filter_singleton_mem: "filter P xs = [x] \<Longrightarrow> x \<in> set xs \<and> P x"
proof -
  assume "filter P xs = [x]"
  then have "x \<in> set (filter P xs)" by simp
  then show ?thesis by simp
qed

text \<open>What an original entry has to say for an accepted criterion or command.\<close>

definition criterion_evidenced :: "obj \<Rightarrow> jsval \<Rightarrow> bool" where
  "criterion_evidenced handoff criterion \<longleftrightarrow> (\<exists>entry \<in> set (elements (get handoff ''criterionResults'')).
     field entry ''criterionId'' = field criterion ''id'' \<and> field entry ''result'' = JStr ''passed'' \<and> has_evidence entry)"

definition command_evidenced :: "env \<Rightarrow> obj \<Rightarrow> jsval \<Rightarrow> bool" where
  "command_evidenced e handoff command \<longleftrightarrow> (\<exists>entry \<in> set (elements (get handoff ''validation'')).
     field entry ''command'' = command \<and> field entry ''phase'' = JStr ''final'' \<and> field entry ''result'' = JStr ''passed''
     \<and> has_evidence entry \<and> runtime_receipt e (fields_of entry))"

lemma criterion_proven_evidenced:
  assumes "clone (JObj ps) = JObj ps" and "nh_handoff (normalizeModelHandoffContract e (JObj ps) brief attempt) = JObj qs"
    and "criterion_proven (elements (get qs ''criterionResults'')) criterion"
  shows "criterion_evidenced ps criterion"
proof -
  from assms(3) obtain r where "r \<in> set (elements (get qs ''criterionResults''))" and id: "field r ''criterionId'' = field criterion ''id''"
      and res: "field r ''result'' = JStr ''passed''" and ev: "has_evidence r"
    unfolding criterion_proven_def by (blast dest: filter_singleton_mem)
  then obtain i raw where raw: "raw \<in> set (elements (get ps ''criterionResults''))" "fst (criterion_entry (i, raw)) = Some r"
    unfolding normalized_criteria[OF assms(1,2)] using kept_entry[where f = criterion_entry] by metis
  with criterion_kept[OF raw(2)] id res ev show ?thesis
    by (auto simp: criterion_evidenced_def has_evidence_def)
qed

lemma command_proven_evidenced:
  assumes "clone (JObj ps) = JObj ps" and "nh_handoff (normalizeModelHandoffContract e (JObj ps) brief attempt) = JObj qs"
    and "command_proven (elements (get qs ''validation'')) command"
  shows "command_evidenced e ps command"
proof -
  from assms(3) obtain r where "r \<in> set (elements (get qs ''validation''))" and cmd: "field r ''command'' = command" "final_blocking r" "is_runtime r"
      and res: "field r ''result'' = JStr ''passed''" and ev: "has_evidence r"
    unfolding command_proven_def by (blast dest: filter_singleton_mem)
  then obtain i raw where raw: "raw \<in> set (elements (get ps ''validation''))" "fst (validation_entry e (i, raw)) = Some r"
    unfolding normalized_validation[OF assms(1,2)] using kept_entry[where f = "validation_entry e"] by metis
  with validation_kept[OF raw(2)] cmd res ev show ?thesis
    by (auto simp: command_evidenced_def has_evidence_def final_blocking_def)
qed

lemma accepted_violations: "co_accepted (evaluateCompletion brief handoff) \<Longrightarrow> completion_violations brief handoff = []"
  by (auto simp: evaluateCompletion_def Let_def split: if_splits)

text \<open>C12: bringing a handoff into shape adds no evidence. When the completion gate accepts the normalised handoff, every
  blocking criterion has an entry in the handoff the agent wrote that passed with evidence, and every required command has
  an entry there with the complete shape of a runtime receipt that passed with evidence.\<close>

theorem normalization_adds_no_evidence:
  assumes "clone (JObj ps) = JObj ps"
    and "nh_handoff (normalizeModelHandoffContract e (JObj ps) brief attempt) = JObj qs"
    and "co_accepted (evaluateCompletion brief qs)"
  shows "list_all (criterion_evidenced ps) (requiredCriteria brief) \<and> list_all (command_evidenced e ps) (elements (get brief ''validation''))"
proof -
  from accepted_violations[OF assms(3)]
  have "criterion_proven (elements (get qs ''criterionResults'')) c" if "c \<in> set (requiredCriteria brief)" for c
    using that by (auto simp: completion_violations_def requiredCriterionViolations_def simp flip: criterion_violations_Nil)
  moreover from accepted_violations[OF assms(3)]
  have "command_proven (elements (get qs ''validation'')) c" if "c \<in> set (elements (get brief ''validation''))" for c
    using that by (auto simp: completion_violations_def requiredValidationViolations_def Let_def simp flip: command_violations_Nil)
  ultimately show ?thesis
    using criterion_proven_evidenced[OF assms(1,2)] command_proven_evidenced[OF assms(1,2)] by (simp add: list_all_iff)
qed

definition sample_handoff :: obj where
  "sample_handoff =
     [(''status'', JStr ''complete''), (''runId'', JStr ''r''), (''taskId'', JStr ''r:t''), (''agentId'', JStr ''qa''),
      (''criterionResults'', JArr [JObj [(''criterionId'', JStr ''AC-1''), (''result'', JStr ''passed''), (''evidence'', JStr ''log''), (''extra'', JNum 1)], JNull]),
      (''validation'', JArr [JObj [(''command'', JStr ''npm test''), (''phase'', JStr ''final''), (''result'', JStr ''passed''),
         (''evidence'', JStr ''ok''), (''authority'', JStr ''runtime''), (''exitCode'', JNum 0), (''timedOut'', JBool False), (''executedAt'', JStr ''5'')]])]"

definition sample_brief :: obj where
  "sample_brief =
     [(''runId'', JStr ''r''), (''taskId'', JStr ''r:t''), (''agentId'', JStr ''qa''), (''validation'', JArr [JStr ''npm test'']),
      (''acceptanceCriteria'', JArr [JObj [(''id'', JStr ''AC-1''), (''blocking'', JBool True)]])]"

theorem normalization_adds_no_evidence_witness:
  "list_all (criterion_evidenced sample_handoff) (requiredCriteria sample_brief)
   \<and> list_all (command_evidenced sample_env sample_handoff) (elements (get sample_brief ''validation''))"
proof (rule normalization_adds_no_evidence)
  show "clone (JObj sample_handoff) = JObj sample_handoff" by (simp add: sample_handoff_def)
  show "nh_handoff (normalizeModelHandoffContract sample_env (JObj sample_handoff) sample_brief (JNum 1))
     = JObj (fields_of (nh_handoff (normalizeModelHandoffContract sample_env (JObj sample_handoff) sample_brief (JNum 1))))"
    by code_simp
  show "co_accepted (evaluateCompletion sample_brief
     (fields_of (nh_handoff (normalizeModelHandoffContract sample_env (JObj sample_handoff) sample_brief (JNum 1)))))"
    by code_simp
qed

text \<open>
  Exactly the handoffs that name the task of the brief leave no identity mismatch, and a handoff that names another
  agent and another task is not renamed.
\<close>

lemma judged_identity:
  "k \<in> {''runId'', ''taskId'', ''agentId''} \<Longrightarrow> get (judged e brief (normalize_lists (shaped brief attempt ps))) k
     = get (fst (normalize_identity brief (fst (default_version ps)))) k"
  by (auto simp: judged_def normalize_validation_other normalize_review_other get_add_finding normalize_lists_def normalize_list_simps
      normalize_lists_other PATH_ARRAY_FIELDS_def TEXT_ARRAY_FIELDS_def shaped_def default_lists_def SAFE_EMPTY_ARRAY_FIELDS_def
      default_list_simps set_artifact_version_def Let_def)

lemma normalize_identity_iff:
  "snd (snd (snd (normalize_identity brief h))) = [] \<longleftrightarrow>
     (\<forall>f \<in> set (identityFields brief). get (fst (normalize_identity brief h)) (fst f) = snd f)"
  by (auto simp: normalize_identity_def Let_def identityFields_def fix_identity_def identity_conflict_def)

lemma normalized_identity_iff:
  assumes "clone (JObj ps) = JObj ps" and "nh_handoff (normalizeModelHandoffContract e (JObj ps) brief attempt) = JObj qs"
  shows "nh_identityMismatches (normalizeModelHandoffContract e (JObj ps) brief attempt) = [] \<longleftrightarrow>
    get qs ''runId'' = get brief ''runId'' \<and> get qs ''taskId'' = get brief ''taskId'' \<and> get qs ''agentId'' = get brief ''agentId''"
proof -
  have "nh_identityMismatches (normalizeModelHandoffContract e (JObj ps) brief attempt)
      = snd (snd (snd (normalize_identity brief (fst (default_version ps)))))"
    using assms(1) by (simp add: normalizeModelHandoffContract_def fields_of_def Let_def split: prod.splits del: clone.simps)
  moreover have "qs = judged e brief (normalize_lists (shaped brief attempt ps))"
    using assms normalized_handoff_eq[OF assms(1)] by simp
  ultimately show ?thesis
    by (simp add: normalize_identity_iff judged_identity) (simp add: identityFields_def)
qed

lemma other_agent_not_renamed:
  assumes "identity_conflict handoff (''agentId'', get brief ''agentId'')"
    and "identity_conflict handoff (''runId'', get brief ''runId'') \<or> identity_conflict handoff (''taskId'', get brief ''taskId'')"
  shows "\<not> canCanonicalizeIdentityConflict brief handoff"
  using assms by (auto simp: canCanonicalizeIdentityConflict_def canCanonicalizeIsolatedEcho_def canCanonicalizeCorrelatedRunTaskEcho_def
      identityFields_def identity_match_def identity_conflict_def)

end
