(* ===== verification/Workspace.thy ===== *)
theory Workspace
  imports HandoffContract PgStore
begin

text \<open>
  The workspaces of agents (\<open>workspace.mjs\<close>): what an attempt changed, whether the paths a handoff declares agree with it,
  and the integration of the approved changes into the repository.

  The world is the database and the files. A file has an absolute path, given by its segments, and a content: a JSON
  document, as \<open>writeJson\<close> writes it, or other text. Directories and symbolic links are not modelled, so creating a
  workspace is left out. \<open>git\<close> stands for the git command: from its arguments, the directory it runs in and the files it
  yields a status, its outputs and the files it leaves.
\<close>

subsection \<open>Files\<close>

datatype content = Text string | Json jsval

type_synonym path = "string list"

type_synonym files = "(path \<times> content) list"

record world =
  w_db :: db
  w_files :: files

type_synonym 'a wm = "(world, 'a) sm"

definition liftDb :: "'a pg_m \<Rightarrow> 'a wm" where
  "liftDb m w = (case m (w_db w) of (r, s) \<Rightarrow> (r, w\<lparr>w_db := s\<rparr>))"

definition at_path :: "path \<Rightarrow> string \<Rightarrow> path" where
  "at_path base p = norm_segments base (split_path [] p)"

definition utf8 :: "string \<Rightarrow> string" where
  "utf8 s = concat (map (\<lambda>c. let n = of_char c :: nat in if n < 128 then [c] else [char_of (192 + n div 64), char_of (128 + n mod 64)]) s)"

text \<open>\<open>JSON.stringify(v, null, 2)\<close> at an indentation.\<close>

definition NL :: string where
  "NL = [CHR 0x0A]"

fun json_pretty :: "nat \<Rightarrow> jsval \<Rightarrow> string" where
  "json_pretty i (JArr []) = ''[]''"
| "json_pretty i (JArr (x # xs)) =
     ''['' @ NL @ join ('','' @ NL) (map (\<lambda>v. replicate (i + 2) CHR '' '' @ json_pretty (i + 2) v) (x # xs)) @ NL @ replicate i CHR '' '' @ '']''"
| "json_pretty i (JObj ps) =
     (if filter (\<lambda>(k, v). v \<noteq> JUndef) ps = [] then ''{}''
      else ''{'' @ NL @ join ('','' @ NL) (map (\<lambda>(k, v). replicate (i + 2) CHR '' '' @ quote k @ '': '' @ json_pretty (i + 2) v)
             (filter (\<lambda>(k, v). v \<noteq> JUndef) ps)) @ NL @ replicate i CHR '' '' @ ''}'')"
| "json_pretty i v = json_text v"

definition file_bytes :: "content \<Rightarrow> string" where
  "file_bytes c = (case c of Text s \<Rightarrow> s | Json v \<Rightarrow> utf8 (json_pretty 0 v @ NL))"

definition exists_file :: "path \<Rightarrow> bool wm" where
  "exists_file p = getsM (\<lambda>w. map_of (w_files w) p \<noteq> None)"

definition readJson :: "path \<Rightarrow> jsval wm" where
  "readJson p = bindM (getsM (\<lambda>w. map_of (w_files w) p)) (\<lambda>c.
     case c of
       None \<Rightarrow> throwM (''ENOENT: no such file or directory, open '' @ path_string p)
     | Some (Json v) \<Rightarrow> returnM (clone v)
     | Some (Text s) \<Rightarrow> throwM ''Unexpected token in JSON'')"

definition writeJson :: "path \<Rightarrow> jsval \<Rightarrow> unit wm" where
  "writeJson p v = modifyM (\<lambda>w. w\<lparr>w_files := AList.update p (Json v) (w_files w)\<rparr>)"

definition fingerprint_at :: "env \<Rightarrow> files \<Rightarrow> path \<Rightarrow> fingerprint option" where
  "fingerprint_at e fs p = map_option (\<lambda>c. \<lparr>fp_sha256 = sha256 e (file_bytes c), fp_bytes = int (length (file_bytes c))\<rparr>) (map_of fs p)"

definition fileFingerprint :: "env \<Rightarrow> path \<Rightarrow> fingerprint option wm" where
  "fileFingerprint e p = getsM (\<lambda>w. fingerprint_at e (w_files w) p)"

definition fingerprint_json :: "fingerprint option \<Rightarrow> jsval" where
  "fingerprint_json f = (case f of None \<Rightarrow> JNull | Some fp \<Rightarrow> JObj [(''sha256'', JStr (fp_sha256 fp)), (''bytes'', JNum (fp_bytes fp))])"

definition fingerprint_sha :: "fingerprint option \<Rightarrow> jsval" where
  "fingerprint_sha f = (case f of None \<Rightarrow> JNull | Some fp \<Rightarrow> JStr (fp_sha256 fp))"

text \<open>The paths below a directory, relative to it, without those that pass through an ignored name.\<close>

definition IGNORED_DIRECTORIES :: "string list" where
  "IGNORED_DIRECTORIES = [''.git'', ''.runtime'', ''dist'', ''node_modules'', ''release'', ''target'']"

definition below_root :: "path \<Rightarrow> path \<Rightarrow> string option" where
  "below_root root p =
     (let rel = drop (length root) p in
      if take (length root) p = root \<and> rel \<noteq> [] \<and> set rel \<inter> set IGNORED_DIRECTORIES = {} then Some (join ''/'' rel) else None)"

definition snapshotFiles :: "env \<Rightarrow> path \<Rightarrow> string list \<Rightarrow> (string \<times> fingerprint option) list wm" where
  "snapshotFiles e root patterns = getsM (\<lambda>w. List.map_filter (\<lambda>(p, c).
     case below_root root p of
       None \<Rightarrow> None
     | Some rel \<Rightarrow> (if patterns \<noteq> [] \<and> \<not> anyPatternMatches patterns rel \<and> ''**'' \<notin> set patterns then None
                    else Some (rel, fingerprint_at e (w_files w) p))) (w_files w))"

record process_result =
  pr_status :: int
  pr_stdout :: string
  pr_stderr :: string

type_synonym git = "string list \<Rightarrow> path \<Rightarrow> files \<Rightarrow> process_result \<times> files"

definition runGit :: "git \<Rightarrow> string list \<Rightarrow> path \<Rightarrow> process_result wm" where
  "runGit git args cwd w = (case git args cwd (w_files w) of (r, fs) \<Rightarrow> (Inr r, w\<lparr>w_files := fs\<rparr>))"

record workspace =
  ws_mode :: string
  ws_path :: path
  ws_baseline :: "(string \<times> fingerprint option) list option"
  ws_snapshotPatterns :: "string list"

definition baseline_of :: "workspace \<Rightarrow> string \<Rightarrow> fingerprint option" where
  "baseline_of ws p = (case ws_baseline ws of None \<Rightarrow> None | Some m \<Rightarrow> (case map_of m p of None \<Rightarrow> None | Some f \<Rightarrow> f))"

subsection \<open>Declared paths\<close>

definition toolingSideEffectPatterns :: "string list" where
  "toolingSideEffectPatterns =
     [''.opencode/package.json'', ''.opencode/package-lock.json'', ''.opencode/npm-shrinkwrap.json'', ''.opencode/pnpm-lock.yaml'',
      ''.opencode/yarn.lock'', ''.opencode/bun.lock'', ''.opencode/bun.lockb'', ''.opencode/.cache/**'']"

definition isToolingSideEffectPath :: "string \<Rightarrow> bool" where
  "isToolingSideEffectPath p \<longleftrightarrow> anyPatternMatches toolingSideEffectPatterns (clean_path p)"

definition normalizeDeclaredPaths :: "string list \<Rightarrow> string list" where
  "normalizeDeclaredPaths ps = sort (uniq (filter (\<lambda>p. p \<noteq> []) (map clean_path ps)))"

definition owned_paths :: "obj \<Rightarrow> string list" where
  "owned_paths task = map js_string (elements (get task ''ownedPaths''))"

text \<open>What is known of a path: its fingerprint when it is valid, otherwise the reason why it is not.\<close>

type_synonym verdict = "string + fingerprint"

definition verify_unchanged :: "env \<Rightarrow> git \<Rightarrow> workspace \<Rightarrow> string \<Rightarrow> fingerprint \<Rightarrow> verdict wm" where
  "verify_unchanged e git ws p current =
     (if ws_mode ws = ''worktree'' then
        bindM (runGit git [''cat-file'', ''-e'', ''HEAD:'' @ p] (ws_path ws)) (\<lambda>baseline.
        if pr_status baseline \<noteq> 0 then returnM (Inl ''missing_in_baseline'')
        else
          bindM (runGit git [''diff'', ''--quiet'', ''HEAD'', ''--'', p] (ws_path ws)) (\<lambda>diff.
          returnM (if pr_status diff \<noteq> 0 then Inl ''changed_in_attempt'' else Inr current)))
      else
        returnM (case baseline_of ws p of
            None \<Rightarrow> Inl ''missing_in_baseline''
          | Some baseline \<Rightarrow> if sameFileFingerprint (Some baseline) (Some current) then Inr current else Inl ''changed_in_attempt''))"

definition verify_missing :: "git \<Rightarrow> workspace \<Rightarrow> string \<Rightarrow> verdict wm" where
  "verify_missing git ws p =
     (if ws_mode ws = ''worktree'' then
        bindM (runGit git [''cat-file'', ''-e'', ''HEAD:'' @ p] (ws_path ws)) (\<lambda>baseline.
        returnM (Inl (if pr_status baseline = 0 then ''missing_in_workspace'' else ''missing_in_workspace_and_baseline'')))
      else returnM (Inl (if baseline_of ws p \<noteq> None then ''missing_in_workspace'' else ''missing_in_workspace_and_baseline'')))"

definition verifyReusablePath :: "env \<Rightarrow> git \<Rightarrow> workspace \<Rightarrow> obj \<Rightarrow> string \<Rightarrow> string list \<Rightarrow> verdict wm" where
  "verifyReusablePath e git ws task p changedSet =
     (if isToolingSideEffectPath p then returnM (Inl ''tooling_side_effect'')
      else if \<not> anyPatternMatches (owned_paths task) p then returnM (Inl ''ownership_violation'')
      else if p \<in> set changedSet then returnM (Inl ''changed_in_attempt'')
      else
        bindM (fileFingerprint e (at_path (ws_path ws) p)) (\<lambda>current.
        case current of None \<Rightarrow> verify_missing git ws p | Some fp \<Rightarrow> verify_unchanged e git ws p fp))"

definition verifyReadOnlyContextPath :: "env \<Rightarrow> git \<Rightarrow> workspace \<Rightarrow> string \<Rightarrow> string list \<Rightarrow> verdict wm" where
  "verifyReadOnlyContextPath e git ws p changedSet =
     (if isToolingSideEffectPath p then returnM (Inl ''tooling_side_effect'')
      else if p \<in> set changedSet then returnM (Inl ''changed_in_attempt'')
      else
        bindM (fileFingerprint e (at_path (ws_path ws) p)) (\<lambda>current.
        case current of None \<Rightarrow> returnM (Inl ''missing_in_workspace'') | Some fp \<Rightarrow> verify_unchanged e git ws p fp))"

fun mentions_path :: "string \<Rightarrow> jsval \<Rightarrow> bool" where
  "mentions_path p (JStr s) = contains_text (replace_char CHR 0x5C CHR ''/'' s) p"
| "mentions_path p (JArr xs) = list_ex (mentions_path p) xs"
| "mentions_path p (JObj ps) = list_ex (\<lambda>(k, v). mentions_path p v) ps"
| "mentions_path p v = False"

definition handoffReferencesPathOutsideDisposition :: "obj \<Rightarrow> string \<Rightarrow> bool" where
  "handoffReferencesPathOutsideDisposition handoff p \<longleftrightarrow>
     list_ex (\<lambda>(k, v). k \<notin> {''changedPaths'', ''reusedPaths''} \<and> mentions_path (replace_char CHR 0x5C CHR ''/'' p) v) handoff"

definition zero_file_review :: "obj \<Rightarrow> bool" where
  "zero_file_review task \<longleftrightarrow> get task ''role'' = JStr ''contract''
     \<and> ends_with (js_string (coalesce (get task ''stage'') (JStr []))) ''-review''
     \<and> js_number (coalesce (get task ''estimatedFiles'') (JNum (- 1))) = Some 0"

definition canDropPhantomGovernanceReuse :: "obj \<Rightarrow> obj \<Rightarrow> string \<Rightarrow> string \<Rightarrow> bool" where
  "canDropPhantomGovernanceReuse task handoff p reason \<longleftrightarrow>
     reason = ''missing_in_workspace_and_baseline'' \<and> zero_file_review task \<and> get handoff ''status'' = JStr ''complete''
     \<and> \<not> handoffReferencesPathOutsideDisposition handoff p"

subsection \<open>Failures that may be repaired by another attempt\<close>

definition agent_implementation :: "obj \<Rightarrow> obj \<Rightarrow> bool" where
  "agent_implementation task handoff \<longleftrightarrow> get task ''role'' = JStr ''implementation''
     \<and> js_string (coalesce (get task ''stage'') (JStr [])) = ''implementation''
     \<and> js_string (coalesce (get task ''executionMode'') (JStr ''agent'')) = ''agent'' \<and> get handoff ''status'' = JStr ''complete''"

definition isRetryableImplementationReuseFailure :: "obj \<Rightarrow> obj \<Rightarrow> (string \<times> string) list \<Rightarrow> bool" where
  "isRetryableImplementationReuseFailure task handoff invalidReused \<longleftrightarrow>
     agent_implementation task handoff \<and> invalidReused \<noteq> []
     \<and> list_all (\<lambda>entry. snd entry = ''missing_in_workspace_and_baseline'') invalidReused"

definition isRetryableGovernanceEvidenceReuseFailure :: "obj \<Rightarrow> obj \<Rightarrow> (string \<times> string) list \<Rightarrow> bool" where
  "isRetryableGovernanceEvidenceReuseFailure task handoff invalidReused \<longleftrightarrow>
     zero_file_review task \<and> js_string (coalesce (get task ''executionMode'') (JStr ''agent'')) = ''agent''
     \<and> get handoff ''status'' = JStr ''complete'' \<and> invalidReused \<noteq> []
     \<and> list_all (\<lambda>entry. snd entry = ''missing_in_workspace_and_baseline''
          \<and> handoffReferencesPathOutsideDisposition handoff (fst entry)) invalidReused"

definition isRetryableImplementationOwnershipFailure :: "obj \<Rightarrow> obj \<Rightarrow> string list \<Rightarrow> jsval list \<Rightarrow> bool" where
  "isRetryableImplementationOwnershipFailure task handoff unauthorizedChanged siblingTasks \<longleftrightarrow>
     agent_implementation task handoff \<and> unauthorizedChanged \<noteq> []
     \<and> list_all (\<lambda>p. list_ex (\<lambda>candidate. field candidate ''taskId'' \<noteq> get task ''taskId''
          \<and> js_string (coalesce (field candidate ''role'') (JStr [])) \<in> {''implementation'', ''platform''}
          \<and> anyPatternMatches (map js_string (elements (field candidate ''ownedPaths''))) p) siblingTasks) unauthorizedChanged"

subsection \<open>The disposition of the declared paths\<close>

record change_inspection =
  in_changedPaths :: "string list"
  in_unauthorized :: "string list"
  in_toolingSideEffects :: "string list"
  in_observedPaths :: "string list"
  in_source :: jsval

record path_disposition =
  di_changedPaths :: "string list"
  di_reused :: "(string \<times> fingerprint) list"
  di_contextOnly :: "(string \<times> fingerprint) list"
  di_ghostDeclarations :: "string list"
  di_reclassifiedReusedToChanged :: "string list"
  di_baselineDetectedChanges :: "string list"
  di_droppedPhantomReusedPaths :: "string list"
  di_invalidReused :: "(string \<times> string) list"
  di_missingDeclaredChanges :: "string list"

text \<open>Where the two loops put a path.\<close>

datatype place =
    Candidate string
  | Changed string
  | Reused string fingerprint
  | ContextOnly string fingerprint
  | Phantom string
  | Invalid string string

definition mapM :: "('a \<Rightarrow> 'b wm) \<Rightarrow> 'a list \<Rightarrow> 'b list wm" where
  "mapM f = collectM (\<lambda>x. bindM (f x) (\<lambda>y. returnM (Some y)))"

definition place_explicit :: "env \<Rightarrow> git \<Rightarrow> workspace \<Rightarrow> obj \<Rightarrow> string list \<Rightarrow> string list \<Rightarrow> string \<Rightarrow> place wm" where
  "place_explicit e git ws task actual context p =
     (if p \<notin> set actual then returnM (Candidate p)
      else if anyPatternMatches (owned_paths task) p then returnM (Changed p)
      else if p \<in> set context then
        bindM (verifyReadOnlyContextPath e git ws p actual) (\<lambda>v.
        returnM (Invalid p (case v of Inl reason \<Rightarrow> reason | Inr _ \<Rightarrow> [])))
      else returnM (Invalid p ''ownership_violation''))"

definition place_candidate :: "env \<Rightarrow> git \<Rightarrow> workspace \<Rightarrow> obj \<Rightarrow> obj \<Rightarrow> string list \<Rightarrow> string list \<Rightarrow> string \<Rightarrow> place wm" where
  "place_candidate e git ws task handoff actual context p =
     (let isOwned = anyPatternMatches (owned_paths task) p in
      if \<not> isOwned \<and> p \<in> set context then
        bindM (verifyReadOnlyContextPath e git ws p actual) (\<lambda>v.
        returnM (case v of Inr fp \<Rightarrow> ContextOnly p fp | Inl reason \<Rightarrow> Invalid p reason))
      else
        bindM (verifyReusablePath e git ws task p actual) (\<lambda>v.
        returnM (case v of
            Inr fp \<Rightarrow> Reused p fp
          | Inl reason \<Rightarrow>
              if isOwned \<and> reason = ''changed_in_attempt'' then Changed p
              else if canDropPhantomGovernanceReuse task handoff p reason then Phantom p
              else Invalid p reason)))"

definition candidates_of :: "place list \<Rightarrow> string list" where
  "candidates_of = List.map_filter (\<lambda>x. case x of Candidate p \<Rightarrow> Some p | _ \<Rightarrow> None)"

definition changed_of :: "place list \<Rightarrow> string list" where
  "changed_of = List.map_filter (\<lambda>x. case x of Changed p \<Rightarrow> Some p | _ \<Rightarrow> None)"

definition reused_of :: "place list \<Rightarrow> (string \<times> fingerprint) list" where
  "reused_of = List.map_filter (\<lambda>x. case x of Reused p fp \<Rightarrow> Some (p, fp) | _ \<Rightarrow> None)"

definition context_of :: "place list \<Rightarrow> (string \<times> fingerprint) list" where
  "context_of = List.map_filter (\<lambda>x. case x of ContextOnly p fp \<Rightarrow> Some (p, fp) | _ \<Rightarrow> None)"

definition phantoms_of :: "place list \<Rightarrow> string list" where
  "phantoms_of = List.map_filter (\<lambda>x. case x of Phantom p \<Rightarrow> Some p | _ \<Rightarrow> None)"

definition invalid_of :: "place list \<Rightarrow> (string \<times> string) list" where
  "invalid_of = List.map_filter (\<lambda>x. case x of Invalid p reason \<Rightarrow> Some (p, reason) | _ \<Rightarrow> None)"

definition reconcileHandoffPathDisposition ::
  "env \<Rightarrow> git \<Rightarrow> workspace \<Rightarrow> obj \<Rightarrow> change_inspection \<Rightarrow> obj \<Rightarrow> string list \<Rightarrow> string list \<Rightarrow> string list \<Rightarrow> path_disposition wm" where
  "reconcileHandoffPathDisposition e git ws task inspection handoff changedPaths reusedPaths contextReferencePaths =
     (let actual = normalizeDeclaredPaths (in_changedPaths inspection);
          declaredChanged = normalizeDeclaredPaths changedPaths;
          context = normalizeDeclaredPaths contextReferencePaths;
          ghosts = filter (\<lambda>p. p \<notin> set actual) declaredChanged in
      bindM (mapM (place_explicit e git ws task actual context) (normalizeDeclaredPaths reusedPaths)) (\<lambda>explicit.
      bindM (mapM (place_candidate e git ws task handoff actual context) (normalizeDeclaredPaths (candidates_of explicit @ ghosts)))
        (\<lambda>placed.
      let changed = sort (uniq (filter (\<lambda>p. p \<in> set actual) declaredChanged @ changed_of explicit @ changed_of placed)) in
      returnM \<lparr>di_changedPaths = changed, di_reused = reused_of placed, di_contextOnly = context_of placed,
        di_ghostDeclarations = ghosts, di_reclassifiedReusedToChanged = uniq (changed_of explicit @ changed_of placed),
        di_baselineDetectedChanges = uniq (changed_of placed), di_droppedPhantomReusedPaths = phantoms_of placed,
        di_invalidReused = invalid_of explicit @ invalid_of placed,
        di_missingDeclaredChanges = filter (\<lambda>p. p \<notin> set changed) actual\<rparr>)))"

subsection \<open>Inspection\<close>

definition classifyWorkspaceChanges :: "string list \<Rightarrow> string list \<times> string list" where
  "classifyWorkspaceChanges paths = (filter (\<lambda>p. \<not> isToolingSideEffectPath p) paths, filter isToolingSideEffectPath paths)"

definition changedPathsForCopy :: "env \<Rightarrow> workspace \<Rightarrow> string list wm" where
  "changedPathsForCopy e ws =
     bindM (snapshotFiles e (ws_path ws) (ws_snapshotPatterns ws)) (\<lambda>after.
     returnM (filter (\<lambda>p. \<not> sameFileFingerprint (baseline_of ws p) (case map_of after p of None \<Rightarrow> None | Some f \<Rightarrow> f))
       (uniq (map fst (case ws_baseline ws of None \<Rightarrow> [] | Some m \<Rightarrow> m) @ map fst after))))"

definition changedPathsForWorktree :: "git \<Rightarrow> workspace \<Rightarrow> string list wm" where
  "changedPathsForWorktree git ws =
     bindM (runGit git [''diff'', ''--name-only'', ''--diff-filter=ACDMRTUXB'', ''HEAD'', ''--''] (ws_path ws)) (\<lambda>tracked.
     bindM (runGit git [''ls-files'', ''--others'', ''--exclude-standard''] (ws_path ws)) (\<lambda>untracked.
     seqM (guardM (pr_status tracked = 0) (''worktree_diff_failed:'' @ pr_stderr tracked))
     (seqM (guardM (pr_status untracked = 0) (''worktree_untracked_scan_failed:'' @ pr_stderr untracked))
     (returnM (sort (uniq (filter (\<lambda>p. p \<noteq> []) (map trim (split_lines [] (pr_stdout tracked) @ split_lines [] (pr_stdout untracked))))))))))"

definition inspectWorkspaceChanges :: "env \<Rightarrow> git \<Rightarrow> workspace \<Rightarrow> obj \<Rightarrow> change_inspection wm" where
  "inspectWorkspaceChanges e git ws task =
     bindM (if ws_mode ws = ''worktree'' then changedPathsForWorktree git ws else changedPathsForCopy e ws) (\<lambda>observedPaths.
     case classifyWorkspaceChanges observedPaths of (changedPaths, toolingSideEffects) \<Rightarrow>
     returnM \<lparr>in_changedPaths = changedPaths,
        in_unauthorized = filter (\<lambda>p. \<not> anyPatternMatches (owned_paths task) p) changedPaths,
        in_toolingSideEffects = toolingSideEffects, in_observedPaths = observedPaths, in_source = JUndef\<rparr>)"

subsection \<open>Integration\<close>

definition gitCanonicalBlobFingerprint :: "git \<Rightarrow> path \<Rightarrow> string \<Rightarrow> jsval wm" where
  "gitCanonicalBlobFingerprint git cwd p =
     bindM (exists_file (at_path cwd p)) (\<lambda>present.
     if \<not> present then returnM JNull
     else
       bindM (runGit git [''hash-object'', ''--path='' @ p, ''--'', p] cwd) (\<lambda>result.
       if pr_status result \<noteq> 0
       then throwM (''worktree_git_fingerprint_failed:'' @ p @ '':'' @ (if pr_stderr result \<noteq> [] then pr_stderr result else pr_stdout result))
       else returnM (if trim (pr_stdout result) = [] then JNull else JStr (trim (pr_stdout result)))))"

record proof_of_copy =
  pf_matches :: bool
  pf_actual :: "fingerprint option"
  pf_details :: obj

definition raw_details :: "bool \<Rightarrow> fingerprint option \<Rightarrow> fingerprint option \<Rightarrow> obj" where
  "raw_details same expected actual =
     [(''matches'', JBool same), (''expectedFingerprint'', fingerprint_json expected), (''actualFingerprint'', fingerprint_json actual)]"

definition materializationProof :: "env \<Rightarrow> git \<Rightarrow> path \<Rightarrow> workspace \<Rightarrow> string \<Rightarrow> proof_of_copy wm" where
  "materializationProof e git root ws p =
     bindM (fileFingerprint e (at_path (ws_path ws) p)) (\<lambda>expected.
     bindM (fileFingerprint e (at_path root p)) (\<lambda>actual.
     if sameFileFingerprint expected actual
     then returnM \<lparr>pf_matches = True, pf_actual = actual,
            pf_details = raw_details True expected actual @ [(''authority'', JStr ''raw-file-fingerprint'')]\<rparr>
     else if ws_mode ws = ''worktree'' \<and> expected \<noteq> None \<and> actual \<noteq> None then
       bindM (gitCanonicalBlobFingerprint git (ws_path ws) p) (\<lambda>expectedBlob.
       bindM (gitCanonicalBlobFingerprint git root p) (\<lambda>actualBlob.
       let same = truthy expectedBlob \<and> expectedBlob = actualBlob in
       returnM \<lparr>pf_matches = same, pf_actual = actual,
          pf_details = raw_details same expected actual
            @ [(''expectedGitBlob'', expectedBlob), (''actualGitBlob'', actualBlob), (''authority'', JStr ''git-canonical-blob'')]\<rparr>))
     else returnM \<lparr>pf_matches = False, pf_actual = actual,
            pf_details = raw_details False expected actual @ [(''authority'', JStr ''raw-file-fingerprint'')]\<rparr>))"

text \<open>The violations of ownership, and the paths another task has written.\<close>

definition ownershipViolations :: "obj \<Rightarrow> change_inspection \<Rightarrow> string list \<Rightarrow> string list" where
  "ownershipViolations task inspection changedPaths =
     sort (uniq (normalizeDeclaredPaths (in_unauthorized inspection)
       @ filter (\<lambda>p. \<not> anyPatternMatches (owned_paths task) p) changedPaths))"

definition refuse_violations :: "env \<Rightarrow> string \<Rightarrow> obj \<Rightarrow> string list \<Rightarrow> unit wm" where
  "refuse_violations e runId task violations =
     whenM (violations \<noteq> [])
       (seqM (forM (\<lambda>p. seqM (liftDb (pg_addConflict e runId (get task ''taskId'') p ''ownership_violation''
                 (JObj [(''agentId'', get task ''agentId'')]))) (returnM ())) violations)
        (throwM (''workspace_ownership_violation:'' @ join '','' violations)))"

definition refuse_parallel :: "env \<Rightarrow> string \<Rightarrow> obj \<Rightarrow> string \<Rightarrow> unit wm" where
  "refuse_parallel e runId task p =
     bindM (liftDb (pg_integratedPath runId p)) (\<lambda>previous.
     case previous of
       None \<Rightarrow> returnM ()
     | Some row \<Rightarrow>
         if get row ''task_id'' = get task ''taskId'' \<or> get row ''task_id'' \<in> set (elements (get task ''dependencies'')) then returnM ()
         else
           seqM (liftDb (pg_addConflict e runId (get task ''taskId'') p ''parallel_write'' (JObj [(''priorTaskId'', get row ''task_id'')])))
           (throwM (''workspace_parallel_write_conflict:'' @ p)))"

definition patch_file :: "env \<Rightarrow> workspace \<Rightarrow> obj \<Rightarrow> path" where
  "patch_file e ws task = butlast (ws_path ws)
     @ [runtimeTaskDirectoryName e (js_string (get task ''taskId'')) (js_string (get task ''agentId'')) @ ''.patch'']"

definition output_or :: "process_result \<Rightarrow> string" where
  "output_or r = (if pr_stderr r \<noteq> [] then pr_stderr r else pr_stdout r)"

definition integrate_worktree :: "env \<Rightarrow> git \<Rightarrow> path \<Rightarrow> workspace \<Rightarrow> obj \<Rightarrow> string \<Rightarrow> string list \<Rightarrow> unit wm" where
  "integrate_worktree e git root ws task runId changedPaths =
     seqM (whenM (changedPaths \<noteq> []) (bindM (runGit git ([''add'', ''-N'', ''--''] @ changedPaths) (ws_path ws)) (\<lambda>intent.
        guardM (pr_status intent = 0) (''worktree_intent_to_add_failed:'' @ output_or intent))))
     (bindM (runGit git ([''diff'', ''--binary'', ''HEAD'', ''--''] @ changedPaths) (ws_path ws)) (\<lambda>diff.
      seqM (guardM (pr_status diff = 0) (''worktree_patch_failed:'' @ pr_stderr diff))
      (seqM (modifyM (\<lambda>w. w\<lparr>w_files := AList.update (patch_file e ws task) (Text (utf8 (pr_stdout diff))) (w_files w)\<rparr>))
      (whenM (trim (pr_stdout diff) \<noteq> [])
        (bindM (runGit git [''apply'', ''--3way'', path_string (patch_file e ws task)] root) (\<lambda>applied.
         whenM (pr_status applied \<noteq> 0)
           (seqM (liftDb (pg_addConflict e runId (get task ''taskId'') ''<patch>'' ''git_apply''
                    (JObj [(''stderr'', JStr (take 2000 (pr_stderr applied)))])))
            (throwM (''worktree_integrate_failed:'' @ pr_stderr applied)))))))))"

definition copy_file :: "path \<Rightarrow> path \<Rightarrow> files \<Rightarrow> files" where
  "copy_file from into fs = (case map_of fs from of None \<Rightarrow> AList.delete into fs | Some c \<Rightarrow> AList.update into c fs)"

definition integrate_copy :: "env \<Rightarrow> path \<Rightarrow> workspace \<Rightarrow> obj \<Rightarrow> string \<Rightarrow> string \<Rightarrow> unit wm" where
  "integrate_copy e root ws task runId p =
     bindM (fileFingerprint e (at_path root p)) (\<lambda>current.
     if sameFileFingerprint (baseline_of ws p) current
     then modifyM (\<lambda>w. w\<lparr>w_files := copy_file (at_path (ws_path ws) p) (at_path root p) (w_files w)\<rparr>)
     else
       let details = [(''baselineFingerprint'', fingerprint_json (baseline_of ws p)), (''currentFingerprint'', fingerprint_json current)] in
       seqM (liftDb (pg_event e (JStr runId) (get task ''taskId'') ''workspace.root_changed_since_fork'' (JObj ((''path'', JStr p) # details))))
       (seqM (liftDb (pg_addConflict e runId (get task ''taskId'') p ''root_changed_since_fork'' (JObj details)))
       (throwM (''copy_integrate_root_changed:'' @ p))))"

text \<open>The check of one path: its fingerprint in the repository, or nothing when it was not materialised.\<close>

definition check_materialized :: "env \<Rightarrow> git \<Rightarrow> path \<Rightarrow> workspace \<Rightarrow> obj \<Rightarrow> string \<Rightarrow> string \<Rightarrow> (string \<times> fingerprint option option) wm" where
  "check_materialized e git root ws task runId p =
     bindM (materializationProof e git root ws p) (\<lambda>pf.
     if pf_matches pf then returnM (p, Some (pf_actual pf))
     else
       let details = pf_details pf @ [(''workspaceMode'', JStr (ws_mode ws))] in
       seqM (liftDb (pg_event e (JStr runId) (get task ''taskId'') ''workspace.integration_materialization_mismatch''
               (JObj ((''path'', JStr p) # details))))
       (seqM (liftDb (pg_addConflict e runId (get task ''taskId'') p ''integration_materialization_mismatch'' (JObj details)))
       (returnM (p, None))))"

definition mark_integrated :: "env \<Rightarrow> string \<Rightarrow> obj \<Rightarrow> string \<Rightarrow> fingerprint option \<Rightarrow> unit wm" where
  "mark_integrated e runId task p fp = liftDb (pg_markIntegratedPath e runId (js_string (get task ''taskId'')) p (fingerprint_sha fp))"

definition integrateWorkspace ::
  "env \<Rightarrow> git \<Rightarrow> path \<Rightarrow> workspace \<Rightarrow> obj \<Rightarrow> string \<Rightarrow> change_inspection option \<Rightarrow> string list option \<Rightarrow> change_inspection wm" where
  "integrateWorkspace e git root ws task runId authoritative approved =
     bindM (case authoritative of Some i \<Rightarrow> returnM i | None \<Rightarrow> inspectWorkspaceChanges e git ws task) (\<lambda>inspection.
     let changedPaths = normalizeDeclaredPaths (case approved of Some ps \<Rightarrow> ps | None \<Rightarrow> in_changedPaths inspection);
         integrated = inspection\<lparr>in_changedPaths := changedPaths, in_unauthorized := []\<rparr> in
     seqM (refuse_violations e runId task (ownershipViolations task inspection changedPaths))
     (seqM (forM (refuse_parallel e runId task) changedPaths)
     (if ws_mode ws = ''none'' then
        seqM (forM (\<lambda>p. bindM (fileFingerprint e (at_path root p)) (mark_integrated e runId task p)) changedPaths) (returnM integrated)
      else
        seqM (if ws_mode ws = ''worktree'' then integrate_worktree e git root ws task runId changedPaths
              else forM (integrate_copy e root ws task runId) changedPaths)
        (bindM (mapM (check_materialized e git root ws task runId) changedPaths) (\<lambda>checks.
         let mismatches = map fst (filter (\<lambda>c. snd c = None) checks) in
         seqM (guardM (mismatches = []) (''workspace_integration_materialization_mismatch:'' @ join '','' mismatches))
         (seqM (forM (\<lambda>c. mark_integrated e runId task (fst c) (case snd c of Some f \<Rightarrow> f | None \<Rightarrow> None)) checks)
          (returnM integrated)))))))"

definition cleanupWorkspace :: "git \<Rightarrow> path \<Rightarrow> workspace option \<Rightarrow> unit wm" where
  "cleanupWorkspace git root workspace =
     (case workspace of
        None \<Rightarrow> returnM ()
      | Some ws \<Rightarrow>
          if ws_mode ws = ''none'' then returnM ()
          else if ws_mode ws = ''worktree'' then
            bindM (runGit git [''worktree'', ''remove'', ''--force'', path_string (ws_path ws)] root) (\<lambda>_. returnM ())
          else modifyM (\<lambda>w. w\<lparr>w_files := filter (\<lambda>(p, c). take (length (ws_path ws)) p \<noteq> ws_path ws) (w_files w)\<rparr>))"

end
