(* ===== verification/WorkspaceProps.thy ===== *)
theory WorkspaceProps
  imports Workspace
begin

text \<open>
  What the integration of a workspace does to the repository: a refused change set leaves every file alone, an accepted one
  changes exactly the approved paths and leaves them as the agent left them. The disposition of declared paths accounts for
  every observed change.
\<close>

subsection \<open>Files outside a set of paths\<close>

definition same_outside :: "path set \<Rightarrow> world \<Rightarrow> world \<Rightarrow> bool" where
  "same_outside K w w' \<longleftrightarrow> (\<forall>k. k \<notin> K \<longrightarrow> map_of (w_files w') k = map_of (w_files w) k)"

interpretation frame: step_preorder "same_outside K" for K
  by unfold_locales (auto simp: same_outside_def)

definition same_files :: "world \<Rightarrow> world \<Rightarrow> bool" where
  "same_files w w' \<longleftrightarrow> w_files w' = w_files w"

interpretation untouched: step_preorder same_files
  by unfold_locales (auto simp: same_files_def)

lemma same_files_outside: "same_files w w' \<Longrightarrow> same_outside K w w'"
  by (simp add: same_files_def same_outside_def)

lemma frame_of_untouched: "untouched.keeps m \<Longrightarrow> frame.keeps K m"
  by (simp add: untouched.keeps_def frame.keeps_def same_files_outside)

lemma untouched_liftDb: "untouched.keeps (liftDb m)"
  by (rule untouched.keepsI) (simp add: liftDb_def same_files_def split: prod.splits)

lemma untouched_fingerprint: "untouched.keeps (fileFingerprint e p)"
  unfolding fileFingerprint_def by (rule untouched.keeps_gets)

lemmas untouched_intros = untouched.keeps_intros untouched_liftDb untouched_fingerprint

lemma untouched_refuse_violations: "untouched.keeps (refuse_violations e runId task vs)"
  unfolding refuse_violations_def by (intro untouched_intros)

lemma untouched_refuse_parallel: "untouched.keeps (refuse_parallel e runId task p)"
  unfolding refuse_parallel_def by (intro untouched_intros)

lemma untouched_mark: "untouched.keeps (mark_integrated e runId task p fp)"
  unfolding mark_integrated_def by (rule untouched_liftDb)

lemma files_at_path: "map_of (copy_file a b fs) k = (if k = b then map_of fs a else map_of fs k)"
  by (auto simp: copy_file_def split: option.splits)

lemma frame_integrate_copy: "at_path root p \<in> K \<Longrightarrow> frame.keeps K (integrate_copy e root ws task runId p)"
  unfolding integrate_copy_def Let_def
  by (intro frame.keeps_bind frame.keeps_if frame.keeps_seq frame.keeps_modify frame.keeps_throw frame_of_untouched[OF untouched_liftDb]
      frame_of_untouched[OF untouched_fingerprint]) (auto simp: same_outside_def files_at_path)

lemma frame_for: "(\<And>x. x \<in> set xs \<Longrightarrow> frame.keeps K (f x)) \<Longrightarrow> frame.keeps K (forM f xs)"
  by (induction xs) (auto intro: frame.keeps_return frame.keeps_seq)

subsection \<open>Refusals\<close>

lemma liftDb_run: "m (w_db w) = (r, s) \<Longrightarrow> liftDb m w = (r, w\<lparr>w_db := s\<rparr>)"
  by (simp add: liftDb_def)

text \<open>The task that last wrote a path lets another task write it: the task itself or one it depends on.\<close>

definition may_write :: "obj \<Rightarrow> string \<Rightarrow> db \<Rightarrow> string \<Rightarrow> bool" where
  "may_write task runId s p \<longleftrightarrow>
     (case find (path_key runId p) (tables s IntegratedPaths) of
        None \<Rightarrow> True
      | Some row \<Rightarrow> get row ''task_id'' = get task ''taskId'' \<or> get row ''task_id'' \<in> set (elements (get task ''dependencies'')))"

lemma refuse_parallel_Inr:
  "refuse_parallel e runId task p w = (Inr u, w') \<longleftrightarrow> may_write task runId (w_db w) p \<and> w' = w"
  by (auto simp: refuse_parallel_def may_write_def pg_integratedPath_def liftDb_def bindM_def seqM_def split: option.splits prod.splits sum.splits if_splits)

lemma refuse_parallel_for:
  "forM (refuse_parallel e runId task) ps w = (Inr u, w') \<longleftrightarrow> list_all (may_write task runId (w_db w)) ps \<and> w' = w"
proof (induction ps)
  case (Cons p ps)
  then show ?case by (auto simp: seqM_Inr refuse_parallel_Inr)
qed auto

lemma refuse_violations_Inr: "refuse_violations e runId task vs w = (Inr u, w') \<longleftrightarrow> vs = [] \<and> w' = w"
  by (auto simp: refuse_violations_def whenM_def seqM_Inr)

text \<open>The change set the integration works on.\<close>

definition approved_paths :: "change_inspection \<Rightarrow> string list option \<Rightarrow> string list" where
  "approved_paths i approved = normalizeDeclaredPaths (case approved of Some ps \<Rightarrow> ps | None \<Rightarrow> in_changedPaths i)"

definition integration_allowed :: "obj \<Rightarrow> string \<Rightarrow> change_inspection \<Rightarrow> string list \<Rightarrow> db \<Rightarrow> bool" where
  "integration_allowed task runId i ps s \<longleftrightarrow> ownershipViolations task i ps = [] \<and> list_all (may_write task runId s) ps"

definition apply_changes :: "env \<Rightarrow> git \<Rightarrow> path \<Rightarrow> workspace \<Rightarrow> obj \<Rightarrow> string \<Rightarrow> change_inspection \<Rightarrow> string list \<Rightarrow> change_inspection wm" where
  "apply_changes e git root ws task runId i ps =
     (let integrated = i\<lparr>in_changedPaths := ps, in_unauthorized := []\<rparr> in
      if ws_mode ws = ''none'' then
        seqM (forM (\<lambda>p. bindM (fileFingerprint e (at_path root p)) (mark_integrated e runId task p)) ps) (returnM integrated)
      else
        seqM (if ws_mode ws = ''worktree'' then integrate_worktree e git root ws task runId ps
              else forM (integrate_copy e root ws task runId) ps)
        (bindM (mapM (check_materialized e git root ws task runId) ps) (\<lambda>checks.
         let mismatches = map fst (filter (\<lambda>c. snd c = None) checks) in
         seqM (guardM (mismatches = []) (''workspace_integration_materialization_mismatch:'' @ join '','' mismatches))
         (seqM (forM (\<lambda>c. mark_integrated e runId task (fst c) (case snd c of Some f \<Rightarrow> f | None \<Rightarrow> None)) checks)
          (returnM integrated)))))"

lemma integrateWorkspace_given:
  "integrateWorkspace e git root ws task runId (Some i) approved =
     (let ps = approved_paths i approved in
      seqM (refuse_violations e runId task (ownershipViolations task i ps))
      (seqM (forM (refuse_parallel e runId task) ps) (apply_changes e git root ws task runId i ps)))"
  by (rule ext) (simp add: integrateWorkspace_def approved_paths_def apply_changes_def Let_def)

lemma integrateWorkspace_Inr:
  "integrateWorkspace e git root ws task runId (Some i) approved w = (Inr result, w') \<longleftrightarrow>
     integration_allowed task runId i (approved_paths i approved) (w_db w)
     \<and> apply_changes e git root ws task runId i (approved_paths i approved) w = (Inr result, w')"
  by (auto simp: integrateWorkspace_given Let_def seqM_Inr refuse_violations_Inr refuse_parallel_for integration_allowed_def)

text \<open>C10: a change set that touches a path its task does not own, or a path that another task wrote on which it does not
  depend, is refused, in every workspace mode, and no file is touched: neither in the repository nor in the workspace.\<close>

theorem refused_integration_touches_nothing:
  assumes "\<not> integration_allowed task runId i (approved_paths i approved) (w_db w)"
  shows "\<exists>message w'. integrateWorkspace e git root ws task runId (Some i) approved w = (Inl message, w') \<and> w_files w' = w_files w"
proof -
  let ?ps = "approved_paths i approved"
  let ?check = "seqM (refuse_violations e runId task (ownershipViolations task i ?ps)) (forM (refuse_parallel e runId task) ?ps)"
  have "untouched.keeps ?check"
    by (intro untouched_intros untouched_refuse_violations untouched_refuse_parallel)
  moreover have "fst (?check w) \<noteq> Inr ()"
    using assms by (cases "?check w") (auto simp: seqM_Inr refuse_violations_Inr refuse_parallel_for integration_allowed_def)
  ultimately obtain message w' where check: "?check w = (Inl message, w')" "w_files w' = w_files w"
    by (cases "?check w"; cases "fst (?check w)") (auto dest: untouched.keepsD simp: same_files_def)
  then have "integrateWorkspace e git root ws task runId (Some i) approved w = (Inl message, w')"
    by (auto simp: integrateWorkspace_given Let_def seqM_def bindM_def split: prod.splits sum.splits)
  with check(2) show ?thesis by blast
qed

definition upload_task :: obj where
  "upload_task = [(''taskId'', JStr ''r:t''), (''agentId'', JStr ''backend''), (''ownedPaths'', JArr [JStr ''src/**'']), (''dependencies'', JArr [])]"

definition no_inspection :: change_inspection where
  "no_inspection = \<lparr>in_changedPaths = [], in_unauthorized = [], in_toolingSideEffects = [], in_observedPaths = [], in_source = JUndef\<rparr>"

definition idle_git :: git where
  "idle_git args cwd fs = (\<lparr>pr_status = 0, pr_stdout = [], pr_stderr = []\<rparr>, fs)"

definition copy_workspace :: "(string \<times> fingerprint option) list \<Rightarrow> workspace" where
  "copy_workspace baseline = \<lparr>ws_mode = ''copy'', ws_path = [''ws''], ws_baseline = Some baseline, ws_snapshotPatterns = [''**'']\<rparr>"

theorem refused_integration_touches_nothing_witness:
  "\<exists>message w'. integrateWorkspace sample_env idle_git [''repo''] (copy_workspace []) upload_task ''r'' (Some no_inspection)
       (Some [''docs/a.md'']) \<lparr>w_db = db_init, w_files = [([''ws'', ''docs'', ''a.md''], Text ''x'')]\<rparr> = (Inl message, w')
     \<and> w_files w' = [([''ws'', ''docs'', ''a.md''], Text ''x'')]"
proof -
  have "\<not> integration_allowed upload_task ''r'' no_inspection (approved_paths no_inspection (Some [''docs/a.md''])) db_init"
    by code_simp
  then show ?thesis
    using refused_integration_touches_nothing[where i = no_inspection and task = upload_task and runId = "''r''"
        and approved = "Some [''docs/a.md'']" and w = "\<lparr>w_db = db_init, w_files = [([''ws'', ''docs'', ''a.md''], Text ''x'')]\<rparr>"]
    by simp
qed

subsection \<open>Accepted change sets\<close>

lemma collectM_Cons_Inr:
  "collectM f (x # xs) s = (Inr ys, t) \<longleftrightarrow> (\<exists>r u rs. f x s = (Inr r, u) \<and> collectM f xs u = (Inr rs, t)
     \<and> ys = (case r of None \<Rightarrow> rs | Some y \<Rightarrow> y # rs))"
  by (auto simp: bindM_Inr)

lemma mapM_Cons_Inr:
  "mapM f (x # xs) s = (Inr ys, t) \<longleftrightarrow> (\<exists>z u zs. f x s = (Inr z, u) \<and> mapM f xs u = (Inr zs, t) \<and> ys = z # zs)"
  unfolding mapM_def collectM_Cons_Inr by (auto simp: bindM_Inr)

lemma mapM_Nil [simp]: "mapM f [] s = (Inr [], s)"
  by (simp add: mapM_def)

text \<open>A path is as the agent left it: the repository and the workspace agree on it.\<close>

definition materialized :: "env \<Rightarrow> path \<Rightarrow> workspace \<Rightarrow> files \<Rightarrow> string \<Rightarrow> bool" where
  "materialized e root ws fs p \<longleftrightarrow>
     sameFileFingerprint (fingerprint_at e fs (at_path (ws_path ws) p)) (fingerprint_at e fs (at_path root p))"

lemma untouched_check:
  assumes "ws_mode ws \<noteq> ''worktree''"
  shows "untouched.keeps (check_materialized e git root ws task runId p)"
proof -
  have "untouched.keeps (materializationProof e git root ws p)"
    unfolding materializationProof_def
    by (intro untouched.keeps_bind untouched_fingerprint) (use assms in \<open>auto intro: untouched.keeps_return\<close>)
  then show ?thesis unfolding check_materialized_def Let_def by (intro untouched_intros)
qed

lemma check_materialized_Inr:
  assumes "ws_mode ws \<noteq> ''worktree''" and "check_materialized e git root ws task runId p w = (Inr c, w')"
  shows "fst c = p \<and> (snd c \<noteq> None \<longrightarrow> materialized e root ws (w_files w) p)"
  using assms
  by (auto simp: check_materialized_def materializationProof_def fileFingerprint_def materialized_def Let_def bindM_Inr seqM_Inr
      split: if_splits)

lemma checks_materialized:
  assumes "ws_mode ws \<noteq> ''worktree''" and "mapM (check_materialized e git root ws task runId) ps w = (Inr checks, w')"
  shows "w_files w' = w_files w \<and> map fst checks = ps
    \<and> (filter (\<lambda>c. snd c = None) checks = [] \<longrightarrow> list_all (materialized e root ws (w_files w)) ps)"
  using assms(2)
proof (induction ps arbitrary: w checks)
  case (Cons p ps)
  from Cons.prems obtain c u cs where first: "check_materialized e git root ws task runId p w = (Inr c, u)"
      and rest: "mapM (check_materialized e git root ws task runId) ps u = (Inr cs, w')" and checks: "checks = c # cs"
    by (auto simp: mapM_Cons_Inr)
  have "w_files u = w_files w"
    using untouched.keepsD[OF untouched_check[OF assms(1)] first] by (simp add: same_files_def)
  with Cons.IH[OF rest] check_materialized_Inr[OF assms(1) first] checks show ?case by auto
qed simp

text \<open>The database knows the task as the last writer of a path.\<close>

definition writes :: "string \<Rightarrow> string \<Rightarrow> string \<Rightarrow> obj \<Rightarrow> bool" where
  "writes runId taskId p r \<longleftrightarrow> path_key runId p r \<and> get r ''task_id'' = JStr taskId"

definition written_by :: "string \<Rightarrow> string \<Rightarrow> string \<Rightarrow> world \<Rightarrow> bool" where
  "written_by runId taskId p w \<longleftrightarrow> list_ex (writes runId taskId p) (tables (w_db w) IntegratedPaths)"

definition keeps_written :: "string \<Rightarrow> string \<Rightarrow> world \<Rightarrow> world \<Rightarrow> bool" where
  "keeps_written runId taskId w w' \<longleftrightarrow> (\<forall>p. written_by runId taskId p w \<longrightarrow> written_by runId taskId p w')"

interpretation writer: step_preorder "keeps_written runId taskId" for runId taskId
  by unfold_locales (auto simp: keeps_written_def)

lemma path_key_row:
  "same_key [''run_id'', ''path''] ((''run_id'', JStr runId) # (''path'', JStr p) # cells) = path_key runId p"
  by (auto simp: fun_eq_iff same_key_def path_key_def col_def coalesce_def nullish_def split: if_splits)

lemma marked_rows:
  assumes mark: "pg_markIntegratedPath e runId taskId p fp s = (Inr u, t)"
  shows "list_ex (writes runId taskId p) (tables t IntegratedPaths)"
    and "list_ex (writes runId taskId q) (tables s IntegratedPaths) \<Longrightarrow> list_ex (writes runId taskId q) (tables t IntegratedPaths)"
proof -
  let ?set = "\<lambda>now r. assign r [(''task_id'', JStr taskId), (''fingerprint'', fp), (''integrated_at'', JStr now)]"
  have key: "path_key runId x (?set now r) = path_key runId x r" for x now r by (simp add: path_key_def)
  have cases: "(\<exists>now. tables t IntegratedPaths = update_rows (path_key runId p) (?set now) (tables s IntegratedPaths)
        \<and> list_ex (path_key runId p) (tables s IntegratedPaths))
     \<or> (\<exists>row. tables t IntegratedPaths = tables s IntegratedPaths @ [row] \<and> writes runId taskId p row)"
    using mark by (auto simp: pg_markIntegratedPath_def sql_upsert_def sql_update_def seqM_def bindM_def path_key_row writes_def
        split: if_splits) (auto simp: path_key_def)
  show "list_ex (writes runId taskId p) (tables t IntegratedPaths)"
    using cases key by (fastforce simp: list_ex_iff update_rows_def writes_def)
  show "list_ex (writes runId taskId q) (tables t IntegratedPaths)" if "list_ex (writes runId taskId q) (tables s IntegratedPaths)"
    using cases
  proof (elim disjE exE conjE)
    fix now assume t: "tables t IntegratedPaths = update_rows (path_key runId p) (?set now) (tables s IntegratedPaths)"
    from that obtain r where r: "r \<in> set (tables s IntegratedPaths)" "writes runId taskId q r" by (auto simp: list_ex_iff)
    have "writes runId taskId q (if path_key runId p r then ?set now r else r)" using r(2) key by (simp add: writes_def)
    with r(1) show ?thesis unfolding t update_rows_def list_ex_iff set_map by blast
  next
    fix row assume "tables t IntegratedPaths = tables s IntegratedPaths @ [row]"
    with that show ?thesis by simp
  qed
qed

lemma mark_integrated_written:
  "get task ''taskId'' = JStr taskId \<Longrightarrow> mark_integrated e runId task p fp w = (Inr u, w') \<Longrightarrow> written_by runId taskId p w'"
  using marked_rows(1) by (auto simp: mark_integrated_def liftDb_def written_by_def split: prod.splits)

lemma mark_failed_keeps: "pg_markIntegratedPath e runId taskId p fp s = (Inl err, t) \<Longrightarrow> tables t = tables s"
  by (auto simp: pg_markIntegratedPath_def sql_upsert_def sql_update_def seqM_def bindM_def split: if_splits)

lemma writer_mark:
  assumes "get task ''taskId'' = JStr taskId"
  shows "writer.keeps runId taskId (mark_integrated e runId task p fp)"
proof (rule writer.keepsI)
  fix w :: world
  obtain r s where mark: "pg_markIntegratedPath e runId taskId p (fingerprint_sha fp) (w_db w) = (r, s)"
    by (cases "pg_markIntegratedPath e runId taskId p (fingerprint_sha fp) (w_db w)")
  then have run: "mark_integrated e runId task p fp w = (r, w\<lparr>w_db := s\<rparr>)"
    using assms by (simp add: mark_integrated_def liftDb_def)
  show "keeps_written runId taskId w (snd (mark_integrated e runId task p fp w))"
    unfolding run keeps_written_def written_by_def
    using mark mark_failed_keeps marked_rows(2) by (cases r) auto
qed

lemma sort_eq_Nil [simp]: "sort xs = [] \<longleftrightarrow> xs = []"
  by (metis length_0_conv length_sort)

text \<open>C9: an accepted change set of a copied workspace is integrated exactly. When the integration succeeds, every path it
  reports is owned by the task and was last written, in this run, by nobody, by the task itself or by a task it depends
  on; in the repository it is byte for byte as the agent left it, or absent if the agent removed it; no file at any other
  place has changed; and the database names the task as the last writer of every one of these paths.
\<close>

theorem integration_exact:
  assumes "integrateWorkspace e git root ws task runId (Some i) approved w = (Inr result, w')"
    and "ws_mode ws = ''copy''" and "get task ''taskId'' = JStr taskId"
  shows "in_changedPaths result = approved_paths i approved
    \<and> list_all (\<lambda>p. anyPatternMatches (owned_paths task) p \<and> may_write task runId (w_db w) p \<and> materialized e root ws (w_files w') p
         \<and> written_by runId taskId p w') (in_changedPaths result)
    \<and> same_outside (set (map (at_path root) (in_changedPaths result))) w w'"
proof -
  let ?ps = "approved_paths i approved" let ?K = "set (map (at_path root) (approved_paths i approved))"
  let ?mark = "\<lambda>c. mark_integrated e runId task (fst c) (case snd c of Some f \<Rightarrow> f | None \<Rightarrow> None)"
  from assms(1) have allowed: "integration_allowed task runId i ?ps (w_db w)"
      and applied: "apply_changes e git root ws task runId i ?ps w = (Inr result, w')"
    by (simp_all add: integrateWorkspace_Inr)
  then obtain w1 checks w2 where copied: "forM (integrate_copy e root ws task runId) ?ps w = (Inr (), w1)"
      and checked: "mapM (check_materialized e git root ws task runId) ?ps w1 = (Inr checks, w2)"
      and good: "filter (\<lambda>c. snd c = None) checks = []" and marked: "forM ?mark checks w2 = (Inr (), w')"
      and result: "result = i\<lparr>in_changedPaths := ?ps, in_unauthorized := []\<rparr>"
    using assms(2) by (auto simp: apply_changes_def Let_def seqM_Inr bindM_Inr)
  have checks: "w_files w2 = w_files w1" "map fst checks = ?ps" "list_all (materialized e root ws (w_files w1)) ?ps"
    using checks_materialized[OF _ checked] good assms(2) by auto
  have files: "w_files w' = w_files w1"
    using untouched.keepsD[where m = "forM ?mark checks", OF untouched.keeps_for marked] untouched_mark checks(1) by (simp add: same_files_def)
  have "frame.keeps ?K (forM (integrate_copy e root ws task runId) ?ps)" by (rule frame_for, rule frame_integrate_copy) simp
  then have outside: "same_outside ?K w w'"
    using files frame.keepsD[where K = ?K and m = "forM (integrate_copy e root ws task runId) ?ps", OF _ copied] by (simp add: same_outside_def)
  have "written_by runId taskId (fst c) w'" if "c \<in> set checks" for c
    by (rule writer.for_establishes[where f = ?mark and Q = "\<lambda>c. written_by runId taskId (fst c)" and s = w2 and xs = checks and t = w'])
       (use that marked mark_integrated_written[OF assms(3)] writer_mark[OF assms(3)] in \<open>auto simp: keeps_written_def\<close>)
  then have written: "list_all (\<lambda>p. written_by runId taskId p w') ?ps"
    unfolding checks(2)[symmetric] by (auto simp: list_all_iff)
  have "list_all (anyPatternMatches (owned_paths task)) ?ps"
    using allowed by (auto simp: integration_allowed_def ownershipViolations_def list_all_iff filter_empty_conv)
  with allowed checks(3) written outside result files show ?thesis
    by (auto simp: integration_allowed_def list_all_iff)
qed

definition text_fingerprint :: "string \<Rightarrow> fingerprint option" where
  "text_fingerprint s = Some \<lparr>fp_sha256 = s, fp_bytes = int (length s)\<rparr>"

definition sample_world :: world where
  "sample_world = \<lparr>w_db = db_init, w_files = [([''repo'', ''src'', ''a''], Text ''old''), ([''repo'', ''src'', ''b''], Text ''other''),
     ([''ws'', ''src'', ''a''], Text ''new''), ([''ws'', ''src'', ''b''], Text ''mine'')]\<rparr>"

theorem integration_exact_witness:
  "\<exists>result w'. integrateWorkspace sample_env idle_git [''repo''] (copy_workspace [(''src/a'', text_fingerprint ''old'')]) upload_task ''r''
       (Some no_inspection) (Some [''src/a'']) sample_world = (Inr result, w')
     \<and> in_changedPaths result = [''src/a''] \<and> materialized sample_env [''repo''] (copy_workspace [(''src/a'', text_fingerprint ''old'')]) (w_files w') ''src/a''
     \<and> written_by ''r'' ''r:t'' ''src/a'' w' \<and> same_outside {[''repo'', ''src'', ''a'']} sample_world w'"
proof -
  let ?run = "integrateWorkspace sample_env idle_git [''repo''] (copy_workspace [(''src/a'', text_fingerprint ''old'')]) upload_task ''r''
       (Some no_inspection) (Some [''src/a'']) sample_world"
  have "isl (fst ?run) = False" by code_simp
  then obtain result w' where run: "?run = (Inr result, w')" by (cases ?run; cases "fst ?run") auto
  have "approved_paths no_inspection (Some [''src/a'']) = [''src/a'']" "at_path [''repo''] ''src/a'' = [''repo'', ''src'', ''a'']"
    by code_simp+
  with run integration_exact[OF run _, of "''r:t''"] show ?thesis
    by (auto simp: copy_workspace_def upload_task_def)
qed

text \<open>
  The integration of a copied workspace is not atomic. The second path was changed in the repository since the workspace
  was made; the integration fails there, but the first path has already been overwritten and is recorded nowhere.
\<close>

lemma integration_not_atomic:
  defines "run \<equiv> integrateWorkspace sample_env idle_git [''repo''] (copy_workspace [(''src/a'', text_fingerprint ''old''), (''src/b'', text_fingerprint ''base'')])
     upload_task ''r'' (Some no_inspection) (Some [''src/a'', ''src/b'']) sample_world"
  shows "fst run = Inl ''copy_integrate_root_changed:src/b''"
    and "map_of (w_files (snd run)) [''repo'', ''src'', ''a''] = Some (Text ''new'')"
    and "tables (w_db (snd run)) IntegratedPaths = []"
  unfolding run_def by code_simp+

subsection \<open>The disposition of declared paths\<close>

definition unchanged_since_fork :: "env \<Rightarrow> workspace \<Rightarrow> files \<Rightarrow> string \<Rightarrow> bool" where
  "unchanged_since_fork e ws fs p \<longleftrightarrow> baseline_of ws p \<noteq> None \<and> fingerprint_at e fs (at_path (ws_path ws) p) \<noteq> None
     \<and> sameFileFingerprint (baseline_of ws p) (fingerprint_at e fs (at_path (ws_path ws) p))"

lemma mapM_reads:
  assumes "\<And>x. x \<in> set xs \<Longrightarrow> \<exists>y. f x w = (Inr y, w) \<and> P x y"
  shows "\<exists>ys. mapM f xs w = (Inr ys, w) \<and> list_all2 P xs ys"
  using assms
proof (induction xs)
  case (Cons x xs)
  then obtain y ys where "f x w = (Inr y, w)" "P x y" "mapM f xs w = (Inr ys, w)" "list_all2 P xs ys" by force
  then have "mapM f (x # xs) w = (Inr (y # ys), w) \<and> list_all2 P (x # xs) (y # ys)" by (simp add: mapM_Cons_Inr)
  then show ?case by blast
qed simp

text \<open>In a copied workspace the verification of a path reads, and only what is unchanged since the fork is valid.\<close>

lemma verify_copy:
  assumes "ws_mode ws \<noteq> ''worktree''"
  shows "\<exists>v. verifyReusablePath e git ws task p actual w = (Inr v, w)
      \<and> (case v of
           Inr fp \<Rightarrow> anyPatternMatches (owned_paths task) p \<and> p \<notin> set actual \<and> unchanged_since_fork e ws (w_files w) p
         | Inl reason \<Rightarrow> reason = ''changed_in_attempt'' \<longrightarrow> p \<in> set actual \<or> \<not> unchanged_since_fork e ws (w_files w) p)"
    and "\<exists>v. verifyReadOnlyContextPath e git ws p actual w = (Inr v, w)
      \<and> (case v of Inr fp \<Rightarrow> p \<notin> set actual \<and> unchanged_since_fork e ws (w_files w) p | Inl _ \<Rightarrow> True)"
  using assms
  by (auto simp: verifyReusablePath_def verifyReadOnlyContextPath_def verify_missing_def verify_unchanged_def fileFingerprint_def
      unchanged_since_fork_def split: option.splits)

definition placed_well :: "env \<Rightarrow> workspace \<Rightarrow> obj \<Rightarrow> string list \<Rightarrow> files \<Rightarrow> string \<Rightarrow> place \<Rightarrow> bool" where
  "placed_well e ws task actual fs p pl \<longleftrightarrow>
     (case pl of
        Candidate q \<Rightarrow> q = p \<and> p \<notin> set actual
      | Changed q \<Rightarrow> q = p \<and> anyPatternMatches (owned_paths task) p \<and> (p \<in> set actual \<or> \<not> unchanged_since_fork e ws fs p)
      | Reused q fp \<Rightarrow> q = p \<and> anyPatternMatches (owned_paths task) p \<and> p \<notin> set actual \<and> unchanged_since_fork e ws fs p
      | ContextOnly q fp \<Rightarrow> q = p \<and> \<not> anyPatternMatches (owned_paths task) p \<and> p \<notin> set actual \<and> unchanged_since_fork e ws fs p
      | Phantom q \<Rightarrow> q = p
      | Invalid q reason \<Rightarrow> q = p)"

lemma place_explicit_well:
  assumes "ws_mode ws \<noteq> ''worktree''"
  shows "\<exists>pl. place_explicit e git ws task actual context p w = (Inr pl, w) \<and> placed_well e ws task actual (w_files w) p pl"
  using verify_copy(2)[OF assms, of e git p actual w]
  by (auto simp: place_explicit_def placed_well_def bindM_run)

lemma place_candidate_well:
  assumes "ws_mode ws \<noteq> ''worktree''"
  shows "\<exists>pl. place_candidate e git ws task handoff actual context p w = (Inr pl, w) \<and> placed_well e ws task actual (w_files w) p pl"
proof (cases "\<not> anyPatternMatches (owned_paths task) p \<and> p \<in> set context")
  case True
  from verify_copy(2)[OF assms, of e git p actual w] obtain v where
      "verifyReadOnlyContextPath e git ws p actual w = (Inr v, w)"
      "case v of Inr fp \<Rightarrow> p \<notin> set actual \<and> unchanged_since_fork e ws (w_files w) p | Inl _ \<Rightarrow> True" by blast
  with True show ?thesis by (auto simp: place_candidate_def placed_well_def bindM_run split: sum.splits)
next
  case False
  from verify_copy(1)[OF assms, of e git task p actual w] obtain v where v:
      "verifyReusablePath e git ws task p actual w = (Inr v, w)"
      "case v of
           Inr fp \<Rightarrow> anyPatternMatches (owned_paths task) p \<and> p \<notin> set actual \<and> unchanged_since_fork e ws (w_files w) p
         | Inl reason \<Rightarrow> reason = ''changed_in_attempt'' \<longrightarrow> p \<in> set actual \<or> \<not> unchanged_since_fork e ws (w_files w) p" by blast
  have "place_candidate e git ws task handoff actual context p w = (Inr (case v of
            Inr fp \<Rightarrow> Reused p fp
          | Inl reason \<Rightarrow>
              if anyPatternMatches (owned_paths task) p \<and> reason = ''changed_in_attempt'' then Changed p
              else if canDropPhantomGovernanceReuse task handoff p reason then Phantom p
              else Invalid p reason), w)"
    unfolding place_candidate_def Let_def if_not_P[OF False] by (simp add: bindM_def v(1))
  with v(2) show ?thesis by (auto simp: placed_well_def split: sum.splits)
qed

lemma placed_members:
  assumes "list_all2 (placed_well e ws task actual fs) ps pls"
  shows "q \<in> set (changed_of pls) \<Longrightarrow> anyPatternMatches (owned_paths task) q \<and> (q \<in> set actual \<or> \<not> unchanged_since_fork e ws fs q)"
    and "q \<in> set (map fst (reused_of pls)) \<Longrightarrow>
      anyPatternMatches (owned_paths task) q \<and> q \<notin> set actual \<and> unchanged_since_fork e ws fs q"
    and "q \<in> set (map fst (context_of pls)) \<Longrightarrow>
      \<not> anyPatternMatches (owned_paths task) q \<and> q \<notin> set actual \<and> unchanged_since_fork e ws fs q"
  using assms
  by (induction rule: list_all2_induct)
     (auto simp: changed_of_def reused_of_def context_of_def map_filter_simps placed_well_def split: place.splits option.splits)

text \<open>C11: in a copied workspace the disposition of the paths a handoff declares accounts for what happened. It always has a
  result and changes nothing. Every observed change is either accepted as changed or reported as undeclared; a path is
  accepted as changed only if it was observed to change or is owned and differs from the baseline; a path accepted as reused
  is owned, was not changed, and is unchanged since the workspace was made; a path accepted as context is not owned and
  unchanged too. So no path is both changed and reused.
\<close>

theorem disposition_sound:
  assumes "ws_mode ws \<noteq> ''worktree''"
  shows "\<exists>d. reconcileHandoffPathDisposition e git ws task i handoff declared reused context w = (Inr d, w)
    \<and> set (normalizeDeclaredPaths (in_changedPaths i)) \<subseteq> set (di_changedPaths d) \<union> set (di_missingDeclaredChanges d)
    \<and> list_all (\<lambda>p. p \<in> set (normalizeDeclaredPaths (in_changedPaths i))
         \<or> anyPatternMatches (owned_paths task) p \<and> \<not> unchanged_since_fork e ws (w_files w) p) (di_changedPaths d)
    \<and> list_all (\<lambda>(p, fp). anyPatternMatches (owned_paths task) p \<and> unchanged_since_fork e ws (w_files w) p \<and> p \<notin> set (di_changedPaths d)) (di_reused d)
    \<and> list_all (\<lambda>(p, fp). \<not> anyPatternMatches (owned_paths task) p \<and> unchanged_since_fork e ws (w_files w) p \<and> p \<notin> set (di_changedPaths d)) (di_contextOnly d)"
proof -
  let ?actual = "normalizeDeclaredPaths (in_changedPaths i)" let ?references = "normalizeDeclaredPaths context"
  let ?declared = "normalizeDeclaredPaths declared" let ?well = "placed_well e ws task ?actual (w_files w)"
  obtain explicit where explicit: "mapM (place_explicit e git ws task ?actual ?references) (normalizeDeclaredPaths reused) w = (Inr explicit, w)"
      "list_all2 ?well (normalizeDeclaredPaths reused) explicit"
    using mapM_reads[where P = ?well] place_explicit_well[OF assms] by metis
  let ?candidates = "normalizeDeclaredPaths (candidates_of explicit @ filter (\<lambda>p. p \<notin> set ?actual) ?declared)"
  obtain placed where placed: "mapM (place_candidate e git ws task handoff ?actual ?references) ?candidates w = (Inr placed, w)"
      "list_all2 ?well ?candidates placed"
    using mapM_reads[where P = ?well] place_candidate_well[OF assms] by metis
  let ?changed = "sort (uniq (filter (\<lambda>p. p \<in> set ?actual) ?declared @ changed_of explicit @ changed_of placed))"
  obtain d where run: "reconcileHandoffPathDisposition e git ws task i handoff declared reused context w = (Inr d, w)"
      and d: "di_changedPaths d = ?changed" "di_reused d = reused_of placed" "di_contextOnly d = context_of placed"
        "di_missingDeclaredChanges d = filter (\<lambda>p. p \<notin> set ?changed) ?actual"
    by (simp add: reconcileHandoffPathDisposition_def Let_def bindM_def explicit(1) placed(1))
  have changed: "p \<in> set ?actual \<or> anyPatternMatches (owned_paths task) p \<and> \<not> unchanged_since_fork e ws (w_files w) p"
    if "p \<in> set ?changed" for p
    using that placed_members(1)[OF explicit(2)] placed_members(1)[OF placed(2)] by auto
  have "fst x \<in> set (map fst (reused_of placed))" if "x \<in> set (reused_of placed)" for x using that by simp
  moreover have "fst x \<in> set (map fst (context_of placed))" if "x \<in> set (context_of placed)" for x using that by simp
  ultimately show ?thesis
    using run changed placed_members(2,3)[OF placed(2)] unfolding d by (fastforce simp: d list_all_iff)
qed

theorem disposition_sound_witness:
  "\<exists>d. reconcileHandoffPathDisposition sample_env idle_git (copy_workspace [(''src/a'', text_fingerprint ''old'')]) upload_task
       no_inspection [] [''src/a''] [''src/a''] [] sample_world = (Inr d, sample_world)
     \<and> list_all (\<lambda>(p, fp). p \<notin> set (di_changedPaths d)) (di_reused d)"
proof -
  have "ws_mode (copy_workspace [(''src/a'', text_fingerprint ''old'')]) \<noteq> ''worktree''" by (simp add: copy_workspace_def)
  from disposition_sound[OF this, of sample_env idle_git upload_task no_inspection "[]" "[''src/a'']" "[''src/a'']" "[]" sample_world]
  show ?thesis by (auto simp: list_all_iff)
qed

end
