(* ===== verification/ProductDiscovery.thy ===== *)
theory ProductDiscovery
  imports AcceptanceCriteria BootstrapCapabilities SchemaValidator HandoffContract
begin

text \<open>
  What product discovery has to deliver: its assessment of the reviews a change needs (the first part of
  \<open>bootstrap-topology-refiner.mjs\<close>) and its catalog of product acceptance criteria
  (\<open>product-discovery-acceptance-criteria.mjs\<close>), which is checked and, when it is incomplete, completed by one bounded
  projection. The answer of the language model, and the evidence read from product documents, are arguments.
\<close>

subsection \<open>The assessment of reviews\<close>

definition aliases_of :: "catalog \<Rightarrow> string \<Rightarrow> string list" where
  "aliases_of catalog token = map cp_capabilityId (filter (\<lambda>c. cp_stage c = token \<or> cp_agentId c = token) (ct_capabilities catalog))"

text \<open>The capability a token names, if there is exactly one.\<close>

definition resolve_capability :: "catalog \<Rightarrow> string \<Rightarrow> string option" where
  "resolve_capability catalog token =
     (if map_of (ct_byId catalog) token \<noteq> None then Some token
      else case aliases_of catalog token of [c] \<Rightarrow> Some c | _ \<Rightarrow> None)"

definition canonicalizeProductDiscoveryRequiredCapabilities :: "jsval \<Rightarrow> catalog \<Rightarrow> string list res" where
  "canonicalizeProductDiscoveryRequiredCapabilities v catalog =
     (case v of
        JArr xs \<Rightarrow>
          (let resolved = map (resolve_capability catalog) (filter (\<lambda>t. t \<noteq> []) (map compact xs));
               everything = map cp_capabilityId (ct_capabilities catalog);
               selected = List.map_filter id resolved @ (if None \<in> set resolved then everything else []) in
           Inr (filter (\<lambda>c. c \<in> set selected) everything))
      | _ \<Rightarrow> Inl ''product_discovery_bootstrap_required_capabilities_missing'')"

record assessment =
  as_requiredCapabilities :: "string list"
  as_factRequirements :: "requirement list"
  as_evidence :: string

definition is_array :: "jsval \<Rightarrow> bool" where
  "is_array v \<longleftrightarrow> (case v of JArr _ \<Rightarrow> True | _ \<Rightarrow> False)"

definition normalizeProductDiscoveryReviewAssessment :: "jsval \<Rightarrow> registry \<Rightarrow> assessment option res" where
  "normalizeProductDiscoveryReviewAssessment handoff registry =
     (let raw = field handoff ''bootstrapReviewAssessment'' in
      if nullish raw then Inr None
      else
        case raw of
          JObj ps \<Rightarrow>
            bindR (ensure (get ps ''contractVersion'' = JStr ''bootstrap-review-assessment/v1'')
                     ''product_discovery_bootstrap_review_assessment_version_invalid'') (\<lambda>_.
            bindR (ensure (is_array (get ps ''requiredCapabilities'')) ''product_discovery_bootstrap_required_capabilities_missing'') (\<lambda>_.
            bindR (ensure (is_array (get ps ''factRequirements'')) ''product_discovery_bootstrap_fact_requirements_missing'') (\<lambda>_.
            bindR (capabilityCatalogFromRegistry registry) (\<lambda>catalog.
            bindR (normalizeBootstrapFactRequirements (get ps ''factRequirements'') catalog ''product-discovery'') (\<lambda>requirements.
            bindR (canonicalizeProductDiscoveryRequiredCapabilities (get ps ''requiredCapabilities'') catalog) (\<lambda>named.
            let needed = named @ concat (map (\<lambda>r. rq_consumerCapabilityId r
                   # (case rq_providerCapabilityId r of Some p \<Rightarrow> if p \<noteq> [] then [p] else [] | None \<Rightarrow> [])) requirements);
                evidence = compact (get ps ''evidence'') in
            bindR (ensure (evidence \<noteq> []) ''product_discovery_bootstrap_assessment_evidence_missing'') (\<lambda>_.
            Inr (Some \<lparr>as_requiredCapabilities = filter (\<lambda>c. c \<in> set needed) (map cp_capabilityId (ct_capabilities catalog)),
                       as_factRequirements = requirements, as_evidence = evidence\<rparr>))))))))
        | _ \<Rightarrow> Inl ''product_discovery_bootstrap_review_assessment_invalid'')"

definition bootstrapTopologyReadyForTask :: "obj \<Rightarrow> jsval \<Rightarrow> bool" where
  "bootstrapTopologyReadyForTask plan taskPlan \<longleftrightarrow>
     field taskPlan ''stage'' = JStr ''product-discovery'' \<or> get plan ''phase'' \<noteq> JStr ''bootstrap''
     \<or> field (get plan ''workflow'') ''bootstrapTopologyState'' = JStr ''refined''"

subsection \<open>The catalog of product criteria\<close>

definition PRODUCT_CRITERION_FIELDS :: "string list" where
  "PRODUCT_CRITERION_FIELDS = [''id'', ''source'', ''statement'', ''blocking'', ''verification'']"

definition processCriterionIds :: "jsval \<Rightarrow> string list" where
  "processCriterionIds brief = uniq (filter (\<lambda>i. i \<noteq> []) (map (\<lambda>c. compact (field c ''id'')) (elements (field brief ''acceptanceCriteria''))))"

definition isProcessCriterion :: "jsval \<Rightarrow> jsval \<Rightarrow> bool" where
  "isProcessCriterion criterion brief \<longleftrightarrow>
     (let i = compact (field criterion ''id'') in i \<noteq> [] \<and> (i \<in> set (processCriterionIds brief) \<or> starts_with_ci i ''proc-''))"

definition proofStageValid :: "jsval \<Rightarrow> bool" where
  "proofStageValid v \<longleftrightarrow> compact v \<in> set ACCEPTANCE_PROOF_STAGES"

record criteria_issue =
  cr_code :: string
  cr_reason :: string
  cr_criterionId :: jsval

definition text_or_null :: "string \<Rightarrow> jsval" where
  "text_or_null s = (if s = [] then JNull else JStr s)"

definition or_missing :: "string \<Rightarrow> string" where
  "or_missing s = (if s = [] then ''missing'' else s)"

definition criterion_issue :: "jsval \<Rightarrow> string list \<Rightarrow> jsval \<Rightarrow> criteria_issue option" where
  "criterion_issue brief seen criterion =
     (let i = compact (field criterion ''id'') in
      if isProcessCriterion criterion brief
      then Some \<lparr>cr_code = ''product_acceptance_process_criterion_leaked'', cr_reason = ''process_criterion_leaked:'' @ or_missing i, cr_criterionId = text_or_null i\<rparr>
      else if i = [] \<or> compact (field criterion ''source'') = [] \<or> compact (field criterion ''statement'') = []
           \<or> \<not> is_flag (field criterion ''blocking'') \<or> compact (field criterion ''verification'') = []
      then Some \<lparr>cr_code = ''product_acceptance_criterion_invalid'', cr_reason = ''product_criterion_invalid:'' @ or_missing i, cr_criterionId = text_or_null i\<rparr>
      else if \<not> has_own (fields_of criterion) ''proofStage''
      then Some \<lparr>cr_code = ''product_acceptance_proof_stage_missing'', cr_reason = ''proof_stage_missing:'' @ i, cr_criterionId = JStr i\<rparr>
      else if \<not> proofStageValid (field criterion ''proofStage'')
      then Some \<lparr>cr_code = ''product_acceptance_proof_stage_invalid'',
             cr_reason = ''proof_stage_invalid:'' @ i @ '':'' @ compact (field criterion ''proofStage''), cr_criterionId = JStr i\<rparr>
      else if i \<in> set seen
      then Some \<lparr>cr_code = ''product_acceptance_criterion_duplicate'', cr_reason = ''product_criterion_duplicate:'' @ i, cr_criterionId = JStr i\<rparr>
      else None)"

fun criteria_issues :: "jsval \<Rightarrow> string list \<Rightarrow> jsval list \<Rightarrow> criteria_issue option" where
  "criteria_issues brief seen [] = None"
| "criteria_issues brief seen (c # cs) =
     (case criterion_issue brief seen c of Some issue \<Rightarrow> Some issue | None \<Rightarrow> criteria_issues brief (compact (field c ''id'') # seen) cs)"

definition productDiscoveryAcceptanceCriteriaIssue :: "jsval \<Rightarrow> jsval \<Rightarrow> bool \<Rightarrow> criteria_issue option" where
  "productDiscoveryAcceptanceCriteriaIssue brief handoff requireComplete =
     (if field (field brief ''sdd'') ''stage'' \<noteq> JStr ''product-discovery'' then None
      else if requireComplete \<and> field handoff ''status'' \<noteq> JStr ''complete'' then None
      else
        let criteria = elements (field handoff ''acceptanceCriteria'') in
        if criteria = []
        then Some \<lparr>cr_code = ''product_acceptance_criteria_missing'', cr_reason = ''product_acceptance_criteria_missing'', cr_criterionId = JUndef\<rparr>
        else
          case criteria_issues brief [] criteria of
            Some issue \<Rightarrow> Some issue
          | None \<Rightarrow>
              if \<not> list_ex (\<lambda>c. compact (field c ''proofStage'') = ''implementation'') criteria
              then Some \<lparr>cr_code = ''product_acceptance_implementation_proof_missing'', cr_reason = ''implementation_proof_stage_missing'', cr_criterionId = JNull\<rparr>
              else None)"

definition productCriterionSchema :: "string list \<Rightarrow> jsval" where
  "productCriterionSchema forbiddenIds =
     (let words = JObj [(''type'', JStr ''string''), (''minLength'', JNum 1)];
          idSchema = (if forbiddenIds = [] then words
            else JObj [(''type'', JStr ''string''), (''minLength'', JNum 1), (''not'', JObj [(''enum'', JArr (map JStr forbiddenIds))])]) in
      JObj [(''type'', JStr ''object''), (''additionalProperties'', JBool False),
        (''required'', JArr (map JStr (PRODUCT_CRITERION_FIELDS @ [''proofStage'']))),
        (''properties'', JObj [(''id'', idSchema), (''source'', words), (''statement'', words),
           (''blocking'', JObj [(''type'', JStr ''boolean'')]), (''verification'', words),
           (''proofStage'', JObj [(''enum'', JArr (map JStr ACCEPTANCE_PROOF_STAGES))])])])"

definition buildProductDiscoveryAcceptanceCriteriaProjectionSchema :: "jsval \<Rightarrow> jsval" where
  "buildProductDiscoveryAcceptanceCriteriaProjectionSchema brief = JObj
     [(''type'', JStr ''object''), (''additionalProperties'', JBool False), (''required'', JArr [JStr ''acceptanceCriteria'']),
      (''properties'', JObj [(''acceptanceCriteria'', JObj [(''type'', JStr ''array''), (''minItems'', JNum 1),
         (''items'', productCriterionSchema (sort (processCriterionIds brief)))])])]"

subsection \<open>The projection\<close>

definition compactExistingProductCriteria :: "jsval \<Rightarrow> jsval \<Rightarrow> jsval list" where
  "compactExistingProductCriteria brief handoff =
     map clone (filter (\<lambda>c. \<not> isProcessCriterion c brief) (elements (field handoff ''acceptanceCriteria'')))"

text \<open>\<open>new Map(xs.map((x) => [x.id, x])).get(id)\<close>: the last entry with the identifier.\<close>

definition last_with_id :: "jsval list \<Rightarrow> jsval \<Rightarrow> jsval option" where
  "last_with_id xs i = find (\<lambda>x. field x ''id'' = i) (rev xs)"

text \<open>\<open>JSON.stringify(v)\<close>, which is undefined for an undefined value.\<close>

definition stringified :: "jsval \<Rightarrow> string option" where
  "stringified v = (if v = JUndef then None else Some (json_text v))"

fun preserves :: "jsval list \<Rightarrow> jsval \<Rightarrow> string list \<Rightarrow> unit res" where
  "preserves projected criterion [] = Inr ()"
| "preserves projected criterion (k # ks) =
     (case last_with_id projected (field criterion ''id'') of
        None \<Rightarrow> Inl (''product_discovery_acceptance_criteria_projection_dropped_existing:'' @ js_string (field criterion ''id''))
      | Some next \<Rightarrow>
          if stringified (field next k) \<noteq> stringified (field criterion k)
          then Inl (''product_discovery_acceptance_criteria_projection_mutated_existing:'' @ js_string (field criterion ''id'') @ '':'' @ k)
          else preserves projected criterion ks)"

definition assertProjectionPreservesExisting :: "jsval \<Rightarrow> jsval \<Rightarrow> jsval list \<Rightarrow> unit res" where
  "assertProjectionPreservesExisting brief handoff projected =
     bindR (mapR (\<lambda>criterion. preserves projected criterion PRODUCT_CRITERION_FIELDS) (compactExistingProductCriteria brief handoff)) (\<lambda>_. Inr ())"

definition assertProjectionGrounded :: "jsval \<Rightarrow> jsval \<Rightarrow> jsval list \<Rightarrow> (string \<times> string) list \<Rightarrow> unit res" where
  "assertProjectionGrounded brief handoff projected evidence =
     (let existingIds = map (\<lambda>c. field c ''id'') (compactExistingProductCriteria brief handoff); evidenceText = join [CHR 0x0A] (map snd evidence) in
      bindR (mapR (\<lambda>criterion.
        bindR (ensure (\<not> isProcessCriterion criterion brief)
          (''product_discovery_acceptance_criteria_projection_process_leak:'' @ js_string (field criterion ''id''))) (\<lambda>_.
        if field criterion ''id'' \<in> set existingIds then Inr ()
        else ensure (contains_text evidenceText (js_string (field criterion ''id'')))
          (''product_discovery_acceptance_criteria_projection_ungrounded_id:'' @ js_string (field criterion ''id'')))) projected) (\<lambda>_. Inr ()))"

text \<open>
  The projected catalog: nothing when the handoff needs none. \<open>answer\<close> is what the structured run returns for the schema.
\<close>

definition projected_criteria ::
  "env \<Rightarrow> (string \<Rightarrow> string \<Rightarrow> bool) \<Rightarrow> jsval \<Rightarrow> obj \<Rightarrow> (string \<times> string) list \<Rightarrow> (jsval \<Rightarrow> jsval res) \<Rightarrow> jsval list option res" where
  "projected_criteria e regexp brief handoff evidence answer =
     (case productDiscoveryAcceptanceCriteriaIssue brief (JObj handoff) True of
        None \<Rightarrow> Inr None
      | Some issue \<Rightarrow>
          bindR (ensure (compactExistingProductCriteria brief (JObj handoff) \<noteq> [] \<or> evidence \<noteq> [])
            (''product_discovery_acceptance_criteria_projection_evidence_missing:'' @ cr_code issue)) (\<lambda>_.
          let schema = buildProductDiscoveryAcceptanceCriteriaProjectionSchema brief in
          bindR (answer schema) (\<lambda>value.
          bindR (assertSchema e regexp value schema ''productDiscoveryAcceptanceCriteriaProjection'') (\<lambda>_.
          let projected = elements (clone (field value ''acceptanceCriteria'')) in
          bindR (assertProjectionPreservesExisting brief (JObj handoff) projected) (\<lambda>_.
          bindR (assertProjectionGrounded brief (JObj handoff) projected evidence) (\<lambda>_.
          case productDiscoveryAcceptanceCriteriaIssue brief
                 (JObj (AList.update ''acceptanceCriteria'' (JArr projected) (fields_of (clone (JObj handoff))))) True of
            Some remaining \<Rightarrow> Inl (''product_discovery_acceptance_criteria_projection_incomplete:'' @ cr_code remaining @ '':'' @ cr_reason remaining)
          | None \<Rightarrow> Inr (Some projected)))))))"

subsection \<open>Lemmas\<close>

text \<open>Names that are not understood widen the assessment: every capability is reviewed.\<close>

lemma unknown_capability_widens:
  assumes "resolve_capability catalog (compact v) = None" and "v \<in> set xs" and "compact v \<noteq> []"
  shows "canonicalizeProductDiscoveryRequiredCapabilities (JArr xs) catalog = Inr (map cp_capabilityId (ct_capabilities catalog))"
proof -
  have "None \<in> set (map (resolve_capability catalog) (filter (\<lambda>t. t \<noteq> []) (map compact xs)))"
    using assms by force
  then show ?thesis by (simp add: canonicalizeProductDiscoveryRequiredCapabilities_def Let_def)
qed

text \<open>A catalog without an issue.\<close>

definition criterion_complete :: "jsval \<Rightarrow> jsval \<Rightarrow> bool" where
  "criterion_complete brief c \<longleftrightarrow> \<not> isProcessCriterion c brief \<and> compact (field c ''id'') \<noteq> [] \<and> compact (field c ''source'') \<noteq> []
     \<and> compact (field c ''statement'') \<noteq> [] \<and> is_flag (field c ''blocking'') \<and> compact (field c ''verification'') \<noteq> []
     \<and> has_own (fields_of c) ''proofStage'' \<and> proofStageValid (field c ''proofStage'')"

lemma criterion_issue_None: "criterion_issue brief seen c = None \<longleftrightarrow> criterion_complete brief c \<and> compact (field c ''id'') \<notin> set seen"
  by (auto simp: criterion_issue_def criterion_complete_def Let_def split: if_splits)

lemma criteria_issues_None:
  "criteria_issues brief seen cs = None \<longleftrightarrow> list_all (criterion_complete brief) cs
     \<and> distinct (map (\<lambda>c. compact (field c ''id'')) cs) \<and> (\<forall>c \<in> set cs. compact (field c ''id'') \<notin> set seen)"
proof (induction cs arbitrary: seen)
  case (Cons c cs)
  show ?case
  proof (cases "criterion_issue brief seen c")
    case None
    then have c: "criterion_complete brief c" "compact (field c ''id'') \<notin> set seen" by (simp_all add: criterion_issue_None)
    have "compact (field c ''id'') \<in> (\<lambda>c. compact (field c ''id'')) ` set cs \<longleftrightarrow> (\<exists>d \<in> set cs. compact (field d ''id'') = compact (field c ''id''))"
      by (metis (no_types, lifting) image_iff)
    with None c Cons.IH[of "compact (field c ''id'') # seen"] show ?thesis by auto
  next
    case (Some issue)
    with criterion_issue_None[of brief seen c] show ?thesis by auto
  qed
qed simp

lemma criteria_issue_None:
  assumes "field (field brief ''sdd'') ''stage'' = JStr ''product-discovery''" and "field handoff ''status'' = JStr ''complete'' \<or> \<not> requireComplete"
  shows "productDiscoveryAcceptanceCriteriaIssue brief handoff requireComplete = None \<longleftrightarrow>
    (let cs = elements (field handoff ''acceptanceCriteria'') in
     list_all (criterion_complete brief) cs \<and> distinct (map (\<lambda>c. compact (field c ''id'')) cs)
     \<and> list_ex (\<lambda>c. compact (field c ''proofStage'') = ''implementation'') cs)"
  using assms by (auto simp: productDiscoveryAcceptanceCriteriaIssue_def criteria_issues_None Let_def split: option.splits simp flip: not_None_eq)

lemma mapR_every: "mapR f xs = Inr ys \<Longrightarrow> x \<in> set xs \<Longrightarrow> \<exists>y. f x = Inr y"
  by (induction xs arbitrary: ys) (auto simp: bindR_Inr)

lemma find_member: "find P xs = Some x \<Longrightarrow> x \<in> set xs \<and> P x"
  by (induction xs) (auto split: if_splits)

lemma preserves_Inr:
  "preserves projected c ks = Inr u \<Longrightarrow> ks \<noteq> [] \<Longrightarrow>
     \<exists>next \<in> set projected. field next ''id'' = field c ''id'' \<and> list_all (\<lambda>k. stringified (field next k) = stringified (field c k)) ks"
proof (induction ks)
  case (Cons k ks)
  then obtain nx where nx: "last_with_id projected (field c ''id'') = Some nx" "stringified (field nx k) = stringified (field c k)"
      "preserves projected c ks = Inr u" by (auto split: option.splits if_splits)
  have mem: "nx \<in> set projected" "field nx ''id'' = field c ''id''"
    using nx(1) find_member[of _ "rev projected"] by (auto simp: last_with_id_def)
  have "preserves projected c qs = Inr u \<Longrightarrow> list_all (\<lambda>k. stringified (field nx k) = stringified (field c k)) qs" for qs
    using nx(1) by (induction qs) (auto split: if_splits)
  with nx mem show ?case by auto
qed simp

lemma projection_parts:
  assumes "projected_criteria e regexp brief handoff evidence answer = Inr (Some cs)"
  shows "\<exists>issue. productDiscoveryAcceptanceCriteriaIssue brief (JObj handoff) True = Some issue"
    and "assertProjectionPreservesExisting brief (JObj handoff) cs = Inr ()" and "assertProjectionGrounded brief (JObj handoff) cs evidence = Inr ()"
    and "productDiscoveryAcceptanceCriteriaIssue brief
           (JObj (AList.update ''acceptanceCriteria'' (JArr cs) (fields_of (clone (JObj handoff))))) True = None"
  using assms by (auto simp: projected_criteria_def Let_def bindR_Inr split: option.splits)

text \<open>C13: a completed catalog of product criteria can be relied on. When the projection succeeds, every criterion it returns is
  complete, has a valid proof stage and is not a process criterion; identifiers are distinct and some criterion is proved by
  implementation; every criterion the product owner had written is still there with the same identifier, source, statement,
  blocking flag and verification; and every new identifier occurs in the evidence that was read.
\<close>

theorem projection_sound:
  assumes "projected_criteria e regexp brief handoff evidence answer = Inr (Some cs)" and "clone (JObj handoff) = JObj handoff"
  shows "list_all (criterion_complete brief) cs \<and> distinct (map (\<lambda>c. compact (field c ''id'')) cs)
    \<and> list_ex (\<lambda>c. compact (field c ''proofStage'') = ''implementation'') cs
    \<and> list_all (\<lambda>c. list_ex (\<lambda>n. list_all (\<lambda>k. stringified (field n k) = stringified (field c k)) PRODUCT_CRITERION_FIELDS) cs)
        (compactExistingProductCriteria brief (JObj handoff))
    \<and> list_all (\<lambda>c. field c ''id'' \<in> set (map (\<lambda>c. field c ''id'') (compactExistingProductCriteria brief (JObj handoff)))
        \<or> contains_text (join [CHR 0x0A] (map snd evidence)) (js_string (field c ''id''))) cs"
proof -
  let ?existing = "compactExistingProductCriteria brief (JObj handoff)"
  from projection_parts(1)[OF assms(1)] have stage: "field (field brief ''sdd'') ''stage'' = JStr ''product-discovery''"
      and status: "field (JObj handoff) ''status'' = JStr ''complete''"
    by (auto simp: productDiscoveryAcceptanceCriteriaIssue_def split: if_splits)
  have catalog: "list_all (criterion_complete brief) cs \<and> distinct (map (\<lambda>c. compact (field c ''id'')) cs)
    \<and> list_ex (\<lambda>c. compact (field c ''proofStage'') = ''implementation'') cs"
    using projection_parts(4)[OF assms(1)] status assms(2) unfolding criteria_issue_None[OF stage] Let_def
    by (subst (asm) criteria_issue_None[OF stage]) (auto simp: Let_def fields_of_def)
  have "list_ex (\<lambda>n. list_all (\<lambda>k. stringified (field n k) = stringified (field c k)) PRODUCT_CRITERION_FIELDS) cs" if "c \<in> set ?existing" for c
  proof -
    obtain us where "mapR (\<lambda>c. preserves cs c PRODUCT_CRITERION_FIELDS) ?existing = Inr us"
      using projection_parts(2)[OF assms(1)] by (auto simp: assertProjectionPreservesExisting_def bindR_Inr)
    from mapR_every[OF this \<open>c \<in> set ?existing\<close>] obtain u where "preserves cs c PRODUCT_CRITERION_FIELDS = Inr u" by blast
    from preserves_Inr[OF this] show ?thesis by (auto simp: PRODUCT_CRITERION_FIELDS_def list_ex_iff)
  qed
  moreover have "field c ''id'' \<in> set (map (\<lambda>c. field c ''id'') ?existing) \<or> contains_text (join [CHR 0x0A] (map snd evidence)) (js_string (field c ''id''))"
    if "c \<in> set cs" for c
    using projection_parts(3)[OF assms(1)] that
    by (auto simp: assertProjectionGrounded_def Let_def bindR_Inr dest!: mapR_every split: if_splits)
  ultimately show ?thesis using catalog by (simp add: list_all_iff)
qed

definition projection_brief :: jsval where
  "projection_brief = JObj [(''sdd'', JObj [(''stage'', JStr ''product-discovery'')]), (''acceptanceCriteria'', JArr [JObj [(''id'', JStr ''PROC-PO-1'')]])]"

definition criterion_words :: "string \<Rightarrow> obj" where
  "criterion_words i = [(''id'', JStr i), (''source'', JStr ''PRD''), (''statement'', JStr ''works''), (''blocking'', JBool True), (''verification'', JStr ''test'')]"

definition projection_answer :: jsval where
  "projection_answer = JArr [JObj (criterion_words ''AC-1'' @ [(''proofStage'', JStr ''implementation'')]),
     JObj (criterion_words ''AC-2'' @ [(''proofStage'', JStr ''quality-assurance'')])]"

definition projection_handoff :: obj where
  "projection_handoff = [(''status'', JStr ''complete''), (''acceptanceCriteria'', JArr [JObj (criterion_words ''AC-1'')])]"

lemma projection_answer_conforms:
  "conforms sample_env (\<lambda>p s. True) (JObj [(''acceptanceCriteria'', projection_answer)])
     (buildProductDiscoveryAcceptanceCriteriaProjectionSchema projection_brief)"
proof -
  have ids: "sort (processCriterionIds projection_brief) = [''PROC-PO-1'']" by code_simp
  show ?thesis
    unfolding buildProductDiscoveryAcceptanceCriteriaProjectionSchema_def ids productCriterionSchema_def projection_answer_def criterion_words_def
    by (simp add: conforms.simps property_rule_of_def Let_def type_wrong_def schema_types_def const_wrong_def enum_wrong_def
        enum_includes_def PRODUCT_CRITERION_FIELDS_def ACCEPTANCE_PROOF_STAGES_def js_object_value_def in_object_def typeMatches_def
        below_def has_own_def)
qed

lemma projection_answer_steps:
  "\<exists>issue. productDiscoveryAcceptanceCriteriaIssue projection_brief (JObj projection_handoff) True = Some issue"
  "compactExistingProductCriteria projection_brief (JObj projection_handoff) \<noteq> []"
  "elements (clone projection_answer) = elements projection_answer"
  "assertProjectionPreservesExisting projection_brief (JObj projection_handoff) (elements projection_answer) = Inr ()"
  "assertProjectionGrounded projection_brief (JObj projection_handoff) (elements projection_answer) [(''PRD.md'', ''AC-2: works'')] = Inr ()"
  "productDiscoveryAcceptanceCriteriaIssue projection_brief
     (JObj (AList.update ''acceptanceCriteria'' (JArr (elements projection_answer)) (fields_of (clone (JObj projection_handoff))))) True = None"
proof -
  have "productDiscoveryAcceptanceCriteriaIssue projection_brief (JObj projection_handoff) True \<noteq> None" by code_simp
  then show "\<exists>issue. productDiscoveryAcceptanceCriteriaIssue projection_brief (JObj projection_handoff) True = Some issue" by blast
qed code_simp+

theorem projection_sound_witness:
  "list_all (criterion_complete projection_brief) (elements projection_answer)
   \<and> list_all (\<lambda>c. list_ex (\<lambda>n. list_all (\<lambda>k. stringified (field n k) = stringified (field c k)) PRODUCT_CRITERION_FIELDS) (elements projection_answer))
        (compactExistingProductCriteria projection_brief (JObj projection_handoff))"
proof -
  let ?answer = "JObj [(''acceptanceCriteria'', projection_answer)]"
  have valid: "assertSchema sample_env (\<lambda>p s. True) ?answer (buildProductDiscoveryAcceptanceCriteriaProjectionSchema projection_brief) label = Inr ?answer" for label
    using projection_answer_conforms by (simp add: assertSchema_def validateAgainstSchema_def validate_conforms)
  obtain issue where "productDiscoveryAcceptanceCriteriaIssue projection_brief (JObj projection_handoff) True = Some issue"
    using projection_answer_steps(1) by blast
  then have "projected_criteria sample_env (\<lambda>p s. True) projection_brief projection_handoff [(''PRD.md'', ''AC-2: works'')]
     (\<lambda>schema. Inr ?answer) = Inr (Some (elements projection_answer))"
    by (simp add: projected_criteria_def Let_def ensure_def valid projection_answer_steps(2-6) del: clone.simps)
  moreover have "clone (JObj projection_handoff) = JObj projection_handoff" by code_simp
  ultimately show ?thesis using projection_sound by blast
qed

end
