(* ===== verification/ExecutorContract.thy ===== *)
theory ExecutorContract
  imports Workspace ProductDiscovery ReviewContract DagCompiler Policy
begin

text \<open>
  The decisions of the executor module (\<open>executor.mjs\<close>) that the event-driven runtime uses: the status of a finished run,
  the classification of a failed process, the artifacts a task builds on, and the contract of each stage: what the handoff of
  product discovery, of technical refinement and of a review has to hold before it counts.

  Plans, briefs and handoffs have passed their schemas. \<open>registry\<close> is the agent catalog, \<open>regexp\<close> tells
  whether a text matches a pattern of a schema.
\<close>

subsection \<open>The status of a run\<close>

definition SETTLED_STATUSES :: "string list" where
  "SETTLED_STATUSES = [''integrated'', ''verified'']"

definition docker_result :: "jsval \<Rightarrow> string" where
  "docker_result status =
     (if status_in status SETTLED_STATUSES then ''pass'' else if status = JStr ''failed'' then ''fail'' else ''blocked'')"

definition service_name :: "jsval \<Rightarrow> jsval" where
  "service_name s = (case s of JStr _ \<Rightarrow> s | _ \<Rightarrow> field s ''name'')"

definition handoff_of :: "(jsval \<times> jsval) list \<Rightarrow> obj \<Rightarrow> jsval" where
  "handoff_of handoffs task = (case map_of handoffs (get task ''task_id'') of None \<Rightarrow> JUndef | Some h \<Rightarrow> h)"

definition compileDockerValidation :: "obj list \<Rightarrow> (jsval \<times> jsval) list \<Rightarrow> jsval list" where
  "compileDockerValidation tasks handoffs =
     map (\<lambda>task. let dv = field (handoff_of handoffs task) ''dockerValidation'' in JObj
       [(''taskId'', get task ''task_id''), (''profile'', coalesce (field dv ''profile'') (JStr ''none'')),
        (''result'', JStr (docker_result (get task ''status''))),
        (''services'', JArr (map service_name (elements (field dv ''services'')))),
        (''limitation'', coalesce (field dv ''error'') JNull)])
     (filter (\<lambda>task. \<not> nullish (handoff_of handoffs task)) tasks)"

definition entry_count :: "(jsval \<Rightarrow> bool) \<Rightarrow> jsval list \<Rightarrow> jsval" where
  "entry_count P entries = JNum (int (length (filter P entries)))"

definition compileDockerValidationSummary :: "jsval list \<Rightarrow> obj list \<Rightarrow> jsval" where
  "compileDockerValidationSummary dockerValidation tasks =
     (let unprofiled = (\<lambda>dv. field dv ''profile'' = JStr ''none'') in JObj
       [(''totalTasks'', JNum (int (length tasks))), (''tasksWithDocker'', entry_count (\<lambda>dv. \<not> unprofiled dv) dockerValidation),
        (''tasksValidated'', entry_count (\<lambda>dv. field dv ''result'' = JStr ''pass'' \<and> \<not> unprofiled dv) dockerValidation),
        (''tasksBlocked'', entry_count (\<lambda>dv. field dv ''result'' = JStr ''blocked'') dockerValidation),
        (''tasksWithMocks'', entry_count unprofiled dockerValidation)])"

definition some_status :: "obj list \<Rightarrow> string \<Rightarrow> bool" where
  "some_status tasks status \<longleftrightarrow> list_ex (\<lambda>task. get task ''status'' = JStr status) tasks"

definition determineRunStatusWithDocker :: "obj list \<Rightarrow> jsval list \<Rightarrow> string" where
  "determineRunStatusWithDocker tasks dockerValidation =
     (if some_status tasks ''failed'' then ''failed''
      else if some_status tasks ''blocked'' then ''blocked''
      else if some_status tasks ''cancelled'' then ''cancelled''
      else if list_ex (\<lambda>task. \<not> status_in (get task ''status'') SETTLED_STATUSES) tasks then ''failed''
      else ''closed'')"

subsection \<open>Failed processes\<close>

text \<open>
  \<open>providerRetryAfterFromMessage\<close> searches for the first place where one of two patterns matches. In both the white space and
  the digits end where another kind of character begins, so a match reads the whole run of digits.
\<close>

definition skip_word :: "string \<Rightarrow> string \<Rightarrow> string option" where
  "skip_word p s = (if starts_with_ci s p then Some (drop (length p) s) else None)"

definition skip_spaces :: "string \<Rightarrow> string" where
  "skip_spaces s = dropWhile is_space s"

definition retry_after_word :: "string \<Rightarrow> string option" where
  "retry_after_word s =
     (case skip_word ''retry'' s of
        None \<Rightarrow> None
      | Some t \<Rightarrow> skip_word ''after'' (case t of c # cs \<Rightarrow> if c \<in> set ''-_ '' then cs else t | [] \<Rightarrow> []))"

text \<open>The digits after a colon or an equals sign, at most \<open>n\<close> of them, and the rest.\<close>

definition assigned_digits :: "nat \<Rightarrow> string \<Rightarrow> (string \<times> string) option" where
  "assigned_digits n s =
     (case skip_spaces s of
        c # cs \<Rightarrow>
          (let t = skip_spaces cs; digits = takeWhile is_digit t in
           if c \<in> set '':='' \<and> digits \<noteq> [] \<and> length digits \<le> n then Some (digits, dropWhile is_digit t) else None)
      | [] \<Rightarrow> None)"

definition retry_after_ms_at :: "string \<Rightarrow> string option" where
  "retry_after_ms_at s =
     (case retry_after_word s of
        None \<Rightarrow> None
      | Some t \<Rightarrow>
          (case assigned_digits 9 (case skip_word ''ms'' t of Some u \<Rightarrow> u | None \<Rightarrow> t) of
             None \<Rightarrow> None
           | Some (digits, rest) \<Rightarrow> if starts_with_ci (skip_spaces rest) ''ms'' then Some digits else None))"

definition ends_word :: "string \<Rightarrow> bool" where
  "ends_word s \<longleftrightarrow> (case s of [] \<Rightarrow> True | c # _ \<Rightarrow> \<not> is_word c)"

definition retry_after_seconds_at :: "string \<Rightarrow> string option" where
  "retry_after_seconds_at s =
     (case retry_after_word s of
        None \<Rightarrow> None
      | Some t \<Rightarrow>
          (case assigned_digits 7 t of
             None \<Rightarrow> None
           | Some (digits, rest) \<Rightarrow>
               if ends_word rest \<or> list_ex (\<lambda>unit. case skip_word unit rest of Some u \<Rightarrow> ends_word u | None \<Rightarrow> False)
                    [''s'', ''sec'', ''second'', ''seconds'']
               then Some digits else None))"

fun first_match :: "(string \<Rightarrow> 'a option) \<Rightarrow> string \<Rightarrow> 'a option" where
  "first_match f [] = f []"
| "first_match f (c # cs) = (case f (c # cs) of Some x \<Rightarrow> Some x | None \<Rightarrow> first_match f cs)"

definition digits_number :: "string \<Rightarrow> int" where
  "digits_number s = (case digits_value 0 s of Some n \<Rightarrow> int n | None \<Rightarrow> 0)"

definition providerRetryAfterFromMessage :: "string \<Rightarrow> int option" where
  "providerRetryAfterFromMessage s =
     (case first_match retry_after_ms_at s of
        Some digits \<Rightarrow> Some (max 0 (digits_number digits))
      | None \<Rightarrow>
          (case first_match retry_after_seconds_at s of
             Some digits \<Rightarrow> Some (max 0 (digits_number digits * 1000))
           | None \<Rightarrow> None))"

record process_outcome =
  po_status :: "int option"
  po_stdout :: jsval
  po_stderr :: jsval
  po_timedOut :: bool
  po_softTimedOut :: bool
  po_stalled :: bool
  po_aborted :: bool
  po_error :: jsval

definition js_or :: "jsval \<Rightarrow> jsval \<Rightarrow> jsval" where
  "js_or a b = (if truthy a then a else b)"

definition raw_message :: "process_outcome \<Rightarrow> string" where
  "raw_message r = js_string (js_or (po_stderr r) (js_or (po_stdout r) (js_or (field (po_error r) ''message'') (JStr ''executor failed''))))"

definition rate_limit_re :: re where
  "rate_limit_re = re_alt [re_seq [WordEdge, lit ''429'', WordEdge], re_seq [lit ''rate'', re_opt (any_of '' -''), lit ''limit''], lit ''too many requests'']"

definition locked_re :: re where
  "locked_re = re_seq [WordEdge, lit ''database is locked'', WordEdge]"

definition failure_of :: "string \<Rightarrow> string \<Rightarrow> bool \<Rightarrow> string \<Rightarrow> obj" where
  "failure_of code message retryable category =
     [(''code'', JStr code), (''message'', JStr (take 4000 message)), (''retryable'', JBool retryable), (''category'', JStr category)]"

definition classify_message :: "process_outcome \<Rightarrow> string \<Rightarrow> obj" where
  "classify_message r message =
     (if re_test_ci rate_limit_re message
      then failure_of ''provider_rate_limited'' message True ''provider'' @ [(''providerRetryAfterMs'', number_json (providerRetryAfterFromMessage message))]
      else if contains_text message ''opencode_agent_fallback_detected:'' then failure_of ''opencode_agent_fallback_detected'' message False ''code''
      else if contains_text message ''opencode_provider_credential_not_observed:'' \<or> contains_text message ''\"errorName\":\"ProviderAuthError\"''
      then failure_of ''opencode_provider_auth_not_observed'' message False ''provider''
      else if contains_text message ''opencode_model_unavailable_after_refresh:'' \<or> contains_text message ''opencode_model_unavailable_after_refresh_reload:''
             \<or> contains_text message ''ProviderModelNotFoundError:''
      then failure_of ''opencode_provider_model_not_found'' message False ''provider''
      else if contains_text message ''schema_validation_failed:handoffResult:''
      then failure_of ''handoff_schema_invalid'' message True ''contract'' @ [(''repairExhausted'', JBool True)]
      else if contains_text message ''handoff_identity_mismatch:'' then failure_of ''handoff_identity_mismatch'' message False ''contract''
      else if re_test_ci locked_re message then failure_of ''opencode_state_database_locked'' message True ''tooling-infrastructure''
      else if po_stalled r then failure_of ''executor_stalled'' message True ''liveness''
      else if po_softTimedOut r then failure_of ''executor_soft_timeout'' message True ''liveness''
      else if po_timedOut r then failure_of ''executor_timeout'' message True ''liveness''
      else failure_of ''executor_exit_nonzero'' message True ''code'')"

text \<open>\<open>health\<close> is the health of the services before they were stopped, \<open>dockerBlocked\<close> why containers could not be used.\<close>

definition classifyValidationFailure :: "process_outcome \<Rightarrow> (bool \<times> string list) option \<Rightarrow> (string \<times> string) option \<Rightarrow> bool \<Rightarrow> obj" where
  "classifyValidationFailure r health dockerBlocked lifecycleUsed =
     (case dockerBlocked of
        Some (code, message) \<Rightarrow> [(''code'', JStr code), (''message'', JStr message), (''retryable'', JBool False), (''category'', JStr ''environmental'')]
      | None \<Rightarrow>
          (case (lifecycleUsed, health) of
             (True, Some (False, services)) \<Rightarrow>
               failure_of ''executor_service_failed'' (''Service(s) unhealthy during validation: '' @ join '', '' services) True ''service''
           | _ \<Rightarrow> classify_message r (raw_message r)))"

subsection \<open>The artifacts of the dependencies\<close>

definition artifact_time :: "env \<Rightarrow> obj \<Rightarrow> int" where
  "artifact_time e artifact =
     (case parse_date e (js_string (coalesce (get artifact ''created_at'') (JStr []))) of Some t \<Rightarrow> t | None \<Rightarrow> 0)"

definition artifact_key :: "obj \<Rightarrow> string" where
  "artifact_key artifact = js_string (coalesce (get artifact ''artifact_id'') (JStr []))"

definition newer_artifact :: "env \<Rightarrow> obj \<Rightarrow> obj \<Rightarrow> bool" where
  "newer_artifact e a b \<longleftrightarrow>
     artifact_time e a > artifact_time e b \<or> artifact_time e a = artifact_time e b \<and> artifact_key a > artifact_key b"

definition note_artifact :: "env \<Rightarrow> jsval list \<Rightarrow> obj \<Rightarrow> (jsval \<times> obj) list \<Rightarrow> (jsval \<times> obj) list" where
  "note_artifact e dependencies artifact newest =
     (let t = get artifact ''task_id'' in
      if t \<notin> set dependencies \<or> js_number (get artifact ''accepted'') \<noteq> Some 1 then newest
      else case map_of newest t of
        Some existing \<Rightarrow> if newer_artifact e artifact existing then AList.update t artifact newest else newest
      | None \<Rightarrow> AList.update t artifact newest)"

definition latestAcceptedDependencyArtifacts :: "env \<Rightarrow> obj list \<Rightarrow> jsval list \<Rightarrow> obj list" where
  "latestAcceptedDependencyArtifacts e artifacts dependencyIds =
     List.map_filter (map_of (fold (note_artifact e dependencyIds) artifacts [])) dependencyIds"

subsection \<open>The contract of a stage\<close>

text \<open>\<open>try { m } catch (error) { h }\<close>; a file name as the path it denotes, file names of the runtime being absolute.\<close>

definition tryM :: "('s, 'a) sm \<Rightarrow> (string \<Rightarrow> ('s, 'a) sm) \<Rightarrow> ('s, 'a) sm" where
  "tryM m h s = (case m s of (Inl message, t) \<Rightarrow> h message t | (Inr x, t) \<Rightarrow> (Inr x, t))"

definition abs_path :: "string \<Rightarrow> path" where
  "abs_path s = at_path [] s"

definition contract_failure :: "string \<Rightarrow> string \<Rightarrow> obj" where
  "contract_failure code message =
     [(''code'', JStr code), (''message'', JStr message), (''retryable'', JBool True), (''category'', JStr ''contract''), (''repairExhausted'', JBool True)]"

definition criteria_message :: "criteria_issue \<Rightarrow> string" where
  "criteria_message issue =
     (let cid = js_string (coalesce (cr_criterionId issue) (JStr ''unknown'')) in
      case map_of [(''product_acceptance_criteria_missing'', ''Product Owner must emit stable product acceptanceCriteria''),
        (''product_acceptance_process_criterion_leaked'', ''Runtime process criterion '' @ cid @ '' must not appear in Product Owner product acceptanceCriteria''),
        (''product_acceptance_criterion_invalid'', ''Product acceptance criterion '' @ cid @ '' requires id, source, statement, blocking and verification''),
        (''product_acceptance_proof_stage_missing'', ''Product acceptance criterion '' @ cid @ '' must emit explicit proofStage''),
        (''product_acceptance_proof_stage_invalid'', ''Product acceptance criterion '' @ cid @ '' has invalid proofStage''),
        (''product_acceptance_implementation_proof_missing'', ''Product Discovery must classify at least one product criterion as proofStage=implementation so Technical Refinement can compile implementation work''),
        (''product_acceptance_criterion_duplicate'', ''Duplicate product acceptance criterion: '' @ cid)] (cr_code issue) of
        Some message \<Rightarrow> message
      | None \<Rightarrow> cr_reason issue)"

definition requires_assessment :: "obj \<Rightarrow> bool" where
  "requires_assessment plan \<longleftrightarrow> field (get plan ''workflow'') ''bootstrapFactTopology'' = JStr ''fact-capability-v2''
     \<or> field (get plan ''provenance'') ''plannerVersion'' = JStr ''capability-fact-planner/v1''"

definition assessment_failure :: "registry \<Rightarrow> obj \<Rightarrow> obj \<Rightarrow> obj option" where
  "assessment_failure registry plan handoff =
     (if \<not> requires_assessment plan then None
      else if \<not> truthy (get handoff ''bootstrapReviewAssessment'')
      then Some (contract_failure ''product_discovery_bootstrap_assessment_missing''
             ''Product Discovery must emit bootstrapReviewAssessment before bootstrap review topology can be refined'')
      else case normalizeProductDiscoveryReviewAssessment (JObj handoff) registry of
        Inl message \<Rightarrow> Some (contract_failure ''product_discovery_bootstrap_assessment_invalid'' message)
      | Inr _ \<Rightarrow> None)"

definition discovery_failure :: "registry \<Rightarrow> obj \<Rightarrow> jsval \<Rightarrow> obj \<Rightarrow> jsval \<Rightarrow> obj option" where
  "discovery_failure registry plan stage handoff brief =
     (case assessment_failure registry plan handoff of
        Some failure \<Rightarrow> Some failure
      | None \<Rightarrow>
          map_option (\<lambda>issue. contract_failure (cr_code issue) (criteria_message issue))
            (productDiscoveryAcceptanceCriteriaIssue
              (coalesce brief (JObj [(''sdd'', JObj [(''stage'', stage)]), (''acceptanceCriteria'', JArr [])])) (JObj handoff) True))"

definition owner_artifacts :: "env \<Rightarrow> obj \<Rightarrow> obj list \<Rightarrow> obj list" where
  "owner_artifacts e plan artifacts =
     foldr (insert_ordered (\<lambda>a b. localeCompare e (js_string (get b ''created_at'')) (js_string (get a ''created_at''))))
       (filter (\<lambda>a. get a ''task_id'' = field (get plan ''workflow'') ''productOwnerTaskId'' \<and> get a ''kind'' = JStr ''handoff''
          \<and> js_number (get a ''accepted'') = Some 1) artifacts) []"

definition noncanonical_text :: "canonical \<Rightarrow> string" where
  "noncanonical_text c = ''technical_lead_reviewed_noncanonical_plan:omitted='' @ join '','' (ca_omittedIds c)
     @ '':extra='' @ join '','' (ca_extraIds c) @ '':mutated='' @ join '','' (ca_mutatedIds c)"

definition texts :: "string list \<Rightarrow> jsval" where
  "texts xs = JArr (map JStr xs)"

text \<open>The plan of the technical lead is compiled once to see that it can be; the compiled plan is not kept here.\<close>

definition refinement_contract :: "env \<Rightarrow> (string \<Rightarrow> string \<Rightarrow> bool) \<Rightarrow> registry \<Rightarrow> jsval \<Rightarrow> obj \<Rightarrow> obj \<Rightarrow> obj \<Rightarrow> obj wm" where
  "refinement_contract e regexp registry schemas plan taskPlan handoff =
     bindM (liftDb (pg_listArtifacts e (js_string (get plan ''runId'')))) (\<lambda>artifacts.
     case owner_artifacts e plan artifacts of
       [] \<Rightarrow> throwM ''product_owner_handoff_artifact_missing''
     | poArtifact # _ \<Rightarrow>
         bindM (readJson (abs_path (js_string (get poArtifact ''path'')))) (\<lambda>poHandoff.
         let required = coalesce (field poHandoff ''acceptanceCriteria'') (JArr []);
             canonical = canonicalizeImplementationPlanAcceptanceCriteria (get handoff ''implementationPlan'') required in
         if ca_normalized canonical
         then seqM (liftDb (pg_event e (get plan ''runId'') (get taskPlan ''taskId'') ''implementation_plan.acceptance_criteria_rejected_after_review''
                (JObj [(''omittedIds'', texts (ca_omittedIds canonical)), (''extraIds'', texts (ca_extraIds canonical)),
                       (''mutatedIds'', texts (ca_mutatedIds canonical)), (''authority'', JStr ''product-owner-acceptance-criteria'')])))
              (throwM (noncanonical_text canonical))
         else
           bindM (liftDb (db_now e)) (\<lambda>now.
           liftR (compileImplementationDag e regexp registry plan (JObj handoff) schemas required now JUndef))))"

definition review_failure :: "string \<Rightarrow> string \<Rightarrow> jsval \<Rightarrow> obj" where
  "review_failure code message dec =
     [(''code'', JStr code), (''message'', JStr message), (''retryable'', JBool (dec \<noteq> JStr ''blocked'')), (''category'', JStr ''review''),
      (''reviewDecision'', dec), (''repairExhausted'', JBool (dec = JStr ''changes_requested''))]"

definition effective_brief :: "obj \<Rightarrow> jsval \<Rightarrow> jsval \<Rightarrow> jsval" where
  "effective_brief taskPlan stage brief = coalesce brief (JObj [(''agentId'', get taskPlan ''agentId''),
     (''sdd'', JObj [(''role'', coalesce (coalesce (get taskPlan ''sddRole'') (get taskPlan ''role'')) (get taskPlan ''agentId'')),
        (''stage'', stage), (''reviewedRevision'', JNum 1)])])"

definition review_contract_failure :: "obj \<Rightarrow> jsval \<Rightarrow> obj \<Rightarrow> jsval \<Rightarrow> obj option res" where
  "review_contract_failure taskPlan stage handoff brief =
     (let review = get handoff ''sddReview''; acceptance = stage = JStr ''product-acceptance''; expected = requiredReviewDecision stage in
      case validateSddReviewContract (effective_brief taskPlan stage brief) (JObj handoff) of
        Some (code, message) \<Rightarrow>
          let missingDecision = code \<in> {''review_missing'', ''review_decision_invalid''} in
          Inr (Some (review_failure
            (if acceptance then (if missingDecision then ''product_not_accepted'' else ''product_review_contract_invalid'')
             else if missingDecision then ''review_not_approved'' else ''review_contract_invalid'')
            message (coalesce (field review ''decision'') JNull)))
      | None \<Rightarrow>
          if nullish review then Inl ''Cannot read properties of undefined (reading 'decision')''
          else if field review ''decision'' \<noteq> JStr expected
          then Inr (Some (review_failure (if acceptance then ''product_not_accepted'' else ''review_not_approved'')
                 (''Stage '' @ js_string stage @ '' requires sddReview.decision='' @ expected) (field review ''decision'')))
          else Inr None)"

definition stageContractFailure ::
  "env \<Rightarrow> (string \<Rightarrow> string \<Rightarrow> bool) \<Rightarrow> registry \<Rightarrow> jsval \<Rightarrow> obj \<Rightarrow> obj \<Rightarrow> obj \<Rightarrow> jsval \<Rightarrow> obj option wm" where
  "stageContractFailure e regexp registry schemas plan taskPlan handoff brief =
     (let stage = coalesce (get taskPlan ''stage'') (JStr ''implementation'');
          discovery = (if stage = JStr ''product-discovery'' then discovery_failure registry plan stage handoff brief else None) in
      if discovery \<noteq> None then returnM discovery
      else
        bindM (if stage = JStr ''technical-refinement''
               then tryM (bindM (refinement_contract e regexp registry schemas plan taskPlan handoff) (\<lambda>_. returnM None))
                      (\<lambda>message. returnM (Some (contract_failure ''implementation_plan_invalid'' message)))
               else returnM None) (\<lambda>refinement.
        if refinement \<noteq> None then returnM refinement
        else if isSddReviewStage stage then liftR (review_contract_failure taskPlan stage handoff brief)
        else returnM None))"

end
