(* ===== verification/RepairCheckpoint.thy ===== *)
theory RepairCheckpoint
  imports ExecutorContract
begin

text \<open>
  The files by which a repair of a handoff is resumed (\<open>repair-checkpoint.mjs\<close>): the checkpoint of a repair and the receipt
  of a resumption, each bound to the run, the task and the attempt it belongs to. A file is replaced by renaming a temporary
  one; its content after the call is all that is modelled.
\<close>

definition RESUMABLE_REPAIR_CHECKPOINT_STATUSES :: "string list" where
  "RESUMABLE_REPAIR_CHECKPOINT_STATUSES = [''repair-started'', ''repair-completed'', ''repair-exhausted'']"

definition repairCheckpointPathForHandoff :: "string \<Rightarrow> string" where
  "repairCheckpointPathForHandoff handoffPath = handoffPath @ ''.repair-checkpoint.json''"

definition repairResumeReceiptPathForHandoff :: "string \<Rightarrow> string" where
  "repairResumeReceiptPathForHandoff handoffPath = handoffPath @ ''.repair-resume-receipt.json''"

definition isResumableRepairCheckpoint :: "jsval \<Rightarrow> bool" where
  "isResumableRepairCheckpoint checkpoint \<longleftrightarrow>
     truthy checkpoint \<and> status_in (field checkpoint ''status'') RESUMABLE_REPAIR_CHECKPOINT_STATUSES
     \<and> truthy (field checkpoint ''handoff'')
     \<and> (case js_number (field checkpoint ''taskAttempt'') of Some n \<Rightarrow> 1 \<le> n | None \<Rightarrow> False)"

definition repairResumeEffectKey :: "env \<Rightarrow> jsval \<Rightarrow> string" where
  "repairResumeEffectKey e identity = ''sha256:'' @ sha256 e (join ''|'' (map (\<lambda>v. js_string (coalesce v (JStr [])))
     [field identity ''runId'', field identity ''taskId'', field identity ''taskAttempt'', field identity ''dispatchGeneration'',
      field identity ''fencingToken'', JStr ''repair.resume_checkpoint_loaded'']))"

text \<open>A value answers an expectation when every expected field that is given has the same text.\<close>

definition answers :: "obj \<Rightarrow> jsval \<Rightarrow> bool" where
  "answers expected v \<longleftrightarrow>
     list_all (\<lambda>(k, x). nullish x \<or> js_string (coalesce (field v k) (JStr [])) = js_string x) expected"

definition read_bound :: "string \<Rightarrow> path \<Rightarrow> obj \<Rightarrow> jsval option wm" where
  "read_bound version p expected =
     tryM (bindM (readJson p) (\<lambda>v.
       returnM (if field v ''contractVersion'' = JStr version \<and> answers expected v then Some v else None)))
       (\<lambda>_. returnM None)"

definition readRepairCheckpoint :: "path \<Rightarrow> obj \<Rightarrow> jsval option wm" where
  "readRepairCheckpoint = read_bound ''runtime-repair-checkpoint/v1''"

definition readRepairResumeReceipt :: "path \<Rightarrow> obj \<Rightarrow> jsval option wm" where
  "readRepairResumeReceipt = read_bound ''runtime-repair-resume-receipt/v1''"

definition keyed :: "(obj \<Rightarrow> string) \<Rightarrow> obj \<Rightarrow> obj" where
  "keyed key ob = AList.update ''effectKey'' (coalesce (get ob ''effectKey'') (JStr (key ob))) ob"

definition checkpoint_effect_key :: "env \<Rightarrow> obj \<Rightarrow> string" where
  "checkpoint_effect_key e ob = repairEffectKey e
     [get ob ''runId'', get ob ''taskId'', get ob ''taskAttempt'', get ob ''repairKind'',
      if get ob ''repairPass'' = JUndef then JNum 0 else get ob ''repairPass'',
      if get ob ''sourceRevision'' = JUndef then JNum 0 else get ob ''sourceRevision'',
      JStr (''checkpoint:'' @ js_string (coalesce (get ob ''status'') (JStr ''unknown'')))]"

definition write_bound :: "env \<Rightarrow> string \<Rightarrow> (obj \<Rightarrow> string) \<Rightarrow> path \<Rightarrow> obj \<Rightarrow> obj wm" where
  "write_bound e version key p input =
     bindM (liftDb (db_now e)) (\<lambda>now.
     let ob = keyed key (assign [(''contractVersion'', JStr version), (''createdAt'', JStr now)] input) in
     seqM (writeJson p (JObj ob)) (returnM ob))"

definition writeRepairCheckpoint :: "env \<Rightarrow> path \<Rightarrow> obj \<Rightarrow> obj wm" where
  "writeRepairCheckpoint e = write_bound e ''runtime-repair-checkpoint/v1'' (checkpoint_effect_key e)"

definition writeRepairResumeReceipt :: "env \<Rightarrow> path \<Rightarrow> obj \<Rightarrow> obj wm" where
  "writeRepairResumeReceipt e = write_bound e ''runtime-repair-resume-receipt/v1'' (\<lambda>ob. repairResumeEffectKey e (JObj ob))"

end
