(* ===== verification/Finalizer.thy ===== *)
theory Finalizer
  imports RepairCheckpoint Reconciler
begin

text \<open>
  The finalizer of execution results (\<open>event-driven-finalizer.mjs\<close>): one call takes the result of an attempt, refuses it
  when the task has moved on, brings the handoff into shape, asks the contract of the stage and the completion gate, accounts
  for the paths of the workspace, integrates them, and records the outcome of the task and the retry the policy grants.

  \<open>finalizer\<close> holds the arguments of the call. Columns that hold JSON text hold the value here, an error is its message, and a
  handoff file that does not hold an object has no fields. The store has \<open>eventOnce\<close> and \<open>writeCheckpoint\<close>.
\<close>

record finalizer =
  fz_env :: env
  fz_rng :: "nat \<Rightarrow> rat"
  fz_git :: git
  fz_regexp :: "string \<Rightarrow> string \<Rightarrow> bool"
  fz_registry :: registry
  fz_schemas :: jsval
  fz_root :: path
  fz_options :: options
  fz_plan :: obj
  fz_task :: obj

definition run_id :: "finalizer \<Rightarrow> jsval" where
  "run_id fz = get (fz_plan fz) ''runId''"

definition task_id :: "finalizer \<Rightarrow> jsval" where
  "task_id fz = get (fz_task fz) ''taskId''"

definition emit :: "finalizer \<Rightarrow> string \<Rightarrow> obj \<Rightarrow> unit pg_m" where
  "emit fz ty payload = pg_event (fz_env fz) (run_id fz) (task_id fz) ty (JObj payload)"

definition patch_task :: "finalizer \<Rightarrow> obj \<Rightarrow> unit pg_m" where
  "patch_task fz patch = seqM (pg_updateTask (js_string (task_id fz)) patch JUndef) (returnM ())"

definition number_at :: "obj \<Rightarrow> string \<Rightarrow> int" where
  "number_at ob k = (case js_number (get ob k) of Some n \<Rightarrow> n | None \<Rightarrow> 0)"

definition fence_fields :: "obj \<Rightarrow> obj" where
  "fence_fields result = [(''attempt'', get result ''attempt''), (''dispatchGeneration'', get result ''dispatchGeneration''),
     (''fencingToken'', get result ''fencingToken'')]"

definition checkpoint :: "finalizer \<Rightarrow> obj \<Rightarrow> string \<Rightarrow> jsval \<Rightarrow> obj \<Rightarrow> unit pg_m" where
  "checkpoint fz result ty fingerprint payload = seqM (pg_writeCheckpoint (fz_env fz)
     \<lparr>ci_runId = js_string (run_id fz), ci_taskId = js_string (task_id fz), ci_type = ty, ci_attempt = number_at result ''attempt'',
      ci_dispatchGeneration = number_at result ''dispatchGeneration'', ci_fencingToken = number_at result ''fencingToken'',
      ci_fingerprint = fingerprint, ci_reusable = False, ci_payload = JObj payload\<rparr>) (returnM ())"

subsection \<open>Results\<close>

definition BUFFERED_PERFORMANCE_EVENT_TYPES :: "string list" where
  "BUFFERED_PERFORMANCE_EVENT_TYPES = [''opencode.model_catalog'', ''opencode.launching'', ''opencode.spawned'', ''opencode.completed'',
     ''opencode.failure'', ''opencode.session_export'', ''opencode.handoff_authority_resolved'']"

definition persistBufferedPerformanceEvents :: "finalizer \<Rightarrow> jsval \<Rightarrow> jsval list \<Rightarrow> unit pg_m" where
  "persistBufferedPerformanceEvents fz attempt runtimeEvents = forM (\<lambda>event.
     whenM (status_in (field event ''type'') BUFFERED_PERFORMANCE_EVENT_TYPES)
       (emit fz (js_string (field event ''type'')) (assign (fields_of (field event ''payload''))
          [(''attempt'', attempt), (''observedAt'', coalesce (field event ''observedAt'') JNull),
           (''source'', JStr ''rust-buffered-opencode-runtime-event'')]))) runtimeEvents"

definition workspaceFromResult :: "obj \<Rightarrow> workspace" where
  "workspaceFromResult result = (let ws = get result ''workspace'' in
     \<lparr>ws_mode = js_string (coalesce (field ws ''mode'') (JStr ''copy'')), ws_path = abs_path (js_string (field ws ''path'')),
      ws_baseline = None, ws_snapshotPatterns = [''**'']\<rparr>)"

definition change_set_matches :: "jsval \<Rightarrow> obj \<Rightarrow> bool" where
  "change_set_matches changeSet result \<longleftrightarrow>
     field changeSet ''schemaVersion'' = JStr ''workspace-change-set/v1''
     \<and> field changeSet ''runId'' = get result ''runId'' \<and> field changeSet ''taskId'' = get result ''taskId''
     \<and> same_number (field changeSet ''attempt'') (get result ''attempt'')
     \<and> same_number (field changeSet ''dispatchGeneration'') (get result ''dispatchGeneration'')
     \<and> same_number (field changeSet ''fencingToken'') (get result ''fencingToken'')"

definition present_file :: "jsval \<Rightarrow> bool wm" where
  "present_file p = (if truthy p then exists_file (abs_path (js_string p)) else returnM False)"

definition inspectExecutionChangeSet :: "finalizer \<Rightarrow> obj \<Rightarrow> workspace \<Rightarrow> change_inspection wm" where
  "inspectExecutionChangeSet fz result ws =
     bindM (present_file (get result ''changeSetPath'')) (\<lambda>present.
     if \<not> present then inspectWorkspaceChanges (fz_env fz) (fz_git fz) ws (fz_task fz)
     else
       bindM (readJson (abs_path (js_string (get result ''changeSetPath'')))) (\<lambda>changeSet.
       seqM (guardM (change_set_matches changeSet result) ''workspace_changeset_identity_mismatch'')
       (let observedPaths = sort (uniq (filter (\<lambda>p. p \<noteq> [])
              (map (\<lambda>p. replace_char CHR 0x5C CHR ''/'' (js_string p)) (elements (field changeSet ''observedPaths''))))) in
        case classifyWorkspaceChanges observedPaths of (changedPaths, toolingSideEffects) \<Rightarrow>
        returnM \<lparr>in_changedPaths = changedPaths,
          in_unauthorized = filter (\<lambda>p. \<not> anyPatternMatches (owned_paths (fz_task fz)) p) changedPaths,
          in_toolingSideEffects = toolingSideEffects, in_observedPaths = observedPaths, in_source = JStr ''rust-change-set''\<rparr>)))"

definition stored_fingerprint :: "jsval \<Rightarrow> fingerprint option" where
  "stored_fingerprint v = (case v of
      JObj ps \<Rightarrow> Some \<lparr>fp_sha256 = js_string (get ps ''sha256''), fp_bytes = num_or 0 (get ps ''bytes'')\<rparr> | _ \<Rightarrow> None)"

definition hydrateWorkspaceBaseline :: "jsval \<Rightarrow> workspace \<Rightarrow> workspace wm" where
  "hydrateWorkspaceBaseline baselinePath ws =
     (if ws_mode ws = ''worktree'' then returnM ws
      else
        bindM (present_file baselinePath) (\<lambda>present.
        if \<not> present then
          (if ws_mode ws = ''none'' then returnM ws
           else throwM (''workspace_baseline_missing:'' @ js_string (coalesce baselinePath (JStr ''unknown''))))
        else
          bindM (readJson (abs_path (js_string baselinePath))) (\<lambda>payload.
          returnM (ws\<lparr>ws_baseline := Some (map (\<lambda>(k, v). (k, stored_fingerprint v)) (fields_of (field payload ''files'')))\<rparr>))))"

definition loadExecutionResult :: "obj \<Rightarrow> obj wm" where
  "loadExecutionResult resultRow =
     bindM (present_file (get resultRow ''result_path'')) (\<lambda>present.
     if present then bindM (readJson (abs_path (js_string (get resultRow ''result_path'')))) (\<lambda>v. returnM (fields_of v))
     else returnM (fields_of (get resultRow ''result_json'')))"

definition staleExecutionResult :: "obj \<Rightarrow> obj \<Rightarrow> bool" where
  "staleExecutionResult taskRow result \<longleftrightarrow>
     \<not> same_number (get result ''attempt'') (get taskRow ''attempt'')
     \<or> \<not> same_number (get result ''dispatchGeneration'') (get taskRow ''dispatch_generation'')
     \<or> \<not> same_number (get result ''fencingToken'') (get taskRow ''fencing_token'')"

definition scheduleCleanup :: "finalizer \<Rightarrow> string \<Rightarrow> unit pg_m" where
  "scheduleCleanup fz reason = tryM (seqM (pg_requestWorkspaceCleanup (fz_env fz) (js_string (task_id fz)) reason) (returnM ()))
     (\<lambda>message. catchM (emit fz ''workspace.cleanup.enqueue_failed'' [(''code'', JNull), (''message'', JStr message)]))"

definition scheduleReconcile :: "finalizer \<Rightarrow> string \<Rightarrow> unit pg_m" where
  "scheduleReconcile fz reason = tryM (seqM (pg_requestReconcile (fz_env fz) (js_string (run_id fz)) reason) (returnM ()))
     (\<lambda>message. catchM (emit fz ''runtime.reconcile.enqueue_failed''
        [(''code'', JNull), (''message'', JStr message), (''reason'', JStr reason)]))"

definition consume :: "finalizer \<Rightarrow> obj \<Rightarrow> unit pg_m" where
  "consume fz resultRow = seqM (pg_consumeExecutionResult (fz_env fz) (js_string (get resultRow ''result_id''))) (returnM ())"

subsection \<open>Repairs asked for by quality assurance\<close>

definition nonblank :: "jsval list \<Rightarrow> string list" where
  "nonblank vs = filter (\<lambda>s. s \<noteq> []) (map (\<lambda>v. trim (js_string v)) vs)"

definition unsuccessful :: "jsval \<Rightarrow> bool" where
  "unsuccessful entry \<longleftrightarrow> field entry ''result'' \<in> {JStr ''failed'', JStr ''blocked''}"

definition listed :: "string \<Rightarrow> string \<Rightarrow> string list \<Rightarrow> string list" where
  "listed label sep xs = (if xs = [] then [] else [label @ join sep xs])"

definition qaRepairDiagnostic :: "obj \<Rightarrow> string" where
  "qaRepairDiagnostic handoff =
     (let requiredDeltas = uniq (nonblank (elements (field (get handoff ''sddReview'') ''requiredDeltas'')));
          failedCriterionIds = filter (\<lambda>s. s \<noteq> []) (map (\<lambda>entry. JsPrelude.compact (field entry ''criterionId''))
            (filter unsuccessful (elements (get handoff ''criterionResults''))));
          failedValidation = filter (\<lambda>s. s \<noteq> []) (map (\<lambda>entry. JsPrelude.compact (field entry ''command''))
            (filter (\<lambda>entry. field entry ''blocking'' \<noteq> JBool False \<and> unsuccessful entry) (elements (get handoff ''validation''))));
          residualRisks = nonblank (elements (get handoff ''residualRisks'')) in
      join '' '' ([''Downstream Quality Assurance requested a corrective implementation pass after the prior implementation was integrated.'']
        @ listed ''Required deltas: '' '' | '' requiredDeltas @ listed ''Failed/blocked QA criteria: '' '', '' failedCriterionIds
        @ listed ''Failed/blocked QA validation: '' '' | '' failedValidation @ listed ''QA residual risks: '' '' | '' residualRisks))"

definition joined :: "string \<Rightarrow> jsval \<Rightarrow> string" where
  "joined sep v = join sep (map (\<lambda>x. if nullish x then [] else js_string x) (elements v))"

definition risks_or :: "obj \<Rightarrow> string \<Rightarrow> jsval" where
  "risks_or handoff otherwise = (let risks = joined ''; '' (get handoff ''residualRisks'') in JStr (if risks \<noteq> [] then risks else otherwise))"

definition classifyHandoffStatusFailure :: "obj \<Rightarrow> obj \<Rightarrow> obj option" where
  "classifyHandoffStatusFailure taskPlan handoff =
     (let status = get handoff ''status'' in
      if status = JStr ''blocked'' then
        (if isSddReviewStage (coalesce (get taskPlan ''stage'') (JStr [])) \<and> field (get handoff ''sddReview'') ''decision'' = JStr ''changes_requested''
         then None
         else Some [(''code'', JStr ''agent_blocked''), (''message'', risks_or handoff ''agent blocked''), (''retryable'', JBool False), (''blocked'', JBool True)])
      else if status = JStr ''cancelled''
      then Some [(''code'', JStr ''agent_cancelled''), (''message'', JStr ''agent cancelled''), (''retryable'', JBool False), (''cancelled'', JBool True)]
      else if status = JStr ''failed''
      then Some [(''code'', JStr ''agent_failed''), (''message'', risks_or handoff ''agent failed''), (''retryable'', JBool (get handoff ''retryable'' = JBool True))]
      else None)"

definition reopened_patch :: "obj \<Rightarrow> obj" where
  "reopened_patch handoff =
     [(''status'', JStr ''retrying''), (''completed_at'', JNull), (''error_code'', JStr ''qa_review_changes_requested''),
      (''error_message'', JStr (qaRepairDiagnostic handoff)), (''retry_not_before'', JNull), (''lease_owner'', JNull), (''lease_expires_at'', JNull)]"

definition required_deltas :: "obj \<Rightarrow> jsval" where
  "required_deltas handoff = JArr (elements (field (get handoff ''sddReview'') ''requiredDeltas''))"

text \<open>One dependency: whether it was reopened (\<open>True\<close>) or has no attempt left (\<open>False\<close>).\<close>

definition reopen_dependency :: "finalizer \<Rightarrow> obj \<Rightarrow> int \<Rightarrow> jsval \<Rightarrow> (bool \<times> jsval) option pg_m" where
  "reopen_dependency fz handoff qaAttempt taskId =
     bindM (pg_getTask (js_string taskId)) (\<lambda>found.
     case found of
       None \<Rightarrow> returnM None
     | Some row \<Rightarrow>
         let attempt = num_or 0 (get row ''attempt''); maxAttempts = num_or 0 (get row ''max_attempts'');
             source = [(''sourceQaTaskId'', task_id fz), (''sourceQaAttempt'', JNum qaAttempt)];
             record_event = (\<lambda>ty payload. pg_event (fz_env fz) (run_id fz) taskId ty (JObj (source @ payload))) in
         if \<not> status_in (get row ''status'') SUCCESS_TASK_STATUSES then returnM None
         else if 0 < maxAttempts \<and> maxAttempts \<le> attempt then
           seqM (record_event ''qa.repair_target_exhausted'' [(''attempt'', JNum attempt), (''maxAttempts'', JNum maxAttempts)])
             (returnM (Some (False, taskId)))
         else
           seqM (pg_updateTask (js_string taskId) (reopened_patch handoff) JUndef)
           (seqM (record_event ''task.reopened_for_qa_repair''
              [(''previousAttempt'', JNum attempt), (''nextAttempt'', JNum (attempt + 1)), (''requiredDeltas'', required_deltas handoff),
               (''failedCriterionIds'', JArr (filter truthy (map (\<lambda>entry. field entry ''criterionId'')
                  (filter unsuccessful (elements (get handoff ''criterionResults''))))))])
            (returnM (Some (True, taskId)))))"

definition repair_targets :: "obj \<Rightarrow> obj \<Rightarrow> jsval list" where
  "repair_targets plan taskPlan =
     filter (\<lambda>t. field (plan_of (taskPlanMap plan) t) ''stage'' = JStr ''implementation'') (elements (get taskPlan ''dependencies''))"

text \<open>The tasks that were reopened and those without an attempt left.\<close>

definition reopenImplementationDependenciesForQaRepair :: "finalizer \<Rightarrow> obj \<Rightarrow> int \<Rightarrow> (jsval list \<times> jsval list) pg_m" where
  "reopenImplementationDependenciesForQaRepair fz handoff qaAttempt =
     (if get (fz_task fz) ''stage'' \<noteq> JStr ''quality-assurance''
         \<or> field (get handoff ''sddReview'') ''decision'' \<noteq> JStr ''changes_requested''
      then returnM ([], [])
      else
        bindM (collectM (reopen_dependency fz handoff qaAttempt) (repair_targets (fz_plan fz) (fz_task fz))) (\<lambda>outcomes.
        returnM (map snd (filter fst outcomes), map snd (filter (\<lambda>x. \<not> fst x) outcomes))))"

subsection \<open>Evidence of repairs\<close>

definition repair_event_of :: "jsval \<Rightarrow> string option" where
  "repair_event_of status =
     (if status = JStr ''candidate'' then Some ''repair.started'' else if status = JStr ''completed'' then Some ''repair.completed''
      else if status = JStr ''exhausted'' then Some ''repair.exhausted'' else if status = JStr ''failed'' then Some ''repair.failed'' else None)"

definition emit_once :: "finalizer \<Rightarrow> string \<Rightarrow> obj \<Rightarrow> jsval \<Rightarrow> unit pg_m" where
  "emit_once fz ty payload key = seqM (pg_eventOnce (fz_env fz) (run_id fz) (task_id fz) ty payload key) (returnM ())"

definition repair_identity :: "obj \<Rightarrow> jsval \<Rightarrow> obj" where
  "repair_identity result findingAttempt =
     [(''taskAttempt'', coalesce (coalesce findingAttempt (get result ''attempt'')) JNull),
      (''dispatchGeneration'', coalesce (get result ''dispatchGeneration'') JNull), (''fencingToken'', coalesce (get result ''fencingToken'') JNull)]"

definition persistRuntimeRepairFindingEvents :: "finalizer \<Rightarrow> obj \<Rightarrow> jsval \<Rightarrow> unit pg_m" where
  "persistRuntimeRepairFindingEvents fz result finding =
     (let identity = repair_identity result (field finding ''taskAttempt''); status = field finding ''status'';
          key = (\<lambda>repairPass eventType. repairEffectKey (fz_env fz) [run_id fz, task_id fz, get identity ''taskAttempt'', field finding ''repairKind'',
             repairPass, coalesce (field finding ''sourceRevision'') (JNum 0), JStr eventType]) in
      if field finding ''type'' \<noteq> JStr ''runtime_repair'' then returnM ()
      else
        seqM (case repair_event_of status of
            None \<Rightarrow> returnM ()
          | Some repairEvent \<Rightarrow>
              let effectKey = coalesce (field finding ''effectKey'') (JStr (key
                    (coalesce (coalesce (field finding ''repairPass'') (field finding ''repairPasses'')) (JNum 0)) repairEvent)) in
              emit_once fz repairEvent (assign (assign (fields_of finding) identity) [(''effectKey'', effectKey), (''authoritative'', JBool True)]) effectKey)
        (whenM (status = JStr ''completed'' \<and> field finding ''avoidedFullRetry'' = JBool True)
          (let avoidedKey = JStr (key (coalesce (field finding ''repairPass'') (JNum 0)) ''retry.full_attempt_avoided'') in
           emit_once fz ''retry.full_attempt_avoided'' (
             [(''failureCode'', coalesce (field finding ''failureCode'') (JStr (if field finding ''repairKind'' = JStr ''technical-review-semantic''
                 then ''review_not_approved'' else ''handoff_schema_invalid'')))] @ identity @
             [(''repairPass'', coalesce (field finding ''repairPass'') JNull),
              (''estimatedAvoidedMs'', coalesce (field finding ''estimatedAvoidedMs'') JNull),
              (''estimateClass'', coalesce (field finding ''estimateClass'') (JStr ''counterfactual'')), (''effectKey'', avoidedKey)]) avoidedKey)))"

definition receipt_payload :: "jsval \<Rightarrow> obj" where
  "receipt_payload rc =
     (let number = (\<lambda>k. number_json (js_number (field rc k))); optional = (\<lambda>k. (k, coalesce (field rc k) JNull)) in
      [(''sourceTaskAttempt'', number_json (js_number (coalesce (field rc ''sourceTaskAttempt'') (field rc ''taskAttempt'')))),
       (''taskAttempt'', number ''taskAttempt''), (''sameTaskAttempt'', JBool True), (''dispatchGeneration'', number ''dispatchGeneration''),
       (''fencingToken'', number ''fencingToken''), optional ''repairKind'', optional ''repairPass'', optional ''checkpointStatus'',
       optional ''checkpointEffectKey'', optional ''sourceRevision'', optional ''repairedRevision'', (''skippedFullAgentInvocation'', JBool True),
       (''effectKey'', field rc ''effectKey''), (''authoritative'', JBool True)])"

definition persistRepairResumeReceiptEvidence :: "finalizer \<Rightarrow> obj \<Rightarrow> jsval \<Rightarrow> obj option wm" where
  "persistRepairResumeReceiptEvidence fz result handoffPath =
     (if \<not> truthy handoffPath then returnM None
      else
        bindM (readRepairResumeReceipt (abs_path (repairResumeReceiptPathForHandoff (js_string handoffPath)))
          [(''runId'', run_id fz), (''taskId'', task_id fz), (''taskAttempt'', get result ''attempt''),
           (''dispatchGeneration'', get result ''dispatchGeneration''), (''fencingToken'', get result ''fencingToken'')]) (\<lambda>found.
        case found of
          None \<Rightarrow> returnM None
        | Some rc \<Rightarrow>
            seqM (guardM (field rc ''skippedFullAgentInvocation'' = JBool True \<and> field rc ''sameTaskAttempt'' = JBool True)
              (''repair_resume_receipt_invalid:'' @ js_string (task_id fz) @ '':'' @ js_string (get result ''attempt'')))
            (seqM (liftDb (emit_once fz ''repair.resume_checkpoint_loaded'' (receipt_payload rc) (field rc ''effectKey'')))
             (returnM (Some (receipt_payload rc))))))"

subsection \<open>What came back from the executor\<close>

definition process_outcome_of :: "obj \<Rightarrow> process_outcome" where
  "process_outcome_of result =
     \<lparr>po_status = js_number (coalesce (get result ''exitCode'') (JNum 1)), po_stdout = JStr [],
      po_stderr = coalesce (get result ''stderrSummary'') (JStr []), po_timedOut = truthy (get result ''timedOut''),
      po_softTimedOut = truthy (get result ''softTimedOut''), po_stalled = truthy (get result ''stalled''),
      po_aborted = truthy (get result ''aborted''), po_error = coalesce (get result ''error'') JNull\<rparr>"

text \<open>\<open>Math.max(0, Date.parse(b) - Date.parse(a))\<close>\<close>

definition duration_between :: "env \<Rightarrow> jsval \<Rightarrow> jsval \<Rightarrow> jsval" where
  "duration_between e a b = number_json (nan_max0 (nan_op (-) (parse_date e (js_string b)) (parse_date e (js_string a))))"

definition received_payload :: "env \<Rightarrow> obj \<Rightarrow> jsval \<Rightarrow> obj" where
  "received_payload e result executionMode =
     (let started = get result ''startedAt''; completed = get result ''completedAt''; flag = (\<lambda>k. (k, JBool (truthy (get result k)))) in
      fence_fields result @ [(''exitCode'', get result ''exitCode''), flag ''timedOut'', flag ''softTimedOut'', flag ''stalled'', flag ''aborted'',
        (''startedAt'', coalesce started JNull), (''completedAt'', coalesce completed JNull),
        (''executorDurationMs'', if truthy started \<and> truthy completed then duration_between e started completed else JNull),
        (''executionMode'', executionMode)])"

definition file_digest :: "env \<Rightarrow> path \<Rightarrow> string wm" where
  "file_digest e p = bindM (fileFingerprint e p) (\<lambda>fp. case fp of
      None \<Rightarrow> throwM (''ENOENT: no such file or directory, open '' @ path_string p)
    | Some f \<Rightarrow> returnM (fp_sha256 f))"

definition record_log :: "finalizer \<Rightarrow> obj \<Rightarrow> unit wm" where
  "record_log fz result =
     (let logPath = get result ''logPath'' in
      bindM (present_file logPath) (\<lambda>present. whenM present (
        bindM (file_digest (fz_env fz) (abs_path (js_string logPath))) (\<lambda>digest.
        bindM (liftDb (pg_listArtifacts (fz_env fz) (js_string (run_id fz)))) (\<lambda>artifacts.
        whenM (\<not> list_ex (\<lambda>a. get a ''task_id'' = task_id fz \<and> get a ''path'' = logPath) artifacts)
          (liftDb (seqM (pg_addArtifact (fz_env fz) (js_string (run_id fz)) (task_id fz) ''executor-log''
             (''attempt-'' @ js_string (get result ''attempt'')) (js_string logPath) (JStr digest) False) (returnM ()))))))))"

definition gate_payload :: "jsval \<Rightarrow> obj" where
  "gate_payload gate =
     [(''status'', coalesce (field gate ''status'') JNull), (''code'', coalesce (field gate ''code'') JNull),
      (''configurationErrorCode'', coalesce (field gate ''configurationErrorCode'') JNull),
      (''receiptCount'', JNum (int (length (elements (field gate ''receipts'')))))]"

definition record_gate :: "finalizer \<Rightarrow> obj \<Rightarrow> unit pg_m" where
  "record_gate fz result =
     (let gate = get result ''behaviorGate'' in
      whenM (truthy gate)
        (seqM (emit fz ''behavior.gateway.result'' (fence_fields result @ gate_payload gate))
              (checkpoint fz result ''behavior.gateway.receipt'' JNull (gate_payload gate))))"

definition exhausted_finding :: "obj \<Rightarrow> jsval \<Rightarrow> jsval" where
  "exhausted_finding result cp = JObj
     [(''type'', JStr ''runtime_repair''), (''repairKind'', coalesce (field cp ''repairKind'') (JStr ''handoff-schema'')), (''status'', JStr ''exhausted''),
      (''repairPass'', coalesce (field cp ''repairPass'') (JNum 1)),
      (''repairPasses'', coalesce (coalesce (field cp ''repairPassLimit'') (field cp ''repairPass'')) (JNum 1)),
      (''taskAttempt'', coalesce (field cp ''taskAttempt'') (get result ''attempt'')), (''sameTaskAttempt'', JBool True),
      (''failureCode'', JStr ''handoff_schema_invalid''), (''sourceRevision'', coalesce (field cp ''sourceRevision'') (JNum 0))]"

definition process_failure :: "finalizer \<Rightarrow> obj \<Rightarrow> jsval \<Rightarrow> obj wm" where
  "process_failure fz result handoffPath =
     (let failure = classifyValidationFailure (process_outcome_of result) None None False in
      if get failure ''code'' \<noteq> JStr ''handoff_schema_invalid'' \<or> \<not> truthy handoffPath then returnM failure
      else
        bindM (readRepairCheckpoint (abs_path (repairCheckpointPathForHandoff (js_string handoffPath)))
          [(''runId'', run_id fz), (''taskId'', task_id fz), (''taskAttempt'', get result ''attempt'')]) (\<lambda>found.
        let cp = (case found of Some v \<Rightarrow> v | None \<Rightarrow> JNull) in
        seqM (whenM (field cp ''status'' = JStr ''repair-exhausted'' \<and> field cp ''failureCode'' = JStr ''handoff_schema_invalid'')
                (liftDb (persistRuntimeRepairFindingEvents fz result (exhausted_finding result cp))))
        (returnM failure)))"

definition gate_failure :: "jsval \<Rightarrow> obj" where
  "gate_failure gate =
     (let failed = field gate ''status'' = JStr ''FAILED'' in
      [(''code'', JStr (if failed then ''behavior_validation_failed'' else ''behavior_gateway_hold'')),
       (''message'', JStr (''Behavior gateway '' @ js_string (coalesce (field gate ''status'') (JStr ''unknown'')) @ '': ''
          @ js_string (coalesce (field gate ''code'') (JStr ''behavior_gateway_not_passed'')))),
       (''retryable'', JBool failed), (''category'', JStr (if failed then ''code'' else ''contract''))])"

definition missing_handoff :: "jsval \<Rightarrow> obj" where
  "missing_handoff handoffPath = [(''code'', JStr ''handoff_missing''),
     (''message'', JStr (''Executor exited successfully without writing '' @ js_string (coalesce handoffPath (JStr ''handoff'')))),
     (''retryable'', JBool True)]"

definition cancelled_failure :: obj where
  "cancelled_failure = [(''code'', JStr ''executor_cancelled''), (''message'', JStr ''Executor cancelled''), (''retryable'', JBool False),
     (''cancelled'', JBool True), (''category'', JStr ''code'')]"

text \<open>
  The block that reads the handoff. The variable \<open>handoff\<close> keeps what it held when an error was thrown, so the two parts are
  attempted one after the other. The result is the handoff and the failure.
\<close>

definition attemptM :: "('s, unit) sm \<Rightarrow> ('s, string option) sm" where
  "attemptM m = tryM (seqM m (returnM None)) (\<lambda>message. returnM (Some message))"

definition normalized_payload :: "normalized_handoff \<Rightarrow> obj" where
  "normalized_payload n =
     [(''remappedFields'', texts (nh_remappedFields n)), (''removedFields'', texts (nh_removedFields n)),
      (''defaultedFields'', texts (nh_defaultedFields n)), (''droppedValidationEntries'', JArr (map JObj (nh_droppedValidationEntries n))),
      (''identityEchoCorrections'', JArr (nh_identityEchoCorrections n)), (''authority'', JStr ''semantic-control-plane'')]"

definition accept_shape :: "finalizer \<Rightarrow> obj \<Rightarrow> string \<Rightarrow> obj \<Rightarrow> string list \<Rightarrow> string list \<Rightarrow> unit wm" where
  "accept_shape fz result handoffPath handoff removedMetricKeys removedTelemetryKeys =
     seqM (whenM (removedMetricKeys \<noteq> [] \<or> removedTelemetryKeys \<noteq> [])
        (seqM (liftDb (emit fz ''handoff.telemetry_normalized'' [(''removedMetricKeys'', texts removedMetricKeys),
            (''removedExecutionTelemetryKeys'', texts removedTelemetryKeys), (''authority'', JStr ''runtime-owned-telemetry-envelope'')]))
          (writeJson (abs_path handoffPath) (JObj handoff))))
     (seqM (liftR (assertSchema (fz_env fz) (fz_regexp fz) (JObj handoff) (field (fz_schemas fz) ''handoffResult'') ''handoffResult''))
     (seqM (guardM (get handoff ''runId'' = run_id fz \<and> get handoff ''taskId'' = task_id fz \<and> get handoff ''agentId'' = get (fz_task fz) ''agentId'')
        ''handoff_identity_mismatch'')
     (bindM (file_digest (fz_env fz) (abs_path handoffPath)) (\<lambda>digest.
      liftDb (checkpoint fz result ''handoff.written'' (JStr (''sha256:'' @ digest)) [(''path'', JStr handoffPath)])))))"

definition receive_handoff :: "finalizer \<Rightarrow> obj \<Rightarrow> obj \<Rightarrow> string \<Rightarrow> (obj option \<times> obj option) wm" where
  "receive_handoff fz result brief handoffPath =
     tryM (bindM (readJson (abs_path handoffPath)) (\<lambda>raw.
       let n = normalizeModelHandoffContract (fz_env fz) raw brief (get result ''attempt'') in
       case sanitizeHandoffTelemetryShape (fields_of (nh_handoff n)) of (handoff, removedMetricKeys, removedTelemetryKeys) \<Rightarrow>
       bindM (attemptM (whenM (nh_changed n) (seqM (liftDb (emit fz ''handoff.contract_normalized'' (normalized_payload n))) (writeJson (abs_path handoffPath) (nh_handoff n)))))
         (\<lambda>first. case first of
            Some message \<Rightarrow> returnM (Some (fields_of (nh_handoff n)), Some (classifyHandoffValidationError message))
          | None \<Rightarrow>
              bindM (attemptM (accept_shape fz result handoffPath handoff removedMetricKeys removedTelemetryKeys)) (\<lambda>second.
              returnM (Some handoff, map_option classifyHandoffValidationError second)))))
       (\<lambda>message. returnM (None, Some (classifyHandoffValidationError message)))"

definition obtain_handoff :: "finalizer \<Rightarrow> obj \<Rightarrow> obj \<Rightarrow> jsval \<Rightarrow> (obj option \<times> obj option) wm" where
  "obtain_handoff fz result brief handoffPath =
     (let outcome = process_outcome_of result; gate = get result ''behaviorGate'' in
      if po_aborted outcome then returnM (None, Some cancelled_failure)
      else if po_status outcome \<noteq> Some 0 then bindM (process_failure fz result handoffPath) (\<lambda>failure. returnM (None, Some failure))
      else if truthy gate \<and> field gate ''status'' \<noteq> JStr ''PASSED'' then returnM (None, Some (gate_failure gate))
      else
        bindM (present_file handoffPath) (\<lambda>present.
        if present then receive_handoff fz result brief (js_string handoffPath)
        else returnM (None, Some (missing_handoff handoffPath))))"

subsection \<open>What the handoff says\<close>

definition finding_events :: "finalizer \<Rightarrow> obj \<Rightarrow> obj \<Rightarrow> unit pg_m" where
  "finding_events fz result handoff = forM (\<lambda>finding.
     seqM (pg_event (fz_env fz) (run_id fz) (task_id fz) ''handoff.finding'' finding)
       (persistRuntimeRepairFindingEvents fz result finding)) (elements (get handoff ''findings''))"

definition execution_telemetry :: "obj \<Rightarrow> obj \<Rightarrow> bool \<Rightarrow> obj \<Rightarrow> obj" where
  "execution_telemetry result brief reuse handoff =
     (let routing = get brief ''modelRouting''; told = get handoff ''executionTelemetry'' in
      assign (fields_of told)
       [(''modelId'', if reuse then JStr ''runtime/deterministic-reuse'' else field routing ''model''),
        (''variant'', if reuse then JNull else coalesce (field routing ''variant'') JNull),
        (''reasoningEffort'', if reuse then JStr ''low'' else field routing ''reasoningEffort''),
        (''stepsLimit'', if reuse then JNum 1 else field routing ''stepsLimit''),
        (''stepsUsed'', if reuse then JNum 0 else coalesce (field told ''stepsUsed'') JNull),
        (''stepLimitReached'', if reuse then JBool False else coalesce (field told ''stepLimitReached'') JNull),
        (''stopReason'', if reuse then JStr ''deterministic_reuse_validation_complete''
           else coalesce (field told ''stopReason'') (JStr (if po_status (process_outcome_of result) = Some 0 then ''executor_exit_0'' else ''executor_nonzero''))),
        (''attempt'', get result ''attempt''),
        (''sessionId'', if reuse then JNull else coalesce (coalesce (field told ''sessionId'') (field (get result ''telemetry'') ''sessionId'')) JNull),
        (''usageSource'', if reuse then JStr ''unavailable'' else coalesce (field told ''usageSource'') (JStr ''handoff''))])"

definition reuse_payload :: "obj \<Rightarrow> jsval \<Rightarrow> obj \<Rightarrow> obj" where
  "reuse_payload result executionMode handoff =
     [(''attempt'', get result ''attempt''), (''executionMode'', executionMode), (''fullAgentInvocation'', JBool False),
      (''validationCommands'', JArr (map (\<lambda>entry. field entry ''command'')
         (filter (\<lambda>entry. is_runtime entry \<and> field entry ''phase'' = JStr ''final'') (elements (get handoff ''validation''))))),
      (''changedPaths'', coalesce (get handoff ''changedPaths'') (JArr [])), (''reusedPaths'', coalesce (get handoff ''reusedPaths'') (JArr []))]"

definition wall_ms :: "jsval \<Rightarrow> int option" where
  "wall_ms invocation = (let v = field invocation ''wallMs'' in if nullish v then None else js_number v)"

definition usage_payload :: "obj \<Rightarrow> obj \<Rightarrow> obj" where
  "usage_payload result handoff =
     (let telemetry = get handoff ''executionTelemetry''; auxiliary = elements (get handoff ''auxiliaryInvocations'');
          usage = (\<lambda>k. (k, number_json (js_number (coalesce (field (get handoff ''metrics'') k) (JNum 0))))) in
      [(''attempt'', get result ''attempt''), (''modelId'', field telemetry ''modelId''), usage ''inputTokens'', usage ''outputTokens'',
       usage ''cachedInputTokens'', usage ''costUsd'', (''stepsLimit'', coalesce (field telemetry ''stepsLimit'') JNull),
       (''stepsUsed'', coalesce (field telemetry ''stepsUsed'') JNull), (''auxiliaryInvocationCount'', JNum (int (length auxiliary))),
       (''auxiliaryWallMs'', JNum (sum_list (List.map_filter wall_ms auxiliary))),
       (''auxiliaryInvocations'', JArr (map (\<lambda>invocation. JObj [(''purpose'', coalesce (field invocation ''purpose'') JNull),
          (''modelId'', coalesce (field invocation ''modelId'') JNull), (''wallMs'', number_json (wall_ms invocation))]) auxiliary))])"

definition usage_patch :: "bool \<Rightarrow> obj \<Rightarrow> obj" where
  "usage_patch reuse handoff =
     (let telemetry = get handoff ''executionTelemetry'';
          usage = (\<lambda>column k. (column, if reuse then JNum 0 else coalesce (field (get handoff ''metrics'') k) JNull)) in
      [(''used_context_documents'', case get handoff ''usedContextPaths'' of JArr xs \<Rightarrow> JNum (int (length xs)) | _ \<Rightarrow> JNull),
       usage ''input_tokens'' ''inputTokens'', usage ''output_tokens'' ''outputTokens'', usage ''cached_input_tokens'' ''cachedInputTokens'',
       usage ''cost_usd'' ''costUsd'', (''model_id'', field telemetry ''modelId''), (''model_variant'', field telemetry ''variant''),
       (''reasoning_effort'', field telemetry ''reasoningEffort''), (''steps_limit'', field telemetry ''stepsLimit''),
       (''steps_used'', field telemetry ''stepsUsed''), (''step_limit_reached'', field telemetry ''stepLimitReached''),
       (''stop_reason'', field telemetry ''stopReason''), (''opencode_session_id'', coalesce (field telemetry ''sessionId'') JNull)])"

text \<open>The handoff with the telemetry of the runtime, which is written back and reported.\<close>

definition account_handoff :: "finalizer \<Rightarrow> obj \<Rightarrow> obj \<Rightarrow> jsval \<Rightarrow> string \<Rightarrow> obj \<Rightarrow> obj wm" where
  "account_handoff fz result brief executionMode handoffPath handoff =
     (let reuse = executionMode = JStr ''deterministic-reuse'';
          told = AList.update ''executionTelemetry'' (JObj (execution_telemetry result brief reuse handoff)) handoff in
      seqM (liftDb (finding_events fz result handoff))
      (seqM (writeJson (abs_path handoffPath) (JObj told))
      (seqM (liftDb (if reuse then emit fz ''execution.deterministic_reuse.observed'' (reuse_payload result executionMode told)
                     else emit fz ''model.usage.observed'' (usage_payload result told)))
      (seqM (liftDb (patch_task fz (usage_patch reuse told))) (returnM told)))))"

definition completion_failure_json :: "completion \<Rightarrow> obj" where
  "completion_failure_json c =
     (let message = join ''; '' (co_violations c) in
      [(''code'', JStr (co_code c)), (''message'', JStr (if message \<noteq> [] then message else ''Completion was not proven'')),
       (''retryable'', JBool (case co_failure c of Some f \<Rightarrow> cf_retryable f | None \<Rightarrow> True)),
       (''category'', JStr (case co_failure c of Some f \<Rightarrow> cf_category f | None \<Rightarrow> ''contract'')),
       (''repairExhausted'', JBool (case co_failure c of Some f \<Rightarrow> cf_repairExhausted f | None \<Rightarrow> False)),
       (''failureClass'', case co_failure c of Some f \<Rightarrow> JStr (cf_failureClass f) | None \<Rightarrow> JNull)])"

definition proven_criteria :: "obj \<Rightarrow> jsval" where
  "proven_criteria brief = JArr (map (\<lambda>c. field c ''id'') (elements (get brief ''acceptanceCriteria'')))"

text \<open>The stage and the completion gate: no failure when both accept.\<close>

definition judge_handoff :: "finalizer \<Rightarrow> obj \<Rightarrow> obj \<Rightarrow> obj \<Rightarrow> obj option wm" where
  "judge_handoff fz result brief handoff =
     bindM (stageContractFailure (fz_env fz) (fz_regexp fz) (fz_registry fz) (fz_schemas fz) (fz_plan fz) (fz_task fz) handoff (JObj brief))
       (\<lambda>stageFailure.
     let completion = evaluateCompletion brief handoff; stage = (''stage'', get (fz_task fz) ''stage'');
         model = (''model'', field (get brief ''modelRouting'') ''model'');
         failure = (case stageFailure of Some f \<Rightarrow> Some f | None \<Rightarrow> if co_accepted completion then None else Some (completion_failure_json completion)) in
     case failure of
       None \<Rightarrow>
         seqM (liftDb (emit fz ''completion.proven'' [(''criteria'', proven_criteria brief), stage, model]))
         (seqM (liftDb (checkpoint fz result ''completion.proven'' JNull [(''criteria'', proven_criteria brief), stage])) (returnM None))
     | Some f \<Rightarrow>
         seqM (liftDb (emit fz ''completion.rejected'' [(''code'', get f ''code''), stage, model])) (returnM (Some f)))"

subsection \<open>The paths of the workspace\<close>

definition verified_json :: "(string \<times> fingerprint) list \<Rightarrow> jsval" where
  "verified_json entries = JArr (map (\<lambda>(p, fp). JObj [(''path'', JStr p), (''fingerprint'', fingerprint_json (Some fp))]) entries)"

definition emit_paths :: "finalizer \<Rightarrow> string \<Rightarrow> bool \<Rightarrow> obj \<Rightarrow> unit wm" where
  "emit_paths fz ty c payload = whenM c (liftDb (emit fz ty payload))"

definition disposition_events :: "finalizer \<Rightarrow> change_inspection \<Rightarrow> path_disposition \<Rightarrow> unit wm" where
  "disposition_events fz inspection d =
     (let toReused = filter (\<lambda>p. p \<in> set (map fst (di_reused d))) (di_ghostDeclarations d);
          toContext = filter (\<lambda>p. p \<in> set (map fst (di_contextOnly d))) (di_ghostDeclarations d);
          toChanged = di_reclassifiedReusedToChanged d in
      seqM (emit_paths fz ''workspace.tooling_side_effects'' (in_toolingSideEffects inspection \<noteq> []) [(''paths'', texts (in_toolingSideEffects inspection))])
      (seqM (emit_paths fz ''handoff.path_disposition_normalized'' (toReused \<noteq> [] \<or> toContext \<noteq> [] \<or> toChanged \<noteq> [])
         [(''fromChangedToReused'', texts toReused), (''fromChangedToContext'', texts toContext), (''fromReusedToChanged'', texts toChanged),
          (''reason'', JStr (if toChanged \<noteq> [] then ''workspace_change_authoritative'' else ''baseline_byte_identical''))])
      (seqM (emit_paths fz ''workspace.reused_paths_verified'' (di_reused d \<noteq> []) [(''paths'', verified_json (di_reused d))])
      (seqM (emit_paths fz ''workspace.context_paths_verified'' (di_contextOnly d \<noteq> []) [(''paths'', verified_json (di_contextOnly d))])
      (seqM (emit_paths fz ''workspace.changeset_gap_reconciled'' (di_baselineDetectedChanges d \<noteq> [])
         [(''paths'', texts (di_baselineDetectedChanges d)), (''collector'', coalesce (in_source inspection) (JStr ''unknown'')),
          (''authority'', JStr ''workspace_baseline_fingerprint'')])
      (emit_paths fz ''workspace.phantom_reused_paths_dropped'' (di_droppedPhantomReusedPaths d \<noteq> [])
         [(''paths'', texts (di_droppedPhantomReusedPaths d)), (''authority'', JStr ''workspace_and_baseline_absence''),
          (''scope'', JStr ''zero-file-governance-review-non-evidentiary-bookkeeping'')]))))))"

definition with_context_paths :: "path_disposition \<Rightarrow> obj \<Rightarrow> obj" where
  "with_context_paths d handoff =
     (if di_contextOnly d = [] then handoff
      else AList.update ''usedContextPaths''
        (texts (sort (uniq (map js_string (elements (get handoff ''usedContextPaths'')) @ map fst (di_contextOnly d))))) handoff)"

definition unauthorized_changes :: "finalizer \<Rightarrow> change_inspection \<Rightarrow> path_disposition \<Rightarrow> string list" where
  "unauthorized_changes fz inspection d = sort (uniq (in_unauthorized inspection
     @ filter (\<lambda>p. \<not> anyPatternMatches (owned_paths (fz_task fz)) p) (di_changedPaths d)))"

definition ownership_failure :: "finalizer \<Rightarrow> obj \<Rightarrow> string list \<Rightarrow> obj" where
  "ownership_failure fz handoff unauthorized =
     [(''code'', JStr ''workspace_ownership_violation''), (''message'', JStr (''workspace_ownership_violation:'' @ join '','' unauthorized)),
      (''retryable'', JBool (isRetryableImplementationOwnershipFailure (fz_task fz) handoff unauthorized (elements (get (fz_plan fz) ''tasks'')))),
      (''category'', JStr ''contract'')]"

definition reuse_failure :: "finalizer \<Rightarrow> obj \<Rightarrow> (string \<times> string) list \<Rightarrow> obj" where
  "reuse_failure fz handoff invalidReused =
     [(''code'', JStr ''handoff_reused_paths_invalid''), (''message'', JStr (join '','' (map (\<lambda>(p, reason). p @ '':'' @ reason) invalidReused))),
      (''retryable'', JBool (isRetryableImplementationReuseFailure (fz_task fz) handoff invalidReused
         \<or> isRetryableGovernanceEvidenceReuseFailure (fz_task fz) handoff invalidReused)),
      (''category'', JStr ''contract'')]"

definition mismatch_failure :: "change_inspection \<Rightarrow> path_disposition \<Rightarrow> obj" where
  "mismatch_failure inspection d =
     [(''code'', JStr ''handoff_changed_paths_mismatch''),
      (''message'', JStr (''declared='' @ join '','' (di_changedPaths d) @ '' actual='' @ join '','' (in_changedPaths inspection)
         @ '' undeclared='' @ join '','' (di_missingDeclaredChanges d))), (''retryable'', JBool False)]"

definition declared_paths :: "obj \<Rightarrow> string \<Rightarrow> string list" where
  "declared_paths handoff k = map js_string (elements (get handoff k))"

text \<open>The inspection, the handoff with the paths the runtime found, and the failure.\<close>

definition settle_paths ::
  "finalizer \<Rightarrow> obj \<Rightarrow> obj \<Rightarrow> string \<Rightarrow> obj \<Rightarrow> (workspace \<times> change_inspection \<times> obj \<times> obj option) wm" where
  "settle_paths fz result brief handoffPath handoff =
     bindM (hydrateWorkspaceBaseline (field (get result ''workspace'') ''baselinePath'') (workspaceFromResult result)) (\<lambda>ws.
     bindM (inspectExecutionChangeSet fz result ws) (\<lambda>inspection.
     bindM (reconcileHandoffPathDisposition (fz_env fz) (fz_git fz) ws (fz_task fz) inspection handoff (declared_paths handoff ''changedPaths'')
              (declared_paths handoff ''reusedPaths'') (declared_paths brief ''readOnlyContextPaths'')) (\<lambda>d.
     seqM (disposition_events fz inspection d)
     (let told = with_context_paths d handoff; unauthorized = unauthorized_changes fz inspection d in
      if unauthorized \<noteq> [] then
        seqM (liftDb (emit fz ''workspace.ownership_violation_detected'' [(''paths'', texts unauthorized),
            (''ownedPaths'', coalesce (get (fz_task fz) ''ownedPaths'') (JArr [])), (''authority'', JStr ''workspace-change-set-and-task-brief''),
            (''beforeIntegration'', JBool True)]))
        (returnM (ws, inspection, told, Some (ownership_failure fz told unauthorized)))
      else if di_invalidReused d \<noteq> [] then returnM (ws, inspection, told, Some (reuse_failure fz told (di_invalidReused d)))
      else if di_missingDeclaredChanges d \<noteq> [] then returnM (ws, inspection, told, Some (mismatch_failure inspection d))
      else
        let agreed = AList.update ''reusedPaths'' (texts (map fst (di_reused d))) (AList.update ''changedPaths'' (texts (di_changedPaths d)) told) in
        seqM (writeJson (abs_path handoffPath) (JObj agreed))
        (seqM (liftDb (checkpoint fz result ''workspace.changeset.ready'' JNull [(''changedPaths'', texts (di_changedPaths d)),
            (''collectorChangedPaths'', texts (in_changedPaths inspection)), (''toolingSideEffects'', texts (in_toolingSideEffects inspection)),
            (''changeSetPath'', coalesce (get result ''changeSetPath'') JNull)]))
        (returnM (ws, inspection, agreed, None)))))))"

subsection \<open>Success\<close>

definition terminal_status :: "obj \<Rightarrow> string" where
  "terminal_status taskPlan = (if get taskPlan ''role'' = JStr ''verification'' then ''verified'' else ''integrated'')"

definition integrated_patch :: "obj \<Rightarrow> string \<Rightarrow> jsval \<Rightarrow> obj" where
  "integrated_patch taskPlan completedAt durationMs =
     [(''status'', JStr (terminal_status taskPlan)), (''completed_at'', JStr completedAt), (''duration_ms'', durationMs), (''lease_owner'', JNull),
      (''lease_expires_at'', JNull), (''cleanup_state'', JStr ''queued'')]"

definition integrate_result :: "finalizer \<Rightarrow> obj \<Rightarrow> workspace \<Rightarrow> change_inspection \<Rightarrow> string list \<Rightarrow> change_inspection wm" where
  "integrate_result fz result ws inspection approved =
     (if truthy (op_integrate (fz_options fz)) then
        seqM (liftDb (emit fz ''workspace.integration_changeset_selected''
          [(''source'', coalesce (in_source inspection) (JStr ''semantic-inspection'')), (''collectorChangedPaths'', texts (in_changedPaths inspection)),
           (''approvedChangedPaths'', texts approved), (''dispatchGeneration'', get result ''dispatchGeneration''),
           (''fencingToken'', get result ''fencingToken'')]))
        (integrateWorkspace (fz_env fz) (fz_git fz) (fz_root fz) ws (fz_task fz) (js_string (run_id fz)) (Some inspection) (Some approved))
      else returnM (inspection\<lparr>in_changedPaths := approved\<rparr>))"

definition complete_task ::
  "finalizer \<Rightarrow> obj \<Rightarrow> obj \<Rightarrow> string \<Rightarrow> jsval \<Rightarrow> jsval \<Rightarrow> workspace \<Rightarrow> change_inspection \<Rightarrow> obj \<Rightarrow> obj wm" where
  "complete_task fz resultRow result handoffPath executionMode startedAt ws inspection handoff =
     (let e = fz_env fz; terminalStatus = JStr (terminal_status (fz_task fz)) in
      bindM (integrate_result fz result ws inspection (declared_paths handoff ''changedPaths'')) (\<lambda>finalInspection.
      bindM (fileFingerprint e (abs_path handoffPath)) (\<lambda>fp.
      bindM (liftDb (pg_addArtifact e (js_string (run_id fz)) (task_id fz) ''handoff'' (js_string (get handoff ''artifactVersion''))
               handoffPath (fingerprint_sha fp) True)) (\<lambda>artifactId.
      bindM (liftDb (db_now e)) (\<lambda>completedAt.
      let durationMs = duration_between e startedAt (JStr completedAt); changedPaths = (''changedPaths'', texts (in_changedPaths finalInspection)) in
      seqM (liftDb (seqM (patch_task fz (integrated_patch (fz_task fz) completedAt durationMs))
        (seqM (seqM (checkpoint fz result ''integration.applied'' JNull [changedPaths])
          (seqM (checkpoint fz result ''task.integrated'' JNull [(''artifactId'', JStr artifactId), (''terminalStatus'', terminalStatus)])
          (emit fz ''task.integrated'' [(''artifactId'', JStr artifactId), changedPaths, (''durationMs'', durationMs),
            (''verification'', JBool (get (fz_task fz) ''role'' = JStr ''verification'')), (''attempt'', get result ''attempt''),
            (''dispatchGeneration'', get result ''dispatchGeneration''), (''executionMode'', executionMode)])))
        (seqM (consume fz resultRow)
          (seqM (scheduleCleanup fz ''integration_complete'') (scheduleReconcile fz ''task_integrated''))))))
      (returnM [(''status'', terminalStatus), (''handoff'', JObj handoff), changedPaths]))))))"

subsection \<open>Failure\<close>

definition started_at_ms :: "env \<Rightarrow> jsval \<Rightarrow> int option" where
  "started_at_ms e startedAt = (case parse_date e (js_string startedAt) of Some ms \<Rightarrow> if ms = 0 then None else Some ms | None \<Rightarrow> None)"

definition failure_status :: "jsval \<Rightarrow> bool \<Rightarrow> string" where
  "failure_status failure canRetry =
     (if truthy (field failure ''cancelled'') then ''cancelled'' else if truthy (field failure ''blocked'') then ''blocked''
      else if canRetry then ''retrying'' else ''failed'')"

definition failure_code :: "jsval \<Rightarrow> jsval" where
  "failure_code failure = coalesce (field failure ''code'') (JStr ''execution_failed'')"

definition failure_message :: "jsval \<Rightarrow> jsval" where
  "failure_message failure = coalesce (field failure ''message'') (JStr ''Execution failed'')"

definition failed_patch :: "string \<Rightarrow> jsval \<Rightarrow> jsval \<Rightarrow> jsval \<Rightarrow> jsval \<Rightarrow> obj" where
  "failed_patch status completedAt durationMs failure retryNotBefore =
     [(''status'', JStr status), (''completed_at'', completedAt), (''duration_ms'', durationMs), (''error_code'', failure_code failure),
      (''error_message'', failure_message failure), (''lease_owner'', JNull), (''lease_expires_at'', JNull),
      (''retry_not_before'', retryNotBefore), (''cleanup_state'', JStr ''queued'')]"

definition retry_decision :: "finalizer \<Rightarrow> obj \<Rightarrow> obj \<Rightarrow> jsval \<Rightarrow> jsval \<Rightarrow> obj pg_m" where
  "retry_decision fz taskRow result startedAt failure =
     (let e = fz_env fz; opts = fz_options fz in
      bindM (pg_listEvents e (js_string (run_id fz))) (\<lambda>events. bindM (db_nowMs e) (\<lambda>budgetNow.
      bindM (db_random (fz_rng fz)) (\<lambda>r. bindM (db_nowMs e) (\<lambda>delayNow.
      returnM (evaluateRetry e (op_env opts) (op_engine opts)
        (JObj [(''failure'', failure), (''attempt'', number_json (js_number (get result ''attempt''))),
               (''maxAttempts'', number_json (js_number (coalesce (get taskRow ''max_attempts'') (op_maxAttempts opts))))])
        (deriveRetryBudgetState e events (task_id fz) (started_at_ms e startedAt) budgetNow) r delayNow))))))"

definition qa_repair :: "finalizer \<Rightarrow> obj \<Rightarrow> bool \<Rightarrow> jsval \<Rightarrow> obj option \<Rightarrow> unit pg_m" where
  "qa_repair fz result canRetry failure handoff =
     (case handoff of
        Some h \<Rightarrow>
          if canRetry \<and> get (fz_task fz) ''stage'' = JStr ''quality-assurance'' \<and> field failure ''code'' = JStr ''review_not_approved''
             \<and> field failure ''reviewDecision'' = JStr ''changes_requested''
          then
            bindM (reopenImplementationDependenciesForQaRepair fz h (number_at result ''attempt'')) (\<lambda>(reopened, exhausted).
            whenM (reopened \<noteq> [] \<or> exhausted \<noteq> []) (emit fz ''qa.implementation_repair_scheduled''
              [(''attempt'', number_json (js_number (get result ''attempt''))), (''reopenedTaskIds'', JArr reopened),
               (''exhaustedTaskIds'', JArr exhausted), (''requiredDeltas'', required_deltas h)]))
          else returnM ()
      | None \<Rightarrow> returnM ())"

definition failed_payload :: "obj \<Rightarrow> jsval \<Rightarrow> bool \<Rightarrow> jsval \<Rightarrow> jsval \<Rightarrow> obj \<Rightarrow> obj" where
  "failed_payload result failure canRetry retryAfterMs retryNotBefore d =
     [(''attempt'', number_json (js_number (get result ''attempt''))), (''code'', failure_code failure), (''message'', failure_message failure),
      (''failureCategory'', coalesce (field failure ''category'') JNull), (''retryable'', JBool canRetry), (''retryAfterMs'', retryAfterMs),
      (''retryNotBefore'', retryNotBefore), (''retryDisposition'', coalesce (field (get d ''details'') ''retryDisposition'') JNull),
      (''backoffApplied'', JBool (canRetry \<and> 0 < retry_delay_of d)), (''policyCode'', coalesce (get d ''code'') JNull)]"

definition retry_events :: "finalizer \<Rightarrow> obj \<Rightarrow> jsval \<Rightarrow> jsval \<Rightarrow> jsval \<Rightarrow> obj \<Rightarrow> unit pg_m" where
  "retry_events fz result failure retryAfterMs retryNotBefore d =
     (let disposition = coalesce (field (get d ''details'') ''retryDisposition'') JNull;
          attempt = (''attempt'', number_json (js_number (get result ''attempt''))) in
      seqM (emit fz ''retry.true_scheduled'' [attempt, (''failureCode'', failure_code failure),
         (''failureCategory'', coalesce (field failure ''category'') JNull), (''failureMessage'', JStr (take 4000 (js_string (failure_message failure)))),
         (''retryDisposition'', disposition), (''retryAfterMs'', retryAfterMs), (''retryNotBefore'', retryNotBefore),
         (''backoffApplied'', JBool (0 < retry_delay_of d)), (''repairExhausted'', JBool (field failure ''repairExhausted'' = JBool True))])
      (whenM (0 < retry_delay_of d) (emit fz ''retry.backoff_applied'' [attempt, (''failureCode'', failure_code failure),
         (''retryDisposition'', disposition), (''retryAfterMs'', retryAfterMs)])))"

definition store_failure :: "finalizer \<Rightarrow> obj \<Rightarrow> obj \<Rightarrow> jsval \<Rightarrow> string \<Rightarrow> jsval \<Rightarrow> obj \<Rightarrow> jsval \<Rightarrow> obj pg_m" where
  "store_failure fz resultRow result startedAt completedAt failure d retryNotBefore =
     (let canRetry = is_allowed d; status = failure_status failure canRetry; retryAfterMs = (if canRetry then JNum (retry_delay_of d) else JNull) in
      seqM (patch_task fz (failed_patch status (if canRetry then JNull else JStr completedAt)
              (duration_between (fz_env fz) startedAt (JStr completedAt)) failure retryNotBefore))
      (seqM (seqM (emit fz (if canRetry then ''task.retry_scheduled'' else ''task.'' @ status)
                (failed_payload result failure canRetry retryAfterMs retryNotBefore d))
              (whenM canRetry (retry_events fz result failure retryAfterMs retryNotBefore d)))
      (seqM (seqM (consume fz resultRow)
        (seqM (scheduleCleanup fz (if canRetry then ''retry_attempt_complete'' else ''task_terminal_failure''))
          (scheduleReconcile fz (if canRetry then ''retry_scheduled'' else ''task_terminal_failure''))))
      (returnM [(''status'', JStr status), (''failure'', failure), (''retryScheduled'', JBool canRetry)]))))"

definition record_failure :: "finalizer \<Rightarrow> obj \<Rightarrow> obj \<Rightarrow> obj \<Rightarrow> jsval \<Rightarrow> jsval \<Rightarrow> obj option \<Rightarrow> obj pg_m" where
  "record_failure fz resultRow taskRow result startedAt failure handoff =
     (let e = fz_env fz in
      bindM (db_now e) (\<lambda>completedAt.
      bindM (retry_decision fz taskRow result startedAt failure) (\<lambda>d.
      seqM (pg_recordPolicyDecision e (run_id fz) (task_id fz) ''retry'' d)
      (seqM (qa_repair fz result (is_allowed d) failure handoff)
      (bindM (if is_allowed d then bindM (db_now_plus e (retry_delay_of d)) (\<lambda>t. returnM (JStr t)) else returnM JNull)
        (store_failure fz resultRow result startedAt completedAt failure d))))))"

subsection \<open>The finalizer\<close>

definition stale_outcome :: "finalizer \<Rightarrow> obj \<Rightarrow> obj \<Rightarrow> obj \<Rightarrow> obj pg_m" where
  "stale_outcome fz resultRow taskRow result =
     seqM (emit fz ''execution.result.stale'' (fence_fields result @ [(''currentAttempt'', get taskRow ''attempt''),
        (''currentDispatchGeneration'', get taskRow ''dispatch_generation''), (''currentFencingToken'', get taskRow ''fencing_token'')]))
     (seqM (consume fz resultRow) (returnM [(''status'', JStr ''stale''), (''stale'', JBool True)]))"

definition replay_outcome :: "finalizer \<Rightarrow> obj \<Rightarrow> obj \<Rightarrow> obj pg_m" where
  "replay_outcome fz resultRow taskRow =
     seqM (catchM (consume fz resultRow))
     (seqM (scheduleCleanup fz ''terminal_result_replayed'')
     (seqM (scheduleReconcile fz ''terminal_result_replayed'')
     (returnM [(''status'', get taskRow ''status''), (''replayed'', JBool True)])))"

text \<open>
  After the handoff has been obtained: either the task is settled, or there is a failure to record. The arguments of an
  attempt are the row of its result, the row of its task, the result, the brief, the path of the handoff, the execution mode
  and the start.
\<close>

record attempt =
  at_resultRow :: obj
  at_taskRow :: obj
  at_result :: obj
  at_brief :: obj
  at_handoffPath :: jsval
  at_mode :: jsval
  at_startedAt :: jsval

definition give_up :: "finalizer \<Rightarrow> attempt \<Rightarrow> obj option \<Rightarrow> obj option \<Rightarrow> obj wm" where
  "give_up fz a handoff failure = liftDb (record_failure fz (at_resultRow a) (at_taskRow a) (at_result a) (at_startedAt a)
     (case failure of Some f \<Rightarrow> JObj f | None \<Rightarrow> JNull) handoff)"

definition finish_task :: "finalizer \<Rightarrow> attempt \<Rightarrow> workspace \<times> change_inspection \<times> obj \<times> obj option \<Rightarrow> obj wm" where
  "finish_task fz a = (\<lambda>(ws, inspection, handoff, unsettled).
     case unsettled of
       Some f \<Rightarrow> give_up fz a (Some handoff) (Some f)
     | None \<Rightarrow>
         tryM (complete_task fz (at_resultRow a) (at_result a) (js_string (at_handoffPath a)) (at_mode a) (at_startedAt a) ws inspection handoff)
           (\<lambda>message. give_up fz a (Some handoff) (Some [(''code'', JStr ''integration_failed''), (''message'', JStr message), (''retryable'', JBool False)])))"

definition finish_judged :: "finalizer \<Rightarrow> attempt \<Rightarrow> obj \<Rightarrow> obj option \<Rightarrow> obj wm" where
  "finish_judged fz a handoff verdict =
     (case verdict of
        Some f \<Rightarrow> give_up fz a (Some handoff) (Some f)
      | None \<Rightarrow> bindM (settle_paths fz (at_result a) (at_brief a) (js_string (at_handoffPath a)) handoff) (finish_task fz a))"

definition finish_received :: "finalizer \<Rightarrow> attempt \<Rightarrow> obj option \<Rightarrow> obj \<Rightarrow> obj wm" where
  "finish_received fz a failure handoff =
     (case (case classifyHandoffStatusFailure (fz_task fz) handoff of Some f \<Rightarrow> Some f | None \<Rightarrow> failure) of
        Some f \<Rightarrow> give_up fz a (Some handoff) (Some f)
      | None \<Rightarrow> bindM (judge_handoff fz (at_result a) (at_brief a) handoff) (finish_judged fz a handoff))"

definition conclude :: "finalizer \<Rightarrow> attempt \<Rightarrow> obj option \<times> obj option \<Rightarrow> obj wm" where
  "conclude fz a = (\<lambda>(handoff, failure).
     case handoff of
       None \<Rightarrow> give_up fz a None failure
     | Some received \<Rightarrow>
         bindM (account_handoff fz (at_result a) (at_brief a) (at_mode a) (js_string (at_handoffPath a)) received) (finish_received fz a failure))"

definition read_attempt :: "finalizer \<Rightarrow> obj \<Rightarrow> obj \<Rightarrow> obj \<Rightarrow> jsval \<Rightarrow> attempt wm" where
  "read_attempt fz resultRow taskRow result handoffPath =
     bindM (readJson (abs_path (js_string (get taskRow ''brief_path'')))) (\<lambda>brief.
     bindM (if nullish (get taskRow ''started_at'') \<and> nullish (get result ''startedAt'')
            then bindM (liftDb (db_now (fz_env fz))) (\<lambda>t. returnM (JStr t))
            else returnM (coalesce (get taskRow ''started_at'') (get result ''startedAt''))) (\<lambda>startedAt.
     returnM \<lparr>at_resultRow = resultRow, at_taskRow = taskRow, at_result = result, at_brief = fields_of brief, at_handoffPath = handoffPath,
       at_mode = coalesce (coalesce (coalesce (field (get result ''telemetry'') ''executionMode'') (get (fz_task fz) ''executionMode''))
         (field brief ''executionMode'')) (JStr ''agent''),
       at_startedAt = startedAt\<rparr>))"

definition running_patch :: "attempt \<Rightarrow> obj" where
  "running_patch a = [(''status'', JStr ''running''), (''execution_result_path'', get (at_resultRow a) ''result_path''),
     (''opencode_session_id'', coalesce (coalesce (field (get (at_result a) ''telemetry'') ''sessionId'') (get (at_taskRow a) ''opencode_session_id'')) JNull)]"

definition process_attempt :: "finalizer \<Rightarrow> attempt \<Rightarrow> obj wm" where
  "process_attempt fz a =
     seqM (liftDb (seqM (patch_task fz (running_patch a))
       (seqM (emit fz ''execution.result.received'' (received_payload (fz_env fz) (at_result a) (at_mode a)))
         (persistBufferedPerformanceEvents fz (get (at_result a) ''attempt'') (elements (field (get (at_result a) ''telemetry'') ''runtimeEvents''))))))
     (seqM (record_log fz (at_result a))
     (seqM (liftDb (record_gate fz (at_result a)))
     (bindM (obtain_handoff fz (at_result a) (at_brief a) (at_handoffPath a)) (conclude fz a))))"

definition finalizeExecutionResult :: "finalizer \<Rightarrow> obj \<Rightarrow> obj wm" where
  "finalizeExecutionResult fz resultRow =
     (let taskId = js_string (task_id fz) in
      bindM (liftDb (pg_getTask taskId)) (\<lambda>found.
      case found of
        None \<Rightarrow> throwM (''task_not_found:'' @ taskId)
      | Some taskRow \<Rightarrow>
          bindM (loadExecutionResult resultRow) (\<lambda>result.
          seqM (guardM (get result ''schemaVersion'' = JStr ''agent-execution-result/v1'') ''agent_execution_result_version_invalid'')
          (seqM (guardM (get result ''runId'' = run_id fz \<and> get result ''taskId'' = task_id fz) ''agent_execution_result_identity_mismatch'')
          (if staleExecutionResult taskRow result then liftDb (stale_outcome fz resultRow taskRow result)
           else
             let handoffPath = coalesce (get result ''handoffPath'') (get taskRow ''handoff_path'') in
             seqM (persistRepairResumeReceiptEvidence fz result handoffPath)
             (if status_in (get taskRow ''status'') SUCCESS_TASK_STATUSES then liftDb (replay_outcome fz resultRow taskRow)
              else bindM (read_attempt fz resultRow taskRow result handoffPath) (process_attempt fz)))))))"

definition taskResultIsSuccessful :: "jsval \<Rightarrow> bool" where
  "taskResultIsSuccessful task \<longleftrightarrow> status_in (field task ''status'') SUCCESS_TASK_STATUSES"

end
