(* ===== verification/ExecutorProps.thy ===== *)
theory ExecutorProps
  imports RepairCheckpoint ControlPlaneProps
begin

text \<open>
  What the decisions of the executor module mean: when a run counts as closed, which failures have a retry strategy, which
  artifact a dependency stands for, and what a handoff holds that passed the contract of its stage. Checkpoints of repairs
  are read back as they were written, and only by the attempt that wrote them.
\<close>

subsection \<open>The status of a run\<close>

lemma run_closed_iff:
  "determineRunStatusWithDocker tasks dv = ''closed'' \<longleftrightarrow> list_all (\<lambda>t. status_in (get t ''status'') SETTLED_STATUSES) tasks"
proof -
  have "\<not> some_status tasks s" if "list_all (\<lambda>t. status_in (get t ''status'') SETTLED_STATUSES) tasks" "s \<in> {''failed'', ''blocked'', ''cancelled''}" for s
    using that by (auto simp: some_status_def list_ex_iff list_all_iff SETTLED_STATUSES_def status_in_def)
  then show ?thesis by (auto simp: determineRunStatusWithDocker_def list_ex_iff list_all_iff)
qed

text \<open>Docker limitations do not change the status: a task that is blocked blocks the run, whatever blocked it.\<close>

lemma docker_limitation_blocks:
  assumes "some_status tasks ''blocked''" and "\<not> some_status tasks ''failed''"
  shows "determineRunStatusWithDocker tasks dv = ''blocked''"
  using assms by (simp add: determineRunStatusWithDocker_def)

subsection \<open>Failures and retry strategies\<close>

lemma strategy_by_code:
  assumes "get f ''code'' = JStr code" and "trim code = code" and "code \<noteq> []" and "strategy_entry code = Some st"
  shows "strategyForFailure (JObj f) = Some st"
  using assms by (simp add: strategyForFailure_def compact_JStr)

lemma get_failure_of [simp]:
  "get (failure_of code message retryable category @ rest) ''code'' = JStr code"
  "get (failure_of code message retryable category @ rest) ''retryable'' = JBool retryable"
  "get (failure_of code message retryable category) ''code'' = JStr code"
  "get (failure_of code message retryable category) ''retryable'' = JBool retryable"
  by (simp_all add: failure_of_def)

definition EXECUTOR_RETRYABLE :: "string list" where
  "EXECUTOR_RETRYABLE = [''provider_rate_limited'', ''handoff_schema_invalid'', ''opencode_state_database_locked'', ''executor_stalled'',
     ''executor_soft_timeout'', ''executor_timeout'', ''executor_exit_nonzero'', ''executor_service_failed'']"

lemma executor_codes_known: "code \<in> set EXECUTOR_RETRYABLE \<Longrightarrow> trim code = code \<and> code \<noteq> [] \<and> (\<exists>st. strategy_entry code = Some st)"
  by (auto simp: EXECUTOR_RETRYABLE_def strategy_entry_def RETRY_FAILURE_STRATEGIES_def trim_def is_space_def)

lemma classify_message_codes:
  "get (classify_message r message) ''retryable'' = JBool True \<Longrightarrow> \<exists>code \<in> set EXECUTOR_RETRYABLE. get (classify_message r message) ''code'' = JStr code"
  unfolding classify_message_def EXECUTOR_RETRYABLE_def by (simp split: if_splits)

text \<open>C99: a process that failed is never left without a strategy. Whatever the executor wrote and however it ended, when the
  classification says that another attempt may help, the registry of retry strategies knows the failure, so that the policy
  engine does not refuse it as unclassified.\<close>

theorem executor_failures_classified:
  assumes "get (classifyValidationFailure r health blocked used) ''retryable'' = JBool True"
  shows "\<exists>st. strategyForFailure (JObj (classifyValidationFailure r health blocked used)) = Some st"
proof -
  have "\<exists>code \<in> set EXECUTOR_RETRYABLE. get (classifyValidationFailure r health blocked used) ''code'' = JStr code"
  proof (cases blocked)
    case (Some b)
    with assms show ?thesis by (cases b) (simp add: classifyValidationFailure_def)
  next
    case None
    show ?thesis
    proof (cases "used \<and> (\<exists>services. health = Some (False, services))")
      case True
      with None show ?thesis by (auto simp: classifyValidationFailure_def EXECUTOR_RETRYABLE_def)
    next
      case False
      with None have "classifyValidationFailure r health blocked used = classify_message r (raw_message r)"
        by (cases used; cases health) (auto simp: classifyValidationFailure_def split: bool.splits)
      with assms classify_message_codes show ?thesis by metis
    qed
  qed
  then show ?thesis using executor_codes_known strategy_by_code by metis
qed

theorem executor_failures_classified_witness:
  "\<exists>st. strategyForFailure (JObj (classifyValidationFailure
     \<lparr>po_status = Some 1, po_stdout = JStr [], po_stderr = JStr ''boom'', po_timedOut = False, po_softTimedOut = False, po_stalled = True,
      po_aborted = False, po_error = JNull\<rparr> (Some (False, [''db''])) None True)) = Some st"
  by (rule executor_failures_classified) (simp add: classifyValidationFailure_def)

text \<open>Two failures are marked retryable although no strategy knows them, so that the policy always refuses the retry.\<close>

lemma unknown_code_denied:
  assumes "get f ''retryable'' = JBool True" and "get f ''code'' = JStr code" and "trim code = code" and "strategy_entry code = None"
    and "nullish (get f ''explicitRetryDisposition'')" and "get f ''category'' = JStr category" and "category \<notin> set TRANSIENT_CATEGORIES"
  shows "\<not> is_allowed (evaluateRetry e penv engine (JObj [(''failure'', JObj f), (''attempt'', a), (''maxAttempts'', m)]) state r nowMs)"
proof (rule unclassified_denied)
  have "get f ''explicitRetryDisposition'' \<notin> set EXPLICIT_DISPOSITIONS"
    using assms(5) by (auto simp: EXPLICIT_DISPOSITIONS_def nullish_def)
  moreover have "js_string (coalesce (JStr category) (JStr [])) = category" by (simp add: coalesce_def nullish_def)
  ultimately have "strategyForFailure (JObj f) = None"
    using assms by (simp add: strategyForFailure_def compact_JStr Let_def)
  with assms(1) show "retryDispositionForFailure (field (JObj [(''failure'', JObj f), (''attempt'', a), (''maxAttempts'', m)]) ''failure'') = JStr ''unclassified''"
    by (simp add: retryDispositionForFailure_def)
qed

lemma implementation_proof_failure_never_retried:
  "\<not> is_allowed (evaluateRetry e penv engine (JObj [(''failure'', JObj (contract_failure ''product_acceptance_implementation_proof_missing'' message)),
      (''attempt'', a), (''maxAttempts'', m)]) state r nowMs)"
  by (rule unknown_code_denied[where code = "''product_acceptance_implementation_proof_missing''" and category = "''contract''"])
     (simp_all add: contract_failure_def strategy_entry_def RETRY_FAILURE_STRATEGIES_def OBJECT_PROTOTYPE_KEYS_def trim_def is_space_def
        nullish_def TRANSIENT_CATEGORIES_def)

subsection \<open>The artifacts of the dependencies\<close>

definition counts_for :: "jsval list \<Rightarrow> obj \<Rightarrow> bool" where
  "counts_for dependencies a \<longleftrightarrow> get a ''task_id'' \<in> set dependencies \<and> js_number (get a ''accepted'') = Some 1"

definition newest_of :: "env \<Rightarrow> jsval list \<Rightarrow> obj list \<Rightarrow> obj \<Rightarrow> bool" where
  "newest_of e dependencies artifacts a \<longleftrightarrow> a \<in> set artifacts \<and> counts_for dependencies a
     \<and> (\<forall>b \<in> set artifacts. counts_for dependencies b \<and> get b ''task_id'' = get a ''task_id'' \<longrightarrow> \<not> newer_artifact e b a)"

lemma newer_trans: "newer_artifact e c a \<Longrightarrow> newer_artifact e a b \<Longrightarrow> newer_artifact e c b"
  by (auto simp: newer_artifact_def)

lemma newer_irrefl: "\<not> newer_artifact e a a"
  by (simp add: newer_artifact_def)

lemma note_artifact_get:
  "map_of (note_artifact e deps a newest) t =
     (if t = get a ''task_id'' \<and> counts_for deps a \<and> (case map_of newest t of None \<Rightarrow> True | Some b \<Rightarrow> newer_artifact e a b)
      then Some a else map_of newest t)"
  by (auto simp: note_artifact_def counts_for_def Let_def update_conv' split: option.splits)

lemma newest_by_task:
  fixes e :: env and deps :: "jsval list"
  defines "found artifacts \<equiv> map_of (fold (note_artifact e deps) artifacts [])"
  shows "(found artifacts t = Some a \<longrightarrow> get a ''task_id'' = t \<and> newest_of e deps artifacts a)
    \<and> (found artifacts t = None \<longrightarrow> (\<forall>b \<in> set artifacts. counts_for deps b \<longrightarrow> get b ''task_id'' \<noteq> t))"
proof (induction artifacts arbitrary: a rule: rev_induct)
  case (snoc x xs)
  have step: "found (xs @ [x]) t = (if t = get x ''task_id'' \<and> counts_for deps x \<and> (case found xs t of None \<Rightarrow> True | Some b \<Rightarrow> newer_artifact e x b)
      then Some x else found xs t)"
    by (simp only: found_def fold_append fold.simps comp_apply id_apply note_artifact_get)
  show ?case
  proof (cases "found xs t")
    case None
    with snoc have "\<forall>b \<in> set xs. counts_for deps b \<longrightarrow> get b ''task_id'' \<noteq> t" by blast
    with None step show ?thesis by (auto simp: newest_of_def newer_irrefl split: if_splits)
  next
    case (Some b)
    with snoc have b: "get b ''task_id'' = t" "newest_of e deps xs b" by blast+
    then show ?thesis using step Some by (auto simp: newest_of_def newer_irrefl dest: newer_trans split: if_splits)
  qed
qed (simp add: found_def)

text \<open>The artifact that stands for a dependency is the newest accepted one, ties broken by identifier; a dependency without an
  accepted artifact contributes none.\<close>

lemma latest_artifacts:
  shows "a \<in> set (latestAcceptedDependencyArtifacts e artifacts deps) \<Longrightarrow> newest_of e deps artifacts a"
    and "b \<in> set artifacts \<Longrightarrow> counts_for deps b \<Longrightarrow>
      \<exists>a \<in> set (latestAcceptedDependencyArtifacts e artifacts deps). get a ''task_id'' = get b ''task_id''"
proof -
  show "newest_of e deps artifacts a" if a: "a \<in> set (latestAcceptedDependencyArtifacts e artifacts deps)"
  proof -
    from a obtain t where "map_of (fold (note_artifact e deps) artifacts []) t = Some a"
      by (auto simp: latestAcceptedDependencyArtifacts_def map_filter_def)
    with newest_by_task[of e deps artifacts t a] show ?thesis by blast
  qed
  show "\<exists>a \<in> set (latestAcceptedDependencyArtifacts e artifacts deps). get a ''task_id'' = get b ''task_id''"
    if b: "b \<in> set artifacts" "counts_for deps b"
  proof -
    from newest_by_task[of e deps artifacts "get b ''task_id''"] b
    obtain a where a: "map_of (fold (note_artifact e deps) artifacts []) (get b ''task_id'') = Some a" by (metis not_None_eq)
    with newest_by_task[of e deps artifacts "get b ''task_id''" a] have "get a ''task_id'' = get b ''task_id''" by blast
    moreover have "a \<in> set (latestAcceptedDependencyArtifacts e artifacts deps)"
      using a b(2) by (force simp: latestAcceptedDependencyArtifacts_def map_filter_def counts_for_def image_iff)
    ultimately show ?thesis by blast
  qed
qed

subsection \<open>The contract of a stage\<close>

lemma tryM_Inr: "tryM m h s = (Inr x, t) \<longleftrightarrow> m s = (Inr x, t) \<or> (\<exists>message u. m s = (Inl message, u) \<and> h message u = (Inr x, t))"
  by (auto simp: tryM_def split: prod.splits sum.splits)

lemma liftR_Inr: "liftR r s = (Inr x, t) \<longleftrightarrow> r = Inr x \<and> t = s"
  by auto

definition checked_refinement :: "env \<Rightarrow> (string \<Rightarrow> string \<Rightarrow> bool) \<Rightarrow> registry \<Rightarrow> jsval \<Rightarrow> obj \<Rightarrow> obj \<Rightarrow> obj \<Rightarrow> jsval \<Rightarrow> obj wm" where
  "checked_refinement e regexp registry schemas plan taskPlan handoff required =
     (let canonical = canonicalizeImplementationPlanAcceptanceCriteria (get handoff ''implementationPlan'') required in
      if ca_normalized canonical
      then seqM (liftDb (pg_event e (get plan ''runId'') (get taskPlan ''taskId'') ''implementation_plan.acceptance_criteria_rejected_after_review''
             (JObj [(''omittedIds'', texts (ca_omittedIds canonical)), (''extraIds'', texts (ca_extraIds canonical)),
                    (''mutatedIds'', texts (ca_mutatedIds canonical)), (''authority'', JStr ''product-owner-acceptance-criteria'')])))
           (throwM (noncanonical_text canonical))
      else
        bindM (liftDb (db_now e)) (\<lambda>now.
        liftR (compileImplementationDag e regexp registry plan (JObj handoff) schemas required now JUndef)))"

lemma refinement_contract_unfold:
  "refinement_contract e regexp registry schemas plan taskPlan handoff =
     bindM (liftDb (pg_listArtifacts e (js_string (get plan ''runId'')))) (\<lambda>artifacts.
     case owner_artifacts e plan artifacts of
       [] \<Rightarrow> throwM ''product_owner_handoff_artifact_missing''
     | poArtifact # _ \<Rightarrow> bindM (readJson (abs_path (js_string (get poArtifact ''path'')))) (\<lambda>poHandoff.
         checked_refinement e regexp registry schemas plan taskPlan handoff (coalesce (field poHandoff ''acceptanceCriteria'') (JArr []))))"
  unfolding refinement_contract_def checked_refinement_def Let_def by (rule refl)

lemma refinement_contract_Inr:
  assumes "refinement_contract e regexp registry schemas plan taskPlan handoff w = (Inr compiled, w')"
  shows "\<exists>required now. compileImplementationDag e regexp registry plan (JObj handoff) schemas required now JUndef = Inr compiled
    \<and> \<not> ca_normalized (canonicalizeImplementationPlanAcceptanceCriteria (get handoff ''implementationPlan'') required)"
proof -
  from assms obtain artifacts u where "(case owner_artifacts e plan artifacts of [] \<Rightarrow> throwM ''product_owner_handoff_artifact_missing''
      | poArtifact # _ \<Rightarrow> bindM (readJson (abs_path (js_string (get poArtifact ''path'')))) (\<lambda>poHandoff.
          checked_refinement e regexp registry schemas plan taskPlan handoff (coalesce (field poHandoff ''acceptanceCriteria'') (JArr [])))) u
      = (Inr compiled, w')"
    unfolding refinement_contract_unfold bindM_Inr by blast
  then obtain required v where "checked_refinement e regexp registry schemas plan taskPlan handoff required v = (Inr compiled, w')"
    by (cases "owner_artifacts e plan artifacts") (auto simp: bindM_Inr)
  then show ?thesis by (auto simp: checked_refinement_def Let_def bindM_Inr seqM_Inr liftR_Inr split: if_splits)
qed

lemma review_contract_None:
  assumes "review_contract_failure taskPlan stage handoff brief = Inr None" and "get handoff ''status'' = JStr ''complete''"
    and "isSddReviewStage stage" and "\<not> nullish stage" and "field (field (effective_brief taskPlan stage brief) ''sdd'') ''stage'' = stage"
  shows "\<exists>review. get handoff ''sddReview'' = JObj review \<and> get review ''decision'' = JStr (requiredReviewDecision stage)
    \<and> get review ''stage'' = stage \<and> get review ''requiredDeltas'' = JArr []"
proof -
  let ?brief = "effective_brief taskPlan stage brief"
  have valid: "validateSddReviewContract ?brief (JObj handoff) = None"
    and decided: "field (get handoff ''sddReview'') ''decision'' = JStr (requiredReviewDecision stage)"
    using assms(1) by (auto simp: review_contract_failure_def Let_def split: option.splits prod.splits if_splits)
  have stage: "coalesce (field (field ?brief ''sdd'') ''stage'') (JStr ''implementation'') = stage"
    using assms(4,5) by (simp add: coalesce_def)
  from decided obtain review where review: "get handoff ''sddReview'' = JObj review" "get review ''decision'' = JStr (requiredReviewDecision stage)"
    by (cases "get handoff ''sddReview''") auto
  with valid assms(2,3) stage have "\<exists>role revision. review_wellformed stage role revision review"
    by (auto simp: validateSddReviewContract_def Let_def review_issue_None)
  with review show ?thesis by (auto simp: review_wellformed_def requiredReviewDecision_def split: if_splits)
qed

lemma discovery_None:
  assumes "discovery_failure registry plan stage handoff brief = None" and "get handoff ''status'' = JStr ''complete''"
    and "field (field brief ''sdd'') ''stage'' = JStr ''product-discovery''"
  shows "list_all (criterion_complete brief) (elements (get handoff ''acceptanceCriteria''))
    \<and> distinct (map (\<lambda>c. JsPrelude.compact (field c ''id'')) (elements (get handoff ''acceptanceCriteria'')))
    \<and> list_ex (\<lambda>c. JsPrelude.compact (field c ''proofStage'') = ''implementation'') (elements (get handoff ''acceptanceCriteria''))"
    and "requires_assessment plan \<longrightarrow> (\<exists>a. normalizeProductDiscoveryReviewAssessment (JObj handoff) registry = Inr (Some a))"
proof -
  have brief: "coalesce brief d = brief" for d using assms(3) by (cases brief) (auto simp: coalesce_def nullish_def)
  have none: "assessment_failure registry plan handoff = None" "productDiscoveryAcceptanceCriteriaIssue brief (JObj handoff) True = None"
    using assms(1) by (simp_all add: discovery_failure_def brief split: option.splits)
  from none(2) show "list_all (criterion_complete brief) (elements (get handoff ''acceptanceCriteria''))
    \<and> distinct (map (\<lambda>c. JsPrelude.compact (field c ''id'')) (elements (get handoff ''acceptanceCriteria'')))
    \<and> list_ex (\<lambda>c. JsPrelude.compact (field c ''proofStage'') = ''implementation'') (elements (get handoff ''acceptanceCriteria''))"
    using assms(2,3) by (simp add: criteria_issue_None Let_def)
  have "r \<noteq> Inr None" if "truthy (get handoff ''bootstrapReviewAssessment'')" "normalizeProductDiscoveryReviewAssessment (JObj handoff) registry = r" for r
    using that by (auto simp: normalizeProductDiscoveryReviewAssessment_def nullish_def Let_def bindR_Inr split: jsval.splits)
  with none(1) show "requires_assessment plan \<longrightarrow> (\<exists>a. normalizeProductDiscoveryReviewAssessment (JObj handoff) registry = Inr (Some a))"
    by (auto simp: assessment_failure_def split: sum.splits if_splits)
qed

lemma stage_contract_parts:
  assumes "stageContractFailure e regexp registry schemas plan taskPlan handoff brief w = (Inr None, w')"
    and "coalesce (get taskPlan ''stage'') (JStr ''implementation'') = stage"
  shows "stage = JStr ''product-discovery'' \<Longrightarrow> discovery_failure registry plan stage handoff brief = None"
    and "stage = JStr ''technical-refinement'' \<Longrightarrow> \<exists>compiled u. refinement_contract e regexp registry schemas plan taskPlan handoff w = (Inr compiled, u)"
    and "isSddReviewStage stage \<Longrightarrow> review_contract_failure taskPlan stage handoff brief = Inr None"
  using assms(1) unfolding stageContractFailure_def assms(2) Let_def
  by (auto simp: bindM_Inr tryM_Inr liftR_Inr split: if_splits)

text \<open>C99: a handoff that passed the contract of its stage carries what the later stages build on. After product discovery the
  catalog of product criteria is complete, without duplicates and with a criterion to implement, and the assessment of reviews
  can be read when the plan needs one; after technical refinement the plan of the technical lead compiles, and keeps the criteria
  of the product owner as they are; after a review, the review is of this stage, decides as the stage requires and leaves
  no open delta.\<close>

theorem stage_contract_sound:
  assumes "stageContractFailure e regexp registry schemas plan taskPlan handoff brief w = (Inr None, w')"
    and "get handoff ''status'' = JStr ''complete''" and "get taskPlan ''stage'' = stage" and "\<not> nullish stage"
    and "field (field brief ''sdd'') ''stage'' = stage"
  shows "(stage = JStr ''product-discovery'' \<longrightarrow>
       list_all (criterion_complete brief) (elements (get handoff ''acceptanceCriteria''))
       \<and> distinct (map (\<lambda>c. JsPrelude.compact (field c ''id'')) (elements (get handoff ''acceptanceCriteria'')))
       \<and> list_ex (\<lambda>c. JsPrelude.compact (field c ''proofStage'') = ''implementation'') (elements (get handoff ''acceptanceCriteria''))
       \<and> (requires_assessment plan \<longrightarrow> (\<exists>a. normalizeProductDiscoveryReviewAssessment (JObj handoff) registry = Inr (Some a))))
    \<and> (stage = JStr ''technical-refinement'' \<longrightarrow>
       (\<exists>compiled required now. compileImplementationDag e regexp registry plan (JObj handoff) schemas required now JUndef = Inr compiled
          \<and> \<not> ca_normalized (canonicalizeImplementationPlanAcceptanceCriteria (get handoff ''implementationPlan'') required)))
    \<and> (isSddReviewStage stage \<longrightarrow>
       (\<exists>review. get handoff ''sddReview'' = JObj review \<and> get review ''decision'' = JStr (requiredReviewDecision stage)
          \<and> get review ''stage'' = stage \<and> get review ''requiredDeltas'' = JArr []))"
proof -
  have stage: "coalesce (get taskPlan ''stage'') (JStr ''implementation'') = stage" using assms(3,4) by (simp add: coalesce_def)
  have "\<not> nullish brief" using assms(4,5) by (cases brief) (auto simp: nullish_def)
  then have brief: "effective_brief taskPlan stage brief = brief" by (simp add: effective_brief_def coalesce_def)
  note parts = stage_contract_parts[OF assms(1) stage]
  show ?thesis
  proof (intro conjI impI)
    assume "stage = JStr ''technical-refinement''"
    from parts(2)[OF this] show "\<exists>compiled required now. compileImplementationDag e regexp registry plan (JObj handoff) schemas required now JUndef = Inr compiled
        \<and> \<not> ca_normalized (canonicalizeImplementationPlanAcceptanceCriteria (get handoff ''implementationPlan'') required)"
      using refinement_contract_Inr by metis
  next
    assume "isSddReviewStage stage"
    with parts(3) show "\<exists>review. get handoff ''sddReview'' = JObj review \<and> get review ''decision'' = JStr (requiredReviewDecision stage)
        \<and> get review ''stage'' = stage \<and> get review ''requiredDeltas'' = JArr []"
      using review_contract_None assms(2,4,5) brief by metis
  qed (use discovery_None[of registry plan stage handoff brief] parts(1) assms(2,5) in auto)
qed

definition approved_review :: obj where
  "approved_review = [(''status'', JStr ''complete''), (''sddReview'', JObj [(''role'', JStr ''qa''), (''stage'', JStr ''quality-assurance''),
     (''reviewedRevision'', JNum 1), (''decision'', JStr ''approved''), (''requiredDeltas'', JArr []), (''nextRole'', JNull)])]"

definition qa_brief :: jsval where
  "qa_brief = JObj [(''agentId'', JStr ''qa''), (''sdd'', JObj [(''role'', JStr ''qa''), (''stage'', JStr ''quality-assurance''), (''reviewedRevision'', JNum 1)])]"

lemma qa_review_passes:
  "stageContractFailure e regexp registry schemas plan [(''stage'', JStr ''quality-assurance'')] approved_review qa_brief w = (Inr None, w)"
  by (simp add: stageContractFailure_def coalesce_def nullish_def isSddReviewStage_def FIXED_REVIEW_STAGES_def compact_JStr trim_def is_space_def
      review_contract_failure_def Let_def validateSddReviewContract_def effective_brief_def qa_brief_def approved_review_def review_issue_def
      requiredReviewDecision_def positiveInteger_def)

theorem stage_contract_sound_witness:
  "\<exists>review. get approved_review ''sddReview'' = JObj review \<and> get review ''decision'' = JStr (requiredReviewDecision (JStr ''quality-assurance''))
     \<and> get review ''stage'' = JStr ''quality-assurance'' \<and> get review ''requiredDeltas'' = JArr []"
proof -
  have "isSddReviewStage (JStr ''quality-assurance'')"
    by (simp add: isSddReviewStage_def FIXED_REVIEW_STAGES_def compact_JStr trim_def is_space_def)
  with stage_contract_sound[OF qa_review_passes, where stage = "JStr ''quality-assurance''"] show ?thesis
    by (simp add: approved_review_def qa_brief_def nullish_def)
qed

subsection \<open>Checkpoints of repairs\<close>

lemma get_absent: "k \<notin> fst ` set ps \<Longrightarrow> get ps k = JUndef"
  by (simp add: get_def map_of_eq_None_iff[THEN iffD2])

lemma get_clone: "distinct (map fst ps) \<Longrightarrow> field (clone (JObj ps)) k = clone (get ps k)"
proof (induction ps)
  case (Cons p ps)
  obtain a v where p: "p = (a, v)" by (cases p)
  with Cons.prems have "get ps a = JUndef" by (intro get_absent) auto
  with Cons p show ?case by (cases "k = a") auto
qed simp

lemma answers_cong: "(\<And>k x. (k, x) \<in> set expected \<Longrightarrow> field v k = field v' k) \<Longrightarrow> answers expected v = answers expected v'"
  unfolding answers_def by (rule list.pred_cong) auto

lemma distinct_assign: "distinct (map fst ob) \<Longrightarrow> distinct (map fst (assign ob patch))"
  by (induction patch arbitrary: ob) (auto simp: distinct_update)

definition identity_key :: "string \<Rightarrow> bool" where
  "identity_key k \<longleftrightarrow> k \<notin> {''contractVersion'', ''createdAt'', ''effectKey''}"

lemma bound_fields:
  assumes "distinct (map fst input)" and "identity_key k"
  shows "get (keyed key (assign [(''contractVersion'', v), (''createdAt'', c)] input)) k = get input k"
proof (cases "has_own input k")
  case True
  with assms show ?thesis by (simp add: keyed_def identity_key_def get_assign_own)
next
  case False
  moreover from this have "get input k = JUndef" by (simp add: has_own_def get_absent)
  ultimately show ?thesis using assms by (simp add: keyed_def identity_key_def get_assign_other)
qed

lemma write_bound_run:
  "write_bound e version key p input w =
     (let ob = keyed key (assign [(''contractVersion'', JStr version), (''createdAt'', JStr (clock e (db_tick (w_db w))))] input) in
      (Inr ob, w\<lparr>w_db := (w_db w)\<lparr>db_tick := Suc (db_tick (w_db w))\<rparr>, w_files := AList.update p (Json (JObj ob)) (w_files w)\<rparr>))"
  by (simp add: write_bound_def bindM_def liftDb_def seqM_def writeJson_def Let_def)

lemma read_bound_run:
  "map_of (w_files w) p = Some (Json v) \<Longrightarrow> read_bound version p expected w =
     (Inr (if field (clone v) ''contractVersion'' = JStr version \<and> answers expected (clone v) then Some (clone v) else None), w)"
  by (simp add: read_bound_def tryM_def readJson_def bindM_def)

lemma bound_roundtrip:
  assumes "distinct (map fst input)" and "\<not> has_own input ''contractVersion''" and "list_all (\<lambda>(k, x). identity_key k) expected"
  shows "\<exists>ob w'. write_bound e version key p input w = (Inr ob, w')
    \<and> read_bound version p expected w' = (Inr (if answers expected (clone (JObj input)) then Some (clone (JObj ob)) else None), w')"
proof -
  let ?ob = "keyed key (assign [(''contractVersion'', JStr version), (''createdAt'', JStr (clock e (db_tick (w_db w))))] input)"
  have dist: "distinct (map fst ?ob)" by (simp add: keyed_def distinct_update distinct_assign)
  have "get ?ob ''contractVersion'' = JStr version" using assms(2) by (simp add: keyed_def get_assign_other)
  then have version: "field (clone (JObj ?ob)) ''contractVersion'' = JStr version" using get_clone[OF dist] by simp
  have "answers expected (clone (JObj ?ob)) = answers expected (clone (JObj input))"
  proof (rule answers_cong)
    fix k x assume "(k, x) \<in> set expected"
    with assms(3) have "identity_key k" by (auto simp: list_all_iff)
    then show "field (clone (JObj ?ob)) k = field (clone (JObj input)) k"
      unfolding get_clone[OF dist] get_clone[OF assms(1)] by (simp only: bound_fields[OF assms(1)])
  qed
  with version show ?thesis by (simp add: write_bound_run Let_def read_bound_run)
qed

text \<open>C99: a repair checkpoint is read back by the attempt that wrote it, and by no other. After \<open>writeRepairCheckpoint\<close> the file
  yields the checkpoint exactly when every expected field that is given (run, task, attempt) has the text it was written with;
  otherwise the reader reports that there is no checkpoint.\<close>

theorem repair_checkpoint_roundtrip:
  assumes "distinct (map fst input)" and "\<not> has_own input ''contractVersion''" and "list_all (\<lambda>(k, x). identity_key k) expected"
  shows "\<exists>ob w'. writeRepairCheckpoint e p input w = (Inr ob, w')
    \<and> readRepairCheckpoint p expected w' = (Inr (if answers expected (clone (JObj input)) then Some (clone (JObj ob)) else None), w')"
  unfolding writeRepairCheckpoint_def readRepairCheckpoint_def by (rule bound_roundtrip[OF assms])

theorem repair_checkpoint_roundtrip_witness:
  "\<exists>ob w'. writeRepairCheckpoint sample_env [''run'', ''h''] [(''taskAttempt'', JNum 2)] \<lparr>w_db = db_init, w_files = []\<rparr> = (Inr ob, w')
    \<and> readRepairCheckpoint [''run'', ''h''] [(''taskAttempt'', JNum 3)] w' = (Inr None, w')"
proof -
  have "\<not> answers [(''taskAttempt'', JNum 3)] (clone (JObj [(''taskAttempt'', JNum 2)]))"
    by code_simp
  with repair_checkpoint_roundtrip[of "[(''taskAttempt'', JNum 2)]" "[(''taskAttempt'', JNum 3)]" sample_env "[''run'', ''h'']" "\<lparr>w_db = db_init, w_files = []\<rparr>"]
  show ?thesis by (simp add: has_own_def identity_key_def)
qed

text \<open>The receipt of a resumption is bound in the same way, to the dispatch as well.\<close>

lemma repair_receipt_roundtrip:
  assumes "distinct (map fst input)" and "\<not> has_own input ''contractVersion''" and "list_all (\<lambda>(k, x). identity_key k) expected"
  shows "\<exists>ob w'. writeRepairResumeReceipt e p input w = (Inr ob, w')
    \<and> readRepairResumeReceipt p expected w' = (Inr (if answers expected (clone (JObj input)) then Some (clone (JObj ob)) else None), w')"
  unfolding writeRepairResumeReceipt_def readRepairResumeReceipt_def by (rule bound_roundtrip[OF assms])

end
