(* ===== verification/FinalizerFrame.thy ===== *)
theory FinalizerFrame
  imports Finalizer ExecutorProps WorkspaceProps
begin

text \<open>
  What the finalizer leaves alone. \<open>cols_kept K\<close> relates databases whose tasks agree on the columns \<open>K\<close>: with the columns
  of the fence (identifier, attempt, generation, token) it shows that no step of the finalizer moves the fence of any task, with
  the status it tells which steps leave the outcome of a task alone. It interprets the frame locales of the store.
\<close>

subsection \<open>Rules for errors that are caught\<close>

context step_preorder
begin

lemma keeps_try:
  assumes "keeps m" and "\<And>message. keeps (h message)"
  shows "keeps (tryM m h)"
proof (rule keepsI)
  fix s
  obtain r t where m: "m s = (r, t)" by (cases "m s")
  with assms(1) have "R s t" by (rule keepsD)
  with m keeps_snd[OF assms(2)] show "R s (snd (tryM m h s))"
    by (cases r) (auto simp: tryM_def intro: step_trans)
qed

lemma keeps_attempt: "keeps m \<Longrightarrow> keeps (attemptM m)"
  unfolding attemptM_def by (intro keeps_try keeps_seq keeps_return)

lemma keeps_prod: "(\<And>a b. keeps (f a b)) \<Longrightarrow> keeps (case p of (a, b) \<Rightarrow> f a b)"
  by (cases p) simp

lemmas keeps_more = keeps_try keeps_attempt keeps_prod

end

context db_preorder
begin

lemma keeps_catch: "keeps m \<Longrightarrow> keeps (catchM m)"
  by (simp add: keeps_def catchM_def)

lemma keeps_clock: "keeps (db_nowMs e)" "keeps (db_random rng)"
  by (auto simp: keeps_def db_nowMs_def db_random_def tick_ok)

lemmas keeps_all = keeps_more keeps_catch keeps_clock keeps_statements

end

subsection \<open>Columns of the tasks\<close>

definition cols_kept :: "string list \<Rightarrow> db \<Rightarrow> db \<Rightarrow> bool" where
  "cols_kept K s t \<longleftrightarrow> map (\<lambda>r. map (get r) K) (tables t Tasks) = map (\<lambda>r. map (get r) K) (tables s Tasks)"

interpretation ck: db_preorder "cols_kept K" for K
  by unfold_locales (auto simp: cols_kept_def)

definition FENCE :: "string list" where
  "FENCE = [''task_id'', ''attempt'', ''dispatch_generation'', ''fencing_token'', ''max_attempts'']"

definition STATUS :: "string list" where
  "STATUS = [''task_id'', ''status'']"

definition steady :: "string list \<Rightarrow> bool" where
  "steady K \<longleftrightarrow> ''state_version'' \<notin> set K \<and> ''cleanup_state'' \<notin> set K \<and> ''cleanup_error'' \<notin> set K"

lemma steady_columns: "steady FENCE" "steady STATUS"
  by (simp_all add: steady_def FENCE_def STATUS_def)

lemma ck_ok: "t \<noteq> Tasks \<Longrightarrow> ck.insert_ok K t row" "t \<noteq> Tasks \<Longrightarrow> ck.update_ok K t P f"
  by (auto simp: ck.insert_ok_def ck.update_ok_def cols_kept_def)

lemma ck_tasks: "(\<And>r k. k \<in> set K \<Longrightarrow> get (f r) k = get r k) \<Longrightarrow> ck.update_ok K Tasks P f"
  by (auto simp: ck.update_ok_def cols_kept_def update_rows_def)

definition spares :: "string list \<Rightarrow> obj \<Rightarrow> bool" where
  "spares K patch \<longleftrightarrow> list_all (\<lambda>k. \<not> has_own patch k) K"

lemma ck_updateTask:
  assumes "steady K" and "spares K patch"
  shows "ck.keeps K (pg_updateTask taskId patch v)"
proof -
  have "get (plus_one ''state_version'' (assign r (patch_entries TASK_PATCH_COLUMNS patch))) k = get r k" if "k \<in> set K" for r k
    using assms that by (auto simp: steady_def spares_def list_all_iff get_patched_unset)
  then show ?thesis unfolding pg_updateTask_def pg_getTask_def by (intro ck.keeps_all ck_tasks)
qed

lemma ck_event: "ck.keeps K (pg_event e runId taskId ty payload)"
  unfolding pg_event_def by (intro ck.keeps_all ck_ok; simp)

lemma ck_eventOnce: "ck.keeps K (pg_eventOnce e runId taskId ty payload key)"
  unfolding pg_eventOnce_def Let_def by (intro ck.keeps_all ck_ok ck_event; simp)

lemma ck_enqueue: "ck.keeps K (pg_enqueueRuntimeOutbox e runId taskId kind generation payload)"
  unfolding pg_enqueueRuntimeOutbox_def Let_def by (intro ck.keeps_all ck_ok; simp)

lemma ck_checkpoint: "ck.keeps K (pg_writeCheckpoint e ci)"
  unfolding pg_writeCheckpoint_def by (intro ck.keeps_all ck_ok; simp)

lemma ck_consume: "ck.keeps K (pg_consumeExecutionResult e resultId)"
  unfolding pg_consumeExecutionResult_def by (intro ck.keeps_all ck_ok; simp)

lemma ck_reconcile: "ck.keeps K (pg_requestReconcile e runId reason)"
  unfolding pg_requestReconcile_def Let_def by (intro ck.keeps_all ck_ok ck_enqueue; simp)

lemma ck_cleanup: "steady K \<Longrightarrow> ck.keeps K (pg_requestWorkspaceCleanup e taskId reason)"
  unfolding pg_requestWorkspaceCleanup_def Let_def
  by (intro ck.keeps_all ck_ok ck_enqueue ck_tasks; auto simp: steady_def)

lemma ck_artifact: "ck.keeps K (pg_addArtifact e runId taskId kind version path sha accepted)"
  unfolding pg_addArtifact_def by (intro ck.keeps_all ck_ok; simp)

lemma ck_conflict: "ck.keeps K (pg_addConflict e runId taskId path ty details)"
  unfolding pg_addConflict_def by (intro ck.keeps_all ck_ok ck_event; simp)

lemma ck_mark: "ck.keeps K (pg_markIntegratedPath e runId taskId path fp)"
  unfolding pg_markIntegratedPath_def by (intro ck.keeps_all ck_ok; simp)

lemma ck_reads:
  "ck.keeps K (pg_getTask taskId)" "ck.keeps K (pg_listArtifacts e runId)" "ck.keeps K (pg_listEvents e runId)" "ck.keeps K (pg_integratedPath runId p)"
  unfolding pg_getTask_def pg_listArtifacts_def pg_listEvents_def pg_integratedPath_def by (intro ck.keeps_all)+

lemma ck_policy: "ck.keeps K (pg_recordPolicyDecision e runId taskId operation d)"
  unfolding pg_recordPolicyDecision_def by (intro ck.keeps_all ck_event)

lemmas ck_store = ck_event ck_eventOnce ck_checkpoint ck_consume ck_reconcile ck_cleanup ck_artifact ck_conflict ck_mark ck_reads ck_policy

subsection \<open>Steps on the world\<close>

definition world_kept :: "string list \<Rightarrow> world \<Rightarrow> world \<Rightarrow> bool" where
  "world_kept K w w' \<longleftrightarrow> cols_kept K (w_db w) (w_db w')"

interpretation wk: step_preorder "world_kept K" for K
  by unfold_locales (auto simp: world_kept_def cols_kept_def)

lemma wk_liftDb: "ck.keeps K m \<Longrightarrow> wk.keeps K (liftDb m)"
  by (auto simp: wk.keeps_def ck.keeps_def world_kept_def liftDb_def split: prod.splits) (metis snd_conv)

lemma wk_files: "wk.keeps K (writeJson p v)" "wk.keeps K (runGit git args cwd)" "wk.keeps K (modifyM (\<lambda>w. w\<lparr>w_files := f w\<rparr>))"
  by (auto simp: wk.keeps_def world_kept_def cols_kept_def writeJson_def runGit_def split: prod.splits)

lemma wk_reads: "wk.keeps K (exists_file p)" "wk.keeps K (readJson p)" "wk.keeps K (fileFingerprint e p)" "wk.keeps K (snapshotFiles e base ps)"
proof -
  have content: "wk.keeps K (case c of None \<Rightarrow> throwM a | Some (Json v) \<Rightarrow> returnM (f v) | Some (Text t) \<Rightarrow> throwM b)" for c and a b :: string and f :: "jsval \<Rightarrow> jsval"
    by (cases c) (auto intro: wk.keeps_intros split: content.split)
  show "wk.keeps K (exists_file p)" "wk.keeps K (readJson p)" "wk.keeps K (fileFingerprint e p)" "wk.keeps K (snapshotFiles e base ps)"
    unfolding exists_file_def readJson_def fileFingerprint_def snapshotFiles_def by (intro wk.keeps_intros content)+
qed

lemmas wk_intros = wk.keeps_more wk.keeps_intros wk_liftDb wk_files wk_reads ck.keeps_all ck_store

lemma wk_mapM: "(\<And>x. wk.keeps K (f x)) \<Longrightarrow> wk.keeps K (mapM f xs)"
  unfolding mapM_def by (intro wk.keeps_intros)

lemma wk_verify: "wk.keeps K (verify_unchanged e git ws p fp)" "wk.keeps K (verify_missing git ws p)"
  unfolding verify_unchanged_def verify_missing_def by (intro wk_intros)+

lemma wk_paths: "wk.keeps K (verifyReusablePath e git ws task p changed)" "wk.keeps K (verifyReadOnlyContextPath e git ws p changed)"
  unfolding verifyReusablePath_def verifyReadOnlyContextPath_def by (intro wk_intros wk_verify)+

lemma wk_place: "wk.keeps K (place_explicit e git ws task actual ctx p)" "wk.keeps K (place_candidate e git ws task handoff actual ctx p)"
  unfolding place_explicit_def place_candidate_def Let_def by (intro wk_intros wk_paths)+

lemma wk_disposition: "wk.keeps K (reconcileHandoffPathDisposition e git ws task i handoff changed reused ctx)"
  unfolding reconcileHandoffPathDisposition_def Let_def by (intro wk_intros wk_mapM wk_place)

lemma wk_inspect: "wk.keeps K (inspectWorkspaceChanges e git ws task)"
  unfolding inspectWorkspaceChanges_def changedPathsForWorktree_def changedPathsForCopy_def by (intro wk_intros)

lemma wk_refuse: "wk.keeps K (refuse_violations e runId task vs)" "wk.keeps K (refuse_parallel e runId task p)"
  unfolding refuse_violations_def refuse_parallel_def by (intro wk_intros)+

lemma wk_materialize: "wk.keeps K (check_materialized e git base ws task runId p)"
  unfolding check_materialized_def materializationProof_def gitCanonicalBlobFingerprint_def Let_def by (intro wk_intros)

lemma wk_integrate: "wk.keeps K (integrateWorkspace e git base ws task runId authoritative approved)"
  unfolding integrateWorkspace_def integrate_worktree_def integrate_copy_def mark_integrated_def Let_def
  by (intro wk_intros wk_mapM wk_inspect wk_refuse wk_materialize)

lemmas wk_workspace = wk_disposition wk_inspect wk_integrate

subsection \<open>Steps of the finalizer\<close>

lemma ck_emit: "ck.keeps K (emit fz ty payload)"
  unfolding emit_def by (rule ck_event)

lemma ck_notes: "ck.keeps K (checkpoint fz result ty fp payload)" "ck.keeps K (consume fz resultRow)" "ck.keeps K (emit_once fz ty payload key)"
  unfolding checkpoint_def consume_def emit_once_def by (intro ck.keeps_all ck_store)+

lemma ck_schedule_cleanup: "steady K \<Longrightarrow> ck.keeps K (scheduleCleanup fz reason)"
  unfolding scheduleCleanup_def by (intro ck.keeps_all ck_store ck_emit)

lemma ck_schedule_reconcile: "ck.keeps K (scheduleReconcile fz reason)"
  unfolding scheduleReconcile_def by (intro ck.keeps_all ck_store ck_emit)

lemma ck_patch: "steady K \<Longrightarrow> spares K patch \<Longrightarrow> ck.keeps K (patch_task fz patch)"
  unfolding patch_task_def by (intro ck.keeps_all ck_updateTask)

lemma ck_repair_findings: "ck.keeps K (persistRuntimeRepairFindingEvents fz result finding)"
  unfolding persistRuntimeRepairFindingEvents_def Let_def by (intro ck.keeps_all ck_notes)

lemma ck_findings: "ck.keeps K (finding_events fz result handoff)"
  unfolding finding_events_def by (intro ck.keeps_all ck_store ck_repair_findings)

lemma ck_buffered: "ck.keeps K (persistBufferedPerformanceEvents fz attempt evs)"
  unfolding persistBufferedPerformanceEvents_def by (intro ck.keeps_all ck_emit)

lemma ck_gate: "ck.keeps K (record_gate fz result)"
  unfolding record_gate_def Let_def by (intro ck.keeps_all ck_emit ck_notes)

lemma ck_decide: "ck.keeps K (retry_decision fz taskRow result startedAt failure)"
  unfolding retry_decision_def Let_def by (intro ck.keeps_all ck_store)

lemma ck_retry_events: "ck.keeps K (retry_events fz result failure a b d)"
  unfolding retry_events_def Let_def by (intro ck.keeps_all ck_emit)

lemmas ck_steps = ck.keeps_all ck_store ck_emit ck_notes ck_schedule_cleanup ck_schedule_reconcile ck_patch ck_findings ck_repair_findings ck_buffered ck_gate ck_decide ck_retry_events

lemma wk_present: "wk.keeps K (present_file p)"
  unfolding present_file_def by (intro wk_intros)

lemma wk_digest: "wk.keeps K (file_digest e p)"
  unfolding file_digest_def by (intro wk_intros)

lemma wk_load: "wk.keeps K (loadExecutionResult resultRow)"
  unfolding loadExecutionResult_def by (intro wk_intros wk_present)

lemma wk_hydrate: "wk.keeps K (hydrateWorkspaceBaseline p ws)"
  unfolding hydrateWorkspaceBaseline_def by (intro wk_intros wk_present)

lemma wk_changeset: "wk.keeps K (inspectExecutionChangeSet fz result ws)"
  unfolding inspectExecutionChangeSet_def Let_def by (intro wk_intros wk_present wk_workspace)

lemma wk_bound: "wk.keeps K (readRepairCheckpoint p expected)" "wk.keeps K (readRepairResumeReceipt p expected)"
  unfolding readRepairCheckpoint_def readRepairResumeReceipt_def read_bound_def by (intro wk_intros)+

lemma wk_receipt: "wk.keeps K (persistRepairResumeReceiptEvidence fz result hp)"
  unfolding persistRepairResumeReceiptEvidence_def by (intro wk_intros wk_bound ck_steps)

lemma wk_log: "wk.keeps K (record_log fz result)"
  unfolding record_log_def Let_def by (intro wk_intros wk_present wk_digest)

lemma wk_process: "wk.keeps K (process_failure fz result hp)"
  unfolding process_failure_def Let_def by (intro wk_intros wk_bound ck_steps)

lemma wk_shape: "wk.keeps K (accept_shape fz result hp handoff a b)"
  unfolding accept_shape_def by (intro wk_intros wk_digest ck_steps)

lemma wk_receive: "wk.keeps K (receive_handoff fz result brief hp)"
  unfolding receive_handoff_def Let_def by (intro wk_intros wk_shape ck_steps)

lemma wk_obtain: "wk.keeps K (obtain_handoff fz result brief hp)"
  unfolding obtain_handoff_def Let_def by (intro wk_intros wk_process wk_present wk_receive)

lemma wk_account: "steady K \<Longrightarrow> (\<And>reuse h. spares K (usage_patch reuse h)) \<Longrightarrow> wk.keeps K (account_handoff fz result brief mode hp handoff)"
  unfolding account_handoff_def Let_def by (intro wk_intros ck_steps)

lemma wk_refinement: "wk.keeps K (refinement_contract e regexp registry schemas plan taskPlan handoff)"
  unfolding refinement_contract_unfold checked_refinement_def Let_def by (intro wk_intros)

lemma wk_stage: "wk.keeps K (stageContractFailure e regexp registry schemas plan taskPlan handoff brief)"
  unfolding stageContractFailure_def Let_def by (intro wk_intros wk_refinement)

lemma wk_judge: "wk.keeps K (judge_handoff fz result brief handoff)"
  unfolding judge_handoff_def Let_def by (intro wk_intros wk_stage ck_steps)

lemma wk_settle: "wk.keeps K (settle_paths fz result brief hp handoff)"
  unfolding settle_paths_def disposition_events_def emit_paths_def Let_def
  by (intro wk_intros wk_hydrate wk_changeset wk_workspace ck_steps)

lemmas wk_steps = wk_intros wk_load wk_receipt wk_log wk_obtain wk_account wk_judge wk_settle wk_digest ck_steps

lemma patches_spare:
  "spares FENCE (usage_patch reuse h)" "spares STATUS (usage_patch reuse h)" "spares FENCE (integrated_patch taskPlan at' d)"
  "spares FENCE (failed_patch status c d f nb)" "spares FENCE (reopened_patch h)"
  by (simp_all add: spares_def FENCE_def STATUS_def has_own_def usage_patch_def integrated_patch_def failed_patch_def reopened_patch_def Let_def)

lemma ck_reopen: "ck.keeps FENCE (reopen_dependency fz handoff a taskId)"
  unfolding reopen_dependency_def Let_def
  by (intro ck_steps ck_updateTask steady_columns patches_spare)

lemma ck_qa: "ck.keeps FENCE (qa_repair fz result canRetry failure handoff)"
  unfolding qa_repair_def reopenImplementationDependenciesForQaRepair_def by (intro ck_steps ck_reopen)

lemma ck_failure: "ck.keeps FENCE (record_failure fz resultRow taskRow result startedAt failure handoff)"
  unfolding record_failure_def store_failure_def Let_def by (intro ck_steps ck_qa steady_columns patches_spare)

lemma wk_complete: "wk.keeps FENCE (complete_task fz resultRow result hp mode startedAt ws inspection handoff)"
  unfolding complete_task_def integrate_result_def Let_def
  by (intro wk_steps wk_workspace steady_columns patches_spare)

lemma wk_give_up: "wk.keeps FENCE (give_up fz a handoff failure)"
  unfolding give_up_def by (intro wk_steps ck_failure)

lemma wk_finish_task: "wk.keeps FENCE (finish_task fz a x)"
  unfolding finish_task_def by (cases x) (auto intro!: wk_steps wk_give_up wk_complete split: option.split)

lemma wk_finish_judged: "wk.keeps FENCE (finish_judged fz a handoff verdict)"
  unfolding finish_judged_def by (intro wk_steps wk_give_up wk_finish_task)

lemma wk_finish_received: "wk.keeps FENCE (finish_received fz a failure handoff)"
  unfolding finish_received_def by (intro wk_steps wk_give_up wk_finish_judged)

lemma wk_conclude: "wk.keeps FENCE (conclude fz a obtained)"
  unfolding conclude_def by (intro wk_steps wk_give_up wk_finish_received steady_columns patches_spare)

lemma wk_read_attempt: "wk.keeps K (read_attempt fz resultRow taskRow result hp)"
  unfolding read_attempt_def by (intro wk_steps)

lemma wk_process_attempt: "wk.keeps FENCE (process_attempt fz a)"
proof -
  have "spares FENCE (running_patch a)" by (simp add: spares_def FENCE_def has_own_def running_patch_def)
  then show ?thesis unfolding process_attempt_def by (intro wk_steps wk_conclude steady_columns)
qed

text \<open>No step of the finalizer moves the fence of a task.\<close>

lemma finalizer_keeps_fences: "wk.keeps FENCE (finalizeExecutionResult fz resultRow)"
  unfolding finalizeExecutionResult_def stale_outcome_def replay_outcome_def Let_def
  by (intro wk_steps wk_read_attempt wk_process_attempt steady_columns)

end
