(* ===== verification/RunFinalization.thy ===== *)
theory RunFinalization
  imports Finalizer
begin

text \<open>
  The end of a run (\<open>finalizeExecution\<close> in \<open>executor.mjs\<close>): the status of the run from the statuses of its tasks, the
  policy's decision about promotion, the integration decision that is stored as an artifact, and the wake of the waiting
  session. A run is finalised once: a second call finds the decision and only repeats the wake.

  \<open>rf_snapshot\<close> is the writer of replay capsules, \<open>rf_interfere\<close> what other processes do to the database between the reading
  and the writing of the run (see \<open>PgStore\<close>), \<open>rf_engine\<close> the policy engine if one is given.
\<close>

record run_finalizer =
  rf_env :: env
  rf_regexp :: "string \<Rightarrow> string \<Rightarrow> bool"
  rf_schemas :: jsval
  rf_root :: path
  rf_engine :: "engine option"
  rf_peak :: jsval
  rf_interfere :: "db \<Rightarrow> db"
  rf_snapshot :: "obj \<Rightarrow> obj \<Rightarrow> unit wm"
  rf_plan :: obj

definition rf_runId :: "run_finalizer \<Rightarrow> string" where
  "rf_runId rf = js_string (get (rf_plan rf) ''runId'')"

definition acceptance_plan :: "obj \<Rightarrow> jsval option" where
  "acceptance_plan plan = find (\<lambda>t. field t ''stage'' = JStr ''product-acceptance'') (elements (get plan ''tasks''))"

definition plan_succeeded :: "obj list \<Rightarrow> jsval \<Rightarrow> bool" where
  "plan_succeeded tasks taskPlan =
     (case find (\<lambda>row. get row ''task_id'' = field taskPlan ''taskId'') tasks of
        None \<Rightarrow> False | Some row \<Rightarrow> status_in (get row ''status'') SETTLED_STATUSES)"

definition acceptance_succeeded :: "obj \<Rightarrow> obj list \<Rightarrow> bool" where
  "acceptance_succeeded plan tasks = (case acceptance_plan plan of None \<Rightarrow> False | Some t \<Rightarrow> plan_succeeded tasks t)"

definition run_status :: "obj \<Rightarrow> obj list \<Rightarrow> jsval list \<Rightarrow> string" where
  "run_status plan tasks dockerValidation =
     (let found = determineRunStatusWithDocker tasks dockerValidation;
          status = (if get plan ''phase'' \<noteq> JStr ''compiled'' then ''failed'' else found) in
      if \<not> acceptance_succeeded plan tasks \<and> status \<notin> {''blocked'', ''cancelled''} then ''failed'' else status)"

definition status_count :: "obj list \<Rightarrow> string \<Rightarrow> int" where
  "status_count tasks status = int (length (filter (\<lambda>t. get t ''status'' = JStr status) tasks))"

definition at_plan_stage :: "obj \<Rightarrow> string \<Rightarrow> jsval list" where
  "at_plan_stage plan stage = filter (\<lambda>t. field t ''stage'' = JStr stage) (elements (get plan ''tasks''))"

definition promotion_input :: "obj \<Rightarrow> obj list \<Rightarrow> jsval" where
  "promotion_input plan tasks =
     (let qa = at_plan_stage plan ''quality-assurance''; readiness = at_plan_stage plan ''operational-readiness'' in JObj
      [(''qaAccepted'', JBool (qa \<noteq> [] \<and> list_all (plan_succeeded tasks) qa)),
       (''readinessAccepted'', JBool (readiness = [] \<or> list_all (plan_succeeded tasks) readiness)),
       (''productAcceptanceAccepted'', JBool (acceptance_succeeded plan tasks)),
       (''blockingFailures'', JNum (status_count tasks ''failed'' + status_count tasks ''blocked'' + status_count tasks ''cancelled''))])"

text \<open>The status after the policy has been asked, with its decision recorded.\<close>

definition promoted_status :: "run_finalizer \<Rightarrow> obj list \<Rightarrow> string \<Rightarrow> string pg_m" where
  "promoted_status rf tasks status =
     (case rf_engine rf of
        None \<Rightarrow> returnM status
      | Some engine \<Rightarrow>
          let e = rf_env rf; runId = get (rf_plan rf) ''runId''; d = evaluatePromotion e engine (promotion_input (rf_plan rf) tasks) in
          seqM (pg_recordPolicyDecision e runId JNull ''promotion'' d)
          (seqM (pg_event e runId JNull ''policy.promotion_decision'' (JObj (AList.update ''policyFingerprint'' (JStr (pe_fingerprint engine)) d)))
           (returnM (if \<not> truthy (get d ''allowed'') \<and> status = ''closed'' then ''failed'' else status))))"

definition collect_handoff :: "obj \<Rightarrow> (jsval \<times> jsval) list \<Rightarrow> (jsval \<times> jsval) list wm" where
  "collect_handoff artifact handoffs =
     tryM (bindM (readJson (abs_path (js_string (get artifact ''path'')))) (\<lambda>h. returnM (AList.update (get artifact ''task_id'') h handoffs)))
       (\<lambda>_. returnM handoffs)"

fun collect_handoffs :: "obj list \<Rightarrow> (jsval \<times> jsval) list \<Rightarrow> (jsval \<times> jsval) list wm" where
  "collect_handoffs [] handoffs = returnM handoffs"
| "collect_handoffs (a # as) handoffs = bindM (collect_handoff a handoffs) (collect_handoffs as)"

definition acceptance_id :: "obj \<Rightarrow> jsval" where
  "acceptance_id plan = (case acceptance_plan plan of None \<Rightarrow> JNull | Some t \<Rightarrow> coalesce (field t ''taskId'') JNull)"

definition decision_criteria :: "obj \<Rightarrow> (jsval \<times> jsval) list \<Rightarrow> jsval" where
  "decision_criteria plan handoffs =
     (case acceptance_plan plan of
        None \<Rightarrow> JArr []
      | Some t \<Rightarrow>
          let handoff = (case map_of handoffs (field t ''taskId'') of None \<Rightarrow> JUndef | Some h \<Rightarrow> h);
              results = map_of (rev (map (\<lambda>item. (field item ''criterionId'', item)) (elements (field handoff ''criterionResults'')))) in
          JArr (map (\<lambda>criterion.
            let result = (case results (field criterion ''id'') of None \<Rightarrow> JUndef | Some r \<Rightarrow> r) in JObj
            [(''id'', field criterion ''id''), (''source'', field criterion ''source''), (''statement'', field criterion ''statement''),
             (''blocking'', JBool (field criterion ''blocking'' \<noteq> JBool False)),
             (''result'', coalesce (field result ''result'') (JStr ''missing'')), (''evidence'', coalesce (field result ''evidence'') (JStr []))])
            (elements (field t ''acceptanceCriteria''))))"

definition artifact_ids :: "(obj \<Rightarrow> bool) \<Rightarrow> obj list \<Rightarrow> jsval" where
  "artifact_ids P artifacts = JArr (map (\<lambda>a. get a ''artifact_id'') (filter P artifacts))"

definition integration_decision :: "obj \<Rightarrow> string \<Rightarrow> string \<Rightarrow> obj list \<Rightarrow> (jsval \<times> jsval) list \<Rightarrow> jsval list \<Rightarrow> obj list \<Rightarrow> obj list \<Rightarrow> obj" where
  "integration_decision plan status completedAt tasks handoffs dockerValidation artifacts clashes =
     [(''schemaVersion'', JNum 2), (''runId'', get plan ''runId''), (''status'', JStr (if status = ''closed'' then ''integrated'' else status)),
      (''createdAt'', JStr completedAt), (''planPhase'', get plan ''phase''), (''productAcceptanceTaskId'', acceptance_id plan),
      (''acceptedArtifacts'', artifact_ids (\<lambda>a. truthy (get a ''accepted'')) artifacts),
      (''rejectedArtifacts'', artifact_ids (\<lambda>a. \<not> truthy (get a ''accepted'')) artifacts),
      (''conflicts'', JArr (map (\<lambda>c. JObj [(''path'', get c ''path''), (''type'', get c ''conflict_type''), (''taskId'', get c ''task_id'')]) clashes)),
      (''sharedPaths'', get plan ''sharedPathOwner''),
      (''validation'', JArr (map (\<lambda>t. JObj [(''taskId'', field t ''taskId''), (''stage'', coalesce (field t ''stage'') (JStr ''verification'')),
          (''status'', case find (\<lambda>row. get row ''task_id'' = field t ''taskId'') tasks of
             None \<Rightarrow> JStr ''missing'' | Some row \<Rightarrow> coalesce (get row ''status'') (JStr ''missing''))])
        (filter (\<lambda>t. field t ''role'' = JStr ''verification'') (elements (get plan ''tasks''))))),
      (''criteria'', decision_criteria plan handoffs), (''dockerValidation'', JArr dockerValidation)]"

definition wake_evidence :: "(obj \<times> bool) option \<Rightarrow> obj" where
  "wake_evidence wake =
     (let delivery = (case wake of None \<Rightarrow> [] | Some (row, _) \<Rightarrow> row) in
      [(''continuationEvidenceCaptured'', JBool True),
       (''continuationDeliveryId'', coalesce (coalesce (get delivery ''delivery_id'') (get delivery ''deliveryId'')) JNull),
       (''continuationEffectKey'', coalesce (coalesce (get delivery ''effect_key'') (get delivery ''effectKey'')) JNull),
       (''continuationGeneration'', coalesce (get delivery ''generation'') JNull)])"

definition announce :: "run_finalizer \<Rightarrow> jsval \<Rightarrow> obj \<Rightarrow> unit wm" where
  "announce rf status terminal =
     seqM (rf_snapshot rf (rf_plan rf) terminal)
     (bindM (liftDb (pg_materializeContinuationWake (rf_env rf) (rf_runId rf) status)) (\<lambda>wake.
      rf_snapshot rf (rf_plan rf) (assign terminal (wake_evidence wake))))"

record run_outcome =
  ro_status :: jsval
  ro_decision :: jsval
  ro_tasks :: "obj list"
  ro_duplicatePrevented :: bool

definition decision_artifact :: "obj \<Rightarrow> bool" where
  "decision_artifact a \<longleftrightarrow> get a ''kind'' = JStr ''integration-decision'' \<and> get a ''version'' = JStr ''v2''"

definition repeat_finalization :: "run_finalizer \<Rightarrow> obj \<Rightarrow> run_outcome wm" where
  "repeat_finalization rf prior =
     bindM (liftDb (pg_getRun (rf_runId rf))) (\<lambda>persisted.
     let row = (case persisted of Some r \<Rightarrow> r | None \<Rightarrow> []); status = coalesce (get row ''status'') (JStr ''closed'') in
     seqM (announce rf status [(''status'', status), (''completedAt'', coalesce (get row ''completed_at'') JNull),
        (''duplicateFinalization'', JBool True), (''planPhase'', get (rf_plan rf) ''phase'')])
     (bindM (readJson (abs_path (js_string (get prior ''path'')))) (\<lambda>stored.
      bindM (liftDb (pg_listTasks (rf_env rf) (rf_runId rf))) (\<lambda>tasks.
      returnM \<lparr>ro_status = status, ro_decision = stored, ro_tasks = tasks, ro_duplicatePrevented = True\<rparr>))))"

definition decision_path :: "run_finalizer \<Rightarrow> path" where
  "decision_path rf = rf_root rf @ [''.runtime'', ''agents'', ''runs'', rf_runId rf, ''integration-decision.json'']"

definition closing_payload :: "obj \<Rightarrow> obj list \<Rightarrow> jsval list \<Rightarrow> jsval \<Rightarrow> obj" where
  "closing_payload plan tasks dockerValidation peak =
     [(''failed'', JNum (status_count tasks ''failed'')), (''blocked'', JNum (status_count tasks ''blocked'')),
      (''cancelled'', JNum (status_count tasks ''cancelled'')), (''dockerValidationSummary'', compileDockerValidationSummary dockerValidation tasks),
      (''peakParallel'', peak), (''planPhase'', get plan ''phase''), (''productAcceptanceTaskId'', acceptance_id plan)]"

definition terminal_evidence :: "run_finalizer \<Rightarrow> string \<Rightarrow> string \<Rightarrow> obj list \<Rightarrow> string \<Rightarrow> string \<Rightarrow> obj" where
  "terminal_evidence rf status completedAt tasks artifactId digest =
     (let plan = rf_plan rf; fp = JStr (stableFingerprint (rf_env rf) (JObj plan)) in
      [(''status'', JStr status), (''completedAt'', JStr completedAt), (''planPhase'', get plan ''phase''), (''productAcceptanceTaskId'', acceptance_id plan),
       (''failed'', JNum (status_count tasks ''failed'')), (''blocked'', JNum (status_count tasks ''blocked'')),
       (''cancelled'', JNum (status_count tasks ''cancelled'')),
       (''policyFingerprint'', case rf_engine rf of Some engine \<Rightarrow> JStr (pe_fingerprint engine) | None \<Rightarrow> JNull),
       (''finalPlanFingerprint'', fp), (''compiledPlanFingerprint'', if get plan ''phase'' = JStr ''compiled'' then fp else JNull),
       (''integrationDecisionArtifactId'', JStr artifactId), (''integrationDecisionSha256'', JStr digest)])"

text \<open>Everything after the status has been decided.\<close>

definition close_run :: "run_finalizer \<Rightarrow> obj list \<Rightarrow> (jsval \<times> jsval) list \<Rightarrow> jsval list \<Rightarrow> string \<Rightarrow> run_outcome wm" where
  "close_run rf tasks handoffs dockerValidation status =
     (let e = rf_env rf; plan = rf_plan rf; runId = rf_runId rf in
      bindM (liftDb (db_now e)) (\<lambda>completedAt.
      bindM (if nullish (rf_peak rf) then bindM (liftDb (pg_getRun runId)) (\<lambda>run. returnM (case run of
                 None \<Rightarrow> JNum 0 | Some r \<Rightarrow> number_json (js_number (coalesce (get r ''peak_parallel'') (JNum 0)))))
             else returnM (rf_peak rf)) (\<lambda>peak.
      seqM (liftDb (seqM (pg_updateRun runId [(''status'', JStr status), (''completed_at'', JStr completedAt), (''peak_parallel'', peak)] JUndef
                (rf_interfere rf))
              (pg_event e (get plan ''runId'') JNull (''run.'' @ status) (JObj (closing_payload plan tasks dockerValidation peak)))))
      (bindM (liftDb (pg_listArtifacts e runId)) (\<lambda>artifacts. bindM (liftDb (pg_listConflicts e runId)) (\<lambda>clashes.
       let made = integration_decision plan status completedAt tasks handoffs dockerValidation artifacts clashes in
       seqM (liftR (assertSchema e (rf_regexp rf) (JObj made) (field (rf_schemas rf) ''integrationDecision'') ''integrationDecision''))
       (seqM (writeJson (decision_path rf) (JObj made))
       (bindM (file_digest e (decision_path rf)) (\<lambda>digest.
        bindM (liftDb (pg_addArtifact e runId JNull ''integration-decision'' ''v2'' (path_string (decision_path rf)) (JStr digest) (status = ''closed'')))
          (\<lambda>artifactId.
        seqM (announce rf (JStr status) (terminal_evidence rf status completedAt tasks artifactId digest))
        (bindM (liftDb (pg_listTasks e runId)) (\<lambda>rows.
         returnM \<lparr>ro_status = JStr status, ro_decision = JObj made, ro_tasks = rows, ro_duplicatePrevented = False\<rparr>))))))))))))"

definition finalizeExecution :: "run_finalizer \<Rightarrow> run_outcome wm" where
  "finalizeExecution rf =
     (let e = rf_env rf; runId = rf_runId rf in
      bindM (liftDb (pg_listArtifacts e runId)) (\<lambda>artifacts.
      bindM (case find decision_artifact artifacts of
          None \<Rightarrow> returnM None
        | Some prior \<Rightarrow> bindM (exists_file (abs_path (js_string (get prior ''path'')))) (\<lambda>present. returnM (if present then Some prior else None))) (\<lambda>prior.
      case prior of
        Some p \<Rightarrow> repeat_finalization rf p
      | None \<Rightarrow>
          bindM (liftDb (pg_listTasks e runId)) (\<lambda>tasks.
          bindM (collect_handoffs (filter (\<lambda>a. get a ''kind'' = JStr ''handoff'') artifacts) []) (\<lambda>handoffs.
          let dockerValidation = compileDockerValidation tasks handoffs in
          bindM (liftDb (promoted_status rf tasks (run_status (rf_plan rf) tasks dockerValidation)))
            (close_run rf tasks handoffs dockerValidation))))))"

end
