(* ===== verification/FinalizerProps.thy ===== *)
theory FinalizerProps
  imports FinalizerFrame RunFinalization
begin

text \<open>
  What the finalizer guarantees: a result of an attempt that was superseded changes nothing, a task is settled only with a
  proven handoff and owned paths, every result that was handled is consumed and its outcome stored, and quality assurance
  reopens only the implementation it depends on.
\<close>

subsection \<open>Rows of tasks\<close>

lemma find_kept:
  assumes "map (\<lambda>r. map (get r) K) ys = map (\<lambda>r. map (get r) K) xs" and "''task_id'' \<in> set K" and "c \<in> set K"
  shows "map_option (\<lambda>r. get r c) (find (col_is ''task_id'' v) ys) = map_option (\<lambda>r. get r c) (find (col_is ''task_id'' v) xs)"
proof -
  have "length ys = length xs" using assms(1) by (rule map_eq_imp_length_eq)
  then show ?thesis using assms
  proof (induction ys xs rule: list_induct2)
    case (Cons y ys x xs)
    then have "get y ''task_id'' = get x ''task_id''" "get y c = get x c" by auto
    then have "col_is ''task_id'' v y = col_is ''task_id'' v x" by (simp add: col_is_def col_def)
    with Cons \<open>get y c = get x c\<close> show ?case by auto
  qed simp
qed

lemma task_kept:
  assumes "cols_kept K s t" and "''task_id'' \<in> set K" and "c \<in> set K"
  shows "map_option (\<lambda>r. get r c) (task_of t k) = map_option (\<lambda>r. get r c) (task_of s k)"
  using assms unfolding task_of_def cols_kept_def by (rule find_kept)

lemma status_kept: "cols_kept STATUS s t \<Longrightarrow> task_of s k = Some row \<Longrightarrow> \<exists>row'. task_of t k = Some row' \<and> get row' ''status'' = get row ''status''"
  using task_kept[of STATUS s t "''status''" k] by (auto simp: STATUS_def map_option_eq_Some)

lemma exists_kept: "cols_kept FENCE s t \<Longrightarrow> task_of s k \<noteq> None \<Longrightarrow> task_of t k \<noteq> None"
  using task_kept[of FENCE s t "''task_id''" k] by (auto simp: FENCE_def)

lemma updated_task:
  assumes "pg_updateTask k patch JUndef s = (x, t)" and "patch_entries TASK_PATCH_COLUMNS patch \<noteq> []"
  shows "task_of t i = map_option (\<lambda>r. if i = k then plus_one ''state_version'' (assign r (patch_entries TASK_PATCH_COLUMNS patch)) else r) (task_of s i)"
proof -
  let ?f = "\<lambda>r. plus_one ''state_version'' (assign r (patch_entries TASK_PATCH_COLUMNS patch))"
  have key: "col_is ''task_id'' (JStr i) = (\<lambda>r. get r ''task_id'' = JStr i)" for i by (rule ext) simp
  have t: "t = put_table Tasks (update_rows (\<lambda>r. get r ''task_id'' = JStr k) ?f (tables s Tasks)) s"
    using assms by (auto simp: pg_updateTask_def bindM_def sql_update_def)
  have same: "get (?f r) ''task_id'' = get r ''task_id''" for r using keys_not_patched(2) by (simp add: get_patched_other)
  have "find (\<lambda>r. get r ''task_id'' = JStr i) (update_rows (\<lambda>r. get r ''task_id'' = JStr k) ?f (tables s Tasks))
      = map_option (\<lambda>r. if get r ''task_id'' = JStr k then ?f r else r) (find (\<lambda>r. get r ''task_id'' = JStr i) (tables s Tasks))"
    using same by (intro find_update_rows) auto
  also have "\<dots> = map_option (\<lambda>r. if i = k then ?f r else r) (find (\<lambda>r. get r ''task_id'' = JStr i) (tables s Tasks))"
    by (cases "find (\<lambda>r. get r ''task_id'' = JStr i) (tables s Tasks)") (auto dest!: find_member)
  finally show ?thesis by (simp add: t task_of_def key)
qed

lemma status_patched:
  assumes "distinct (map fst patch)" and "get patch ''status'' = JStr st"
  shows "patch_entries TASK_PATCH_COLUMNS patch \<noteq> []"
    and "get (plus_one ''state_version'' (assign r (patch_entries TASK_PATCH_COLUMNS patch))) ''status'' = JStr st"
proof -
  have own: "has_own patch ''status''" using assms(2) get_absent[of "''status''" patch] by (auto simp: has_own_def)
  have column: "''status'' \<in> set TASK_PATCH_COLUMNS" by (simp add: TASK_PATCH_COLUMNS_def)
  have "map_of (patch_entries TASK_PATCH_COLUMNS patch) ''status'' = Some (JStr st)"
    using own assms(2) column by (auto simp: map_of_patch_entries get_def has_own_def coalesce_def nullish_def map_of_eq_None_iff split: option.splits)
  then show "patch_entries TASK_PATCH_COLUMNS patch \<noteq> []" by auto
  show "get (plus_one ''state_version'' (assign r (patch_entries TASK_PATCH_COLUMNS patch))) ''status'' = JStr st"
    using get_patched_own[OF assms(1) own column] assms(2) by (simp add: coalesce_def nullish_def)
qed

lemma patched_status:
  assumes "patch_task fz patch s = (Inr u, t)" and "task_of s (js_string (task_id fz)) \<noteq> None"
    and "distinct (map fst patch)" and "get patch ''status'' = JStr st"
  shows "\<exists>row. task_of t (js_string (task_id fz)) = Some row \<and> get row ''status'' = JStr st"
proof -
  from assms(1) obtain x where "pg_updateTask (js_string (task_id fz)) patch JUndef s = (Inr x, t)"
    by (auto simp: patch_task_def seqM_Inr)
  from updated_task[OF this status_patched(1)[OF assms(3,4)]] assms(2) status_patched(2)[OF assms(3,4)] show ?thesis by auto
qed

subsection \<open>The outcome is stored and the result consumed\<close>

definition pending_result :: "obj \<Rightarrow> db \<Rightarrow> bool" where
  "pending_result resultRow s \<longleftrightarrow>
     list_ex (\<lambda>r. col_is ''result_id'' (JStr (js_string (get resultRow ''result_id''))) r \<and> is_null ''consumed_at'' r) (tables s Results)"

definition outcome_stored :: "finalizer \<Rightarrow> obj \<Rightarrow> jsval \<Rightarrow> db \<Rightarrow> bool" where
  "outcome_stored fz resultRow status s \<longleftrightarrow> (\<exists>row. task_of s (js_string (task_id fz)) = Some row \<and> get row ''status'' = status) \<and> \<not> pending_result resultRow s"

interpretation rk: db_preorder "\<lambda>s t. tables t Results = tables s Results"
  by unfold_locales auto

lemma rk_ok: "t \<noteq> Results \<Longrightarrow> rk.insert_ok t row" "t \<noteq> Results \<Longrightarrow> rk.update_ok t P f"
  by (auto simp: rk.insert_ok_def rk.update_ok_def)

lemma rk_event: "rk.keeps (pg_event e runId taskId ty payload)"
  unfolding pg_event_def by (intro rk.keeps_all rk_ok; simp)

lemma rk_enqueue: "rk.keeps (pg_enqueueRuntimeOutbox e runId taskId kind generation payload)"
  unfolding pg_enqueueRuntimeOutbox_def Let_def by (intro rk.keeps_all rk_ok; simp)

lemma rk_schedule: "rk.keeps (scheduleCleanup fz a)" "rk.keeps (scheduleReconcile fz b)"
  unfolding scheduleCleanup_def scheduleReconcile_def emit_def pg_requestWorkspaceCleanup_def pg_requestReconcile_def Let_def
  by (intro rk.keeps_all rk_ok rk_event rk_enqueue; simp)+

lemma consumed: "\<not> pending_result resultRow (snd (consume fz resultRow s))"
  by (auto simp: consume_def pg_consumeExecutionResult_def seqM_def bindM_def sql_update_def pending_result_def list_ex_iff update_rows_def
      is_null_def col_def split: if_splits)

text \<open>The end of every outcome: the result is consumed, then clean-up and reconciliation are requested.\<close>

lemma closing_steps:
  assumes "seqM (consume fz resultRow) (seqM (scheduleCleanup fz a) (scheduleReconcile fz b)) s = (r, t)"
  shows "\<not> pending_result resultRow t" and "cols_kept STATUS s t"
proof -
  let ?m = "seqM (scheduleCleanup fz a) (scheduleReconcile fz b)"
  obtain u where consume: "consume fz resultRow s = (Inr (), u)"
    by (simp add: consume_def pg_consumeExecutionResult_def seqM_def bindM_def sql_update_def)
  then have rest: "?m u = (r, t)" using assms by (simp add: seqM_def[of "consume fz resultRow"] bindM_def)
  have "rk.keeps ?m" by (intro rk.keeps_all rk_schedule)
  from rk.keepsD[OF this rest] consume consumed[of resultRow fz s] show "\<not> pending_result resultRow t" by (simp add: pending_result_def)
  have "ck.keeps STATUS (seqM (consume fz resultRow) ?m)" by (intro ck_steps steady_columns)
  from ck.keepsD[OF this assms] show "cols_kept STATUS s t" .
qed

lemma settles:
  assumes "seqM (patch_task fz patch) (seqM m (seqM (consume fz resultRow) (seqM (scheduleCleanup fz a) (scheduleReconcile fz b)))) s = (Inr u, t)"
    and "task_of s (js_string (task_id fz)) \<noteq> None" and "distinct (map fst patch)" and "get patch ''status'' = JStr st" and "ck.keeps STATUS m"
  shows "outcome_stored fz resultRow (JStr st) t"
proof -
  from assms(1) obtain s1 s2 x where s1: "patch_task fz patch s = (Inr (), s1)" and s2: "m s1 = (Inr x, s2)"
      and rest: "seqM (consume fz resultRow) (seqM (scheduleCleanup fz a) (scheduleReconcile fz b)) s2 = (Inr u, t)"
    by (auto simp: seqM_Inr[of "patch_task fz patch"] seqM_Inr[of m])
  obtain row where row: "task_of s1 (js_string (task_id fz)) = Some row" "get row ''status'' = JStr st"
    using patched_status[OF s1 assms(2-4)] by blast
  have "cols_kept STATUS s1 t"
    using ck.keepsD[OF assms(5) s2] closing_steps(2)[OF rest] by (auto intro: ck.step_trans)
  from status_kept[OF this row(1)] row(2) closing_steps(1)[OF rest] show ?thesis by (auto simp: outcome_stored_def)
qed

lemma seqM_return_last:
  "seqM a (seqM b (seqM c (returnM x))) s = (Inr r, t) \<Longrightarrow> r = x \<and> (\<exists>u. seqM a (seqM b c) s = (Inr u, t))"
  by (auto simp: seqM_Inr)

lemma failed_patch_shape: "distinct (map fst (failed_patch status c d f nb))" "get (failed_patch status c d f nb) ''status'' = JStr status"
  "distinct (map fst (integrated_patch task now d))" "get (integrated_patch task now d) ''status'' = JStr (terminal_status task)"
  by (simp_all add: failed_patch_def integrated_patch_def)

lemma record_failure_parts:
  assumes "record_failure fz resultRow taskRow result startedAt failure handoff s = (Inr r, t)"
  shows "\<exists>completedAt d nb u. cols_kept FENCE s u \<and> store_failure fz resultRow result startedAt completedAt failure d nb u = (Inr r, t)"
proof -
  let ?e = "fz_env fz" let ?before = "\<lambda>d. if is_allowed d then bindM (db_now_plus ?e (retry_delay_of d)) (\<lambda>t. returnM (JStr t)) else returnM JNull"
  from assms obtain completedAt d s1 s2 s3 s4 nb s5 u3 u4 where
      s1: "db_now ?e s = (Inr completedAt, s1)" and s2: "retry_decision fz taskRow result startedAt failure s1 = (Inr d, s2)"
      and s3: "pg_recordPolicyDecision ?e (run_id fz) (task_id fz) ''retry'' d s2 = (Inr u3, s3)"
      and s4: "qa_repair fz result (is_allowed d) failure handoff s3 = (Inr u4, s4)" and s5: "?before d s4 = (Inr nb, s5)"
      and rest: "store_failure fz resultRow result startedAt completedAt failure d nb s5 = (Inr r, t)"
    unfolding record_failure_def Let_def bindM_Inr seqM_Inr by blast
  have "ck.keeps FENCE (?before d)" by (intro ck_steps)
  from ck.keepsD[OF this s5] ck.keepsD[OF ck_qa s4] ck.keepsD[OF ck_policy s3, of FENCE] ck.keepsD[OF ck_decide s2, of FENCE]
    ck.keepsD[OF ck.keeps_host(1) s1, of FENCE]
  have "cols_kept FENCE s s5" by (blast intro: ck.step_trans)
  with rest show ?thesis by blast
qed

lemma record_failure_settles:
  assumes "record_failure fz resultRow taskRow result startedAt failure handoff s = (Inr r, t)"
    and "task_of s (js_string (task_id fz)) \<noteq> None"
  shows "outcome_stored fz resultRow (get r ''status'') t"
    and "get r ''status'' \<in> JStr ` {''cancelled'', ''blocked'', ''retrying'', ''failed''}" and "\<not> has_own r ''replayed'' \<and> \<not> has_own r ''stale''"
proof -
  obtain completedAt d nb u where u: "cols_kept FENCE s u" "store_failure fz resultRow result startedAt completedAt failure d nb u = (Inr r, t)"
    using record_failure_parts[OF assms(1)] by blast
  let ?status = "failure_status failure (is_allowed d)"
  note parts = seqM_return_last[OF u(2)[unfolded store_failure_def Let_def]]
  have told: "ck.keeps STATUS (seqM (emit fz ty payload) (whenM c (retry_events fz result failure x nb d)))" for ty payload c x by (intro ck_steps)
  show "outcome_stored fz resultRow (get r ''status'') t"
    using parts settles[OF _ exists_kept[OF u(1) assms(2)] failed_patch_shape(1,2) told] by auto
  have r: "r = [(''status'', JStr ?status), (''failure'', failure), (''retryScheduled'', JBool (is_allowed d))]" using parts by blast
  show "get r ''status'' \<in> JStr ` {''cancelled'', ''blocked'', ''retrying'', ''failed''}" "\<not> has_own r ''replayed'' \<and> \<not> has_own r ''stale''"
    by (auto simp: r failure_status_def has_own_def)
qed

lemma liftDb_Inr: "liftDb m w = (Inr x, w') \<longleftrightarrow> (\<exists>s. m (w_db w) = (Inr x, s) \<and> w' = w\<lparr>w_db := s\<rparr>)"
  by (auto simp: liftDb_def split: prod.splits)

definition known :: "finalizer \<Rightarrow> world \<Rightarrow> bool" where
  "known fz w \<longleftrightarrow> task_of (w_db w) (js_string (task_id fz)) \<noteq> None"

lemma known_kept: "wk.keeps FENCE m \<Longrightarrow> m w = (r, w') \<Longrightarrow> known fz w \<Longrightarrow> known fz w'"
  using exists_kept unfolding known_def by (metis wk.keepsD world_kept_def)

lemma complete_task_settles:
  assumes "complete_task fz resultRow result hp mode startedAt ws inspection handoff w = (Inr r, w')" and "known fz w"
  shows "outcome_stored fz resultRow (get r ''status'') (w_db w')" and "get r ''status'' = JStr (terminal_status (fz_task fz))"
    and "get r ''handoff'' = JObj handoff" and "\<not> has_own r ''replayed'' \<and> \<not> has_own r ''stale''"
proof -
  from assms(1) obtain i w1 fp w2 a w3 completedAt w4 where w1: "integrate_result fz result ws inspection (declared_paths handoff ''changedPaths'') w = (Inr i, w1)"
      and w2: "fileFingerprint (fz_env fz) (abs_path hp) w1 = (Inr fp, w2)"
      and w3: "liftDb (pg_addArtifact (fz_env fz) (js_string (run_id fz)) (task_id fz) ''handoff'' (js_string (get handoff ''artifactVersion'')) hp (fingerprint_sha fp) True) w2 = (Inr a, w3)"
      and w4: "liftDb (db_now (fz_env fz)) w3 = (Inr completedAt, w4)"
      and rest: "(let durationMs = duration_between (fz_env fz) startedAt (JStr completedAt); changedPaths = (''changedPaths'', texts (in_changedPaths i)) in
        seqM (liftDb (seqM (patch_task fz (integrated_patch (fz_task fz) completedAt durationMs))
          (seqM (seqM (checkpoint fz result ''integration.applied'' JNull [changedPaths])
            (seqM (checkpoint fz result ''task.integrated'' JNull [(''artifactId'', JStr a), (''terminalStatus'', JStr (terminal_status (fz_task fz)))])
            (emit fz ''task.integrated'' [(''artifactId'', JStr a), changedPaths, (''durationMs'', durationMs),
              (''verification'', JBool (get (fz_task fz) ''role'' = JStr ''verification'')), (''attempt'', get result ''attempt''),
              (''dispatchGeneration'', get result ''dispatchGeneration''), (''executionMode'', mode)])))
          (seqM (consume fz resultRow)
            (seqM (scheduleCleanup fz ''integration_complete'') (scheduleReconcile fz ''task_integrated''))))))
        (returnM [(''status'', JStr (terminal_status (fz_task fz))), (''handoff'', JObj handoff), changedPaths])) w4 = (Inr r, w')"
    unfolding complete_task_def Let_def[of "fz_env fz"] Let_def[of "JStr (terminal_status (fz_task fz))"] bindM_Inr by blast
  have "wk.keeps FENCE (integrate_result fz result ws inspection ps)" for ps
    unfolding integrate_result_def by (intro wk_steps wk_workspace)
  from known_kept[OF this w1 assms(2)] known_kept[OF wk_reads(3) w2] known_kept[OF wk_liftDb[OF ck_artifact] w3] known_kept[OF wk_liftDb[OF ck.keeps_host(1)] w4]
  have there: "known fz w4" by blast
  have told: "ck.keeps STATUS (seqM (checkpoint fz result t1 f1 p1) (seqM (checkpoint fz result t2 f2 p2) (emit fz t3 p3)))" for t1 f1 p1 t2 f2 p2 t3 p3
    by (intro ck_steps)
  from rest there show "outcome_stored fz resultRow (get r ''status'') (w_db w')"
    by (auto simp: Let_def seqM_Inr[of "liftDb m" for m] liftDb_Inr known_def dest!: settles[OF _ _ failed_patch_shape(3,4) told])
  from rest show "get r ''status'' = JStr (terminal_status (fz_task fz))" "get r ''handoff'' = JObj handoff" "\<not> has_own r ''replayed'' \<and> \<not> has_own r ''stale''"
    by (auto simp: Let_def seqM_Inr[of "liftDb m" for m] has_own_def)
qed

text \<open>How a finalisation ends: a failure is recorded, or the handoff was judged, its paths agreed and the task completed.\<close>

definition fails :: "finalizer \<Rightarrow> attempt \<Rightarrow> world \<Rightarrow> obj \<Rightarrow> world \<Rightarrow> bool" where
  "fails fz a w r w' \<longleftrightarrow> (\<exists>handoff failure u. world_kept FENCE w u \<and> give_up fz a handoff failure u = (Inr r, w'))"

definition completes :: "finalizer \<Rightarrow> attempt \<Rightarrow> obj \<Rightarrow> world \<Rightarrow> obj \<Rightarrow> world \<Rightarrow> bool" where
  "completes fz a handoff w r w' \<longleftrightarrow>
     (\<exists>ws inspection agreed u. settle_paths fz (at_result a) (at_brief a) (js_string (at_handoffPath a)) handoff w = (Inr (ws, inspection, agreed, None), u)
        \<and> complete_task fz (at_resultRow a) (at_result a) (js_string (at_handoffPath a)) (at_mode a) (at_startedAt a) ws inspection agreed u = (Inr r, w'))"

lemma fails_now: "give_up fz a handoff failure w = (Inr r, w') \<Longrightarrow> fails fz a w r w'"
  using wk.step_refl[of FENCE w] unfolding fails_def by blast

lemma fails_later: "world_kept FENCE w u \<Longrightarrow> fails fz a u r w' \<Longrightarrow> fails fz a w r w'"
  unfolding fails_def using wk.step_trans by blast

lemma finish_task_cases:
  assumes "finish_task fz a (ws, inspection, handoff, unsettled) w = (Inr r, w')"
  shows "fails fz a w r w' \<or> (unsettled = None
    \<and> complete_task fz (at_resultRow a) (at_result a) (js_string (at_handoffPath a)) (at_mode a) (at_startedAt a) ws inspection handoff w = (Inr r, w'))"
proof (cases unsettled)
  case (Some f)
  with assms fails_now show ?thesis by (simp add: finish_task_def)
next
  case None
  with assms fails_later[OF wk.keepsD[OF wk_complete] fails_now] show ?thesis by (auto simp: finish_task_def tryM_Inr)
qed

lemma finish_judged_cases:
  assumes "finish_judged fz a handoff verdict w = (Inr r, w')"
  shows "fails fz a w r w' \<or> (verdict = None \<and> completes fz a handoff w r w')"
proof (cases verdict)
  case (Some f)
  with assms fails_now show ?thesis by (simp add: finish_judged_def)
next
  case None
  with assms obtain x u where u: "settle_paths fz (at_result a) (at_brief a) (js_string (at_handoffPath a)) handoff w = (Inr x, u)"
      "finish_task fz a x u = (Inr r, w')" by (auto simp: finish_judged_def bindM_Inr)
  obtain ws inspection agreed unsettled where x: "x = (ws, inspection, agreed, unsettled)" by (cases x)
  from finish_task_cases[OF u(2)[unfolded x]] u(1) fails_later[OF wk.keepsD[OF wk_settle u(1)]] None show ?thesis
    unfolding completes_def x by blast
qed

lemma finish_received_cases:
  assumes "finish_received fz a failure handoff w = (Inr r, w')"
  shows "fails fz a w r w' \<or> (failure = None \<and> classifyHandoffStatusFailure (fz_task fz) handoff = None
    \<and> (\<exists>u. judge_handoff fz (at_result a) (at_brief a) handoff w = (Inr None, u) \<and> completes fz a handoff u r w'))"
proof (cases "case classifyHandoffStatusFailure (fz_task fz) handoff of Some f \<Rightarrow> Some f | None \<Rightarrow> failure")
  case (Some f)
  with assms fails_now show ?thesis by (simp add: finish_received_def)
next
  case None
  with assms obtain verdict u where u: "judge_handoff fz (at_result a) (at_brief a) handoff w = (Inr verdict, u)" "finish_judged fz a handoff verdict u = (Inr r, w')"
    by (auto simp: finish_received_def bindM_Inr)
  from None have "failure = None" "classifyHandoffStatusFailure (fz_task fz) handoff = None" by (auto split: option.splits)
  with finish_judged_cases[OF u(2)] u(1) fails_later[OF wk.keepsD[OF wk_judge u(1)]] show ?thesis by blast
qed

lemma conclude_cases:
  assumes "conclude fz a (obtained, failure) w = (Inr r, w')"
  shows "fails fz a w r w' \<or> (\<exists>received handoff u v. obtained = Some received \<and> failure = None
    \<and> account_handoff fz (at_result a) (at_brief a) (at_mode a) (js_string (at_handoffPath a)) received w = (Inr handoff, u)
    \<and> classifyHandoffStatusFailure (fz_task fz) handoff = None \<and> judge_handoff fz (at_result a) (at_brief a) handoff u = (Inr None, v)
    \<and> completes fz a handoff v r w')"
proof (cases obtained)
  case None
  with assms fails_now show ?thesis by (simp add: conclude_def)
next
  case (Some received)
  with assms obtain handoff u where u: "account_handoff fz (at_result a) (at_brief a) (at_mode a) (js_string (at_handoffPath a)) received w = (Inr handoff, u)"
      "finish_received fz a failure handoff u = (Inr r, w')" by (auto simp: conclude_def bindM_Inr)
  have "wk.keeps FENCE (account_handoff fz result brief mode hp h)" for result brief mode hp h by (intro wk_account steady_columns patches_spare)
  from finish_received_cases[OF u(2)] u(1) Some fails_later[OF wk.keepsD[OF this u(1)]] show ?thesis by blast
qed

lemma known_world: "world_kept FENCE w u \<Longrightarrow> known fz w \<Longrightarrow> known fz u"
  using exists_kept by (simp add: known_def world_kept_def)

lemma fails_settles:
  assumes "fails fz a w r w'" and "known fz w"
  shows "outcome_stored fz (at_resultRow a) (get r ''status'') (w_db w')"
    and "get r ''status'' \<in> JStr ` {''cancelled'', ''blocked'', ''retrying'', ''failed''}" and "\<not> has_own r ''replayed'' \<and> \<not> has_own r ''stale''"
proof -
  from assms(1) obtain handoff failure u s where u: "world_kept FENCE w u" and s: "record_failure fz (at_resultRow a) (at_taskRow a) (at_result a) (at_startedAt a)
        (case failure of Some f \<Rightarrow> JObj f | None \<Rightarrow> JNull) handoff (w_db u) = (Inr r, s)" and w': "w' = u\<lparr>w_db := s\<rparr>"
    by (auto simp: fails_def give_up_def liftDb_Inr)
  note record_failure_settles[OF s known_world[OF u assms(2), unfolded known_def]]
  with w' show "outcome_stored fz (at_resultRow a) (get r ''status'') (w_db w')"
    "get r ''status'' \<in> JStr ` {''cancelled'', ''blocked'', ''retrying'', ''failed''}" "\<not> has_own r ''replayed'' \<and> \<not> has_own r ''stale''"
    by simp_all
qed

lemma completes_settles:
  assumes "completes fz a handoff w r w'" and "known fz w"
  shows "outcome_stored fz (at_resultRow a) (get r ''status'') (w_db w')" and "\<not> has_own r ''replayed'' \<and> \<not> has_own r ''stale''"
proof -
  from assms(1) obtain ws inspection agreed u where
      u: "settle_paths fz (at_result a) (at_brief a) (js_string (at_handoffPath a)) handoff w = (Inr (ws, inspection, agreed, None), u)"
      and c: "complete_task fz (at_resultRow a) (at_result a) (js_string (at_handoffPath a)) (at_mode a) (at_startedAt a) ws inspection agreed u = (Inr r, w')"
    by (auto simp: completes_def)
  note complete_task_settles[OF c known_kept[OF wk_settle u assms(2)]]
  then show "outcome_stored fz (at_resultRow a) (get r ''status'') (w_db w')" "\<not> has_own r ''replayed'' \<and> \<not> has_own r ''stale''" by blast+
qed

lemma conclude_settles:
  assumes "conclude fz a obtained w = (Inr r, w')" and "known fz w"
  shows "outcome_stored fz (at_resultRow a) (get r ''status'') (w_db w') \<and> \<not> has_own r ''replayed'' \<and> \<not> has_own r ''stale''"
proof -
  obtain h f where obtained: "obtained = (h, f)" by (cases obtained)
  from conclude_cases[OF assms(1)[unfolded obtained]] show ?thesis
  proof (elim disjE exE conjE)
    assume "fails fz a w r w'"
    with assms(2) fails_settles show ?thesis by blast
  next
    fix received handoff u v
    assume u: "account_handoff fz (at_result a) (at_brief a) (at_mode a) (js_string (at_handoffPath a)) received w = (Inr handoff, u)"
      and v: "judge_handoff fz (at_result a) (at_brief a) handoff u = (Inr None, v)" and finish: "completes fz a handoff v r w'"
    have "wk.keeps FENCE (account_handoff fz result brief mode hp h)" for result brief mode hp h by (intro wk_account steady_columns patches_spare)
    from known_kept[OF wk_judge v known_kept[OF this u assms(2)]] finish completes_settles show ?thesis by blast
  qed
qed

subsection \<open>How the finalizer starts\<close>

interpretation rd: step_preorder "(=) :: world \<Rightarrow> world \<Rightarrow> bool"
  by unfold_locales auto

lemma rd_files: "rd.keeps (exists_file p)" "rd.keeps (readJson p)"
  by (auto simp: rd.keeps_def exists_file_def readJson_def split: option.splits content.splits)

lemma rd_present: "rd.keeps (present_file q)"
  unfolding present_file_def by (intro rd.keeps_intros rd_files)

lemma rd_load: "rd.keeps (loadExecutionResult resultRow)"
  unfolding loadExecutionResult_def by (intro rd.keeps_intros rd_present rd_files)

lemma untouched_readJson: "untouched.keeps (readJson p)"
  using rd_files(2)[of p] by (auto simp: rd.keeps_def untouched.keeps_def same_files_def)

lemma untouched_receipt: "untouched.keeps (persistRepairResumeReceiptEvidence fz result hp)"
  unfolding persistRepairResumeReceiptEvidence_def readRepairResumeReceipt_def read_bound_def
  by (intro untouched_intros untouched.keeps_more untouched_readJson)

lemma readJson_files: "w_files w = w_files w' \<Longrightarrow> fst (readJson p w) = fst (readJson p w')"
  by (simp add: readJson_def split: option.splits content.splits)

text \<open>What the call has read before it decides: the row of the task and the result, which is of this run and this task.\<close>

definition reads_result :: "finalizer \<Rightarrow> obj \<Rightarrow> world \<Rightarrow> obj \<Rightarrow> obj \<Rightarrow> bool" where
  "reads_result fz resultRow w taskRow result \<longleftrightarrow> task_of (w_db w) (js_string (task_id fz)) = Some taskRow
     \<and> loadExecutionResult resultRow w = (Inr result, w) \<and> get result ''schemaVersion'' = JStr ''agent-execution-result/v1''
     \<and> get result ''runId'' = run_id fz \<and> get result ''taskId'' = task_id fz"

lemma finalize_read:
  assumes "finalizeExecutionResult fz resultRow w = (Inr r, w')"
  shows "\<exists>taskRow result. reads_result fz resultRow w taskRow result"
  using assms rd.keepsD[OF rd_load, of resultRow w]
  by (auto simp: finalizeExecutionResult_def Let_def bindM_Inr seqM_Inr pg_getTask_run liftDb_Inr reads_result_def split: option.splits)

lemma finalize_run:
  assumes "reads_result fz resultRow w taskRow result"
  shows "finalizeExecutionResult fz resultRow w =
    (if staleExecutionResult taskRow result then liftDb (stale_outcome fz resultRow taskRow result)
     else let hp = coalesce (get result ''handoffPath'') (get taskRow ''handoff_path'') in
       seqM (persistRepairResumeReceiptEvidence fz result hp)
       (if status_in (get taskRow ''status'') SUCCESS_TASK_STATUSES then liftDb (replay_outcome fz resultRow taskRow)
        else bindM (read_attempt fz resultRow taskRow result hp) (process_attempt fz))) w"
  using assms by (simp add: finalizeExecutionResult_def reads_result_def Let_def bindM_def liftDb_def pg_getTask_run)

text \<open>The attempt that is processed: the result is of the current dispatch, and the brief is the one the task names.\<close>

definition attempt_of :: "finalizer \<Rightarrow> obj \<Rightarrow> world \<Rightarrow> attempt \<Rightarrow> bool" where
  "attempt_of fz resultRow w a \<longleftrightarrow> at_resultRow a = resultRow \<and> reads_result fz resultRow w (at_taskRow a) (at_result a)
     \<and> \<not> staleExecutionResult (at_taskRow a) (at_result a)
     \<and> (\<exists>b. fst (readJson (abs_path (js_string (get (at_taskRow a) ''brief_path''))) w) = Inr b \<and> at_brief a = fields_of b)"

lemma finalize_cases:
  assumes "finalizeExecutionResult fz resultRow w = (Inr r, w')"
  shows "(\<exists>taskRow result. staleExecutionResult taskRow result \<and> liftDb (stale_outcome fz resultRow taskRow result) w = (Inr r, w'))
    \<or> (\<exists>taskRow u. task_of (w_db w) (js_string (task_id fz)) = Some taskRow \<and> status_in (get taskRow ''status'') SUCCESS_TASK_STATUSES
         \<and> world_kept STATUS w u \<and> liftDb (replay_outcome fz resultRow taskRow) u = (Inr r, w'))
    \<or> (\<exists>a u. attempt_of fz resultRow w a \<and> world_kept FENCE w u \<and> process_attempt fz a u = (Inr r, w'))"
proof -
  obtain taskRow result where read: "reads_result fz resultRow w taskRow result" using finalize_read[OF assms] by blast
  let ?hp = "coalesce (get result ''handoffPath'') (get taskRow ''handoff_path'')"
  show ?thesis
  proof (cases "staleExecutionResult taskRow result")
    case True
    with assms finalize_run[OF read] show ?thesis by auto
  next
    case False
    with assms finalize_run[OF read] obtain x u where u: "persistRepairResumeReceiptEvidence fz result ?hp w = (Inr x, u)"
        and rest: "(if status_in (get taskRow ''status'') SUCCESS_TASK_STATUSES then liftDb (replay_outcome fz resultRow taskRow)
          else bindM (read_attempt fz resultRow taskRow result ?hp) (process_attempt fz)) u = (Inr r, w')"
      by (auto simp: Let_def seqM_Inr)
    show ?thesis
    proof (cases "status_in (get taskRow ''status'') SUCCESS_TASK_STATUSES")
      case True
      with rest read wk.keepsD[OF wk_receipt u, of STATUS] show ?thesis by (auto simp: reads_result_def)
    next
      case settled: False
      with rest obtain a v where v: "read_attempt fz resultRow taskRow result ?hp u = (Inr a, v)" and p: "process_attempt fz a v = (Inr r, w')"
        by (auto simp: bindM_Inr)
      have "fst (readJson p u) = fst (readJson p w)" for p
        using untouched.keepsD[OF untouched_receipt u] by (intro readJson_files) (simp add: same_files_def)
      with v have "attempt_of fz resultRow w a"
        using read False by (auto simp: read_attempt_def bindM_Inr attempt_of_def) (metis fst_conv)+
      moreover have "world_kept FENCE w v"
        using wk.step_trans[OF wk.keepsD[OF wk_receipt u] wk.keepsD[OF wk_read_attempt v]] .
      ultimately show ?thesis using p by blast
    qed
  qed
qed

lemma process_parts:
  assumes "process_attempt fz a w = (Inr r, w')"
  shows "\<exists>obtained u v. obtain_handoff fz (at_result a) (at_brief a) (at_handoffPath a) u = (Inr obtained, v) \<and> world_kept FENCE w v
    \<and> conclude fz a obtained v = (Inr r, w')"
proof -
  let ?start = "liftDb (seqM (patch_task fz (running_patch a)) (seqM (emit fz ''execution.result.received'' (received_payload (fz_env fz) (at_result a) (at_mode a)))
      (persistBufferedPerformanceEvents fz (get (at_result a) ''attempt'') (elements (field (get (at_result a) ''telemetry'') ''runtimeEvents'')))))"
  from assms obtain x1 x2 x3 u1 u2 u3 obtained v where u1: "?start w = (Inr x1, u1)" and u2: "record_log fz (at_result a) u1 = (Inr x2, u2)"
      and u3: "liftDb (record_gate fz (at_result a)) u2 = (Inr x3, u3)"
      and v: "obtain_handoff fz (at_result a) (at_brief a) (at_handoffPath a) u3 = (Inr obtained, v)" and c: "conclude fz a obtained v = (Inr r, w')"
    unfolding process_attempt_def bindM_Inr seqM_Inr[of "liftDb m" for m] seqM_Inr[of "record_log fz x" for x] by blast
  have "spares FENCE (running_patch a)" by (simp add: spares_def FENCE_def has_own_def running_patch_def)
  then have "wk.keeps FENCE ?start" by (intro wk_steps steady_columns)
  from wk.keepsD[OF this u1] wk.keepsD[OF wk_log u2, of FENCE] wk.keepsD[OF wk_liftDb[OF ck_gate] u3, of FENCE] wk.keepsD[OF wk_obtain v, of FENCE]
  have "world_kept FENCE w v" by (blast intro: wk.step_trans)
  with v c show ?thesis by blast
qed

lemma replay_settles:
  assumes "liftDb (replay_outcome fz resultRow taskRow) w = (Inr r, w')" and "task_of (w_db w) (js_string (task_id fz)) = Some row"
    and "get row ''status'' = get taskRow ''status''"
  shows "outcome_stored fz resultRow (get r ''status'') (w_db w')" and "get r ''replayed'' = JBool True" and "\<not> has_own r ''stale''"
proof -
  let ?close = "seqM (consume fz resultRow) (seqM (scheduleCleanup fz ''terminal_result_replayed'') (scheduleReconcile fz ''terminal_result_replayed''))"
  obtain u where "consume fz resultRow (w_db w) = (Inr (), u)"
    by (simp add: consume_def pg_consumeExecutionResult_def seqM_def bindM_def sql_update_def)
  then have same: "catchM (consume fz resultRow) (w_db w) = consume fz resultRow (w_db w)" by (simp add: catchM_def)
  from assms(1) obtain x s where x: "?close (w_db w) = (Inr x, s)" and w': "w' = w\<lparr>w_db := s\<rparr>"
      and r: "r = [(''status'', get taskRow ''status''), (''replayed'', JBool True)]"
    by (auto simp: replay_outcome_def liftDb_Inr seqM_Inr same)
  from status_kept[OF closing_steps(2)[OF x] assms(2)] closing_steps(1)[OF x] assms(3)
  show "outcome_stored fz resultRow (get r ''status'') (w_db w')" by (auto simp: outcome_stored_def r w')
  show "get r ''replayed'' = JBool True" "\<not> has_own r ''stale''" by (simp_all add: r has_own_def)
qed

lemma stale_parts:
  assumes "liftDb (stale_outcome fz resultRow taskRow result) w = (x, w')"
  shows "cols_kept K (w_db w) (w_db w')" and "w_files w' = w_files w" and "x = Inr r \<Longrightarrow> \<not> pending_result resultRow (w_db w')"
    and "x = Inr r \<Longrightarrow> get r ''status'' = JStr ''stale'' \<and> get r ''stale'' = JBool True"
proof -
  have "ck.keeps K (stale_outcome fz resultRow taskRow result)" unfolding stale_outcome_def by (intro ck_steps)
  from wk.keepsD[OF wk_liftDb[OF this] assms] show "cols_kept K (w_db w) (w_db w')" by (simp add: world_kept_def)
  from untouched.keepsD[OF untouched_liftDb assms] show "w_files w' = w_files w" by (simp add: same_files_def)
  show "\<not> pending_result resultRow (w_db w')" if "x = Inr r"
    using assms that consumed[of resultRow fz] by (auto simp: stale_outcome_def liftDb_Inr seqM_Inr) (metis snd_conv)
  show "get r ''status'' = JStr ''stale'' \<and> get r ''stale'' = JBool True" if "x = Inr r"
    using assms that by (auto simp: stale_outcome_def liftDb_Inr seqM_Inr)
qed

text \<open>C99: every result that is handled is handled completely. When the finalizer returns, whatever the outcome, the result is
  consumed, so that it is not handled again; unless the result was stale, the stored status of the task is the status that was
  reported (settled, waiting for a retry, failed, blocked or cancelled); and the attempt, generation, fencing token and attempt
  limit of every task are as before.\<close>

theorem every_result_settled:
  assumes "finalizeExecutionResult fz resultRow w = (Inr r, w')"
  shows "\<not> pending_result resultRow (w_db w') \<and> world_kept FENCE w w'
    \<and> (get r ''stale'' = JBool True \<or> (\<exists>row. task_of (w_db w') (js_string (task_id fz)) = Some row \<and> get row ''status'' = get r ''status''))"
proof -
  have fences: "world_kept FENCE w w'" by (rule wk.keepsD[OF finalizer_keeps_fences assms])
  from finalize_cases[OF assms] show ?thesis
  proof (elim disjE exE conjE)
    fix taskRow result assume "liftDb (stale_outcome fz resultRow taskRow result) w = (Inr r, w')"
    from stale_parts(3,4)[OF this refl] fences show ?thesis by blast
  next
    fix taskRow u assume row: "task_of (w_db w) (js_string (task_id fz)) = Some taskRow" and u: "world_kept STATUS w u"
      and replay: "liftDb (replay_outcome fz resultRow taskRow) u = (Inr r, w')"
    from status_kept[OF u[unfolded world_kept_def] row] replay_settles(1)[OF replay] fences show ?thesis by (auto simp: outcome_stored_def)
  next
    fix a u assume a: "attempt_of fz resultRow w a" and u: "world_kept FENCE w u" and p: "process_attempt fz a u = (Inr r, w')"
    obtain obtained v where v: "world_kept FENCE u v" "conclude fz a obtained v = (Inr r, w')" using process_parts[OF p] by blast
    have "known fz w" using a by (simp add: attempt_of_def reads_result_def known_def)
    from conclude_settles[OF v(2) known_world[OF v(1) known_world[OF u this]]] a fences show ?thesis
      by (auto simp: outcome_stored_def attempt_of_def)
  qed
qed

subsection \<open>A task is settled only when it is proven\<close>

lemma attemptM_Inr: "attemptM m s = (Inr None, t) \<longleftrightarrow> m s = (Inr (), t)"
  by (auto simp: attemptM_def tryM_Inr seqM_Inr)

lemma accept_shape_Inr:
  assumes "accept_shape fz result hp handoff k1 k2 w = (Inr x, w')"
  shows "get handoff ''runId'' = run_id fz" "get handoff ''taskId'' = task_id fz" "get handoff ''agentId'' = get (fz_task fz) ''agentId''"
    "is_ok (assertSchema (fz_env fz) (fz_regexp fz) (JObj handoff) (field (fz_schemas fz) ''handoffResult'') ''handoffResult'')"
  using assms unfolding accept_shape_def seqM_Inr by (auto simp: liftR_Inr is_ok_def)

lemma receive_handoff_Inr:
  assumes "receive_handoff fz result brief hp w = (Inr (Some h, None), w')"
  shows "\<exists>k1 k2 u x. accept_shape fz result hp h k1 k2 u = (Inr x, w')"
proof -
  from assms obtain raw u where raw: "(let n = normalizeModelHandoffContract (fz_env fz) raw brief (get result ''attempt'') in
       case sanitizeHandoffTelemetryShape (fields_of (nh_handoff n)) of (handoff, k1, k2) \<Rightarrow>
       bindM (attemptM (whenM (nh_changed n) (seqM (liftDb (emit fz ''handoff.contract_normalized'' (normalized_payload n))) (writeJson (abs_path hp) (nh_handoff n)))))
         (\<lambda>first. case first of
            Some message \<Rightarrow> returnM (Some (fields_of (nh_handoff n)), Some (classifyHandoffValidationError message))
          | None \<Rightarrow>
              bindM (attemptM (accept_shape fz result hp handoff k1 k2)) (\<lambda>second.
              returnM (Some handoff, map_option classifyHandoffValidationError second)))) u = (Inr (Some h, None), w')"
    unfolding receive_handoff_def tryM_Inr bindM_Inr[of "readJson p" for p] by auto
  then show ?thesis
    by (auto simp: Let_def bindM_Inr attemptM_Inr split: prod.splits option.splits)
qed

lemma obtain_handoff_Inr:
  assumes "obtain_handoff fz result brief hp w = (Inr (Some h, None), w')"
  shows "\<not> po_aborted (process_outcome_of result)" "po_status (process_outcome_of result) = Some 0"
    "truthy (get result ''behaviorGate'') \<Longrightarrow> field (get result ''behaviorGate'') ''status'' = JStr ''PASSED''"
    "\<exists>k1 k2 u x. accept_shape fz result (js_string hp) h k1 k2 u = (Inr x, w')"
  using assms receive_handoff_Inr[of fz result brief "js_string hp" _ h w']
  by (auto simp: obtain_handoff_def Let_def bindM_Inr split: if_splits)

lemma account_handoff_Inr:
  assumes "account_handoff fz result brief mode hp received w = (Inr handoff, w')"
  shows "\<exists>v. handoff = AList.update ''executionTelemetry'' v received"
  using assms by (auto simp: account_handoff_def Let_def seqM_Inr)

lemma judge_handoff_Inr:
  assumes "judge_handoff fz result brief handoff w = (Inr None, w')"
  shows "co_accepted (evaluateCompletion brief handoff)"
    and "\<exists>u. stageContractFailure (fz_env fz) (fz_regexp fz) (fz_registry fz) (fz_schemas fz) (fz_plan fz) (fz_task fz) handoff (JObj brief) w = (Inr None, u)"
  using assms by (auto simp: judge_handoff_def Let_def bindM_Inr seqM_Inr split: option.splits if_splits)

lemma settle_paths_Inr:
  assumes "settle_paths fz result brief hp handoff w = (Inr (ws, inspection, agreed, None), w')"
  shows "\<exists>d. agreed = AList.update ''reusedPaths'' (texts (map fst (di_reused d)))
      (AList.update ''changedPaths'' (texts (di_changedPaths d)) (with_context_paths d handoff))
    \<and> unauthorized_changes fz inspection d = [] \<and> di_invalidReused d = [] \<and> di_missingDeclaredChanges d = []"
  using assms by (auto simp: settle_paths_def Let_def bindM_Inr seqM_Inr split: if_splits)

lemma authorized: "unauthorized_changes fz inspection d = [] \<Longrightarrow> list_all (anyPatternMatches (owned_paths (fz_task fz))) (di_changedPaths d)"
proof -
  assume "unauthorized_changes fz inspection d = []"
  then have "set (unauthorized_changes fz inspection d) = {}" by simp
  then show ?thesis by (auto simp: unauthorized_changes_def list_all_iff)
qed

lemma texts_paths: "get handoff k = texts ps \<Longrightarrow> declared_paths handoff k = ps"
  by (simp add: declared_paths_def texts_def comp_def)

definition judged_fields :: "string list" where
  "judged_fields = [''status'', ''criterionResults'', ''validation'', ''sddReview'', ''residualRisks'', ''followUps'']"

lemma evaluateCompletion_cong:
  "(\<And>k. k \<in> set judged_fields \<Longrightarrow> get h k = get h' k) \<Longrightarrow> evaluateCompletion brief h = evaluateCompletion brief h'"
  by (simp add: evaluateCompletion_def completion_violations_def requiredCriterionViolations_def requiredValidationViolations_def
      review_violations_def judged_fields_def Let_def)

text \<open>The handoff that was agreed differs from the one that was judged only in the paths.\<close>

lemma agreed_fields:
  assumes "agreed = AList.update ''reusedPaths'' a (AList.update ''changedPaths'' b (with_context_paths d handoff))"
    and "k \<notin> {''reusedPaths'', ''changedPaths'', ''usedContextPaths''}"
  shows "get agreed k = get handoff k"
  using assms by (simp add: with_context_paths_def)


definition handoff_proven :: "finalizer \<Rightarrow> attempt \<Rightarrow> obj \<Rightarrow> bool" where
  "handoff_proven fz a handoff \<longleftrightarrow> po_status (process_outcome_of (at_result a)) = Some 0 \<and> \<not> po_aborted (process_outcome_of (at_result a))
     \<and> (truthy (get (at_result a) ''behaviorGate'') \<longrightarrow> field (get (at_result a) ''behaviorGate'') ''status'' = JStr ''PASSED'')
     \<and> get handoff ''runId'' = run_id fz \<and> get handoff ''taskId'' = task_id fz \<and> get handoff ''agentId'' = get (fz_task fz) ''agentId''
     \<and> co_accepted (evaluateCompletion (at_brief a) handoff)
     \<and> list_all (anyPatternMatches (owned_paths (fz_task fz))) (declared_paths handoff ''changedPaths'')"

lemma agreed_proven:
  assumes received: "obtain_handoff fz (at_result a) (at_brief a) (at_handoffPath a) w1 = (Inr (Some received, None), w2)"
    and accounted: "account_handoff fz (at_result a) (at_brief a) mode hp received w3 = (Inr handoff, w4)"
    and judged: "judge_handoff fz (at_result a) (at_brief a) handoff w5 = (Inr None, w6)"
    and agreed: "settle_paths fz (at_result a) (at_brief a) hp handoff w7 = (Inr (ws, inspection, agreed, None), w8)"
  shows "handoff_proven fz a agreed"
proof -
  obtain d where d: "agreed = AList.update ''reusedPaths'' (texts (map fst (di_reused d)))
      (AList.update ''changedPaths'' (texts (di_changedPaths d)) (with_context_paths d handoff))" and owned: "unauthorized_changes fz inspection d = []"
    using settle_paths_Inr[OF agreed] by blast
  note same = agreed_fields[OF d]
  obtain v where v: "handoff = AList.update ''executionTelemetry'' v received" using account_handoff_Inr[OF accounted] by blast
  have "get agreed ''changedPaths'' = texts (di_changedPaths d)" by (simp add: d)
  from texts_paths[OF this] authorized[OF owned]
  have paths: "list_all (anyPatternMatches (owned_paths (fz_task fz))) (declared_paths agreed ''changedPaths'')" by simp
  have "evaluateCompletion (at_brief a) agreed = evaluateCompletion (at_brief a) handoff"
    by (rule evaluateCompletion_cong) (auto simp: judged_fields_def same)
  with judge_handoff_Inr(1)[OF judged] have complete: "co_accepted (evaluateCompletion (at_brief a) agreed)" by simp
  obtain k1 k2 u x where shape: "accept_shape fz (at_result a) (js_string (at_handoffPath a)) received k1 k2 u = (Inr x, w2)"
    using obtain_handoff_Inr(4)[OF received] by blast
  have "get agreed k = get received k" if "k \<in> {''runId'', ''taskId'', ''agentId''}" for k using that by (auto simp: same v)
  with accept_shape_Inr(1-3)[OF shape] obtain_handoff_Inr(1-3)[OF received] paths complete show ?thesis
    by (simp add: handoff_proven_def)
qed

lemma settled_not_failed: "status_in v SETTLED_STATUSES \<Longrightarrow> v \<notin> JStr ` {''cancelled'', ''blocked'', ''retrying'', ''failed''}"
  "\<not> status_in (JStr ''stale'') SETTLED_STATUSES"
  by (auto simp: status_in_def SETTLED_STATUSES_def)

lemma conclude_proven:
  assumes "conclude fz a obtained w = (Inr r, w')" and "known fz w" and "status_in (get r ''status'') SETTLED_STATUSES"
    and "obtain_handoff fz (at_result a) (at_brief a) (at_handoffPath a) u = (Inr obtained, w)"
  shows "\<exists>handoff. get r ''handoff'' = JObj handoff \<and> handoff_proven fz a handoff"
proof -
  obtain h f where obtained: "obtained = (h, f)" by (cases obtained)
  from conclude_cases[OF assms(1)[unfolded obtained]] show ?thesis
  proof (elim disjE exE conjE)
    assume "fails fz a w r w'"
    from fails_settles(2)[OF this assms(2)] settled_not_failed(1)[OF assms(3)] show ?thesis by blast
  next
    fix received handoff u1 v
    assume parts: "h = Some received" "f = None"
      and u: "account_handoff fz (at_result a) (at_brief a) (at_mode a) (js_string (at_handoffPath a)) received w = (Inr handoff, u1)"
      and v: "judge_handoff fz (at_result a) (at_brief a) handoff u1 = (Inr None, v)" and finish: "completes fz a handoff v r w'"
    have "wk.keeps FENCE (account_handoff fz result brief mode hp h)" for result brief mode hp h by (intro wk_account steady_columns patches_spare)
    note there = known_kept[OF wk_judge v known_kept[OF this u assms(2)]]
    from finish obtain ws inspection agreed z where
        z: "settle_paths fz (at_result a) (at_brief a) (js_string (at_handoffPath a)) handoff v = (Inr (ws, inspection, agreed, None), z)"
        and c: "complete_task fz (at_resultRow a) (at_result a) (js_string (at_handoffPath a)) (at_mode a) (at_startedAt a) ws inspection agreed z = (Inr r, w')"
      by (auto simp: completes_def)
    from complete_task_settles(3)[OF c known_kept[OF wk_settle z there]]
      agreed_proven[OF assms(4)[unfolded obtained parts] u v z] show ?thesis by blast
  qed
qed

text \<open>C99: a task is settled only on proof. When the finalizer reports a settled status for a task that was not settled before,
  the result belongs to the current dispatch of that task, the process exited with zero and was not aborted, the behaviour
  gate, if there was one, passed, and the handoff is of this run, this task and this agent, passes the completion gate of the
  brief of the task, and declares only changed paths the task owns.\<close>

theorem settled_only_when_proven:
  assumes "finalizeExecutionResult fz resultRow w = (Inr r, w')" and "status_in (get r ''status'') SETTLED_STATUSES"
    and "get r ''replayed'' \<noteq> JBool True"
  shows "\<exists>a handoff. attempt_of fz resultRow w a \<and> get r ''handoff'' = JObj handoff \<and> handoff_proven fz a handoff"
proof -
  from finalize_cases[OF assms(1)] show ?thesis
  proof (elim disjE exE conjE)
    fix taskRow result assume "liftDb (stale_outcome fz resultRow taskRow result) w = (Inr r, w')"
    from stale_parts(4)[OF this refl] assms(2) settled_not_failed(2) show ?thesis by simp
  next
    fix taskRow u assume "task_of (w_db w) (js_string (task_id fz)) = Some taskRow" and u: "world_kept STATUS w u"
      and replay: "liftDb (replay_outcome fz resultRow taskRow) u = (Inr r, w')"
    then show ?thesis using status_kept replay_settles(2)[OF replay] assms(3) by (metis world_kept_def)
  next
    fix a u assume a: "attempt_of fz resultRow w a" and u: "world_kept FENCE w u" and p: "process_attempt fz a u = (Inr r, w')"
    obtain obtained u' v where v: "obtain_handoff fz (at_result a) (at_brief a) (at_handoffPath a) u' = (Inr obtained, v)"
        "world_kept FENCE u v" "conclude fz a obtained v = (Inr r, w')" using process_parts[OF p] by blast
    have "known fz w" using a by (simp add: attempt_of_def reads_result_def known_def)
    from conclude_proven[OF v(3) known_world[OF v(2) known_world[OF u this]] assms(2) v(1)] a show ?thesis by blast
  qed
qed

text \<open>C99: the result of a superseded attempt changes nothing. When the attempt, the dispatch generation or the fencing token of
  a result is not the one of the row of its task, no column of any task changes and no file does, whether the call
  returns or throws; when it returns, the result is reported as stale and is consumed.\<close>

theorem stale_result_changes_nothing:
  assumes "reads_result fz resultRow w taskRow result" and "staleExecutionResult taskRow result"
    and "finalizeExecutionResult fz resultRow w = (x, w')"
  shows "cols_kept K (w_db w) (w_db w') \<and> w_files w' = w_files w
    \<and> (\<forall>r. x = Inr r \<longrightarrow> get r ''status'' = JStr ''stale'' \<and> \<not> pending_result resultRow (w_db w'))"
proof -
  have run: "liftDb (stale_outcome fz resultRow taskRow result) w = (x, w')" using assms finalize_run[OF assms(1)] by simp
  from stale_parts[OF run] show ?thesis by blast
qed

subsection \<open>Which tasks move\<close>

text \<open>The status, the attempt and the limit of attempts of a task.\<close>

definition watched :: "db \<Rightarrow> string \<Rightarrow> (jsval \<times> jsval \<times> jsval) option" where
  "watched s k = map_option (\<lambda>r. (get r ''status'', get r ''attempt'', get r ''max_attempts'')) (task_of s k)"

definition attempts_left :: "jsval \<Rightarrow> jsval \<Rightarrow> bool" where
  "attempts_left attempt maxAttempts \<longleftrightarrow> \<not> (0 < num_or 0 maxAttempts \<and> num_or 0 maxAttempts \<le> num_or 0 attempt)"

fun reopened :: "(jsval \<times> jsval \<times> jsval) option \<Rightarrow> (jsval \<times> jsval \<times> jsval) option \<Rightarrow> bool" where
  "reopened (Some (status, attempt, maxAttempts)) after \<longleftrightarrow> status_in status SUCCESS_TASK_STATUSES \<and> attempts_left attempt maxAttempts
     \<and> after = Some (JStr ''retrying'', attempt, maxAttempts)"
| "reopened None after \<longleftrightarrow> False"

text \<open>Apart from the task \<open>own\<close>, a task is as it was, or it is one of \<open>ts\<close>, was settled with an attempt left, and is to be retried.\<close>

definition moved :: "string \<Rightarrow> string set \<Rightarrow> db \<Rightarrow> db \<Rightarrow> bool" where
  "moved own ts s t \<longleftrightarrow> (\<forall>k. k \<noteq> own \<longrightarrow> watched t k = watched s k \<or> (k \<in> ts \<and> reopened (watched s k) (watched t k)))"

lemma retrying_not_settled: "''retrying'' \<notin> set SUCCESS_TASK_STATUSES"
  by (simp add: SUCCESS_TASK_STATUSES_def)

lemma reopened_once: "reopened a b \<Longrightarrow> \<not> reopened b c"
  by (cases "(a, b)" rule: reopened.cases) (auto simp: retrying_not_settled)

interpretation mv: step_preorder "moved own ts" for own ts
proof unfold_locales
  fix s t u assume "moved own ts s t" "moved own ts t u"
  then show "moved own ts s u" unfolding moved_def by (metis reopened_once)
qed (simp add: moved_def)

definition WATCH :: "string list" where
  "WATCH = [''task_id'', ''status'', ''attempt'', ''max_attempts'']"

lemma watched_kept: "cols_kept WATCH s t \<Longrightarrow> watched t k = watched s k"
  using task_kept[of WATCH s t "''status''" k] task_kept[of WATCH s t "''attempt''" k] task_kept[of WATCH s t "''max_attempts''" k]
  by (cases "task_of s k"; cases "task_of t k") (simp_all add: WATCH_def watched_def)

lemma mv_keep: "ck.keeps WATCH m \<Longrightarrow> mv.keeps own ts m"
  by (auto simp: mv.keeps_def ck.keeps_def moved_def dest: watched_kept)

lemma steady_watch: "steady WATCH" "spares WATCH (usage_patch reuse h)"
  by (simp_all add: steady_def WATCH_def spares_def has_own_def usage_patch_def Let_def)

lemma mv_patch: "mv.keeps (js_string (task_id fz)) ts (patch_task fz patch)"
proof (rule mv.keepsI)
  fix s
  let ?k = "js_string (task_id fz)"
  obtain x t where u: "pg_updateTask ?k patch JUndef s = (x, t)" by (cases "pg_updateTask ?k patch JUndef s")
  then have "snd (patch_task fz patch s) = t" by (simp add: patch_task_def seqM_def bindM_def split: sum.split)
  moreover have "i \<noteq> ?k \<Longrightarrow> task_of t i = task_of s i" for i
    using u updated_task[OF u, of i] by (cases "patch_entries TASK_PATCH_COLUMNS patch = []") (auto simp: pg_updateTask_def pg_getTask_run option.map_ident)
  ultimately show "moved ?k ts s (snd (patch_task fz patch s))" by (simp add: moved_def watched_def)
qed

lemma mv_reopen:
  assumes "js_string taskId \<in> ts"
  shows "mv.keeps own ts (reopen_dependency fz handoff a taskId)"
proof (rule mv.keepsI)
  fix s
  let ?k = "js_string taskId" let ?p = "reopened_patch handoff"
  have shape: "distinct (map fst ?p)" "get ?p ''status'' = JStr ''retrying''" "\<not> has_own ?p ''attempt''" "\<not> has_own ?p ''max_attempts''"
    by (simp_all add: reopened_patch_def has_own_def)
  show "moved own ts s (snd (reopen_dependency fz handoff a taskId s))"
  proof (cases "\<exists>row. task_of s ?k = Some row \<and> status_in (get row ''status'') SUCCESS_TASK_STATUSES \<and> attempts_left (get row ''attempt'') (get row ''max_attempts'')")
    case False
    have event: "mv.keeps own ts (seqM (pg_event e r i ty payload) (returnM z))" for e r i ty payload z by (intro mv_keep ck_steps)
    from False mv.keeps_snd[OF event] show ?thesis
      by (auto simp: reopen_dependency_def bindM_def pg_getTask_run Let_def attempts_left_def mv.step_refl split: option.split)
  next
    case True
    then obtain row where row: "task_of s ?k = Some row" "status_in (get row ''status'') SUCCESS_TASK_STATUSES"
      "attempts_left (get row ''attempt'') (get row ''max_attempts'')" by blast
    obtain x t where u: "pg_updateTask ?k ?p JUndef s = (x, t)" by (cases "pg_updateTask ?k ?p JUndef s")
    have x: "\<exists>y. x = Inr y" using u by (auto simp: pg_updateTask_def bindM_def pg_getTask_run sql_update_def split: if_splits)
    let ?f = "\<lambda>r. plus_one ''state_version'' (assign r (patch_entries TASK_PATCH_COLUMNS ?p))"
    have cols: "get (?f row) ''attempt'' = get row ''attempt''" "get (?f row) ''max_attempts'' = get row ''max_attempts''"
      using shape(3,4) by (simp_all add: get_patched_unset)
    note after = updated_task[OF u status_patched(1)[OF shape(1,2)]]
    have "reopened (watched s ?k) (watched t ?k)"
      using after row cols status_patched(2)[OF shape(1,2)] by (simp add: watched_def)
    moreover have "k \<noteq> ?k \<Longrightarrow> watched t k = watched s k" for k using after by (simp add: watched_def option.map_ident)
    ultimately have "moved own ts s t" using assms unfolding moved_def by metis
    moreover have "moved own ts t (snd (reopen_dependency fz handoff a taskId s))"
    proof -
      have event: "mv.keeps own ts (seqM (pg_event e r i ty payload) (returnM z))" for e r i ty payload z by (intro mv_keep ck_steps)
      from row x u mv.keeps_snd[OF event] show ?thesis
        by (auto simp: reopen_dependency_def bindM_def[of "pg_getTask i" for i] pg_getTask_run Let_def attempts_left_def
            seqM_def[of "pg_updateTask i p v" for i p v] bindM_def[of "pg_updateTask i p v" for i p v])
    qed
    ultimately show ?thesis by (rule mv.step_trans)
  qed
qed

text \<open>The tasks the finalizer of a task may reopen: the implementation a quality assurance task depends on.\<close>

definition reopenable :: "finalizer \<Rightarrow> string set" where
  "reopenable fz = (if get (fz_task fz) ''stage'' = JStr ''quality-assurance'' then js_string ` set (repair_targets (fz_plan fz) (fz_task fz)) else {})"

lemma mv_collect: "(\<And>x. x \<in> set xs \<Longrightarrow> mv.keeps own ts (f x)) \<Longrightarrow> mv.keeps own ts (collectM f xs)"
  by (induction xs) (auto intro!: mv.keeps_intros)

lemma mv_reopen_all: "mv.keeps own (reopenable fz) (reopenImplementationDependenciesForQaRepair fz handoff n)"
  unfolding reopenImplementationDependenciesForQaRepair_def
  by (auto intro!: mv.keeps_bind mv.keeps_return mv_collect mv_reopen simp: reopenable_def)

lemma mv_qa: "mv.keeps own (reopenable fz) (qa_repair fz result canRetry failure handoff)"
proof -
  have "mv.keeps own ts (emit fz ty payload)" for ts ty payload by (intro mv_keep ck_steps)
  then show ?thesis unfolding qa_repair_def by (intro mv.keeps_intros mv.keeps_prod mv_reopen_all)
qed

lemma mv_failure: "mv.keeps (js_string (task_id fz)) (reopenable fz) (record_failure fz resultRow taskRow result startedAt failure handoff)"
proof -
  have host: "mv.keeps own ts (db_now e)" "mv.keeps own ts (db_now_plus e n)" "mv.keeps own ts (retry_decision fz taskRow result startedAt failure)"
    "mv.keeps own ts (pg_recordPolicyDecision e r i op d)" "mv.keeps own ts (emit fz ty payload)" "mv.keeps own ts (retry_events fz result failure a b d)"
    "mv.keeps own ts (consume fz resultRow)" "mv.keeps own ts (scheduleCleanup fz c)" "mv.keeps own ts (scheduleReconcile fz c)"
    for own ts e n r i op d ty payload a b c
    by (intro mv_keep ck_steps steady_watch)+
  show ?thesis unfolding record_failure_def store_failure_def Let_def by (intro mv.keeps_intros mv_qa mv_patch host)
qed

definition world_moved :: "string \<Rightarrow> string set \<Rightarrow> world \<Rightarrow> world \<Rightarrow> bool" where
  "world_moved own ts w w' \<longleftrightarrow> moved own ts (w_db w) (w_db w')"

interpretation wm: step_preorder "world_moved own ts" for own ts
  by unfold_locales (auto simp: world_moved_def intro: mv.step_refl mv.step_trans)

lemma wm_liftDb: "mv.keeps own ts m \<Longrightarrow> wm.keeps own ts (liftDb m)"
  by (auto simp: wm.keeps_def mv.keeps_def world_moved_def liftDb_def split: prod.splits) (metis snd_conv)

lemma wm_keep: "wk.keeps WATCH m \<Longrightarrow> wm.keeps own ts m"
  by (auto simp: wm.keeps_def wk.keeps_def world_moved_def world_kept_def moved_def dest: watched_kept)

lemma wm_parts:
  "wm.keeps own ts (integrate_result fz result ws inspection ps)" "wm.keeps own ts (fileFingerprint e p)"
  "wm.keeps own ts (liftDb (pg_addArtifact e r i k v p' sha acc))" "wm.keeps own ts (liftDb (db_now e))"
  "wm.keeps own ts (account_handoff fz result brief mode hp received)" "wm.keeps own ts (judge_handoff fz result brief handoff)"
  "wm.keeps own ts (settle_paths fz result brief hp' handoff)" "wm.keeps own ts (obtain_handoff fz result brief hp'')"
  "wm.keeps own ts (record_log fz result)" "wm.keeps own ts (liftDb (record_gate fz result))" "wm.keeps own ts (read_attempt fz resultRow taskRow result hp'')"
  "wm.keeps own ts (persistRepairResumeReceiptEvidence fz result hp'')" "wm.keeps own ts (loadExecutionResult resultRow)"
  "wm.keeps own ts (liftDb (stale_outcome fz resultRow taskRow result))" "wm.keeps own ts (liftDb (replay_outcome fz resultRow taskRow))"
  "wm.keeps own ts (liftDb (pg_getTask i'))"
  unfolding integrate_result_def stale_outcome_def replay_outcome_def
  by (intro wm_keep wk_steps wk_workspace wk_read_attempt steady_watch)+

lemma wm_complete: "wm.keeps (js_string (task_id fz)) ts (complete_task fz resultRow result hp mode startedAt ws inspection handoff)"
proof -
  have host: "mv.keeps own ts (checkpoint fz result ty f p)" "mv.keeps own ts (emit fz ty p)" "mv.keeps own ts (consume fz resultRow)"
    "mv.keeps own ts (scheduleCleanup fz c)" "mv.keeps own ts (scheduleReconcile fz c)" for own ts ty f p c
    by (intro mv_keep ck_steps steady_watch)+
  show ?thesis unfolding complete_task_def Let_def by (intro wm.keeps_intros wm_parts wm_liftDb mv.keeps_intros mv_patch host)
qed

lemma wm_conclude: "wm.keeps (js_string (task_id fz)) (reopenable fz) (conclude fz a obtained)"
proof -
  let ?own = "js_string (task_id fz)"
  have failing: "wm.keeps ?own (reopenable fz) (give_up fz a handoff failure)" for handoff failure
    unfolding give_up_def by (intro wm_liftDb mv_failure)
  have task: "wm.keeps ?own (reopenable fz) (finish_task fz a x)" for x
    unfolding finish_task_def by (cases x) (auto intro!: wm.keeps_more failing wm_complete split: option.split)
  have judged: "wm.keeps ?own (reopenable fz) (finish_judged fz a handoff verdict)" for handoff verdict
    unfolding finish_judged_def by (intro wm.keeps_intros failing wm_parts task)
  have received: "wm.keeps ?own (reopenable fz) (finish_received fz a failure handoff)" for failure handoff
    unfolding finish_received_def by (intro wm.keeps_intros failing wm_parts judged)
  show ?thesis unfolding conclude_def by (intro wm.keeps_more wm.keeps_intros failing wm_parts received)
qed

lemma wm_attempt: "wm.keeps (js_string (task_id fz)) (reopenable fz) (process_attempt fz a)"
proof -
  have host: "mv.keeps own ts (emit fz ty p)" "mv.keeps own ts (persistBufferedPerformanceEvents fz n evs)" for own ts ty p n evs
    by (intro mv_keep ck_steps)+
  show ?thesis unfolding process_attempt_def by (intro wm.keeps_intros wm_parts wm_liftDb mv.keeps_intros mv_patch host wm_conclude)
qed

text \<open>C99: the finalizer moves its own task and nothing else, with one exception. Whatever it does, also when it throws, the status,
  the attempt and the limit of attempts of every other task are as before, unless the task is an implementation dependency of
  a quality assurance task, was settled with an attempt left, and waits for a retry now.\<close>

theorem finalizer_moves_own_task:
  "moved (js_string (task_id fz)) (reopenable fz) (w_db w) (w_db (snd (finalizeExecutionResult fz resultRow w)))"
proof -
  have "wm.keeps (js_string (task_id fz)) (reopenable fz) (finalizeExecutionResult fz resultRow)"
    unfolding finalizeExecutionResult_def Let_def by (intro wm.keeps_intros wm_parts wm_attempt)
  from wm.keeps_snd[OF this, of w] show ?thesis by (simp add: world_moved_def)
qed

end
