(* ===== verification/Spec2Isabelle.thy ===== *)
theory Spec2Isabelle
  imports MemStoreProps PgMessages PolicyProps ControlPlaneProps RuntimeDriver BootstrapProps DagCompilerProps ReviewContract WorkspaceProps ProductDiscovery FinalizerProps
begin

text \<open>
  Verification of the agent runtime of the agentic harness.
\<close>

end
